(* ===== verification/Sang_Prelude.thy ===== *)
theory Sang_Prelude
  imports Main "HOL-Library.Word" "HOL-Library.Char_ord" "HOL-Library.List_Lexorder"
    "HOL-Library.Sublist" "HOL-Library.AList"
begin

text \<open>
  Shared ground of the development: Go's byte strings and the operations of the standard
  package \<open>strings\<close> that the sources call, 64-bit integers, Go maps with string keys, and the
  lemmas on prefixes, ordered lists and association lists that every component uses.

  A Go string is a list of bytes (\<^typ>\<open>char\<close> is a byte), compared bytewise, which is the order
  of \<open>HOL-Library.List_Lexorder\<close> over \<open>HOL-Library.Char_ord\<close>.
\<close>

named_theorems go_strings \<open>unfolding rules of the modelled functions of package strings\<close>
named_theorems store_laws \<open>facts on a metadata store used as rewrite rules\<close>

type_synonym bytes = "char list"
type_synonym int64 = "64 word"

text \<open>Points in time are nanoseconds since the epoch; \<open>day_ns\<close> is one UTC day.\<close>

type_synonym time = int

definition second_ns :: int where
  "second_ns = 1000000000"

definition day_ns :: int where
  "day_ns = 86400 * second_ns"

section \<open>Strings\<close>

abbreviation NUL :: char where
  "NUL \<equiv> CHR 0x00"

text \<open>\<open>nulfree s\<close>: the byte 0, which separates the parts of a database key, is not in \<open>s\<close>.\<close>

definition nulfree :: "string \<Rightarrow> bool" where
  "nulfree s \<longleftrightarrow> NUL \<notin> set s"

abbreviation HasPrefix :: "string \<Rightarrow> string \<Rightarrow> bool" where
  "HasPrefix s p \<equiv> prefix p s"

abbreviation HasSuffix :: "string \<Rightarrow> string \<Rightarrow> bool" where
  "HasSuffix s p \<equiv> suffix p s"

definition TrimPrefix :: "string \<Rightarrow> string \<Rightarrow> string" where
  "TrimPrefix s p = (if prefix p s then drop (length p) s else s)"

definition TrimSuffix :: "string \<Rightarrow> string \<Rightarrow> string" where
  "TrimSuffix s p = (if suffix p s then take (length s - length p) s else s)"

text \<open>\<open>strings.Index\<close>: the first position at which \<open>sub\<close> occurs, \<open>None\<close> for Go's -1.\<close>

fun Index :: "string \<Rightarrow> string \<Rightarrow> nat option" where
  "Index [] sub = (if sub = [] then Some 0 else None)"
| "Index (c # s) sub = (if prefix sub (c # s) then Some 0 else map_option Suc (Index s sub))"

definition Contains :: "string \<Rightarrow> string \<Rightarrow> bool" where
  "Contains s sub \<longleftrightarrow> Index s sub \<noteq> None"

text \<open>\<open>strings.ContainsAny\<close>.\<close>

definition ContainsAny :: "string \<Rightarrow> string \<Rightarrow> bool" where
  "ContainsAny s cs \<longleftrightarrow> list_ex (\<lambda>c. c \<in> set cs) s"

text \<open>\<open>strings.Split\<close> at a one-byte separator; never empty.\<close>

fun Split :: "char \<Rightarrow> string \<Rightarrow> string list" where
  "Split d [] = [[]]"
| "Split d (c # s) =
     (if c = d then [] # Split d s
      else (case Split d s of [] \<Rightarrow> [[c]] | p # ps \<Rightarrow> (c # p) # ps))"

text \<open>\<open>strings.SplitN\<close> at a one-byte separator, with at most \<open>n\<close> parts (\<open>n > 0\<close>).\<close>

fun SplitN :: "char \<Rightarrow> nat \<Rightarrow> string \<Rightarrow> string list" where
  "SplitN d n [] = [[]]"
| "SplitN d n (c # s) =
     (if n \<le> 1 then [c # s]
      else if c = d then [] # SplitN d (n - 1) s
      else (case SplitN d n s of [] \<Rightarrow> [[c]] | p # ps \<Rightarrow> (c # p) # ps))"

text \<open>\<open>strings.Join\<close>.\<close>

fun Join :: "string list \<Rightarrow> string \<Rightarrow> string" where
  "Join [] sep = []"
| "Join [p] sep = p"
| "Join (p # q # ps) sep = p @ sep @ Join (q # ps) sep"

text \<open>\<open>strings.TrimRight\<close>, \<open>strings.Trim\<close> with a cutset.\<close>

definition TrimLeft :: "string \<Rightarrow> string \<Rightarrow> string" where
  "TrimLeft s cs = dropWhile (\<lambda>c. c \<in> set cs) s"

definition TrimRight :: "string \<Rightarrow> string \<Rightarrow> string" where
  "TrimRight s cs = rev (dropWhile (\<lambda>c. c \<in> set cs) (rev s))"

definition Trim :: "string \<Rightarrow> string \<Rightarrow> string" where
  "Trim s cs = TrimRight (TrimLeft s cs) cs"

text \<open>\<open>strings.TrimSpace\<close> on ASCII white space.\<close>

definition TrimSpace :: "string \<Rightarrow> string" where
  "TrimSpace s = Trim s [CHR '' '', CHR 0x09, CHR 0x0A, CHR 0x0B, CHR 0x0C, CHR 0x0D]"

text \<open>Case folding of one ASCII byte, and \<open>strings.ToLower\<close> on ASCII.\<close>

definition lower_char :: "char \<Rightarrow> char" where
  "lower_char c =
     (let n = of_char c :: nat in if 65 \<le> n \<and> n \<le> 90 then char_of (n + 32) else c)"

definition ToLower :: "string \<Rightarrow> string" where
  "ToLower s = map lower_char s"

text \<open>
  \<open>strings.LastIndex\<close> of a one-byte separator followed by the slice after it; \<open>None\<close> when the
  byte does not occur.
\<close>

definition after_last :: "char \<Rightarrow> string \<Rightarrow> string option" where
  "after_last d s = (if d \<in> set s then Some (rev (takeWhile (\<lambda>c. c \<noteq> d) (rev s))) else None)"

lemma TrimPrefix_append [simp]: "TrimPrefix (p @ s) p = s"
  by (simp add: TrimPrefix_def)

lemma TrimPrefix_not_prefix: "\<not> prefix p s \<Longrightarrow> TrimPrefix s p = s"
  by (simp add: TrimPrefix_def)

lemma TrimSuffix_append [simp]: "TrimSuffix (s @ p) p = s"
  by (simp add: TrimSuffix_def suffix_def)

lemma nulfree_append [simp]: "nulfree (s @ t) \<longleftrightarrow> nulfree s \<and> nulfree t"
  by (auto simp: nulfree_def)

lemma nulfree_Nil [simp]: "nulfree []"
  by (simp add: nulfree_def)

lemma nulfree_Cons [simp]: "nulfree (c # s) \<longleftrightarrow> c \<noteq> NUL \<and> nulfree s"
  by (auto simp: nulfree_def)

lemma sep_unique:
  assumes "a @ d # x = b @ d # y" and "d \<notin> set a" and "d \<notin> set b"
  shows "a = b \<and> x = y"
  using assms
proof (induction a arbitrary: b)
  case Nil
  then show ?case by (cases b) auto
next
  case (Cons c a)
  then show ?case by (cases b) auto
qed

text \<open>A key made of a part without the separator, the separator and a rest splits one way.\<close>

lemma nul_key_inject:
  assumes "nulfree a" and "nulfree b"
  shows "a @ NUL # x = b @ NUL # y \<longleftrightarrow> a = b \<and> x = y"
  using assms sep_unique [of a NUL x b y] by (auto simp: nulfree_def)

lemma nul_key_prefix:
  assumes "nulfree a" and "nulfree b"
  shows "prefix (a @ NUL # p) (b @ NUL # x) \<longleftrightarrow> a = b \<and> prefix p x"
proof
  assume "prefix (a @ NUL # p) (b @ NUL # x)"
  then obtain z where "b @ NUL # x = a @ NUL # (p @ z)"
    by (auto simp: prefix_def)
  then have "b = a \<and> x = p @ z"
    using nul_key_inject [OF assms(2,1)] by blast
  then show "a = b \<and> prefix p x" by auto
next
  assume "a = b \<and> prefix p x"
  then show "prefix (a @ NUL # p) (b @ NUL # x)"
    by (auto simp: prefix_def)
qed

subsection \<open>Searching and splitting\<close>

lemma Index_Some_iff_split:
  "Index s sub = Some i \<Longrightarrow> \<exists>t. s = take i s @ sub @ t \<and> i \<le> length s"
proof (induction s sub arbitrary: i rule: Index.induct)
  case (1 sub)
  then show ?case by (auto split: if_splits)
next
  case (2 c s sub)
  show ?case
  proof (cases "prefix sub (c # s)")
    case True
    with 2 show ?thesis by (auto simp: prefix_def)
  next
    case False
    with 2(2) obtain j where j: "Index s sub = Some j" "i = Suc j" by auto
    with 2(1) False obtain t where "s = take j s @ sub @ t" "j \<le> length s" by blast
    with j show ?thesis by auto
  qed
qed

lemma Split_not_Nil [simp]: "Split d s \<noteq> []"
  by (induction s) (auto split: list.splits)

lemma Join_Cons: "ps \<noteq> [] \<Longrightarrow> Join (p # ps) sep = p @ sep @ Join ps sep"
  by (cases ps) auto

lemma Join_Split [simp]: "Join (Split d s) [d] = s"
proof (induction s)
  case Nil
  then show ?case by simp
next
  case (Cons c s)
  obtain p ps where s: "Split d s = p # ps"
    by (cases "Split d s") auto
  show ?case
  proof (cases "c = d")
    case True
    with Cons show ?thesis by (simp add: Join_Cons)
  next
    case False
    with Cons s show ?thesis by (cases ps) auto
  qed
qed

lemma Split_parts: "p \<in> set (Split d s) \<Longrightarrow> d \<notin> set p"
proof (induction s arbitrary: p)
  case Nil
  then show ?case by simp
next
  case (Cons c s)
  obtain q qs where s: "Split d s = q # qs"
    by (cases "Split d s") auto
  with Cons show ?case by (auto split: if_splits)
qed

lemma Split_subset: "p \<in> set (Split d s) \<Longrightarrow> set p \<subseteq> set s"
proof (induction s arbitrary: p)
  case (Cons c s)
  obtain q qs where "Split d s = q # qs" by (cases "Split d s") auto
  with Cons.prems Cons.IH [of q] Cons.IH [of p] show ?case by (auto split: if_splits)
qed simp

lemma Split_no_sep: "d \<notin> set s \<Longrightarrow> Split d s = [s]"
  by (induction s) auto

lemma Split_append_sep: "d \<notin> set s \<Longrightarrow> Split d (s @ d # t) = s # Split d t"
  by (induction s) auto

lemma Split_Join:
  "ps \<noteq> [] \<Longrightarrow> \<forall>p \<in> set ps. d \<notin> set p \<Longrightarrow> Split d (Join ps [d]) = ps"
proof (induction ps rule: induct_list012)
  case (3 p q ps)
  then show ?case by (simp add: Split_append_sep)
qed (auto simp: Split_no_sep)

subsection \<open>Order\<close>

lemma prefix_imp_le: "prefix p s \<Longrightarrow> p \<le> (s :: string)"
proof (induction p arbitrary: s)
  case Nil
  then show ?case by simp
next
  case (Cons c p)
  then show ?case by (cases s) auto
qed

text \<open>
  The strings with a given prefix are an interval of the byte order: what lies between the
  prefix and a string that has it, has it too.
\<close>

lemma prefix_convex: "p \<le> x \<Longrightarrow> x \<le> y \<Longrightarrow> prefix p y \<Longrightarrow> prefix p (x :: string)"
proof (induction p arbitrary: x y)
  case Nil
  then show ?case by simp
next
  case (Cons c p)
  then obtain y' where y: "y = c # y'" "prefix p y'" by (cases y) auto
  from Cons.prems(1) obtain a x' where x: "x = a # x'" by (cases x) auto
  from Cons.prems(1,2) x y have "a = c" "p \<le> x'" "x' \<le> y'" by auto
  with Cons.IH y x show ?case by auto
qed

lemma takeWhile_prefix_eq_filter:
  assumes "sorted (map fst kvs)" and "\<forall>(k, v) \<in> set kvs. p \<le> k"
  shows "takeWhile (\<lambda>(k, v). prefix p k) kvs = filter (\<lambda>(k, v). prefix p (k :: string)) kvs"
  using assms
proof (induction kvs)
  case Nil
  then show ?case by simp
next
  case (Cons kv kvs)
  obtain k v where kv: "kv = (k, v)" by force
  show ?case
  proof (cases "prefix p k")
    case True
    with Cons kv show ?thesis by simp
  next
    case False
    with Cons.prems kv have "\<forall>(k', v') \<in> set kvs. \<not> prefix p k'"
      using prefix_convex [of p k] by force
    then have "filter (\<lambda>(k, v). prefix p k) kvs = []"
      by (auto simp: filter_empty_conv)
    with False kv show ?thesis by simp
  qed
qed

lemma sorted_map_fst_filter: "sorted (map fst kvs) \<Longrightarrow> sorted (map fst (filter P kvs))"
  by (induction kvs) auto

section \<open>64-bit integers\<close>

text \<open>Go's \<open>int64\<close> compares as a signed number and wraps around.\<close>

definition int64_max :: int where
  "int64_max = 2 ^ 63 - 1"

lemma sint_int64_range: "- (2 ^ 63) \<le> sint (a :: int64)" "sint (a :: int64) < 2 ^ 63"
  using sint_greater_eq [of a] sint_less [of a] by simp_all

lemma sint_int64_add:
  assumes "- (2 ^ 63) \<le> sint a + sint b" and "sint a + sint b < 2 ^ 63"
  shows "sint (a + b :: int64) = sint a + sint b"
  using assms by (simp add: sint_word_ariths signed_take_bit_int_eq_self)

lemma sint_int64_of_nat:
  assumes "n < 2 ^ 63"
  shows "sint (of_nat n :: int64) = int n"
proof -
  have "int n < 2 ^ 63" using assms by (metis of_nat_less_numeral_power_cancel_iff)
  then have "signed_take_bit 63 (int n) = int n" by (intro signed_take_bit_int_eq_self) auto
  moreover have "sint (of_nat n :: int64) = signed_take_bit 63 (int n)" by (simp add: signed_of_nat)
  ultimately show ?thesis by simp
qed

section \<open>Maps with string keys\<close>

text \<open>
  A \<open>map[string]string\<close> is an association list: \<open>map_of\<close> reads it, \<open>AList.update\<close> writes it,
  the empty list is both the nil and the empty map, and the order of the list is the order a
  \<open>range\<close> loop happens to take, which Go leaves open.
\<close>

type_synonym smap = "(string \<times> string) list"

text \<open>Reading an absent key gives the zero value, the empty string.\<close>

definition smap_get :: "smap \<Rightarrow> string \<Rightarrow> string" where
  "smap_get m k = (case map_of m k of None \<Rightarrow> [] | Some v \<Rightarrow> v)"

lemma map_of_AList_update [simp]: "map_of (AList.update k v m) = (map_of m)(k \<mapsto> v)"
  by (rule update_conv')

section \<open>Decimal numbers\<close>

definition digit :: "nat \<Rightarrow> char" where
  "digit d = char_of (48 + d)"

text \<open>The decimal digits of a number, and \<open>strconv.Itoa\<close> (\<open>fmt\<close>'s \<open>%d\<close>).\<close>

fun dec :: "nat \<Rightarrow> string" where
  "dec n = (if n < 10 then [digit n] else dec (n div 10) @ [digit (n mod 10)])"

declare dec.simps [simp del]

definition Itoa :: "int \<Rightarrow> string" where
  "Itoa n = (if n < 0 then CHR ''-'' # dec (nat (- n)) else dec (nat n))"

definition pad :: "nat \<Rightarrow> string \<Rightarrow> string" where
  "pad w s = replicate (w - length s) (CHR ''0'') @ s"

text \<open>\<open>fmt\<close>'s \<open>%05d\<close>: five characters, the sign among them.\<close>

definition fmt_05d :: "int \<Rightarrow> string" where
  "fmt_05d n = (if n < 0 then CHR ''-'' # pad 4 (dec (nat (- n))) else pad 5 (dec (nat n)))"

text \<open>The last \<open>w\<close> decimal digits of a number.\<close>

fun digs :: "nat \<Rightarrow> nat \<Rightarrow> string" where
  "digs 0 n = []"
| "digs (Suc w) n = digs w (n div 10) @ [digit (n mod 10)]"

lemma of_char_digit: "d < 10 \<Longrightarrow> of_char (digit d) = 48 + d"
  by (simp add: digit_def)

lemma dec_digits: "c \<in> set (dec n) \<Longrightarrow> \<exists>d < 10. c = digit d"
proof (induction n rule: dec.induct)
  case (1 n)
  show ?case
  proof (cases "n < 10")
    case True
    with 1 show ?thesis by (auto simp: dec.simps [of n])
  next
    case False
    with 1(2) have "c \<in> set (dec (n div 10)) \<or> c = digit (n mod 10)" by (auto simp: dec.simps [of n])
    moreover have "n mod 10 < 10" by simp
    ultimately show ?thesis using 1(1) [OF False] by blast
  qed
qed

lemma digit_range: "d < 10 \<Longrightarrow> digit d \<noteq> c \<or> (48 \<le> (of_char c :: nat) \<and> of_char c < (58 :: nat))"
  using of_char_digit [of d] by auto

lemma dec_nulfree [simp]: "nulfree (dec n)"
proof -
  have "NUL \<noteq> digit d" if "d < 10" for d using digit_range [OF that, of NUL] by auto
  then show ?thesis unfolding nulfree_def using dec_digits by blast
qed

lemma digit_less: "a < 10 \<Longrightarrow> b < 10 \<Longrightarrow> digit a < digit b \<longleftrightarrow> a < b"
  by (simp add: digit_def less_char_def)

lemma digit_inject: "a < 10 \<Longrightarrow> b < 10 \<Longrightarrow> digit a = digit b \<longleftrightarrow> a = b"
  using digit_less [of a b] digit_less [of b a] by (metis less_irrefl nat_neq_iff)

lemma digs_length [simp]: "length (digs w n) = w"
  by (induction w arbitrary: n) auto

lemma list_less_append: "length a = length b \<Longrightarrow> (a :: string) < b \<Longrightarrow> a @ x < b @ y"
  by (induction a b rule: list_induct2) auto

lemma list_less_append_same: "(a :: string) @ x < a @ y \<longleftrightarrow> x < y"
  by (induction a) auto

lemma digs_less: "n < m \<Longrightarrow> m < 10 ^ w \<Longrightarrow> digs w n < digs w m"
proof (induction w arbitrary: n m)
  case 0
  then show ?case by simp
next
  case (Suc w)
  have m: "m div 10 < 10 ^ w" using Suc.prems(2) by (simp add: less_mult_imp_div_less mult.commute)
  show ?case
  proof (cases "n div 10 = m div 10")
    case True
    then have "n mod 10 < m mod 10"
      using Suc.prems(1) by (metis div_mod_decomp nat_add_left_cancel_less)
    with True show ?thesis by (simp add: list_less_append_same digit_less)
  next
    case False
    then have "n div 10 < m div 10" using Suc.prems(1) by (simp add: div_le_mono le_neq_implies_less)
    then show ?thesis using Suc.IH [OF _ m] by (simp add: list_less_append)
  qed
qed

lemma digs_0: "digs w 0 = replicate w (CHR ''0'')"
proof (induction w)
  case (Suc w)
  have "digit 0 = CHR ''0''" using char_of_char [where 'a = nat, of "CHR ''0''"] by (simp add: digit_def)
  with Suc show ?case by (simp add: replicate_append_same)
qed simp

lemma pad_dec: "n < 10 ^ Suc w \<Longrightarrow> length (dec n) \<le> Suc w \<and> pad (Suc w) (dec n) = digs (Suc w) n"
proof (induction w arbitrary: n)
  case 0
  then show ?case by (simp add: dec.simps [of n] pad_def)
next
  case (Suc w)
  show ?case
  proof (cases "n < 10")
    case True
    then show ?thesis by (simp add: dec.simps [of n] pad_def digs_0 replicate_append_same)
  next
    case False
    have "n div 10 < 10 ^ Suc w" using Suc.prems by (simp add: less_mult_imp_div_less mult.commute)
    note IH = Suc.IH [OF this]
    from False have "dec n = dec (n div 10) @ [digit (n mod 10)]" by (simp add: dec.simps [of n])
    moreover from this IH have "pad (Suc (Suc w)) (dec n) = pad (Suc w) (dec (n div 10)) @ [digit (n mod 10)]"
      by (simp add: pad_def)
    ultimately show ?thesis using IH by simp
  qed
qed

lemma fmt_05d_digs: "0 \<le> n \<Longrightarrow> n < 100000 \<Longrightarrow> fmt_05d n = digs 5 (nat n)"
  using pad_dec [of "nat n" 4] by (simp add: fmt_05d_def)

lemma fmt_05d_less:
  assumes "0 \<le> a" "a < 100000" "0 \<le> b" "b < 100000"
  shows "fmt_05d a < fmt_05d b \<longleftrightarrow> a < b"
proof -
  have *: "x < y \<Longrightarrow> 0 \<le> x \<Longrightarrow> y < 100000 \<Longrightarrow> digs 5 (nat x) < digs 5 (nat y)" for x y :: int
    by (rule digs_less) auto
  show ?thesis
  proof (cases a b rule: linorder_cases)
    case less
    with assms * [of a b] show ?thesis by (simp add: fmt_05d_digs)
  next
    case equal
    then show ?thesis by simp
  next
    case greater
    with assms * [of b a] have "fmt_05d b < fmt_05d a" by (simp add: fmt_05d_digs)
    with greater show ?thesis by (meson less_asym)
  qed
qed

lemma fmt_05d_inject:
  "0 \<le> a \<Longrightarrow> a < 100000 \<Longrightarrow> 0 \<le> b \<Longrightarrow> b < 100000 \<Longrightarrow> fmt_05d a = fmt_05d b \<longleftrightarrow> a = b"
  using fmt_05d_less [of a b] fmt_05d_less [of b a] by (metis less_irrefl linorder_neqE)

lemma fmt_05d_length: "0 \<le> n \<Longrightarrow> n < 100000 \<Longrightarrow> length (fmt_05d n) = 5"
  by (simp add: fmt_05d_digs)

section \<open>Hexadecimal\<close>

text \<open>\<open>hex.EncodeToString\<close>.\<close>

definition hex_digit :: "nat \<Rightarrow> char" where
  "hex_digit d = (if d < 10 then char_of (48 + d) else char_of (87 + d))"

definition hex_encode :: "bytes \<Rightarrow> string" where
  "hex_encode bs = concat (map (\<lambda>b. let n = of_char b in [hex_digit (n div 16), hex_digit (n mod 16)]) bs)"

definition hex_value :: "char \<Rightarrow> nat option" where
  "hex_value c =
     (let n = of_char c in
      if 48 \<le> n \<and> n \<le> 57 then Some (n - 48)
      else if 97 \<le> n \<and> n \<le> 102 then Some (n - 87)
      else if 65 \<le> n \<and> n \<le> 70 then Some (n - 55) else None)"

text \<open>The bytes \<open>hex.DecodeString\<close> returns: those before the first malformed pair.\<close>

fun hex_decode :: "string \<Rightarrow> bytes" where
  "hex_decode (a # b # s) =
     (case (hex_value a, hex_value b) of
        (Some x, Some y) \<Rightarrow> char_of (16 * x + y) # hex_decode s
      | _ \<Rightarrow> [])"
| "hex_decode _ = []"

lemma hex_value_digit: "d < 16 \<Longrightarrow> hex_value (hex_digit d) = Some d"
  by (simp add: hex_value_def hex_digit_def)

lemma hex_decode_encode [simp]: "hex_decode (hex_encode bs) = bs"
proof (induction bs)
  case Nil
  then show ?case by (simp add: hex_encode_def)
next
  case (Cons b bs)
  have "(of_char b :: nat) < 16 * 16" by simp
  then have "(of_char b :: nat) div 16 < 16" by (rule less_mult_imp_div_less)
  moreover have "char_of (16 * (of_char b div 16) + of_char b mod 16 :: nat) = b"
    by (simp only: mult_div_mod_eq char_of_char)
  ultimately show ?case using Cons by (simp add: hex_encode_def Let_def hex_value_digit)
qed

end
