(* ===== verification/Go_Errors.thy ===== *)
theory Go_Errors
  imports Sang_Prelude
begin

text \<open>
  The errors of the program. Go's \<open>error\<close> is an interface; a function inspects the dynamic type
  of the value it was handed (\<open>isNotFound\<close>, \<open>isBackendNotFound\<close>, the type switch of the HTTP
  layer). The datatype has one constructor for every error type of the sources, \<open>OsError\<close> for a failed
  system call, \<open>Errorf\<close> for an opaque formatted message and \<open>Wrap\<close> for \<open>fmt.Errorf ("...: %w", err)\<close>. A type assertion sees the
  outermost constructor only: a wrapped \<open>MetaNotFound\<close> is not a \<open>MetaNotFound\<close>.
\<close>

datatype errno = ENOENT | ENOTDIR | EISDIR | ENOTEMPTY | EEXIST | EINVAL

datatype fmt_arg = FStr string | FInt int

datatype err =
    MetaNotFound (mnf_kind: string) (mnf_name: string)
  | BackendNotFound (bnf_bucket: string) (bnf_key: string)
  | BucketNotFoundError string
  | BucketAlreadyExistsError string
  | BucketNotEmptyError string
  | ObjectNotFoundError string string
  | MultipartNotFoundError string
  | QuotaExceededError (qe_bucket: string) (qe_limit: int64) (qe_current: int64)
      (qe_incoming: int64) (qe_kind: string)
  | OsError errno
  | Errorf string "fmt_arg list"
  | Wrap string err

text \<open>\<open>isNotFound\<close> of bucket.go and \<open>isBackendNotFound\<close> of object.go.\<close>

fun isNotFound :: "err \<Rightarrow> bool" where
  "isNotFound (MetaNotFound _ _) = True"
| "isNotFound _ = False"

fun isBackendNotFound :: "err \<Rightarrow> bool" where
  "isBackendNotFound (BackendNotFound _ _) = True"
| "isBackendNotFound _ = False"

text \<open>
  A fallible function returns \<open>err + 'a\<close>: \<open>Inl\<close> is a non-nil error. A stateful one returns the
  state beside it. \<open>err_of\<close> is the error a call with no other result returned.
\<close>

type_synonym 'a result = "err + 'a"
type_synonym ('s, 'a) op = "'s \<Rightarrow> 'a result \<times> 's"

fun err_of :: "'a result \<Rightarrow> err option" where
  "err_of (Inl e) = Some e"
| "err_of (Inr _) = None"

definition is_ok :: "'a result \<Rightarrow> bool" where
  "is_ok r \<longleftrightarrow> err_of r = None"

lemma is_ok_simps [simp]: "\<not> is_ok (Inl e)" "is_ok (Inr x)"
  by (simp_all add: is_ok_def)

lemma is_okE: "is_ok r \<Longrightarrow> (\<And>x. r = Inr x \<Longrightarrow> P) \<Longrightarrow> P"
  by (cases r) auto

lemma isNotFound_iff: "isNotFound e \<longleftrightarrow> (\<exists>k n. e = MetaNotFound k n)"
  by (cases e) auto

lemma isBackendNotFound_iff: "isBackendNotFound e \<longleftrightarrow> (\<exists>b k. e = BackendNotFound b k)"
  by (cases e) auto

text \<open>
  An \<open>io.Reader\<close> that is consumed to its end delivers bytes and stops with the end of the file
  (\<open>rd_err = None\<close>) or with an error.
\<close>

record reader =
  rd_data :: bytes
  rd_err :: "err option"

definition reader_of :: "bytes \<Rightarrow> reader" where
  "reader_of bs = \<lparr>rd_data = bs, rd_err = None\<rparr>"

lemma reader_of_simps [simp]: "rd_data (reader_of bs) = bs" "rd_err (reader_of bs) = None"
  by (simp_all add: reader_of_def)

text \<open>
  \<open>io.MultiReader\<close>: one reader after the other; the first error ends the stream.
\<close>

fun MultiReader :: "reader list \<Rightarrow> reader" where
  "MultiReader [] = reader_of []"
| "MultiReader (r # rs) =
     (case rd_err r of
        Some e \<Rightarrow> r
      | None \<Rightarrow> (let t = MultiReader rs in \<lparr>rd_data = rd_data r @ rd_data t, rd_err = rd_err t\<rparr>))"

lemma MultiReader_ok:
  "\<forall>r \<in> set rs. rd_err r = None \<Longrightarrow> MultiReader rs = reader_of (concat (map rd_data rs))"
  by (induction rs) (auto simp: Let_def reader_of_def)

end
