(* ===== verification/Metadata_Types.thy ===== *)
theory Metadata_Types
  imports Go_Errors
begin

text \<open>
  The records of package metadata (internal/metadata/store.go), field by field. A Go map with
  string keys is an association list, a pointer that may be nil is an option, an \<open>int64\<close> a 64-bit
  word, an \<open>int\<close> that is only counted or compared an \<open>int\<close>, a time a number of nanoseconds.
\<close>

record bucket_quota =
  MaxSizeBytes :: int64
  MaxObjects :: int64

record website_condition =
  KeyPrefixEquals :: string
  HTTPErrorCodeReturnedEquals :: string

record website_redirect =
  HostName :: string
  Protocol :: string
  ReplaceKeyPrefixWith :: string
  ReplaceKeyWith :: string
  HTTPRedirectCode :: string

record website_rule =
  wr_Condition :: website_condition
  wr_Redirect :: website_redirect

record website_config =
  IndexDocument :: string
  ErrorDocument :: string
  RoutingRules :: "website_rule list"

record notification_filter =
  nf_KeyPrefixEquals :: string
  nf_KeySuffixEquals :: string

record notification_target =
  nt_ID :: string
  nt_Arn :: string
  nt_Events :: "string list"
  nt_Filter :: "notification_filter option"

record webhook_target =
  wt_ID :: string
  wt_URL :: string
  wt_Events :: "string list"
  wt_Filter :: "notification_filter option"
  wt_Secret :: string

record notification_config =
  QueueConfigurations :: "notification_target list"
  TopicConfigurations :: "notification_target list"
  WebhookTargets :: "webhook_target list"

record lifecycle_filter =
  lf_Prefix :: string
  lf_Tags :: smap

record replication_dest =
  rd_BucketARN :: string
  rd_StorageClass :: string
  rd_Endpoint :: string
  rd_AccessKey :: string
  rd_SecretKey :: string

record replication_rule =
  rr_ID :: string
  rr_Status :: string
  rr_Filter :: lifecycle_filter
  rr_Destination :: replication_dest
  rr_DeleteMarkerReplication :: string

record replication_config =
  rc_Role :: string
  rc_Rules :: "replication_rule list"

record cors_rule =
  cr_ID :: string
  AllowedOrigins :: "string list"
  AllowedMethods :: "string list"
  AllowedHeaders :: "string list"
  ExposeHeaders :: "string list"
  MaxAgeSeconds :: int

record lifecycle_rule =
  lr_ID :: string
  lr_Status :: string
  lr_Filter :: lifecycle_filter
  ExpirationDays :: int
  ExpirationDate :: "time option"
  NoncurrentVersionExpirationDays :: int
  AbortIncompleteMultipartDays :: int

record bucket_record =
  br_Name :: string
  br_CreatedAt :: time
  br_Owner :: string
  br_Region :: string
  br_Versioning :: string
  br_ACL :: string
  br_ObjectCount :: int64
  br_TotalBytes :: int64
  br_Policy :: string
  br_CORSRules :: "cors_rule list"
  br_LifecycleRules :: "lifecycle_rule list"
  br_Tags :: smap
  br_SSEAlgorithm :: string
  br_Quota :: "bucket_quota option"
  br_Website :: "website_config option"
  br_Notifications :: "notification_config option"
  br_Replication :: "replication_config option"

record object_record =
  or_Bucket :: string
  or_Key :: string
  or_VersionID :: string
  or_IsDeleteMarker :: bool
  or_IsLatest :: bool
  or_Size :: int64
  or_ETag :: string
  or_ContentType :: string
  or_LastModified :: time
  or_Owner :: string
  or_UserMeta :: smap
  or_StorageClass :: string
  or_Tags :: smap
  or_SSEAlgorithm :: string
  or_SSEEncryptedKey :: bytes

record version_record =
  vr_Bucket :: string
  vr_Key :: string
  vr_VersionID :: string
  vr_IsDeleteMarker :: bool
  vr_IsLatest :: bool
  vr_ETag :: string
  vr_Size :: int64
  vr_LastModified :: time
  vr_Owner :: string
  vr_StorageClass :: string

record multipart_record =
  mr_UploadID :: string
  mr_Bucket :: string
  mr_Key :: string
  mr_Owner :: string
  mr_ContentType :: string
  mr_UserMeta :: smap
  mr_Initiated :: time

record part_record =
  pr_UploadID :: string
  pr_PartNumber :: int
  pr_ETag :: string
  pr_Size :: int64
  pr_LastModified :: time

record access_key_record =
  ak_AccessKey :: string
  ak_SecretHash :: string
  ak_SigningKey :: string
  ak_Owner :: string
  ak_CreatedAt :: time
  ak_IsRoot :: bool

record list_options =
  lo_Prefix :: string
  lo_Delimiter :: string
  lo_ContinuationToken :: string
  lo_StartAfter :: string
  lo_MaxKeys :: int

text \<open>
  The values of the database. The store marshals a record as JSON and unmarshals it into the type
  the database bucket holds; the tagged value stands for the JSON text of the record, so that a
  decoder recovers exactly what was encoded. It fails on text of another shape.
\<close>

datatype json =
    JBucket bucket_record
  | JObject object_record
  | JVersion version_record
  | JMultipart multipart_record
  | JPart part_record
  | JKey access_key_record

fun unmarshal_bucket :: "json \<Rightarrow> bucket_record option" where
  "unmarshal_bucket (JBucket b) = Some b"
| "unmarshal_bucket _ = None"

fun unmarshal_object :: "json \<Rightarrow> object_record option" where
  "unmarshal_object (JObject x) = Some x"
| "unmarshal_object _ = None"

fun unmarshal_version :: "json \<Rightarrow> version_record option" where
  "unmarshal_version (JVersion x) = Some x"
| "unmarshal_version _ = None"

fun unmarshal_multipart :: "json \<Rightarrow> multipart_record option" where
  "unmarshal_multipart (JMultipart x) = Some x"
| "unmarshal_multipart _ = None"

fun unmarshal_part :: "json \<Rightarrow> part_record option" where
  "unmarshal_part (JPart x) = Some x"
| "unmarshal_part _ = None"

fun unmarshal_key :: "json \<Rightarrow> access_key_record option" where
  "unmarshal_key (JKey x) = Some x"
| "unmarshal_key _ = None"

end
