(* ===== verification/Go_Time.thy ===== *)
theory Go_Time
  imports Sang_Prelude "HOL-Library.Monad_Syntax"
begin

text \<open>
  The part of package \<open>time\<close> the signature code relies on: the proleptic Gregorian calendar in UTC,
  \<open>Format\<close> and \<open>Parse\<close> for the layouts \<open>20060102\<close> and \<open>20060102T150405Z\<close> of internal/auth/sigv4.go.
  A point in time is a number of nanoseconds since 1970 (\<open>time\<close> of the prelude). \<open>Parse\<close> follows the
  package: two digits per field, a fraction of a second after the seconds although the layout has
  none, range checks per field, and the day checked against its month.
\<close>

section \<open>The calendar\<close>

definition leap :: "int \<Rightarrow> bool" where
  "leap y \<longleftrightarrow> y mod 4 = 0 \<and> (y mod 100 \<noteq> 0 \<or> y mod 400 = 0)"

text \<open>Days from the first day of the year 0 to the first day of a year.\<close>

definition days_before_year :: "int \<Rightarrow> int" where
  "days_before_year y = 365 * y + (y + 3) div 4 - (y + 99) div 100 + (y + 399) div 400"

definition epoch_days :: int where
  "epoch_days = 719528"

lemma div_step:
  assumes "0 < (d :: int)"
  shows "(y + 1 + (d - 1)) div d = (y + (d - 1)) div d + (if y mod d = 0 then 1 else 0)"
proof -
  define q r where "q = y div d" and "r = y mod d"
  have y: "y = q * d + r" and r: "0 \<le> r" "r < d"
    using assms by (simp_all add: q_def r_def)
  have "y + 1 + (d - 1) = r + (q + 1) * d" by (simp add: y algebra_simps)
  then have "(y + 1 + (d - 1)) div d = (r + (q + 1) * d) div d" by simp
  also have "\<dots> = q + 1" using r by (simp add: div_mult_self3 del: distrib_right_numeral)
  finally have a: "(y + 1 + (d - 1)) div d = q + 1" .
  show ?thesis
  proof (cases "r = 0")
    case True
    have "(y + (d - 1)) div d = ((d - 1) + q * d) div d" by (simp add: y True algebra_simps)
    also have "\<dots> = q" using assms by simp
    finally show ?thesis using a True by (simp add: r_def)
  next
    case False
    have e: "y + (d - 1) = (r - 1) + (q + 1) * d" by (simp add: y algebra_simps)
    have "(y + (d - 1)) div d = ((r - 1) + (q + 1) * d) div d" unfolding e ..
    also have "\<dots> = q + 1" using r False by simp
    finally show ?thesis using a False by (simp add: r_def)
  qed
qed

lemma days_before_year_step:
  "days_before_year (y + 1) = days_before_year y + (if leap y then 366 else 365)"
proof -
  have m: "y mod 100 = 0 \<Longrightarrow> y mod 4 = 0" "y mod 400 = 0 \<Longrightarrow> y mod 100 = 0"
    by presburger+
  have sum: "365 * (z + 1) + (a + i) - (b + j) + (c + l) = 365 * z + a - b + c + (365 + i - j + l)"
    for z a b c i j l :: int by simp
  have k: "(4 :: int) - 1 = 3" "(100 :: int) - 1 = 99" "(400 :: int) - 1 = 399" by simp_all
  have s: "(y + 1 + 3) div 4 = (y + 3) div 4 + (if y mod 4 = 0 then 1 else 0)"
    "(y + 1 + 99) div 100 = (y + 99) div 100 + (if y mod 100 = 0 then 1 else 0)"
    "(y + 1 + 399) div 400 = (y + 399) div 400 + (if y mod 400 = 0 then 1 else 0)"
    using div_step [of 4 y] div_step [of 100 y] div_step [of 400 y]
    unfolding k by (simp_all only: zero_less_numeral simp_thms)
  have "(if leap y then 366 else 365) = (365 :: int) + (if y mod 4 = 0 then 1 else 0)
      - (if y mod 100 = 0 then 1 else 0) + (if y mod 400 = 0 then 1 else 0)"
    unfolding leap_def using m by (simp only: split: if_split) linarith
  note this [symmetric]
  moreover have "days_before_year (y + 1) = days_before_year y + (365 + (if y mod 4 = 0 then 1 else 0)
      - (if y mod 100 = 0 then 1 else 0) + (if y mod 400 = 0 then 1 else 0))"
    unfolding days_before_year_def s by (rule sum)
  ultimately show ?thesis by (simp only:)
qed

lemma days_before_year_mono: "days_before_year y < days_before_year (y + 1)"
  by (simp add: days_before_year_step)

text \<open>The year of a day: the last one that begins no later.\<close>

function year_from :: "int \<Rightarrow> int \<Rightarrow> int" where
  "year_from y n = (if days_before_year (y + 1) \<le> n then year_from (y + 1) n else y)"
  by pat_completeness auto
termination
proof (relation "measure (\<lambda>(y, n). nat (n - days_before_year y))")
  fix y n
  assume "days_before_year (y + 1) \<le> n"
  with days_before_year_mono [of y]
  show "((y + 1, n), (y, n)) \<in> measure (\<lambda>(y, n). nat (n - days_before_year y))" by simp
qed simp

declare year_from.simps [simp del]

definition year_of :: "int \<Rightarrow> int" where
  "year_of n = year_from (if 0 \<le> n then n div 366 else n div 365 - 1) n"

definition month_lengths :: "int \<Rightarrow> nat list" where
  "month_lengths y = [31, (if leap y then 29 else 28), 31, 30, 31, 30, 31, 31, 30, 31, 30, 31]"

fun month_split :: "nat list \<Rightarrow> nat \<Rightarrow> nat \<times> nat" where
  "month_split [] d = (0, d)"
| "month_split (n # ns) d =
     (if d < n then (0, d) else (case month_split ns (d - n) of (m, r) \<Rightarrow> (Suc m, r)))"

text \<open>Year, month (from 1) and day (from 1) of a day number.\<close>

definition civil :: "int \<Rightarrow> int \<times> nat \<times> nat" where
  "civil n =
     (let y = year_of n in
      case month_split (month_lengths y) (nat (n - days_before_year y)) of (m, r) \<Rightarrow> (y, Suc m, Suc r))"

definition days_of :: "int \<Rightarrow> nat \<Rightarrow> nat \<Rightarrow> int" where
  "days_of y m d = days_before_year y + int (sum_list (take (m - 1) (month_lengths y))) + int d - 1"

definition daysIn :: "nat \<Rightarrow> int \<Rightarrow> nat" where
  "daysIn m y = month_lengths y ! (m - 1)"

section \<open>Formatting\<close>

definition fmt_int :: "nat \<Rightarrow> int \<Rightarrow> string" where
  "fmt_int w n = (if n < 0 then CHR ''-'' # pad w (dec (nat (- n))) else pad w (dec (nat n)))"

definition second_of_day :: "time \<Rightarrow> nat" where
  "second_of_day t = nat (t mod day_ns div second_ns)"

definition format_date :: "time \<Rightarrow> string" where
  "format_date t =
     (case civil (t div day_ns + epoch_days) of
        (y, m, d) \<Rightarrow> fmt_int 4 y @ pad 2 (dec m) @ pad 2 (dec d))"

definition format_timestamp :: "time \<Rightarrow> string" where
  "format_timestamp t =
     (let s = second_of_day t in
      format_date t @ ''T'' @ pad 2 (dec (s div 3600)) @ pad 2 (dec (s div 60 mod 60)) @
      pad 2 (dec (s mod 60)) @ ''Z'')"

section \<open>Parsing\<close>

definition is_digit :: "char \<Rightarrow> bool" where
  "is_digit c \<longleftrightarrow> (48 :: nat) \<le> of_char c \<and> of_char c \<le> (57 :: nat)"

definition digit_val :: "char \<Rightarrow> nat" where
  "digit_val c = of_char c - 48"

definition digits_val :: "string \<Rightarrow> nat" where
  "digits_val ds = foldl (\<lambda>n c. 10 * n + digit_val c) 0 ds"

text \<open>\<open>w\<close> digits at the front of a string, and the rest.\<close>

definition take_digits :: "nat \<Rightarrow> string \<Rightarrow> (nat \<times> string) option" where
  "take_digits w s =
     (if w \<le> length s \<and> list_all is_digit (take w s) then Some (digits_val (take w s), drop w s) else None)"

text \<open>The fraction \<open>Parse\<close> accepts after the seconds; digits beyond the ninth are dropped.\<close>

definition take_fraction :: "string \<Rightarrow> int \<times> string" where
  "take_fraction s =
     (case s of
        c # d # s' \<Rightarrow>
          if (c = CHR ''.'' \<or> c = CHR '','') \<and> is_digit d
          then (let ds = takeWhile is_digit (d # s')
                in (int (digits_val (take 9 ds) * 10 ^ (9 - length (take 9 ds))), drop (length ds) (d # s')))
          else (0, s)
      | _ \<Rightarrow> (0, s))"

text \<open>
  The fields in the order of the layout. One digit would do for the hours, but the digits of the
  minutes follow at once, so two are read whenever the rest can be read.
\<close>

definition parse_timestamp :: "string \<Rightarrow> time option" where
  "parse_timestamp s =
     do {
       (year, s) \<leftarrow> take_digits 4 s;
       (month, s) \<leftarrow> take_digits 2 s;
       (day, s) \<leftarrow> take_digits 2 s;
       s \<leftarrow> (case s of c # s' \<Rightarrow> if c = CHR ''T'' then Some s' else None | [] \<Rightarrow> None);
       (hour, s) \<leftarrow> take_digits 2 s;
       (minute, s) \<leftarrow> take_digits 2 s;
       (sec, s) \<leftarrow> take_digits 2 s;
       (case take_fraction s of (nsec, s) \<Rightarrow>
          if s = ''Z'' \<and> 1 \<le> month \<and> month \<le> 12 \<and> hour < 24 \<and> minute < 60 \<and> sec < 60 \<and>
             1 \<le> day \<and> day \<le> daysIn month (int year)
          then Some ((days_of (int year) month day - epoch_days) * day_ns +
                     int (3600 * hour + 60 * minute + sec) * second_ns + nsec)
          else None)
     }"

section \<open>Formatting and parsing are inverse\<close>

lemma days_before_year_0 [simp]: "days_before_year 0 = 0"
  by (simp add: days_before_year_def)

lemma days_before_year_le: "0 \<le> y \<Longrightarrow> days_before_year y \<le> 366 * y"
proof (induction y rule: int_ge_induct)
  case (step y)
  then show ?case by (simp add: days_before_year_step)
qed simp

lemma year_from_bounds:
  "days_before_year y \<le> n \<Longrightarrow>
   days_before_year (year_from y n) \<le> n \<and> n < days_before_year (year_from y n + 1) \<and> y \<le> year_from y n"
proof (induction y n rule: year_from.induct)
  case (1 y n)
  then show ?case by (auto simp: year_from.simps [of y n])
qed

lemma year_of_bounds:
  assumes "0 \<le> n"
  shows "days_before_year (year_of n) \<le> n \<and> n < days_before_year (year_of n + 1) \<and> 0 \<le> year_of n"
proof -
  have "days_before_year (n div 366) \<le> 366 * (n div 366)"
    using assms by (intro days_before_year_le) simp
  also have "\<dots> \<le> n" using assms by simp
  finally have "days_before_year (n div 366) \<le> n" .
  moreover have "0 \<le> n div 366" using assms by simp
  ultimately show ?thesis
    using year_from_bounds [of "n div 366" n] assms by (auto simp: year_of_def intro: order.trans)
qed

lemma days_before_year_less: "x \<le> y \<Longrightarrow> days_before_year x \<le> days_before_year y"
proof (induction y rule: int_ge_induct)
  case (step y)
  then show ?case using days_before_year_mono [of y] by linarith
qed simp

lemma month_split_sum:
  "d < sum_list ns \<Longrightarrow> month_split ns d = (m, r) \<Longrightarrow>
   m < length ns \<and> r < ns ! m \<and> sum_list (take m ns) + r = d"
proof (induction ns arbitrary: d m r)
  case (Cons n ns)
  show ?case
  proof (cases "d < n")
    case False
    obtain m' r' where s: "month_split ns (d - n) = (m', r')" by force
    from Cons.prems False have "d - n < sum_list ns" by simp
    from Cons.IH [OF this s] Cons.prems(2) s False show ?thesis by auto
  qed (use Cons.prems in auto)
qed simp

lemma month_lengths_sum: "int (sum_list (month_lengths y)) = (if leap y then 366 else 365)"
  by (simp add: month_lengths_def)

lemma month_lengths_le: "m < 12 \<Longrightarrow> month_lengths y ! m \<le> 31"
  by (auto simp: month_lengths_def nth_Cons' )

lemma civil_days_of:
  assumes "0 \<le> n" and "civil n = (y, m, d)"
  shows "days_of y m d = n \<and> y = year_of n \<and> 1 \<le> m \<and> m \<le> 12 \<and> 1 \<le> d \<and> d \<le> daysIn m y"
proof -
  define k where "k = nat (n - days_before_year (year_of n))"
  from year_of_bounds [OF assms(1)] have k: "int k = n - days_before_year (year_of n)"
    and "int k < int (sum_list (month_lengths (year_of n)))"
    by (auto simp: k_def days_before_year_step month_lengths_sum)
  then have lt: "k < sum_list (month_lengths (year_of n))" by simp
  obtain i r where s: "month_split (month_lengths (year_of n)) k = (i, r)" by force
  with assms(2) have e: "y = year_of n" "m = Suc i" "d = Suc r"
    by (auto simp: civil_def Let_def k_def)
  from month_split_sum [OF lt s] k show ?thesis
    by (simp add: e days_of_def daysIn_def month_lengths_def)
qed

lemma digits_val_append: "digits_val (ds @ [c]) = 10 * digits_val ds + digit_val c"
  by (simp add: digits_val_def)

lemma digit_props: "d < 10 \<Longrightarrow> is_digit (digit d) \<and> digit_val (digit d) = d"
  by (simp add: is_digit_def digit_val_def of_char_digit)

lemma digs_val: "n < 10 ^ w \<Longrightarrow> list_all is_digit (digs w n) \<and> digits_val (digs w n) = n"
proof (induction w arbitrary: n)
  case 0
  then show ?case by (simp add: digits_val_def)
next
  case (Suc w)
  then have "n div 10 < 10 ^ w" by (simp add: less_mult_imp_div_less mult.commute)
  from Suc.IH [OF this] show ?case by (simp add: digits_val_append digit_props)
qed

lemma take_digits_digs: "n < 10 ^ w \<Longrightarrow> take_digits w (digs w n @ s) = Some (n, s)"
  using digs_val [of n w] by (simp add: take_digits_def)

lemma pad_2: "n < 100 \<Longrightarrow> pad 2 (dec n) = digs 2 n"
  using pad_dec [of n 1] by (simp add: numeral_2_eq_2)

lemma fmt_int_4: "0 \<le> y \<Longrightarrow> y < 10000 \<Longrightarrow> fmt_int 4 y = digs 4 (nat y)"
  using pad_dec [of "nat y" 3] by (simp add: fmt_int_def)

lemma day_ns_eq: "day_ns = 86400000000000"
  by (simp add: day_ns_def second_ns_def)

text \<open>The years a timestamp can carry are 0 to 9999; \<open>stamp_range\<close> is their nanoseconds.\<close>

definition stamp_range :: "time \<Rightarrow> bool" where
  "stamp_range t \<longleftrightarrow> - epoch_days * day_ns \<le> t \<and> t < (days_before_year 10000 - epoch_days) * day_ns"

lemma stamp_range_day:
  assumes "stamp_range t"
  shows "0 \<le> t div day_ns + epoch_days \<and> year_of (t div day_ns + epoch_days) < 10000 \<and>
    0 \<le> year_of (t div day_ns + epoch_days)"
proof -
  have pos: "0 < day_ns" by (simp add: day_ns_eq)
  from assms have "- epoch_days * day_ns \<le> t" by (simp add: stamp_range_def)
  then have "(- epoch_days * day_ns) div day_ns \<le> t div day_ns" using pos by (intro zdiv_mono1)
  moreover have "(- epoch_days * day_ns) div day_ns = - epoch_days"
    using pos by (intro nonzero_mult_div_cancel_right) simp
  ultimately have lo: "- epoch_days \<le> t div day_ns" by simp
  from assms have "t < (days_before_year 10000 - epoch_days) * day_ns" by (simp add: stamp_range_def)
  then have hi: "t div day_ns < days_before_year 10000 - epoch_days"
    using pos div_mult_mod_eq [of t day_ns] pos_mod_sign [of day_ns t]
    by (metis add_increasing2 less_le_trans mult_less_cancel_right_pos not_less order_refl)
  let ?n = "t div day_ns + epoch_days"
  from lo have n: "0 \<le> ?n" by simp
  have "\<not> 10000 \<le> year_of ?n"
    using days_before_year_less [of 10000 "year_of ?n"] year_of_bounds [OF n] hi by linarith
  with n year_of_bounds [OF n] show ?thesis by simp
qed

text \<open>Truncation to whole seconds, what a timestamp keeps of a time.\<close>

definition whole_seconds :: "time \<Rightarrow> time" where
  "whole_seconds t = t - t mod second_ns"

lemma second_of_day_bounds: "second_of_day t < 86400"
proof -
  have "t mod day_ns div second_ns < 86400"
    by (simp add: day_ns_eq second_ns_def div_less_iff_less_mult)
  then show ?thesis by (simp add: second_of_day_def)
qed

lemma second_of_day_eq: "int (second_of_day t) = t mod day_ns div second_ns"
  by (simp add: second_of_day_def day_ns_eq second_ns_def div_int_pos_iff)

lemma whole_seconds_eq: "t div day_ns * day_ns + int (second_of_day t) * second_ns = whole_seconds t"
proof -
  have "t mod day_ns mod second_ns = t mod second_ns"
    by (simp add: day_ns_eq second_ns_def mod_mod_cancel)
  then have "t mod day_ns div second_ns * second_ns = t mod day_ns - t mod second_ns"
    by (simp add: minus_mod_eq_div_mult [symmetric])
  moreover have "t div day_ns * day_ns = t - t mod day_ns"
    by (simp add: minus_mod_eq_div_mult)
  ultimately show ?thesis by (simp add: second_of_day_eq whole_seconds_def)
qed

lemma second_fields: "3600 * (s div 3600) + 60 * (s div 60 mod 60) + s mod 60 = (s :: nat)"
proof -
  have g: "3600 * a + 60 * b = 60 * (60 * a + b)" for a b :: nat by simp
  have e: "s div 3600 = s div 60 div 60" by (simp add: div_mult2_eq [symmetric])
  have "3600 * (s div 60 div 60) + 60 * (s div 60 mod 60) = 60 * (60 * (s div 60 div 60) + s div 60 mod 60)"
    by (rule g)
  also have "\<dots> = 60 * (s div 60)" by (simp only: mult_div_mod_eq)
  finally show ?thesis unfolding e by (simp only: mult_div_mod_eq)
qed

text \<open>A formatted date is eight digits, a formatted timestamp fifteen and two letters.\<close>

lemma format_date_digs:
  assumes "stamp_range t" and "civil (t div day_ns + epoch_days) = (y, m, d)"
  shows "format_date t = digs 4 (nat y) @ digs 2 m @ digs 2 d \<and> nat y < 10000 \<and> 0 \<le> y \<and>
    1 \<le> m \<and> m \<le> 12 \<and> 1 \<le> d \<and> d \<le> daysIn m y \<and> d < 100 \<and>
    days_of y m d = t div day_ns + epoch_days"
proof -
  from civil_days_of [OF _ assms(2)] stamp_range_day [OF assms(1)]
  have c: "days_of y m d = t div day_ns + epoch_days" "0 \<le> y" "y < 10000" "1 \<le> m" "m \<le> 12"
    "1 \<le> d" "d \<le> daysIn m y" by auto
  have "daysIn m y \<le> 31" using month_lengths_le [of "m - 1" y] c by (simp add: daysIn_def)
  with c show ?thesis by (simp add: format_date_def assms(2) fmt_int_4 pad_2)
qed

lemma format_timestamp_digs:
  assumes "stamp_range t"
  obtains y m d where "civil (t div day_ns + epoch_days) = (y, m, d)"
    and "format_timestamp t = digs 4 (nat y) @ digs 2 m @ digs 2 d @ ''T'' @ digs 2 (second_of_day t div 3600) @
      digs 2 (second_of_day t div 60 mod 60) @ digs 2 (second_of_day t mod 60) @ ''Z''"
proof -
  obtain y m d where c: "civil (t div day_ns + epoch_days) = (y, m, d)"
    by (cases "civil (t div day_ns + epoch_days)") auto
  have "second_of_day t div 3600 < 100" using second_of_day_bounds [of t] by (simp add: div_less_iff_less_mult)
  moreover have "second_of_day t div 60 mod 60 < 100" "second_of_day t mod 60 < 100"
    by (simp_all add: less_trans [OF mod_less_divisor])
  ultimately show ?thesis
    using that [OF c] format_date_digs [OF assms c] by (simp add: format_timestamp_def Let_def pad_2)
qed

lemma parse_format_timestamp:
  assumes "stamp_range t"
  shows "parse_timestamp (format_timestamp t) = Some (whole_seconds t)"
proof -
  let ?s = "second_of_day t"
  obtain y m d where c: "civil (t div day_ns + epoch_days) = (y, m, d)"
    and f: "format_timestamp t = digs 4 (nat y) @ digs 2 m @ digs 2 d @ ''T'' @ digs 2 (?s div 3600) @
      digs 2 (?s div 60 mod 60) @ digs 2 (?s mod 60) @ ''Z''"
    by (rule format_timestamp_digs [OF assms])
  note r = format_date_digs [OF assms c]
  have h: "?s div 3600 < 24" using second_of_day_bounds [of t] by (simp add: div_less_iff_less_mult)
  have ms: "?s div 60 mod 60 < 60" "?s mod 60 < 60" by simp_all
  have sum: "int (3600 * (?s div 3600) + 60 * (?s div 60 mod 60) + ?s mod 60) = int ?s"
    by (simp only: second_fields)
  have z: "take_fraction ''Z'' = (0, ''Z'')" by (simp add: take_fraction_def)
  have "parse_timestamp (format_timestamp t) =
      Some ((days_of y m d - epoch_days) * day_ns + int ?s * second_ns)"
    unfolding f parse_timestamp_def
    using r h ms
    by (simp add: take_digits_digs z sum [simplified] del: digs.simps)
  also have "\<dots> = Some (whole_seconds t)"
    using r whole_seconds_eq [of t] by simp
  finally show ?thesis .
qed

end
