(* ===== verification/Json_Text.thy ===== *)
theory Json_Text
  imports Metadata_Types Go_Time
begin

text \<open>
  What encoding/json makes of a record when the store writes it (\<open>json.Marshal\<close> in
  internal/metadata/bbolt/bbolt.go): the text of a string holds the replacement character for every byte that is no
  UTF-8, so the record that is read back has other strings than the one that was written; and a time outside the years
  0 to 9999 has no text. Numbers, flags, byte slices and the shape of the records survive. \<open>storable\<close> says that a record
  is read back as it is.
\<close>

section \<open>UTF-8\<close>

text \<open>\<open>utf8.DecodeRune\<close>: the length of the sequence a string starts with, or 0 when it starts with none.\<close>

definition continuation :: "nat \<Rightarrow> nat \<Rightarrow> char \<Rightarrow> bool" where
  "continuation lo hi c \<longleftrightarrow> lo \<le> of_char c \<and> of_char c \<le> hi"

fun rune_len :: "string \<Rightarrow> nat" where
  "rune_len [] = 0"
| "rune_len (c # cs) =
     (let n = (of_char c :: nat); c1 = take 1 cs; c2 = take 1 (drop 1 cs); c3 = take 1 (drop 2 cs);
          within = (\<lambda>lo hi xs. xs \<noteq> [] \<and> list_all (continuation lo hi) xs)
      in if n < 128 then 1
         else if 194 \<le> n \<and> n \<le> 223 then if within 128 191 c1 then 2 else 0
         else if 224 \<le> n \<and> n \<le> 239 then
           if within (if n = 224 then 160 else 128) (if n = 237 then 159 else 191) c1 \<and> within 128 191 c2 then 3 else 0
         else if 240 \<le> n \<and> n \<le> 244 then
           if within (if n = 240 then 144 else 128) (if n = 244 then 143 else 191) c1 \<and> within 128 191 c2 \<and> within 128 191 c3 then 4 else 0
         else 0)"

text \<open>A string written to JSON and read back: each byte that starts no sequence becomes U+FFFD.\<close>

definition replacement :: string where
  "replacement = [CHR 0xEF, CHR 0xBF, CHR 0xBD]"

function utf8 :: "string \<Rightarrow> string" where
  "utf8 [] = []"
| "utf8 (c # cs) =
     (case rune_len (c # cs) of
        0 \<Rightarrow> replacement @ utf8 cs
      | Suc n \<Rightarrow> c # take n cs @ utf8 (drop n cs))"
  by pat_completeness auto

termination by (relation "measure length") auto

abbreviation valid_utf8 :: "string \<Rightarrow> bool" where
  "valid_utf8 s \<equiv> utf8 s = s"

lemma utf8_ascii: "list_all (\<lambda>c. of_char c < (128 :: nat)) s \<Longrightarrow> valid_utf8 s"
  by (induction s) (simp_all add: Let_def)

lemma utf8_append_ascii: "list_all (\<lambda>c. of_char c < (128 :: nat)) s \<Longrightarrow> utf8 (s @ t) = s @ utf8 t"
  by (induction s) (simp_all add: Let_def)

text \<open>A byte that no sequence may hold is replaced wherever it stands.\<close>

lemma utf8_invalid: "utf8 (CHR 0xFF # s) = replacement @ utf8 s"
  by (simp add: Let_def)

section \<open>The records\<close>

text \<open>
  The members of an object are written in the order of their keys; of two whose keys become the same text
  the later one is read back.
\<close>

definition json_smap :: "smap \<Rightarrow> smap" where
  "json_smap m =
     (if list_all (\<lambda>(k, v). valid_utf8 k \<and> valid_utf8 v) m then m
      else fold (\<lambda>(k, v). AList.update (utf8 k) (utf8 v)) (sort_key fst m) [])"

definition json_website :: "website_config \<Rightarrow> website_config" where
  "json_website w = w\<lparr>IndexDocument := utf8 (IndexDocument w), ErrorDocument := utf8 (ErrorDocument w),
     RoutingRules := map (\<lambda>r.
       \<lparr>wr_Condition = \<lparr>KeyPrefixEquals = utf8 (KeyPrefixEquals (wr_Condition r)),
          HTTPErrorCodeReturnedEquals = utf8 (HTTPErrorCodeReturnedEquals (wr_Condition r))\<rparr>,
        wr_Redirect = \<lparr>HostName = utf8 (HostName (wr_Redirect r)), Protocol = utf8 (Protocol (wr_Redirect r)),
          ReplaceKeyPrefixWith = utf8 (ReplaceKeyPrefixWith (wr_Redirect r)), ReplaceKeyWith = utf8 (ReplaceKeyWith (wr_Redirect r)),
          HTTPRedirectCode = utf8 (HTTPRedirectCode (wr_Redirect r))\<rparr>\<rparr>) (RoutingRules w)\<rparr>"

definition json_nfilter :: "notification_filter \<Rightarrow> notification_filter" where
  "json_nfilter f = \<lparr>nf_KeyPrefixEquals = utf8 (nf_KeyPrefixEquals f), nf_KeySuffixEquals = utf8 (nf_KeySuffixEquals f)\<rparr>"

definition json_target :: "notification_target \<Rightarrow> notification_target" where
  "json_target t = \<lparr>nt_ID = utf8 (nt_ID t), nt_Arn = utf8 (nt_Arn t), nt_Events = map utf8 (nt_Events t),
     nt_Filter = map_option json_nfilter (nt_Filter t)\<rparr>"

definition json_webhook :: "webhook_target \<Rightarrow> webhook_target" where
  "json_webhook t = \<lparr>wt_ID = utf8 (wt_ID t), wt_URL = utf8 (wt_URL t), wt_Events = map utf8 (wt_Events t),
     wt_Filter = map_option json_nfilter (wt_Filter t), wt_Secret = utf8 (wt_Secret t)\<rparr>"

definition json_notifications :: "notification_config \<Rightarrow> notification_config" where
  "json_notifications n = \<lparr>QueueConfigurations = map json_target (QueueConfigurations n),
     TopicConfigurations = map json_target (TopicConfigurations n), WebhookTargets = map json_webhook (WebhookTargets n)\<rparr>"

definition json_lfilter :: "lifecycle_filter \<Rightarrow> lifecycle_filter" where
  "json_lfilter f = \<lparr>lf_Prefix = utf8 (lf_Prefix f), lf_Tags = json_smap (lf_Tags f)\<rparr>"

definition json_replication :: "replication_config \<Rightarrow> replication_config" where
  "json_replication c = \<lparr>rc_Role = utf8 (rc_Role c),
     rc_Rules = map (\<lambda>r.
       \<lparr>rr_ID = utf8 (rr_ID r), rr_Status = utf8 (rr_Status r), rr_Filter = json_lfilter (rr_Filter r),
        rr_Destination = \<lparr>rd_BucketARN = utf8 (rd_BucketARN (rr_Destination r)), rd_StorageClass = utf8 (rd_StorageClass (rr_Destination r)),
          rd_Endpoint = utf8 (rd_Endpoint (rr_Destination r)), rd_AccessKey = utf8 (rd_AccessKey (rr_Destination r)),
          rd_SecretKey = utf8 (rd_SecretKey (rr_Destination r))\<rparr>,
        rr_DeleteMarkerReplication = utf8 (rr_DeleteMarkerReplication r)\<rparr>) (rc_Rules c)\<rparr>"

definition json_cors :: "cors_rule \<Rightarrow> cors_rule" where
  "json_cors r = r\<lparr>cr_ID := utf8 (cr_ID r), AllowedOrigins := map utf8 (AllowedOrigins r), AllowedMethods := map utf8 (AllowedMethods r),
     AllowedHeaders := map utf8 (AllowedHeaders r), ExposeHeaders := map utf8 (ExposeHeaders r)\<rparr>"

definition json_lifecycle :: "lifecycle_rule \<Rightarrow> lifecycle_rule" where
  "json_lifecycle r = r\<lparr>lr_ID := utf8 (lr_ID r), lr_Status := utf8 (lr_Status r), lr_Filter := json_lfilter (lr_Filter r)\<rparr>"

definition json_bucket :: "bucket_record \<Rightarrow> bucket_record option" where
  "json_bucket b =
     (if stamp_range (br_CreatedAt b) \<and> list_all (\<lambda>r. pred_option stamp_range (ExpirationDate r)) (br_LifecycleRules b)
      then Some (b\<lparr>br_Name := utf8 (br_Name b), br_Owner := utf8 (br_Owner b), br_Region := utf8 (br_Region b),
        br_Versioning := utf8 (br_Versioning b), br_ACL := utf8 (br_ACL b), br_Policy := utf8 (br_Policy b),
        br_CORSRules := map json_cors (br_CORSRules b), br_LifecycleRules := map json_lifecycle (br_LifecycleRules b),
        br_Tags := json_smap (br_Tags b), br_SSEAlgorithm := utf8 (br_SSEAlgorithm b),
        br_Website := map_option json_website (br_Website b), br_Notifications := map_option json_notifications (br_Notifications b),
        br_Replication := map_option json_replication (br_Replication b)\<rparr>)
      else None)"

definition json_object :: "object_record \<Rightarrow> object_record option" where
  "json_object r =
     (if stamp_range (or_LastModified r)
      then Some (r\<lparr>or_Bucket := utf8 (or_Bucket r), or_Key := utf8 (or_Key r), or_VersionID := utf8 (or_VersionID r),
        or_ETag := utf8 (or_ETag r), or_ContentType := utf8 (or_ContentType r), or_Owner := utf8 (or_Owner r),
        or_UserMeta := json_smap (or_UserMeta r), or_StorageClass := utf8 (or_StorageClass r), or_Tags := json_smap (or_Tags r),
        or_SSEAlgorithm := utf8 (or_SSEAlgorithm r)\<rparr>)
      else None)"

definition json_version :: "version_record \<Rightarrow> version_record option" where
  "json_version r =
     (if stamp_range (vr_LastModified r)
      then Some (r\<lparr>vr_Bucket := utf8 (vr_Bucket r), vr_Key := utf8 (vr_Key r), vr_VersionID := utf8 (vr_VersionID r),
        vr_ETag := utf8 (vr_ETag r), vr_Owner := utf8 (vr_Owner r), vr_StorageClass := utf8 (vr_StorageClass r)\<rparr>)
      else None)"

definition json_multipart :: "multipart_record \<Rightarrow> multipart_record option" where
  "json_multipart r =
     (if stamp_range (mr_Initiated r)
      then Some (r\<lparr>mr_UploadID := utf8 (mr_UploadID r), mr_Bucket := utf8 (mr_Bucket r), mr_Key := utf8 (mr_Key r),
        mr_Owner := utf8 (mr_Owner r), mr_ContentType := utf8 (mr_ContentType r), mr_UserMeta := json_smap (mr_UserMeta r)\<rparr>)
      else None)"

definition json_part :: "part_record \<Rightarrow> part_record option" where
  "json_part r =
     (if stamp_range (pr_LastModified r)
      then Some (r\<lparr>pr_UploadID := utf8 (pr_UploadID r), pr_ETag := utf8 (pr_ETag r)\<rparr>)
      else None)"

definition json_key :: "access_key_record \<Rightarrow> access_key_record option" where
  "json_key r =
     (if stamp_range (ak_CreatedAt r)
      then Some (r\<lparr>ak_AccessKey := utf8 (ak_AccessKey r), ak_SecretHash := utf8 (ak_SecretHash r),
        ak_SigningKey := utf8 (ak_SigningKey r), ak_Owner := utf8 (ak_Owner r)\<rparr>)
      else None)"

text \<open>\<open>json.Marshal\<close>, as the record that \<open>json.Unmarshal\<close> makes of its text.\<close>

fun json_marshal :: "json \<Rightarrow> json option" where
  "json_marshal (JBucket b) = map_option JBucket (json_bucket b)"
| "json_marshal (JObject r) = map_option JObject (json_object r)"
| "json_marshal (JVersion r) = map_option JVersion (json_version r)"
| "json_marshal (JMultipart r) = map_option JMultipart (json_multipart r)"
| "json_marshal (JPart r) = map_option JPart (json_part r)"
| "json_marshal (JKey r) = map_option JKey (json_key r)"

definition storable :: "json \<Rightarrow> bool" where
  "storable v \<longleftrightarrow> json_marshal v = Some v"

text \<open>A record of plain strings is storable when they are valid and its time has a text.\<close>

lemma storable_object:
  "storable (JObject r) \<longleftrightarrow> stamp_range (or_LastModified r) \<and>
     list_all valid_utf8 [or_Bucket r, or_Key r, or_VersionID r, or_ETag r, or_ContentType r, or_Owner r, or_StorageClass r, or_SSEAlgorithm r] \<and>
     json_smap (or_UserMeta r) = or_UserMeta r \<and> json_smap (or_Tags r) = or_Tags r"
  by (cases r) (auto simp: storable_def json_object_def)

lemma storable_version:
  "storable (JVersion r) \<longleftrightarrow> stamp_range (vr_LastModified r) \<and>
     list_all valid_utf8 [vr_Bucket r, vr_Key r, vr_VersionID r, vr_ETag r, vr_Owner r, vr_StorageClass r]"
  by (cases r) (auto simp: storable_def json_version_def)

lemma storable_unlatest: "storable (JVersion r) \<Longrightarrow> storable (JVersion (r\<lparr>vr_IsLatest := l\<rparr>))"
  by (simp add: storable_version)

lemma storable_stats: "storable (JBucket b) \<Longrightarrow> storable (JBucket (b\<lparr>br_ObjectCount := n, br_TotalBytes := m\<rparr>))"
  by (cases b) (auto simp: storable_def json_bucket_def split: if_splits)

end
