(* ===== verification/Iam_Policy.thy ===== *)
theory Iam_Policy
  imports Go_Errors
begin

text \<open>
  Authorisation: the bucket policies of internal/auth/iam.go and the canned ACLs of internal/auth/acl.go.
  No handler of the repository calls \<open>IsAllowed\<close> or \<open>CheckACL\<close>; this theory is what they would decide. The decoder \<open>encoding/json\<close> is the
  parameter \<open>unmarshal\<close> of the definitions that read a policy document; the untyped fields of a
  statement (\<open>interface{}\<close>) are values of \<open>json_value\<close>, the shapes the decoder produces.
\<close>

section \<open>Policies\<close>

datatype json_value =
    JNull
  | JString string
  | JArray "json_value list"
  | JMap "(string \<times> json_value) list"
  | JScalar string

record statement =
  st_Sid :: string
  st_Effect :: string
  st_Principal :: json_value
  st_Action :: json_value
  st_Resource :: json_value
  st_Condition :: json_value

record policy =
  po_Version :: string
  po_Statements :: "statement list"

definition ParsePolicy :: "(string \<Rightarrow> policy result) \<Rightarrow> string \<Rightarrow> policy option result" where
  "ParsePolicy unmarshal policyJSON =
     (if policyJSON = [] then Inr None
      else case unmarshal policyJSON of Inl err \<Rightarrow> Inl err | Inr p \<Rightarrow> Inr (Some p))"

text \<open>
  \<open>strings.EqualFold\<close> on two slices of one byte. An ASCII letter equals its other case; a byte above
  127 is not a whole UTF-8 sequence, decodes to the replacement rune, and equals any other such byte.
\<close>

definition fold_eq :: "char \<Rightarrow> char \<Rightarrow> bool" where
  "fold_eq c d \<longleftrightarrow> lower_char c = lower_char d \<or> (128 \<le> (of_char c :: nat) \<and> 128 \<le> (of_char d :: nat))"

text \<open>
  The loop of \<open>globMatchRecursive\<close>. A run of stars is skipped, and what follows it is tried at every
  position of the target, the end included.
\<close>

fun skip_stars :: "string \<Rightarrow> string" where
  "skip_stars [] = []"
| "skip_stars (c # cs) = (if c = CHR ''*'' then skip_stars cs else c # cs)"

lemma skip_stars_length: "length (skip_stars p) \<le> length p"
  by (induction p) auto

lemma skip_stars_Cons: "skip_stars p = q # qs \<Longrightarrow> length qs < length p"
  using skip_stars_length [of p] by simp

fun suffixes_of :: "string \<Rightarrow> string list" where
  "suffixes_of [] = [[]]"
| "suffixes_of (c # cs) = (c # cs) # suffixes_of cs"

function globMatchRecursive :: "string \<Rightarrow> string \<Rightarrow> bool" where
  "globMatchRecursive [] t = (t = [])"
| "globMatchRecursive (c # p) t =
     (if c = CHR ''*''
      then (case skip_stars p of
              [] \<Rightarrow> True
            | q # qs \<Rightarrow> list_ex (\<lambda>s. globMatchRecursive (q # qs) s) (suffixes_of t))
      else if c = CHR ''?''
      then (case t of [] \<Rightarrow> False | d # t' \<Rightarrow> globMatchRecursive p t')
      else (case t of [] \<Rightarrow> False | d # t' \<Rightarrow> fold_eq c d \<and> globMatchRecursive p t'))"
  by pat_completeness auto

termination
  by (relation "measure (\<lambda>(p, t). length p)") (auto dest: skip_stars_Cons)

definition globMatch :: "string \<Rightarrow> string \<Rightarrow> bool" where
  "globMatch pattern target = (if pattern = ''*'' then True else globMatchRecursive pattern target)"

definition matchesPrincipalSlice :: "json_value list \<Rightarrow> string \<Rightarrow> bool" where
  "matchesPrincipalSlice items who =
     list_ex (\<lambda>item. case item of JString s \<Rightarrow> s = ''*'' \<or> s = who | _ \<Rightarrow> False) items"

definition matchesPrincipalMap :: "(string \<times> json_value) list \<Rightarrow> string \<Rightarrow> bool" where
  "matchesPrincipalMap m who =
     list_ex (\<lambda>(_, vals). case vals of
         JString vv \<Rightarrow> vv = ''*'' \<or> vv = who
       | JArray vv \<Rightarrow> matchesPrincipalSlice vv who
       | _ \<Rightarrow> False) m"

definition matchesPrincipal :: "statement \<Rightarrow> string \<Rightarrow> bool" where
  "matchesPrincipal stmt who =
     (case st_Principal stmt of
        JNull \<Rightarrow> True
      | JString v \<Rightarrow> v = ''*'' \<or> v = who
      | JMap v \<Rightarrow> matchesPrincipalMap v who
      | JArray v \<Rightarrow> matchesPrincipalSlice v who
      | JScalar _ \<Rightarrow> False)"

definition matchesStringOrSlice :: "json_value \<Rightarrow> string \<Rightarrow> bool" where
  "matchesStringOrSlice val target =
     (case val of
        JString v \<Rightarrow> globMatch v target
      | JArray v \<Rightarrow> list_ex (\<lambda>item. case item of JString s \<Rightarrow> globMatch s target | _ \<Rightarrow> False) v
      | _ \<Rightarrow> False)"

definition matchesActions :: "statement \<Rightarrow> string \<Rightarrow> bool" where
  "matchesActions stmt action = matchesStringOrSlice (st_Action stmt) action"

definition matchesResources :: "statement \<Rightarrow> string \<Rightarrow> bool" where
  "matchesResources stmt resource = matchesStringOrSlice (st_Resource stmt) resource"

text \<open>The loop of \<open>EvalPolicy\<close>; \<open>allow\<close> is the named result.\<close>

fun eval_statements :: "statement list \<Rightarrow> string \<Rightarrow> string \<Rightarrow> string \<Rightarrow> bool \<Rightarrow> bool \<times> bool" where
  "eval_statements [] who action resource allow = (allow, False)"
| "eval_statements (stmt # stmts) who action resource allow =
     (if \<not> matchesPrincipal stmt who then eval_statements stmts who action resource allow
      else if \<not> matchesActions stmt action then eval_statements stmts who action resource allow
      else if \<not> matchesResources stmt resource then eval_statements stmts who action resource allow
      else if st_Effect stmt = ''Deny'' then (False, True)
      else if st_Effect stmt = ''Allow'' then eval_statements stmts who action resource True
      else eval_statements stmts who action resource allow)"

definition EvalPolicy :: "policy option \<Rightarrow> string \<Rightarrow> string \<Rightarrow> string \<Rightarrow> bool \<times> bool" where
  "EvalPolicy p who action resource =
     (case p of None \<Rightarrow> (False, False)
      | Some q \<Rightarrow> eval_statements (po_Statements q) who action resource False)"

definition IsAllowed ::
    "(string \<Rightarrow> policy result) \<Rightarrow> bool \<Rightarrow> string \<Rightarrow> string \<Rightarrow> string \<Rightarrow> string \<Rightarrow> string \<Rightarrow> bool" where
  "IsAllowed unmarshal isRoot action who bucket key policyJSON =
     (if isRoot then True
      else case ParsePolicy unmarshal policyJSON of
             Inl err \<Rightarrow> False
           | Inr None \<Rightarrow> True
           | Inr (Some p) \<Rightarrow>
               (let resource = ''arn:aws:s3:::'' @ bucket @ (if key \<noteq> [] then ''/'' @ key else [])
                in case EvalPolicy (Some p) who action resource of
                     (allow, deny) \<Rightarrow> if deny then False else allow))"

section \<open>Canned ACLs\<close>

datatype ACLPermission = PermRead | PermWrite | PermFullControl

definition CheckACL :: "string \<Rightarrow> string \<Rightarrow> string \<Rightarrow> ACLPermission \<Rightarrow> bool \<Rightarrow> bool" where
  "CheckACL acl bucketOwner requestOwner perm isAuthenticated =
     (let isOwner = (requestOwner \<noteq> [] \<and> requestOwner = bucketOwner) in
      if acl = ''public-read-write'' then True
      else if acl = ''public-read'' then (if perm = PermRead then True else isOwner)
      else if acl = ''authenticated-read'' then (if perm = PermRead \<and> isAuthenticated then True else isOwner)
      else isOwner)"

section \<open>Glob matching, declaratively\<close>

text \<open>
  What a pattern means: a star stands for any string, a question mark for one byte, any other byte
  for itself up to case.
\<close>

inductive glob :: "string \<Rightarrow> string \<Rightarrow> bool" where
  glob_Nil: "glob [] []"
| glob_star: "glob p t \<Longrightarrow> glob (CHR ''*'' # p) (s @ t)"
| glob_any: "glob p t \<Longrightarrow> glob (CHR ''?'' # p) (d # t)"
| glob_char: "c \<noteq> CHR ''*'' \<Longrightarrow> c \<noteq> CHR ''?'' \<Longrightarrow> fold_eq c d \<Longrightarrow> glob p t \<Longrightarrow> glob (c # p) (d # t)"

inductive_simps glob_Nil_simps: "glob [] t"
inductive_simps glob_Cons_simps: "glob (c # p) t"

lemma in_suffixes_of: "s \<in> set (suffixes_of t) \<longleftrightarrow> suffix s t"
  by (induction t) (auto simp: suffix_Cons)

lemma glob_stars: "glob (CHR ''*'' # p) t \<longleftrightarrow> (\<exists>s. suffix s t \<and> glob p s)"
  by (auto simp: glob_Cons_simps suffix_def)

lemma glob_skip_stars: "glob (CHR ''*'' # skip_stars p) t \<longleftrightarrow> glob (CHR ''*'' # p) t"
proof (induction p arbitrary: t)
  case Nil
  then show ?case by simp
next
  case (Cons c p)
  show ?case
  proof (cases "c = CHR ''*''")
    case True
    have "glob (CHR ''*'' # CHR ''*'' # p) t \<longleftrightarrow> glob (CHR ''*'' # p) t"
      by (auto simp: glob_stars intro: suffix_order.trans)
    with True Cons.IH show ?thesis by simp
  qed simp
qed

lemma globMatchRecursive_glob: "globMatchRecursive p t \<longleftrightarrow> glob p t"
proof (induction p t rule: globMatchRecursive.induct)
  case (1 t)
  then show ?case by (simp add: glob_Nil_simps)
next
  case (2 c p t)
  consider "c = CHR ''*''" | "c = CHR ''?''" | "c \<noteq> CHR ''*''" "c \<noteq> CHR ''?''" by blast
  then show ?case
  proof cases
    case 1
    show ?thesis
    proof (cases "skip_stars p")
      case Nil
      then have "glob (CHR ''*'' # p) t"
        using glob_skip_stars [of p t] glob_star [OF glob_Nil, of t] by simp
      with Nil 1 show ?thesis by simp
    next
      case (Cons q qs)
      have "globMatchRecursive (c # p) t \<longleftrightarrow> (\<exists>s. suffix s t \<and> glob (q # qs) s)"
        using 1 Cons 2(1) [OF 1 Cons] by (auto simp: list_ex_iff in_suffixes_of)
      also have "\<dots> \<longleftrightarrow> glob (CHR ''*'' # q # qs) t" by (simp add: glob_stars)
      finally show ?thesis using 1 Cons glob_skip_stars [of p t] by simp
    qed
  next
    case 2
    with "2.IH"(2) show ?thesis by (cases t) (auto simp: glob_Cons_simps)
  next
    case 3
    with "2.IH"(3) show ?thesis by (cases t) (auto simp: glob_Cons_simps)
  qed
qed

lemma globMatch_glob: "globMatch p t \<longleftrightarrow> glob p t"
  using glob_star [OF glob_Nil, of t] by (simp add: globMatch_def globMatchRecursive_glob)

section \<open>Evaluation, independent of the order\<close>

definition applies :: "statement \<Rightarrow> string \<Rightarrow> string \<Rightarrow> string \<Rightarrow> bool" where
  "applies stmt who action resource \<longleftrightarrow>
     matchesPrincipal stmt who \<and> matchesActions stmt action \<and> matchesResources stmt resource"

lemma eval_statements_spec:
  "eval_statements stmts pr ac rs allow =
     (if \<exists>s \<in> set stmts. applies s pr ac rs \<and> st_Effect s = ''Deny'' then (False, True)
      else (allow \<or> (\<exists>s \<in> set stmts. applies s pr ac rs \<and> st_Effect s = ''Allow''), False))"
proof (induction stmts arbitrary: allow)
  case (Cons s ss)
  have step: "eval_statements (s # ss) pr ac rs allow =
     (if \<not> applies s pr ac rs then eval_statements ss pr ac rs allow
      else if st_Effect s = ''Deny'' then (False, True)
      else if st_Effect s = ''Allow'' then eval_statements ss pr ac rs True
      else eval_statements ss pr ac rs allow)"
    by (simp add: applies_def)
  show ?case unfolding step Cons.IH by auto
qed simp

section \<open>Properties\<close>

text \<open>
  C17: the matcher of policies computes the meaning of its patterns: with any number of stars and
  question marks, in any place, it accepts exactly the targets the declarative relation admits, and
  it always returns.
\<close>

theorem globMatch_correct: "globMatch pattern target \<longleftrightarrow> glob pattern target"
  by (rule globMatch_glob)

text \<open>
  C18: a policy denies when some applicable statement denies, whatever else it says and in whatever
  order; otherwise it allows exactly when some applicable statement allows. No policy neither allows
  nor denies.
\<close>

theorem explicit_deny_wins:
  "EvalPolicy (Some p) who action resource =
     (if \<exists>s \<in> set (po_Statements p). applies s who action resource \<and> st_Effect s = ''Deny'' then (False, True)
      else (\<exists>s \<in> set (po_Statements p). applies s who action resource \<and> st_Effect s = ''Allow'', False))"
  by (simp add: EvalPolicy_def eval_statements_spec)

text \<open>
  a user who is not root and acts on a bucket with a policy is let through only by a statement
  that names the principal, the action and the resource and allows it, and never against a statement
  that denies it; a policy that cannot be read lets nobody through.
\<close>

theorem is_allowed_only_by_policy:
  assumes "IsAllowed unmarshal False action who bucket key policyJSON" and "policyJSON \<noteq> []"
  shows "\<exists>p. unmarshal policyJSON = Inr p \<and>
     (\<exists>s \<in> set (po_Statements p). st_Effect s = ''Allow'' \<and>
        applies s who action (''arn:aws:s3:::'' @ bucket @ (if key \<noteq> [] then ''/'' @ key else []))) \<and>
     \<not> (\<exists>s \<in> set (po_Statements p). st_Effect s = ''Deny'' \<and>
        applies s who action (''arn:aws:s3:::'' @ bucket @ (if key \<noteq> [] then ''/'' @ key else [])))"
  using assms
  by (auto simp: IsAllowed_def ParsePolicy_def Let_def EvalPolicy_def eval_statements_spec split: sum.splits if_splits)

definition demo_policy :: policy where
  "demo_policy = \<lparr>po_Version = ''2012-10-17'', po_Statements = [
     \<lparr>st_Sid = [], st_Effect = ''Allow'', st_Principal = JMap [(''AWS'', JArray [JString ''alice''])],
      st_Action = JArray [JString ''s3:Get*''], st_Resource = JString ''arn:aws:s3:::docs/*'', st_Condition = JNull\<rparr>]\<rparr>"

lemma is_allowed_only_by_policy_witness:
  "\<exists>s \<in> set (po_Statements demo_policy). applies s ''alice'' ''s3:GetObject'' ''arn:aws:s3:::docs/a''"
proof -
  have "IsAllowed (\<lambda>_. Inr demo_policy) False ''s3:GetObject'' ''alice'' ''docs'' ''a'' ''{}''"
    by code_simp
  from is_allowed_only_by_policy [OF this] show ?thesis by auto
qed

text \<open>
  The comparison of policy patterns is not the comparison of names: a resource pattern with a
  character outside ASCII also matches names with other such characters, so that a statement about
  one object applies to another.
\<close>

lemma glob_confuses_non_ascii:
  "globMatch [CHR 0xC3, CHR 0xA9] [CHR 0xC3, CHR 0xBC]"
  by code_simp

text \<open>
  The canned ACLs: the owner may do everything; somebody else writes only under \<open>public-read-write\<close>,
  and reads only under that, \<open>public-read\<close>, or, authenticated, \<open>authenticated-read\<close>.
\<close>

lemma acl_rights:
  "CheckACL acl bucketOwner requestOwner perm isAuthenticated \<longleftrightarrow>
     (requestOwner \<noteq> [] \<and> requestOwner = bucketOwner) \<or> acl = ''public-read-write'' \<or>
     (perm = PermRead \<and> (acl = ''public-read'' \<or> (acl = ''authenticated-read'' \<and> isAuthenticated)))"
  by (auto simp: CheckACL_def Let_def)

end
