(* ===== verification/Meta_Interface.thy ===== *)
theory Meta_Interface
  imports Metadata_Types
begin

text \<open>
  The interface \<open>metadata.Store\<close> (internal/metadata/store.go). A store is a record of its
  operations over a state of type \<open>'m\<close>. A writing operation runs in one database transaction: it
  returns an error, and then nothing has changed, or the new state. A read returns an error or its
  result.

  \<open>meta_view\<close> is what a store holds, as partial maps, and the locale \<open>metadata_store\<close> states what
  the interface promises about it. The engine and the key store are verified against the locale;
  theory Bolt_Store shows that the bbolt implementation satisfies it.
\<close>

record 'm meta_store =
  m_PutBucket :: "'m \<Rightarrow> bucket_record \<Rightarrow> 'm result"
  m_GetBucket :: "'m \<Rightarrow> string \<Rightarrow> bucket_record result"
  m_DeleteBucket :: "'m \<Rightarrow> string \<Rightarrow> 'm result"
  m_ListBuckets :: "'m \<Rightarrow> bucket_record list result"
  m_BucketExists :: "'m \<Rightarrow> string \<Rightarrow> bool result"
  m_PutObject :: "'m \<Rightarrow> object_record \<Rightarrow> 'm result"
  m_GetObject :: "'m \<Rightarrow> string \<Rightarrow> string \<Rightarrow> object_record result"
  m_DeleteObject :: "'m \<Rightarrow> string \<Rightarrow> string \<Rightarrow> 'm result"
  m_ListObjects :: "'m \<Rightarrow> string \<Rightarrow> list_options \<Rightarrow> (object_record list \<times> string list) result"
  m_ObjectExists :: "'m \<Rightarrow> string \<Rightarrow> string \<Rightarrow> bool result"
  m_UpdateBucketStats :: "'m \<Rightarrow> string \<Rightarrow> int64 \<Rightarrow> int64 \<Rightarrow> 'm result"
  m_PutVersion :: "'m \<Rightarrow> version_record \<Rightarrow> 'm result"
  m_GetVersion :: "'m \<Rightarrow> string \<Rightarrow> string \<Rightarrow> string \<Rightarrow> version_record result"
  m_ListVersions :: "'m \<Rightarrow> string \<Rightarrow> string \<Rightarrow> version_record list result"
  m_ListBucketVersions :: "'m \<Rightarrow> string \<Rightarrow> list_options \<Rightarrow> version_record list result"
  m_DeleteVersion :: "'m \<Rightarrow> string \<Rightarrow> string \<Rightarrow> string \<Rightarrow> 'm result"
  m_MarkVersionsNotLatest :: "'m \<Rightarrow> string \<Rightarrow> string \<Rightarrow> 'm result"
  m_PutMultipart :: "'m \<Rightarrow> multipart_record \<Rightarrow> 'm result"
  m_GetMultipart :: "'m \<Rightarrow> string \<Rightarrow> multipart_record result"
  m_DeleteMultipart :: "'m \<Rightarrow> string \<Rightarrow> 'm result"
  m_ListMultiparts :: "'m \<Rightarrow> string \<Rightarrow> multipart_record list result"
  m_PutPart :: "'m \<Rightarrow> part_record \<Rightarrow> 'm result"
  m_ListParts :: "'m \<Rightarrow> string \<Rightarrow> part_record list result"
  m_DeleteParts :: "'m \<Rightarrow> string \<Rightarrow> 'm result"
  m_PutAccessKey :: "'m \<Rightarrow> access_key_record \<Rightarrow> 'm result"
  m_GetAccessKey :: "'m \<Rightarrow> string \<Rightarrow> access_key_record result"
  m_DeleteAccessKey :: "'m \<Rightarrow> string \<Rightarrow> 'm result"
  m_ListAccessKeys :: "'m \<Rightarrow> access_key_record list result"

record meta_view =
  mv_buckets :: "string \<Rightarrow> bucket_record option"
  mv_objects :: "string \<Rightarrow> string \<Rightarrow> object_record option"
  mv_versions :: "string \<Rightarrow> string \<Rightarrow> string \<Rightarrow> version_record option"
  mv_multiparts :: "string \<Rightarrow> multipart_record option"
  mv_parts :: "string \<Rightarrow> int \<Rightarrow> part_record option"
  mv_keys :: "string \<Rightarrow> access_key_record option"

text \<open>
  The references for which the laws are promised: the length of a database key is bounded, and
  the byte that separates its parts does not occur in them.
\<close>

definition max_key_size :: nat where
  "max_key_size = 32768"

definition name_ok :: "string \<Rightarrow> bool" where
  "name_ok b \<longleftrightarrow> nulfree b \<and> b \<noteq> [] \<and> length b \<le> max_key_size"

definition object_ok :: "string \<Rightarrow> string \<Rightarrow> bool" where
  "object_ok b k \<longleftrightarrow> name_ok b \<and> length b + length k + 1 \<le> max_key_size"

definition version_ok :: "string \<Rightarrow> string \<Rightarrow> string \<Rightarrow> bool" where
  "version_ok b k v \<longleftrightarrow>
     name_ok b \<and> nulfree k \<and> length b + length k + length v + 2 \<le> max_key_size"

definition part_ok :: "string \<Rightarrow> int \<Rightarrow> bool" where
  "part_ok u n \<longleftrightarrow> name_ok u \<and> length u + 6 \<le> max_key_size \<and> 0 \<le> n \<and> n < 100000"

text \<open>Every record is stored under the names it carries.\<close>

definition view_wf :: "meta_view \<Rightarrow> bool" where
  "view_wf w \<longleftrightarrow>
     (\<forall>b r. mv_buckets w b = Some r \<longrightarrow> br_Name r = b \<and> name_ok b) \<and>
     (\<forall>b k r. mv_objects w b k = Some r \<longrightarrow> or_Bucket r = b \<and> or_Key r = k \<and> object_ok b k) \<and>
     (\<forall>b k v r. mv_versions w b k v = Some r \<longrightarrow>
        vr_Bucket r = b \<and> vr_Key r = k \<and> vr_VersionID r = v \<and> version_ok b k v) \<and>
     (\<forall>u r. mv_multiparts w u = Some r \<longrightarrow> mr_UploadID r = u \<and> name_ok u) \<and>
     (\<forall>u n r. mv_parts w u n = Some r \<longrightarrow> pr_UploadID r = u \<and> pr_PartNumber r = n \<and> part_ok u n) \<and>
     (\<forall>i a. mv_keys w i = Some a \<longrightarrow> ak_AccessKey a = i)"

definition put_object_view :: "object_record \<Rightarrow> meta_view \<Rightarrow> meta_view" where
  "put_object_view r w = w\<lparr>mv_objects := (mv_objects w)(or_Bucket r :=
     (mv_objects w (or_Bucket r))(or_Key r \<mapsto> r))\<rparr>"

definition del_object_view :: "string \<Rightarrow> string \<Rightarrow> meta_view \<Rightarrow> meta_view" where
  "del_object_view b k w = w\<lparr>mv_objects := (mv_objects w)(b := (mv_objects w b)(k := None))\<rparr>"

definition add_stats :: "int64 \<Rightarrow> int64 \<Rightarrow> bucket_record \<Rightarrow> bucket_record" where
  "add_stats dc db r = r\<lparr>br_ObjectCount := br_ObjectCount r + dc, br_TotalBytes := br_TotalBytes r + db\<rparr>"

definition stats_view :: "string \<Rightarrow> int64 \<Rightarrow> int64 \<Rightarrow> meta_view \<Rightarrow> meta_view" where
  "stats_view b dc db w =
     w\<lparr>mv_buckets := (mv_buckets w)(b := map_option (add_stats dc db) (mv_buckets w b))\<rparr>"

definition put_version_view :: "version_record \<Rightarrow> meta_view \<Rightarrow> meta_view" where
  "put_version_view r w = w\<lparr>mv_versions := (mv_versions w)(vr_Bucket r :=
     (mv_versions w (vr_Bucket r))(vr_Key r :=
       (mv_versions w (vr_Bucket r) (vr_Key r))(vr_VersionID r \<mapsto> r)))\<rparr>"

definition del_version_view :: "string \<Rightarrow> string \<Rightarrow> string \<Rightarrow> meta_view \<Rightarrow> meta_view" where
  "del_version_view b k v w = w\<lparr>mv_versions := (mv_versions w)(b :=
     (mv_versions w b)(k := (mv_versions w b k)(v := None)))\<rparr>"

definition unlatest :: "version_record \<Rightarrow> version_record" where
  "unlatest r = r\<lparr>vr_IsLatest := False\<rparr>"

definition mark_view :: "string \<Rightarrow> string \<Rightarrow> meta_view \<Rightarrow> meta_view" where
  "mark_view b k w = w\<lparr>mv_versions := (mv_versions w)(b :=
     (mv_versions w b)(k := map_option unlatest \<circ> mv_versions w b k))\<rparr>"

definition put_part_view :: "part_record \<Rightarrow> meta_view \<Rightarrow> meta_view" where
  "put_part_view r w = w\<lparr>mv_parts := (mv_parts w)(pr_UploadID r :=
     (mv_parts w (pr_UploadID r))(pr_PartNumber r \<mapsto> r))\<rparr>"

text \<open>
  \<open>found\<close>: a read returns what the view holds, and an error recognised by \<open>isNotFound\<close> when it
  holds nothing; \<open>wrote\<close>: a write succeeded and its effect on the view is as stated.
\<close>

definition found :: "'a result \<Rightarrow> 'a option \<Rightarrow> bool" where
  "found r x \<longleftrightarrow> (case x of Some y \<Rightarrow> r = Inr y | None \<Rightarrow> (\<exists>e. r = Inl e \<and> isNotFound e))"

definition wrote :: "('m \<Rightarrow> bool) \<Rightarrow> ('m \<Rightarrow> meta_view) \<Rightarrow> 'm result \<Rightarrow> meta_view \<Rightarrow> bool" where
  "wrote sinv view r w \<longleftrightarrow> (\<exists>m. r = Inr m \<and> sinv m \<and> view m = w)"

lemma found_Some [simp]: "found r (Some y) \<longleftrightarrow> r = Inr y"
  by (simp add: found_def)

lemma found_None [simp]: "found r None \<longleftrightarrow> (\<exists>e. r = Inl e \<and> isNotFound e)"
  by (simp add: found_def)

lemma wroteE: "wrote sinv view r w \<Longrightarrow> (\<And>m. r = Inr m \<Longrightarrow> sinv m \<Longrightarrow> view m = w \<Longrightarrow> P) \<Longrightarrow> P"
  by (auto simp: wrote_def)

text \<open>
  The effective limit of a listing: \<open>MaxKeys\<close> or 1000 when it is not positive.
\<close>

definition max_keys :: "list_options \<Rightarrow> nat" where
  "max_keys opts = (if lo_MaxKeys opts \<le> 0 then 1000 else nat (lo_MaxKeys opts))"

locale metadata_store =
  fixes M :: "'m meta_store"
    and view :: "'m \<Rightarrow> meta_view"
    and sinv :: "'m \<Rightarrow> bool"
  assumes wf: "sinv m \<Longrightarrow> view_wf (view m)"
    and put_bucket: "sinv m \<Longrightarrow> name_ok (br_Name b) \<Longrightarrow>
      wrote sinv view (m_PutBucket M m b)
        ((view m)\<lparr>mv_buckets := (mv_buckets (view m))(br_Name b \<mapsto> b)\<rparr>)"
    and get_bucket: "sinv m \<Longrightarrow> found (m_GetBucket M m n) (mv_buckets (view m) n)"
    and delete_bucket: "sinv m \<Longrightarrow> wrote sinv view (m_DeleteBucket M m n)
        ((view m)\<lparr>mv_buckets := (mv_buckets (view m))(n := None)\<rparr>)"
    and list_buckets: "sinv m \<Longrightarrow> \<exists>bs. m_ListBuckets M m = Inr bs \<and>
        sorted_wrt (<) (map br_Name bs) \<and>
        (\<forall>b. b \<in> set bs \<longleftrightarrow> mv_buckets (view m) (br_Name b) = Some b)"
    and bucket_exists: "sinv m \<Longrightarrow> m_BucketExists M m n = Inr (mv_buckets (view m) n \<noteq> None)"
    and put_object: "sinv m \<Longrightarrow> object_ok (or_Bucket x) (or_Key x) \<Longrightarrow>
      wrote sinv view (m_PutObject M m x) (put_object_view x (view m))"
    and get_object: "sinv m \<Longrightarrow> nulfree n \<Longrightarrow> found (m_GetObject M m n k) (mv_objects (view m) n k)"
    and delete_object: "sinv m \<Longrightarrow> nulfree n \<Longrightarrow>
      wrote sinv view (m_DeleteObject M m n k) (del_object_view n k (view m))"
    and object_exists: "sinv m \<Longrightarrow> nulfree n \<Longrightarrow>
      m_ObjectExists M m n k = Inr (mv_objects (view m) n k \<noteq> None)"
    and list_objects: "sinv m \<Longrightarrow> nulfree n \<Longrightarrow> lo_Delimiter opts = [] \<Longrightarrow>
      lo_ContinuationToken opts = [] \<Longrightarrow> lo_StartAfter opts = [] \<Longrightarrow>
      \<exists>xs. m_ListObjects M m n opts = Inr (take (max_keys opts) xs, []) \<and>
        sorted_wrt (<) (map or_Key xs) \<and>
        (\<forall>x. x \<in> set xs \<longleftrightarrow> mv_objects (view m) n (or_Key x) = Some x \<and> prefix (lo_Prefix opts) (or_Key x))"
    and update_stats: "sinv m \<Longrightarrow> mv_buckets (view m) n \<noteq> None \<Longrightarrow>
      wrote sinv view (m_UpdateBucketStats M m n dc db) (stats_view n dc db (view m))"
    and update_stats_none: "sinv m \<Longrightarrow> mv_buckets (view m) n = None \<Longrightarrow>
      \<exists>e. m_UpdateBucketStats M m n dc db = Inl e \<and> isNotFound e"
    and put_version: "sinv m \<Longrightarrow> version_ok (vr_Bucket v) (vr_Key v) (vr_VersionID v) \<Longrightarrow>
      wrote sinv view (m_PutVersion M m v) (put_version_view v (view m))"
    and get_version: "sinv m \<Longrightarrow> nulfree n \<Longrightarrow> nulfree k \<Longrightarrow>
      found (m_GetVersion M m n k i) (mv_versions (view m) n k i)"
    and list_versions: "sinv m \<Longrightarrow> nulfree n \<Longrightarrow> nulfree k \<Longrightarrow>
      \<exists>vs. m_ListVersions M m n k = Inr vs \<and> distinct (map vr_VersionID vs) \<and>
        sorted_wrt (\<ge>) (map vr_LastModified vs) \<and>
        (\<forall>v. v \<in> set vs \<longleftrightarrow> mv_versions (view m) n k (vr_VersionID v) = Some v)"
    and delete_version: "sinv m \<Longrightarrow> nulfree n \<Longrightarrow> nulfree k \<Longrightarrow>
      wrote sinv view (m_DeleteVersion M m n k i) (del_version_view n k i (view m))"
    and mark_not_latest: "sinv m \<Longrightarrow> nulfree n \<Longrightarrow> nulfree k \<Longrightarrow>
      wrote sinv view (m_MarkVersionsNotLatest M m n k) (mark_view n k (view m))"
    and put_multipart: "sinv m \<Longrightarrow> name_ok (mr_UploadID u) \<Longrightarrow>
      wrote sinv view (m_PutMultipart M m u)
        ((view m)\<lparr>mv_multiparts := (mv_multiparts (view m))(mr_UploadID u \<mapsto> u)\<rparr>)"
    and get_multipart: "sinv m \<Longrightarrow> found (m_GetMultipart M m i) (mv_multiparts (view m) i)"
    and delete_multipart: "sinv m \<Longrightarrow> wrote sinv view (m_DeleteMultipart M m i)
        ((view m)\<lparr>mv_multiparts := (mv_multiparts (view m))(i := None)\<rparr>)"
    and list_multiparts: "sinv m \<Longrightarrow> \<exists>us. m_ListMultiparts M m n = Inr us \<and>
        distinct (map mr_UploadID us) \<and>
        (\<forall>u. u \<in> set us \<longleftrightarrow> mv_multiparts (view m) (mr_UploadID u) = Some u \<and> mr_Bucket u = n)"
    and put_part: "sinv m \<Longrightarrow> part_ok (pr_UploadID p) (pr_PartNumber p) \<Longrightarrow>
      wrote sinv view (m_PutPart M m p) (put_part_view p (view m))"
    and list_parts: "sinv m \<Longrightarrow> nulfree i \<Longrightarrow> \<exists>ps. m_ListParts M m i = Inr ps \<and>
        sorted_wrt (<) (map pr_PartNumber ps) \<and>
        (\<forall>p. p \<in> set ps \<longleftrightarrow> mv_parts (view m) i (pr_PartNumber p) = Some p)"
    and delete_parts: "sinv m \<Longrightarrow> nulfree i \<Longrightarrow> wrote sinv view (m_DeleteParts M m i)
        ((view m)\<lparr>mv_parts := (mv_parts (view m))(i := Map.empty)\<rparr>)"
    and put_key: "sinv m \<Longrightarrow> ak_AccessKey a \<noteq> [] \<Longrightarrow> length (ak_AccessKey a) \<le> max_key_size \<Longrightarrow>
      wrote sinv view (m_PutAccessKey M m a)
        ((view m)\<lparr>mv_keys := (mv_keys (view m))(ak_AccessKey a \<mapsto> a)\<rparr>)"
    and get_key: "sinv m \<Longrightarrow> found (m_GetAccessKey M m i) (mv_keys (view m) i)"
    and delete_key: "sinv m \<Longrightarrow> wrote sinv view (m_DeleteAccessKey M m i)
        ((view m)\<lparr>mv_keys := (mv_keys (view m))(i := None)\<rparr>)"
    and list_keys: "sinv m \<Longrightarrow> \<exists>as. m_ListAccessKeys M m = Inr as \<and>
        distinct (map ak_AccessKey as) \<and>
        (\<forall>a. a \<in> set as \<longleftrightarrow> mv_keys (view m) (ak_AccessKey a) = Some a)"

text \<open>Lemmas that every client of the interface uses.\<close>

context metadata_store
begin

lemma bucket_named: "sinv m \<Longrightarrow> mv_buckets (view m) n = Some b \<Longrightarrow> br_Name b = n \<and> name_ok n"
  using wf by (auto simp: view_wf_def)

lemma object_named:
  "sinv m \<Longrightarrow> mv_objects (view m) n k = Some x \<Longrightarrow> or_Bucket x = n \<and> or_Key x = k \<and> object_ok n k"
  using wf by (auto simp: view_wf_def)

lemma version_named: "sinv m \<Longrightarrow> mv_versions (view m) n k i = Some v \<Longrightarrow>
    vr_Bucket v = n \<and> vr_Key v = k \<and> vr_VersionID v = i \<and> version_ok n k i"
  using wf by (auto simp: view_wf_def)

lemma get_bucket_Some: "sinv m \<Longrightarrow> mv_buckets (view m) n = Some b \<Longrightarrow> m_GetBucket M m n = Inr b"
  using get_bucket [of m n] by simp

lemma get_bucket_None: "sinv m \<Longrightarrow> mv_buckets (view m) n = None \<Longrightarrow>
    \<exists>e. m_GetBucket M m n = Inl e \<and> isNotFound e"
  using get_bucket [of m n] by simp

lemma get_bucketD: "sinv m \<Longrightarrow> m_GetBucket M m n = Inr b \<Longrightarrow> mv_buckets (view m) n = Some b"
  using get_bucket [of m n] by (cases "mv_buckets (view m) n") auto

lemma get_bucket_errD: "sinv m \<Longrightarrow> m_GetBucket M m n = Inl e \<Longrightarrow>
    mv_buckets (view m) n = None \<and> isNotFound e"
  using get_bucket [of m n] by (cases "mv_buckets (view m) n") auto

lemma get_object_Some: "sinv m \<Longrightarrow> nulfree n \<Longrightarrow> mv_objects (view m) n k = Some x \<Longrightarrow>
    m_GetObject M m n k = Inr x"
  using get_object [of m n k] by simp

lemma get_object_None: "sinv m \<Longrightarrow> nulfree n \<Longrightarrow> mv_objects (view m) n k = None \<Longrightarrow>
    \<exists>e. m_GetObject M m n k = Inl e \<and> isNotFound e"
  using get_object [of m n k] by simp

lemma get_objectD: "sinv m \<Longrightarrow> nulfree n \<Longrightarrow> m_GetObject M m n k = Inr x \<Longrightarrow>
    mv_objects (view m) n k = Some x"
  using get_object [of m n k] by (cases "mv_objects (view m) n k") auto

lemma get_object_errD: "sinv m \<Longrightarrow> nulfree n \<Longrightarrow> m_GetObject M m n k = Inl e \<Longrightarrow>
    mv_objects (view m) n k = None \<and> isNotFound e"
  using get_object [of m n k] by (cases "mv_objects (view m) n k") auto

end

end
