(* ===== verification/Http_Request.thy ===== *)
theory Http_Request
  imports Go_Errors "HOL-Library.Multiset"
begin

text \<open>
  A request as the authentication code sees it: the parts of \<open>net/http.Request\<close> it reads, with
  header lookup, and the query and percent encodings of \<open>net/url\<close>. \<open>rq_Path\<close> is the decoded
  \<open>URL.Path\<close>, \<open>rq_RawQuery\<close> the query as sent. A \<open>map[string][]string\<close> is an association list; the
  order of its keys is the order in which a \<open>range\<close> loop happens to visit them.
\<close>

type_synonym multi_map = "(string \<times> string list) list"

record request =
  rq_Method :: string
  rq_Host :: string
  rq_Path :: string
  rq_RawQuery :: string
  rq_Header :: multi_map

section \<open>Headers\<close>

text \<open>\<open>textproto.CanonicalMIMEHeaderKey\<close>: a name with a byte that is no token byte is left as it is.\<close>

definition token_byte :: "char \<Rightarrow> bool" where
  "token_byte c \<longleftrightarrow>
     (let n = of_char c :: nat in
      (48 \<le> n \<and> n \<le> 57) \<or> (65 \<le> n \<and> n \<le> 90) \<or> (97 \<le> n \<and> n \<le> 122) \<or> c \<in> set ''!#$%&*+-.^_|~'' \<or> n = 39 \<or> n = 96)"

definition upper_char :: "char \<Rightarrow> char" where
  "upper_char c =
     (let n = of_char c :: nat in if 97 \<le> n \<and> n \<le> 122 then char_of (n - 32) else c)"

fun title_case :: "bool \<Rightarrow> string \<Rightarrow> string" where
  "title_case up [] = []"
| "title_case up (c # cs) = (if up then upper_char c else lower_char c) # title_case (c = CHR ''-'') cs"

definition CanonicalHeaderKey :: "string \<Rightarrow> string" where
  "CanonicalHeaderKey s = (if list_all token_byte s then title_case True s else s)"

definition multi_get :: "multi_map \<Rightarrow> string \<Rightarrow> string" where
  "multi_get m k = (case map_of m k of Some (v # vs) \<Rightarrow> v | _ \<Rightarrow> [])"

definition Header_Get :: "request \<Rightarrow> string \<Rightarrow> string" where
  "Header_Get r name = multi_get (rq_Header r) (CanonicalHeaderKey name)"

section \<open>Percent encoding\<close>

text \<open>\<open>isUnreserved\<close> and \<open>uriEncode\<close> of internal/auth/sigv4.go, with the digits of \<open>%02X\<close>.\<close>

definition isUnreserved :: "char \<Rightarrow> bool" where
  "isUnreserved c \<longleftrightarrow>
     (CHR ''A'' \<le> c \<and> c \<le> CHR ''Z'') \<or> (CHR ''a'' \<le> c \<and> c \<le> CHR ''z'') \<or> (CHR ''0'' \<le> c \<and> c \<le> CHR ''9'') \<or>
     c = CHR ''-'' \<or> c = CHR ''_'' \<or> c = CHR ''.'' \<or> c = CHR ''~''"

definition upper_hex :: "nat \<Rightarrow> char" where
  "upper_hex d = (if d < 10 then char_of (48 + d) else char_of (55 + d))"

definition pct :: "char \<Rightarrow> string" where
  "pct c = (let n = of_char c in [CHR ''%'', upper_hex (n div 16), upper_hex (n mod 16)])"

fun uriEncode :: "string \<Rightarrow> bool \<Rightarrow> string" where
  "uriEncode [] every = []"
| "uriEncode (c # s) every =
     (if isUnreserved c \<or> (\<not> every \<and> c = CHR ''/'') then [c] else pct c) @ uriEncode s every"

text \<open>\<open>url.QueryUnescape\<close>; \<open>None\<close> is its error.\<close>

fun QueryUnescape :: "string \<Rightarrow> string option" where
  "QueryUnescape [] = Some []"
| "QueryUnescape (c # s) =
     (if c = CHR ''%'' then
        (case s of
           a # b # s' \<Rightarrow>
             (case (hex_value a, hex_value b) of
                (Some x, Some y) \<Rightarrow> map_option ((#) (char_of (16 * x + y))) (QueryUnescape s')
              | _ \<Rightarrow> None)
         | _ \<Rightarrow> None)
      else map_option ((#) (if c = CHR ''+'' then CHR '' '' else c)) (QueryUnescape s))"

section \<open>Queries\<close>

text \<open>\<open>strings.Cut\<close> at one byte.\<close>

definition cut :: "char \<Rightarrow> string \<Rightarrow> string \<times> string" where
  "cut d s = (takeWhile (\<lambda>c. c \<noteq> d) s, drop 1 (dropWhile (\<lambda>c. c \<noteq> d) s))"

text \<open>
  \<open>url.ParseQuery\<close> as \<open>URL.Query\<close> uses it: malformed pieces are dropped. \<open>query_pairs\<close> are the
  pairs it adds, in order; \<open>URL_Query\<close> is the map.
\<close>

definition query_piece :: "string \<Rightarrow> (string \<times> string) list" where
  "query_piece p =
     (if CHR '';'' \<in> set p \<or> p = [] then []
      else case cut CHR ''='' p of
        (k, v) \<Rightarrow>
          (case (QueryUnescape k, QueryUnescape v) of
             (Some k', Some v') \<Rightarrow> [(k', v')]
           | _ \<Rightarrow> []))"

definition query_pairs :: "string \<Rightarrow> (string \<times> string) list" where
  "query_pairs raw = concat (map query_piece (Split CHR ''&'' raw))"

definition multi_add :: "string \<Rightarrow> string \<Rightarrow> multi_map \<Rightarrow> multi_map" where
  "multi_add k v m = AList.update k ((case map_of m k of Some vs \<Rightarrow> vs | None \<Rightarrow> []) @ [v]) m"

definition URL_Query :: "request \<Rightarrow> multi_map" where
  "URL_Query r = foldl (\<lambda>m (k, v). multi_add k v m) [] (query_pairs (rq_RawQuery r))"

text \<open>\<open>url.Values.Del\<close>.\<close>

definition multi_del :: "string \<Rightarrow> multi_map \<Rightarrow> multi_map" where
  "multi_del k m = filter (\<lambda>(k', vs). k' \<noteq> k) m"

text \<open>The pairs a loop over the map and over the values of each key visits.\<close>

definition pairs_of :: "multi_map \<Rightarrow> (string \<times> string) list" where
  "pairs_of m = concat (map (\<lambda>(k, vs). map (Pair k) vs) m)"

section \<open>Facts\<close>

lemma hex_value_upper: "d < 16 \<Longrightarrow> hex_value (upper_hex d) = Some d"
  by (simp add: hex_value_def upper_hex_def)

lemma QueryUnescape_pct: "QueryUnescape (pct c @ s) = map_option ((#) c) (QueryUnescape s)"
proof -
  have "(of_char c :: nat) < 16 * 16" by simp
  then have "(of_char c :: nat) div 16 < 16" by (rule less_mult_imp_div_less)
  moreover have "char_of (16 * (of_char c div 16) + of_char c mod 16 :: nat) = c"
    by (simp only: mult_div_mod_eq char_of_char)
  ultimately show ?thesis by (simp add: pct_def Let_def hex_value_upper)
qed

lemma isUnreserved_plain: "isUnreserved c \<Longrightarrow> c \<noteq> CHR ''%'' \<and> c \<noteq> CHR ''+'' \<and> c \<noteq> CHR ''='' \<and> c \<noteq> CHR ''&'' \<and>
    c \<noteq> CHR '';'' \<and> c \<noteq> CHR 0x0A \<and> c \<noteq> CHR ''/''"
  by (auto simp: isUnreserved_def less_eq_char_def)

text \<open>Decoding undoes encoding, with and without the slashes.\<close>

lemma QueryUnescape_uriEncode [simp]: "QueryUnescape (uriEncode s every) = Some s"
proof (induction s)
  case (Cons c s)
  show ?case
  proof (cases "isUnreserved c \<or> (\<not> every \<and> c = CHR ''/'')")
    case True
    then have "c \<noteq> CHR ''%'' \<and> c \<noteq> CHR ''+''" by (auto dest: isUnreserved_plain)
    with True Cons show ?thesis by simp
  next
    case False
    with Cons show ?thesis by (simp only: uriEncode.simps if_False QueryUnescape_pct) simp
  qed
qed simp

lemma uriEncode_inject [simp]: "uriEncode s every = uriEncode t every \<longleftrightarrow> s = t"
  using QueryUnescape_uriEncode option.inject by metis

lemma upper_hex_unreserved: "d < 16 \<Longrightarrow> isUnreserved (upper_hex d)"
  by (auto simp: isUnreserved_def upper_hex_def less_eq_char_def)

lemma pct_set: "x \<in> set (pct c) \<Longrightarrow> x = CHR ''%'' \<or> isUnreserved x"
proof -
  have "(of_char c :: nat) < 16 * 16" by simp
  then have "(of_char c :: nat) div 16 < 16" by (rule less_mult_imp_div_less)
  then show "x \<in> set (pct c) \<Longrightarrow> ?thesis"
    by (auto simp: pct_def Let_def upper_hex_unreserved)
qed

lemma uriEncode_set: "x \<in> set (uriEncode s every) \<Longrightarrow> x = CHR ''%'' \<or> isUnreserved x \<or> (\<not> every \<and> x = CHR ''/'')"
  by (induction s) (auto dest: pct_set split: if_splits)

lemma uriEncode_plain:
  "CHR ''='' \<notin> set (uriEncode s every)" "CHR ''&'' \<notin> set (uriEncode s every)"
  "CHR '';'' \<notin> set (uriEncode s every)" "CHR 0x0A \<notin> set (uriEncode s every)"
  "CHR ''/'' \<notin> set (uriEncode s True)"
  by (auto dest!: uriEncode_set isUnreserved_plain)

lemma uriEncode_append: "uriEncode (s @ t) every = uriEncode s every @ uriEncode t every"
  by (induction s) auto

lemma uriEncode_unreserved: "list_all isUnreserved s \<Longrightarrow> uriEncode s every = s"
  by (induction s) auto

text \<open>Segment by segment or in one go: the slashes are kept either way.\<close>

lemma uriEncode_segments: "Join (map (\<lambda>seg. uriEncode seg False) (Split CHR ''/'' p)) ''/'' = uriEncode p False"
proof (induction p)
  case (Cons c p)
  obtain q qs where s: "Split CHR ''/'' p = q # qs" by (cases "Split CHR ''/'' p") auto
  from Cons s show ?case
    by (cases qs) (auto simp: isUnreserved_def)
qed simp

subsection \<open>Queries\<close>

lemma cut_sep: "d \<notin> set k \<Longrightarrow> cut d (k @ d # v) = (k, v)"
proof -
  assume "d \<notin> set k"
  then have "c \<in> set k \<Longrightarrow> c \<noteq> d" for c by auto
  then show ?thesis by (simp add: cut_def takeWhile_append2 dropWhile_append2)
qed

lemma query_piece_enc:
  "query_piece (uriEncode k True @ ''='' @ uriEncode v True) = [(k, v)]"
  by (simp add: query_piece_def cut_sep uriEncode_plain)

lemma query_pairs_append:
  "CHR ''&'' \<notin> set p \<Longrightarrow> query_pairs (p @ CHR ''&'' # q) = query_piece p @ query_pairs q"
  by (simp add: query_pairs_def Split_append_sep)

lemma query_pairs_single: "CHR ''&'' \<notin> set p \<Longrightarrow> query_pairs p = query_piece p"
  by (simp add: query_pairs_def Split_no_sep)

lemma pairs_of_Nil [simp]: "pairs_of [] = []"
  by (simp add: pairs_of_def)

lemma pairs_of_Cons [simp]: "pairs_of ((k, vs) # m) = map (Pair k) vs @ pairs_of m"
  by (simp add: pairs_of_def)

lemma distinct_multi_add: "distinct (map fst m) \<Longrightarrow> distinct (map fst (multi_add k v m))"
  by (simp add: multi_add_def distinct_update)

lemma mset_pairs_update:
  "distinct (map fst m) \<Longrightarrow> k \<in> fst ` set m \<Longrightarrow>
   mset (pairs_of (AList.update k (the (map_of m k) @ [v]) m)) = mset (pairs_of m) + {#(k, v)#}"
proof (induction m)
  case (Cons e m)
  obtain k' vs where e: "e = (k', vs)" by force
  from Cons show ?case by (cases "k' = k") (auto simp: e)
qed simp

lemma mset_pairs_update_new:
  "k \<notin> fst ` set m \<Longrightarrow> mset (pairs_of (AList.update k [v] m)) = mset (pairs_of m) + {#(k, v)#}"
  by (induction m) auto

lemma mset_pairs_add:
  assumes "distinct (map fst m)"
  shows "mset (pairs_of (multi_add k v m)) = mset (pairs_of m) + {#(k, v)#}"
proof (cases "k \<in> fst ` set m")
  case True
  then obtain vs where "map_of m k = Some vs" by (metis domD dom_map_of_conv_image_fst)
  with mset_pairs_update [OF assms True, of v] show ?thesis by (simp add: multi_add_def)
next
  case False
  then have "map_of m k = None" by (simp add: map_of_eq_None_iff)
  with mset_pairs_update_new [OF False, of v] show ?thesis by (simp add: multi_add_def)
qed

lemma URL_Query_fold:
  "distinct (map fst m) \<Longrightarrow>
   distinct (map fst (foldl (\<lambda>m (k, v). multi_add k v m) m ps)) \<and>
   mset (pairs_of (foldl (\<lambda>m (k, v). multi_add k v m) m ps)) = mset (pairs_of m) + mset ps"
proof (induction ps arbitrary: m)
  case (Cons p ps)
  obtain k v where p: "p = (k, v)" by force
  from Cons.IH [OF distinct_multi_add [OF Cons.prems, of k v]] Cons.prems
  show ?case by (simp add: p mset_pairs_add)
qed simp

lemma URL_Query_pairs: "mset (pairs_of (URL_Query r)) = mset (query_pairs (rq_RawQuery r))"
  using URL_Query_fold [of "[]"] by (simp add: URL_Query_def)

lemma pairs_of_del: "pairs_of (multi_del k m) = filter (\<lambda>(k', v). k' \<noteq> k) (pairs_of m)"
proof (induction m)
  case (Cons e m)
  obtain k' vs where e: "e = (k', vs)" by force
  have "filter (\<lambda>(k', v). k' \<noteq> k) (map (Pair k') vs) = (if k' = k then [] else map (Pair k') vs)"
    by (simp add: filter_empty_conv filter_id_conv)
  with Cons show ?case by (simp add: e multi_del_def)
qed (simp add: multi_del_def)

text \<open>The first value of a key in the map is the first pair with that key.\<close>

lemma map_of_multi_add:
  "map_of (multi_add k v m) k' =
     (if k' = k then Some ((case map_of m k of Some vs \<Rightarrow> vs | None \<Rightarrow> []) @ [v]) else map_of m k')"
  by (simp add: multi_add_def)

lemma multi_get_add:
  assumes "map_of m k \<noteq> Some []"
  shows "multi_get (multi_add k v m) k' = (if k' = k \<and> map_of m k = None then v else multi_get m k')"
  using assms by (auto simp: multi_get_def map_of_multi_add split: option.splits list.splits)

lemma multi_get_fold:
  "(\<And>k'. map_of m k' \<noteq> Some []) \<Longrightarrow>
   multi_get (foldl (\<lambda>m (k, v). multi_add k v m) m ps) k =
     (if map_of m k = None then (case map_of ps k of Some v \<Rightarrow> v | None \<Rightarrow> []) else multi_get m k)"
proof (induction ps arbitrary: m)
  case Nil
  then show ?case by (simp add: multi_get_def split: option.splits list.splits)
next
  case (Cons p ps)
  obtain k2 v where p: "p = (k2, v)" by force
  have ne: "map_of (multi_add k2 v m) k' \<noteq> Some []" for k'
    using Cons.prems [of k'] by (simp add: map_of_multi_add)
  have "multi_get (foldl (\<lambda>m (k, v). multi_add k v m) m (p # ps)) k =
      (if map_of (multi_add k2 v m) k = None then (case map_of ps k of Some v \<Rightarrow> v | None \<Rightarrow> [])
       else multi_get (multi_add k2 v m) k)"
    unfolding p by (simp only: foldl_Cons prod.case Cons.IH [OF ne])
  also have "\<dots> = (if map_of m k = None then (case map_of (p # ps) k of Some v \<Rightarrow> v | None \<Rightarrow> []) else multi_get m k)"
    using Cons.prems Cons.prems [of k2] by (cases "map_of m k"; cases "k = k2") (auto simp: p multi_get_add map_of_multi_add)
  finally show ?case .
qed

lemma URL_Query_Get:
  "multi_get (URL_Query r) k = (case map_of (query_pairs (rq_RawQuery r)) k of Some v \<Rightarrow> v | None \<Rightarrow> [])"
  by (simp add: URL_Query_def multi_get_fold)

end
