(* ===== verification/Sse_Crypto.thy ===== *)
theory Sse_Crypto
  imports Go_Errors
begin

text \<open>
  Server-side encryption (internal/storage/encrypt.go). The primitives of Go's crypto packages,
  the content sniffer of net/http and \<open>json.Valid\<close> are not computed: they are the fields of a \<open>platform\<close>, a parameter
  of every definition that uses them. \<open>aead_ok\<close> is what AES-GCM promises: opening what was sealed
  under the same key and nonce gives the plaintext back. Random bytes come from a source that
  answers the i-th draw of a call; a draw does not fail.
\<close>

record platform =
  pf_md5 :: "bytes \<Rightarrow> bytes"
  pf_sha256 :: "bytes \<Rightarrow> bytes"
  pf_hmac :: "bytes \<Rightarrow> bytes \<Rightarrow> bytes"
  pf_sniff :: "bytes \<Rightarrow> string"
  pf_seal :: "bytes \<Rightarrow> bytes \<Rightarrow> bytes \<Rightarrow> bytes"
  pf_open :: "bytes \<Rightarrow> bytes \<Rightarrow> bytes \<Rightarrow> bytes option"
  pf_json_valid :: "string \<Rightarrow> bool"

definition aead_ok :: "platform \<Rightarrow> bool" where
  "aead_ok P \<longleftrightarrow> (\<forall>key nonce plain. pf_open P key nonce (pf_seal P key nonce plain) = Some plain)"

type_synonym random_source = "nat \<Rightarrow> nat \<Rightarrow> bytes"

definition random_ok :: "random_source \<Rightarrow> bool" where
  "random_ok rnd \<longleftrightarrow> (\<forall>i n. length (rnd i n) = n)"

definition sseKeySize :: nat where
  "sseKeySize = 32"

definition gcm_nonce_size :: nat where
  "gcm_nonce_size = 12"

text \<open>\<open>aes.NewCipher\<close> accepts 16, 24 and 32 byte keys.\<close>

definition new_gcm :: "bytes \<Rightarrow> err option" where
  "new_gcm key = (if length key \<in> {16, 24, 32} then None
     else Some (Wrap ''sse: cipher'' (Errorf ''crypto/aes: invalid key size'' [])))"

text \<open>The package variable \<open>masterKey\<close> is \<open>None\<close> until \<open>InitSSE\<close> sets it.\<close>

definition InitSSE :: "bytes \<Rightarrow> bytes option \<Rightarrow> unit result \<times> bytes option" where
  "InitSSE key masterKey =
     (if length key \<noteq> sseKeySize
      then (Inl (Errorf ''sse: master key must be %d bytes, got %d'' [FInt 32, FInt (int (length key))]), masterKey)
      else (Inr (), Some key))"

definition GenerateObjectKey :: "random_source \<Rightarrow> nat \<Rightarrow> bytes" where
  "GenerateObjectKey rnd i = rnd i sseKeySize"

definition EncryptKey :: "platform \<Rightarrow> bytes option \<Rightarrow> bytes \<Rightarrow> bytes \<Rightarrow> bytes result" where
  "EncryptKey P masterKey nonce objectKey =
     (case masterKey of
        None \<Rightarrow> Inl (Errorf ''sse: master key not initialised'' [])
      | Some mk \<Rightarrow>
          (case new_gcm mk of
             Some e \<Rightarrow> Inl e
           | None \<Rightarrow> Inr (nonce @ pf_seal P mk nonce objectKey)))"

definition DecryptKey :: "platform \<Rightarrow> bytes option \<Rightarrow> bytes \<Rightarrow> bytes result" where
  "DecryptKey P masterKey encryptedKey =
     (case masterKey of
        None \<Rightarrow> Inl (Errorf ''sse: master key not initialised'' [])
      | Some mk \<Rightarrow>
          (case new_gcm mk of
             Some e \<Rightarrow> Inl e
           | None \<Rightarrow>
               if length encryptedKey < gcm_nonce_size then Inl (Errorf ''sse: encrypted key too short'' [])
               else (case pf_open P mk (take gcm_nonce_size encryptedKey) (drop gcm_nonce_size encryptedKey) of
                       None \<Rightarrow> Inl (Errorf ''sse: decrypt'' [])
                     | Some plain \<Rightarrow> Inr plain)))"

text \<open>
  The stream that the encrypting writer produces from a body: the nonce, and when the whole body
  has arrived its sealed text (\<open>Write\<close> only buffers, \<open>Close\<close> seals the buffer). An error of the body
  ends the stream after the nonce.
\<close>

definition encrypt_stream :: "platform \<Rightarrow> bytes \<Rightarrow> bytes \<Rightarrow> reader \<Rightarrow> reader" where
  "encrypt_stream P key nonce body =
     (case new_gcm key of
        Some e \<Rightarrow> \<lparr>rd_data = [], rd_err = Some e\<rparr>
      | None \<Rightarrow>
          (case rd_err body of
             Some e \<Rightarrow> \<lparr>rd_data = nonce, rd_err = Some e\<rparr>
           | None \<Rightarrow> reader_of (nonce @ pf_seal P key nonce (rd_data body))))"

text \<open>\<open>NewDecryptingReader\<close> reads the whole stream before it returns.\<close>

definition NewDecryptingReader :: "platform \<Rightarrow> reader \<Rightarrow> bytes \<Rightarrow> reader result" where
  "NewDecryptingReader P r key =
     (case new_gcm key of
        Some e \<Rightarrow> Inl e
      | None \<Rightarrow>
          if length (rd_data r) < gcm_nonce_size
          then Inl (case rd_err r of
                      Some e \<Rightarrow> Wrap ''sse: read nonce'' e
                    | None \<Rightarrow> Errorf ''sse: read nonce: unexpected EOF'' [])
          else (case rd_err r of
                  Some e \<Rightarrow> Inl (Wrap ''sse: read ciphertext'' e)
                | None \<Rightarrow>
                    (case pf_open P key (take gcm_nonce_size (rd_data r)) (drop gcm_nonce_size (rd_data r)) of
                       None \<Rightarrow> Inl (Errorf ''sse: decrypt'' [])
                     | Some plain \<Rightarrow> Inr (reader_of plain))))"

section \<open>Round trips\<close>

lemma new_gcm_32 [simp]: "length key = 32 \<Longrightarrow> new_gcm key = None"
  by (simp add: new_gcm_def)

lemma DecryptKey_EncryptKey:
  "aead_ok P \<Longrightarrow> length nonce = 12 \<Longrightarrow> EncryptKey P mk nonce k = Inr ek \<Longrightarrow> DecryptKey P mk ek = Inr k"
  by (auto simp: EncryptKey_def DecryptKey_def gcm_nonce_size_def aead_ok_def split: option.splits)

lemma EncryptKey_total: "length mk = 32 \<Longrightarrow> \<exists>ek. EncryptKey P (Some mk) nonce k = Inr ek \<and> length ek \<ge> length nonce"
  by (simp add: EncryptKey_def)

lemma decrypt_encrypt_stream:
  "aead_ok P \<Longrightarrow> length nonce = 12 \<Longrightarrow> length key = 32 \<Longrightarrow> rd_err body = None \<Longrightarrow>
   NewDecryptingReader P (encrypt_stream P key nonce body) key = Inr (reader_of (rd_data body))"
  by (simp add: NewDecryptingReader_def encrypt_stream_def gcm_nonce_size_def aead_ok_def)

lemma encrypt_stream_err: "length key = 32 \<Longrightarrow> rd_err (encrypt_stream P key nonce body) = rd_err body"
  by (simp add: encrypt_stream_def split: option.splits)

end
