(* ===== verification/Sigv4.thy ===== *)
theory Sigv4
  imports Http_Request Go_Time Sse_Crypto
begin

text \<open>
  Signature Version 4: internal/auth/sigv4.go and internal/auth/presign.go. SHA-256 and HMAC are the
  fields \<open>pf_sha256\<close> and \<open>pf_hmac\<close> of the platform. A function that returns only an error returns an
  \<open>err option\<close>. The loops over a Go map visit its entries in the order of the association list, which
  stands for any order the runtime may choose.
\<close>

abbreviation NL :: string where
  "NL \<equiv> [CHR 0x0A]"

definition authHeaderPrefix :: string where
  "authHeaderPrefix = ''AWS4-HMAC-SHA256''"

record VerifiedIdentity =
  vi_AccessKey :: string
  vi_Owner :: string
  vi_IsRoot :: bool

section \<open>The canonical request\<close>

definition hashSHA256 :: "platform \<Rightarrow> string \<Rightarrow> string" where
  "hashSHA256 P s = hex_encode (pf_sha256 P s)"

definition deriveSigningKey :: "platform \<Rightarrow> string \<Rightarrow> string \<Rightarrow> string \<Rightarrow> string \<Rightarrow> bytes" where
  "deriveSigningKey P secretKey date region service =
     (let kDate = pf_hmac P (''AWS4'' @ secretKey) date;
          kRegion = pf_hmac P kDate region;
          kService = pf_hmac P kRegion service;
          kSigning = pf_hmac P kService ''aws4_request''
      in kSigning)"

definition canonicalURI :: "string \<Rightarrow> string" where
  "canonicalURI rawPath =
     (if rawPath = [] then ''/''
      else Join (map (\<lambda>seg. uriEncode seg False) (Split CHR ''/'' rawPath)) ''/'')"

definition canonical_pair :: "string \<times> string \<Rightarrow> string" where
  "canonical_pair kv = (case kv of (k, v) \<Rightarrow> uriEncode k True @ ''='' @ uriEncode v True)"

definition canonicalQueryString :: "multi_map \<Rightarrow> string" where
  "canonicalQueryString params =
     (if params = [] then [] else Join (sort (map canonical_pair (pairs_of params))) ''&'')"

definition header_value :: "request \<Rightarrow> string \<Rightarrow> string" where
  "header_value r name =
     (if ToLower name = ''host'' then rq_Host r else TrimSpace (Header_Get r name))"

definition canonicalHeaders :: "request \<Rightarrow> string list \<Rightarrow> string \<times> string" where
  "canonicalHeaders r signedHeaderNames =
     (let sorted = sort signedHeaderNames in
      (concat (map (\<lambda>name. ToLower name @ '':'' @ header_value r name @ NL) sorted), Join sorted '';''))"

definition canonicalRequest :: "request \<Rightarrow> string list \<Rightarrow> string" where
  "canonicalRequest r signedHeaderNames =
     (let method = rq_Method r;
          uri = canonicalURI (rq_Path r);
          query = canonicalQueryString (URL_Query r);
          h = Header_Get r ''X-Amz-Content-Sha256'';
          payloadHash = (if h = [] then ''UNSIGNED-PAYLOAD'' else h)
      in case canonicalHeaders r signedHeaderNames of
           (headers, signedHeaderStr) \<Rightarrow> Join [method, uri, query, headers, signedHeaderStr, payloadHash] NL)"

section \<open>The Authorization header\<close>

text \<open>\<open>strings.Split (s, ", ")\<close>.\<close>

function Split2 :: "char \<Rightarrow> char \<Rightarrow> string \<Rightarrow> string list" where
  "Split2 a b s =
     (case s of
        [] \<Rightarrow> [[]]
      | c # s' \<Rightarrow>
          (case s' of
             d # s'' \<Rightarrow>
               (if c = a \<and> d = b then [] # Split2 a b s''
                else (case Split2 a b s' of [] \<Rightarrow> [[c]] | p # ps \<Rightarrow> (c # p) # ps))
           | [] \<Rightarrow> [[c]]))"
  by pat_completeness auto
termination
  by (relation "measure (\<lambda>(a, b, s). length s)") auto

declare Split2.simps [simp del]

definition auth_part :: "smap \<Rightarrow> string \<Rightarrow> smap" where
  "auth_part out part =
     (case SplitN CHR ''='' 2 (TrimSpace part) of
        [k, v] \<Rightarrow> AList.update (TrimSpace k) (TrimSpace v) out
      | _ \<Rightarrow> out)"

definition parseAuthHeader :: "string \<Rightarrow> smap" where
  "parseAuthHeader s = foldl auth_part [] (Split2 CHR '','' CHR '' '' s)"

definition ExtractAccessKey :: "request \<Rightarrow> string" where
  "ExtractAccessKey r =
     (let authHeader = Header_Get r ''Authorization'' in
      if \<not> HasPrefix authHeader (authHeaderPrefix @ '' '') then []
      else
        let parts = parseAuthHeader (drop (length authHeaderPrefix + 1) authHeader);
            cred = smap_get parts ''Credential''
        in if cred = [] then [] else hd (SplitN CHR ''/'' 2 cred))"

section \<open>Verification\<close>

definition stringToSign :: "platform \<Rightarrow> string \<Rightarrow> string \<Rightarrow> string \<Rightarrow> string" where
  "stringToSign P amzDate credScope canonReq =
     authHeaderPrefix @ NL @ amzDate @ NL @ credScope @ NL @ hashSHA256 P canonReq"

definition credential_scope :: "string \<Rightarrow> string \<Rightarrow> string \<Rightarrow> string" where
  "credential_scope dateStr region service =
     dateStr @ ''/'' @ region @ ''/'' @ service @ ''/aws4_request''"

definition max_skew :: time where
  "max_skew = 15 * 60 * second_ns"

definition check_signature :: "platform \<Rightarrow> request \<Rightarrow> string \<Rightarrow> string \<Rightarrow> string \<Rightarrow> string \<Rightarrow> string \<Rightarrow>
    string \<Rightarrow> string \<Rightarrow> err option" where
  "check_signature P r secretKey dateStr region service amzDate signedHeaders providedSig =
     (let canonReq = canonicalRequest r (Split CHR '';'' signedHeaders);
          credScope = credential_scope dateStr region service;
          toSign = stringToSign P amzDate credScope canonReq;
          signingKey = deriveSigningKey P secretKey dateStr region service;
          expectedSig = hex_encode (pf_hmac P signingKey toSign)
      in if providedSig \<noteq> expectedSig then Some (Errorf ''sigv4: signature mismatch'' []) else None)"

definition VerifyRequest :: "platform \<Rightarrow> request \<Rightarrow> string \<Rightarrow> time \<Rightarrow> err option" where
  "VerifyRequest P r secretKey now =
     (let authHeader = Header_Get r ''Authorization'' in
      if authHeader = [] then Some (Errorf ''sigv4: missing Authorization header'' [])
      else if \<not> HasPrefix authHeader (authHeaderPrefix @ '' '')
      then Some (Errorf ''sigv4: unsupported authorization scheme'' [])
      else
        let parts = parseAuthHeader (drop (length authHeaderPrefix + 1) authHeader);
            credential = smap_get parts ''Credential'';
            signedHeaders = smap_get parts ''SignedHeaders'';
            providedSig = smap_get parts ''Signature''
        in
        if credential = [] \<or> signedHeaders = [] \<or> providedSig = []
        then Some (Errorf ''sigv4: malformed Authorization header'' [])
        else case SplitN CHR ''/'' 5 credential of
          [_, dateStr, region, service, terminator] \<Rightarrow>
            if terminator \<noteq> ''aws4_request'' then Some (Errorf ''sigv4: malformed credential scope'' [])
            else
              let amzDate = Header_Get r ''X-Amz-Date'' in
              if amzDate = [] then Some (Errorf ''sigv4: missing X-Amz-Date header'' [])
              else (case parse_timestamp amzDate of
                  None \<Rightarrow> Some (Wrap ''sigv4: invalid X-Amz-Date'' (Errorf ''parsing time'' []))
                | Some reqTime \<Rightarrow>
                    if now - reqTime > max_skew \<or> now - reqTime < - max_skew
                    then Some (Errorf ''sigv4: request timestamp %s is too far from server time'' [FStr amzDate])
                    else if format_date reqTime \<noteq> dateStr
                    then Some (Errorf ''sigv4: credential date %s does not match X-Amz-Date %s'' [FStr dateStr, FStr amzDate])
                    else check_signature P r secretKey dateStr region service amzDate signedHeaders providedSig)
        | _ \<Rightarrow> Some (Errorf ''sigv4: malformed credential scope'' []))"

section \<open>Presigned URLs\<close>

text \<open>\<open>strconv.ParseInt (s, 10, 64)\<close>; \<open>None\<close> is its error.\<close>

definition ParseInt64 :: "string \<Rightarrow> int64 option" where
  "ParseInt64 s =
     (let (neg, ds) = (case s of
            c # s' \<Rightarrow> if c = CHR ''-'' then (True, s') else if c = CHR ''+'' then (False, s') else (False, s)
          | [] \<Rightarrow> (False, []))
      in if ds = [] \<or> \<not> list_all is_digit ds then None
         else
           let n = (if neg then - int (digits_val ds) else int (digits_val ds))
           in if - (2 ^ 63) \<le> n \<and> n < 2 ^ 63 then Some (word_of_int n) else None)"

definition extractHost :: "string \<Rightarrow> string \<Rightarrow> string" where
  "extractHost rawURL bucket =
     (let u1 = TrimPrefix rawURL ''https://'';
          u2 = TrimPrefix u1 ''http://'';
          u3 = (case Index u2 ''/'' of Some i \<Rightarrow> take i u2 | None \<Rightarrow> u2)
      in if u3 = [] then bucket @ ''.s3.amazonaws.com'' else u3)"

text \<open>The query of the URL before the signature is appended.\<close>

definition presign_query :: "string \<Rightarrow> string \<Rightarrow> string \<Rightarrow> string" where
  "presign_query credential timestamp expireSec =
     ''X-Amz-Algorithm='' @ authHeaderPrefix @ ''&X-Amz-Credential='' @ uriEncode credential True @
     ''&X-Amz-Date='' @ timestamp @ ''&X-Amz-Expires='' @ expireSec @ ''&X-Amz-SignedHeaders='' @ ''host''"

definition week_ns :: time where
  "week_ns = 7 * 24 * 3600 * second_ns"

text \<open>
  \<open>int64 (expires.Seconds ())\<close> is the number of whole seconds: below 7 days the division by floating
  point numbers is exact enough.
\<close>

definition GeneratePresignedURL ::
    "platform \<Rightarrow> string \<Rightarrow> string \<Rightarrow> string \<Rightarrow> string \<Rightarrow> string \<Rightarrow> string \<Rightarrow> string \<Rightarrow> int64 \<Rightarrow> time \<Rightarrow> string result" where
  "GeneratePresignedURL P method rawURL bucket key accessKey secretKey region expires now =
     (if sint expires \<le> 0 \<or> sint expires > week_ns
      then Inl (Errorf ''presign: expires must be between 1s and 7 days'' [])
      else
        let date = format_date now;
            timestamp = format_timestamp now;
            expireSec = Itoa (sint expires div second_ns);
            credScope = date @ ''/'' @ region @ ''/s3/aws4_request'';
            credential = accessKey @ ''/'' @ credScope;
            signedHeaders = ''host'';
            path = ''/'' @ bucket @ ''/'' @ key;
            q = presign_query credential timestamp expireSec;
            host = extractHost rawURL bucket;
            canonReqStr = method @ NL @ canonicalURI path @ NL @ q @ NL @ ''host:'' @ host @ NL @ NL @
              signedHeaders @ NL @ ''UNSIGNED-PAYLOAD'';
            toSign = stringToSign P timestamp credScope canonReqStr;
            signingKey = deriveSigningKey P secretKey date region ''s3'';
            sig = hex_encode (pf_hmac P signingKey toSign)
        in Inr (rawURL @ path @ ''?'' @ q @ ''&X-Amz-Signature='' @ sig))"

record presignQueryParams =
  pq_algorithm :: string
  pq_credential :: string
  pq_amzDate :: string
  pq_expiresStr :: string
  pq_signedHeaders :: string
  pq_signature :: string

definition query_get :: "request \<Rightarrow> string \<Rightarrow> string" where
  "query_get r key =
     (let v = multi_get (URL_Query r) key in if v \<noteq> [] then v else multi_get (URL_Query r) (ToLower key))"

definition parsePresignedParams :: "request \<Rightarrow> presignQueryParams result" where
  "parsePresignedParams r =
     (let p = \<lparr>pq_algorithm = query_get r ''X-Amz-Algorithm'', pq_credential = query_get r ''X-Amz-Credential'', pq_amzDate = query_get r ''X-Amz-Date'',
               pq_expiresStr = query_get r ''X-Amz-Expires'', pq_signedHeaders = query_get r ''X-Amz-SignedHeaders'',
               pq_signature = query_get r ''X-Amz-Signature''\<rparr>
      in if pq_algorithm p \<noteq> authHeaderPrefix
         then Inl (Errorf ''presign: unsupported algorithm %q'' [FStr (pq_algorithm p)])
         else if pq_credential p = [] \<or> pq_amzDate p = [] \<or> pq_expiresStr p = [] \<or> pq_signedHeaders p = [] \<or>
           pq_signature p = []
         then Inl (Errorf ''presign: missing required query parameters'' [])
         else Inr p)"

text \<open>
  The product of seconds and \<open>time.Second\<close> is one of \<open>int64\<close>s and wraps; \<open>Time.Add\<close> does not.
\<close>

definition validatePresignedExpiry :: "presignQueryParams \<Rightarrow> time \<Rightarrow> err option" where
  "validatePresignedExpiry p now =
     (case parse_timestamp (pq_amzDate p) of
        None \<Rightarrow> Some (Wrap ''presign: invalid X-Amz-Date'' (Errorf ''parsing time'' []))
      | Some reqTime \<Rightarrow>
          (case ParseInt64 (pq_expiresStr p) of
             None \<Rightarrow> Some (Wrap ''presign: invalid X-Amz-Expires'' (Errorf ''parsing number'' []))
           | Some expSec \<Rightarrow>
               if now > reqTime + sint (expSec * word_of_int second_ns)
               then Some (Errorf ''presign: URL has expired'' []) else None))"

definition VerifyPresignedURL :: "platform \<Rightarrow> request \<Rightarrow> string \<Rightarrow> time \<Rightarrow> err option" where
  "VerifyPresignedURL P r secretKey now =
     (case parsePresignedParams r of
        Inl err \<Rightarrow> Some err
      | Inr params \<Rightarrow>
          (case validatePresignedExpiry params now of
             Some err \<Rightarrow> Some err
           | None \<Rightarrow>
               (case SplitN CHR ''/'' 5 (pq_credential params) of
                  [_, dateStr, region, service, _] \<Rightarrow>
                    (let cleanQ = multi_del ''x-amz-signature'' (multi_del ''X-Amz-Signature'' (URL_Query r));
                         canonQ = canonicalQueryString cleanQ;
                         hdrNames = Split CHR '';'' (pq_signedHeaders params);
                         canonHdrs = fst (canonicalHeaders r hdrNames);
                         canonReq = rq_Method r @ NL @ canonicalURI (rq_Path r) @ NL @ canonQ @ NL @
                           canonHdrs @ NL @ pq_signedHeaders params @ NL @ ''UNSIGNED-PAYLOAD'';
                         credScope = credential_scope dateStr region service;
                         toSign = stringToSign P (pq_amzDate params) credScope canonReq;
                         signingKey = deriveSigningKey P secretKey dateStr region service;
                         expectedSig = hex_encode (pf_hmac P signingKey toSign)
                     in if pq_signature params \<noteq> expectedSig
                        then Some (Errorf ''presign: signature mismatch'' []) else None)
                | _ \<Rightarrow> Some (Errorf ''presign: malformed credential'' []))))"

end
