(* ===== verification/Key_Store.thy ===== *)
theory Key_Store
  imports Meta_Interface Sigv4
begin

text \<open>
  Access keys and who may act with them: \<open>KeyStore\<close> of internal/auth/tokens.go, the middleware \<open>Auth\<close> of
  internal/api/middleware/auth.go that every S3 and admin request passes, and the user management
  handlers of internal/api/admin/users.go behind it. A \<open>KeyStore\<close> holds nothing but the metadata store,
  so its operations take the store's operations \<open>M\<close> and its state. bcrypt is the parameter \<open>kdf\<close>;
  \<open>kdf_ok\<close> is what it documents. Random bytes come from a source that answers the i-th draw of a call.
\<close>

record kdf =
  kdf_hash :: "bytes \<Rightarrow> string \<Rightarrow> string result"
  kdf_compare :: "string \<Rightarrow> string \<Rightarrow> bool"

definition kdf_ok :: "kdf \<Rightarrow> bool" where
  "kdf_ok K \<longleftrightarrow> (\<forall>salt pw. (length pw \<le> 72 \<longrightarrow> (\<exists>h. kdf_hash K salt pw = Inr h)) \<and>
     (\<forall>h. kdf_hash K salt pw = Inr h \<longrightarrow> kdf_compare K h pw))"

section \<open>The key store\<close>

definition base62_alphabet :: string where
  "base62_alphabet = ''ABCDEFGHIJKLMNOPQRSTUVWXYZabcdefghijklmnopqrstuvwxyz0123456789''"

text \<open>Twice as many bytes as needed are drawn; the second half is not looked at.\<close>

definition randomBase62 :: "(nat \<Rightarrow> bytes) \<Rightarrow> nat \<Rightarrow> string" where
  "randomBase62 draw n =
     (let raw = draw (n * 2) in map (\<lambda>i. base62_alphabet ! (of_char (raw ! i) mod 62)) [0..<n])"

definition key_record :: "string \<Rightarrow> string \<Rightarrow> string \<Rightarrow> string \<Rightarrow> time \<Rightarrow> bool \<Rightarrow> access_key_record" where
  "key_record accessKey hash secretKey owner now isRoot =
     \<lparr>ak_AccessKey = accessKey, ak_SecretHash = hash, ak_SigningKey = secretKey, ak_Owner = owner,
      ak_CreatedAt = now, ak_IsRoot = isRoot\<rparr>"

definition CreateKey :: "'m meta_store \<Rightarrow> kdf \<Rightarrow> random_source \<Rightarrow> time \<Rightarrow> string \<Rightarrow> bool \<Rightarrow>
    ('m, string \<times> string) op" where
  "CreateKey M K rnd now owner isRoot m =
     (let accessKey = randomBase62 (rnd 0) 20;
          secretKey = randomBase62 (rnd 1) 40
      in case kdf_hash K (rnd 2 16) secretKey of
           Inl err \<Rightarrow> (Inl (Wrap ''create key: bcrypt'' err), m)
         | Inr hash \<Rightarrow>
             (case m_PutAccessKey M m (key_record accessKey hash secretKey owner now isRoot) of
                Inl err \<Rightarrow> (Inl (Wrap ''create key: store'' err), m)
              | Inr m' \<Rightarrow> (Inr (accessKey, secretKey), m')))"

definition UpsertKey :: "'m meta_store \<Rightarrow> kdf \<Rightarrow> random_source \<Rightarrow> time \<Rightarrow> string \<Rightarrow> string \<Rightarrow> string \<Rightarrow> bool \<Rightarrow>
    ('m, unit) op" where
  "UpsertKey M K rnd now accessKey secretKey owner isRoot m =
     (case kdf_hash K (rnd 0 16) secretKey of
        Inl err \<Rightarrow> (Inl (Wrap ''upsert key: bcrypt'' err), m)
      | Inr hash \<Rightarrow>
          (case m_PutAccessKey M m (key_record accessKey hash secretKey owner now isRoot) of
             Inl err \<Rightarrow> (Inl err, m)
           | Inr m' \<Rightarrow> (Inr (), m')))"

definition Lookup :: "'m meta_store \<Rightarrow> string \<Rightarrow> 'm \<Rightarrow> access_key_record result" where
  "Lookup M accessKey m =
     (case m_GetAccessKey M m accessKey of
        Inl err \<Rightarrow> Inl (Wrap (''lookup key '' @ accessKey) err)
      | Inr rec \<Rightarrow> Inr rec)"

definition VerifySecret :: "kdf \<Rightarrow> access_key_record \<Rightarrow> string \<Rightarrow> bool" where
  "VerifySecret K rec secret = kdf_compare K (ak_SecretHash rec) secret"

definition DeleteKey :: "'m meta_store \<Rightarrow> string \<Rightarrow> ('m, unit) op" where
  "DeleteKey M accessKey m =
     (case m_DeleteAccessKey M m accessKey of Inl err \<Rightarrow> (Inl err, m) | Inr m' \<Rightarrow> (Inr (), m'))"

definition ListKeys :: "'m meta_store \<Rightarrow> 'm \<Rightarrow> access_key_record list result" where
  "ListKeys M m = m_ListAccessKeys M m"

section \<open>The middleware\<close>

text \<open>
  \<open>Auth\<close> either answers the request itself, with the code of the error body, or hands it on with the
  identity in its context.
\<close>

datatype auth_outcome =
    Rejected (rejected_code: string) (rejected_msg: err)
  | Authenticated VerifiedIdentity

definition isPresigned :: "request \<Rightarrow> bool" where
  "isPresigned r \<longleftrightarrow>
     multi_get (URL_Query r) ''X-Amz-Signature'' \<noteq> [] \<or> multi_get (URL_Query r) ''x-amz-signature'' \<noteq> []"

definition identity_of :: "access_key_record \<Rightarrow> VerifiedIdentity" where
  "identity_of rec = \<lparr>vi_AccessKey = ak_AccessKey rec, vi_Owner = ak_Owner rec, vi_IsRoot = ak_IsRoot rec\<rparr>"

definition presigned_access_key :: "request \<Rightarrow> string" where
  "presigned_access_key r =
     (let c = multi_get (URL_Query r) ''X-Amz-Credential'';
          credParam = (if c = [] then multi_get (URL_Query r) ''x-amz-credential'' else c)
      in takeWhile (\<lambda>c. c \<noteq> CHR ''/'') credParam)"

definition handlePresigned :: "'m meta_store \<Rightarrow> platform \<Rightarrow> request \<Rightarrow> time \<Rightarrow> 'm \<Rightarrow> auth_outcome" where
  "handlePresigned M P r now m =
     (let accessKey = presigned_access_key r in
      if accessKey = [] then Rejected ''AccessDenied'' (Errorf ''missing presign credential'' [])
      else case Lookup M accessKey m of
          Inl err \<Rightarrow> Rejected ''InvalidAccessKeyId'' (Errorf ''access key not found'' [])
        | Inr rec \<Rightarrow>
            (case VerifyPresignedURL P r (ak_SigningKey rec) now of
               Some verr \<Rightarrow> Rejected ''SignatureDoesNotMatch'' verr
             | None \<Rightarrow> Authenticated (identity_of rec)))"

definition Auth :: "'m meta_store \<Rightarrow> platform \<Rightarrow> request \<Rightarrow> time \<Rightarrow> 'm \<Rightarrow> auth_outcome" where
  "Auth M P r now m =
     (if isPresigned r then handlePresigned M P r now m
      else
        let accessKey = ExtractAccessKey r in
        if accessKey = [] then Rejected ''AccessDenied'' (Errorf ''missing Authorization header'' [])
        else case Lookup M accessKey m of
            Inl err \<Rightarrow> Rejected ''InvalidAccessKeyId'' (Errorf ''access key not found'' [])
          | Inr rec \<Rightarrow>
              (case (if ak_SigningKey rec \<noteq> [] then VerifyRequest P r (ak_SigningKey rec) now else None) of
                 Some verr \<Rightarrow> Rejected ''SignatureDoesNotMatch'' verr
               | None \<Rightarrow> Authenticated (identity_of rec)))"

section \<open>User management\<close>

text \<open>The answers of the handlers: the status and what the JSON body carries.\<close>

datatype user_response =
    JsonError nat err
  | UserCreated nat string string string
  | UserList "(string \<times> string \<times> bool) list"
  | NoContent

text \<open>\<open>create\<close>; the decoded body is \<open>None\<close> when it is not the JSON expected.\<close>

definition user_create :: "'m meta_store \<Rightarrow> kdf \<Rightarrow> random_source \<Rightarrow> time \<Rightarrow> string option \<Rightarrow> 'm \<Rightarrow> user_response \<times> 'm" where
  "user_create M K rnd now body m =
     (case body of
        None \<Rightarrow> (JsonError 400 (Errorf ''invalid JSON'' []), m)
      | Some owner \<Rightarrow>
          if owner = [] then (JsonError 400 (Errorf ''owner is required'' []), m)
          else case CreateKey M K rnd now owner False m of
              (Inl err, m') \<Rightarrow> (JsonError 500 err, m')
            | (Inr (accessKey, sk), m') \<Rightarrow> (UserCreated 201 accessKey sk owner, m'))"

definition user_list :: "'m meta_store \<Rightarrow> 'm \<Rightarrow> user_response" where
  "user_list M m =
     (case ListKeys M m of
        Inl err \<Rightarrow> JsonError 500 err
      | Inr keys \<Rightarrow> UserList (map (\<lambda>k. (ak_AccessKey k, ak_Owner k, ak_IsRoot k)) keys))"

definition user_delete :: "'m meta_store \<Rightarrow> string \<Rightarrow> 'm \<Rightarrow> user_response \<times> 'm" where
  "user_delete M accessKey m =
     (case DeleteKey M accessKey m of
        (Inl err, m') \<Rightarrow> (JsonError 500 err, m')
      | (Inr _, m') \<Rightarrow> (NoContent, m'))"

definition rotateKey :: "'m meta_store \<Rightarrow> kdf \<Rightarrow> random_source \<Rightarrow> time \<Rightarrow> string \<Rightarrow> 'm \<Rightarrow> user_response \<times> 'm" where
  "rotateKey M K rnd now accessKey m =
     (case Lookup M accessKey m of
        Inl err \<Rightarrow> (JsonError 404 (Errorf ''access key not found'' []), m)
      | Inr existing \<Rightarrow>
          (case DeleteKey M accessKey m of
             (Inl err, m1) \<Rightarrow> (JsonError 500 err, m1)
           | (Inr _, m1) \<Rightarrow>
               (case CreateKey M K rnd now (ak_Owner existing) (ak_IsRoot existing) m1 of
                  (Inl err, m2) \<Rightarrow> (JsonError 500 err, m2)
                | (Inr (newAK, newSK), m2) \<Rightarrow> (UserCreated 200 newAK newSK (ak_Owner existing), m2))))"

text \<open>
  The admin router puts these handlers behind \<open>Auth\<close> and nothing else: a request reaches its handler
  under any identity. \<open>Inl\<close> is the answer of the middleware.
\<close>

definition admin_route :: "'m meta_store \<Rightarrow> platform \<Rightarrow> request \<Rightarrow> time \<Rightarrow> ('m \<Rightarrow> user_response \<times> 'm) \<Rightarrow> 'm \<Rightarrow>
    (auth_outcome + user_response) \<times> 'm" where
  "admin_route M P r now handler m =
     (case Auth M P r now m of
        Rejected code msg \<Rightarrow> (Inl (Rejected code msg), m)
      | Authenticated ident \<Rightarrow> (case handler m of (resp, m') \<Rightarrow> (Inr resp, m')))"

end
