(* ===== verification/Sigv4_Correct.thy ===== *)
theory Sigv4_Correct
  imports Sigv4
begin

text \<open>
  What Signature Version 4 gives: the canonical forms do not depend on the order of maps and lose
  nothing of the request, a presigned URL verifies until it expires, and an accepted signature fixes
  the request it was made for, as far as HMAC and SHA-256 do not collide.
\<close>

section \<open>Strings of the protocol\<close>

lemma SplitN_sep: "d \<notin> set a \<Longrightarrow> 1 < n \<Longrightarrow> SplitN d n (a @ d # s) = a # SplitN d (n - 1) s"
  by (induction a) auto

lemma SplitN_1: "SplitN d (Suc 0) s = [s]"
  by (cases s) auto

lemma digits_unreserved: "d < 10 \<Longrightarrow> isUnreserved (digit d)"
  by (simp add: isUnreserved_def less_eq_char_def of_char_digit)

lemma digs_unreserved: "list_all isUnreserved (digs w n)"
  by (induction w arbitrary: n) (auto simp: digits_unreserved)

lemma dec_unreserved: "list_all isUnreserved (dec n)"
  using dec_digits digits_unreserved by (fastforce simp: list_all_iff)

lemma Itoa_unreserved: "0 \<le> n \<Longrightarrow> list_all isUnreserved (Itoa n)"
  by (simp add: Itoa_def dec_unreserved)

lemma hex_digit_unreserved: "d < 16 \<Longrightarrow> isUnreserved (hex_digit d)"
  by (auto simp: isUnreserved_def hex_digit_def less_eq_char_def)

lemma hex_encode_Cons: "hex_encode (b # bs) = hex_digit (of_char b div 16) # hex_digit (of_char b mod 16) # hex_encode bs"
  by (simp add: hex_encode_def Let_def)

lemma hex_encode_unreserved: "list_all isUnreserved (hex_encode bs)"
proof (induction bs)
  case Nil
  then show ?case by (simp add: hex_encode_def)
next
  case (Cons b bs)
  have "(of_char b :: nat) < 16 * 16" by simp
  then have "(of_char b :: nat) div 16 < 16" by (rule less_mult_imp_div_less)
  with Cons show ?case by (simp add: hex_encode_Cons hex_digit_unreserved)
qed

lemma hex_encode_inject: "hex_encode a = hex_encode b \<longleftrightarrow> a = b"
  using hex_decode_encode by metis

lemma hex_encode_ne: "bs \<noteq> [] \<Longrightarrow> hex_encode bs \<noteq> []"
  by (cases bs) (simp_all add: hex_encode_Cons)

lemma format_date_unreserved:
  assumes "stamp_range t"
  shows "list_all isUnreserved (format_date t)" and "format_date t \<noteq> []"
proof -
  obtain y m d where c: "civil (t div day_ns + epoch_days) = (y, m, d)"
    by (cases "civil (t div day_ns + epoch_days)") auto
  from format_date_digs [OF assms c]
  show "list_all isUnreserved (format_date t)" by (simp add: digs_unreserved del: digs.simps)
  from format_date_digs [OF assms c] digs_length [of 2 d]
  show "format_date t \<noteq> []" by (auto simp del: digs_length)
qed

lemma format_timestamp_unreserved:
  assumes "stamp_range t"
  shows "list_all isUnreserved (format_timestamp t)" and "format_timestamp t \<noteq> []"
proof -
  obtain y m d where "format_timestamp t = digs 4 (nat y) @ digs 2 m @ digs 2 d @ ''T'' @ digs 2 (second_of_day t div 3600) @
      digs 2 (second_of_day t div 60 mod 60) @ digs 2 (second_of_day t mod 60) @ ''Z''"
    by (rule format_timestamp_digs [OF assms])
  then show "list_all isUnreserved (format_timestamp t)" and "format_timestamp t \<noteq> []"
    by (simp_all add: digs_unreserved isUnreserved_def less_eq_char_def del: digs.simps)
qed

text \<open>Numbers: reading what was printed.\<close>

lemma dec_val: "digits_val (dec n) = n \<and> list_all is_digit (dec n) \<and> dec n \<noteq> []"
proof (induction n rule: dec.induct)
  case (1 n)
  show ?case
  proof (cases "n < 10")
    case True
    then show ?thesis by (simp add: dec.simps [of n] digits_val_def digit_props)
  next
    case False
    with 1 show ?thesis by (simp add: dec.simps [of n] digits_val_append digit_props)
  qed
qed

lemma ParseInt64_Itoa:
  assumes "0 \<le> n" and "n < 2 ^ 63"
  shows "ParseInt64 (Itoa n) = Some (word_of_int n)"
proof -
  obtain c cs where d: "dec (nat n) = c # cs" using dec_val [of "nat n"] by (cases "dec (nat n)") auto
  then have "is_digit c" using dec_val [of "nat n"] by simp
  then have "c \<noteq> CHR ''-''" "c \<noteq> CHR ''+''" by (auto simp: is_digit_def)
  with assms d dec_val [of "nat n"] show ?thesis
    by (simp add: ParseInt64_def Itoa_def)
qed

section \<open>Canonical queries\<close>

lemma sort_mset: "mset xs = mset ys \<Longrightarrow> sort xs = sort (ys :: string list)"
  by (metis sorted_list_of_multiset_mset)

text \<open>
  The canonical query depends on the multiset of pairs only, not on the order in which the map is
  visited.
\<close>

lemma canonicalQueryString_mset:
  assumes "mset (pairs_of m) = mset ps"
  shows "canonicalQueryString m = Join (sort (map canonical_pair ps)) ''&''"
proof (cases "m = []")
  case True
  with assms show ?thesis by (simp add: canonicalQueryString_def)
next
  case False
  from assms have "mset (map canonical_pair (pairs_of m)) = mset (map canonical_pair ps)" by simp
  from sort_mset [OF this] False show ?thesis by (simp add: canonicalQueryString_def)
qed

lemma canonical_pair_plain: "CHR ''&'' \<notin> set (canonical_pair kv)" "CHR 0x0A \<notin> set (canonical_pair kv)"
  by (auto simp: canonical_pair_def uriEncode_plain split: prod.splits)

lemma query_piece_canonical: "query_piece (canonical_pair kv) = [kv]"
  by (cases kv) (simp only: canonical_pair_def prod.case query_piece_enc)

lemma canonical_pair_inject: "canonical_pair a = canonical_pair b \<Longrightarrow> a = b"
  using query_piece_canonical list.inject by metis

lemma inj_canonical_pair: "inj canonical_pair"
  by (rule injI) (rule canonical_pair_inject)

text \<open>Reading a canonical query gives back the pairs it was made of.\<close>

lemma query_pairs_canonical: "query_pairs (Join (map canonical_pair ps) ''&'') = ps"
proof (cases "ps = []")
  case True
  then show ?thesis by (simp add: query_pairs_def query_piece_def)
next
  case False
  then have "Split CHR ''&'' (Join (map canonical_pair ps) ''&'') = map canonical_pair ps"
    by (intro Split_Join) (auto simp: canonical_pair_plain)
  then show ?thesis by (simp add: query_pairs_def query_piece_canonical comp_def)
qed

lemma sorted_pairs:
  "\<exists>xs. sort (map canonical_pair ys) = map canonical_pair xs \<and> mset xs = mset ys"
proof -
  have "\<forall>y \<in> set (sort (map canonical_pair ys)). \<exists>x. y = canonical_pair x" by auto
  then obtain xs where xs: "sort (map canonical_pair ys) = map canonical_pair xs"
    using ex_map_conv by metis
  then have "image_mset canonical_pair (mset xs) = image_mset canonical_pair (mset ys)"
    by (metis mset_map mset_sort)
  then have "mset xs = mset ys"
    using multiset.inj_map [OF inj_canonical_pair] by (simp add: inj_eq)
  with xs show ?thesis by blast
qed

lemma sorted_query_inject:
  assumes "Join (sort (map canonical_pair ps)) ''&'' = Join (sort (map canonical_pair qs)) ''&''"
  shows "mset ps = mset qs"
proof -
  obtain xs ys where "sort (map canonical_pair ps) = map canonical_pair xs" "mset xs = mset ps"
    "sort (map canonical_pair qs) = map canonical_pair ys" "mset ys = mset qs"
    using sorted_pairs by metis
  with assms query_pairs_canonical [of xs] query_pairs_canonical [of ys] show ?thesis by metis
qed

lemma canonicalQueryString_pairs:
  "canonicalQueryString m = Join (sort (map canonical_pair (pairs_of m))) ''&''"
  by (rule canonicalQueryString_mset) simp

lemma canonicalQueryString_lossless:
  "mset (query_pairs (canonicalQueryString m)) = mset (pairs_of m) \<and>
   (canonicalQueryString m = canonicalQueryString m' \<longleftrightarrow> mset (pairs_of m) = mset (pairs_of m'))"
proof -
  obtain xs where "sort (map canonical_pair (pairs_of m)) = map canonical_pair xs" "mset xs = mset (pairs_of m)"
    using sorted_pairs by blast
  then have "mset (query_pairs (canonicalQueryString m)) = mset (pairs_of m)"
    by (simp add: canonicalQueryString_pairs query_pairs_canonical)
  moreover have "mset (pairs_of m) = mset (pairs_of m')" if "canonicalQueryString m = canonicalQueryString m'"
    using that unfolding canonicalQueryString_pairs by (rule sorted_query_inject)
  moreover have "canonicalQueryString m = canonicalQueryString m'" if "mset (pairs_of m) = mset (pairs_of m')"
    using canonicalQueryString_mset [OF that] by (simp add: canonicalQueryString_pairs)
  ultimately show ?thesis by blast
qed

section \<open>Presigned URLs\<close>

text \<open>The pairs of a presigned query, in the order the URL has them, which is the canonical one.\<close>

definition presign_pairs :: "string \<Rightarrow> string \<Rightarrow> string \<Rightarrow> (string \<times> string) list" where
  "presign_pairs credential timestamp expireSec =
     [(''X-Amz-Algorithm'', authHeaderPrefix), (''X-Amz-Credential'', credential), (''X-Amz-Date'', timestamp),
      (''X-Amz-Expires'', expireSec), (''X-Amz-SignedHeaders'', ''host'')]"

lemma canonical_pair_unreserved:
  "list_all isUnreserved k \<Longrightarrow> canonical_pair (k, v) = k @ ''='' @ uriEncode v True"
  by (simp add: canonical_pair_def uriEncode_unreserved)

lemma presign_names_unreserved:
  "list_all isUnreserved ''X-Amz-Algorithm''" "list_all isUnreserved ''X-Amz-Credential''"
  "list_all isUnreserved ''X-Amz-Date''" "list_all isUnreserved ''X-Amz-Expires''"
  "list_all isUnreserved ''X-Amz-SignedHeaders''" "list_all isUnreserved ''X-Amz-Signature''"
  "list_all isUnreserved ''host''" "list_all isUnreserved authHeaderPrefix"
  by code_simp+

lemma canonical_pair_names:
  "canonical_pair (''X-Amz-Algorithm'', v) = ''X-Amz-Algorithm='' @ uriEncode v True"
  "canonical_pair (''X-Amz-Credential'', v) = ''X-Amz-Credential='' @ uriEncode v True"
  "canonical_pair (''X-Amz-Date'', v) = ''X-Amz-Date='' @ uriEncode v True"
  "canonical_pair (''X-Amz-Expires'', v) = ''X-Amz-Expires='' @ uriEncode v True"
  "canonical_pair (''X-Amz-SignedHeaders'', v) = ''X-Amz-SignedHeaders='' @ uriEncode v True"
  "canonical_pair (''X-Amz-Signature'', v) = ''X-Amz-Signature='' @ uriEncode v True"
  by (simp_all only: presign_names_unreserved [THEN canonical_pair_unreserved] append.simps)

lemma uriEncode_host: "uriEncode ''host'' True = ''host''" "uriEncode authHeaderPrefix True = authHeaderPrefix"
  by (simp_all only: presign_names_unreserved [THEN uriEncode_unreserved])

lemma presign_query_canonical:
  assumes "list_all isUnreserved ts" and "list_all isUnreserved ex"
  shows "presign_query cred ts ex = Join (map canonical_pair (presign_pairs cred ts ex)) ''&''"
  using assms
  by (simp add: presign_query_def presign_pairs_def canonical_pair_names uriEncode_host uriEncode_unreserved del: uriEncode.simps)

lemma presign_query_signed:
  assumes "list_all isUnreserved ts" and "list_all isUnreserved ex" and "list_all isUnreserved sig"
  shows "presign_query cred ts ex @ ''&X-Amz-Signature='' @ sig =
    Join (map canonical_pair (presign_pairs cred ts ex @ [(''X-Amz-Signature'', sig)])) ''&''"
  using assms
  by (simp add: presign_query_def presign_pairs_def canonical_pair_names uriEncode_host uriEncode_unreserved del: uriEncode.simps)

lemma presign_pairs_sorted:
  "sort (map canonical_pair (presign_pairs cred ts ex)) = map canonical_pair (presign_pairs cred ts ex)"
  by (rule sorted_sort_id)
    (simp add: presign_pairs_def canonical_pair_names)

lemma canonicalHeaders_host: "canonicalHeaders r [''host''] = (''host:'' @ rq_Host r @ NL, ''host'')"
proof -
  have "ToLower ''host'' = ''host''" by code_simp
  then show ?thesis by (simp add: canonicalHeaders_def header_value_def)
qed

lemma Split_host: "Split CHR '';'' ''host'' = [''host'']"
  by simp

lemma filter_del: "filter (\<lambda>(k', v). k' \<noteq> k) ps = ps" if "k \<notin> fst ` set ps"
  using that by (induction ps) auto

lemma canonical_without_signature:
  assumes q: "query_pairs (rq_RawQuery r) = ps @ [(''X-Amz-Signature'', sig)]"
    and "''X-Amz-Signature'' \<notin> fst ` set ps" and "''x-amz-signature'' \<notin> fst ` set ps"
  shows "canonicalQueryString (multi_del ''x-amz-signature'' (multi_del ''X-Amz-Signature'' (URL_Query r))) =
    Join (sort (map canonical_pair ps)) ''&''"
proof (rule canonicalQueryString_mset)
  have "mset (filter (\<lambda>(k', v). k' \<noteq> ''x-amz-signature'') (filter (\<lambda>(k', v). k' \<noteq> ''X-Amz-Signature'') (pairs_of (URL_Query r)))) =
      mset (filter (\<lambda>(k', v). k' \<noteq> ''x-amz-signature'') (filter (\<lambda>(k', v). k' \<noteq> ''X-Amz-Signature'') (query_pairs (rq_RawQuery r))))"
    by (simp only: mset_filter URL_Query_pairs)
  also have "filter (\<lambda>(k', v). k' \<noteq> ''x-amz-signature'') (filter (\<lambda>(k', v). k' \<noteq> ''X-Amz-Signature'') (query_pairs (rq_RawQuery r))) = ps"
    using filter_del [OF assms(2)] filter_del [OF assms(3)] by (simp add: q)
  finally show "mset (pairs_of (multi_del ''x-amz-signature'' (multi_del ''X-Amz-Signature'' (URL_Query r)))) = mset ps"
    by (simp only: pairs_of_del)
qed

lemma credential_split:
  assumes "CHR ''/'' \<notin> set ak" and "list_all isUnreserved date" and "CHR ''/'' \<notin> set region"
  shows "SplitN CHR ''/'' 5 (ak @ ''/'' @ date @ ''/'' @ region @ ''/s3/aws4_request'') =
    [ak, date, region, ''s3'', ''aws4_request'']"
proof -
  have d: "CHR ''/'' \<notin> set date"
    using assms(2) isUnreserved_plain by (auto simp: list_all_iff)
  have "SplitN CHR ''/'' 2 ''s3/aws4_request'' = [''s3'', ''aws4_request'']" by code_simp
  then have "SplitN CHR ''/'' 3 (region @ CHR ''/'' # ''s3/aws4_request'') = [region, ''s3'', ''aws4_request'']"
    using SplitN_sep [OF assms(3), of 3 "''s3/aws4_request''"] by simp
  then show ?thesis using assms(1) d by (simp add: SplitN_sep)
qed

lemma sint_int64_of_int:
  assumes "- (2 ^ 63) \<le> n" and "n < 2 ^ 63"
  shows "sint (word_of_int n :: int64) = n"
proof -
  have "signed_take_bit 63 n = n" using assms by (intro signed_take_bit_int_eq_self) auto
  moreover have "sint (word_of_int n :: int64) = signed_take_bit 63 n" by (simp add: signed_of_int)
  ultimately show ?thesis by simp
qed

text \<open>The time limit, as long as the product of seconds does not overflow.\<close>

lemma validate_expiry:
  assumes "parse_timestamp (pq_amzDate p) = Some t" and "pq_expiresStr p = Itoa n"
    and "0 \<le> n" and "n * second_ns < 2 ^ 63"
  shows "validatePresignedExpiry p now = None \<longleftrightarrow> now \<le> t + n * second_ns"
proof -
  have n: "n < 2 ^ 63" using assms(3,4) by (simp add: second_ns_def)
  have "sint (word_of_int n * word_of_int second_ns :: int64) = sint (word_of_int (n * second_ns) :: int64)"
    by (simp only: wi_hom_mult)
  also have "\<dots> = n * second_ns"
    using assms(3,4) by (intro sint_int64_of_int) (auto simp: second_ns_def)
  finally show ?thesis
    using assms(1,2) ParseInt64_Itoa [OF assms(3) n] by (auto simp: validatePresignedExpiry_def)
qed

lemma query_get_first:
  "map_of (query_pairs (rq_RawQuery r)) k = Some v \<Longrightarrow> v \<noteq> [] \<Longrightarrow> query_get r k = v"
  by (simp add: query_get_def URL_Query_Get)

lemma parse_presigned:
  assumes q: "query_pairs (rq_RawQuery r) = presign_pairs cred ts ex @ [(''X-Amz-Signature'', sig)]"
    and "cred \<noteq> []" and "ts \<noteq> []" and "ex \<noteq> []" and "sig \<noteq> []"
  shows "parsePresignedParams r = Inr \<lparr>pq_algorithm = authHeaderPrefix, pq_credential = cred, pq_amzDate = ts,
    pq_expiresStr = ex, pq_signedHeaders = ''host'', pq_signature = sig\<rparr>"
proof -
  have "authHeaderPrefix \<noteq> []" by (simp add: authHeaderPrefix_def)
  then have "query_get r ''X-Amz-Algorithm'' = authHeaderPrefix" "query_get r ''X-Amz-Credential'' = cred"
    "query_get r ''X-Amz-Date'' = ts" "query_get r ''X-Amz-Expires'' = ex"
    "query_get r ''X-Amz-SignedHeaders'' = ''host''" "query_get r ''X-Amz-Signature'' = sig"
    using assms by (auto intro!: query_get_first simp: presign_pairs_def)
  with assms(2-5) show ?thesis by (simp add: parsePresignedParams_def)
qed

lemma presign_seconds:
  assumes "0 < e" and "e \<le> week_ns"
  shows "0 \<le> e div second_ns" and "e div second_ns * second_ns < 2 ^ 63"
proof -
  show "0 \<le> e div second_ns" using assms by (simp add: second_ns_def div_int_pos_iff)
  have "e div second_ns * second_ns \<le> e"
    using pos_mod_sign [of second_ns e] div_mult_mod_eq [of e second_ns] by (simp add: second_ns_def)
  with assms show "e div second_ns * second_ns < 2 ^ 63" by (simp add: week_ns_def second_ns_def)
qed

lemma generated_pairs:
  assumes gen: "GeneratePresignedURL P verb rawURL bucket key accessKey secretKey region expires now = Inr url"
    and range: "stamp_range now"
    and req: "url = rawURL @ rq_Path r @ ''?'' @ rq_RawQuery r" "rq_Path r = ''/'' @ bucket @ ''/'' @ key"
      "rq_Method r = verb" "rq_Host r = extractHost rawURL bucket"
  defines "scope \<equiv> format_date now @ ''/'' @ region @ ''/s3/aws4_request''"
  defines "q \<equiv> presign_query (accessKey @ ''/'' @ scope) (format_timestamp now) (Itoa (sint expires div second_ns))"
  shows "0 < sint expires" and "sint expires \<le> week_ns"
    and "query_pairs (rq_RawQuery r) =
      presign_pairs (accessKey @ ''/'' @ scope) (format_timestamp now) (Itoa (sint expires div second_ns)) @
      [(''X-Amz-Signature'', hex_encode (pf_hmac P (deriveSigningKey P secretKey (format_date now) region ''s3'')
         (stringToSign P (format_timestamp now) scope (verb @ NL @ canonicalURI (rq_Path r) @ NL @ q @ NL @ ''host:'' @
           rq_Host r @ NL @ NL @ ''host'' @ NL @ ''UNSIGNED-PAYLOAD''))))]"
proof -
  from gen show ex: "0 < sint expires" "sint expires \<le> week_ns"
    by (auto simp: GeneratePresignedURL_def split: if_splits)
  let ?sig = "hex_encode (pf_hmac P (deriveSigningKey P secretKey (format_date now) region ''s3'')
         (stringToSign P (format_timestamp now) scope (verb @ NL @ canonicalURI (rq_Path r) @ NL @ q @ NL @ ''host:'' @
           rq_Host r @ NL @ NL @ ''host'' @ NL @ ''UNSIGNED-PAYLOAD'')))"
  from gen ex req have "url = rawURL @ rq_Path r @ ''?'' @ q @ ''&X-Amz-Signature='' @ ?sig"
    by (simp add: GeneratePresignedURL_def Let_def scope_def q_def)
  with req(1) have raw: "rq_RawQuery r = q @ ''&X-Amz-Signature='' @ ?sig" by simp
  note un = format_timestamp_unreserved(1) [OF range] Itoa_unreserved [OF presign_seconds(1) [OF ex]]
  show "query_pairs (rq_RawQuery r) =
      presign_pairs (accessKey @ ''/'' @ scope) (format_timestamp now) (Itoa (sint expires div second_ns)) @ [(''X-Amz-Signature'', ?sig)]"
    unfolding raw unfolding q_def presign_query_signed [OF un hex_encode_unreserved] query_pairs_canonical ..
qed

lemma presigned_roundtrip:
  assumes gen: "GeneratePresignedURL P verb rawURL bucket key accessKey secretKey region expires now = Inr url"
    and mac: "\<And>k d. pf_hmac P k d \<noteq> []"
    and range: "stamp_range now"
    and sep: "CHR ''/'' \<notin> set accessKey" "CHR ''/'' \<notin> set region"
    and req: "url = rawURL @ rq_Path r @ ''?'' @ rq_RawQuery r" "rq_Path r = ''/'' @ bucket @ ''/'' @ key"
      "rq_Method r = verb" "rq_Host r = extractHost rawURL bucket"
  shows "VerifyPresignedURL P r secretKey later = None \<longleftrightarrow>
    later \<le> whole_seconds now + sint expires div second_ns * second_ns"
proof -
  let ?date = "format_date now" and ?ts = "format_timestamp now" and ?ex = "Itoa (sint expires div second_ns)"
  let ?scope = "?date @ ''/'' @ region @ ''/s3/aws4_request''"
  let ?cred = "accessKey @ ''/'' @ ?scope"
  let ?q = "presign_query ?cred ?ts ?ex"
  let ?creq = "verb @ NL @ canonicalURI (rq_Path r) @ NL @ ?q @ NL @ ''host:'' @ rq_Host r @ NL @ NL @
      ''host'' @ NL @ ''UNSIGNED-PAYLOAD''"
  let ?sig = "hex_encode (pf_hmac P (deriveSigningKey P secretKey ?date region ''s3'') (stringToSign P ?ts ?scope ?creq))"
  note g = generated_pairs [OF gen range req]
  define n where "n = sint expires div second_ns"
  note n = presign_seconds [OF g(1,2), folded n_def]
  note un = format_date_unreserved [OF range] format_timestamp_unreserved [OF range] Itoa_unreserved [OF n(1)]
  note pairs = g(3)
  have "?ex \<noteq> []" using dec_val [of "nat n"] n(1) by (simp add: Itoa_def n_def)
  moreover have "?sig \<noteq> []" using mac by (rule hex_encode_ne)
  moreover define p where "p = \<lparr>pq_algorithm = authHeaderPrefix, pq_credential = ?cred,
      pq_amzDate = ?ts, pq_expiresStr = ?ex, pq_signedHeaders = ''host'', pq_signature = ?sig\<rparr>"
  ultimately have params: "parsePresignedParams r = Inr p"
    unfolding p_def using un by (intro parse_presigned [OF pairs]) auto
  have v: "validatePresignedExpiry p later = None \<longleftrightarrow> later \<le> whole_seconds now + n * second_ns"
    by (rule validate_expiry) (use parse_format_timestamp [OF range] n in \<open>simp_all add: p_def n_def\<close>)
  have canon: "canonicalQueryString (multi_del ''x-amz-signature'' (multi_del ''X-Amz-Signature'' (URL_Query r))) = ?q"
    using canonical_without_signature [OF pairs] un n_def
    by (simp add: presign_query_canonical presign_pairs_sorted) (simp add: presign_pairs_def)
  have split: "SplitN CHR ''/'' 5 ?cred = [accessKey, ?date, region, ''s3'', ''aws4_request'']"
    using credential_split [OF sep(1) un(1) sep(2)] by simp
  have scope: "credential_scope ?date region ''s3'' = ?scope"
    by (simp add: credential_scope_def)
  have "VerifyPresignedURL P r secretKey later = validatePresignedExpiry p later"
  proof (cases "validatePresignedExpiry p later")
    case None
    moreover have "pq_signature p = hex_encode (pf_hmac P (deriveSigningKey P secretKey ?date region ''s3'')
        (stringToSign P (pq_amzDate p) ?scope ?creq))" by (simp add: p_def)
    moreover have "pq_credential p = ?cred" "pq_signedHeaders p = ''host''" by (simp_all add: p_def)
    ultimately show ?thesis
      using params canon split scope req(3)
      by (simp add: VerifyPresignedURL_def Let_def canonicalHeaders_host)
  qed (simp add: VerifyPresignedURL_def params)
  with v show ?thesis by (simp add: n_def)
qed

section \<open>What a signature fixes\<close>

lemma Join_no:
  "d \<notin> set sep \<Longrightarrow> \<forall>p \<in> set ps. d \<notin> set p \<Longrightarrow> d \<notin> set (Join ps sep)"
  by (induction ps sep rule: Join.induct) auto

lemma canonicalURI_eq: "canonicalURI p = (if p = [] then ''/'' else uriEncode p False)"
  by (simp add: canonicalURI_def uriEncode_segments)

lemma canonicalURI_plain: "CHR 0x0A \<notin> set (canonicalURI p)"
  by (simp add: canonicalURI_eq uriEncode_plain)

text \<open>The canonical path determines the path, an empty one being read as the root.\<close>

definition same_path :: "string \<Rightarrow> string \<Rightarrow> bool" where
  "same_path p q \<longleftrightarrow> p = q \<or> {p, q} = {[], ''/''}"

lemma canonicalURI_same_path: "canonicalURI p = canonicalURI q \<Longrightarrow> same_path p q"
proof -
  assume e: "canonicalURI p = canonicalURI q"
  have s: "uriEncode ''/'' False = ''/''" by (simp add: isUnreserved_def)
  have "canonicalURI x = uriEncode (if x = [] then ''/'' else x) False" for x
    using s by (simp add: canonicalURI_eq)
  with e have "(if p = [] then ''/'' else p) = (if q = [] then ''/'' else q)"
    by (simp only: uriEncode_inject)
  then show ?thesis by (auto simp: same_path_def split: if_splits)
qed

lemma canonical_query_plain: "CHR 0x0A \<notin> set (Join (sort (map canonical_pair ps)) ''&'')"
  by (intro Join_no) (auto simp: canonical_pair_plain)

text \<open>Method, path and query can be read off a canonical request.\<close>

lemma canonical_front_inject:
  assumes e: "m1 @ NL @ canonicalURI p1 @ NL @ canonicalQueryString q1 @ NL @ rest1 =
      m2 @ NL @ canonicalURI p2 @ NL @ canonicalQueryString q2 @ NL @ rest2"
    and m: "CHR 0x0A \<notin> set m1" "CHR 0x0A \<notin> set m2"
  shows "m1 = m2 \<and> same_path p1 p2 \<and> mset (pairs_of q1) = mset (pairs_of q2) \<and> rest1 = rest2"
proof -
  have cut: "a = b \<and> x = y" if "a @ NL @ x = b @ NL @ y" "CHR 0x0A \<notin> set a" "CHR 0x0A \<notin> set b" for a b x y
    using sep_unique [of a "CHR 0x0A" x b y] that by simp
  have plain: "CHR 0x0A \<notin> set (canonicalQueryString q)" for q
    using canonical_query_plain by (simp add: canonicalQueryString_pairs)
  note 1 = cut [OF e m]
  note 2 = cut [OF conjunct2 [OF 1] canonicalURI_plain canonicalURI_plain]
  note 3 = cut [OF conjunct2 [OF 2] plain plain]
  from 3 have "mset (pairs_of q1) = mset (pairs_of q2)"
    unfolding canonicalQueryString_pairs by (intro sorted_query_inject) simp
  with 1 2 3 canonicalURI_same_path show ?thesis by blast
qed

lemma suffix_unique:
  assumes "a @ NL @ h = b @ NL @ k" and "CHR 0x0A \<notin> set h" and "CHR 0x0A \<notin> set k"
  shows "a = b \<and> h = k"
proof -
  from assms(1) have "rev (a @ NL @ h) = rev (b @ NL @ k)" by simp
  then have "rev h @ CHR 0x0A # rev a = rev k @ CHR 0x0A # rev b" by simp
  from sep_unique [OF this] assms(2,3) show ?thesis by simp
qed

lemma hex_plain: "CHR 0x0A \<notin> set (hex_encode bs)"
  using hex_encode_unreserved [of bs] isUnreserved_plain by (auto simp: list_all_iff)

lemma stringToSign_inject:
  assumes "stringToSign P a1 s1 c1 = stringToSign P a2 s2 c2"
  shows "authHeaderPrefix @ NL @ a1 @ NL @ s1 = authHeaderPrefix @ NL @ a2 @ NL @ s2 \<and>
    pf_sha256 P c1 = pf_sha256 P c2"
proof -
  from assms have "(authHeaderPrefix @ NL @ a1 @ NL @ s1) @ NL @ hashSHA256 P c1 =
      (authHeaderPrefix @ NL @ a2 @ NL @ s2) @ NL @ hashSHA256 P c2"
    by (simp add: stringToSign_def)
  from suffix_unique [OF this] show ?thesis by (simp add: hashSHA256_def hex_plain hex_encode_inject)
qed

text \<open>
  \<open>no_collision\<close>: neither primitive maps two different inputs of the given ones to one output. It is
  stated of the inputs at hand, as no function to 32 bytes is injective.
\<close>

definition no_collision :: "('a \<Rightarrow> 'b) \<Rightarrow> 'a \<Rightarrow> 'a \<Rightarrow> bool" where
  "no_collision f x y \<longleftrightarrow> (f x = f y \<longrightarrow> x = y)"

lemma no_collisionD: "no_collision f x y \<Longrightarrow> f x = f y \<Longrightarrow> x = y"
  by (simp add: no_collision_def)

subsection \<open>The Authorization header\<close>

definition auth_field :: "request \<Rightarrow> string \<Rightarrow> string" where
  "auth_field r name =
     smap_get (parseAuthHeader (drop (length authHeaderPrefix + 1) (Header_Get r ''Authorization''))) name"

definition signed_names :: "request \<Rightarrow> string list" where
  "signed_names r = Split CHR '';'' (auth_field r ''SignedHeaders'')"

text \<open>The n-th part of the credential: access key, date, region, service.\<close>

definition credential_part :: "request \<Rightarrow> nat \<Rightarrow> string" where
  "credential_part r n = SplitN CHR ''/'' 5 (auth_field r ''Credential'') ! n"

definition request_key :: "platform \<Rightarrow> string \<Rightarrow> request \<Rightarrow> bytes" where
  "request_key P secretKey r =
     deriveSigningKey P secretKey (credential_part r 1) (credential_part r 2) (credential_part r 3)"

definition signed_string :: "platform \<Rightarrow> request \<Rightarrow> string" where
  "signed_string P r = stringToSign P (Header_Get r ''X-Amz-Date'')
     (credential_scope (credential_part r 1) (credential_part r 2) (credential_part r 3))
     (canonicalRequest r (signed_names r))"

lemma case_five_other:
  "length xs \<noteq> 5 \<Longrightarrow> (case xs of [a, b, c, d, e] \<Rightarrow> f a b c d e | _ \<Rightarrow> y) = y"
  by (auto split: list.splits)

lemma five_cases:
  obtains (five) a b c d e where "xs = [a, b, c, d, e]" | (other) "length xs \<noteq> 5"
proof (cases "length xs = 5")
  case True
  then have "xs = [xs ! 0, xs ! 1, xs ! 2, xs ! 3, xs ! 4]"
    by (intro nth_equalityI) (auto simp: less_Suc_eq numeral_eq_Suc nth_Cons')
  then show ?thesis by (rule five)
qed (rule other)

lemma VerifyRequest_accepted:
  assumes "VerifyRequest P r secretKey now = None"
  obtains ak date region service t
  where "SplitN CHR ''/'' 5 (auth_field r ''Credential'') = [ak, date, region, service, ''aws4_request'']"
    and "parse_timestamp (Header_Get r ''X-Amz-Date'') = Some t" and "\<bar>now - t\<bar> \<le> max_skew"
    and "format_date t = date"
    and "auth_field r ''Signature'' = hex_encode (pf_hmac P (request_key P secretKey r) (signed_string P r))"
    and "HasPrefix (Header_Get r ''Authorization'') (authHeaderPrefix @ '' '')"
proof -
  let ?h = "Header_Get r ''Authorization''" and ?d = "Header_Get r ''X-Amz-Date''"
  note v = assms [unfolded VerifyRequest_def Let_def, folded auth_field_def]
  from v have pre: "HasPrefix ?h (authHeaderPrefix @ '' '')" "?h \<noteq> []"
    "\<not> (auth_field r ''Credential'' = [] \<or> auth_field r ''SignedHeaders'' = [] \<or> auth_field r ''Signature'' = [])"
    by (simp_all only: split: if_splits) simp_all
  note v2 = v [unfolded if_not_P [OF pre(2)] if_not_P [OF pre(3)] not_not if_P [OF pre(1)]]
  show ?thesis
  proof (cases rule: five_cases [of "SplitN CHR ''/'' 5 (auth_field r ''Credential'')"])
    case (five ak date region service e)
    from v2 pre have w: "e = ''aws4_request''" by (simp add: five split: if_splits)
    obtain t where t: "parse_timestamp ?d = Some t"
      using v2 pre by (cases "parse_timestamp ?d") (simp_all add: five w split: if_splits)
    have u: "\<bar>now - t\<bar> \<le> max_skew" "format_date t = date"
      "check_signature P r secretKey date region service ?d (auth_field r ''SignedHeaders'') (auth_field r ''Signature'') = None"
      using v2 pre by (auto simp: five w t split: if_splits)
    from u(3) have "auth_field r ''Signature'' = hex_encode (pf_hmac P (request_key P secretKey r) (signed_string P r))"
      by (simp add: check_signature_def Let_def request_key_def signed_string_def credential_part_def five
          signed_names_def split: if_splits)
    with that five w t u pre show ?thesis by blast
  next
    case other
    with v2 pre show ?thesis by (simp add: case_five_other)
  qed
qed

text \<open>
  What \<open>net/http\<close> guarantees of a parsed request: the method is a token and no header value has a
  line break.
\<close>

definition clean_request :: "request \<Rightarrow> bool" where
  "clean_request r \<longleftrightarrow> CHR 0x0A \<notin> set (rq_Method r) \<and> CHR 0x0A \<notin> set (rq_Host r) \<and>
     (\<forall>(name, vs) \<in> set (rq_Header r). \<forall>v \<in> set vs. CHR 0x0A \<notin> set v)"

definition payload_hash :: "request \<Rightarrow> string" where
  "payload_hash r = (let h = Header_Get r ''X-Amz-Content-Sha256'' in if h = [] then ''UNSIGNED-PAYLOAD'' else h)"

lemma set_Trim: "set (Trim s cs) \<subseteq> set s"
proof -
  have "set (TrimRight u cs) \<subseteq> set u" for u
    using set_dropWhileD [of _ _ "rev u"] by (auto simp: TrimRight_def)
  moreover have "set (TrimLeft s cs) \<subseteq> set s"
    using set_dropWhileD [of _ _ s] by (auto simp: TrimLeft_def)
  ultimately show ?thesis by (auto simp: Trim_def)
qed

lemma header_value_plain: "clean_request r \<Longrightarrow> CHR 0x0A \<notin> set (header_value r name)"
proof -
  assume c: "clean_request r"
  have "CHR 0x0A \<notin> set (Header_Get r name)"
  proof (cases "map_of (rq_Header r) (CanonicalHeaderKey name)")
    case (Some vs)
    from map_of_SomeD [OF this] c have "\<forall>v \<in> set vs. CHR 0x0A \<notin> set v"
      by (auto simp: clean_request_def)
    with Some show ?thesis by (cases vs) (simp_all add: Header_Get_def multi_get_def)
  qed (simp add: Header_Get_def multi_get_def)
  with set_Trim [of "Header_Get r name"] c show ?thesis
    by (auto simp: header_value_def TrimSpace_def clean_request_def)
qed

lemma header_lines_inject:
  assumes "clean_request r1" and "clean_request r2"
  shows "concat (map (\<lambda>n. ToLower n @ '':'' @ header_value r1 n @ NL) ns) @ x =
    concat (map (\<lambda>n. ToLower n @ '':'' @ header_value r2 n @ NL) ns) @ y \<Longrightarrow>
    (\<forall>n \<in> set ns. header_value r1 n = header_value r2 n) \<and> x = y"
proof (induction ns)
  case (Cons n ns)
  from Cons.prems have "header_value r1 n @ CHR 0x0A # (concat (map (\<lambda>n. ToLower n @ '':'' @ header_value r1 n @ NL) ns) @ x) =
      header_value r2 n @ CHR 0x0A # (concat (map (\<lambda>n. ToLower n @ '':'' @ header_value r2 n @ NL) ns) @ y)"
    by simp
  from sep_unique [OF this header_value_plain [OF assms(1)] header_value_plain [OF assms(2)]] Cons.IH
  show ?case by (metis set_ConsD)
qed simp

lemma canonicalRequest_eq:
  "canonicalRequest r names = rq_Method r @ NL @ canonicalURI (rq_Path r) @ NL @ canonicalQueryString (URL_Query r) @ NL @
     concat (map (\<lambda>n. ToLower n @ '':'' @ header_value r n @ NL) (sort names)) @ NL @ Join (sort names) '';'' @ NL @ payload_hash r"
  by (simp add: canonicalRequest_def canonicalHeaders_def payload_hash_def Let_def)

text \<open>A canonical request gives back everything that was put into it.\<close>

lemma canonicalRequest_inject:
  assumes "canonicalRequest r1 names = canonicalRequest r2 names"
    and clean: "clean_request r1" "clean_request r2"
  shows "rq_Method r1 = rq_Method r2 \<and> same_path (rq_Path r1) (rq_Path r2) \<and>
    mset (query_pairs (rq_RawQuery r1)) = mset (query_pairs (rq_RawQuery r2)) \<and>
    (\<forall>n \<in> set names. header_value r1 n = header_value r2 n) \<and> payload_hash r1 = payload_hash r2"
proof -
  from clean have m: "CHR 0x0A \<notin> set (rq_Method r1)" "CHR 0x0A \<notin> set (rq_Method r2)"
    by (simp_all add: clean_request_def)
  note f = canonical_front_inject [OF assms(1) [unfolded canonicalRequest_eq] m]
  note h = header_lines_inject [OF clean conjunct2 [OF conjunct2 [OF conjunct2 [OF f]]]]
  from f h show ?thesis by (simp add: URL_Query_pairs)
qed

lemma accepted_same_request:
  assumes acc: "VerifyRequest P r1 secretKey now1 = None" "VerifyRequest P r2 secretKey now2 = None"
    and auth: "Header_Get r1 ''Authorization'' = Header_Get r2 ''Authorization''"
    and clean: "clean_request r1" "clean_request r2"
    and mac: "no_collision (pf_hmac P (request_key P secretKey r1)) (signed_string P r1) (signed_string P r2)"
    and hash: "no_collision (pf_sha256 P) (canonicalRequest r1 (signed_names r1)) (canonicalRequest r2 (signed_names r2))"
  shows "rq_Method r1 = rq_Method r2 \<and> same_path (rq_Path r1) (rq_Path r2) \<and>
    mset (query_pairs (rq_RawQuery r1)) = mset (query_pairs (rq_RawQuery r2)) \<and>
    (\<forall>n \<in> set (signed_names r1). header_value r1 n = header_value r2 n) \<and> payload_hash r1 = payload_hash r2 \<and>
    Header_Get r1 ''X-Amz-Date'' = Header_Get r2 ''X-Amz-Date''"
proof -
  have a: "auth_field r1 n = auth_field r2 n" for n using auth by (simp add: auth_field_def)
  then have same: "signed_names r2 = signed_names r1" "request_key P secretKey r2 = request_key P secretKey r1"
    "credential_part r2 n = credential_part r1 n" for n
    by (simp_all add: signed_names_def request_key_def credential_part_def)
  have "auth_field r1 ''Signature'' = hex_encode (pf_hmac P (request_key P secretKey r1) (signed_string P r1))"
    using acc(1) by (rule VerifyRequest_accepted)
  moreover have "auth_field r1 ''Signature'' = hex_encode (pf_hmac P (request_key P secretKey r1) (signed_string P r2))"
    using acc(2) unfolding a same(2) [symmetric] by (rule VerifyRequest_accepted)
  ultimately have "signed_string P r1 = signed_string P r2"
    using mac by (intro no_collisionD [OF mac]) (simp add: hex_encode_inject)
  from stringToSign_inject [OF this [unfolded signed_string_def]]
  have s: "Header_Get r1 ''X-Amz-Date'' = Header_Get r2 ''X-Amz-Date''"
    "pf_sha256 P (canonicalRequest r1 (signed_names r1)) = pf_sha256 P (canonicalRequest r2 (signed_names r2))"
    by (simp_all add: same)
  from canonicalRequest_inject [OF no_collisionD [OF hash s(2), unfolded same(1)] clean] s(1)
  show ?thesis by blast
qed

subsection \<open>Presigned requests\<close>

definition unsigned_query :: "request \<Rightarrow> multi_map" where
  "unsigned_query r = multi_del ''x-amz-signature'' (multi_del ''X-Amz-Signature'' (URL_Query r))"

definition presigned_part :: "request \<Rightarrow> nat \<Rightarrow> string" where
  "presigned_part r n = SplitN CHR ''/'' 5 (query_get r ''X-Amz-Credential'') ! n"

definition presigned_key :: "platform \<Rightarrow> string \<Rightarrow> request \<Rightarrow> bytes" where
  "presigned_key P secretKey r =
     deriveSigningKey P secretKey (presigned_part r 1) (presigned_part r 2) (presigned_part r 3)"

definition presigned_canonical :: "request \<Rightarrow> string" where
  "presigned_canonical r = rq_Method r @ NL @ canonicalURI (rq_Path r) @ NL @ canonicalQueryString (unsigned_query r) @ NL @
     fst (canonicalHeaders r (Split CHR '';'' (query_get r ''X-Amz-SignedHeaders''))) @ NL @
     query_get r ''X-Amz-SignedHeaders'' @ NL @ ''UNSIGNED-PAYLOAD''"

definition presigned_string :: "platform \<Rightarrow> request \<Rightarrow> string" where
  "presigned_string P r = stringToSign P (query_get r ''X-Amz-Date'')
     (credential_scope (presigned_part r 1) (presigned_part r 2) (presigned_part r 3)) (presigned_canonical r)"

lemma parsePresigned_fields:
  "parsePresignedParams r = Inr p \<Longrightarrow>
   pq_credential p = query_get r ''X-Amz-Credential'' \<and> pq_amzDate p = query_get r ''X-Amz-Date'' \<and>
   pq_expiresStr p = query_get r ''X-Amz-Expires'' \<and> pq_signedHeaders p = query_get r ''X-Amz-SignedHeaders'' \<and>
   pq_signature p = query_get r ''X-Amz-Signature''"
  by (auto simp: parsePresignedParams_def Let_def split: if_splits)

lemma VerifyPresignedURL_accepted:
  assumes "VerifyPresignedURL P r secretKey now = None"
  obtains p where "parsePresignedParams r = Inr p" and "validatePresignedExpiry p now = None"
    and "length (SplitN CHR ''/'' 5 (query_get r ''X-Amz-Credential'')) = 5"
    and "query_get r ''X-Amz-Signature'' = hex_encode (pf_hmac P (presigned_key P secretKey r) (presigned_string P r))"
proof -
  obtain p where p: "parsePresignedParams r = Inr p"
    using assms by (cases "parsePresignedParams r") (auto simp: VerifyPresignedURL_def)
  note f = parsePresigned_fields [OF p]
  from assms p have v: "validatePresignedExpiry p now = None"
    by (cases "validatePresignedExpiry p now") (simp_all add: VerifyPresignedURL_def)
  show ?thesis
  proof (cases rule: five_cases [of "SplitN CHR ''/'' 5 (pq_credential p)"])
    case (five ak date region service e)
    then have "SplitN CHR ''/'' 5 (query_get r ''X-Amz-Credential'') = [ak, date, region, service, e]"
      using f by simp
    moreover from this have "pq_signature p = hex_encode (pf_hmac P (presigned_key P secretKey r) (presigned_string P r))"
      using assms p v f
      by (simp add: VerifyPresignedURL_def Let_def presigned_key_def presigned_string_def presigned_part_def
          presigned_canonical_def unsigned_query_def split: if_splits)
    ultimately show ?thesis using that [OF p v] f by simp
  next
    case other
    with assms p v show ?thesis by (simp add: VerifyPresignedURL_def case_five_other)
  qed
qed

lemma presigned_same_request:
  assumes acc: "VerifyPresignedURL P r1 secretKey now1 = None" "VerifyPresignedURL P r2 secretKey now2 = None"
    and sig: "query_get r1 ''X-Amz-Signature'' = query_get r2 ''X-Amz-Signature''"
    and m: "CHR 0x0A \<notin> set (rq_Method r1)" "CHR 0x0A \<notin> set (rq_Method r2)"
    and mac: "no_collision (\<lambda>(k, d). pf_hmac P k d)
      (presigned_key P secretKey r1, presigned_string P r1) (presigned_key P secretKey r2, presigned_string P r2)"
    and hash: "no_collision (pf_sha256 P) (presigned_canonical r1) (presigned_canonical r2)"
  shows "rq_Method r1 = rq_Method r2 \<and> same_path (rq_Path r1) (rq_Path r2) \<and>
    mset (pairs_of (unsigned_query r1)) = mset (pairs_of (unsigned_query r2))"
proof -
  have "query_get r1 ''X-Amz-Signature'' = hex_encode (pf_hmac P (presigned_key P secretKey r1) (presigned_string P r1))"
    using acc(1) by (rule VerifyPresignedURL_accepted)
  moreover have "query_get r2 ''X-Amz-Signature'' = hex_encode (pf_hmac P (presigned_key P secretKey r2) (presigned_string P r2))"
    using acc(2) by (rule VerifyPresignedURL_accepted)
  ultimately have "presigned_string P r1 = presigned_string P r2"
    using sig no_collisionD [OF mac] by (simp add: hex_encode_inject)
  from stringToSign_inject [OF this [unfolded presigned_string_def]]
  have "presigned_canonical r1 = presigned_canonical r2" by (intro no_collisionD [OF hash]) simp
  from canonical_front_inject [OF this [unfolded presigned_canonical_def] m] show ?thesis by blast
qed

text \<open>The pairs of the query other than the signature.\<close>

lemma unsigned_query_pairs:
  "mset (pairs_of (unsigned_query r)) =
   mset (filter (\<lambda>(k, v). k \<noteq> ''X-Amz-Signature'' \<and> k \<noteq> ''x-amz-signature'') (query_pairs (rq_RawQuery r)))"
proof -
  have "filter (\<lambda>(k, v). k \<noteq> b) (filter (\<lambda>(k, v). k \<noteq> a) ps) = filter (\<lambda>(k, v). k \<noteq> a \<and> k \<noteq> b) ps"
    for a b :: string and ps :: "(string \<times> string) list"
    by (induction ps) auto
  then show ?thesis
    unfolding unsigned_query_def pairs_of_del by (simp only: mset_filter URL_Query_pairs)
qed

end
