(* ===== verification/Backend_Interface.thy ===== *)
theory Backend_Interface
  imports Go_Errors
begin

text \<open>
  The interface \<open>backend.Backend\<close> (internal/backend/interface.go): where the bytes of the objects
  live. A backend is a record of operations over a state \<open>'b\<close>. Each operation returns its result
  and the state it leaves, also when it fails: a failed write may have created directories. The
  optional methods \<open>CreateBucketDir\<close> and \<open>DeleteBucketDir\<close>, which the engine finds by a type
  assertion, are options.
\<close>

record object_info =
  oi_Size :: int64
  oi_ModTime :: time

record 'b backend_ops =
  b_Write :: "'b \<Rightarrow> string \<Rightarrow> string \<Rightarrow> reader \<Rightarrow> int64 \<Rightarrow> int64 result \<times> 'b"
  b_Read :: "'b \<Rightarrow> string \<Rightarrow> string \<Rightarrow> reader \<times> 'b"
  b_Delete :: "'b \<Rightarrow> string \<Rightarrow> string \<Rightarrow> unit result \<times> 'b"
  b_Exists :: "'b \<Rightarrow> string \<Rightarrow> string \<Rightarrow> bool result"
  b_Stat :: "'b \<Rightarrow> string \<Rightarrow> string \<Rightarrow> object_info result"
  b_CreateBucketDir :: "('b \<Rightarrow> string \<Rightarrow> unit result \<times> 'b) option"
  b_DeleteBucketDir :: "('b \<Rightarrow> string \<Rightarrow> unit result \<times> 'b) option"

text \<open>The number of bytes of a body, as the \<open>int64\<close> that \<open>io.Copy\<close> counts.\<close>

definition byte_count :: "bytes \<Rightarrow> int64" where
  "byte_count bs = of_nat (length bs)"

text \<open>
  The contract, for the bucket and key names in \<open>good\<close>: \<open>bview\<close> is the map from name to content.
  A write either stores the whole body or leaves every object as it was; a read delivers the
  stored bytes and changes nothing; a delete removes the object and fails only where there is none.
\<close>

locale object_backend =
  fixes B :: "'b backend_ops"
    and bview :: "'b \<Rightarrow> string \<Rightarrow> string \<Rightarrow> bytes option"
    and binv :: "'b \<Rightarrow> bool"
    and good :: "string \<Rightarrow> string \<Rightarrow> bool"
  assumes write_inv: "binv s \<Longrightarrow> good b k \<Longrightarrow> b_Write B s b k r sz = (res, s') \<Longrightarrow> binv s'"
    and write_ok: "binv s \<Longrightarrow> good b k \<Longrightarrow> b_Write B s b k r sz = (Inr n, s') \<Longrightarrow>
        rd_err r = None \<and> n = byte_count (rd_data r) \<and>
        bview s' = (bview s)(b := (bview s b)(k \<mapsto> rd_data r))"
    and write_err: "binv s \<Longrightarrow> good b k \<Longrightarrow> b_Write B s b k r sz = (Inl e, s') \<Longrightarrow> bview s' = bview s"
    and read_frame: "binv s \<Longrightarrow> good b k \<Longrightarrow> b_Read B s b k = (rd, s') \<Longrightarrow> binv s' \<and> bview s' = bview s"
    and read_Some: "binv s \<Longrightarrow> good b k \<Longrightarrow> bview s b k = Some d \<Longrightarrow> fst (b_Read B s b k) = reader_of d"
    and read_None: "binv s \<Longrightarrow> good b k \<Longrightarrow> bview s b k = None \<Longrightarrow> rd_err (fst (b_Read B s b k)) \<noteq> None"
    and delete_ok: "binv s \<Longrightarrow> good b k \<Longrightarrow> b_Delete B s b k = (Inr u, s') \<Longrightarrow>
        binv s' \<and> bview s' = (bview s)(b := (bview s b)(k := None))"
    and delete_err: "binv s \<Longrightarrow> good b k \<Longrightarrow> b_Delete B s b k = (Inl e, s') \<Longrightarrow>
        binv s' \<and> bview s' = bview s \<and> bview s b k = None"
    and exists_Some: "binv s \<Longrightarrow> good b k \<Longrightarrow> bview s b k \<noteq> None \<Longrightarrow> b_Exists B s b k = Inr True"
    and stat_Some: "binv s \<Longrightarrow> good b k \<Longrightarrow> bview s b k = Some d \<Longrightarrow>
        \<exists>i. b_Stat B s b k = Inr i \<and> oi_Size i = byte_count d"
    and mkbucket: "binv s \<Longrightarrow> b_CreateBucketDir B = Some f \<Longrightarrow> f s b = (ures, s') \<Longrightarrow>
        binv s' \<and> bview s' = bview s"
    and rmbucket: "binv s \<Longrightarrow> b_DeleteBucketDir B = Some f \<Longrightarrow> f s b = (ures, s') \<Longrightarrow>
        binv s' \<and> bview s' = bview s"

context object_backend
begin

lemma delete_frame: "binv s \<Longrightarrow> good b k \<Longrightarrow> b_Delete B s b k = (res, s') \<Longrightarrow>
    binv s' \<and> bview s' = (bview s)(b := (bview s b)(k := None))"
proof (cases res)
  case (Inl e)
  assume "binv s" "good b k" "b_Delete B s b k = (res, s')"
  from delete_err [OF this [unfolded Inl]] show ?thesis by (auto simp: fun_eq_iff)
next
  case (Inr u)
  assume "binv s" "good b k" "b_Delete B s b k = (res, s')"
  from delete_ok [OF this [unfolded Inr]] show ?thesis .
qed

lemma write_read:
  "binv s \<Longrightarrow> good b k \<Longrightarrow> b_Write B s b k r sz = (Inr n, s') \<Longrightarrow> fst (b_Read B s' b k) = reader_of (rd_data r)"
  using write_inv [of s b k r sz "Inr n" s'] write_ok [of s b k r sz n s'] read_Some [of s' b k] by simp

lemma write_read_other:
  "binv s \<Longrightarrow> good b k \<Longrightarrow> good b' k' \<Longrightarrow> (b', k') \<noteq> (b, k) \<Longrightarrow> b_Write B s b k r sz = (res, s') \<Longrightarrow>
   bview s' b' k' = bview s b' k'"
  using write_ok [of s b k r sz _ s'] write_err [of s b k r sz _ s'] by (cases res) auto

end

end
