(* ===== verification/Engine_Types.thy ===== *)
theory Engine_Types
  imports Meta_Interface Backend_Interface Sse_Crypto
begin

text \<open>
  The state of the storage engine (internal/storage/engine.go) and what a call of one of its
  operations draws from the outside. \<open>Engine\<close> holds a backend, a metadata store and two bounded
  queues that background workers empty: \<open>NewReplicationWorker\<close> and \<open>NewWebhookDispatcher\<close> make
  channels of 4096 and 8192 tasks. The package variable \<open>masterKey\<close> is a field here.

  The operations of the store and of the backend are the arguments \<open>M\<close> and \<open>B\<close> of the engine's
  definitions, as the fields \<open>meta\<close> and \<open>backend\<close> of the Go struct are interface values. A call reads
  the clock (\<open>env_now\<close>), the UUID generator (\<open>env_uuid\<close>) and random bytes (\<open>env_rand\<close>); a call that
  reads the clock twice is given one time.
\<close>

record env =
  env_now :: time
  env_uuid :: string
  env_rand :: random_source

record notification_event =
  ne_EventVersion :: string
  ne_EventSource :: string
  ne_EventTime :: time
  ne_EventName :: string
  ne_PrincipalID :: string
  ne_SchemaVersion :: string
  ne_BucketName :: string
  ne_BucketArn :: string
  ne_ObjectKey :: string
  ne_ObjectSize :: int64
  ne_ObjectETag :: string

record webhook_task =
  wtask_event :: notification_event
  wtask_target :: webhook_target

record replication_task =
  rt_bucket :: string
  rt_key :: string
  rt_rules :: "replication_rule list"

record ('m, 'b) engine =
  e_backend :: 'b
  e_meta :: 'm
  e_ownerID :: string
  e_replication :: "replication_task list"
  e_webhooks :: "webhook_task list"
  e_masterKey :: "bytes option"

definition replication_queue_cap :: nat where
  "replication_queue_cap = 4096"

definition webhook_queue_cap :: nat where
  "webhook_queue_cap = 8192"

definition engine_New :: "'b \<Rightarrow> 'm \<Rightarrow> string \<Rightarrow> ('m, 'b) engine" where
  "engine_New b m ownerID = \<lparr>e_backend = b, e_meta = m, e_ownerID = ownerID, e_replication = [],
     e_webhooks = [], e_masterKey = None\<rparr>"

text \<open>Lifting an error of the metadata lookup: a missing bucket has its own error.\<close>

definition bucket_err :: "string \<Rightarrow> string \<Rightarrow> err \<Rightarrow> err" where
  "bucket_err what bucket err =
     (if isNotFound err then BucketNotFoundError bucket else Wrap what err)"

definition object_err :: "string \<Rightarrow> string \<Rightarrow> string \<Rightarrow> err \<Rightarrow> err" where
  "object_err what bucket key err =
     (if isNotFound err then ObjectNotFoundError bucket key else Wrap what err)"

text \<open>A write to the metadata store whose error is reported, and one whose error is ignored.\<close>

definition meta_write :: "('m \<Rightarrow> 'm result) \<Rightarrow> (err \<Rightarrow> err) \<Rightarrow> 'a \<Rightarrow> (('m, 'b) engine, 'a) op" where
  "meta_write w wrap x e =
     (case w (e_meta e) of Inl err \<Rightarrow> (Inl (wrap err), e) | Inr m \<Rightarrow> (Inr x, e\<lparr>e_meta := m\<rparr>))"

definition meta_quiet :: "('m \<Rightarrow> 'm result) \<Rightarrow> ('m, 'b) engine \<Rightarrow> ('m, 'b) engine" where
  "meta_quiet w e = (case w (e_meta e) of Inl err \<Rightarrow> e | Inr m \<Rightarrow> e\<lparr>e_meta := m\<rparr>)"

text \<open>
  The invariant of an engine over a store and a backend that keep their contracts: both states
  satisfy theirs, and the queues respect their capacity.
\<close>

definition engine_inv :: "('m \<Rightarrow> bool) \<Rightarrow> ('b \<Rightarrow> bool) \<Rightarrow> ('m, 'b) engine \<Rightarrow> bool" where
  "engine_inv sinv binv e \<longleftrightarrow> sinv (e_meta e) \<and> binv (e_backend e) \<and>
     length (e_replication e) \<le> replication_queue_cap \<and> length (e_webhooks e) \<le> webhook_queue_cap"

lemma bucket_err_notfound [simp]: "isNotFound err \<Longrightarrow> bucket_err what b err = BucketNotFoundError b"
  by (simp add: bucket_err_def)

lemma object_err_notfound [simp]: "isNotFound err \<Longrightarrow> object_err what b k err = ObjectNotFoundError b k"
  by (simp add: object_err_def)

end
