(* ===== verification/Events.thy ===== *)
theory Events
  imports Engine_Types
begin

text \<open>
  Event notification (internal/storage/webhook.go) and replication (internal/storage/replication.go):
  the two queues the engine fills after a write, which targets and rules a task is made for, and
  what a worker does with a task. Delivery over the network is a parameter: \<open>http\<close> maps a request
  to the status code of the response, \<open>None\<close> when there is no response.
\<close>

abbreviation "EventObjectCreatedPut \<equiv> ''s3:ObjectCreated:Put''"
abbreviation "EventObjectCreatedMultipartCompleted \<equiv> ''s3:ObjectCreated:CompleteMultipartUpload''"
abbreviation "EventObjectRemovedDelete \<equiv> ''s3:ObjectRemoved:Delete''"

section \<open>Webhooks\<close>

definition matchEventPattern :: "string \<Rightarrow> string \<Rightarrow> bool" where
  "matchEventPattern pattern event =
     (if pattern = event then True
      else if HasSuffix pattern ''*'' then HasPrefix event (TrimSuffix pattern ''*'')
      else False)"

definition eventMatchesTarget :: "string \<Rightarrow> webhook_target \<Rightarrow> bool" where
  "eventMatchesTarget event target = list_ex (\<lambda>p. matchEventPattern p event) (wt_Events target)"

text \<open>A non-blocking send: the task is dropped when the channel is full.\<close>

definition try_send :: "nat \<Rightarrow> 'a list \<Rightarrow> 'a \<Rightarrow> 'a list" where
  "try_send cap q x = (if length q < cap then q @ [x] else q)"

fun Dispatch_targets :: "notification_event \<Rightarrow> webhook_target list \<Rightarrow> webhook_task list \<Rightarrow> webhook_task list" where
  "Dispatch_targets ev [] q = q"
| "Dispatch_targets ev (wt # wts) q =
     (if \<not> eventMatchesTarget (ne_EventName ev) wt then Dispatch_targets ev wts q
      else Dispatch_targets ev wts
             (try_send webhook_queue_cap q \<lparr>wtask_event = ev, wtask_target = wt\<rparr>))"

definition Dispatch :: "notification_config option \<Rightarrow> notification_event \<Rightarrow> webhook_task list \<Rightarrow> webhook_task list" where
  "Dispatch cfg ev q =
     (case cfg of None \<Rightarrow> q | Some c \<Rightarrow> Dispatch_targets ev (WebhookTargets c) q)"

definition buildObjectCreatedEvent ::
    "time \<Rightarrow> string \<Rightarrow> string \<Rightarrow> string \<Rightarrow> string \<Rightarrow> int64 \<Rightarrow> string \<Rightarrow> notification_event" where
  "buildObjectCreatedEvent now bucket key etag owner sz eventName = \<lparr>
     ne_EventVersion = ''2.2'', ne_EventSource = ''sangraha:s3'', ne_EventTime = now,
     ne_EventName = eventName, ne_PrincipalID = owner, ne_SchemaVersion = ''1.0'',
     ne_BucketName = bucket, ne_BucketArn = ''arn:aws:s3:::'' @ bucket,
     ne_ObjectKey = key, ne_ObjectSize = sz, ne_ObjectETag = etag\<rparr>"

definition buildObjectRemovedEvent :: "time \<Rightarrow> string \<Rightarrow> string \<Rightarrow> string \<Rightarrow> notification_event" where
  "buildObjectRemovedEvent now bucket key owner = \<lparr>
     ne_EventVersion = ''2.2'', ne_EventSource = ''sangraha:s3'', ne_EventTime = now,
     ne_EventName = EventObjectRemovedDelete, ne_PrincipalID = owner, ne_SchemaVersion = ''1.0'',
     ne_BucketName = bucket, ne_BucketArn = ''arn:aws:s3:::'' @ bucket,
     ne_ObjectKey = key, ne_ObjectSize = 0, ne_ObjectETag = []\<rparr>"

record http_request =
  hr_Method :: string
  hr_URL :: string
  hr_Headers :: smap
  hr_Body :: bytes

definition webhookSignature :: "platform \<Rightarrow> string \<Rightarrow> bytes \<Rightarrow> string" where
  "webhookSignature P secret payload = hex_encode (pf_hmac P secret payload)"

definition webhook_request :: "platform \<Rightarrow> string \<Rightarrow> webhook_target \<Rightarrow> bytes \<Rightarrow> http_request" where
  "webhook_request P eventID target payload = \<lparr>
     hr_Method = ''POST'', hr_URL = wt_URL target,
     hr_Headers = [(''Content-Type'', ''application/json''), (''X-Sangraha-Event-ID'', eventID)] @
       (if wt_Secret target \<noteq> []
        then [(''X-Sangraha-Signature'', ''sha256='' @ webhookSignature P (wt_Secret target) payload)]
        else []),
     hr_Body = payload\<rparr>"

definition tryDeliver ::
    "platform \<Rightarrow> (http_request \<Rightarrow> int option) \<Rightarrow> string \<Rightarrow> webhook_target \<Rightarrow> bytes \<Rightarrow> bool" where
  "tryDeliver P http eventID target payload =
     (case http (webhook_request P eventID target payload) of
        None \<Rightarrow> False
      | Some status \<Rightarrow> status div 100 = 2)"

text \<open>
  \<open>deliver\<close>: at most three attempts; \<open>http i\<close> and \<open>ids i\<close> are the network and the event id at attempt
  \<open>i\<close>. The result is the number of attempts made, the seconds slept and whether one succeeded.
\<close>

fun deliver_loop ::
    "platform \<Rightarrow> (nat \<Rightarrow> http_request \<Rightarrow> int option) \<Rightarrow> (nat \<Rightarrow> string) \<Rightarrow> webhook_target \<Rightarrow> bytes \<Rightarrow>
     nat \<Rightarrow> nat \<Rightarrow> nat \<Rightarrow> nat \<times> nat \<times> bool" where
  "deliver_loop P http ids target payload 0 attempt slept = (attempt, slept, False)"
| "deliver_loop P http ids target payload (Suc left) attempt slept =
     (let slept' = (if attempt > 0 then slept + attempt * attempt else slept) in
      if tryDeliver P (http attempt) (ids attempt) target payload then (attempt + 1, slept', True)
      else deliver_loop P http ids target payload left (attempt + 1) slept')"

definition deliver ::
    "platform \<Rightarrow> (nat \<Rightarrow> http_request \<Rightarrow> int option) \<Rightarrow> (nat \<Rightarrow> string) \<Rightarrow> webhook_target \<Rightarrow> bytes \<Rightarrow>
     nat \<times> nat \<times> bool" where
  "deliver P http ids target payload = deliver_loop P http ids target payload 3 0 0"

section \<open>Replication\<close>

definition Enqueue :: "string \<Rightarrow> string \<Rightarrow> replication_rule list \<Rightarrow> replication_task list \<Rightarrow> replication_task list" where
  "Enqueue bucket key rules q =
     (let active = filter (\<lambda>r. rr_Status r = ''Enabled'') rules in
      if active = [] then q
      else try_send replication_queue_cap q \<lparr>rt_bucket = bucket, rt_key = key, rt_rules = active\<rparr>)"

definition ruleMatchesKey :: "replication_rule \<Rightarrow> string \<Rightarrow> bool" where
  "ruleMatchesKey rule key =
     (let pfx = lf_Prefix (rr_Filter rule) in pfx = [] \<or> HasPrefix key pfx)"

definition resolveDestBucket :: "string \<Rightarrow> string" where
  "resolveDestBucket arn =
     (if HasPrefix arn ''arn:aws:s3:::'' then TrimPrefix arn ''arn:aws:s3:::''
      else case after_last CHR ''/'' arn of Some b \<Rightarrow> b | None \<Rightarrow> arn)"

definition hexSHA256 :: "platform \<Rightarrow> bytes \<Rightarrow> string" where
  "hexSHA256 P data = hex_encode (pf_sha256 P data)"

text \<open>
  \<open>signReplicationRequest\<close>: the Signature Version 4 headers. \<open>dateStamp\<close> and \<open>amzDate\<close> are the two
  formats of the current time, \<open>host\<close> and \<open>uri\<close> the parts of the URL that Go's parser finds.
\<close>

definition signReplicationRequest ::
    "platform \<Rightarrow> string \<Rightarrow> string \<Rightarrow> string \<Rightarrow> string \<Rightarrow> string \<Rightarrow> string \<Rightarrow> string \<Rightarrow> bytes \<Rightarrow> smap" where
  "signReplicationRequest P dateStamp amzDate method host escapedPath accessKey secretKey body =
     (let region = ''us-east-1''; service = ''s3'';
          kDate = pf_hmac P (''AWS4'' @ secretKey) dateStamp;
          kRegion = pf_hmac P kDate region;
          kService = pf_hmac P kRegion service;
          kSigning = pf_hmac P kService ''aws4_request'';
          nl = [CHR 0x0A];
          canonicalHeaders = ''host:'' @ host @ nl @ ''x-amz-content-sha256:'' @ hexSHA256 P body @ nl @
            ''x-amz-date:'' @ amzDate @ nl;
          signedHeaders = ''host;x-amz-content-sha256;x-amz-date'';
          canonicalURI = (if escapedPath = [] then ''/'' else escapedPath);
          canonicalRequest = Join [method, canonicalURI, [], canonicalHeaders, signedHeaders, hexSHA256 P body] nl;
          credentialScope = Join [dateStamp, region, service, ''aws4_request''] ''/'';
          stringToSign = ''AWS4-HMAC-SHA256'' @ nl @ amzDate @ nl @ credentialScope @ nl @ hexSHA256 P canonicalRequest;
          signature = hex_encode (pf_hmac P kSigning stringToSign)
      in [(''x-amz-date'', amzDate), (''x-amz-content-sha256'', hexSHA256 P body), (''Host'', host),
          (''Authorization'', ''AWS4-HMAC-SHA256 Credential='' @ accessKey @ ''/'' @ credentialScope @
             '', SignedHeaders='' @ signedHeaders @ '', Signature='' @ signature)])"

text \<open>
  \<open>replicate\<close> reads the object and puts it to the destination. The read uses the plain object key.
  \<open>sign\<close> stands for the header computation above, which needs the clock and the parsed URL.
\<close>

definition replication_url :: "replication_dest \<Rightarrow> string \<Rightarrow> string" where
  "replication_url dest key =
     (let endpoint = (if rd_Endpoint dest = [] then ''https://s3.amazonaws.com'' else rd_Endpoint dest)
      in TrimRight endpoint ''/'' @ ''/'' @ resolveDestBucket (rd_BucketARN dest) @ ''/'' @ key)"

definition replicate_object ::
    "'b backend_ops \<Rightarrow> (string \<Rightarrow> bytes \<Rightarrow> smap) \<Rightarrow> (http_request \<Rightarrow> int option) \<Rightarrow> string \<Rightarrow> string \<Rightarrow>
     replication_dest \<Rightarrow> ('m, 'b) engine \<Rightarrow> unit result \<times> ('m, 'b) engine" where
  "replicate_object B sign http bucket key dest e =
     (case b_Read B (e_backend e) bucket key of
        (rd, b') \<Rightarrow>
          let e' = e\<lparr>e_backend := b'\<rparr>; destBucket = resolveDestBucket (rd_BucketARN dest)
          in (case rd_err rd of
                Some err \<Rightarrow> (Inl (Wrap ''replication read'' err), e')
              | None \<Rightarrow>
                  (let url = replication_url dest key;
                       hdrs = (''Content-Type'', ''application/octet-stream'') #
                         (if rd_AccessKey dest \<noteq> [] \<and> rd_SecretKey dest \<noteq> [] then sign url (rd_data rd) else [])
                   in case http \<lparr>hr_Method = ''PUT'', hr_URL = url, hr_Headers = hdrs, hr_Body = rd_data rd\<rparr> of
                        None \<Rightarrow> (Inl (Errorf ''replication put %s/%s'' [FStr destBucket, FStr key]), e')
                      | Some status \<Rightarrow>
                          if status div 100 \<noteq> 2
                          then (Inl (Errorf ''replication: destination returned %d for %s/%s''
                                  [FInt status, FStr destBucket, FStr key]), e')
                          else (Inr (), e'))))"

fun replication_rules ::
    "'b backend_ops \<Rightarrow> (string \<Rightarrow> bytes \<Rightarrow> smap) \<Rightarrow> (http_request \<Rightarrow> int option) \<Rightarrow> string \<Rightarrow> string \<Rightarrow>
     replication_rule list \<Rightarrow> ('m, 'b) engine \<Rightarrow> ('m, 'b) engine" where
  "replication_rules B sign http bucket key [] e = e"
| "replication_rules B sign http bucket key (rule # rules) e =
     (if \<not> ruleMatchesKey rule key then replication_rules B sign http bucket key rules e
      else replication_rules B sign http bucket key rules
             (snd (replicate_object B sign http bucket key (rr_Destination rule) e)))"

text \<open>One turn of a replication worker: it takes the oldest task and runs its rules.\<close>

definition replication_run ::
    "'b backend_ops \<Rightarrow> (string \<Rightarrow> bytes \<Rightarrow> smap) \<Rightarrow> (http_request \<Rightarrow> int option) \<Rightarrow>
     ('m, 'b) engine \<Rightarrow> ('m, 'b) engine" where
  "replication_run B sign http e =
     (case e_replication e of
        [] \<Rightarrow> e
      | t # ts \<Rightarrow> replication_rules B sign http (rt_bucket t) (rt_key t) (rt_rules t) (e\<lparr>e_replication := ts\<rparr>))"

section \<open>Lemmas\<close>

lemma try_send_cap: "length q \<le> cap \<Longrightarrow> length (try_send cap q x) \<le> cap"
  by (simp add: try_send_def)

lemma try_send_prefix: "prefix q (try_send cap q x)"
  by (simp add: try_send_def)

lemma Dispatch_targets_cap:
  "length q \<le> webhook_queue_cap \<Longrightarrow> length (Dispatch_targets ev wts q) \<le> webhook_queue_cap"
  by (induction ev wts q rule: Dispatch_targets.induct) (auto simp: try_send_cap)

lemma Dispatch_targets_prefix: "prefix q (Dispatch_targets ev wts q)"
  by (induction ev wts q rule: Dispatch_targets.induct) (auto intro: prefix_order.trans [OF try_send_prefix])

lemma Dispatch_cap: "length q \<le> webhook_queue_cap \<Longrightarrow> length (Dispatch cfg ev q) \<le> webhook_queue_cap"
  by (simp add: Dispatch_def Dispatch_targets_cap split: option.split)

lemma Enqueue_cap: "length q \<le> replication_queue_cap \<Longrightarrow> length (Enqueue b k rules q) \<le> replication_queue_cap"
  by (simp add: Enqueue_def Let_def try_send_cap)

text \<open>With room in the queue, exactly the matching targets get a task, in order.\<close>

lemma Dispatch_targets_all:
  "length q + length (filter (eventMatchesTarget (ne_EventName ev)) wts) \<le> webhook_queue_cap \<Longrightarrow>
   Dispatch_targets ev wts q =
     q @ map (\<lambda>wt. \<lparr>wtask_event = ev, wtask_target = wt\<rparr>) (filter (eventMatchesTarget (ne_EventName ev)) wts)"
  by (induction ev wts q rule: Dispatch_targets.induct) (auto simp: try_send_def)

lemma deliver_loop_bounds:
  "deliver_loop P http ids t pl left attempt slept = (n, s, ok) \<Longrightarrow>
   n \<le> attempt + left \<and> (ok \<longleftrightarrow> (\<exists>i. attempt \<le> i \<and> i < attempt + left \<and> tryDeliver P (http i) (ids i) t pl))"
proof (induction left arbitrary: attempt slept)
  case 0
  then show ?case by auto
next
  case (Suc left)
  show ?case
  proof (cases "tryDeliver P (http attempt) (ids attempt) t pl")
    case True
    with Suc.prems show ?thesis by (auto simp: Let_def intro!: exI [of _ attempt])
  next
    case False
    with Suc.prems have "deliver_loop P http ids t pl left (attempt + 1)
        (if attempt > 0 then slept + attempt * attempt else slept) = (n, s, ok)" by (simp add: Let_def)
    from Suc.IH [OF this] False show ?thesis
      by (metis Suc_eq_plus1 Suc_leD Suc_leI add_Suc_right add_Suc_shift le_neq_implies_less)
  qed
qed

end
