(* ===== verification/Sigv4_Replication.thy ===== *)
theory Sigv4_Replication
  imports Sigv4_Correct Events
begin

text \<open>
  The replication worker signs the requests it sends (\<open>signReplicationRequest\<close> of
  internal/storage/replication.go); the destination may be another instance of the same server, which
  verifies them with \<open>VerifyRequest\<close> of internal/auth/sigv4.go. The two canonical requests agree exactly
  when the two ways of escaping the path do.
\<close>

section \<open>Parsing the header that was written\<close>

definition spaces :: string where
  "spaces = [CHR '' '', CHR 0x09, CHR 0x0A, CHR 0x0B, CHR 0x0C, CHR 0x0D]"

text \<open>A byte string without white space at its ends is left alone.\<close>

definition trimmed :: "string \<Rightarrow> bool" where
  "trimmed s \<longleftrightarrow> s = [] \<or> (hd s \<notin> set spaces \<and> last s \<notin> set spaces)"

lemma TrimLeft_trimmed: "s = [] \<or> hd s \<notin> set cs \<Longrightarrow> TrimLeft s cs = s"
  by (cases s) (auto simp: TrimLeft_def)

lemma TrimRight_trimmed: "s = [] \<or> last s \<notin> set cs \<Longrightarrow> TrimRight s cs = s"
  by (cases s rule: rev_cases) (auto simp: TrimRight_def)

lemma TrimSpace_trimmed: "trimmed s \<Longrightarrow> TrimSpace s = s"
  unfolding TrimSpace_def spaces_def [symmetric] Trim_def trimmed_def
  by (metis TrimLeft_trimmed TrimRight_trimmed)

lemma unreserved_no_space: "isUnreserved c \<Longrightarrow> c \<notin> set spaces \<and> c \<noteq> CHR '',''"
  by (auto simp: isUnreserved_def less_eq_char_def spaces_def)

lemma Split2_no_sep: "a \<notin> set s \<Longrightarrow> Split2 a b s = [s]"
proof (induction s)
  case (Cons c s)
  then show ?case by (subst Split2.simps) (auto split: list.splits)
qed (simp add: Split2.simps)

lemma Split2_sep: "a \<notin> set s \<Longrightarrow> a \<noteq> b \<Longrightarrow> Split2 a b (s @ a # b # u) = s # Split2 a b u"
proof (induction s)
  case Nil
  then show ?case by (subst Split2.simps) simp
next
  case (Cons c s)
  then have ih: "Split2 a b (s @ a # b # u) = s # Split2 a b u" and "c \<noteq> a" by auto
  then show ?case by (subst append_Cons, subst Split2.simps) (auto split: list.splits)
qed

lemma auth_part_eq:
  assumes "trimmed (k @ ''='' @ v)" and "trimmed k" and "trimmed v" and "CHR ''='' \<notin> set k"
  shows "auth_part out (k @ ''='' @ v) = AList.update k v out"
proof -
  have "SplitN CHR ''='' 2 (k @ ''='' @ v) = [k, v]"
    using SplitN_sep [OF assms(4), of 2 v] by (simp add: SplitN_1)
  with assms show ?thesis by (simp add: auth_part_def TrimSpace_trimmed)
qed

text \<open>A credential or a list of header names holds no comma and no white space.\<close>

definition field_value :: "string \<Rightarrow> bool" where
  "field_value v \<longleftrightarrow> v \<noteq> [] \<and> (\<forall>c \<in> set v. c \<notin> set spaces \<and> c \<noteq> CHR '','')"

lemma field_value_trimmed: "field_value v \<Longrightarrow> trimmed v"
  by (simp add: field_value_def trimmed_def)

lemma field_value_unreserved: "list_all isUnreserved v \<Longrightarrow> v \<noteq> [] \<Longrightarrow> field_value v"
  using unreserved_no_space by (simp add: field_value_def list_all_iff)

lemma field_value_append: "field_value a \<Longrightarrow> field_value b \<Longrightarrow> field_value (a @ b)"
  by (auto simp: field_value_def)

lemma field_part_trimmed:
  assumes "field_value v" and "field_value k"
  shows "trimmed (k @ ''='' @ v)"
  using assms by (simp add: trimmed_def field_value_def)

lemma parse_three_fields:
  assumes f: "field_value c" "field_value h" "field_value s"
  shows "parseAuthHeader (''Credential='' @ c @ '', SignedHeaders='' @ h @ '', Signature='' @ s) =
    [(''Credential'', c), (''SignedHeaders'', h), (''Signature'', s)]"
proof -
  have k: "field_value ''Credential''" "field_value ''SignedHeaders''" "field_value ''Signature''"
    by (simp_all add: field_value_def spaces_def)
  have no: "CHR '','' \<notin> set (''Credential='' @ c)" "CHR '','' \<notin> set (''SignedHeaders='' @ h)"
    "CHR '','' \<notin> set (''Signature='' @ s)"
    using f by (auto simp: field_value_def)
  have split: "Split2 CHR '','' CHR '' '' (''Credential='' @ c @ '', SignedHeaders='' @ h @ '', Signature='' @ s) =
      [''Credential'' @ ''='' @ c, ''SignedHeaders'' @ ''='' @ h, ''Signature'' @ ''='' @ s]"
    using Split2_sep [OF no(1), of "CHR '' ''" "''SignedHeaders='' @ h @ '', Signature='' @ s"]
      Split2_sep [OF no(2), of "CHR '' ''" "''Signature='' @ s"] Split2_no_sep [OF no(3), of "CHR '' ''"]
    by simp
  have part: "auth_part out (k @ ''='' @ v) = AList.update k v out"
    if "field_value k" "field_value v" "CHR ''='' \<notin> set k" for out k v
    using that by (intro auth_part_eq field_part_trimmed field_value_trimmed)
  have no_eq: "CHR ''='' \<notin> set ''Credential''" "CHR ''='' \<notin> set ''SignedHeaders''" "CHR ''='' \<notin> set ''Signature''"
    by simp_all
  show ?thesis
    unfolding parseAuthHeader_def split foldl_Cons foldl_Nil
      part [OF k(1) f(1) no_eq(1)] part [OF k(2) f(2) no_eq(2)] part [OF k(3) f(3) no_eq(3)]
    by simp
qed

section \<open>The request of the worker at the destination\<close>

text \<open>
  The request as it arrives: the headers set under canonical names, no query, and a path whose escaped
  form was signed.
\<close>

definition replication_request :: "string \<Rightarrow> string \<Rightarrow> string \<Rightarrow> smap \<Rightarrow> request" where
  "replication_request method host path headers =
     \<lparr>rq_Method = method, rq_Host = host, rq_Path = path, rq_RawQuery = [],
      rq_Header = map (\<lambda>(n, v). (CanonicalHeaderKey n, [v])) headers\<rparr>"

lemma canonical_keys:
  "CanonicalHeaderKey ''x-amz-date'' = ''X-Amz-Date''" "CanonicalHeaderKey ''X-Amz-Date'' = ''X-Amz-Date''"
  "CanonicalHeaderKey ''x-amz-content-sha256'' = ''X-Amz-Content-Sha256''"
  "CanonicalHeaderKey ''X-Amz-Content-Sha256'' = ''X-Amz-Content-Sha256''"
  "CanonicalHeaderKey ''Host'' = ''Host''"
  "CanonicalHeaderKey ''Authorization'' = ''Authorization''"
  by code_simp+

definition replication_names :: "string list" where
  "replication_names = [''host'', ''x-amz-content-sha256'', ''x-amz-date'']"

lemma replication_names_split: "Split CHR '';'' ''host;x-amz-content-sha256;x-amz-date'' = replication_names"
  by code_simp

lemma replication_names_sorted: "sort replication_names = replication_names"
  by code_simp

lemma ToLower_names: "ToLower ''host'' = ''host''" "ToLower ''x-amz-content-sha256'' = ''x-amz-content-sha256''"
    "ToLower ''x-amz-date'' = ''x-amz-date''"
  by code_simp+

text \<open>The canonical request of the worker, and the header it computes from it.\<close>

definition replication_canonical :: "platform \<Rightarrow> string \<Rightarrow> string \<Rightarrow> string \<Rightarrow> string \<Rightarrow> bytes \<Rightarrow> string" where
  "replication_canonical P amzDate method host escapedPath body =
     method @ NL @ (if escapedPath = [] then ''/'' else escapedPath) @ NL @ NL @
     ''host:'' @ host @ NL @ ''x-amz-content-sha256:'' @ hexSHA256 P body @ NL @ ''x-amz-date:'' @ amzDate @ NL @ NL @
     ''host;x-amz-content-sha256;x-amz-date'' @ NL @ hexSHA256 P body"

lemma signReplicationRequest_eq:
  "signReplicationRequest P date ts method host escapedPath ak sk body =
     [(''x-amz-date'', ts), (''x-amz-content-sha256'', hexSHA256 P body), (''Host'', host),
      (''Authorization'', ''AWS4-HMAC-SHA256 '' @ ''Credential='' @ (ak @ ''/'' @ credential_scope date ''us-east-1'' ''s3'') @
         '', SignedHeaders='' @ ''host;x-amz-content-sha256;x-amz-date'' @ '', Signature='' @
         hex_encode (pf_hmac P (deriveSigningKey P sk date ''us-east-1'' ''s3'')
           (stringToSign P ts (credential_scope date ''us-east-1'' ''s3'')
             (replication_canonical P ts method host escapedPath body))))]"
  by (simp add: signReplicationRequest_def Let_def credential_scope_def deriveSigningKey_def stringToSign_def
      replication_canonical_def hashSHA256_def hexSHA256_def authHeaderPrefix_def)

lemma canonical_at_destination:
  assumes "list_all isUnreserved ts" and h: "rq_Header r = map (\<lambda>(n, v). (CanonicalHeaderKey n, [v]))
      [(''x-amz-date'', ts), (''x-amz-content-sha256'', hexSHA256 P body), (''Host'', host), (''Authorization'', a)]"
    and "rq_Method r = method" and "rq_Host r = host" and "rq_RawQuery r = []"
    and ne: "pf_sha256 P body \<noteq> []"
  shows "canonicalRequest r replication_names =
    method @ NL @ canonicalURI (rq_Path r) @ NL @ NL @
     ''host:'' @ host @ NL @ ''x-amz-content-sha256:'' @ hexSHA256 P body @ NL @ ''x-amz-date:'' @ ts @ NL @ NL @
     ''host;x-amz-content-sha256;x-amz-date'' @ NL @ hexSHA256 P body"
proof -
  have "trimmed (hexSHA256 P body)" "trimmed ts"
    using assms(1) hex_encode_unreserved field_value_unreserved field_value_trimmed
    by (metis hexSHA256_def trimmed_def)+
  then have "header_value r ''host'' = host" "header_value r ''x-amz-content-sha256'' = hexSHA256 P body"
    "header_value r ''x-amz-date'' = ts"
    using assms by (simp_all add: header_value_def ToLower_names Header_Get_def multi_get_def canonical_keys TrimSpace_trimmed)
  moreover have "payload_hash r = hexSHA256 P body"
    using hex_encode_ne [OF ne] by (simp add: payload_hash_def Header_Get_def multi_get_def h canonical_keys hexSHA256_def)
  moreover have "canonicalQueryString (URL_Query r) = []"
    using assms(5) by (simp add: URL_Query_def query_pairs_def query_piece_def canonicalQueryString_def)
  moreover have "Join replication_names '';'' = ''host;x-amz-content-sha256;x-amz-date''" by code_simp
  ultimately show ?thesis
    using assms(3) unfolding canonicalRequest_eq replication_names_sorted
    by (simp add: replication_names_def ToLower_names)
qed

lemma format_date_whole: "format_date (whole_seconds t) = format_date t"
proof -
  have w: "whole_seconds t = t div second_ns * second_ns"
    by (simp only: whole_seconds_def minus_mod_eq_div_mult)
  have d: "x div day_ns = x div second_ns div 86400" for x
    unfolding day_ns_def mult.commute [of 86400] by (rule zdiv_zmult2_eq) simp
  have "whole_seconds t div day_ns = t div day_ns"
    unfolding d w by (simp add: second_ns_def)
  then show ?thesis by (simp only: format_date_def)
qed

lemma credential_field:
  assumes "field_value ak" and "list_all isUnreserved date" and "list_all isUnreserved region" and "region \<noteq> []"
    and "date \<noteq> []"
  shows "field_value (ak @ ''/'' @ credential_scope date region ''s3'')"
  unfolding credential_scope_def
  using assms(1) field_value_unreserved [OF assms(2,5)] field_value_unreserved [OF assms(3,4)]
  by (intro field_value_append) (simp_all add: field_value_def spaces_def)

lemma written_fields:
  assumes h: "Header_Get r ''Authorization'' = authHeaderPrefix @ '' Credential='' @ cred @
      '', SignedHeaders='' @ sh @ '', Signature='' @ sig"
    and f: "field_value cred" "field_value sh" "field_value sig"
  shows "auth_field r ''Credential'' = cred" and "auth_field r ''SignedHeaders'' = sh" and "auth_field r ''Signature'' = sig"
proof -
  have "parseAuthHeader (drop (length authHeaderPrefix + 1) (Header_Get r ''Authorization'')) =
      [(''Credential'', cred), (''SignedHeaders'', sh), (''Signature'', sig)]"
    using parse_three_fields [OF f] by (simp add: h)
  then show "auth_field r ''Credential'' = cred" "auth_field r ''SignedHeaders'' = sh" "auth_field r ''Signature'' = sig"
    by (simp_all add: auth_field_def smap_get_def)
qed

text \<open>What \<open>VerifyRequest\<close> computes from a well-formed header whose time is right.\<close>

lemma VerifyRequest_header:
  assumes h: "Header_Get r ''Authorization'' = authHeaderPrefix @ '' Credential='' @ (ak @ ''/'' @ credential_scope date region ''s3'') @
      '', SignedHeaders='' @ sh @ '', Signature='' @ sig"
    and f: "field_value ak" "CHR ''/'' \<notin> set ak" "list_all isUnreserved date" "list_all isUnreserved region"
      "field_value sh" "field_value sig" "region \<noteq> []" "date \<noteq> []"
    and d: "parse_timestamp (Header_Get r ''X-Amz-Date'') = Some t" "\<bar>now - t\<bar> \<le> max_skew" "format_date t = date"
  shows "VerifyRequest P r sk now =
    check_signature P r sk date region ''s3'' (Header_Get r ''X-Amz-Date'') sh sig"
proof -
  let ?cred = "ak @ ''/'' @ credential_scope date region ''s3''"
  have slash: "CHR ''/'' \<notin> set region"
    using f(4) isUnreserved_plain by (auto simp: list_all_iff)
  note fc = credential_field [OF f(1,3,4,7,8)]
  note w = written_fields [OF h fc f(5,6)]
  have split: "SplitN CHR ''/'' 5 ?cred = [ak, date, region, ''s3'', ''aws4_request'']"
    using credential_split [OF f(2,3) slash] by (simp add: credential_scope_def)
  have d0: "Header_Get r ''X-Amz-Date'' \<noteq> []"
  proof
    assume "Header_Get r ''X-Amz-Date'' = []"
    moreover have "parse_timestamp [] = None" by code_simp
    ultimately show False using d(1) by simp
  qed
  have pre: "HasPrefix (Header_Get r ''Authorization'') (authHeaderPrefix @ '' '')" "Header_Get r ''Authorization'' \<noteq> []"
    by (simp_all add: h)
  have ne: "\<not> (?cred = [] \<or> sh = [] \<or> sig = [])" using fc f(5,6) by (simp add: field_value_def)
  show ?thesis
    unfolding VerifyRequest_def Let_def auth_field_def [symmetric] w if_not_P [OF pre(2)] if_not_P [OF ne] not_not
    using pre d d0 by (simp add: split abs_le_iff del: append_Cons)
qed

text \<open>The request the destination receives for one object, and whether it is accepted.\<close>

definition signed_replication :: "platform \<Rightarrow> time \<Rightarrow> string \<Rightarrow> string \<Rightarrow> string \<Rightarrow> string \<Rightarrow> string \<Rightarrow> string \<Rightarrow>
    bytes \<Rightarrow> request" where
  "signed_replication P t method host path escapedPath ak sk body =
     replication_request method host path
       (signReplicationRequest P (format_date t) (format_timestamp t) method host escapedPath ak sk body)"

lemma replication_accepted_iff:
  fixes P t verb host path escapedPath ak sk body
  defines "r \<equiv> signed_replication P t verb host path escapedPath ak sk body"
    and "ts \<equiv> format_timestamp t"
    and "scope \<equiv> credential_scope (format_date t) ''us-east-1'' ''s3''"
    and "key \<equiv> deriveSigningKey P sk (format_date t) ''us-east-1'' ''s3''"
    and "sent \<equiv> replication_canonical P (format_timestamp t) verb host escapedPath body"
  assumes range: "stamp_range t" and now: "\<bar>now - whole_seconds t\<bar> \<le> max_skew"
    and ak: "list_all isUnreserved ak" "ak \<noteq> []"
    and sizes: "\<And>k d. pf_hmac P k d \<noteq> []" "\<And>d. pf_sha256 P d \<noteq> []"
  shows "VerifyRequest P r sk now = None \<longleftrightarrow>
    pf_hmac P key (stringToSign P ts scope sent) =
    pf_hmac P key (stringToSign P ts scope (canonicalRequest r replication_names))"
    and "canonicalRequest r replication_names = sent \<longleftrightarrow>
      canonicalURI path = (if escapedPath = [] then ''/'' else escapedPath)"
proof -
  let ?mac = "pf_hmac P key (stringToSign P ts scope sent)"
  have hdr: "rq_Header r = map (\<lambda>(n, v). (CanonicalHeaderKey n, [v])) (signReplicationRequest P (format_date t) ts verb host escapedPath ak sk body)"
    by (simp add: r_def ts_def signed_replication_def replication_request_def)
  have r: "rq_Method r = verb" "rq_Host r = host" "rq_RawQuery r = []" "rq_Path r = path"
    by (simp_all add: r_def signed_replication_def replication_request_def)
  note un = format_timestamp_unreserved [OF range] format_date_unreserved [OF range]
  have c: "canonicalRequest r replication_names =
    verb @ NL @ canonicalURI path @ NL @ NL @ ''host:'' @ host @ NL @ ''x-amz-content-sha256:'' @ hexSHA256 P body @ NL @
     ''x-amz-date:'' @ ts @ NL @ NL @ ''host;x-amz-content-sha256;x-amz-date'' @ NL @ hexSHA256 P body"
    using canonical_at_destination [OF un(1) hdr [unfolded signReplicationRequest_eq ts_def] r(1-3) sizes(2)] r(4)
    by (simp add: ts_def)
  show "canonicalRequest r replication_names = sent \<longleftrightarrow> canonicalURI path = (if escapedPath = [] then ''/'' else escapedPath)"
    unfolding c sent_def replication_canonical_def ts_def by (simp del: append_Cons)
  have get: "Header_Get r ''Authorization'' = authHeaderPrefix @ '' Credential='' @ (ak @ ''/'' @ scope) @
      '', SignedHeaders='' @ ''host;x-amz-content-sha256;x-amz-date'' @ '', Signature='' @ hex_encode ?mac"
    by (simp add: Header_Get_def multi_get_def hdr signReplicationRequest_eq canonical_keys authHeaderPrefix_def
        scope_def key_def ts_def sent_def)
  have date: "Header_Get r ''X-Amz-Date'' = ts"
    by (simp add: Header_Get_def multi_get_def hdr signReplicationRequest_eq canonical_keys)
  have "VerifyRequest P r sk now =
      check_signature P r sk (format_date t) ''us-east-1'' ''s3'' (Header_Get r ''X-Amz-Date'')
        ''host;x-amz-content-sha256;x-amz-date'' (hex_encode ?mac)"
  proof (rule VerifyRequest_header [where t = "whole_seconds t"])
    show "Header_Get r ''Authorization'' = authHeaderPrefix @ '' Credential='' @ (ak @ ''/'' @ credential_scope (format_date t) ''us-east-1'' ''s3'') @
      '', SignedHeaders='' @ ''host;x-amz-content-sha256;x-amz-date'' @ '', Signature='' @ hex_encode ?mac"
      using get by (simp add: scope_def)
    show "parse_timestamp (Header_Get r ''X-Amz-Date'') = Some (whole_seconds t)"
      using parse_format_timestamp [OF range] by (simp add: date ts_def)
    show "CHR ''/'' \<notin> set ak" using ak isUnreserved_plain by (auto simp: list_all_iff)
    show "field_value (hex_encode ?mac)"
      using sizes(1) by (intro field_value_unreserved hex_encode_unreserved hex_encode_ne)
    show "field_value ''host;x-amz-content-sha256;x-amz-date''" by (simp add: field_value_def spaces_def)
    show "list_all isUnreserved ''us-east-1''" by code_simp
  qed (use ak un now field_value_unreserved in \<open>simp_all add: format_date_whole\<close>)
  then show "VerifyRequest P r sk now = None \<longleftrightarrow> ?mac =
      pf_hmac P key (stringToSign P ts scope (canonicalRequest r replication_names))"
    unfolding check_signature_def Let_def replication_names_split date
    by (simp add: hex_encode_inject scope_def key_def)
qed

lemma signed_replication_clean:
  assumes "stamp_range t" and "list_all isUnreserved ak" and "CHR 0x0A \<notin> set method" and "CHR 0x0A \<notin> set host"
  shows "clean_request (signed_replication P t method host path escapedPath ak sk body)"
proof -
  have un: "CHR 0x0A \<notin> set s" if "list_all isUnreserved s" for s
    using that isUnreserved_plain by (auto simp: list_all_iff)
  have ts: "CHR 0x0A \<notin> set (format_timestamp t)" "CHR 0x0A \<notin> set (format_date t)"
    using assms(1) by (simp_all add: un format_timestamp_unreserved format_date_unreserved)
  show ?thesis
    using assms ts un [OF assms(2)]
    by (simp add: clean_request_def signed_replication_def replication_request_def signReplicationRequest_eq
        hexSHA256_def hex_plain credential_scope_def)
qed

lemma signed_replication_names:
  assumes "stamp_range t" and "list_all isUnreserved ak" and "ak \<noteq> []" and "\<And>k d. pf_hmac P k d \<noteq> []"
  shows "signed_names (signed_replication P t method host path escapedPath ak sk body) = replication_names"
proof -
  let ?r = "signed_replication P t method host path escapedPath ak sk body"
  let ?scope = "credential_scope (format_date t) ''us-east-1'' ''s3''"
  let ?sig = "hex_encode (pf_hmac P (deriveSigningKey P sk (format_date t) ''us-east-1'' ''s3'')
      (stringToSign P (format_timestamp t) ?scope (replication_canonical P (format_timestamp t) method host escapedPath body)))"
  have get: "Header_Get ?r ''Authorization'' = authHeaderPrefix @ '' Credential='' @ (ak @ ''/'' @ ?scope) @
      '', SignedHeaders='' @ ''host;x-amz-content-sha256;x-amz-date'' @ '', Signature='' @ ?sig"
    by (simp add: Header_Get_def multi_get_def signed_replication_def replication_request_def
        signReplicationRequest_eq canonical_keys authHeaderPrefix_def)
  have region: "list_all isUnreserved ''us-east-1''" "''us-east-1'' \<noteq> []" by code_simp+
  note date = format_date_unreserved [OF assms(1)]
  have f: "field_value (ak @ ''/'' @ ?scope)"
    using credential_field [OF field_value_unreserved [OF assms(2,3)] date(1) region date(2)] .
  have "field_value ''host;x-amz-content-sha256;x-amz-date''" by (simp add: field_value_def spaces_def)
  moreover have "field_value ?sig"
    using assms(4) by (intro field_value_unreserved hex_encode_unreserved hex_encode_ne)
  ultimately have "auth_field ?r ''SignedHeaders'' = ''host;x-amz-content-sha256;x-amz-date''"
    by (rule written_fields(2) [OF get f])
  then show ?thesis unfolding signed_names_def by (simp only: replication_names_split)
qed

end
