(* ===== verification/Sigv4_Props.thy ===== *)
theory Sigv4_Props
  imports Sigv4_Replication
begin

text \<open>
  The properties of Signature Version 4 (internal/auth/sigv4.go, internal/auth/presign.go and the
  signing side of internal/storage/replication.go). The witnesses use a platform whose hash and MAC
  are short concrete functions.
\<close>

definition sig_platform :: platform where
  "sig_platform = \<lparr>pf_md5 = (\<lambda>d. d), pf_sha256 = (\<lambda>d. [char_of (length d)]),
     pf_hmac = (\<lambda>k d. [char_of (length k + 3 * length d), char_of (foldl (\<lambda>n c. n + of_char c) 0 d :: nat)]),
     pf_sniff = (\<lambda>_. []), pf_seal = (\<lambda>k n d. d), pf_open = (\<lambda>k n d. Some d), pf_json_valid = (\<lambda>_. True)\<rparr>"

lemma sig_platform_sizes: "pf_hmac sig_platform k d \<noteq> []" "pf_sha256 sig_platform d \<noteq> []"
  by (simp_all add: sig_platform_def)

text \<open>Noon of 29 February 2024, and a nanosecond.\<close>

definition demo_time :: time where
  "demo_time = 1709208000 * 1000000000 + 1"

lemma demo_range: "stamp_range demo_time"
  by (simp add: stamp_range_def demo_time_def day_ns_eq epoch_days_def days_before_year_def)

lemma demo_whole: "whole_seconds demo_time = 1709208000 * 1000000000"
  by (simp add: whole_seconds_def demo_time_def second_ns_def)

section \<open>Time and queries\<close>

text \<open>
  A time written as the timestamp of a request (X-Amz-Date) and parsed again is the time cut to
  whole seconds, for every time of the years 0 to 9999.
\<close>

lemma timestamp_roundtrip:
  assumes "stamp_range t"
  shows "parse_timestamp (format_timestamp t) = Some (whole_seconds t)"
  using assms by (rule parse_format_timestamp)

lemma timestamp_roundtrip_witness:
  "parse_timestamp (format_timestamp demo_time) = Some (1709208000 * 1000000000)"
  using timestamp_roundtrip [OF demo_range] by (simp add: demo_whole)

text \<open>
  the canonical query string loses nothing and does not depend on the order in which the map of
  parameters is visited: parsed as a query it gives back exactly the pairs of the map, with their
  multiplicities, and two maps have the same canonical string exactly when they hold the same pairs.
\<close>

theorem canonical_query_lossless:
  "mset (query_pairs (canonicalQueryString m)) = mset (pairs_of m) \<and>
   (canonicalQueryString m = canonicalQueryString m' \<longleftrightarrow> mset (pairs_of m) = mset (pairs_of m'))"
  by (rule canonicalQueryString_lossless)

section \<open>Signed requests\<close>

text \<open>
  C9: a signature fixes the request. If two requests with the same Authorization header are accepted
  under one secret, neither the MAC of the two strings signed nor the hash of the two canonical
  requests colliding, then they have the same method, path (an empty one being the root), query
  parameters, time stamp, payload hash and value of every header the signature names.
\<close>

theorem signature_binds_request:
  assumes "VerifyRequest P r1 secretKey now1 = None" and "VerifyRequest P r2 secretKey now2 = None"
    and "Header_Get r1 ''Authorization'' = Header_Get r2 ''Authorization''"
    and "clean_request r1" and "clean_request r2"
    and "no_collision (pf_hmac P (request_key P secretKey r1)) (signed_string P r1) (signed_string P r2)"
    and "no_collision (pf_sha256 P) (canonicalRequest r1 (signed_names r1)) (canonicalRequest r2 (signed_names r2))"
  shows "rq_Method r1 = rq_Method r2 \<and> same_path (rq_Path r1) (rq_Path r2) \<and>
    mset (query_pairs (rq_RawQuery r1)) = mset (query_pairs (rq_RawQuery r2)) \<and>
    (\<forall>n \<in> set (signed_names r1). header_value r1 n = header_value r2 n) \<and> payload_hash r1 = payload_hash r2 \<and>
    Header_Get r1 ''X-Amz-Date'' = Header_Get r2 ''X-Amz-Date''"
  using assms by (rule accepted_same_request)

definition demo_sent :: "string \<Rightarrow> request" where
  "demo_sent path = signed_replication sig_platform demo_time ''PUT'' ''h'' path [] ''AK'' ''sk'' ''data''"

lemma demo_sent_facts:
  assumes "path = [] \<or> path = ''/''"
  shows "VerifyRequest sig_platform (demo_sent path) ''sk'' demo_time = None" and "clean_request (demo_sent path)"
    and "signed_names (demo_sent path) = replication_names"
    and "canonicalRequest (demo_sent path) replication_names =
      replication_canonical sig_platform (format_timestamp demo_time) ''PUT'' ''h'' [] ''data''"
proof -
  have ak: "list_all isUnreserved ''AK''" "''AK'' \<noteq> []" by code_simp+
  have skew: "\<bar>demo_time - whole_seconds demo_time\<bar> \<le> max_skew"
    unfolding demo_whole by (simp add: demo_time_def max_skew_def second_ns_def)
  have uri: "canonicalURI path = ''/''" using assms by (auto simp: canonicalURI_eq isUnreserved_def)
  note acc = replication_accepted_iff [OF demo_range skew ak sig_platform_sizes, 
      where sk = "''sk''" and verb = "''PUT''" and host = "''h''" and escapedPath = "[]" and body = "''data''" and path = path,
      folded demo_sent_def]
  from acc(2) uri show c: "canonicalRequest (demo_sent path) replication_names =
      replication_canonical sig_platform (format_timestamp demo_time) ''PUT'' ''h'' [] ''data''" by simp
  from acc(1) c show "VerifyRequest sig_platform (demo_sent path) ''sk'' demo_time = None" by simp
  show "clean_request (demo_sent path)"
    unfolding demo_sent_def by (rule signed_replication_clean [OF demo_range ak(1)]) simp_all
  show "signed_names (demo_sent path) = replication_names"
    unfolding demo_sent_def by (rule signed_replication_names [OF demo_range ak sig_platform_sizes(1)])
qed

lemma signature_binds_request_witness:
  "payload_hash (demo_sent []) = payload_hash (demo_sent ''/'') \<and> demo_sent [] \<noteq> demo_sent ''/'' \<and>
   VerifyRequest sig_platform (demo_sent []) ''sk'' demo_time = None"
proof -
  have p: "[] = [] \<or> [] = ''/''" "''/'' = [] \<or> ''/'' = ''/''" by simp_all
  note f = demo_sent_facts [OF p(1)] and g = demo_sent_facts [OF p(2)]
  have same: "canonicalRequest (demo_sent []) (signed_names (demo_sent [])) =
      canonicalRequest (demo_sent ''/'') (signed_names (demo_sent ''/''))"
    using f g by simp
  have auth: "rq_Header (demo_sent []) = rq_Header (demo_sent ''/'')"
    by (simp add: demo_sent_def signed_replication_def replication_request_def)
  then have get: "Header_Get (demo_sent []) n = Header_Get (demo_sent ''/'') n" for n by (simp add: Header_Get_def)
  then have str: "signed_string sig_platform (demo_sent []) = signed_string sig_platform (demo_sent ''/'')"
    using same by (simp add: signed_string_def credential_part_def auth_field_def)
  have "no_collision h x x" for h :: "string \<Rightarrow> bytes" and x by (simp add: no_collision_def)
  with signature_binds_request [OF f(1) g(1) get f(2) g(2)] same str
  have "payload_hash (demo_sent []) = payload_hash (demo_sent ''/'')" by metis
  moreover have "demo_sent [] \<noteq> demo_sent ''/''"
    by (simp add: demo_sent_def signed_replication_def replication_request_def)
  ultimately show ?thesis using f(1) by blast
qed

section \<open>Presigned URLs\<close>

text \<open>
  C19: a URL that \<open>GeneratePresignedURL\<close> returns, received as the request it spells, passes
  \<open>VerifyPresignedURL\<close> under the same secret until the whole seconds of its life are over, counted from
  the whole second of its creation, and is refused at every later time. The access key and the region
  hold no slash, and the MAC is not empty.
\<close>

theorem presigned_url_verifies:
  assumes "GeneratePresignedURL P method rawURL bucket key accessKey secretKey region expires now = Inr url"
    and "\<And>k d. pf_hmac P k d \<noteq> []" and "stamp_range now"
    and "CHR ''/'' \<notin> set accessKey" and "CHR ''/'' \<notin> set region"
    and "url = rawURL @ rq_Path r @ ''?'' @ rq_RawQuery r" and "rq_Path r = ''/'' @ bucket @ ''/'' @ key"
    and "rq_Method r = method" and "rq_Host r = extractHost rawURL bucket"
  shows "VerifyPresignedURL P r secretKey later = None \<longleftrightarrow>
    later \<le> whole_seconds now + sint expires div second_ns * second_ns"
  using assms by (rule presigned_roundtrip)

definition demo_url_query :: string where
  "demo_url_query =
     (let cred = ''AK/'' @ format_date demo_time @ ''/eu/s3/aws4_request'';
          q = presign_query cred (format_timestamp demo_time) ''3600''
      in q @ ''&X-Amz-Signature='' @ hex_encode (pf_hmac sig_platform
           (deriveSigningKey sig_platform ''sk'' (format_date demo_time) ''eu'' ''s3'')
           (stringToSign sig_platform (format_timestamp demo_time) (format_date demo_time @ ''/eu/s3/aws4_request'')
             (''GET'' @ NL @ ''/b/a%20b'' @ NL @ q @ NL @ ''host:h:9000'' @ NL @ NL @ ''host'' @ NL @ ''UNSIGNED-PAYLOAD''))))"

definition demo_url_request :: request where
  "demo_url_request = \<lparr>rq_Method = ''GET'', rq_Host = ''h:9000'', rq_Path = ''/b/a b'', rq_RawQuery = demo_url_query, rq_Header = []\<rparr>"

lemma demo_url:
  "GeneratePresignedURL sig_platform ''GET'' ''http://h:9000'' ''b'' ''a b'' ''AK'' ''sk'' ''eu'' 3600000000000 demo_time =
     Inr (''http://h:9000'' @ ''/b/a b'' @ ''?'' @ demo_url_query)"
proof -
  have e: "sint (3600000000000 :: int64) = 3600000000000" by simp
  have i: "Itoa 3600 = ''3600''" by (simp add: Itoa_def dec.simps digit_def) code_simp
  have h: "extractHost ''http://h:9000'' ''b'' = ''h:9000''" by code_simp
  have u: "canonicalURI ''/b/a b'' = ''/b/a%20b''" by code_simp
  show ?thesis
    unfolding GeneratePresignedURL_def Let_def e demo_url_query_def
    by (simp add: week_ns_def second_ns_def i h u)
qed

text \<open>It is accepted whatever headers it comes with.\<close>

lemma demo_url_accepted:
  assumes "rq_Method r = ''GET''" and "rq_Host r = ''h:9000''" and "rq_Path r = ''/b/a b''" and "rq_RawQuery r = demo_url_query"
  shows "VerifyPresignedURL sig_platform r ''sk'' demo_time = None"
proof -
  have h: "extractHost ''http://h:9000'' ''b'' = ''h:9000''" by code_simp
  have "VerifyPresignedURL sig_platform r ''sk'' demo_time = None \<longleftrightarrow>
      demo_time \<le> whole_seconds demo_time + sint (3600000000000 :: int64) div second_ns * second_ns"
    by (rule presigned_roundtrip [OF demo_url sig_platform_sizes(1) demo_range]) (simp_all add: assms h)
  then show ?thesis unfolding demo_whole by (simp add: demo_time_def second_ns_def)
qed

lemma presigned_url_verifies_witness:
  "VerifyPresignedURL sig_platform demo_url_request ''sk'' (1709208000 * 1000000000 + 3600 * 1000000000) = None \<and>
   VerifyPresignedURL sig_platform demo_url_request ''sk'' (1709208000 * 1000000000 + 3600 * 1000000000 + 1) \<noteq> None"
proof -
  have h: "extractHost ''http://h:9000'' ''b'' = ''h:9000''" by code_simp
  have "VerifyPresignedURL sig_platform demo_url_request ''sk'' later = None \<longleftrightarrow>
      later \<le> whole_seconds demo_time + sint (3600000000000 :: int64) div second_ns * second_ns" for later
    by (rule presigned_url_verifies [OF demo_url sig_platform_sizes(1) demo_range])
      (simp_all add: demo_url_request_def h)
  moreover have "sint (3600000000000 :: int64) div second_ns * second_ns = 3600 * 1000000000"
    by (simp add: second_ns_def)
  ultimately show ?thesis by (simp add: demo_whole)
qed

text \<open>
  a presigned URL cannot be altered. If two requests that carry the same signature are accepted
  under one secret, neither MAC nor hash colliding on what was signed, then they have the same method,
  path and query parameters, the expiry and the signed header names among them.
\<close>

theorem presigned_signature_binds_request:
  assumes "VerifyPresignedURL P r1 secretKey now1 = None" and "VerifyPresignedURL P r2 secretKey now2 = None"
    and "query_get r1 ''X-Amz-Signature'' = query_get r2 ''X-Amz-Signature''"
    and "CHR 0x0A \<notin> set (rq_Method r1)" and "CHR 0x0A \<notin> set (rq_Method r2)"
    and "no_collision (\<lambda>(k, d). pf_hmac P k d)
      (presigned_key P secretKey r1, presigned_string P r1) (presigned_key P secretKey r2, presigned_string P r2)"
    and "no_collision (pf_sha256 P) (presigned_canonical r1) (presigned_canonical r2)"
  shows "rq_Method r1 = rq_Method r2 \<and> same_path (rq_Path r1) (rq_Path r2) \<and>
    mset (filter (\<lambda>(k, v). k \<noteq> ''X-Amz-Signature'' \<and> k \<noteq> ''x-amz-signature'') (query_pairs (rq_RawQuery r1))) =
    mset (filter (\<lambda>(k, v). k \<noteq> ''X-Amz-Signature'' \<and> k \<noteq> ''x-amz-signature'') (query_pairs (rq_RawQuery r2)))"
  using presigned_same_request [OF assms] by (simp add: unsigned_query_pairs)

text \<open>The same URL with a header that was not signed.\<close>

definition demo_url_request2 :: request where
  "demo_url_request2 = demo_url_request\<lparr>rq_Header := [(''Range'', [''bytes=0-9''])]\<rparr>"

lemma presigned_signature_binds_request_witness:
  "same_path (rq_Path demo_url_request) (rq_Path demo_url_request2) \<and>
   VerifyPresignedURL sig_platform demo_url_request2 ''sk'' demo_time = None"
proof -
  have acc: "VerifyPresignedURL sig_platform r ''sk'' demo_time = None"
    if "r \<in> {demo_url_request, demo_url_request2}" for r
    using that by (intro demo_url_accepted) (auto simp: demo_url_request_def demo_url_request2_def)
  have q: "URL_Query demo_url_request2 = URL_Query demo_url_request"
    by (simp add: URL_Query_def demo_url_request2_def)
  have g: "query_get demo_url_request2 n = query_get demo_url_request n" for n
    unfolding query_get_def q ..
  have v: "header_value demo_url_request2 ''host'' = header_value demo_url_request ''host''"
    by (simp add: header_value_def ToLower_names demo_url_request2_def)
  note un = format_timestamp_unreserved(1) [OF demo_range]
  have "list_all isUnreserved ''3600''" by code_simp
  note pairs = presign_query_signed [OF un this hex_encode_unreserved]
  have "map_of (query_pairs (rq_RawQuery demo_url_request)) ''X-Amz-SignedHeaders'' = Some ''host''"
    by (simp add: demo_url_request_def demo_url_query_def Let_def pairs [simplified append_Cons append_Nil]
        query_pairs_canonical del: map_append) (simp add: presign_pairs_def)
  then have s: "query_get demo_url_request ''X-Amz-SignedHeaders'' = ''host''" by (rule query_get_first) simp
  have c: "presigned_canonical demo_url_request = presigned_canonical demo_url_request2"
    unfolding presigned_canonical_def g s Split_host unsigned_query_def q
    by (simp add: canonicalHeaders_host demo_url_request2_def)
  have k: "presigned_key sig_platform ''sk'' demo_url_request2 = presigned_key sig_platform ''sk'' demo_url_request"
    "presigned_string sig_platform demo_url_request2 = presigned_string sig_platform demo_url_request"
    by (simp_all add: presigned_key_def presigned_string_def presigned_part_def g c)
  have "same_path (rq_Path demo_url_request) (rq_Path demo_url_request2)"
    using presigned_signature_binds_request [OF acc acc, of demo_url_request demo_url_request2]
    by (simp add: g k c no_collision_def) (simp add: demo_url_request_def demo_url_request2_def)
  with acc show ?thesis by simp
qed

section \<open>Replication to another server\<close>

text \<open>
  C20: the two implementations of the signature agree up to the escaping of the path. A request signed by
  the replication worker is accepted by \<open>VerifyRequest\<close> at the destination, within the clock skew and
  where MAC and hash do not collide, exactly when the escaped path that was signed
  (\<open>URL.EscapedPath\<close> of net/url, a parameter) is the canonical URI the destination computes. A key such
  as \<open>a+b\<close>, whose plus sign \<open>EscapedPath\<close> keeps and \<open>canonicalURI\<close> encodes, is refused.
\<close>

theorem replication_accepted_by_destination:
  fixes P t verb host path escapedPath ak sk body
  defines "r \<equiv> signed_replication P t verb host path escapedPath ak sk body"
    and "scope \<equiv> credential_scope (format_date t) ''us-east-1'' ''s3''"
    and "sent \<equiv> replication_canonical P (format_timestamp t) verb host escapedPath body"
  assumes "stamp_range t" and "\<bar>now - whole_seconds t\<bar> \<le> max_skew"
    and "list_all isUnreserved ak" and "ak \<noteq> []"
    and "\<And>k d. pf_hmac P k d \<noteq> []" and "\<And>d. pf_sha256 P d \<noteq> []"
    and "no_collision (pf_hmac P (deriveSigningKey P sk (format_date t) ''us-east-1'' ''s3''))
      (stringToSign P (format_timestamp t) scope sent)
      (stringToSign P (format_timestamp t) scope (canonicalRequest r replication_names))"
    and "no_collision (pf_sha256 P) sent (canonicalRequest r replication_names)"
  shows "VerifyRequest P r sk now = None \<longleftrightarrow> canonicalURI path = (if escapedPath = [] then ''/'' else escapedPath)"
proof -
  note acc = replication_accepted_iff [OF assms(4-9), where sk = sk and verb = verb and host = host and
      escapedPath = escapedPath and body = body and path = path, folded r_def scope_def sent_def]
  have "sent = canonicalRequest r replication_names"
    if "stringToSign P (format_timestamp t) scope sent =
      stringToSign P (format_timestamp t) scope (canonicalRequest r replication_names)"
    using stringToSign_inject [OF that] no_collisionD [OF assms(11)] by blast
  then have "pf_hmac P (deriveSigningKey P sk (format_date t) ''us-east-1'' ''s3'') (stringToSign P (format_timestamp t) scope sent) =
      pf_hmac P (deriveSigningKey P sk (format_date t) ''us-east-1'' ''s3'')
        (stringToSign P (format_timestamp t) scope (canonicalRequest r replication_names)) \<longleftrightarrow>
      canonicalRequest r replication_names = sent"
    using no_collisionD [OF assms(10)] by auto
  then show ?thesis unfolding acc .
qed

definition plain_platform :: platform where
  "plain_platform = sig_platform\<lparr>pf_sha256 := (\<lambda>d. CHR ''h'' # d), pf_hmac := (\<lambda>k d. CHR ''m'' # d)\<rparr>"

lemma replication_accepted_by_destination_witness:
  "VerifyRequest plain_platform (signed_replication plain_platform demo_time ''PUT'' ''h'' ''/b/a~b'' ''/b/a~b'' ''AK'' ''sk'' ''x'') ''sk'' demo_time = None \<and>
   VerifyRequest plain_platform (signed_replication plain_platform demo_time ''PUT'' ''h'' ''/b/a+b'' ''/b/a+b'' ''AK'' ''sk'' ''x'') ''sk'' demo_time \<noteq> None"
proof -
  have ak: "list_all isUnreserved ''AK''" "''AK'' \<noteq> []" by code_simp+
  have skew: "\<bar>demo_time - whole_seconds demo_time\<bar> \<le> max_skew"
    unfolding demo_whole by (simp add: demo_time_def max_skew_def second_ns_def)
  have "pf_hmac plain_platform k d \<noteq> []" "pf_sha256 plain_platform d \<noteq> []" for k d
    by (simp_all add: plain_platform_def)
  moreover have "no_collision (pf_hmac plain_platform k) d e" "no_collision (pf_sha256 plain_platform) d e" for k d e
    by (simp_all add: no_collision_def plain_platform_def)
  ultimately have "VerifyRequest plain_platform (signed_replication plain_platform demo_time ''PUT'' ''h'' p p ''AK'' ''sk'' ''x'') ''sk'' demo_time = None \<longleftrightarrow>
      canonicalURI p = (if p = [] then ''/'' else p)" for p
    by (intro replication_accepted_by_destination [OF demo_range skew ak])
  moreover have "canonicalURI ''/b/a~b'' = ''/b/a~b''" "canonicalURI ''/b/a+b'' = ''/b/a%2Bb''" by code_simp+
  ultimately show ?thesis by simp
qed

end
