(* ===== verification/Bucket_Ops.thy ===== *)
theory Bucket_Ops
  imports Engine_Types
begin

text \<open>
  The bucket operations of the engine: bucket.go, quota.go, policy.go, website.go, notification.go
  of internal/storage, and the configuration accessors of version.go, lifecycle.go and
  replication.go. The accessors have one shape: read the bucket record, check, change a field, write
  it back (\<open>modify_bucket\<close>), or read a field (\<open>read_bucket\<close>); the message they wrap an error with
  is their first argument.
\<close>

abbreviation "VersioningDisabled \<equiv> ''disabled''"
abbreviation "VersioningEnabled \<equiv> ''enabled''"
abbreviation "VersioningSuspended \<equiv> ''suspended''"

section \<open>Names\<close>

definition lower_alnum :: "char \<Rightarrow> bool" where
  "lower_alnum c = (let n = of_char c :: nat in (97 \<le> n \<and> n \<le> 122) \<or> (48 \<le> n \<and> n \<le> 57))"

text \<open>The regular expression \<open>^[a-z0-9][a-z0-9\-]{1,61}[a-z0-9]$\<close>.\<close>

fun bucketNameRe :: "string \<Rightarrow> bool" where
  "bucketNameRe [] = False"
| "bucketNameRe (c # cs) =
     (lower_alnum c \<and> cs \<noteq> [] \<and> lower_alnum (last cs) \<and>
      list_all (\<lambda>x. lower_alnum x \<or> x = CHR ''-'') (butlast cs) \<and>
      1 \<le> length (butlast cs) \<and> length (butlast cs) \<le> 61)"

definition validateBucketName :: "string \<Rightarrow> err option" where
  "validateBucketName name =
     (if length name < 3 \<or> length name > 63
      then Some (Errorf ''bucket name %q length must be between 3 and 63'' [FStr name])
      else if \<not> bucketNameRe name
      then Some (Errorf ''bucket name %q is invalid (must be lowercase alphanumeric and hyphens)'' [FStr name])
      else if Contains name ''..'' \<or> Contains name ''.-'' \<or> Contains name ''-.''
      then Some (Errorf ''bucket name %q contains invalid sequences'' [FStr name])
      else None)"

section \<open>Buckets\<close>

definition CreateBucket ::
    "'m meta_store \<Rightarrow> 'b backend_ops \<Rightarrow> env \<Rightarrow> string \<Rightarrow> string \<Rightarrow> string \<Rightarrow>
     ('m, 'b) engine \<Rightarrow> unit result \<times> ('m, 'b) engine" where
  "CreateBucket M B env name owner region e =
     (case validateBucketName name of
        Some err \<Rightarrow> (Inl err, e)
      | None \<Rightarrow>
          (case m_BucketExists M (e_meta e) name of
             Inl err \<Rightarrow> (Inl (Wrap ''create bucket'' err), e)
           | Inr True \<Rightarrow> (Inl (BucketAlreadyExistsError name), e)
           | Inr False \<Rightarrow>
               (let (dirErr, e1) =
                  (case b_CreateBucketDir B of
                     None \<Rightarrow> (None, e)
                   | Some f \<Rightarrow> (case f (e_backend e) name of (r, b') \<Rightarrow> (err_of r, e\<lparr>e_backend := b'\<rparr>)))
                in (case dirErr of
                      Some err \<Rightarrow> (Inl (Wrap ''create bucket backend dir'' err), e1)
                    | None \<Rightarrow>
                        meta_write (\<lambda>m. m_PutBucket M m \<lparr>
                            br_Name = name, br_CreatedAt = env_now env, br_Owner = owner, br_Region = region,
                            br_Versioning = ''disabled'', br_ACL = ''private'', br_ObjectCount = 0,
                            br_TotalBytes = 0, br_Policy = [], br_CORSRules = [], br_LifecycleRules = [],
                            br_Tags = [], br_SSEAlgorithm = [], br_Quota = None, br_Website = None,
                            br_Notifications = None, br_Replication = None\<rparr>)
                          (Wrap ''create bucket: store'') () e1))))"

definition HeadBucket :: "'m meta_store \<Rightarrow> ('m, 'b) engine \<Rightarrow> string \<Rightarrow> bucket_record result" where
  "HeadBucket M e name =
     (case m_GetBucket M (e_meta e) name of
        Inl err \<Rightarrow> Inl (bucket_err ''head bucket'' name err)
      | Inr r \<Rightarrow> Inr r)"

definition engine_ListBuckets :: "'m meta_store \<Rightarrow> ('m, 'b) engine \<Rightarrow> bucket_record list result" where
  "engine_ListBuckets M e = m_ListBuckets M (e_meta e)"

definition DeleteBucket ::
    "'m meta_store \<Rightarrow> 'b backend_ops \<Rightarrow> string \<Rightarrow> ('m, 'b) engine \<Rightarrow> unit result \<times> ('m, 'b) engine" where
  "DeleteBucket M B name e =
     (case m_GetBucket M (e_meta e) name of
        Inl err \<Rightarrow> (Inl (bucket_err ''delete bucket'' name err), e)
      | Inr r \<Rightarrow>
          if sint (br_ObjectCount r) > 0 then (Inl (BucketNotEmptyError name), e)
          else
            (let (dirErr, e1) =
               (case b_DeleteBucketDir B of
                  None \<Rightarrow> (None, e)
                | Some f \<Rightarrow> (case f (e_backend e) name of (x, b') \<Rightarrow> (err_of x, e\<lparr>e_backend := b'\<rparr>)))
             in (case dirErr of
                   Some err \<Rightarrow> (Inl (Wrap ''delete bucket backend dir'' err), e1)
                 | None \<Rightarrow> meta_write (\<lambda>m. m_DeleteBucket M m name) (\<lambda>err. err) () e1)))"

section \<open>Configuration accessors\<close>

definition modify_bucket ::
    "string \<Rightarrow> (err \<Rightarrow> err) \<Rightarrow> (bucket_record \<Rightarrow> bucket_record result) \<Rightarrow> 'm meta_store \<Rightarrow> string \<Rightarrow>
     ('m, 'b) engine \<Rightarrow> unit result \<times> ('m, 'b) engine" where
  "modify_bucket what wrap f M bucket e =
     (case m_GetBucket M (e_meta e) bucket of
        Inl err \<Rightarrow> (Inl (bucket_err what bucket err), e)
      | Inr r \<Rightarrow>
          (case f r of
             Inl err \<Rightarrow> (Inl err, e)
           | Inr r' \<Rightarrow> meta_write (\<lambda>m. m_PutBucket M m r') wrap () e))"

definition read_bucket ::
    "string \<Rightarrow> (bucket_record \<Rightarrow> 'a) \<Rightarrow> 'm meta_store \<Rightarrow> ('m, 'b) engine \<Rightarrow> string \<Rightarrow> 'a result" where
  "read_bucket what f M e bucket =
     (case m_GetBucket M (e_meta e) bucket of
        Inl err \<Rightarrow> Inl (bucket_err what bucket err)
      | Inr r \<Rightarrow> Inr (f r))"

text \<open>Versioning (version.go).\<close>

definition SetBucketVersioning ::
    "'m meta_store \<Rightarrow> string \<Rightarrow> string \<Rightarrow> ('m, 'b) engine \<Rightarrow> unit result \<times> ('m, 'b) engine" where
  "SetBucketVersioning M bucket status =
     modify_bucket ''set versioning'' (\<lambda>err. err) (\<lambda>r.
       if status = VersioningEnabled \<or> status = VersioningSuspended \<or> status = VersioningDisabled
       then Inr (r\<lparr>br_Versioning := status\<rparr>)
       else Inl (Errorf ''set versioning: invalid status %q'' [FStr status])) M bucket"

definition GetBucketVersioning :: "'m meta_store \<Rightarrow> ('m, 'b) engine \<Rightarrow> string \<Rightarrow> string result" where
  "GetBucketVersioning = read_bucket ''get versioning'' br_Versioning"

text \<open>Quota (quota.go).\<close>

definition SetBucketQuota ::
    "'m meta_store \<Rightarrow> string \<Rightarrow> bucket_quota option \<Rightarrow> ('m, 'b) engine \<Rightarrow> unit result \<times> ('m, 'b) engine" where
  "SetBucketQuota M bucket q =
     modify_bucket ''set bucket quota'' (Wrap ''set bucket quota: store'') (\<lambda>r. Inr (r\<lparr>br_Quota := q\<rparr>)) M bucket"

definition GetBucketQuota :: "'m meta_store \<Rightarrow> ('m, 'b) engine \<Rightarrow> string \<Rightarrow> bucket_quota option result" where
  "GetBucketQuota = read_bucket ''get bucket quota'' br_Quota"

definition checkQuota :: "bucket_record \<Rightarrow> int64 \<Rightarrow> err option" where
  "checkQuota r incoming =
     (case br_Quota r of
        None \<Rightarrow> None
      | Some q \<Rightarrow>
          if 0 <s MaxSizeBytes q \<and> MaxSizeBytes q <s br_TotalBytes r + incoming
          then Some (QuotaExceededError (br_Name r) (MaxSizeBytes q) (br_TotalBytes r) incoming ''size'')
          else if 0 <s MaxObjects q \<and> MaxObjects q <s br_ObjectCount r + 1
          then Some (QuotaExceededError (br_Name r) (MaxObjects q) (br_ObjectCount r) 1 ''count'')
          else None)"

text \<open>Policy, ACL, tags, CORS and encryption (policy.go).\<close>

definition SetBucketPolicy ::
    "platform \<Rightarrow> 'm meta_store \<Rightarrow> string \<Rightarrow> string \<Rightarrow> ('m, 'b) engine \<Rightarrow> unit result \<times> ('m, 'b) engine" where
  "SetBucketPolicy P M bucket policyJSON =
     modify_bucket ''set bucket policy'' (\<lambda>err. err) (\<lambda>r.
       if policyJSON \<noteq> [] \<and> \<not> pf_json_valid P policyJSON then Inl (Errorf ''set bucket policy: invalid JSON'' [])
       else Inr (r\<lparr>br_Policy := policyJSON\<rparr>)) M bucket"

definition GetBucketPolicy :: "'m meta_store \<Rightarrow> ('m, 'b) engine \<Rightarrow> string \<Rightarrow> string result" where
  "GetBucketPolicy = read_bucket ''get bucket policy'' br_Policy"

definition DeleteBucketPolicy ::
    "platform \<Rightarrow> 'm meta_store \<Rightarrow> string \<Rightarrow> ('m, 'b) engine \<Rightarrow> unit result \<times> ('m, 'b) engine" where
  "DeleteBucketPolicy P M bucket = SetBucketPolicy P M bucket []"

definition validACLs :: "string list" where
  "validACLs = [''private'', ''public-read'', ''public-read-write'', ''authenticated-read'']"

definition SetBucketACL ::
    "'m meta_store \<Rightarrow> string \<Rightarrow> string \<Rightarrow> ('m, 'b) engine \<Rightarrow> unit result \<times> ('m, 'b) engine" where
  "SetBucketACL M bucket acl e =
     (if acl \<notin> set validACLs then (Inl (Errorf ''set bucket acl: invalid canned ACL %q'' [FStr acl]), e)
      else modify_bucket ''set bucket acl'' (\<lambda>err. err) (\<lambda>r. Inr (r\<lparr>br_ACL := acl\<rparr>)) M bucket e)"

definition SetBucketTags ::
    "'m meta_store \<Rightarrow> string \<Rightarrow> smap \<Rightarrow> ('m, 'b) engine \<Rightarrow> unit result \<times> ('m, 'b) engine" where
  "SetBucketTags M bucket tags =
     modify_bucket ''set bucket tags'' (\<lambda>err. err) (\<lambda>r. Inr (r\<lparr>br_Tags := tags\<rparr>)) M bucket"

definition GetBucketTags :: "'m meta_store \<Rightarrow> ('m, 'b) engine \<Rightarrow> string \<Rightarrow> smap result" where
  "GetBucketTags = read_bucket ''get bucket tags'' br_Tags"

definition DeleteBucketTags ::
    "'m meta_store \<Rightarrow> string \<Rightarrow> ('m, 'b) engine \<Rightarrow> unit result \<times> ('m, 'b) engine" where
  "DeleteBucketTags M bucket = SetBucketTags M bucket []"

definition SetObjectTags ::
    "'m meta_store \<Rightarrow> string \<Rightarrow> string \<Rightarrow> smap \<Rightarrow> ('m, 'b) engine \<Rightarrow> unit result \<times> ('m, 'b) engine" where
  "SetObjectTags M bucket key tags e =
     (case m_GetObject M (e_meta e) bucket key of
        Inl err \<Rightarrow> (Inl (object_err ''set object tags'' bucket key err), e)
      | Inr r \<Rightarrow> meta_write (\<lambda>m. m_PutObject M m (r\<lparr>or_Tags := tags\<rparr>)) (\<lambda>err. err) () e)"

definition GetObjectTags :: "'m meta_store \<Rightarrow> ('m, 'b) engine \<Rightarrow> string \<Rightarrow> string \<Rightarrow> smap result" where
  "GetObjectTags M e bucket key =
     (case m_GetObject M (e_meta e) bucket key of
        Inl err \<Rightarrow> Inl (object_err ''get object tags'' bucket key err)
      | Inr r \<Rightarrow> Inr (or_Tags r))"

definition DeleteObjectTags ::
    "'m meta_store \<Rightarrow> string \<Rightarrow> string \<Rightarrow> ('m, 'b) engine \<Rightarrow> unit result \<times> ('m, 'b) engine" where
  "DeleteObjectTags M bucket key = SetObjectTags M bucket key []"

definition SetCORSRules ::
    "'m meta_store \<Rightarrow> string \<Rightarrow> cors_rule list \<Rightarrow> ('m, 'b) engine \<Rightarrow> unit result \<times> ('m, 'b) engine" where
  "SetCORSRules M bucket rules =
     modify_bucket ''set cors'' (\<lambda>err. err) (\<lambda>r. Inr (r\<lparr>br_CORSRules := rules\<rparr>)) M bucket"

definition GetCORSRules :: "'m meta_store \<Rightarrow> ('m, 'b) engine \<Rightarrow> string \<Rightarrow> cors_rule list result" where
  "GetCORSRules = read_bucket ''get cors'' br_CORSRules"

definition DeleteCORSRules ::
    "'m meta_store \<Rightarrow> string \<Rightarrow> ('m, 'b) engine \<Rightarrow> unit result \<times> ('m, 'b) engine" where
  "DeleteCORSRules M bucket = SetCORSRules M bucket []"

definition SetBucketEncryption ::
    "'m meta_store \<Rightarrow> string \<Rightarrow> string \<Rightarrow> ('m, 'b) engine \<Rightarrow> unit result \<times> ('m, 'b) engine" where
  "SetBucketEncryption M bucket algorithm e =
     (if algorithm \<noteq> [] \<and> algorithm \<noteq> ''AES256''
      then (Inl (Errorf ''set bucket encryption: unsupported algorithm %q'' [FStr algorithm]), e)
      else modify_bucket ''set bucket encryption'' (\<lambda>err. err) (\<lambda>r. Inr (r\<lparr>br_SSEAlgorithm := algorithm\<rparr>)) M bucket e)"

definition GetBucketEncryption :: "'m meta_store \<Rightarrow> ('m, 'b) engine \<Rightarrow> string \<Rightarrow> string result" where
  "GetBucketEncryption = read_bucket ''get bucket encryption'' br_SSEAlgorithm"

text \<open>Website, notifications, lifecycle rules, replication.\<close>

definition SetBucketWebsite ::
    "'m meta_store \<Rightarrow> string \<Rightarrow> website_config option \<Rightarrow> ('m, 'b) engine \<Rightarrow> unit result \<times> ('m, 'b) engine" where
  "SetBucketWebsite M bucket cfg =
     modify_bucket ''set bucket website'' (Wrap ''set bucket website: store'') (\<lambda>r. Inr (r\<lparr>br_Website := cfg\<rparr>)) M bucket"

definition GetBucketWebsite :: "'m meta_store \<Rightarrow> ('m, 'b) engine \<Rightarrow> string \<Rightarrow> website_config option result" where
  "GetBucketWebsite = read_bucket ''get bucket website'' br_Website"

definition SetBucketNotification ::
    "'m meta_store \<Rightarrow> string \<Rightarrow> notification_config option \<Rightarrow> ('m, 'b) engine \<Rightarrow> unit result \<times> ('m, 'b) engine" where
  "SetBucketNotification M bucket cfg =
     modify_bucket ''set bucket notification'' (Wrap ''set bucket notification: store'')
       (\<lambda>r. Inr (r\<lparr>br_Notifications := cfg\<rparr>)) M bucket"

definition GetBucketNotification ::
    "'m meta_store \<Rightarrow> ('m, 'b) engine \<Rightarrow> string \<Rightarrow> notification_config option result" where
  "GetBucketNotification = read_bucket ''get bucket notification'' br_Notifications"

definition SetLifecycleRules ::
    "'m meta_store \<Rightarrow> string \<Rightarrow> lifecycle_rule list \<Rightarrow> ('m, 'b) engine \<Rightarrow> unit result \<times> ('m, 'b) engine" where
  "SetLifecycleRules M bucket rules =
     modify_bucket ''set lifecycle'' (\<lambda>err. err) (\<lambda>r. Inr (r\<lparr>br_LifecycleRules := rules\<rparr>)) M bucket"

definition GetLifecycleRules :: "'m meta_store \<Rightarrow> ('m, 'b) engine \<Rightarrow> string \<Rightarrow> lifecycle_rule list result" where
  "GetLifecycleRules = read_bucket ''get lifecycle'' br_LifecycleRules"

definition DeleteLifecycleRules ::
    "'m meta_store \<Rightarrow> string \<Rightarrow> ('m, 'b) engine \<Rightarrow> unit result \<times> ('m, 'b) engine" where
  "DeleteLifecycleRules M bucket = SetLifecycleRules M bucket []"

definition SetBucketReplication ::
    "'m meta_store \<Rightarrow> string \<Rightarrow> replication_config option \<Rightarrow> ('m, 'b) engine \<Rightarrow> unit result \<times> ('m, 'b) engine" where
  "SetBucketReplication M bucket cfg =
     modify_bucket ''set bucket replication'' (Wrap ''set bucket replication: store'')
       (\<lambda>r. Inr (r\<lparr>br_Replication := cfg\<rparr>)) M bucket"

definition GetBucketReplication ::
    "'m meta_store \<Rightarrow> ('m, 'b) engine \<Rightarrow> string \<Rightarrow> replication_config option result" where
  "GetBucketReplication = read_bucket ''get bucket replication'' br_Replication"

end
