(* ===== verification/Object_Ops.thy ===== *)
theory Object_Ops
  imports Bucket_Ops Events
begin

text \<open>
  The object operations of the engine: internal/storage/object.go and the versions of version.go.
  An operation takes the store \<open>M\<close>, the backend \<open>B\<close>, the platform \<open>P\<close> and the call's environment,
  and returns its result and the engine it leaves behind, on every path.

  The Go code connects backend and caller by pipes and goroutines; here a read delivers its bytes, or
  the bytes up to an error, as one value. The body that a successful write consumed is hashed, and
  its first 512 bytes are sniffed, as \<open>hashReader\<close> does while it streams.
\<close>

section \<open>Hashing and sniffing\<close>

definition hexSum :: "platform \<Rightarrow> bytes \<Rightarrow> string" where
  "hexSum P data = hex_encode (pf_md5 P data)"

definition firstBytes :: "bytes \<Rightarrow> bytes" where
  "firstBytes data = take 512 data"

definition quoted :: "string \<Rightarrow> string" where
  "quoted s = CHR 0x22 # s @ [CHR 0x22]"

definition detectContentType :: "platform \<Rightarrow> bytes \<Rightarrow> string" where
  "detectContentType P data =
     (if data = [] then ''application/octet-stream''
      else let ct = pf_sniff P data in
        if HasPrefix ct ''application/octet-stream'' then ''application/octet-stream'' else ct)"

definition compositeMD5 :: "platform \<Rightarrow> string list \<Rightarrow> string" where
  "compositeMD5 P partETags =
     quoted (hexSum P (concat (map (\<lambda>etag. hex_decode (Trim etag [CHR 0x22])) partETags)) @
       ''-'' @ Itoa (int (length partETags)))"

section \<open>Putting\<close>

record put_object_input =
  pi_Bucket :: string
  pi_Key :: string
  pi_Body :: reader
  pi_Size :: int64
  pi_ContentType :: string
  pi_Owner :: string
  pi_UserMeta :: smap
  pi_Tags :: smap
  pi_SSEAlgorithm :: string

record put_object_output =
  po_ETag :: string
  po_VersionID :: string
  po_LastModified :: time
  po_Size :: int64
  po_SSEAlgorithm :: string

definition applySSE ::
    "platform \<Rightarrow> bytes option \<Rightarrow> random_source \<Rightarrow> put_object_input \<Rightarrow> string \<Rightarrow> (reader \<times> string \<times> bytes) result" where
  "applySSE P masterKey rnd inp bucketSSEAlg =
     (let sseAlg = (if pi_SSEAlgorithm inp = [] then bucketSSEAlg else pi_SSEAlgorithm inp) in
      if sseAlg \<noteq> ''AES256'' \<or> masterKey = None then Inr (pi_Body inp, sseAlg, [])
      else
        let objectKey = GenerateObjectKey rnd 0 in
        (case EncryptKey P masterKey (rnd 1 gcm_nonce_size) objectKey of
           Inl err \<Rightarrow> Inl (Wrap ''put object: sse encrypt key'' err)
         | Inr encryptedKey \<Rightarrow>
             Inr (encrypt_stream P objectKey (rnd 2 gcm_nonce_size) (pi_Body inp), sseAlg, encryptedKey)))"

definition versionedBackendKey :: "string \<Rightarrow> string \<Rightarrow> string" where
  "versionedBackendKey key versionID = key @ ''.v.'' @ versionID"

definition resolveVersioning :: "env \<Rightarrow> string \<Rightarrow> string \<Rightarrow> string \<times> string" where
  "resolveVersioning env key versioning =
     (if versioning = VersioningEnabled then (env_uuid env, versionedBackendKey key (env_uuid env))
      else ([], key))"

definition computeStatDelta ::
    "'m meta_store \<Rightarrow> 'm \<Rightarrow> string \<Rightarrow> string \<Rightarrow> int64 \<Rightarrow> string \<Rightarrow> int64 \<times> int64" where
  "computeStatDelta M m bucket key n versioning =
     (if versioning = VersioningEnabled then (1, n)
      else case m_GetObject M m bucket key of
             Inr old \<Rightarrow> (0, n - or_Size old)
           | Inl _ \<Rightarrow> (1, n))"

definition version_of :: "object_record \<Rightarrow> string \<Rightarrow> bool \<Rightarrow> version_record" where
  "version_of r versionID isLatest = \<lparr>
     vr_Bucket = or_Bucket r, vr_Key = or_Key r, vr_VersionID = versionID, vr_IsDeleteMarker = False,
     vr_IsLatest = isLatest, vr_ETag = or_ETag r, vr_Size = or_Size r,
     vr_LastModified = or_LastModified r, vr_Owner = or_Owner r, vr_StorageClass = or_StorageClass r\<rparr>"

definition putVersionRecord ::
    "'m meta_store \<Rightarrow> object_record \<Rightarrow> string \<Rightarrow> bool \<Rightarrow> 'm \<Rightarrow> 'm result" where
  "putVersionRecord M r versionID isLatest m = m_PutVersion M m (version_of r versionID isLatest)"

definition storeVersioningMetadata ::
    "'m meta_store \<Rightarrow> string \<Rightarrow> string \<Rightarrow> string \<Rightarrow> object_record \<Rightarrow>
     ('m, 'b) engine \<Rightarrow> unit result \<times> ('m, 'b) engine" where
  "storeVersioningMetadata M bucket key versionID r e =
     (case meta_write (\<lambda>m. m_MarkVersionsNotLatest M m bucket key) (Wrap ''put object: mark not latest'') () e of
        (Inl err, e1) \<Rightarrow> (Inl err, e1)
      | (Inr _, e1) \<Rightarrow>
          meta_write (putVersionRecord M r versionID True) (Wrap ''put object: store version'') () e1)"

definition fireObjectCreatedSideEffects ::
    "env \<Rightarrow> string \<Rightarrow> string \<Rightarrow> string \<Rightarrow> string \<Rightarrow> int64 \<Rightarrow> bucket_record \<Rightarrow> string \<Rightarrow>
     ('m, 'b) engine \<Rightarrow> ('m, 'b) engine" where
  "fireObjectCreatedSideEffects env bucket key etag owner sz bucketRec eventName e =
     (let e1 = (case br_Replication bucketRec of
                  None \<Rightarrow> e
                | Some rc \<Rightarrow> e\<lparr>e_replication := Enqueue bucket key (rc_Rules rc) (e_replication e)\<rparr>)
      in case br_Notifications bucketRec of
           None \<Rightarrow> e1
         | Some cfg \<Rightarrow>
             e1\<lparr>e_webhooks := Dispatch (Some cfg)
                 (buildObjectCreatedEvent (env_now env) bucket key etag owner sz eventName) (e_webhooks e1)\<rparr>)"

text \<open>The object record that a put stores.\<close>

definition put_record ::
    "platform \<Rightarrow> env \<Rightarrow> put_object_input \<Rightarrow> bucket_record \<Rightarrow> string \<Rightarrow> string \<Rightarrow> bytes \<Rightarrow> bytes \<Rightarrow> int64 \<Rightarrow> object_record" where
  "put_record P env inp bucketRec versionID sseAlg encryptedKey stored n = \<lparr>
     or_Bucket = pi_Bucket inp, or_Key = pi_Key inp, or_VersionID = versionID,
     or_IsDeleteMarker = False, or_IsLatest = (br_Versioning bucketRec = VersioningEnabled),
     or_Size = n, or_ETag = quoted (hexSum P stored),
     or_ContentType = (if pi_ContentType inp = [] then detectContentType P (firstBytes stored)
                       else pi_ContentType inp),
     or_LastModified = env_now env, or_Owner = pi_Owner inp, or_UserMeta = pi_UserMeta inp,
     or_StorageClass = ''STANDARD'', or_Tags = pi_Tags inp, or_SSEAlgorithm = sseAlg,
     or_SSEEncryptedKey = encryptedKey\<rparr>"

text \<open>
  The second half of \<open>PutObject\<close>, after the body has been written: the statistics delta, the version
  records of a versioned bucket, the object record, the statistics and the side effects.
\<close>

definition put_commit ::
    "'m meta_store \<Rightarrow> env \<Rightarrow> put_object_input \<Rightarrow> bucket_record \<Rightarrow> object_record \<Rightarrow>
     ('m, 'b) engine \<Rightarrow> put_object_output result \<times> ('m, 'b) engine" where
  "put_commit M env inp bucketRec r e =
     (let (deltaCount, deltaBytes) = computeStatDelta M (e_meta e) (pi_Bucket inp) (pi_Key inp)
                                       (or_Size r) (br_Versioning bucketRec)
      in case (if br_Versioning bucketRec = VersioningEnabled
               then storeVersioningMetadata M (pi_Bucket inp) (pi_Key inp) (or_VersionID r) r e
               else (Inr (), e)) of
           (Inl err, e1) \<Rightarrow> (Inl err, e1)
         | (Inr _, e1) \<Rightarrow>
             (case meta_write (\<lambda>m. m_PutObject M m r) (Wrap ''put object: store metadata'') () e1 of
                (Inl err, e2) \<Rightarrow> (Inl err, e2)
              | (Inr _, e2) \<Rightarrow>
                  let e3 = meta_quiet (\<lambda>m. m_UpdateBucketStats M m (pi_Bucket inp) deltaCount deltaBytes) e2;
                      e4 = fireObjectCreatedSideEffects env (pi_Bucket inp) (pi_Key inp) (or_ETag r)
                             (pi_Owner inp) (or_Size r) bucketRec EventObjectCreatedPut e3
                  in (Inr \<lparr>po_ETag = or_ETag r, po_VersionID = or_VersionID r,
                           po_LastModified = or_LastModified r, po_Size = or_Size r,
                           po_SSEAlgorithm = or_SSEAlgorithm r\<rparr>, e4)))"

definition PutObject ::
    "'m meta_store \<Rightarrow> 'b backend_ops \<Rightarrow> platform \<Rightarrow> env \<Rightarrow> put_object_input \<Rightarrow>
     ('m, 'b) engine \<Rightarrow> put_object_output result \<times> ('m, 'b) engine" where
  "PutObject M B P env inp e =
     (case m_GetBucket M (e_meta e) (pi_Bucket inp) of
        Inl err \<Rightarrow> (Inl (bucket_err ''put object: check bucket'' (pi_Bucket inp) err), e)
      | Inr bucketRec \<Rightarrow>
     (case checkQuota bucketRec (pi_Size inp) of
        Some err \<Rightarrow> (Inl err, e)
      | None \<Rightarrow>
     (case applySSE P (e_masterKey e) (env_rand env) inp (br_SSEAlgorithm bucketRec) of
        Inl err \<Rightarrow> (Inl err, e)
      | Inr (body, sseAlg, encryptedKey) \<Rightarrow>
     (case resolveVersioning env (pi_Key inp) (br_Versioning bucketRec) of
        (versionID, backendKey) \<Rightarrow>
     (case b_Write B (e_backend e) (pi_Bucket inp) backendKey body (pi_Size inp) of
        (Inl err, b1) \<Rightarrow> (Inl (Wrap ''put object: write'' err), e\<lparr>e_backend := b1\<rparr>)
      | (Inr n, b1) \<Rightarrow>
          put_commit M env inp bucketRec
            (put_record P env inp bucketRec versionID sseAlg encryptedKey (rd_data body) n)
            (e\<lparr>e_backend := b1\<rparr>))))))"

lemma put_record_fields [simp]:
  "or_Bucket (put_record P env inp bkt vid alg ek st n) = pi_Bucket inp"
  "or_Key (put_record P env inp bkt vid alg ek st n) = pi_Key inp"
  "or_VersionID (put_record P env inp bkt vid alg ek st n) = vid"
  "or_Size (put_record P env inp bkt vid alg ek st n) = n"
  "or_ETag (put_record P env inp bkt vid alg ek st n) = quoted (hexSum P st)"
  "or_LastModified (put_record P env inp bkt vid alg ek st n) = env_now env"
  "or_SSEAlgorithm (put_record P env inp bkt vid alg ek st n) = alg"
  "or_SSEEncryptedKey (put_record P env inp bkt vid alg ek st n) = ek"
  by (simp_all add: put_record_def)

section \<open>Getting\<close>

record get_object_output =
  go_Record :: object_record
  go_Body :: reader

definition GetObjectVersion ::
    "'m meta_store \<Rightarrow> 'b backend_ops \<Rightarrow> string \<Rightarrow> string \<Rightarrow> string \<Rightarrow>
     ('m, 'b) engine \<Rightarrow> get_object_output result \<times> ('m, 'b) engine" where
  "GetObjectVersion M B bucket key versionID e =
     (case m_GetVersion M (e_meta e) bucket key versionID of
        Inl err \<Rightarrow> (Inl (object_err ''get object version'' bucket key err), e)
      | Inr ver \<Rightarrow>
          if vr_IsDeleteMarker ver then (Inl (ObjectNotFoundError bucket key), e)
          else
            (case b_Read B (e_backend e) bucket (versionedBackendKey key versionID) of
               (rd, b') \<Rightarrow>
                 (Inr \<lparr>go_Record = \<lparr>
                     or_Bucket = vr_Bucket ver, or_Key = vr_Key ver, or_VersionID = vr_VersionID ver,
                     or_IsDeleteMarker = False, or_IsLatest = False, or_Size = vr_Size ver,
                     or_ETag = vr_ETag ver, or_ContentType = [], or_LastModified = vr_LastModified ver,
                     or_Owner = vr_Owner ver, or_UserMeta = [], or_StorageClass = vr_StorageClass ver,
                     or_Tags = [], or_SSEAlgorithm = [], or_SSEEncryptedKey = []\<rparr>,
                   go_Body = rd\<rparr>, e\<lparr>e_backend := b'\<rparr>)))"

text \<open>The key under which the backend holds the object of a record.\<close>

definition record_backend_key :: "string \<Rightarrow> object_record \<Rightarrow> string" where
  "record_backend_key key r = (if or_VersionID r \<noteq> [] then versionedBackendKey key (or_VersionID r) else key)"

definition GetObject ::
    "'m meta_store \<Rightarrow> 'b backend_ops \<Rightarrow> platform \<Rightarrow> string \<Rightarrow> string \<Rightarrow> string \<Rightarrow>
     ('m, 'b) engine \<Rightarrow> get_object_output result \<times> ('m, 'b) engine" where
  "GetObject M B P bucket key versionID e =
     (if versionID \<noteq> [] then GetObjectVersion M B bucket key versionID e
      else
        (case m_GetObject M (e_meta e) bucket key of
           Inl err \<Rightarrow> (Inl (object_err ''get object: metadata'' bucket key err), e)
         | Inr r \<Rightarrow>
             (case b_Read B (e_backend e) bucket (record_backend_key key r) of
                (rd, b') \<Rightarrow>
                  let e' = e\<lparr>e_backend := b'\<rparr> in
                  if or_SSEAlgorithm r = ''AES256'' \<and> or_SSEEncryptedKey r \<noteq> [] \<and> e_masterKey e \<noteq> None
                  then (case DecryptKey P (e_masterKey e) (or_SSEEncryptedKey r) of
                          Inl kerr \<Rightarrow> (Inl (Wrap ''get object: sse decrypt key'' kerr), e')
                        | Inr objectKey \<Rightarrow>
                            (case NewDecryptingReader P rd objectKey of
                               Inl kerr \<Rightarrow> (Inl (Wrap ''get object: sse decrypting reader'' kerr), e')
                             | Inr dr \<Rightarrow> (Inr \<lparr>go_Record = r, go_Body = dr\<rparr>, e')))
                  else (Inr \<lparr>go_Record = r, go_Body = rd\<rparr>, e'))))"

definition HeadObject :: "'m meta_store \<Rightarrow> ('m, 'b) engine \<Rightarrow> string \<Rightarrow> string \<Rightarrow> object_record result" where
  "HeadObject M e bucket key =
     (case m_GetObject M (e_meta e) bucket key of
        Inl err \<Rightarrow> Inl (object_err ''head object'' bucket key err)
      | Inr r \<Rightarrow> Inr r)"

section \<open>Deleting\<close>

record delete_object_input =
  di_Bucket :: string
  di_Key :: string
  di_VersionID :: string
  di_Owner :: string

record delete_object_output =
  do_VersionID :: string
  do_DeleteMarker :: bool

definition no_delete_output :: delete_object_output where
  "no_delete_output = \<lparr>do_VersionID = [], do_DeleteMarker = False\<rparr>"

definition DeleteObjectVersion ::
    "'m meta_store \<Rightarrow> 'b backend_ops \<Rightarrow> string \<Rightarrow> string \<Rightarrow> string \<Rightarrow>
     ('m, 'b) engine \<Rightarrow> unit result \<times> ('m, 'b) engine" where
  "DeleteObjectVersion M B bucket key versionID e =
     (case m_GetVersion M (e_meta e) bucket key versionID of
        Inl err \<Rightarrow> (if isNotFound err then Inr () else Inl (Wrap ''delete version: get'' err), e)
      | Inr ver \<Rightarrow>
          (let (berr, e1) =
             (if vr_IsDeleteMarker ver then (None, e)
              else (case b_Delete B (e_backend e) bucket (versionedBackendKey key versionID) of
                      (Inl derr, b') \<Rightarrow>
                        if isBackendNotFound derr
                        then (None, meta_quiet (\<lambda>m. m_UpdateBucketStats M m bucket (- 1) (- vr_Size ver))
                                (e\<lparr>e_backend := b'\<rparr>))
                        else (Some (Wrap ''delete version: backend'' derr), e\<lparr>e_backend := b'\<rparr>)
                    | (Inr _, b') \<Rightarrow>
                        (None, meta_quiet (\<lambda>m. m_UpdateBucketStats M m bucket (- 1) (- vr_Size ver))
                                (e\<lparr>e_backend := b'\<rparr>))))
           in (case berr of
                 Some err \<Rightarrow> (Inl err, e1)
               | None \<Rightarrow> meta_write (\<lambda>m. m_DeleteVersion M m bucket key versionID) (\<lambda>err. err) () e1)))"

definition putDeleteMarker ::
    "'m meta_store \<Rightarrow> env \<Rightarrow> string \<Rightarrow> string \<Rightarrow> string \<Rightarrow>
     ('m, 'b) engine \<Rightarrow> string result \<times> ('m, 'b) engine" where
  "putDeleteMarker M env bucket key owner e =
     (case meta_write (\<lambda>m. m_MarkVersionsNotLatest M m bucket key) (Wrap ''delete marker: mark not latest'') () e of
        (Inl err, e1) \<Rightarrow> (Inl err, e1)
      | (Inr _, e1) \<Rightarrow>
          meta_write (\<lambda>m. m_PutVersion M m \<lparr>
              vr_Bucket = bucket, vr_Key = key, vr_VersionID = env_uuid env, vr_IsDeleteMarker = True,
              vr_IsLatest = True, vr_ETag = [], vr_Size = 0, vr_LastModified = env_now env,
              vr_Owner = owner, vr_StorageClass = []\<rparr>)
            (\<lambda>err. err) (env_uuid env) e1)"

definition deleteUnversionedObject ::
    "'m meta_store \<Rightarrow> 'b backend_ops \<Rightarrow> env \<Rightarrow> bucket_record \<Rightarrow> delete_object_input \<Rightarrow>
     ('m, 'b) engine \<Rightarrow> delete_object_output result \<times> ('m, 'b) engine" where
  "deleteUnversionedObject M B env bkt inp e =
     (case m_GetObject M (e_meta e) (di_Bucket inp) (di_Key inp) of
        Inl err \<Rightarrow> (if isNotFound err then Inr no_delete_output
                    else Inl (Wrap ''delete object: metadata get'' err), e)
      | Inr r \<Rightarrow>
     (case b_Delete B (e_backend e) (di_Bucket inp) (record_backend_key (di_Key inp) r) of
        (res, b1) \<Rightarrow>
     (let e1 = e\<lparr>e_backend := b1\<rparr>;
          berr = (case res of Inl err \<Rightarrow> if isBackendNotFound err then None else Some err | Inr _ \<Rightarrow> None)
      in (case berr of
            Some err \<Rightarrow> (Inl (Wrap ''delete object: backend'' err), e1)
          | None \<Rightarrow>
         (case meta_write (\<lambda>m. m_DeleteObject M m (di_Bucket inp) (di_Key inp))
                 (Wrap ''delete object: metadata delete'') () e1 of
            (Inl err, e2) \<Rightarrow> (Inl err, e2)
          | (Inr _, e2) \<Rightarrow>
              let e3 = meta_quiet (\<lambda>m. m_UpdateBucketStats M m (di_Bucket inp) (- 1) (- or_Size r)) e2
              in (Inr no_delete_output,
                  case br_Notifications bkt of
                    None \<Rightarrow> e3
                  | Some cfg \<Rightarrow>
                      e3\<lparr>e_webhooks := Dispatch (Some cfg)
                          (buildObjectRemovedEvent (env_now env) (di_Bucket inp) (di_Key inp) (di_Owner inp))
                          (e_webhooks e3)\<rparr>))))))"

definition DeleteObject ::
    "'m meta_store \<Rightarrow> 'b backend_ops \<Rightarrow> env \<Rightarrow> delete_object_input \<Rightarrow>
     ('m, 'b) engine \<Rightarrow> delete_object_output result \<times> ('m, 'b) engine" where
  "DeleteObject M B env inp e =
     (if di_VersionID inp \<noteq> []
      then (case DeleteObjectVersion M B (di_Bucket inp) (di_Key inp) (di_VersionID inp) e of
              (Inl err, e1) \<Rightarrow> (Inl err, e1)
            | (Inr _, e1) \<Rightarrow> (Inr \<lparr>do_VersionID = di_VersionID inp, do_DeleteMarker = False\<rparr>, e1))
      else
        (case m_GetBucket M (e_meta e) (di_Bucket inp) of
           Inl err \<Rightarrow> (if isNotFound err then Inr no_delete_output
                       else Inl (Wrap ''delete object: get bucket'' err), e)
         | Inr bkt \<Rightarrow>
             if br_Versioning bkt = VersioningEnabled
             then (case putDeleteMarker M env (di_Bucket inp) (di_Key inp) (di_Owner inp) e of
                     (Inl merr, e1) \<Rightarrow> (Inl (Wrap ''delete object: put delete marker'' merr), e1)
                   | (Inr vid, e1) \<Rightarrow>
                       (case m_DeleteObject M (e_meta e1) (di_Bucket inp) (di_Key inp) of
                          Inl derr \<Rightarrow>
                            if isNotFound derr then (Inr \<lparr>do_VersionID = vid, do_DeleteMarker = True\<rparr>, e1)
                            else (Inl (Wrap ''delete object: remove index'' derr), e1)
                        | Inr m \<Rightarrow> (Inr \<lparr>do_VersionID = vid, do_DeleteMarker = True\<rparr>, e1\<lparr>e_meta := m\<rparr>)))
             else deleteUnversionedObject M B env bkt inp e))"

text \<open>\<open>DeleteObjects\<close>: every key in turn; \<open>envs\<close> gives each call its environment.\<close>

fun DeleteObjects ::
    "'m meta_store \<Rightarrow> 'b backend_ops \<Rightarrow> (nat \<Rightarrow> env) \<Rightarrow> string \<Rightarrow> string list \<Rightarrow> string \<Rightarrow>
     string list \<Rightarrow> (string \<times> err) list \<Rightarrow> ('m, 'b) engine \<Rightarrow>
     (string list \<times> (string \<times> err) list) \<times> ('m, 'b) engine" where
  "DeleteObjects M B envs bucket [] owner deleted errs e = ((deleted, errs), e)"
| "DeleteObjects M B envs bucket (key # keys) owner deleted errs e =
     (case DeleteObject M B (envs 0)
             \<lparr>di_Bucket = bucket, di_Key = key, di_VersionID = [], di_Owner = owner\<rparr> e of
        (Inl err, e1) \<Rightarrow>
          DeleteObjects M B (\<lambda>i. envs (Suc i)) bucket keys owner deleted (AList.update key err errs) e1
      | (Inr _, e1) \<Rightarrow>
          DeleteObjects M B (\<lambda>i. envs (Suc i)) bucket keys owner (deleted @ [key]) errs e1)"

section \<open>Copying and listing\<close>

definition CopyObject ::
    "'m meta_store \<Rightarrow> 'b backend_ops \<Rightarrow> env \<Rightarrow> string \<Rightarrow> string \<Rightarrow> string \<Rightarrow> string \<Rightarrow> string \<Rightarrow>
     ('m, 'b) engine \<Rightarrow> object_record result \<times> ('m, 'b) engine" where
  "CopyObject M B env srcBucket srcKey dstBucket dstKey owner e =
     (case m_GetObject M (e_meta e) srcBucket srcKey of
        Inl err \<Rightarrow> (Inl (object_err ''copy object: get src'' srcBucket srcKey err), e)
      | Inr src \<Rightarrow>
     (case m_BucketExists M (e_meta e) dstBucket of
        Inl err \<Rightarrow> (Inl (Wrap ''copy object: check dst bucket'' err), e)
      | Inr False \<Rightarrow> (Inl (BucketNotFoundError dstBucket), e)
      | Inr True \<Rightarrow>
     (case b_Read B (e_backend e) srcBucket (record_backend_key srcKey src) of
        (rd, b1) \<Rightarrow>
     (case b_Write B b1 dstBucket dstKey rd (or_Size src) of
        (Inl err, b2) \<Rightarrow> (Inl (Wrap ''copy object: write dst'' err), e\<lparr>e_backend := b2\<rparr>)
      | (Inr n, b2) \<Rightarrow>
     (case rd_err rd of
        Some rerr \<Rightarrow> (Inl (Wrap ''copy object: read src'' rerr), e\<lparr>e_backend := b2\<rparr>)
      | None \<Rightarrow>
     (let r = \<lparr>or_Bucket = dstBucket, or_Key = dstKey, or_VersionID = [], or_IsDeleteMarker = False,
               or_IsLatest = False, or_Size = n, or_ETag = or_ETag src, or_ContentType = or_ContentType src,
               or_LastModified = env_now env, or_Owner = owner, or_UserMeta = or_UserMeta src,
               or_StorageClass = ''STANDARD'', or_Tags = [], or_SSEAlgorithm = [], or_SSEEncryptedKey = []\<rparr>
      in (case meta_write (\<lambda>m. m_PutObject M m r) (Wrap ''copy object: store'') () (e\<lparr>e_backend := b2\<rparr>) of
            (Inl err, e1) \<Rightarrow> (Inl err, e1)
          | (Inr _, e1) \<Rightarrow>
              (Inr r, meta_quiet (\<lambda>m. m_UpdateBucketStats M m dstBucket 1 n) e1))))))))"

definition engine_ListObjects ::
    "'m meta_store \<Rightarrow> ('m, 'b) engine \<Rightarrow> string \<Rightarrow> list_options \<Rightarrow> (object_record list \<times> string list) result" where
  "engine_ListObjects M e bucket opts =
     (case m_GetBucket M (e_meta e) bucket of
        Inl err \<Rightarrow> Inl (bucket_err ''list objects'' bucket err)
      | Inr _ \<Rightarrow> m_ListObjects M (e_meta e) bucket opts)"

definition ListObjectVersions ::
    "'m meta_store \<Rightarrow> ('m, 'b) engine \<Rightarrow> string \<Rightarrow> list_options \<Rightarrow> version_record list result" where
  "ListObjectVersions M e bucket opts =
     (case m_GetBucket M (e_meta e) bucket of
        Inl err \<Rightarrow> Inl (bucket_err ''list versions'' bucket err)
      | Inr _ \<Rightarrow> m_ListBucketVersions M (e_meta e) bucket opts)"

end
