(* ===== verification/Multipart_Ops.thy ===== *)
theory Multipart_Ops
  imports Object_Ops
begin

text \<open>
  Multipart uploads (internal/storage/multipart.go). A part is stored under the backend key
  \<open>.multipart/<upload id>/<5-digit part number>\<close> of the upload's bucket and recorded in the metadata
  store; completing an upload streams the chosen parts, in ascending order of their numbers, into
  the final object.
\<close>

definition multipart_part_key :: "string \<Rightarrow> int \<Rightarrow> string" where
  "multipart_part_key uploadID n = ''.multipart/'' @ uploadID @ ''/'' @ fmt_05d n"

record complete_part =
  cp_PartNumber :: int
  cp_ETag :: string

definition CreateMultipartUpload ::
    "'m meta_store \<Rightarrow> env \<Rightarrow> string \<Rightarrow> string \<Rightarrow> string \<Rightarrow> string \<Rightarrow> smap \<Rightarrow>
     ('m, 'b) engine \<Rightarrow> string result \<times> ('m, 'b) engine" where
  "CreateMultipartUpload M env bucket key owner contentType userMeta e =
     (case m_BucketExists M (e_meta e) bucket of
        Inl err \<Rightarrow> (Inl (Wrap ''create multipart: check bucket'' err), e)
      | Inr False \<Rightarrow> (Inl (BucketNotFoundError bucket), e)
      | Inr True \<Rightarrow>
          meta_write (\<lambda>m. m_PutMultipart M m \<lparr>
              mr_UploadID = env_uuid env, mr_Bucket = bucket, mr_Key = key, mr_Owner = owner,
              mr_ContentType = contentType, mr_UserMeta = userMeta, mr_Initiated = env_now env\<rparr>)
            (Wrap ''create multipart: store'') (env_uuid env) e)"

definition upload_err :: "string \<Rightarrow> string \<Rightarrow> err \<Rightarrow> err" where
  "upload_err what uploadID err =
     (if isNotFound err then MultipartNotFoundError uploadID else Wrap what err)"

text \<open>The record of a part has the declared size of the request, not the number of bytes written.\<close>

definition UploadPart ::
    "'m meta_store \<Rightarrow> 'b backend_ops \<Rightarrow> platform \<Rightarrow> env \<Rightarrow> string \<Rightarrow> int \<Rightarrow> reader \<Rightarrow> int64 \<Rightarrow>
     ('m, 'b) engine \<Rightarrow> string result \<times> ('m, 'b) engine" where
  "UploadPart M B P env uploadID partNumber body sz e =
     (case m_GetMultipart M (e_meta e) uploadID of
        Inl err \<Rightarrow> (Inl (upload_err ''upload part: get upload'' uploadID err), e)
      | Inr _ \<Rightarrow>
     (case m_GetMultipart M (e_meta e) uploadID of
        Inl err \<Rightarrow> (Inl (Wrap ''upload part: resolve bucket'' err), e)
      | Inr u \<Rightarrow>
     (case b_Write B (e_backend e) (mr_Bucket u) (multipart_part_key uploadID partNumber) body sz of
        (Inl err, b') \<Rightarrow> (Inl (Wrap ''upload part: write'' err), e\<lparr>e_backend := b'\<rparr>)
      | (Inr _, b') \<Rightarrow>
          let etag = quoted (hexSum P (rd_data body))
          in meta_write (\<lambda>m. m_PutPart M m \<lparr>
                 pr_UploadID = uploadID, pr_PartNumber = partNumber, pr_ETag = etag, pr_Size = sz,
                 pr_LastModified = env_now env\<rparr>)
               (Wrap ''upload part: store'') etag (e\<lparr>e_backend := b'\<rparr>))))"

text \<open>The size table of an upload; reading an absent number gives 0.\<close>

definition size_of_part :: "part_record list \<Rightarrow> int \<Rightarrow> int64" where
  "size_of_part allParts n =
     (case map_of (rev (map (\<lambda>p. (pr_PartNumber p, pr_Size p)) allParts)) n of
        None \<Rightarrow> 0 | Some s \<Rightarrow> s)"

definition multipartTotalSize :: "part_record list \<Rightarrow> complete_part list \<Rightarrow> int64" where
  "multipartTotalSize allParts selected =
     foldl (\<lambda>total cp. total + size_of_part allParts (cp_PartNumber cp)) 0 selected"

text \<open>The readers of the selected parts, one after the other.\<close>

fun read_parts ::
    "'b backend_ops \<Rightarrow> string \<Rightarrow> string \<Rightarrow> complete_part list \<Rightarrow> 'b \<Rightarrow> reader list \<times> 'b" where
  "read_parts B bucket uploadID [] b = ([], b)"
| "read_parts B bucket uploadID (cp # cps) b =
     (case b_Read B b bucket (multipart_part_key uploadID (cp_PartNumber cp)) of
        (rd, b1) \<Rightarrow> (case read_parts B bucket uploadID cps b1 of (rds, b2) \<Rightarrow> (rd # rds, b2)))"

definition assemblePartReaders ::
    "'b backend_ops \<Rightarrow> string \<Rightarrow> string \<Rightarrow> complete_part list \<Rightarrow> part_record list \<Rightarrow> 'b \<Rightarrow>
     (reader \<times> string list \<times> int64) \<times> 'b" where
  "assemblePartReaders B bucket uploadID selected allParts b =
     (case read_parts B bucket uploadID selected b of
        (rds, b') \<Rightarrow> ((MultiReader rds, map cp_ETag selected, multipartTotalSize allParts selected), b'))"

text \<open>\<open>backend.Delete\<close> with its error ignored.\<close>

definition delete_quiet :: "'b backend_ops \<Rightarrow> string \<Rightarrow> string \<Rightarrow> 'b \<Rightarrow> 'b" where
  "delete_quiet B bucket key b = snd (b_Delete B b bucket key)"

fun delete_part_files :: "'b backend_ops \<Rightarrow> string \<Rightarrow> string \<Rightarrow> int list \<Rightarrow> 'b \<Rightarrow> 'b" where
  "delete_part_files B bucket uploadID [] b = b"
| "delete_part_files B bucket uploadID (n # ns) b =
     delete_part_files B bucket uploadID ns (delete_quiet B bucket (multipart_part_key uploadID n) b)"

text \<open>\<open>cleanupMultipart\<close> deletes the files of the part numbers 1 to \<open>numParts\<close>.\<close>

definition cleanupMultipart ::
    "'m meta_store \<Rightarrow> 'b backend_ops \<Rightarrow> string \<Rightarrow> string \<Rightarrow> nat \<Rightarrow> ('m, 'b) engine \<Rightarrow> ('m, 'b) engine" where
  "cleanupMultipart M B uploadID bucket numParts e =
     (let e1 = meta_quiet (\<lambda>m. m_DeleteMultipart M m uploadID) e;
          e2 = meta_quiet (\<lambda>m. m_DeleteParts M m uploadID) e1
      in e2\<lparr>e_backend := delete_part_files B bucket uploadID (map int [1 ..< Suc numParts]) (e_backend e2)\<rparr>)"

definition CompleteMultipartUpload ::
    "'m meta_store \<Rightarrow> 'b backend_ops \<Rightarrow> platform \<Rightarrow> env \<Rightarrow> string \<Rightarrow> complete_part list \<Rightarrow>
     ('m, 'b) engine \<Rightarrow> object_record result \<times> ('m, 'b) engine" where
  "CompleteMultipartUpload M B P env uploadID inParts e =
     (case m_GetMultipart M (e_meta e) uploadID of
        Inl err \<Rightarrow> (Inl (upload_err ''complete multipart: get upload'' uploadID err), e)
      | Inr u \<Rightarrow>
     (case m_GetBucket M (e_meta e) (mr_Bucket u) of
        Inl err \<Rightarrow> (Inl (Wrap ''complete multipart: get bucket'' err), e)
      | Inr bucketRec \<Rightarrow>
     (case m_ListParts M (e_meta e) uploadID of
        Inl err \<Rightarrow> (Inl (Wrap ''complete multipart: list parts'' err), e)
      | Inr allParts \<Rightarrow>
     (case checkQuota bucketRec (multipartTotalSize allParts inParts) of
        Some qerr \<Rightarrow> (Inl qerr, e)
      | None \<Rightarrow>
     (let parts = sort_key cp_PartNumber inParts in
     (case assemblePartReaders B (mr_Bucket u) uploadID parts allParts (e_backend e) of
        ((combined, partETags, totalSize), b1) \<Rightarrow>
     (case b_Write B b1 (mr_Bucket u) (mr_Key u) combined totalSize of
        (Inl err, b2) \<Rightarrow> (Inl (Wrap ''complete multipart: write final'' err), e\<lparr>e_backend := b2\<rparr>)
      | (Inr _, b2) \<Rightarrow>
     (let r = \<lparr>or_Bucket = mr_Bucket u, or_Key = mr_Key u, or_VersionID = [], or_IsDeleteMarker = False,
               or_IsLatest = False, or_Size = totalSize, or_ETag = compositeMD5 P partETags,
               or_ContentType = mr_ContentType u, or_LastModified = env_now env, or_Owner = mr_Owner u,
               or_UserMeta = mr_UserMeta u, or_StorageClass = ''STANDARD'', or_Tags = [],
               or_SSEAlgorithm = [], or_SSEEncryptedKey = []\<rparr>
      in (case meta_write (\<lambda>m. m_PutObject M m r) (Wrap ''complete multipart: store object'') ()
                 (e\<lparr>e_backend := b2\<rparr>) of
            (Inl err, e1) \<Rightarrow> (Inl err, e1)
          | (Inr _, e1) \<Rightarrow>
              let e2 = meta_quiet (\<lambda>m. m_UpdateBucketStats M m (mr_Bucket u) 1 totalSize) e1;
                  e3 = fireObjectCreatedSideEffects env (mr_Bucket u) (mr_Key u) (or_ETag r) (mr_Owner u)
                         totalSize bucketRec EventObjectCreatedMultipartCompleted e2
              in (Inr r, cleanupMultipart M B uploadID (mr_Bucket u) (length inParts) e3))))))))))"

definition AbortMultipartUpload ::
    "'m meta_store \<Rightarrow> 'b backend_ops \<Rightarrow> string \<Rightarrow> ('m, 'b) engine \<Rightarrow> unit result \<times> ('m, 'b) engine" where
  "AbortMultipartUpload M B uploadID e =
     (case m_GetMultipart M (e_meta e) uploadID of
        Inl err \<Rightarrow> (Inl (upload_err ''abort multipart: get upload'' uploadID err), e)
      | Inr u \<Rightarrow>
          (case m_ListParts M (e_meta e) uploadID of
             Inl err \<Rightarrow> (Inl (Wrap ''abort multipart: list parts'' err), e)
           | Inr parts \<Rightarrow>
               let e1 = e\<lparr>e_backend := delete_part_files B (mr_Bucket u) uploadID (map pr_PartNumber parts) (e_backend e)\<rparr>
               in (Inr (), cleanupMultipart M B uploadID (mr_Bucket u) (length parts) e1)))"

definition engine_ListParts :: "'m meta_store \<Rightarrow> ('m, 'b) engine \<Rightarrow> string \<Rightarrow> part_record list result" where
  "engine_ListParts M e uploadID =
     (case m_GetMultipart M (e_meta e) uploadID of
        Inl err \<Rightarrow> Inl (upload_err ''list parts'' uploadID err)
      | Inr _ \<Rightarrow> m_ListParts M (e_meta e) uploadID)"

definition ListMultipartUploads :: "'m meta_store \<Rightarrow> ('m, 'b) engine \<Rightarrow> string \<Rightarrow> multipart_record list result" where
  "ListMultipartUploads M e bucket = m_ListMultiparts M (e_meta e) bucket"

end
