(* ===== verification/Lifecycle_Ops.thy ===== *)
theory Lifecycle_Ops
  imports Multipart_Ops
begin

text \<open>
  Lifecycle rules (internal/storage/lifecycle.go): a periodic pass over all buckets that deletes
  objects and aborts uploads older than a number of days.
\<close>

text \<open>A Go map read: \<open>obj.Tags[k]\<close> of an absent key is the empty string.\<close>

definition objectMatchesFilter :: "object_record \<Rightarrow> lifecycle_filter \<Rightarrow> bool" where
  "objectMatchesFilter obj flt =
     (if lf_Prefix flt \<noteq> [] \<and> length (or_Key obj) < length (lf_Prefix flt) then False
      else list_all (\<lambda>(k, v). smap_get (or_Tags obj) k = v) (lf_Tags flt))"

text \<open>
  \<open>now.AddDate(0, 0, -days)\<close> in UTC, where a day has 86400 seconds. A \<open>time.Time\<close> counts the seconds since the
  year 1 in an \<open>int64\<close>, which wraps around; the nanoseconds within the second stay.
\<close>

definition unix_to_internal :: int where
  "unix_to_internal = 62135596800"

definition days_before :: "time \<Rightarrow> int \<Rightarrow> time" where
  "days_before now days =
     (let sec = signed_take_bit 63 (now div second_ns + unix_to_internal - days * 86400)
      in (sec - unix_to_internal) * second_ns + now mod second_ns)"

lemma days_before_exact:
  assumes "- (2 ^ 63) \<le> now div second_ns + unix_to_internal - days * 86400"
    and "now div second_ns + unix_to_internal - days * 86400 < 2 ^ 63"
  shows "days_before now days = now - days * day_ns"
proof -
  have "signed_take_bit 63 (now div second_ns + unix_to_internal - days * 86400) = now div second_ns + unix_to_internal - days * 86400"
    using assms by (simp add: signed_take_bit_int_eq_self)
  then have "days_before now days = (now div second_ns - days * 86400) * second_ns + now mod second_ns"
    by (simp only: days_before_def Let_def) simp
  also have "\<dots> = now - days * day_ns"
    using div_mult_mod_eq [of now second_ns] by (simp only: day_ns_def left_diff_distrib mult.assoc)
  finally show ?thesis .
qed

text \<open>The times of a clock before the year 2262, and any number of days up to a hundred trillion.\<close>

lemma days_before_usual:
  assumes "0 \<le> now" and "now < 2 ^ 63" and "0 \<le> days" and "days \<le> 100000000000000"
  shows "days_before now days = now - days * day_ns"
proof -
  have "0 \<le> now div second_ns" "now div second_ns \<le> 9223372036" using assms(1,2) by (simp_all add: second_ns_def)
  then show ?thesis using assms(3,4) by (intro days_before_exact) (simp_all add: unix_to_internal_def)
qed

text \<open>A number of days beyond what the seconds hold gives a time in the future, before which every object was modified.\<close>

lemma days_before_wraps: "days_before 1700000000000000000 106751992000000 = 9223371966609551616000000000"
  by code_simp

fun expire_loop ::
    "'m meta_store \<Rightarrow> 'b backend_ops \<Rightarrow> (nat \<Rightarrow> env) \<Rightarrow> string \<Rightarrow> lifecycle_filter \<Rightarrow> time \<Rightarrow>
     object_record list \<Rightarrow> ('m, 'b) engine \<Rightarrow> ('m, 'b) engine" where
  "expire_loop M B envs bucket flt threshold [] e = e"
| "expire_loop M B envs bucket flt threshold (obj # objs) e =
     (if or_LastModified obj < threshold \<and> objectMatchesFilter obj flt
      then expire_loop M B (\<lambda>i. envs (Suc i)) bucket flt threshold objs
             (snd (DeleteObject M B (envs 0)
                \<lparr>di_Bucket = bucket, di_Key = or_Key obj, di_VersionID = [], di_Owner = []\<rparr> e))
      else expire_loop M B envs bucket flt threshold objs e)"

definition expireObjects ::
    "'m meta_store \<Rightarrow> 'b backend_ops \<Rightarrow> (nat \<Rightarrow> env) \<Rightarrow> string \<Rightarrow> lifecycle_rule \<Rightarrow> time \<Rightarrow>
     ('m, 'b) engine \<Rightarrow> unit result \<times> ('m, 'b) engine" where
  "expireObjects M B envs bucket rule now e =
     (case m_ListObjects M (e_meta e) bucket
             \<lparr>lo_Prefix = lf_Prefix (lr_Filter rule), lo_Delimiter = [], lo_ContinuationToken = [],
              lo_StartAfter = [], lo_MaxKeys = 1000\<rparr> of
        Inl err \<Rightarrow> (Inl (Wrap ''lifecycle expire: list'' err), e)
      | Inr (objects, _) \<Rightarrow>
          (Inr (), expire_loop M B envs bucket (lr_Filter rule) (days_before now (ExpirationDays rule)) objects e))"

fun abort_loop ::
    "'m meta_store \<Rightarrow> 'b backend_ops \<Rightarrow> time \<Rightarrow> multipart_record list \<Rightarrow> ('m, 'b) engine \<Rightarrow> ('m, 'b) engine" where
  "abort_loop M B threshold [] e = e"
| "abort_loop M B threshold (u # us) e =
     (if mr_Initiated u < threshold
      then abort_loop M B threshold us (snd (AbortMultipartUpload M B (mr_UploadID u) e))
      else abort_loop M B threshold us e)"

definition abortIncompleteMultiparts ::
    "'m meta_store \<Rightarrow> 'b backend_ops \<Rightarrow> string \<Rightarrow> lifecycle_rule \<Rightarrow> time \<Rightarrow>
     ('m, 'b) engine \<Rightarrow> unit result \<times> ('m, 'b) engine" where
  "abortIncompleteMultiparts M B bucket rule now e =
     (case m_ListMultiparts M (e_meta e) bucket of
        Inl err \<Rightarrow> (Inl (Wrap ''lifecycle abort multipart: list'' err), e)
      | Inr uploads \<Rightarrow>
          (Inr (), abort_loop M B (days_before now (AbortIncompleteMultipartDays rule)) uploads e))"

text \<open>The rules of a bucket in order; errors of a rule are dropped.\<close>

fun apply_rules ::
    "'m meta_store \<Rightarrow> 'b backend_ops \<Rightarrow> (nat \<Rightarrow> nat \<Rightarrow> env) \<Rightarrow> string \<Rightarrow> time \<Rightarrow> lifecycle_rule list \<Rightarrow>
     ('m, 'b) engine \<Rightarrow> ('m, 'b) engine" where
  "apply_rules M B envs bucket now [] e = e"
| "apply_rules M B envs bucket now (rule # rules) e =
     (if lr_Status rule \<noteq> ''Enabled'' then apply_rules M B (\<lambda>i. envs (Suc i)) bucket now rules e
      else
        let e1 = (if ExpirationDays rule > 0 then snd (expireObjects M B (envs 0) bucket rule now e) else e);
            e2 = (if AbortIncompleteMultipartDays rule > 0
                  then snd (abortIncompleteMultiparts M B bucket rule now e1) else e1)
        in apply_rules M B (\<lambda>i. envs (Suc i)) bucket now rules e2)"

definition applyBucketLifecycle ::
    "'m meta_store \<Rightarrow> 'b backend_ops \<Rightarrow> (nat \<Rightarrow> nat \<Rightarrow> env) \<Rightarrow> time \<Rightarrow> bucket_record \<Rightarrow>
     ('m, 'b) engine \<Rightarrow> ('m, 'b) engine" where
  "applyBucketLifecycle M B envs now b e =
     (if br_LifecycleRules b = [] then e
      else apply_rules M B envs (br_Name b) now (br_LifecycleRules b) e)"

fun lifecycle_buckets ::
    "'m meta_store \<Rightarrow> 'b backend_ops \<Rightarrow> (nat \<Rightarrow> nat \<Rightarrow> nat \<Rightarrow> env) \<Rightarrow> (nat \<Rightarrow> time) \<Rightarrow> bucket_record list \<Rightarrow>
     ('m, 'b) engine \<Rightarrow> ('m, 'b) engine" where
  "lifecycle_buckets M B envs nows [] e = e"
| "lifecycle_buckets M B envs nows (b # bs) e =
     lifecycle_buckets M B (\<lambda>i. envs (Suc i)) (\<lambda>i. nows (Suc i)) bs
       (applyBucketLifecycle M B (envs 0) (nows 0) b e)"

definition ApplyLifecycle ::
    "'m meta_store \<Rightarrow> 'b backend_ops \<Rightarrow> (nat \<Rightarrow> nat \<Rightarrow> nat \<Rightarrow> env) \<Rightarrow> (nat \<Rightarrow> time) \<Rightarrow>
     ('m, 'b) engine \<Rightarrow> unit result \<times> ('m, 'b) engine" where
  "ApplyLifecycle M B envs nows e =
     (case m_ListBuckets M (e_meta e) of
        Inl err \<Rightarrow> (Inl (Wrap ''lifecycle: list buckets'' err), e)
      | Inr buckets \<Rightarrow> (Inr (), lifecycle_buckets M B envs nows buckets e))"

end
