(* ===== verification/Engine_Correct.thy ===== *)
theory Engine_Correct
  imports Lifecycle_Ops
begin

text \<open>
  The engine over any metadata store and any backend that keep their contracts: the locale
  \<open>storage_engine\<close> joins the two interfaces. Its lemmas say what each operation does to the view of
  the store and of the backend; the properties at the end are stated over the code's definitions.
\<close>

locale storage_engine =
  metadata_store M view sinv + object_backend B bview binv good
  for M :: "'m meta_store" and view :: "'m \<Rightarrow> meta_view" and sinv :: "'m \<Rightarrow> bool"
    and B :: "'b backend_ops" and bview :: "'b \<Rightarrow> string \<Rightarrow> string \<Rightarrow> bytes option"
    and binv :: "'b \<Rightarrow> bool" and good :: "string \<Rightarrow> string \<Rightarrow> bool"

section \<open>Cases of the operations\<close>

lemma meta_write_Inr: "meta_write w wrap x e = (Inr y, e') \<longleftrightarrow>
    (\<exists>m. w (e_meta e) = Inr m \<and> y = x \<and> e' = e\<lparr>e_meta := m\<rparr>)"
  by (auto simp: meta_write_def split: sum.splits)

lemma meta_write_Inl: "meta_write w wrap x e = (Inl err, e') \<longleftrightarrow>
    (\<exists>err0. w (e_meta e) = Inl err0 \<and> err = wrap err0 \<and> e' = e)"
  by (auto simp: meta_write_def split: sum.splits)

lemma fire_fields [simp]:
  "e_meta (fireObjectCreatedSideEffects env b k et ow sz r ev e) = e_meta e"
  "e_backend (fireObjectCreatedSideEffects env b k et ow sz r ev e) = e_backend e"
  "e_masterKey (fireObjectCreatedSideEffects env b k et ow sz r ev e) = e_masterKey e"
  by (simp_all add: fireObjectCreatedSideEffects_def Let_def split: option.splits)

lemma fire_inv: "engine_inv sinv binv e \<Longrightarrow>
    engine_inv sinv binv (fireObjectCreatedSideEffects env b k et ow sz r ev e)"
  by (auto simp: fireObjectCreatedSideEffects_def Let_def engine_inv_def Enqueue_cap Dispatch_cap
      split: option.splits)

lemma meta_quiet_fields [simp]:
  "e_backend (meta_quiet w e) = e_backend e" "e_masterKey (meta_quiet w e) = e_masterKey e"
  "e_replication (meta_quiet w e) = e_replication e" "e_webhooks (meta_quiet w e) = e_webhooks e"
  by (simp_all add: meta_quiet_def split: sum.splits)

text \<open>
  The names of a put: the key fits the store, the version id the clock of the UUIDs draws is a
  proper one in a versioned bucket, and the backend key is canonical.
\<close>

definition put_names :: "(string \<Rightarrow> string \<Rightarrow> bool) \<Rightarrow> env \<Rightarrow> put_object_input \<Rightarrow> string \<Rightarrow> bool" where
  "put_names good env inp versioning \<longleftrightarrow>
     object_ok (pi_Bucket inp) (pi_Key inp) \<and>
     good (pi_Bucket inp) (snd (resolveVersioning env (pi_Key inp) versioning)) \<and>
     (versioning = VersioningEnabled \<longrightarrow>
        env_uuid env \<noteq> [] \<and> version_ok (pi_Bucket inp) (pi_Key inp) (env_uuid env))"

definition put_ready :: "(string \<Rightarrow> string \<Rightarrow> bool) \<Rightarrow> meta_view \<Rightarrow> env \<Rightarrow> put_object_input \<Rightarrow> bool" where
  "put_ready good w env inp \<longleftrightarrow>
     (\<forall>bkt. mv_buckets w (pi_Bucket inp) = Some bkt \<longrightarrow> put_names good env inp (br_Versioning bkt))"

lemma put_readyD: "put_ready good w env inp \<Longrightarrow> mv_buckets w (pi_Bucket inp) = Some bkt \<Longrightarrow>
    put_names good env inp (br_Versioning bkt)"
  by (simp add: put_ready_def)

text \<open>The metadata after a put: \<open>r\<close> is the stored record.\<close>

definition put_view :: "bucket_record \<Rightarrow> object_record \<Rightarrow> int64 \<Rightarrow> int64 \<Rightarrow> meta_view \<Rightarrow> meta_view" where
  "put_view bkt r dc db w =
     stats_view (or_Bucket r) dc db (put_object_view r
       (if br_Versioning bkt = VersioningEnabled
        then put_version_view (version_of r (or_VersionID r) True) (mark_view (or_Bucket r) (or_Key r) w)
        else w))"

definition delta :: "bucket_record \<Rightarrow> object_record \<Rightarrow> meta_view \<Rightarrow> int64 \<times> int64" where
  "delta bkt r w =
     (if br_Versioning bkt = VersioningEnabled then (1, or_Size r)
      else case mv_objects w (or_Bucket r) (or_Key r) of
             Some old \<Rightarrow> (0, or_Size r - or_Size old)
           | None \<Rightarrow> (1, or_Size r))"

definition names_ok :: "bucket_record \<Rightarrow> object_record \<Rightarrow> bool" where
  "names_ok bkt r \<longleftrightarrow> object_ok (or_Bucket r) (or_Key r) \<and>
     (br_Versioning bkt = VersioningEnabled \<longrightarrow> version_ok (or_Bucket r) (or_Key r) (or_VersionID r))"

lemma names_ok_nulfree: "names_ok bkt r \<Longrightarrow> nulfree (or_Bucket r)"
  by (simp add: names_ok_def object_ok_def name_ok_def)

lemma mv_put_view [simp]:
  "mv_objects (put_view bkt r dc db w) (or_Bucket r) (or_Key r) = Some r"
  "(b, k) \<noteq> (or_Bucket r, or_Key r) \<Longrightarrow> mv_objects (put_view bkt r dc db w) b k = mv_objects w b k"
  by (auto simp: put_view_def stats_view_def put_object_view_def put_version_view_def mark_view_def)

context storage_engine
begin

abbreviation "einv \<equiv> engine_inv sinv binv"
abbreviation "mview e \<equiv> view (e_meta e)"
abbreviation "dview e \<equiv> bview (e_backend e)"

lemma einvD: "einv e \<Longrightarrow> sinv (e_meta e) \<and> binv (e_backend e)"
  by (simp add: engine_inv_def)

lemma einv_meta: "einv e \<Longrightarrow> sinv m \<Longrightarrow> einv (e\<lparr>e_meta := m\<rparr>)"
  by (simp add: engine_inv_def)

lemma einv_backend: "einv e \<Longrightarrow> binv b \<Longrightarrow> einv (e\<lparr>e_backend := b\<rparr>)"
  by (simp add: engine_inv_def)

text \<open>A metadata write that the contract promises to succeed.\<close>

lemma meta_write_ok:
  fixes w x v wrap
  assumes "einv e" "wrote sinv view (w (e_meta e)) v"
  shows "\<exists>m. meta_write w wrap x e = (Inr x, e\<lparr>e_meta := m\<rparr>) \<and> einv (e\<lparr>e_meta := m\<rparr>) \<and> view m = v"
  using assms(2) by (rule wroteE) (use assms(1) in \<open>auto simp: meta_write_def einv_meta\<close>)

lemma meta_quiet_ok:
  assumes "einv e" "wrote sinv view (w (e_meta e)) v"
  shows "\<exists>m. meta_quiet w e = e\<lparr>e_meta := m\<rparr> \<and> einv (e\<lparr>e_meta := m\<rparr>) \<and> view m = v"
  using assms(2) by (rule wroteE) (use assms(1) in \<open>auto simp: meta_quiet_def einv_meta\<close>)

lemma stats_quiet:
  assumes "einv e"
  shows "\<exists>m. meta_quiet (\<lambda>m. m_UpdateBucketStats M m n dc db) e = e\<lparr>e_meta := m\<rparr> \<and>
     einv (e\<lparr>e_meta := m\<rparr>) \<and> view m = stats_view n dc db (mview e)"
proof (cases "mv_buckets (mview e) n")
  case None
  then obtain err where "m_UpdateBucketStats M (e_meta e) n dc db = Inl err"
    using update_stats_none einvD [OF assms] by blast
  moreover have "stats_view n dc db (mview e) = mview e"
    using None by (auto simp: stats_view_def fun_upd_idem)
  ultimately show ?thesis using assms
    by (intro exI [of _ "e_meta e"]) (simp add: meta_quiet_def)
next
  case (Some b)
  then show ?thesis
    using meta_quiet_ok [OF assms] update_stats [of "e_meta e" n dc db] einvD [OF assms] by simp
qed

section \<open>Putting\<close>

lemma computeStatDelta_eq:
  assumes "einv e" "names_ok bkt r"
  shows "computeStatDelta M (e_meta e) (or_Bucket r) (or_Key r) (or_Size r) (br_Versioning bkt) =
    delta bkt r (mview e)"
  using get_object [of "e_meta e" "or_Bucket r" "or_Key r"] einvD [OF assms(1)] names_ok_nulfree [OF assms(2)]
  by (cases "mv_objects (mview e) (or_Bucket r) (or_Key r)") (auto simp: computeStatDelta_def delta_def)

lemma storeVersioning_ok:
  assumes "einv e" "version_ok (or_Bucket r) (or_Key r) (or_VersionID r)"
  shows "\<exists>m. storeVersioningMetadata M (or_Bucket r) (or_Key r) (or_VersionID r) r e = (Inr (), e\<lparr>e_meta := m\<rparr>) \<and>
     einv (e\<lparr>e_meta := m\<rparr>) \<and>
     view m = put_version_view (version_of r (or_VersionID r) True) (mark_view (or_Bucket r) (or_Key r) (mview e))"
proof -
  have n: "nulfree (or_Bucket r)" "nulfree (or_Key r)" using assms(2) by (auto simp: version_ok_def name_ok_def)
  obtain m1 where m1: "meta_write (\<lambda>m. m_MarkVersionsNotLatest M m (or_Bucket r) (or_Key r))
      (Wrap ''put object: mark not latest'') () e = (Inr (), e\<lparr>e_meta := m1\<rparr>)" "einv (e\<lparr>e_meta := m1\<rparr>)"
      "view m1 = mark_view (or_Bucket r) (or_Key r) (mview e)"
    using meta_write_ok [OF assms(1), where w = "\<lambda>m. m_MarkVersionsNotLatest M m (or_Bucket r) (or_Key r)",
        OF mark_not_latest [OF conjunct1 [OF einvD [OF assms(1)]] n]] by metis
  have "wrote sinv view (putVersionRecord M r (or_VersionID r) True m1)
      (put_version_view (version_of r (or_VersionID r) True) (view m1))"
    using put_version [of m1 "version_of r (or_VersionID r) True"] assms(2) einvD [OF m1(2)]
    by (simp add: putVersionRecord_def version_of_def)
  then have "wrote sinv view (putVersionRecord M r (or_VersionID r) True (e_meta (e\<lparr>e_meta := m1\<rparr>)))
      (put_version_view (version_of r (or_VersionID r) True) (view m1))" by simp
  from meta_write_ok [OF m1(2), where w = "putVersionRecord M r (or_VersionID r) True"
      and wrap = "Wrap ''put object: store version''" and x = "()", OF this] m1 show ?thesis
    by (auto simp: storeVersioningMetadata_def)
qed

lemma put_commit_ok:
  assumes i: "einv e" and n: "names_ok bkt r"
    and r: "or_Bucket r = pi_Bucket inp" "or_Key r = pi_Key inp"
  shows "\<exists>out e'. put_commit M env inp bkt r e = (Inr out, e') \<and> einv e' \<and>
     e_backend e' = e_backend e \<and> e_masterKey e' = e_masterKey e \<and>
     mview e' = put_view bkt r (fst (delta bkt r (mview e))) (snd (delta bkt r (mview e))) (mview e) \<and>
     out = \<lparr>po_ETag = or_ETag r, po_VersionID = or_VersionID r, po_LastModified = or_LastModified r,
            po_Size = or_Size r, po_SSEAlgorithm = or_SSEAlgorithm r\<rparr>"
proof -
  let ?w = "if br_Versioning bkt = VersioningEnabled
    then put_version_view (version_of r (or_VersionID r) True) (mark_view (or_Bucket r) (or_Key r) (mview e))
    else mview e"
  obtain dc db where d: "delta bkt r (mview e) = (dc, db)" by force
  then have cd: "computeStatDelta M (e_meta e) (pi_Bucket inp) (pi_Key inp) (or_Size r) (br_Versioning bkt) = (dc, db)"
    using computeStatDelta_eq [OF i n] r by simp
  have "\<exists>m. (if br_Versioning bkt = VersioningEnabled
      then storeVersioningMetadata M (pi_Bucket inp) (pi_Key inp) (or_VersionID r) r e else (Inr (), e)) =
      (Inr (), e\<lparr>e_meta := m\<rparr>) \<and> einv (e\<lparr>e_meta := m\<rparr>) \<and> view m = ?w"
  proof (cases "br_Versioning bkt = VersioningEnabled")
    case True
    with storeVersioning_ok [OF i, of r] n r show ?thesis by (auto simp: names_ok_def)
  next
    case False
    with i show ?thesis by (intro exI [of _ "e_meta e"]) simp
  qed
  then obtain m1 where m1: "(if br_Versioning bkt = VersioningEnabled
      then storeVersioningMetadata M (pi_Bucket inp) (pi_Key inp) (or_VersionID r) r e else (Inr (), e)) =
      (Inr (), e\<lparr>e_meta := m1\<rparr>)" "einv (e\<lparr>e_meta := m1\<rparr>)" "view m1 = ?w" by blast
  obtain m2 where m2: "meta_write (\<lambda>m. m_PutObject M m r) (Wrap ''put object: store metadata'') () (e\<lparr>e_meta := m1\<rparr>) =
      (Inr (), e\<lparr>e_meta := m2\<rparr>)" "einv (e\<lparr>e_meta := m2\<rparr>)" "view m2 = put_object_view r ?w"
  proof -
    have "sinv (e_meta (e\<lparr>e_meta := m1\<rparr>))" "object_ok (or_Bucket r) (or_Key r)"
      using einvD [OF m1(2)] n by (auto simp: names_ok_def)
    from meta_write_ok [OF m1(2), where w = "\<lambda>m. m_PutObject M m r" and wrap = "Wrap ''put object: store metadata''"
        and x = "()", OF put_object [OF this]] m1(3) that
    show thesis by auto
  qed
  obtain m3 where m3: "meta_quiet (\<lambda>m. m_UpdateBucketStats M m (pi_Bucket inp) dc db) (e\<lparr>e_meta := m2\<rparr>) =
      e\<lparr>e_meta := m3\<rparr>" "einv (e\<lparr>e_meta := m3\<rparr>)" "view m3 = stats_view (pi_Bucket inp) dc db (view m2)"
    using stats_quiet [OF m2(2), of "pi_Bucket inp" dc db] by auto
  show ?thesis
    using cd m1(1) m2(1) m3 m2(3) d r
    by (simp add: put_commit_def put_view_def fire_inv)
qed


lemma put_names_ok:
  assumes "put_names good env inp (br_Versioning bkt)"
    and "(vid, bk) = resolveVersioning env (pi_Key inp) (br_Versioning bkt)"
  shows "names_ok bkt (put_record P env inp bkt vid alg ek st n)" "good (pi_Bucket inp) bk"
  using assms by (auto simp: put_names_def names_ok_def resolveVersioning_def split: if_splits)

text \<open>A put that returned a result did all of its work.\<close>

lemma PutObject_Inr:
  assumes i: "einv e" and n: "put_ready good (mview e) env inp"
    and p: "PutObject M B P env inp e = (Inr out, e')"
  shows "\<exists>bkt body alg ek vid bk r.
    mv_buckets (mview e) (pi_Bucket inp) = Some bkt \<and> checkQuota bkt (pi_Size inp) = None \<and>
    applySSE P (e_masterKey e) (env_rand env) inp (br_SSEAlgorithm bkt) = Inr (body, alg, ek) \<and>
    rd_err body = None \<and> (vid, bk) = resolveVersioning env (pi_Key inp) (br_Versioning bkt) \<and>
    r = put_record P env inp bkt vid alg ek (rd_data body) (byte_count (rd_data body)) \<and>
    einv e' \<and> e_masterKey e' = e_masterKey e \<and>
    dview e' = (dview e)(pi_Bucket inp := (dview e (pi_Bucket inp))(bk \<mapsto> rd_data body)) \<and>
    mview e' = put_view bkt r (fst (delta bkt r (mview e))) (snd (delta bkt r (mview e))) (mview e) \<and>
    names_ok bkt r \<and>
    out = \<lparr>po_ETag = or_ETag r, po_VersionID = vid, po_LastModified = env_now env,
            po_Size = or_Size r, po_SSEAlgorithm = alg\<rparr>"
proof -
  from p obtain bkt where g: "m_GetBucket M (e_meta e) (pi_Bucket inp) = Inr bkt"
    by (auto simp: PutObject_def split: sum.splits)
  have b: "mv_buckets (mview e) (pi_Bucket inp) = Some bkt" using get_bucketD g einvD [OF i] by blast
  obtain vid bk where v: "resolveVersioning env (pi_Key inp) (br_Versioning bkt) = (vid, bk)" by force
  from p g have q: "checkQuota bkt (pi_Size inp) = None" by (auto simp: PutObject_def split: option.splits)
  from p g q obtain body alg ek where
    s: "applySSE P (e_masterKey e) (env_rand env) inp (br_SSEAlgorithm bkt) = Inr (body, alg, ek)"
    by (auto simp: PutObject_def split: sum.splits)
  obtain res b1 where w: "b_Write B (e_backend e) (pi_Bucket inp) bk body (pi_Size inp) = (res, b1)" by force
  from p g q s v w obtain n1 where n1: "res = Inr n1" by (cases res) (auto simp: PutObject_def)
  let ?r = "put_record P env inp bkt vid alg ek (rd_data body) n1" and ?e1 = "e\<lparr>e_backend := b1\<rparr>"
  note nm = put_names_ok [OF put_readyD [OF n b] v [symmetric]]
  have bi: "binv (e_backend e)" using einvD [OF i] by simp
  note wo = write_ok [OF bi nm(2) w [unfolded n1]] and wi = write_inv [OF bi nm(2) w]
  have c: "put_commit M env inp bkt ?r ?e1 = (Inr out, e')"
    using p g q s v w n1 by (simp add: PutObject_def)
  have e1: "einv ?e1" and nr: "names_ok bkt ?r" using i wi nm(1) by (simp_all add: einv_backend)
  have "or_Bucket ?r = pi_Bucket inp" "or_Key ?r = pi_Key inp" by simp_all
  from put_commit_ok [OF e1 nr this, of env] c have
    k: "einv e'" "e_backend e' = b1" "e_masterKey e' = e_masterKey e"
      "mview e' = put_view bkt ?r (fst (delta bkt ?r (mview e))) (snd (delta bkt ?r (mview e))) (mview e)"
      "out = \<lparr>po_ETag = or_ETag ?r, po_VersionID = vid, po_LastModified = env_now env,
            po_Size = or_Size ?r, po_SSEAlgorithm = alg\<rparr>" by auto
  have n1': "n1 = byte_count (rd_data body)" using wo by simp
  show ?thesis
    using b q s wo v k nr unfolding n1'
    by (intro exI [of _ bkt] exI [of _ body] exI [of _ alg] exI [of _ ek] exI [of _ vid] exI [of _ bk]
        exI [of _ "put_record P env inp bkt vid alg ek (rd_data body) (byte_count (rd_data body))"]) simp
qed

text \<open>A put that returned an error changed no record and no stored byte.\<close>

lemma PutObject_Inl:
  assumes i: "einv e" and n: "put_ready good (mview e) env inp"
    and p: "PutObject M B P env inp e = (Inl err, e')"
  shows "einv e' \<and> mview e' = mview e \<and> dview e' = dview e \<and> e_masterKey e' = e_masterKey e"
proof (cases "e' = e")
  case True
  with i show ?thesis by simp
next
  case False
  with p obtain bkt where g: "m_GetBucket M (e_meta e) (pi_Bucket inp) = Inr bkt"
    and q: "checkQuota bkt (pi_Size inp) = None"
    by (auto simp: PutObject_def split: sum.splits option.splits)
  have b: "mv_buckets (mview e) (pi_Bucket inp) = Some bkt" using get_bucketD g einvD [OF i] by blast
  obtain vid bk where v: "resolveVersioning env (pi_Key inp) (br_Versioning bkt) = (vid, bk)" by force
  from p g q False obtain body alg ek where
    s: "applySSE P (e_masterKey e) (env_rand env) inp (br_SSEAlgorithm bkt) = Inr (body, alg, ek)"
    by (auto simp: PutObject_def split: sum.splits)
  obtain res b1 where w: "b_Write B (e_backend e) (pi_Bucket inp) bk body (pi_Size inp) = (res, b1)" by force
  note nm = put_names_ok [OF put_readyD [OF n b] v [symmetric]]
  have bi: "binv (e_backend e)" using einvD [OF i] by simp
  note wi = write_inv [OF bi nm(2) w]
  show ?thesis
  proof (cases res)
    case (Inl err0)
    with p g q s v w have "e' = e\<lparr>e_backend := b1\<rparr>" by (auto simp: PutObject_def)
    with i wi write_err [OF bi nm(2) w [unfolded Inl]] show ?thesis by (simp add: einv_backend)
  next
    case (Inr n1)
    have "put_commit M env inp bkt (put_record P env inp bkt vid alg ek (rd_data body) n1) (e\<lparr>e_backend := b1\<rparr>) = (Inl err, e')"
      using p g q s v w Inr by (simp add: PutObject_def)
    moreover have "einv (e\<lparr>e_backend := b1\<rparr>)" using i wi by (simp add: einv_backend)
    then have "\<exists>out e''. put_commit M env inp bkt (put_record P env inp bkt vid alg ek (rd_data body) n1)
        (e\<lparr>e_backend := b1\<rparr>) = (Inr out, e'')"
      using put_commit_ok [where r = "put_record P env inp bkt vid alg ek (rd_data body) n1", OF _ nm(1)] by fastforce
    ultimately show ?thesis by simp
  qed
qed

text \<open>A put succeeds when quota and encryption let it pass and the backend takes the body.\<close>

lemma PutObject_progress:
  assumes i: "einv e" and n: "put_ready good (mview e) env inp"
    and b: "mv_buckets (mview e) (pi_Bucket inp) = Some bkt" and q: "checkQuota bkt (pi_Size inp) = None"
    and s: "applySSE P (e_masterKey e) (env_rand env) inp (br_SSEAlgorithm bkt) = Inr (body, alg, ek)"
    and w: "fst (b_Write B (e_backend e) (pi_Bucket inp)
      (snd (resolveVersioning env (pi_Key inp) (br_Versioning bkt))) body (pi_Size inp)) = Inr m"
  shows "\<exists>out e'. PutObject M B P env inp e = (Inr out, e')"
proof -
  obtain vid bk where v: "resolveVersioning env (pi_Key inp) (br_Versioning bkt) = (vid, bk)" by force
  obtain b1 where w1: "b_Write B (e_backend e) (pi_Bucket inp) bk body (pi_Size inp) = (Inr m, b1)"
    using w v by (metis prod.collapse snd_conv)
  note nm = put_names_ok [OF put_readyD [OF n b] v [symmetric]]
  have "einv (e\<lparr>e_backend := b1\<rparr>)" using i write_inv [OF conjunct2 [OF einvD [OF i]] nm(2) w1] by (simp add: einv_backend)
  then have "\<exists>out e'. put_commit M env inp bkt (put_record P env inp bkt vid alg ek (rd_data body) m)
      (e\<lparr>e_backend := b1\<rparr>) = (Inr out, e')"
    using put_commit_ok [where r = "put_record P env inp bkt vid alg ek (rd_data body) m", OF _ nm(1)] by fastforce
  then show ?thesis
    using get_bucket_Some [OF conjunct1 [OF einvD [OF i]] b] q s v w1 by (simp add: PutObject_def)
qed

section \<open>Getting what was put\<close>

lemma GetObject_plain:
  assumes i: "einv e" and b: "nulfree b" and r: "mv_objects (mview e) b k = Some r"
    and g: "good b (record_backend_key k r)" and d: "dview e b (record_backend_key k r) = Some d"
    and s: "or_SSEAlgorithm r \<noteq> ''AES256'' \<or> or_SSEEncryptedKey r = [] \<or> e_masterKey e = None"
  shows "\<exists>e'. GetObject M B P b k [] e = (Inr \<lparr>go_Record = r, go_Body = reader_of d\<rparr>, e')"
proof -
  have m: "m_GetObject M (e_meta e) b k = Inr r" using get_object_Some einvD [OF i] b r by blast
  have "fst (b_Read B (e_backend e) b (record_backend_key k r)) = reader_of d"
    using read_Some einvD [OF i] g d by blast
  then obtain b' where "b_Read B (e_backend e) b (record_backend_key k r) = (reader_of d, b')"
    by (metis prod.collapse)
  with m s show ?thesis by (auto simp: GetObject_def Let_def)
qed

lemma GetObject_sse:
  assumes i: "einv e" and b: "nulfree b" and r: "mv_objects (mview e) b k = Some r"
    and g: "good b (record_backend_key k r)" and d: "dview e b (record_backend_key k r) = Some d"
    and s: "or_SSEAlgorithm r = ''AES256''" "or_SSEEncryptedKey r \<noteq> []" "e_masterKey e \<noteq> None"
    and dk: "DecryptKey P (e_masterKey e) (or_SSEEncryptedKey r) = Inr ok"
    and dr: "NewDecryptingReader P (reader_of d) ok = Inr rd"
  shows "\<exists>e'. GetObject M B P b k [] e = (Inr \<lparr>go_Record = r, go_Body = rd\<rparr>, e')"
proof -
  have m: "m_GetObject M (e_meta e) b k = Inr r" using get_object_Some einvD [OF i] b r by blast
  have "fst (b_Read B (e_backend e) b (record_backend_key k r)) = reader_of d"
    using read_Some einvD [OF i] g d by blast
  then obtain b' where "b_Read B (e_backend e) b (record_backend_key k r) = (reader_of d, b')"
    by (metis prod.collapse)
  with m s dk dr show ?thesis by (auto simp: GetObject_def Let_def)
qed

lemma put_get:
  assumes i: "einv e" and n: "put_ready good (mview e) env inp"
    and p: "PutObject M B P env inp e = (Inr out, e')"
    and a: "aead_ok P" "random_ok (env_rand env)" "\<forall>mk. e_masterKey e = Some mk \<longrightarrow> length mk = 32"
  shows "\<exists>r e''. GetObject M B P (pi_Bucket inp) (pi_Key inp) [] e' =
      (Inr \<lparr>go_Record = r, go_Body = reader_of (rd_data (pi_Body inp))\<rparr>, e'') \<and>
      or_ETag r = po_ETag out \<and> or_VersionID r = po_VersionID out \<and> or_Size r = po_Size out \<and>
      or_UserMeta r = pi_UserMeta inp \<and> or_Owner r = pi_Owner inp"
proof -
  obtain bkt body alg ek vid bk r where
    s: "applySSE P (e_masterKey e) (env_rand env) inp (br_SSEAlgorithm bkt) = Inr (body, alg, ek)"
    and be: "rd_err body = None" and v: "(vid, bk) = resolveVersioning env (pi_Key inp) (br_Versioning bkt)"
    and r: "r = put_record P env inp bkt vid alg ek (rd_data body) (byte_count (rd_data body))"
    and e': "einv e'" "e_masterKey e' = e_masterKey e"
      "dview e' = (dview e)(pi_Bucket inp := (dview e (pi_Bucket inp))(bk \<mapsto> rd_data body))"
      "mview e' = put_view bkt r (fst (delta bkt r (mview e))) (snd (delta bkt r (mview e))) (mview e)"
    and nm: "names_ok bkt r" and bkt: "mv_buckets (mview e) (pi_Bucket inp) = Some bkt"
    and out: "out = \<lparr>po_ETag = or_ETag r, po_VersionID = vid, po_LastModified = env_now env,
            po_Size = or_Size r, po_SSEAlgorithm = alg\<rparr>"
    using PutObject_Inr [OF i n p] by blast
  have rr: "or_Bucket r = pi_Bucket inp" "or_Key r = pi_Key inp" "or_VersionID r = vid"
    "or_SSEAlgorithm r = alg" "or_SSEEncryptedKey r = ek" using r by simp_all
  have o: "mv_objects (mview e') (pi_Bucket inp) (pi_Key inp) = Some r"
    using e'(4) rr mv_put_view(1) [of bkt r] by simp
  have nf: "nulfree (pi_Bucket inp)" using names_ok_nulfree [OF nm] rr by simp
  have bk: "record_backend_key (pi_Key inp) r = bk"
    using v rr put_readyD [OF n bkt] by (auto simp: record_backend_key_def resolveVersioning_def put_names_def split: if_splits)
  have g: "good (pi_Bucket inp) (record_backend_key (pi_Key inp) r)"
    using put_names_ok(2) [OF put_readyD [OF n bkt] v] bk by simp
  have d: "dview e' (pi_Bucket inp) (record_backend_key (pi_Key inp) r) = Some (rd_data body)"
    using e'(3) bk by simp
  have rest: "or_ETag r = po_ETag out \<and> or_VersionID r = po_VersionID out \<and> or_Size r = po_Size out \<and>
      or_UserMeta r = pi_UserMeta inp \<and> or_Owner r = pi_Owner inp"
    using out rr r by (simp add: put_record_def)
  show ?thesis
  proof (cases "alg = ''AES256'' \<and> e_masterKey e \<noteq> None")
    case False
    then have "body = pi_Body inp" "alg \<noteq> ''AES256'' \<or> e_masterKey e = None"
      using s by (auto simp: applySSE_def Let_def split: if_splits sum.splits)
    then obtain e'' where "GetObject M B P (pi_Bucket inp) (pi_Key inp) [] e' =
        (Inr \<lparr>go_Record = r, go_Body = reader_of (rd_data (pi_Body inp))\<rparr>, e'')"
      using GetObject_plain [OF e'(1) nf o g d, of P] rr e'(2) by auto
    with rest show ?thesis by blast
  next
    case True
    then obtain mk where mk: "e_masterKey e = Some mk" "length mk = 32" using a(3) by auto
    let ?ok = "GenerateObjectKey (env_rand env) 0"
    have ln: "length (env_rand env i gcm_nonce_size) = 12" "length ?ok = 32" for i
      using a(2) by (simp_all add: random_ok_def GenerateObjectKey_def sseKeySize_def gcm_nonce_size_def)
    from s True have ek: "EncryptKey P (Some mk) (env_rand env 1 gcm_nonce_size) ?ok = Inr ek"
      "body = encrypt_stream P ?ok (env_rand env 2 gcm_nonce_size) (pi_Body inp)"
      using mk by (auto simp: applySSE_def Let_def split: if_splits sum.splits)
    have "ek \<noteq> []" using ek(1) ln(1) [of 1] mk(2) by (auto simp: EncryptKey_def)
    moreover have "DecryptKey P (e_masterKey e') (or_SSEEncryptedKey r) = Inr ?ok"
      using DecryptKey_EncryptKey [OF a(1) ln(1) ek(1)] mk e'(2) rr by simp
    moreover have "rd_err (pi_Body inp) = None" using be ek(2) ln(2) by (simp add: encrypt_stream_err)
    then have "NewDecryptingReader P (reader_of (rd_data body)) ?ok = Inr (reader_of (rd_data (pi_Body inp)))"
      using decrypt_encrypt_stream [OF a(1) ln(1) ln(2)] ek(2) be
      by (metis (no_types, lifting) encrypt_stream_def ln(2) new_gcm_32 option.simps(4) reader_of_simps(1))
    ultimately obtain e'' where "GetObject M B P (pi_Bucket inp) (pi_Key inp) [] e' =
        (Inr \<lparr>go_Record = r, go_Body = reader_of (rd_data (pi_Body inp))\<rparr>, e'')"
      using GetObject_sse [OF e'(1) nf o g d, of P ?ok] rr True e'(2) by auto
    with rest show ?thesis by blast
  qed
qed

end

end
