(* ===== verification/Engine_Objects.thy ===== *)
theory Engine_Objects
  imports Engine_Correct
begin

text \<open>
  More of the engine over the two contracts: what a put leaves alone, the quota, deletion, and the
  agreement between the object records and the stored bytes.
\<close>

section \<open>Arithmetic of the statistics\<close>

lemma sint_int64_diff:
  assumes "- (2 ^ 63) \<le> sint a - sint b" and "sint a - sint b < 2 ^ 63"
  shows "sint (a - b :: int64) = sint a - sint b"
  using assms by (simp add: sint_word_ariths signed_take_bit_int_eq_self)

lemma checkQuota_None_size:
  assumes "checkQuota bkt n = None" "br_Quota bkt = Some q" "0 < sint (MaxSizeBytes q)"
  shows "sint (br_TotalBytes bkt + n) \<le> sint (MaxSizeBytes q)"
  using assms by (auto simp: checkQuota_def word_sless_alt split: if_splits)

lemma checkQuota_None_count:
  assumes "checkQuota bkt n = None" "br_Quota bkt = Some q" "0 < sint (MaxObjects q)"
  shows "sint (br_ObjectCount bkt + 1) \<le> sint (MaxObjects q)"
  using assms by (auto simp: checkQuota_def word_sless_alt split: if_splits)

text \<open>
  The record that describes an object agrees with the bytes the backend holds for it.
\<close>

definition object_stored :: "(string \<Rightarrow> string \<Rightarrow> bool) \<Rightarrow> (string \<Rightarrow> string \<Rightarrow> bytes option) \<Rightarrow> string \<Rightarrow> string \<Rightarrow>
    object_record \<Rightarrow> bool" where
  "object_stored good bv b k r \<longleftrightarrow> good b (record_backend_key k r) \<and>
     (\<exists>d. bv b (record_backend_key k r) = Some d \<and> or_Size r = byte_count d)"

definition all_stored :: "(string \<Rightarrow> string \<Rightarrow> bool) \<Rightarrow> (string \<Rightarrow> string \<Rightarrow> bytes option) \<Rightarrow> meta_view \<Rightarrow> bool" where
  "all_stored good bv w \<longleftrightarrow> (\<forall>b k r. mv_objects w b k = Some r \<longrightarrow> object_stored good bv b k r)"

text \<open>No other object of the bucket lives under this backend key.\<close>

definition backend_key_free :: "meta_view \<Rightarrow> string \<Rightarrow> string \<Rightarrow> string \<Rightarrow> bool" where
  "backend_key_free w b k bk \<longleftrightarrow>
     (\<forall>k' r'. mv_objects w b k' = Some r' \<longrightarrow> k' \<noteq> k \<longrightarrow> record_backend_key k' r' \<noteq> bk)"

lemma all_storedD: "all_stored good bv w \<Longrightarrow> mv_objects w b k = Some r \<Longrightarrow> object_stored good bv b k r"
  by (simp add: all_stored_def)

lemma stats_view_objects [simp]: "mv_objects (stats_view b dc db w) = mv_objects w"
  by (simp add: stats_view_def)

lemma del_object_view_objects:
  "mv_objects (del_object_view b k w) b' k' = (if b' = b \<and> k' = k then None else mv_objects w b' k')"
  by (simp add: del_object_view_def)

lemma del_object_view_buckets [simp]: "mv_buckets (del_object_view b k w) = mv_buckets w"
  by (simp add: del_object_view_def)

lemma put_view_objects:
  "mv_objects (put_view bkt r dc db w) b k = (if (b, k) = (or_Bucket r, or_Key r) then Some r else mv_objects w b k)"
  by (simp add: put_view_def put_object_view_def put_version_view_def mark_view_def)

lemma put_view_buckets:
  "mv_buckets (put_view bkt r dc db w) b =
     (if b = or_Bucket r then map_option (add_stats dc db) (mv_buckets w b) else mv_buckets w b)"
  by (simp add: put_view_def stats_view_def put_object_view_def put_version_view_def mark_view_def)

lemma put_view_versions:
  "mv_versions (put_view bkt r dc db w) =
     (if br_Versioning bkt = VersioningEnabled
      then mv_versions (put_version_view (version_of r (or_VersionID r) True) (mark_view (or_Bucket r) (or_Key r) w))
      else mv_versions w)"
  by (simp add: put_view_def stats_view_def put_object_view_def)

context storage_engine
begin

section \<open>What a put leaves alone\<close>

lemma put_frame:
  assumes i: "einv e" and n: "put_ready good (mview e) env inp"
    and p: "PutObject M B P env inp e = (res, e')"
    and o: "(b, k) \<noteq> (pi_Bucket inp, pi_Key inp)"
  shows "mv_objects (mview e') b k = mv_objects (mview e) b k"
proof (cases res)
  case (Inl err)
  with PutObject_Inl [OF i n, of P err e'] p show ?thesis by simp
next
  case (Inr out)
  from PutObject_Inr [OF i n p [unfolded Inr]] obtain bkt and r :: object_record where
    "mview e' = put_view bkt r (fst (delta bkt r (mview e))) (snd (delta bkt r (mview e))) (mview e)"
    "or_Bucket r = pi_Bucket inp" "or_Key r = pi_Key inp" by (metis put_record_fields(1,2))
  with o show ?thesis by (auto simp: put_view_objects)
qed

lemma put_bytes_frame:
  assumes i: "einv e" and n: "put_ready good (mview e) env inp"
    and p: "PutObject M B P env inp e = (res, e')"
    and o: "\<And>bkt. mv_buckets (mview e) (pi_Bucket inp) = Some bkt \<Longrightarrow>
      (b, x) \<noteq> (pi_Bucket inp, snd (resolveVersioning env (pi_Key inp) (br_Versioning bkt)))"
  shows "dview e' b x = dview e b x"
proof (cases res)
  case (Inl err)
  with PutObject_Inl [OF i n, of P err e'] p show ?thesis by simp
next
  case (Inr out)
  from PutObject_Inr [OF i n p [unfolded Inr]] obtain bkt vid bk and body :: reader where
    b: "mv_buckets (mview e) (pi_Bucket inp) = Some bkt"
    "(vid, bk) = resolveVersioning env (pi_Key inp) (br_Versioning bkt)"
    "dview e' = (dview e)(pi_Bucket inp := (dview e (pi_Bucket inp))(bk \<mapsto> rd_data body))" by blast
  from o [OF b(1)] b(2) have "(b, x) \<noteq> (pi_Bucket inp, bk)" by (metis snd_conv)
  with b(3) show ?thesis by auto
qed

lemma put_missing_bucket:
  assumes i: "einv e" and b: "mv_buckets (mview e) (pi_Bucket inp) = None"
  shows "PutObject M B P env inp e = (Inl (BucketNotFoundError (pi_Bucket inp)), e)"
  using get_bucket_None [of "e_meta e" "pi_Bucket inp"] einvD [OF i] b by (auto simp: PutObject_def)

text \<open>The records and the stored bytes keep agreeing.\<close>

lemma put_keeps_stored:
  assumes i: "einv e" and n: "put_ready good (mview e) env inp"
    and f: "\<forall>bkt. mv_buckets (mview e) (pi_Bucket inp) = Some bkt \<longrightarrow>
      backend_key_free (mview e) (pi_Bucket inp) (pi_Key inp)
        (snd (resolveVersioning env (pi_Key inp) (br_Versioning bkt)))"
    and s: "all_stored good (dview e) (mview e)"
    and p: "PutObject M B P env inp e = (res, e')"
  shows "all_stored good (dview e') (mview e')"
proof (cases res)
  case (Inl err)
  with PutObject_Inl [OF i n p [unfolded Inl]] s show ?thesis by simp
next
  case (Inr out)
  from PutObject_Inr [OF i n p [unfolded Inr]] obtain bkt vid bk alg ek and r :: object_record and body :: reader where
    b: "mv_buckets (mview e) (pi_Bucket inp) = Some bkt"
    "(vid, bk) = resolveVersioning env (pi_Key inp) (br_Versioning bkt)"
    "r = put_record P env inp bkt vid alg ek (rd_data body) (byte_count (rd_data body))"
    "dview e' = (dview e)(pi_Bucket inp := (dview e (pi_Bucket inp))(bk \<mapsto> rd_data body))"
    "mview e' = put_view bkt r (fst (delta bkt r (mview e))) (snd (delta bkt r (mview e))) (mview e)" by blast
  have r: "or_Bucket r = pi_Bucket inp" "or_Key r = pi_Key inp" "or_VersionID r = vid"
    "or_Size r = byte_count (rd_data body)" using b(3) by simp_all
  have rk: "record_backend_key (pi_Key inp) r = bk"
    using b(2) r put_readyD [OF n b(1)] by (auto simp: record_backend_key_def resolveVersioning_def put_names_def split: if_splits)
  have free: "backend_key_free (mview e) (pi_Bucket inp) (pi_Key inp) bk"
    using f b(1,2) by (metis snd_conv)
  show ?thesis unfolding all_stored_def
  proof (intro allI impI)
    fix b' k' r'
    assume o: "mv_objects (mview e') b' k' = Some r'"
    show "object_stored good (dview e') b' k' r'"
    proof (cases "(b', k') = (pi_Bucket inp, pi_Key inp)")
      case True
      with o b(5) r have "r' = r" by (simp add: put_view_objects)
      with True rk r b(4) put_names_ok(2) [OF put_readyD [OF n b(1)] b(2)] show ?thesis by (auto simp: object_stored_def)
    next
      case False
      with o b(5) r have old: "mv_objects (mview e) b' k' = Some r'" by (auto simp: put_view_objects split: if_splits)
      from all_storedD [OF s old] have st: "object_stored good (dview e) b' k' r'" .
      moreover have "(b', record_backend_key k' r') \<noteq> (pi_Bucket inp, bk)"
        using free old False by (auto simp: backend_key_free_def)
      then have "dview e' b' (record_backend_key k' r') = dview e b' (record_backend_key k' r')"
        using b(4) by auto
      ultimately show ?thesis by (simp add: object_stored_def)
    qed
  qed
qed

text \<open>Reading depends on the record and the file only.\<close>

lemma GetObject_same:
  assumes i: "einv e" "einv e'" and b: "nulfree b" and mk: "e_masterKey e' = e_masterKey e"
    and o: "mv_objects (mview e') b k = mv_objects (mview e) b k"
    and d: "\<And>r. mv_objects (mview e) b k = Some r \<Longrightarrow> good b (record_backend_key k r) \<and>
      (\<exists>d. dview e b (record_backend_key k r) = Some d \<and> dview e' b (record_backend_key k r) = Some d)"
  shows "fst (GetObject M B P b k [] e') = fst (GetObject M B P b k [] e)"
proof (cases "mv_objects (mview e) b k")
  case None
  with o get_object [of "e_meta e" b k] get_object [of "e_meta e'" b k] einvD [OF i(1)] einvD [OF i(2)] b
  show ?thesis by (auto simp: GetObject_def)
next
  case (Some r)
  from d [OF Some] obtain x where x: "good b (record_backend_key k r)" "dview e b (record_backend_key k r) = Some x"
    "dview e' b (record_backend_key k r) = Some x" by blast
  have m: "m_GetObject M (e_meta e) b k = Inr r" "m_GetObject M (e_meta e') b k = Inr r"
    using get_object_Some einvD [OF i(1)] einvD [OF i(2)] b Some o by auto
  have "fst (b_Read B (e_backend e) b (record_backend_key k r)) = reader_of x"
    "fst (b_Read B (e_backend e') b (record_backend_key k r)) = reader_of x"
    using read_Some einvD [OF i(1)] einvD [OF i(2)] x by blast+
  then obtain s s' where "b_Read B (e_backend e) b (record_backend_key k r) = (reader_of x, s)"
    "b_Read B (e_backend e') b (record_backend_key k r) = (reader_of x, s')" by (metis prod.collapse)
  with m mk show ?thesis by (auto simp: GetObject_def Let_def split: sum.splits)
qed

lemma put_get_other:
  assumes i: "einv e" and n: "put_ready good (mview e) env inp"
    and f: "\<forall>bkt. mv_buckets (mview e) (pi_Bucket inp) = Some bkt \<longrightarrow>
      backend_key_free (mview e) (pi_Bucket inp) (pi_Key inp)
        (snd (resolveVersioning env (pi_Key inp) (br_Versioning bkt)))"
    and s: "all_stored good (dview e) (mview e)" and b: "nulfree b"
    and ne: "(b, k) \<noteq> (pi_Bucket inp, pi_Key inp)"
    and p: "PutObject M B P env inp e = (res, e')"
  shows "fst (GetObject M B P b k [] e') = fst (GetObject M B P b k [] e)"
proof (rule GetObject_same [OF i _ b])
  have "einv e' \<and> e_masterKey e' = e_masterKey e"
    using PutObject_Inl [OF i n, of P] PutObject_Inr [OF i n, of P] p by (cases res) blast+
  then show "einv e'" "e_masterKey e' = e_masterKey e" by blast+
  show "mv_objects (mview e') b k = mv_objects (mview e) b k" by (rule put_frame [OF i n p ne])
  fix r
  assume r: "mv_objects (mview e) b k = Some r"
  from all_storedD [OF s r] have st: "good b (record_backend_key k r)" "\<exists>d. dview e b (record_backend_key k r) = Some d"
    by (auto simp: object_stored_def)
  have "dview e' b (record_backend_key k r) = dview e b (record_backend_key k r)"
    by (rule put_bytes_frame [OF i n p]) (use f r ne in \<open>auto simp: backend_key_free_def\<close>)
  with st show "good b (record_backend_key k r) \<and>
      (\<exists>d. dview e b (record_backend_key k r) = Some d \<and> dview e' b (record_backend_key k r) = Some d)" by auto
qed

section \<open>The quota\<close>

lemma put_quota:
  assumes i: "einv e" and n: "put_ready good (mview e) env inp"
    and p: "PutObject M B P env inp e = (Inr out, e')"
    and b: "mv_buckets (mview e) (pi_Bucket inp) = Some bkt" "br_Quota bkt = Some q"
    and mk: "e_masterKey e = None"
    and sz: "pi_Size inp = byte_count (rd_data (pi_Body inp))" "0 \<le> sint (pi_Size inp)"
    and t: "0 \<le> sint (br_TotalBytes bkt)" "sint (br_TotalBytes bkt) + sint (pi_Size inp) < 2 ^ 63"
    and old: "\<And>r. mv_objects (mview e) (pi_Bucket inp) (pi_Key inp) = Some r \<Longrightarrow> 0 \<le> sint (or_Size r)"
  shows "\<exists>bkt'. mv_buckets (mview e') (pi_Bucket inp) = Some bkt' \<and> br_Quota bkt' = Some q \<and>
     (0 < sint (MaxSizeBytes q) \<longrightarrow> sint (br_TotalBytes bkt') \<le> sint (MaxSizeBytes q))"
proof -
  from PutObject_Inr [OF i n p] b(1) obtain vid bk alg ek and r :: object_record and body :: reader where
    q: "checkQuota bkt (pi_Size inp) = None"
    and s: "applySSE P (e_masterKey e) (env_rand env) inp (br_SSEAlgorithm bkt) = Inr (body, alg, ek)"
    and r: "r = put_record P env inp bkt vid alg ek (rd_data body) (byte_count (rd_data body))"
    and v: "mview e' = put_view bkt r (fst (delta bkt r (mview e))) (snd (delta bkt r (mview e))) (mview e)"
    by (auto simp: b(1))
  from s mk have "body = pi_Body inp" by (auto simp: applySSE_def Let_def)
  then have rf: "or_Bucket r = pi_Bucket inp" "or_Key r = pi_Key inp" "or_Size r = pi_Size inp"
    using r sz by simp_all
  let ?T = "br_TotalBytes bkt" and ?n = "pi_Size inp"
  have tn: "sint (?T + ?n) = sint ?T + sint ?n" by (rule sint_int64_add) (use t sz in auto)
  have le: "sint (?T + snd (delta bkt r (mview e))) \<le> sint (?T + ?n)"
  proof (cases "br_Versioning bkt \<noteq> VersioningEnabled \<and> mv_objects (mview e) (pi_Bucket inp) (pi_Key inp) \<noteq> None")
    case True
    then obtain q0 :: object_record where q0: "mv_objects (mview e) (pi_Bucket inp) (pi_Key inp) = Some q0" by auto
    with True rf have "snd (delta bkt r (mview e)) = ?n - or_Size q0" by (simp add: delta_def)
    moreover have "?T + (?n - or_Size q0) = (?T + ?n) - or_Size q0" by simp
    moreover have "sint ((?T + ?n) - or_Size q0) = sint (?T + ?n) - sint (or_Size q0)"
      by (rule sint_int64_diff) (use tn t sz old [OF q0] sint_int64_range [of "or_Size q0"] in auto)
    ultimately show ?thesis using old [OF q0] by (simp add: add_diff_eq)
  next
    case False
    with rf have "snd (delta bkt r (mview e)) = ?n" by (auto simp: delta_def)
    then show ?thesis by simp
  qed
  have "0 < sint (MaxSizeBytes q) \<Longrightarrow> sint (?T + ?n) \<le> sint (MaxSizeBytes q)"
    using checkQuota_None_size [OF q b(2)] by simp
  with le have le': "0 < sint (MaxSizeBytes q) \<Longrightarrow> sint (?T + snd (delta bkt r (mview e))) \<le> sint (MaxSizeBytes q)"
    by linarith
  show ?thesis using v rf b le' by (simp add: put_view_buckets add_stats_def)
qed

end

end
