(* ===== verification/Engine_Delete.thy ===== *)
theory Engine_Delete
  imports Engine_Objects
begin

text \<open>
  Deletion and versions over the two contracts: what \<open>DeleteObject\<close> removes and what it keeps, and
  that the versions of an object stay readable while new ones are written.
\<close>

section \<open>The view after a deletion\<close>

definition marker_record :: "env \<Rightarrow> delete_object_input \<Rightarrow> version_record" where
  "marker_record env inp = \<lparr>
     vr_Bucket = di_Bucket inp, vr_Key = di_Key inp, vr_VersionID = env_uuid env, vr_IsDeleteMarker = True,
     vr_IsLatest = True, vr_ETag = [], vr_Size = 0, vr_LastModified = env_now env,
     vr_Owner = di_Owner inp, vr_StorageClass = []\<rparr>"

text \<open>Every version that is not a delete marker has its bytes in the backend.\<close>

definition version_stored :: "(string \<Rightarrow> string \<Rightarrow> bool) \<Rightarrow> (string \<Rightarrow> string \<Rightarrow> bytes option) \<Rightarrow>
    string \<Rightarrow> string \<Rightarrow> string \<Rightarrow> version_record \<Rightarrow> bool" where
  "version_stored good bv b k v r \<longleftrightarrow> good b (versionedBackendKey k v) \<and>
     (\<exists>d. bv b (versionedBackendKey k v) = Some d \<and> vr_Size r = byte_count d)"

definition versions_stored :: "(string \<Rightarrow> string \<Rightarrow> bool) \<Rightarrow> (string \<Rightarrow> string \<Rightarrow> bytes option) \<Rightarrow> meta_view \<Rightarrow> bool" where
  "versions_stored good bv w \<longleftrightarrow> (\<forall>b k v r. mv_versions w b k v = Some r \<longrightarrow>
     \<not> vr_IsDeleteMarker r \<longrightarrow> version_stored good bv b k v r)"

text \<open>At most one version of an object is marked as the latest.\<close>

definition one_latest :: "meta_view \<Rightarrow> bool" where
  "one_latest w \<longleftrightarrow> (\<forall>b k v v' r r'. mv_versions w b k v = Some r \<longrightarrow> mv_versions w b k v' = Some r' \<longrightarrow>
     vr_IsLatest r \<longrightarrow> vr_IsLatest r' \<longrightarrow> v = v')"

text \<open>No version of the bucket lives in the file \<open>bk\<close>.\<close>

definition version_file_free :: "meta_view \<Rightarrow> string \<Rightarrow> string \<Rightarrow> bool" where
  "version_file_free w b bk \<longleftrightarrow> (\<forall>k v r. mv_versions w b k v = Some r \<longrightarrow> versionedBackendKey k v \<noteq> bk)"

lemma versionedBackendKey_inj:
  "length v = length v' \<Longrightarrow> versionedBackendKey k v = versionedBackendKey k' v' \<longleftrightarrow> k = k' \<and> v = v'"
  by (auto simp: versionedBackendKey_def)

lemma put_version_view_versions:
  "mv_versions (put_version_view r w) b k v =
     (if (b, k, v) = (vr_Bucket r, vr_Key r, vr_VersionID r) then Some r else mv_versions w b k v)"
  by (auto simp: put_version_view_def)

lemma mark_view_versions:
  "mv_versions (mark_view b k w) b' k' v =
     (if b' = b \<and> k' = k then map_option unlatest (mv_versions w b k v) else mv_versions w b' k' v)"
  by (simp add: mark_view_def)

lemma mark_put_objects [simp]:
  "mv_objects (put_version_view r w) = mv_objects w" "mv_objects (mark_view b k w) = mv_objects w"
  "mv_buckets (put_version_view r w) = mv_buckets w" "mv_buckets (mark_view b k w) = mv_buckets w"
  by (simp_all add: put_version_view_def mark_view_def)

lemma stats_del_versions [simp]:
  "mv_versions (stats_view b dc db w) = mv_versions w" "mv_versions (del_object_view b k w) = mv_versions w"
  by (simp_all add: stats_view_def del_object_view_def)

lemma unlatest_fields [simp]:
  "vr_IsDeleteMarker (unlatest r) = vr_IsDeleteMarker r" "vr_Size (unlatest r) = vr_Size r"
  "vr_IsLatest (unlatest r) = False" "vr_ETag (unlatest r) = vr_ETag r"
  by (simp_all add: unlatest_def)

lemma one_latest_put_mark:
  assumes "one_latest w"
  shows "one_latest (put_version_view r (mark_view (vr_Bucket r) (vr_Key r) w))"
  using assms unfolding one_latest_def
  by (auto simp: put_version_view_versions mark_view_versions split: if_splits)

lemma one_latest_del: "one_latest w \<Longrightarrow> one_latest (del_version_view b k v w)"
  unfolding one_latest_def del_version_view_def by (auto split: if_splits)

context storage_engine
begin

section \<open>Deleting from an unversioned bucket\<close>

lemma delete_unversioned:
  assumes i: "einv e" and b: "mv_buckets (mview e) (di_Bucket inp) = Some bkt"
    and v: "br_Versioning bkt \<noteq> VersioningEnabled" and vid: "di_VersionID inp = []"
    and r: "mv_objects (mview e) (di_Bucket inp) (di_Key inp) = Some r"
    and g: "good (di_Bucket inp) (record_backend_key (di_Key inp) r)"
    and p: "dview e (di_Bucket inp) (record_backend_key (di_Key inp) r) \<noteq> None"
  shows "\<exists>e'. DeleteObject M B env inp e = (Inr no_delete_output, e') \<and> einv e' \<and>
     e_masterKey e' = e_masterKey e \<and>
     mview e' = stats_view (di_Bucket inp) (- 1) (- or_Size r)
       (del_object_view (di_Bucket inp) (di_Key inp) (mview e)) \<and>
     dview e' = (dview e)(di_Bucket inp := (dview e (di_Bucket inp))(record_backend_key (di_Key inp) r := None))"
proof -
  let ?b = "di_Bucket inp" and ?k = "di_Key inp"
  note s = einvD [OF i]
  have nf: "nulfree ?b" using bucket_named [OF conjunct1 [OF s] b] by (simp add: name_ok_def)
  have gb: "m_GetBucket M (e_meta e) ?b = Inr bkt" and go: "m_GetObject M (e_meta e) ?b ?k = Inr r"
    using get_bucket_Some get_object_Some s b r nf by auto
  obtain res b1 where d: "b_Delete B (e_backend e) ?b (record_backend_key ?k r) = (res, b1)" by force
  have b1: "binv b1" "bview b1 = (dview e)(?b := (dview e ?b)(record_backend_key ?k r := None))"
    using delete_frame [OF conjunct2 [OF s] g d] by auto
  have res: "res = Inr ()" using delete_err [OF conjunct2 [OF s] g] d p by (cases res) auto
  let ?e1 = "e\<lparr>e_backend := b1\<rparr>"
  have e1: "einv ?e1" using i b1(1) by (simp add: einv_backend)
  obtain m2 where m2: "meta_write (\<lambda>m. m_DeleteObject M m ?b ?k) (Wrap ''delete object: metadata delete'') () ?e1 =
      (Inr (), ?e1\<lparr>e_meta := m2\<rparr>)" "einv (?e1\<lparr>e_meta := m2\<rparr>)" "view m2 = del_object_view ?b ?k (mview e)"
    using meta_write_ok [OF e1, where w = "\<lambda>m. m_DeleteObject M m ?b ?k"
        and wrap = "Wrap ''delete object: metadata delete''" and x = "()"] delete_object [of "e_meta e" ?b ?k] s nf by auto
  obtain m3 where m3: "meta_quiet (\<lambda>m. m_UpdateBucketStats M m ?b (- 1) (- or_Size r)) (?e1\<lparr>e_meta := m2\<rparr>) =
      ?e1\<lparr>e_meta := m3\<rparr>" "einv (?e1\<lparr>e_meta := m3\<rparr>)" "view m3 = stats_view ?b (- 1) (- or_Size r) (view m2)"
    using stats_quiet [OF m2(2), of ?b "- 1" "- or_Size r"] by auto
  show ?thesis
    using gb go d res m2 m3 v vid b1(2)
    by (simp add: DeleteObject_def deleteUnversionedObject_def Let_def engine_inv_def Dispatch_cap split: option.split)
qed

lemma delete_absent:
  assumes i: "einv e" and b: "mv_buckets (mview e) (di_Bucket inp) = Some bkt"
    and v: "br_Versioning bkt \<noteq> VersioningEnabled" and vid: "di_VersionID inp = []"
    and r: "mv_objects (mview e) (di_Bucket inp) (di_Key inp) = None"
  shows "DeleteObject M B env inp e = (Inr no_delete_output, e)"
proof -
  note s = einvD [OF i]
  have nf: "nulfree (di_Bucket inp)" using bucket_named [OF conjunct1 [OF s] b] by (simp add: name_ok_def)
  obtain err where "m_GetObject M (e_meta e) (di_Bucket inp) (di_Key inp) = Inl err" "isNotFound err"
    using get_object_None [OF conjunct1 [OF s] nf r] by blast
  then show ?thesis using get_bucket_Some [OF conjunct1 [OF s] b] v vid
    by (simp add: DeleteObject_def deleteUnversionedObject_def)
qed

lemma HeadObject_None:
  assumes "einv e" "nulfree b" "mv_objects (mview e) b k = None"
  shows "HeadObject M e b k = Inl (ObjectNotFoundError b k)"
  using get_object_None [of "e_meta e" b k] einvD [OF assms(1)] assms(2,3) by (auto simp: HeadObject_def)

lemma GetObject_None:
  assumes "einv e" "nulfree b" "mv_objects (mview e) b k = None"
  shows "GetObject M B P b k [] e = (Inl (ObjectNotFoundError b k), e)"
  using get_object_None [of "e_meta e" b k] einvD [OF assms(1)] assms(2,3) by (auto simp: GetObject_def)

section \<open>Deleting from a versioned bucket\<close>

lemma putDeleteMarker_ok:
  assumes i: "einv e" and v: "version_ok (di_Bucket inp) (di_Key inp) (env_uuid env)"
  shows "\<exists>m. putDeleteMarker M env (di_Bucket inp) (di_Key inp) (di_Owner inp) e = (Inr (env_uuid env), e\<lparr>e_meta := m\<rparr>) \<and>
     einv (e\<lparr>e_meta := m\<rparr>) \<and>
     view m = put_version_view (marker_record env inp) (mark_view (di_Bucket inp) (di_Key inp) (mview e))"
proof -
  let ?b = "di_Bucket inp" and ?k = "di_Key inp"
  have n: "nulfree ?b" "nulfree ?k" using v by (auto simp: version_ok_def name_ok_def)
  obtain m1 where m1: "meta_write (\<lambda>m. m_MarkVersionsNotLatest M m ?b ?k)
      (Wrap ''delete marker: mark not latest'') () e = (Inr (), e\<lparr>e_meta := m1\<rparr>)" "einv (e\<lparr>e_meta := m1\<rparr>)"
      "view m1 = mark_view ?b ?k (mview e)"
    using meta_write_ok [OF i, where w = "\<lambda>m. m_MarkVersionsNotLatest M m ?b ?k",
        OF mark_not_latest [OF conjunct1 [OF einvD [OF i]] n]] by metis
  have "wrote sinv view (m_PutVersion M (e_meta (e\<lparr>e_meta := m1\<rparr>)) (marker_record env inp))
      (put_version_view (marker_record env inp) (view m1))"
    using put_version [of m1 "marker_record env inp"] v einvD [OF m1(2)] by (simp add: marker_record_def)
  from meta_write_ok [OF m1(2), where w = "\<lambda>m. m_PutVersion M m (marker_record env inp)"
      and wrap = "\<lambda>err. err" and x = "env_uuid env", OF this] m1 show ?thesis
    by (auto simp: putDeleteMarker_def marker_record_def)
qed

lemma delete_versioned:
  assumes i: "einv e" and b: "mv_buckets (mview e) (di_Bucket inp) = Some bkt"
    and v: "br_Versioning bkt = VersioningEnabled" and vid: "di_VersionID inp = []"
    and n: "version_ok (di_Bucket inp) (di_Key inp) (env_uuid env)"
  shows "\<exists>e'. DeleteObject M B env inp e = (Inr \<lparr>do_VersionID = env_uuid env, do_DeleteMarker = True\<rparr>, e') \<and>
     einv e' \<and> e_backend e' = e_backend e \<and> e_masterKey e' = e_masterKey e \<and>
     mview e' = del_object_view (di_Bucket inp) (di_Key inp)
       (put_version_view (marker_record env inp) (mark_view (di_Bucket inp) (di_Key inp) (mview e)))"
proof -
  have nf: "nulfree (di_Bucket inp)" using n by (auto simp: version_ok_def name_ok_def)
  obtain m where m: "putDeleteMarker M env (di_Bucket inp) (di_Key inp) (di_Owner inp) e = (Inr (env_uuid env), e\<lparr>e_meta := m\<rparr>)"
    "einv (e\<lparr>e_meta := m\<rparr>)" "view m = put_version_view (marker_record env inp) (mark_view (di_Bucket inp) (di_Key inp) (mview e))"
    using putDeleteMarker_ok [OF i n] by blast
  have "sinv m" using einvD [OF m(2)] by simp
  from delete_object [OF this nf, of "di_Key inp"] obtain m' where
    "m_DeleteObject M m (di_Bucket inp) (di_Key inp) = Inr m'" "sinv m'"
    "view m' = del_object_view (di_Bucket inp) (di_Key inp) (view m)" by (rule wroteE)
  moreover have "einv (e\<lparr>e_meta := m'\<rparr>)" using i \<open>sinv m'\<close> by (simp add: einv_meta)
  ultimately show ?thesis
    using m get_bucket_Some [OF conjunct1 [OF einvD [OF i]] b] v vid by (simp add: DeleteObject_def)
qed

text \<open>Whatever the versioning state, a deleted object is gone for readers that name no version.\<close>

lemma delete_then_get:
  assumes i: "einv e" and b: "mv_buckets (mview e) (di_Bucket inp) = Some bkt"
    and vid: "di_VersionID inp = []" and s: "all_stored good (dview e) (mview e)"
    and n: "br_Versioning bkt = VersioningEnabled \<longrightarrow> version_ok (di_Bucket inp) (di_Key inp) (env_uuid env)"
  shows "\<exists>out e'. DeleteObject M B env inp e = (Inr out, e') \<and> einv e' \<and>
     GetObject M B P (di_Bucket inp) (di_Key inp) [] e' = (Inl (ObjectNotFoundError (di_Bucket inp) (di_Key inp)), e') \<and>
     HeadObject M e' (di_Bucket inp) (di_Key inp) = Inl (ObjectNotFoundError (di_Bucket inp) (di_Key inp)) \<and>
     do_DeleteMarker out = (br_Versioning bkt = VersioningEnabled)"
proof -
  let ?b = "di_Bucket inp" and ?k = "di_Key inp"
  have nf: "nulfree ?b" using bucket_named [OF conjunct1 [OF einvD [OF i]] b] by (simp add: name_ok_def)
  have "\<exists>out e'. DeleteObject M B env inp e = (Inr out, e') \<and> einv e' \<and> mv_objects (mview e') ?b ?k = None \<and>
     do_DeleteMarker out = (br_Versioning bkt = VersioningEnabled)"
  proof (cases "br_Versioning bkt = VersioningEnabled")
    case True
    from delete_versioned [where env = env, OF i b True vid] n True show ?thesis by (auto simp: del_object_view_objects)
  next
    case False
    show ?thesis
    proof (cases "mv_objects (mview e) ?b ?k")
      case None
      with delete_absent [OF i b False vid None] i False show ?thesis by (simp add: no_delete_output_def)
    next
      case (Some r)
      with all_storedD [OF s Some] have "good ?b (record_backend_key ?k r)"
        "dview e ?b (record_backend_key ?k r) \<noteq> None" by (auto simp: object_stored_def)
      from delete_unversioned [where env = env, OF i b False vid Some this] False show ?thesis
        by (auto simp: del_object_view_objects no_delete_output_def)
    qed
  qed
  then show ?thesis using GetObject_None HeadObject_None nf by blast
qed

lemma delete_frame_objects:
  assumes i: "einv e" and b: "mv_buckets (mview e) (di_Bucket inp) = Some bkt"
    and vid: "di_VersionID inp = []" and s: "all_stored good (dview e) (mview e)"
    and n: "br_Versioning bkt = VersioningEnabled \<longrightarrow> version_ok (di_Bucket inp) (di_Key inp) (env_uuid env)"
    and f: "\<forall>r. mv_objects (mview e) (di_Bucket inp) (di_Key inp) = Some r \<longrightarrow>
      backend_key_free (mview e) (di_Bucket inp) (di_Key inp) (record_backend_key (di_Key inp) r)"
    and d: "DeleteObject M B env inp e = (res, e')"
  shows "all_stored good (dview e') (mview e') \<and>
     (\<forall>b k. (b, k) \<noteq> (di_Bucket inp, di_Key inp) \<longrightarrow> mv_objects (mview e') b k = mv_objects (mview e) b k)"
proof (cases "br_Versioning bkt = VersioningEnabled")
  case True
  with delete_versioned [where env = env, OF i b True vid] n d have
    "mview e' = del_object_view (di_Bucket inp) (di_Key inp)
       (put_version_view (marker_record env inp) (mark_view (di_Bucket inp) (di_Key inp) (mview e)))" "dview e' = dview e"
    by auto
  then show ?thesis using s by (auto simp: all_stored_def del_object_view_objects)
next
  case False
  show ?thesis
  proof (cases "mv_objects (mview e) (di_Bucket inp) (di_Key inp)")
    case None
    with delete_absent [OF i b False vid None] d s show ?thesis by simp
  next
    case (Some r)
    with all_storedD [OF s Some] have "good (di_Bucket inp) (record_backend_key (di_Key inp) r)"
      "dview e (di_Bucket inp) (record_backend_key (di_Key inp) r) \<noteq> None" by (auto simp: object_stored_def)
    from delete_unversioned [where env = env, OF i b False vid Some this] d have
      "mview e' = stats_view (di_Bucket inp) (- 1) (- or_Size r) (del_object_view (di_Bucket inp) (di_Key inp) (mview e))"
      "dview e' = (dview e)(di_Bucket inp := (dview e (di_Bucket inp))(record_backend_key (di_Key inp) r := None))"
      by auto
    then show ?thesis using s f Some
      by (auto simp: all_stored_def object_stored_def backend_key_free_def del_object_view_objects split: if_splits)
  qed
qed

section \<open>Versions\<close>

text \<open>
  A put keeps every version of every object, with its bytes; it may only clear the latest flag. The
  new file has to be none of theirs: either the bucket is versioned and the new id is as long as the
  old ones, or the key is not spelled like the file of a version.
\<close>

lemma GetVersion_ok:
  assumes i: "einv e" and n: "nulfree b" "nulfree k" "v \<noteq> []"
    and v: "mv_versions (mview e) b k v = Some r" "\<not> vr_IsDeleteMarker r"
    and d: "good b (versionedBackendKey k v)" "dview e b (versionedBackendKey k v) = Some d"
  shows "\<exists>rec e''. GetObject M B P b k v e = (Inr \<lparr>go_Record = rec, go_Body = reader_of d\<rparr>, e'') \<and>
     or_ETag rec = vr_ETag r \<and> or_Size rec = vr_Size r"
proof -
  have "m_GetVersion M (e_meta e) b k v = Inr r"
    using get_version [of "e_meta e" b k v] einvD [OF i] n v by simp
  moreover have "fst (b_Read B (e_backend e) b (versionedBackendKey k v)) = reader_of d"
    using read_Some einvD [OF i] d by blast
  then obtain b' where "b_Read B (e_backend e) b (versionedBackendKey k v) = (reader_of d, b')"
    by (metis prod.collapse)
  ultimately show ?thesis using n v by (simp add: GetObject_def GetObjectVersion_def)
qed

lemma GetVersion_marker:
  assumes "einv e" "nulfree b" "nulfree k" "v \<noteq> []" "mv_versions (mview e) b k v = Some r" "vr_IsDeleteMarker r"
  shows "GetObject M B P b k v e = (Inl (ObjectNotFoundError b k), e)"
  using get_version [of "e_meta e" b k v] einvD [OF assms(1)] assms by (simp add: GetObject_def GetObjectVersion_def)

lemma put_keeps_version:
  assumes i: "einv e" and n: "put_ready good (mview e) env inp"
    and p: "PutObject M B P env inp e = (res, e')"
    and v: "mv_versions (mview e) b k v = Some r" "\<not> vr_IsDeleteMarker r" "v \<noteq> []"
    and d: "good b (versionedBackendKey k v)" "dview e b (versionedBackendKey k v) = Some d"
    and f: "\<forall>bkt. mv_buckets (mview e) (pi_Bucket inp) = Some bkt \<longrightarrow>
      version_file_free (mview e) (pi_Bucket inp) (snd (resolveVersioning env (pi_Key inp) (br_Versioning bkt)))"
  shows "\<exists>rec e''. GetObject M B P b k v e' = (Inr \<lparr>go_Record = rec, go_Body = reader_of d\<rparr>, e'') \<and>
     or_ETag rec = vr_ETag r \<and> or_Size rec = vr_Size r"
proof -
  have nf: "nulfree b" "nulfree k"
    using version_named [OF conjunct1 [OF einvD [OF i]] v(1)] by (auto simp: version_ok_def name_ok_def)
  have "einv e' \<and> (\<exists>r'. mv_versions (mview e') b k v = Some r' \<and> (r' = r \<or> r' = unlatest r)) \<and>
    dview e' b (versionedBackendKey k v) = Some d"
  proof (cases res)
    case (Inl err)
    with PutObject_Inl [OF i n p [unfolded Inl]] v d show ?thesis by simp
  next
    case (Inr out)
    from PutObject_Inr [OF i n p [unfolded Inr]] obtain bkt vid bk alg ek and r0 :: object_record and body :: reader where
      b: "mv_buckets (mview e) (pi_Bucket inp) = Some bkt" "(vid, bk) = resolveVersioning env (pi_Key inp) (br_Versioning bkt)"
      "r0 = put_record P env inp bkt vid alg ek (rd_data body) (byte_count (rd_data body))" "einv e'"
      "dview e' = (dview e)(pi_Bucket inp := (dview e (pi_Bucket inp))(bk \<mapsto> rd_data body))"
      "mview e' = put_view bkt r0 (fst (delta bkt r0 (mview e))) (snd (delta bkt r0 (mview e))) (mview e)" by blast
    have ff: "version_file_free (mview e) (pi_Bucket inp) bk" using f b(1,2) by (metis snd_conv)
    then have ne: "(b, versionedBackendKey k v) \<noteq> (pi_Bucket inp, bk)"
      using v by (auto simp: version_file_free_def)
    have "br_Versioning bkt = VersioningEnabled \<Longrightarrow> (b, k, v) \<noteq> (pi_Bucket inp, pi_Key inp, vid)"
      using ne b(2) by (auto simp: resolveVersioning_def)
    then have "mv_versions (mview e') b k v = Some r \<or> mv_versions (mview e') b k v = Some (unlatest r)"
      using b(3,6) v by (auto simp: put_view_versions put_version_view_versions mark_view_versions version_of_def)
    then show ?thesis using b ne d by auto
  qed
  then show ?thesis using GetVersion_ok [of e' b k v _ d P] nf v d by fastforce
qed

text \<open>A simple delete in a versioned bucket keeps the bytes and the records of all versions.\<close>

lemma delete_keeps_version:
  assumes i: "einv e" and b: "mv_buckets (mview e) (di_Bucket inp) = Some bkt" "br_Versioning bkt = VersioningEnabled"
    and vid: "di_VersionID inp = []" and n: "version_ok (di_Bucket inp) (di_Key inp) (env_uuid env)"
    and fresh: "env_uuid env \<noteq> v"
    and v: "mv_versions (mview e) (di_Bucket inp) (di_Key inp) v = Some r" "\<not> vr_IsDeleteMarker r" "v \<noteq> []"
    and d: "good (di_Bucket inp) (versionedBackendKey (di_Key inp) v)"
      "dview e (di_Bucket inp) (versionedBackendKey (di_Key inp) v) = Some d"
    and del: "DeleteObject M B env inp e = (res, e')"
  shows "\<exists>rec e''. GetObject M B P (di_Bucket inp) (di_Key inp) v e' =
      (Inr \<lparr>go_Record = rec, go_Body = reader_of d\<rparr>, e'') \<and> or_ETag rec = vr_ETag r \<and> or_Size rec = vr_Size r"
proof -
  have nf: "nulfree (di_Bucket inp)" "nulfree (di_Key inp)" using n by (auto simp: version_ok_def name_ok_def)
  from delete_versioned [where env = env, OF i b vid n] del have
    e': "einv e'" "dview e' = dview e" "mview e' = del_object_view (di_Bucket inp) (di_Key inp)
       (put_version_view (marker_record env inp) (mark_view (di_Bucket inp) (di_Key inp) (mview e)))" by auto
  have "mv_versions (mview e') (di_Bucket inp) (di_Key inp) v = Some (unlatest r)"
    using e'(3) v fresh by (simp add: put_version_view_versions mark_view_versions marker_record_def)
  from GetVersion_ok [OF e'(1) nf v(3) this] v d e'(2) show ?thesis by fastforce
qed

lemma put_one_latest:
  assumes i: "einv e" and n: "put_ready good (mview e) env inp"
    and p: "PutObject M B P env inp e = (res, e')" and l: "one_latest (mview e)"
  shows "one_latest (mview e')"
proof (cases res)
  case (Inl err)
  with PutObject_Inl [OF i n p [unfolded Inl]] l show ?thesis by simp
next
  case (Inr out)
  from PutObject_Inr [OF i n p [unfolded Inr]] obtain bkt and r :: object_record where
    "mview e' = put_view bkt r (fst (delta bkt r (mview e))) (snd (delta bkt r (mview e))) (mview e)" by blast
  then show ?thesis using l one_latest_put_mark [OF l, of "version_of r (or_VersionID r) True"]
    by (auto simp: one_latest_def put_view_versions version_of_def)
qed

lemma delete_one_latest:
  assumes i: "einv e" and b: "mv_buckets (mview e) (di_Bucket inp) = Some bkt" "br_Versioning bkt = VersioningEnabled"
    and vid: "di_VersionID inp = []" and n: "version_ok (di_Bucket inp) (di_Key inp) (env_uuid env)"
    and l: "one_latest (mview e)" and del: "DeleteObject M B env inp e = (res, e')"
  shows "one_latest (mview e')"
proof -
  from delete_versioned [where env = env, OF i b vid n] del have
    "mview e' = del_object_view (di_Bucket inp) (di_Key inp)
       (put_version_view (marker_record env inp) (mark_view (di_Bucket inp) (di_Key inp) (mview e)))" by auto
  with one_latest_put_mark [OF l, of "marker_record env inp"] show ?thesis
    by (simp add: one_latest_def marker_record_def)
qed

end

end
