(* ===== verification/Engine_Multipart.thy ===== *)
theory Engine_Multipart
  imports Engine_Delete "HOL-Library.Multiset"
begin

text \<open>
  Multipart uploads and lifecycle over the two contracts: a completed upload holds the contents of
  its parts in ascending order, a failed completion changes nothing, and an expiration pass deletes
  only objects its rule matches.
\<close>

section \<open>Part keys\<close>

text \<open>The part numbers of an upload are checked by the handlers to lie between 1 and 10000.\<close>

lemma multipart_part_key_inj:
  assumes "0 \<le> n" "n < 100000" "0 \<le> n'" "n' < 100000"
  shows "multipart_part_key u n = multipart_part_key u n' \<longleftrightarrow> n = n'"
  using assms fmt_05d_inject by (auto simp: multipart_part_key_def)

lemma MultiReader_of:
  "MultiReader (map (\<lambda>x. reader_of (f x)) xs) = reader_of (concat (map f xs))"
  by (induction xs) simp_all

lemma foldl_add_int64: "foldl (\<lambda>t x. t + f x) (a :: int64) xs = a + sum_list (map f xs)"
  by (induction xs arbitrary: a) (simp_all add: add.assoc)

lemma multipartTotalSize_sum:
  "multipartTotalSize ps sel = sum_list (map (\<lambda>cp. size_of_part ps (cp_PartNumber cp)) sel)"
  by (simp add: multipartTotalSize_def foldl_add_int64)

lemma multipartTotalSize_perm: "multipartTotalSize ps (sort_key f sel) = multipartTotalSize ps sel"
proof -
  have "sum_mset (image_mset (\<lambda>cp. size_of_part ps (cp_PartNumber cp)) (mset (sort_key f sel))) =
    sum_mset (image_mset (\<lambda>cp. size_of_part ps (cp_PartNumber cp)) (mset sel))" by simp
  then show ?thesis by (simp only: multipartTotalSize_sum sum_mset_sum_list [symmetric] mset_map)
qed

text \<open>Bucket, key and clock of the object a completed upload leaves.\<close>

definition complete_record ::
    "platform \<Rightarrow> env \<Rightarrow> multipart_record \<Rightarrow> complete_part list \<Rightarrow> int64 \<Rightarrow> object_record" where
  "complete_record P env u parts total_sz = \<lparr>
     or_Bucket = mr_Bucket u, or_Key = mr_Key u, or_VersionID = [], or_IsDeleteMarker = False,
     or_IsLatest = False, or_Size = total_sz, or_ETag = compositeMD5 P (map cp_ETag parts),
     or_ContentType = mr_ContentType u, or_LastModified = env_now env, or_Owner = mr_Owner u,
     or_UserMeta = mr_UserMeta u, or_StorageClass = ''STANDARD'', or_Tags = [],
     or_SSEAlgorithm = [], or_SSEEncryptedKey = []\<rparr>"

text \<open>The contents of the chosen parts in ascending order of their numbers.\<close>

definition assembled :: "(int \<Rightarrow> bytes) \<Rightarrow> complete_part list \<Rightarrow> bytes" where
  "assembled content sel = concat (map (\<lambda>cp. content (cp_PartNumber cp)) (sort_key cp_PartNumber sel))"

text \<open>The chosen parts are on disk under good names, and the final key is none of the part files.\<close>

definition parts_ready :: "(string \<Rightarrow> string \<Rightarrow> bool) \<Rightarrow> (string \<Rightarrow> string \<Rightarrow> bytes option) \<Rightarrow> string \<Rightarrow> multipart_record \<Rightarrow> complete_part list \<Rightarrow> (int \<Rightarrow> bytes) \<Rightarrow> bool" where
  "parts_ready good bv uid u sel content \<longleftrightarrow>
     (\<forall>cp \<in> set sel. good (mr_Bucket u) (multipart_part_key uid (cp_PartNumber cp)) \<and>
        bv (mr_Bucket u) (multipart_part_key uid (cp_PartNumber cp)) = Some (content (cp_PartNumber cp))) \<and>
     (\<forall>n \<in> {1..int (length sel)}. good (mr_Bucket u) (multipart_part_key uid n) \<and> multipart_part_key uid n \<noteq> mr_Key u) \<and>
     good (mr_Bucket u) (mr_Key u) \<and> object_ok (mr_Bucket u) (mr_Key u) \<and> nulfree uid"

text \<open>No two objects of a bucket share a file.\<close>

definition files_disjoint :: "meta_view \<Rightarrow> bool" where
  "files_disjoint w \<longleftrightarrow> (\<forall>b k k' r r'. mv_objects w b k = Some r \<longrightarrow> mv_objects w b k' = Some r' \<longrightarrow>
     record_backend_key k r = record_backend_key k' r' \<longrightarrow> k = k')"

lemma files_disjoint_free: "files_disjoint w \<Longrightarrow> mv_objects w b k = Some r \<Longrightarrow>
    backend_key_free w b k (record_backend_key k r)"
  unfolding files_disjoint_def backend_key_free_def by metis

text \<open>The keys of a bucket that an expiration rule has to remove.\<close>

definition expired :: "object_record \<Rightarrow> lifecycle_filter \<Rightarrow> time \<Rightarrow> bool" where
  "expired r flt threshold \<longleftrightarrow> or_LastModified r < threshold \<and> objectMatchesFilter r flt"

context storage_engine
begin

lemma read_parts_ok:
  assumes "binv b" "\<forall>cp \<in> set cps. good bk (multipart_part_key u (cp_PartNumber cp)) \<and>
      bview b bk (multipart_part_key u (cp_PartNumber cp)) = Some (content (cp_PartNumber cp))"
  shows "\<exists>b'. read_parts B bk u cps b = (map (\<lambda>cp. reader_of (content (cp_PartNumber cp))) cps, b') \<and>
      binv b' \<and> bview b' = bview b"
  using assms
proof (induction cps arbitrary: b)
  case Nil
  then show ?case by simp
next
  case (Cons cp cps)
  let ?k = "multipart_part_key u (cp_PartNumber cp)"
  obtain rd b1 where r: "b_Read B b bk ?k = (rd, b1)" by force
  have g: "good bk ?k" "bview b bk ?k = Some (content (cp_PartNumber cp))" using Cons.prems by auto
  have b1: "binv b1" "bview b1 = bview b" "rd = reader_of (content (cp_PartNumber cp))"
    using read_frame [OF Cons.prems(1) g(1) r] read_Some [OF Cons.prems(1) g] r by auto
  from Cons.IH [OF b1(1)] Cons.prems(2) b1(2) obtain b2 where
    "read_parts B bk u cps b1 = (map (\<lambda>cp. reader_of (content (cp_PartNumber cp))) cps, b2)" "binv b2" "bview b2 = bview b1"
    by auto
  with r b1 show ?case by simp
qed

lemma delete_part_files_ok:
  assumes "binv b" "\<forall>n \<in> set ns. good bk (multipart_part_key u n)"
  shows "binv (delete_part_files B bk u ns b) \<and>
     bview (delete_part_files B bk u ns b) =
       (bview b)(bk := (\<lambda>k. if k \<in> multipart_part_key u ` set ns then None else bview b bk k))"
  using assms
proof (induction ns arbitrary: b)
  case Nil
  then show ?case by simp
next
  case (Cons n ns)
  obtain res b1 where d: "b_Delete B b bk (multipart_part_key u n) = (res, b1)" by force
  have b1: "binv b1" "bview b1 = (bview b)(bk := (bview b bk)(multipart_part_key u n := None))"
    using delete_frame [OF Cons.prems(1) _ d] Cons.prems(2) by auto
  from Cons.IH [OF b1(1)] Cons.prems(2) b1(2) d show ?case
    by (auto simp: delete_quiet_def fun_eq_iff)
qed

lemma cleanup_ok:
  assumes i: "einv e" and u: "nulfree u" and g: "\<forall>n \<in> {1..int k}. good bk (multipart_part_key u n)"
  shows "einv (cleanupMultipart M B u bk k e) \<and>
    mview (cleanupMultipart M B u bk k e) =
      (mview e)\<lparr>mv_multiparts := (mv_multiparts (mview e))(u := None), mv_parts := (mv_parts (mview e))(u := Map.empty)\<rparr> \<and>
    dview (cleanupMultipart M B u bk k e) = (dview e)(bk := (\<lambda>x. if x \<in> multipart_part_key u ` {1..int k} then None else dview e bk x)) \<and>
    e_masterKey (cleanupMultipart M B u bk k e) = e_masterKey e"
proof -
  obtain m1 where m1: "meta_quiet (\<lambda>m. m_DeleteMultipart M m u) e = e\<lparr>e_meta := m1\<rparr>" "einv (e\<lparr>e_meta := m1\<rparr>)"
    "view m1 = (mview e)\<lparr>mv_multiparts := (mv_multiparts (mview e))(u := None)\<rparr>"
    using meta_quiet_ok [OF i, where w = "\<lambda>m. m_DeleteMultipart M m u"] delete_multipart [of "e_meta e" u] einvD [OF i] by blast
  have "sinv m1" using einvD [OF m1(2)] by simp
  then obtain m2 where m2: "meta_quiet (\<lambda>m. m_DeleteParts M m u) (e\<lparr>e_meta := m1\<rparr>) = e\<lparr>e_meta := m2\<rparr>" "einv (e\<lparr>e_meta := m2\<rparr>)"
    "view m2 = (view m1)\<lparr>mv_parts := (mv_parts (view m1))(u := Map.empty)\<rparr>"
    using meta_quiet_ok [OF m1(2), where w = "\<lambda>m. m_DeleteParts M m u"] delete_parts [of m1 u] u by auto
  have ns: "set (map int [1 ..< Suc k]) = {1..int k}"
    by (simp add: atLeastLessThanSuc_atLeastAtMost image_int_atLeastAtMost del: upt_Suc)
  show ?thesis
    using delete_part_files_ok [of "e_backend e" "map int [1 ..< Suc k]" bk u] einvD [OF i] g m1 m2
    unfolding ns by (simp add: cleanupMultipart_def Let_def einv_backend)
qed

lemma ListParts_ok:
  assumes "einv e" "nulfree u"
  shows "\<exists>ps. m_ListParts M (e_meta e) u = Inr ps \<and>
     (\<forall>p. p \<in> set ps \<longleftrightarrow> mv_parts (mview e) u (pr_PartNumber p) = Some p)"
  using list_parts [of "e_meta e" u] einvD [OF assms(1)] assms(2) by blast

section \<open>Uploading a part\<close>

lemma UploadPart_ok:
  assumes i: "einv e" and u: "mv_multiparts (mview e) uid = Some u"
    and n: "part_ok uid n" and g: "good (mr_Bucket u) (multipart_part_key uid n)"
    and p: "UploadPart M B P env uid n body sz e = (res, e')"
  shows "einv e' \<and> (case res of
      Inl _ \<Rightarrow> mview e' = mview e \<and> dview e' = dview e
    | Inr etag \<Rightarrow> etag = quoted (hexSum P (rd_data body)) \<and>
        mview e' = put_part_view \<lparr>pr_UploadID = uid, pr_PartNumber = n, pr_ETag = etag, pr_Size = sz,
          pr_LastModified = env_now env\<rparr> (mview e) \<and>
        dview e' = (dview e)(mr_Bucket u :=
          (dview e (mr_Bucket u))(multipart_part_key uid n \<mapsto> rd_data body)))"
proof -
  have mu: "m_GetMultipart M (e_meta e) uid = Inr u" using get_multipart [of "e_meta e" uid] einvD [OF i] u by simp
  have bi: "binv (e_backend e)" using einvD [OF i] by simp
  obtain wr b1 where w: "b_Write B (e_backend e) (mr_Bucket u) (multipart_part_key uid n) body sz = (wr, b1)" by force
  note wi = write_inv [OF bi g w]
  let ?e1 = "e\<lparr>e_backend := b1\<rparr>"
  have e1: "einv ?e1" using i wi by (simp add: einv_backend)
  show ?thesis
  proof (cases wr)
    case (Inl err)
    with p mu w have "res = Inl (Wrap ''upload part: write'' err)" "e' = ?e1" by (auto simp: UploadPart_def)
    with e1 write_err [OF bi g w [unfolded Inl]] show ?thesis by simp
  next
    case (Inr k)
    let ?r = "\<lparr>pr_UploadID = uid, pr_PartNumber = n, pr_ETag = quoted (hexSum P (rd_data body)), pr_Size = sz,
          pr_LastModified = env_now env\<rparr>"
    have "wrote sinv view (m_PutPart M (e_meta ?e1) ?r) (put_part_view ?r (mview e))"
      using put_part [of "e_meta e" ?r] n einvD [OF i] by simp
    from meta_write_ok [OF e1, where w = "\<lambda>m. m_PutPart M m ?r" and wrap = "Wrap ''upload part: store''"
        and x = "quoted (hexSum P (rd_data body))", OF this] obtain m where
      "meta_write (\<lambda>m. m_PutPart M m ?r) (Wrap ''upload part: store'') (quoted (hexSum P (rd_data body))) ?e1 =
        (Inr (quoted (hexSum P (rd_data body))), ?e1\<lparr>e_meta := m\<rparr>)" "einv (?e1\<lparr>e_meta := m\<rparr>)"
      "view m = put_part_view ?r (mview e)" by auto
    with p mu w Inr write_ok [OF bi g w [unfolded Inr]] show ?thesis by (auto simp: UploadPart_def Let_def)
  qed
qed

section \<open>Completing an upload\<close>

lemma CompleteMultipart_ok:
  assumes i: "einv e" and u: "mv_multiparts (mview e) uid = Some u"
    and ready: "parts_ready good (dview e) uid u sel content"
    and c: "CompleteMultipartUpload M B P env uid sel e = (Inr r, e')"
  shows "einv e' \<and> e_masterKey e' = e_masterKey e \<and>
     (\<exists>total_sz. r = complete_record P env u (sort_key cp_PartNumber sel) total_sz \<and>
       mview e' = (stats_view (mr_Bucket u) 1 total_sz (put_object_view r (mview e)))
         \<lparr>mv_multiparts := (mv_multiparts (mview e))(uid := None), mv_parts := (mv_parts (mview e))(uid := Map.empty)\<rparr>) \<and>
     dview e' (mr_Bucket u) (mr_Key u) = Some (assembled content sel) \<and>
     (\<forall>b k. dview e' b k \<noteq> dview e b k \<longrightarrow> b = mr_Bucket u \<and>
        (k = mr_Key u \<or> k \<in> multipart_part_key uid ` {1..int (length sel)}))"
proof -
  let ?b = "mr_Bucket u" and ?sel = "sort_key cp_PartNumber sel"
  note s = einvD [OF i]
  have nf: "nulfree uid" using ready by (simp add: parts_ready_def)
  have mu: "m_GetMultipart M (e_meta e) uid = Inr u" using get_multipart [of "e_meta e" uid] s u by simp
  from c mu obtain bkt where gb: "m_GetBucket M (e_meta e) ?b = Inr bkt"
    by (auto simp: CompleteMultipartUpload_def split: sum.splits)
  from c mu gb obtain ps where lp: "m_ListParts M (e_meta e) uid = Inr ps"
    by (auto simp: CompleteMultipartUpload_def split: sum.splits)
  from c mu gb lp have q: "checkQuota bkt (multipartTotalSize ps sel) = None"
    by (auto simp: CompleteMultipartUpload_def split: option.splits)
  obtain b1 where rp: "read_parts B ?b uid ?sel (e_backend e) =
      (map (\<lambda>cp. reader_of (content (cp_PartNumber cp))) ?sel, b1)" "binv b1" "bview b1 = dview e"
    using read_parts_ok [of "e_backend e" ?sel ?b uid content] s ready by (auto simp: parts_ready_def)
  define total_sz where "total_sz = multipartTotalSize ps ?sel"
  have comb: "MultiReader (map (\<lambda>cp. reader_of (content (cp_PartNumber cp))) ?sel) = reader_of (assembled content sel)"
    using MultiReader_of [of "\<lambda>cp. content (cp_PartNumber cp)" ?sel] by (simp add: assembled_def)
  have g: "good ?b (mr_Key u)" and ok: "object_ok ?b (mr_Key u)" using ready by (simp_all add: parts_ready_def)
  obtain wr b2 where w: "b_Write B b1 ?b (mr_Key u) (reader_of (assembled content sel)) total_sz = (wr, b2)" by force
  have asm: "assemblePartReaders B ?b uid ?sel ps (e_backend e) = ((reader_of (assembled content sel), map cp_ETag ?sel, total_sz), b1)"
    using rp comb by (simp add: assemblePartReaders_def total_sz_def)
  from c mu gb lp q asm w obtain k where wr: "wr = Inr k"
    by (cases wr) (auto simp: CompleteMultipartUpload_def Let_def)
  note wo = write_ok [OF rp(2) g w [unfolded wr]] and wi = write_inv [OF rp(2) g w]
  let ?e1 = "e\<lparr>e_backend := b2\<rparr>" and ?r = "complete_record P env u ?sel total_sz"
  have e1: "einv ?e1" using i wi by (simp add: einv_backend)
  have "wrote sinv view (m_PutObject M (e_meta ?e1) ?r) (put_object_view ?r (mview e))"
    using put_object [of "e_meta e" ?r] s ok by (simp add: complete_record_def)
  from meta_write_ok [OF e1, where w = "\<lambda>m. m_PutObject M m ?r" and wrap = "Wrap ''complete multipart: store object''"
      and x = "()", OF this] obtain m2 where
    m2: "meta_write (\<lambda>m. m_PutObject M m ?r) (Wrap ''complete multipart: store object'') () ?e1 = (Inr (), ?e1\<lparr>e_meta := m2\<rparr>)"
      "einv (?e1\<lparr>e_meta := m2\<rparr>)" "view m2 = put_object_view ?r (mview e)" by auto
  obtain m3 where m3: "meta_quiet (\<lambda>m. m_UpdateBucketStats M m ?b 1 total_sz) (?e1\<lparr>e_meta := m2\<rparr>) = ?e1\<lparr>e_meta := m3\<rparr>"
    "einv (?e1\<lparr>e_meta := m3\<rparr>)" "view m3 = stats_view ?b 1 total_sz (view m2)"
    using stats_quiet [OF m2(2), of ?b 1 total_sz] by auto
  define e3 where "e3 = fireObjectCreatedSideEffects env ?b (mr_Key u) (or_ETag ?r) (mr_Owner u)
                         total_sz bkt EventObjectCreatedMultipartCompleted (?e1\<lparr>e_meta := m3\<rparr>)"
  have e3: "einv e3" "mview e3 = view m3" "dview e3 = bview b2" "e_masterKey e3 = e_masterKey e"
    using fire_inv [OF m3(2)] by (simp_all add: e3_def)
  have res: "r = ?r" "e' = cleanupMultipart M B uid ?b (length sel) e3"
    using c mu gb lp q asm w wr m2(1) m3(1)
    by (auto simp: CompleteMultipartUpload_def Let_def complete_record_def e3_def)
  have gp: "\<forall>n \<in> {1..int (length sel)}. good ?b (multipart_part_key uid n)" using ready by (simp add: parts_ready_def)
  note cl = cleanup_ok [OF e3(1) nf gp, folded res(2)]
  have d2: "bview b2 = (dview e)(?b := (dview e ?b)(mr_Key u \<mapsto> assembled content sel))" using wo rp(3) by simp
  have nk: "mr_Key u \<notin> multipart_part_key uid ` {1..int (length sel)}" using ready by (auto simp: parts_ready_def)
  have "mview e' = (stats_view ?b 1 total_sz (put_object_view r (mview e)))
         \<lparr>mv_multiparts := (mv_multiparts (mview e))(uid := None), mv_parts := (mv_parts (mview e))(uid := Map.empty)\<rparr>"
    using cl e3(2) m3(3) m2(3) res(1) by (simp add: stats_view_def put_object_view_def)
  then show ?thesis using cl e3 d2 nk res(1) by auto
qed

lemma CompleteMultipart_get:
  assumes i: "einv e" and u: "mv_multiparts (mview e) uid = Some u"
    and ready: "parts_ready good (dview e) uid u sel content"
    and c: "CompleteMultipartUpload M B P env uid sel e = (Inr r, e')"
  shows "(\<exists>e''. GetObject M B P (mr_Bucket u) (mr_Key u) [] e' =
        (Inr \<lparr>go_Record = r, go_Body = reader_of (assembled content sel)\<rparr>, e'')) \<and>
     mv_multiparts (mview e') uid = None \<and> mv_parts (mview e') uid = Map.empty \<and>
     (\<forall>b k. dview e' b k \<noteq> dview e b k \<longrightarrow> b = mr_Bucket u \<and>
        (k = mr_Key u \<or> k \<in> multipart_part_key uid ` {1..int (length sel)}))"
proof -
  note o = CompleteMultipart_ok [OF i u ready c]
  then obtain total_sz where r: "r = complete_record P env u (sort_key cp_PartNumber sel) total_sz"
    and v: "mview e' = (stats_view (mr_Bucket u) 1 total_sz (put_object_view r (mview e)))
         \<lparr>mv_multiparts := (mv_multiparts (mview e))(uid := None), mv_parts := (mv_parts (mview e))(uid := Map.empty)\<rparr>"
    by blast
  have rec: "mv_objects (mview e') (mr_Bucket u) (mr_Key u) = Some r" "record_backend_key (mr_Key u) r = mr_Key u"
    "or_SSEAlgorithm r = []"
    using v r by (simp_all add: put_object_view_def stats_view_def complete_record_def record_backend_key_def)
  have nf: "nulfree (mr_Bucket u)" and g: "good (mr_Bucket u) (mr_Key u)"
    using ready by (auto simp: parts_ready_def object_ok_def name_ok_def)
  have "\<exists>e''. GetObject M B P (mr_Bucket u) (mr_Key u) [] e' =
      (Inr \<lparr>go_Record = r, go_Body = reader_of (assembled content sel)\<rparr>, e'')"
    by (rule GetObject_plain [OF conjunct1 [OF o] nf rec(1)]) (use rec g o in simp_all)
  with o v show ?thesis by simp
qed

lemma read_parts_frame:
  assumes "binv b" "\<forall>cp \<in> set cps. good bk (multipart_part_key u (cp_PartNumber cp))"
  shows "\<exists>rds b'. read_parts B bk u cps b = (rds, b') \<and> binv b' \<and> bview b' = bview b \<and>
     ((\<exists>cp \<in> set cps. bview b bk (multipart_part_key u (cp_PartNumber cp)) = None) \<longrightarrow> rd_err (MultiReader rds) \<noteq> None)"
  using assms
proof (induction cps arbitrary: b)
  case Nil
  then show ?case by simp
next
  case (Cons cp cps)
  let ?k = "multipart_part_key u (cp_PartNumber cp)"
  obtain rd b1 where r: "b_Read B b bk ?k = (rd, b1)" by force
  have g: "good bk ?k" using Cons.prems by auto
  have b1: "binv b1" "bview b1 = bview b" using read_frame [OF Cons.prems(1) g r] by auto
  have e: "bview b bk ?k = None \<Longrightarrow> rd_err rd \<noteq> None" using read_None [OF Cons.prems(1) g] r by simp
  from Cons.IH [OF b1(1)] Cons.prems(2) obtain rds b2 where
    h: "read_parts B bk u cps b1 = (rds, b2)" "binv b2" "bview b2 = bview b1"
    "(\<exists>cp \<in> set cps. bview b1 bk (multipart_part_key u (cp_PartNumber cp)) = None) \<longrightarrow> rd_err (MultiReader rds) \<noteq> None"
    by auto
  with r b1 e show ?case by (auto split: option.splits)
qed

text \<open>A completion that fails leaves every record and every file; one that lacks a part fails.\<close>

lemma CompleteMultipart_err:
  assumes i: "einv e" and u: "mv_multiparts (mview e) uid = Some u"
    and g: "\<forall>cp \<in> set sel. good (mr_Bucket u) (multipart_part_key uid (cp_PartNumber cp))"
      "good (mr_Bucket u) (mr_Key u)" "object_ok (mr_Bucket u) (mr_Key u)" "nulfree uid"
    and c: "CompleteMultipartUpload M B P env uid sel e = (res, e')"
  shows "(\<forall>err. res = Inl err \<longrightarrow> einv e' \<and> mview e' = mview e \<and> dview e' = dview e) \<and>
     ((\<exists>cp \<in> set sel. dview e (mr_Bucket u) (multipart_part_key uid (cp_PartNumber cp)) = None) \<longrightarrow>
        (\<exists>err. res = Inl err))"
proof -
  let ?b = "mr_Bucket u" and ?sel = "sort_key cp_PartNumber sel"
  note s = einvD [OF i]
  have mu: "m_GetMultipart M (e_meta e) uid = Inr u" using get_multipart [of "e_meta e" uid] s u by simp
  obtain ps where lp: "m_ListParts M (e_meta e) uid = Inr ps" using ListParts_ok [OF i g(4)] by blast
  show ?thesis
  proof (cases "m_GetBucket M (e_meta e) ?b")
    case (Inl err)
    with c mu i show ?thesis by (auto simp: CompleteMultipartUpload_def)
  next
    case gb: (Inr bkt)
    show ?thesis
    proof (cases "checkQuota bkt (multipartTotalSize ps sel)")
      case (Some qerr)
      with c mu gb lp i show ?thesis by (auto simp: CompleteMultipartUpload_def)
    next
      case q: None
      obtain rds b1 where rp: "read_parts B ?b uid ?sel (e_backend e) = (rds, b1)" "binv b1" "bview b1 = dview e"
        "(\<exists>cp \<in> set ?sel. dview e ?b (multipart_part_key uid (cp_PartNumber cp)) = None) \<longrightarrow> rd_err (MultiReader rds) \<noteq> None"
        using read_parts_frame [of "e_backend e" ?sel ?b uid] s g(1) by auto
      define total_sz where "total_sz = multipartTotalSize ps ?sel"
      obtain wr b2 where w: "b_Write B b1 ?b (mr_Key u) (MultiReader rds) total_sz = (wr, b2)" by force
      have asm: "assemblePartReaders B ?b uid ?sel ps (e_backend e) = ((MultiReader rds, map cp_ETag ?sel, total_sz), b1)"
        using rp by (simp add: assemblePartReaders_def total_sz_def)
      note wi = write_inv [OF rp(2) g(2) w]
      let ?e1 = "e\<lparr>e_backend := b2\<rparr>" and ?r = "complete_record P env u ?sel total_sz"
      have e1: "einv ?e1" using i wi by (simp add: einv_backend)
      show ?thesis
      proof (cases wr)
        case (Inl err)
        with c mu gb lp q asm w have "res = Inl (Wrap ''complete multipart: write final'' err)" "e' = ?e1"
          by (auto simp: CompleteMultipartUpload_def Let_def)
        with e1 write_err [OF rp(2) g(2) w [unfolded Inl]] rp(3) show ?thesis by simp
      next
        case (Inr k)
        from write_ok [OF rp(2) g(2) w [unfolded Inr]] rp(4) have
          "\<not> (\<exists>cp \<in> set sel. dview e ?b (multipart_part_key uid (cp_PartNumber cp)) = None)" by auto
        moreover have "wrote sinv view (m_PutObject M (e_meta ?e1) ?r) (put_object_view ?r (mview e))"
          using put_object [of "e_meta e" ?r] s g(3) by (simp add: complete_record_def)
        from meta_write_ok [OF e1, where w = "\<lambda>m. m_PutObject M m ?r" and wrap = "Wrap ''complete multipart: store object''"
            and x = "()", OF this] obtain m2 where
          "meta_write (\<lambda>m. m_PutObject M m ?r) (Wrap ''complete multipart: store object'') () ?e1 = (Inr (), ?e1\<lparr>e_meta := m2\<rparr>)"
          by blast
        then have "\<exists>r. res = Inr r" using c mu gb lp q asm w Inr
          by (auto simp: CompleteMultipartUpload_def Let_def complete_record_def)
        ultimately show ?thesis by auto
      qed
    qed
  qed
qed

text \<open>A completion with all its parts succeeds when the quota and the backend admit the object.\<close>

lemma CompleteMultipart_progress:
  assumes i: "einv e" and u: "mv_multiparts (mview e) uid = Some u"
    and ready: "parts_ready good (dview e) uid u sel content"
    and b: "mv_buckets (mview e) (mr_Bucket u) = Some bkt" "br_Quota bkt = None"
    and w: "\<And>sz. \<exists>n. fst (b_Write B (snd (read_parts B (mr_Bucket u) uid (sort_key cp_PartNumber sel) (e_backend e)))
        (mr_Bucket u) (mr_Key u) (reader_of (assembled content sel)) sz) = Inr n"
  shows "\<exists>r e'. CompleteMultipartUpload M B P env uid sel e = (Inr r, e')"
proof -
  let ?b = "mr_Bucket u" and ?sel = "sort_key cp_PartNumber sel"
  note s = einvD [OF i]
  have mu: "m_GetMultipart M (e_meta e) uid = Inr u" using get_multipart [of "e_meta e" uid] s u by simp
  have gb: "m_GetBucket M (e_meta e) ?b = Inr bkt" using get_bucket_Some s b(1) by blast
  obtain ps where lp: "m_ListParts M (e_meta e) uid = Inr ps" using ListParts_ok [OF i, of uid] ready unfolding parts_ready_def by blast
  obtain b1 where rp: "read_parts B ?b uid ?sel (e_backend e) =
      (map (\<lambda>cp. reader_of (content (cp_PartNumber cp))) ?sel, b1)" "binv b1" "bview b1 = dview e"
    using read_parts_ok [of "e_backend e" ?sel ?b uid content] s ready by (auto simp: parts_ready_def)
  define total_sz where "total_sz = multipartTotalSize ps ?sel"
  have "MultiReader (map (\<lambda>cp. reader_of (content (cp_PartNumber cp))) ?sel) = reader_of (assembled content sel)"
    using MultiReader_of [of "\<lambda>cp. content (cp_PartNumber cp)" ?sel] by (simp add: assembled_def)
  then have asm: "assemblePartReaders B ?b uid ?sel ps (e_backend e) = ((reader_of (assembled content sel), map cp_ETag ?sel, total_sz), b1)"
    using rp by (simp add: assemblePartReaders_def total_sz_def)
  from w [of total_sz] rp(1) obtain k b2 where wr:
    "b_Write B b1 ?b (mr_Key u) (reader_of (assembled content sel)) total_sz = (Inr k, b2)" by (metis prod.collapse snd_conv)
  let ?e1 = "e\<lparr>e_backend := b2\<rparr>" and ?r = "complete_record P env u ?sel total_sz"
  have e1: "einv ?e1" using i write_inv [OF rp(2) _ wr] ready by (simp add: einv_backend parts_ready_def)
  have "wrote sinv view (m_PutObject M (e_meta ?e1) ?r) (put_object_view ?r (mview e))"
    using put_object [of "e_meta e" ?r] s ready by (simp add: complete_record_def parts_ready_def)
  from meta_write_ok [OF e1, where w = "\<lambda>m. m_PutObject M m ?r" and wrap = "Wrap ''complete multipart: store object''"
      and x = "()", OF this] obtain m2 where
    "meta_write (\<lambda>m. m_PutObject M m ?r) (Wrap ''complete multipart: store object'') () ?e1 = (Inr (), ?e1\<lparr>e_meta := m2\<rparr>)"
    by blast
  then show ?thesis using mu gb lp asm wr b(2)
    by (auto simp: CompleteMultipartUpload_def Let_def complete_record_def checkQuota_def)
qed

lemma CreateMultipart_ok:
  assumes i: "einv e" and b: "mv_buckets (mview e) bk = Some bkt" and n: "name_ok (env_uuid env)"
  shows "\<exists>e'. CreateMultipartUpload M env bk key owner ct um e = (Inr (env_uuid env), e') \<and> einv e' \<and>
     e_backend e' = e_backend e \<and> e_masterKey e' = e_masterKey e \<and>
     mview e' = (mview e)\<lparr>mv_multiparts := (mv_multiparts (mview e))(env_uuid env \<mapsto> \<lparr>
       mr_UploadID = env_uuid env, mr_Bucket = bk, mr_Key = key, mr_Owner = owner,
       mr_ContentType = ct, mr_UserMeta = um, mr_Initiated = env_now env\<rparr>)\<rparr>"
proof -
  let ?u = "\<lparr>mr_UploadID = env_uuid env, mr_Bucket = bk, mr_Key = key, mr_Owner = owner,
       mr_ContentType = ct, mr_UserMeta = um, mr_Initiated = env_now env\<rparr>"
  have "m_BucketExists M (e_meta e) bk = Inr True" using bucket_exists einvD [OF i] b by simp
  moreover have "wrote sinv view (m_PutMultipart M (e_meta e) ?u)
      ((mview e)\<lparr>mv_multiparts := (mv_multiparts (mview e))(env_uuid env \<mapsto> ?u)\<rparr>)"
    using put_multipart [of "e_meta e" ?u] einvD [OF i] n by simp
  from meta_write_ok [OF i, where w = "\<lambda>m. m_PutMultipart M m ?u" and wrap = "Wrap ''create multipart: store''"
      and x = "env_uuid env", OF this] obtain m where
    "meta_write (\<lambda>m. m_PutMultipart M m ?u) (Wrap ''create multipart: store'') (env_uuid env) e = (Inr (env_uuid env), e\<lparr>e_meta := m\<rparr>)"
    "einv (e\<lparr>e_meta := m\<rparr>)" "view m = (mview e)\<lparr>mv_multiparts := (mv_multiparts (mview e))(env_uuid env \<mapsto> ?u)\<rparr>" by blast
  ultimately show ?thesis by (intro exI [of _ "e\<lparr>e_meta := m\<rparr>"]) (simp add: CreateMultipartUpload_def)
qed

section \<open>Lifecycle\<close>

lemma delete_step:
  assumes i: "einv e" and b: "mv_buckets (mview e) bk = Some bkt"
    and s: "all_stored good (dview e) (mview e)" "files_disjoint (mview e)"
    and n: "br_Versioning bkt = VersioningEnabled \<longrightarrow> version_ok bk k (env_uuid env)"
    and d: "DeleteObject M B env \<lparr>di_Bucket = bk, di_Key = k, di_VersionID = [], di_Owner = ow\<rparr> e = (res, e')"
  shows "einv e' \<and> all_stored good (dview e') (mview e') \<and> files_disjoint (mview e') \<and>
     (\<exists>bkt'. mv_buckets (mview e') bk = Some bkt' \<and> br_Versioning bkt' = br_Versioning bkt) \<and>
     (\<forall>b' k'. mv_objects (mview e') b' k' = (if b' = bk \<and> k' = k then None else mv_objects (mview e) b' k'))"
proof -
  let ?inp = "\<lparr>di_Bucket = bk, di_Key = k, di_VersionID = [], di_Owner = ow\<rparr>"
  have free: "\<forall>r. mv_objects (mview e) bk k = Some r \<longrightarrow> backend_key_free (mview e) bk k (record_backend_key k r)"
    using files_disjoint_free [OF s(2)] by blast
  have b': "mv_buckets (mview e) (di_Bucket ?inp) = Some bkt" using b by simp
  have gone: "einv e'" "mv_objects (mview e') bk k = None"
  proof -
    obtain out e2 where "DeleteObject M B env ?inp e = (Inr out, e2)" "einv e2"
      "HeadObject M e2 bk k = Inl (ObjectNotFoundError bk k)"
      using delete_then_get [where P = undefined and env = env and inp = ?inp, OF i b' _ s(1)] n by auto
    with d have h: "einv e'" "HeadObject M e' bk k = Inl (ObjectNotFoundError bk k)" by auto
    have "nulfree bk" using bucket_named [OF conjunct1 [OF einvD [OF i]] b] by (simp add: name_ok_def)
    with h show "einv e'" "mv_objects (mview e') bk k = None"
      using get_object [of "e_meta e'" bk k] einvD [OF h(1)]
      by (cases "mv_objects (mview e') bk k"; auto simp: HeadObject_def)+
  qed
  have fr: "all_stored good (dview e') (mview e')"
    "\<forall>b' k'. (b', k') \<noteq> (bk, k) \<longrightarrow> mv_objects (mview e') b' k' = mv_objects (mview e) b' k'"
    using delete_frame_objects [OF i b' _ s(1) _ _ d] n free by auto
  have objs: "mv_objects (mview e') b' k' = (if b' = bk \<and> k' = k then None else mv_objects (mview e) b' k')" for b' k'
    using gone(2) fr(2) by auto
  have fd: "files_disjoint (mview e')" using s(2) unfolding files_disjoint_def objs by (auto split: if_splits)
  have "\<exists>bkt'. mv_buckets (mview e') bk = Some bkt' \<and> br_Versioning bkt' = br_Versioning bkt"
  proof (cases "br_Versioning bkt = VersioningEnabled")
    case True
    with delete_versioned [where env = env and inp = ?inp, OF i b' True] n d b show ?thesis by auto
  next
    case False
    show ?thesis
    proof (cases "mv_objects (mview e) bk k")
      case None
      with delete_absent [where env = env and inp = ?inp, OF i b' False] d b show ?thesis by auto
    next
      case (Some r)
      with all_storedD [OF s(1) Some] have "good bk (record_backend_key k r)"
        "dview e bk (record_backend_key k r) \<noteq> None" by (auto simp: object_stored_def)
      with delete_unversioned [where env = env and inp = ?inp, OF i b' False] Some d b show ?thesis
        by (auto simp: stats_view_def add_stats_def)
    qed
  qed
  with gone(1) fr(1) fd objs show ?thesis by blast
qed

lemma expire_loop_ok:
  assumes "einv e" "mv_buckets (mview e) bk = Some bkt"
    "all_stored good (dview e) (mview e)" "files_disjoint (mview e)"
    "\<forall>i. \<forall>x \<in> set objs. br_Versioning bkt = VersioningEnabled \<longrightarrow> version_ok bk (or_Key x) (env_uuid (envs i))"
  shows "einv (expire_loop M B envs bk flt th objs e) \<and>
     all_stored good (dview (expire_loop M B envs bk flt th objs e)) (mview (expire_loop M B envs bk flt th objs e)) \<and>
     (\<forall>b' k'. mv_objects (mview (expire_loop M B envs bk flt th objs e)) b' k' =
       (if b' = bk \<and> (\<exists>x \<in> set objs. or_Key x = k' \<and> expired x flt th) then None else mv_objects (mview e) b' k'))"
  using assms
proof (induction objs arbitrary: e envs bkt)
  case Nil
  then show ?case by simp
next
  case (Cons x objs)
  show ?case
  proof (cases "expired x flt th")
    case False
    with Cons.IH [OF Cons.prems(1-4), of envs] Cons.prems(5) show ?thesis by (auto simp: expired_def)
  next
    case True
    obtain res e1 where d: "DeleteObject M B (envs 0)
        \<lparr>di_Bucket = bk, di_Key = or_Key x, di_VersionID = [], di_Owner = []\<rparr> e = (res, e1)" by force
    have "br_Versioning bkt = VersioningEnabled \<longrightarrow> version_ok bk (or_Key x) (env_uuid (envs 0))" using Cons.prems(5) by simp
    from delete_step [OF Cons.prems(1-4) this d] obtain bkt' where
      st: "einv e1" "mv_buckets (mview e1) bk = Some bkt'" "all_stored good (dview e1) (mview e1)" "files_disjoint (mview e1)"
        "br_Versioning bkt' = br_Versioning bkt"
      and ob: "\<forall>b' k'. mv_objects (mview e1) b' k' = (if b' = bk \<and> k' = or_Key x then None else mv_objects (mview e) b' k')"
      by blast
    have "\<forall>i. \<forall>x \<in> set objs. br_Versioning bkt' = VersioningEnabled \<longrightarrow> version_ok bk (or_Key x) (env_uuid (envs (Suc i)))"
      using Cons.prems(5) st(5) by simp
    from Cons.IH [OF st(1-4) this] True d ob show ?thesis by (auto simp: expired_def)
  qed
qed

text \<open>A rule removes, of the first thousand objects under its prefix, the expired ones and nothing else.\<close>

lemma expireObjects_ok:
  assumes i: "einv e" and b: "mv_buckets (mview e) bk = Some bkt"
    and s: "all_stored good (dview e) (mview e)" "files_disjoint (mview e)"
    and n: "\<forall>i k. br_Versioning bkt = VersioningEnabled \<longrightarrow> mv_objects (mview e) bk k \<noteq> None \<longrightarrow>
      version_ok bk k (env_uuid (envs i))"
    and x: "expireObjects M B envs bk rule now e = (res, e')"
  shows "res = Inr () \<and> einv e' \<and> all_stored good (dview e') (mview e') \<and>
     (\<exists>xs. sorted_wrt (<) (map or_Key xs) \<and>
       (\<forall>r. r \<in> set xs \<longleftrightarrow> mv_objects (mview e) bk (or_Key r) = Some r \<and> prefix (lf_Prefix (lr_Filter rule)) (or_Key r)) \<and>
       (\<forall>b' k'. mv_objects (mview e') b' k' =
         (if b' = bk \<and> (\<exists>r \<in> set (take 1000 xs). or_Key r = k' \<and>
             expired r (lr_Filter rule) (days_before now (ExpirationDays rule)))
          then None else mv_objects (mview e) b' k')))"
proof -
  let ?o = "\<lparr>lo_Prefix = lf_Prefix (lr_Filter rule), lo_Delimiter = [], lo_ContinuationToken = [],
              lo_StartAfter = [], lo_MaxKeys = 1000\<rparr>"
  have nf: "nulfree bk" using bucket_named [OF conjunct1 [OF einvD [OF i]] b] by (simp add: name_ok_def)
  from list_objects [of "e_meta e" bk ?o] einvD [OF i] nf obtain xs where
    xs: "m_ListObjects M (e_meta e) bk ?o = Inr (take 1000 xs, [])" "sorted_wrt (<) (map or_Key xs)"
    "\<forall>r. r \<in> set xs \<longleftrightarrow> mv_objects (mview e) bk (or_Key r) = Some r \<and> prefix (lf_Prefix (lr_Filter rule)) (or_Key r)"
    by (auto simp: max_keys_def)
  have "\<forall>i. \<forall>x \<in> set (take 1000 xs). br_Versioning bkt = VersioningEnabled \<longrightarrow> version_ok bk (or_Key x) (env_uuid (envs i))"
    using n xs(3) by (auto dest!: in_set_takeD)
  from expire_loop_ok [OF i b s this, of "lr_Filter rule" "days_before now (ExpirationDays rule)"] x xs show ?thesis
    by (auto simp: expireObjects_def)
qed

end

end
