(* ===== verification/Engine_Buckets.thy ===== *)
theory Engine_Buckets
  imports Engine_Multipart
begin

text \<open>
  Buckets over the two contracts: creation, deletion, and the accessors of the configuration, each
  of which changes one field of one bucket record.
\<close>

section \<open>Bucket names\<close>

lemma bucketNameRe_alnum: "bucketNameRe s \<Longrightarrow> c \<in> set s \<Longrightarrow> lower_alnum c \<or> c = CHR ''-''"
proof (cases s)
  case (Cons d ds)
  assume a: "bucketNameRe s" "c \<in> set s"
  from a(1) Cons have "ds \<noteq> []" by simp
  then have "ds = butlast ds @ [last ds]" by simp
  then have "set ds = insert (last ds) (set (butlast ds))" by (metis set_append Un_insert_right list.simps(15) set_empty sup_bot_right list.set(1))
  with a Cons show ?thesis by (auto simp: list_all_iff)
qed simp

lemma not_lower_alnum:
  "\<not> lower_alnum NUL" "\<not> lower_alnum (CHR ''/'')" "\<not> lower_alnum (CHR 0x5C)" "\<not> lower_alnum (CHR ''.'')"
  "\<not> lower_alnum (CHR ''-'')"
  by code_simp+

lemma lower_alnum_plain: "lower_alnum c \<Longrightarrow> c \<noteq> NUL \<and> c \<noteq> CHR ''/'' \<and> c \<noteq> CHR 0x5C \<and> c \<noteq> CHR ''.''"
  using not_lower_alnum by metis

lemma Index_None: "c \<in> set sub \<Longrightarrow> c \<notin> set s \<Longrightarrow> Index s sub = None"
  by (induction s) (auto dest: set_mono_prefix [THEN subsetD])

lemma bucketNameRe_iff: "bucketNameRe s \<longleftrightarrow> 3 \<le> length s \<and> length s \<le> 63 \<and> lower_alnum (hd s) \<and> lower_alnum (last s) \<and>
    (\<forall>c \<in> set s. lower_alnum c \<or> c = CHR ''-'')"
proof (cases s)
  case (Cons d ds)
  show ?thesis
  proof (cases "ds = []")
    case False
    then have "ds = butlast ds @ [last ds]" by simp
    then have "set ds = insert (last ds) (set (butlast ds))"
      by (metis Un_insert_right list.set(1) list.simps(15) set_append sup_bot_right)
    with Cons False show ?thesis by (auto simp: list_all_iff)
  qed (simp add: Cons)
qed simp

text \<open>
  A name passes the check if and only if it has 3 to 63 lower case letters, digits and hyphens and
  starts and ends with a letter or digit. The search for \<open>..\<close>, \<open>.-\<close> and \<open>-.\<close> never finds one: the
  expression before it admits no dot.
\<close>

lemma validateBucketName_None_iff:
  "validateBucketName s = None \<longleftrightarrow> 3 \<le> length s \<and> length s \<le> 63 \<and> lower_alnum (hd s) \<and> lower_alnum (last s) \<and>
     (\<forall>c \<in> set s. lower_alnum c \<or> c = CHR ''-'')"
proof -
  have "\<not> Contains s ''..'' \<and> \<not> Contains s ''.-'' \<and> \<not> Contains s ''-.''" if "\<forall>c \<in> set s. lower_alnum c \<or> c = CHR ''-''"
  proof -
    have "CHR ''.'' \<notin> set s" using that not_lower_alnum(4) by fastforce
    then show ?thesis using Index_None [of "CHR ''.''" _ s] by (simp add: Contains_def)
  qed
  then show ?thesis using bucketNameRe_iff [of s] by (auto simp: validateBucketName_def)
qed

lemma valid_bucket_plain: "validateBucketName s = None \<Longrightarrow> c \<in> set s \<Longrightarrow> c \<noteq> NUL \<and> c \<noteq> CHR ''/'' \<and> c \<noteq> CHR 0x5C \<and> c \<noteq> CHR ''.''"
  using lower_alnum_plain by (auto simp: validateBucketName_None_iff)

lemma valid_bucket_name_ok: "validateBucketName s = None \<Longrightarrow> name_ok s"
  using valid_bucket_plain [of s NUL] by (auto simp: name_ok_def nulfree_def max_key_size_def validateBucketName_None_iff)

section \<open>The record of a new bucket\<close>

definition new_bucket :: "env \<Rightarrow> string \<Rightarrow> string \<Rightarrow> string \<Rightarrow> bucket_record" where
  "new_bucket env name owner region = \<lparr>
     br_Name = name, br_CreatedAt = env_now env, br_Owner = owner, br_Region = region,
     br_Versioning = ''disabled'', br_ACL = ''private'', br_ObjectCount = 0,
     br_TotalBytes = 0, br_Policy = [], br_CORSRules = [], br_LifecycleRules = [],
     br_Tags = [], br_SSEAlgorithm = [], br_Quota = None, br_Website = None,
     br_Notifications = None, br_Replication = None\<rparr>"

definition put_bucket_view :: "bucket_record \<Rightarrow> meta_view \<Rightarrow> meta_view" where
  "put_bucket_view r w = w\<lparr>mv_buckets := (mv_buckets w)(br_Name r \<mapsto> r)\<rparr>"

context storage_engine
begin

lemma CreateBucket_cases:
  assumes i: "einv e" and c: "CreateBucket M B env name owner region e = (res, e')"
  shows "einv e' \<and> dview e' = dview e \<and> e_masterKey e' = e_masterKey e \<and> (case res of
      Inl err \<Rightarrow> mview e' = mview e
    | Inr _ \<Rightarrow> validateBucketName name = None \<and> mv_buckets (mview e) name = None \<and>
        mview e' = put_bucket_view (new_bucket env name owner region) (mview e))"
proof -
  note s = einvD [OF i]
  have ex: "m_BucketExists M (e_meta e) name = Inr (mv_buckets (mview e) name \<noteq> None)"
    using bucket_exists s by blast
  show ?thesis
  proof (cases "validateBucketName name = None \<and> mv_buckets (mview e) name = None")
    case False
    with c ex i show ?thesis by (auto simp: CreateBucket_def split: option.splits bool.splits)
  next
    case True
    define e1 where "e1 = (case b_CreateBucketDir B of None \<Rightarrow> e
        | Some f \<Rightarrow> e\<lparr>e_backend := snd (f (e_backend e) name)\<rparr>)"
    have e1: "einv e1" "mview e1 = mview e" "dview e1 = dview e" "e_masterKey e1 = e_masterKey e" "e_meta e1 = e_meta e"
      using i s by (auto simp: e1_def split: option.splits intro!: einv_backend) (metis mkbucket prod.collapse)+
    let ?r = "new_bucket env name owner region"
    have "wrote sinv view (m_PutBucket M (e_meta e1) ?r) (put_bucket_view ?r (mview e))"
      using put_bucket [of "e_meta e" ?r] s valid_bucket_name_ok [of name] True e1(5)
      by (simp add: new_bucket_def put_bucket_view_def)
    from meta_write_ok [OF e1(1), where w = "\<lambda>m. m_PutBucket M m ?r" and wrap = "Wrap ''create bucket: store''"
        and x = "()", OF this] obtain m where m:
      "meta_write (\<lambda>m. m_PutBucket M m ?r) (Wrap ''create bucket: store'') () e1 = (Inr (), e1\<lparr>e_meta := m\<rparr>)"
      "einv (e1\<lparr>e_meta := m\<rparr>)" "view m = put_bucket_view ?r (mview e)" by auto
    have "e' = e1 \<and> isl res \<or> (res, e') = (Inr (), e1\<lparr>e_meta := m\<rparr>)"
      using c ex True m(1) e1(5)
      by (auto simp: CreateBucket_def e1_def new_bucket_def split: option.splits prod.splits)
    with e1 m True show ?thesis by (auto split: sum.splits)
  qed
qed

lemma HeadBucket_eq:
  assumes "einv e"
  shows "HeadBucket M e name = (case mv_buckets (mview e) name of
      Some r \<Rightarrow> Inr r | None \<Rightarrow> Inl (BucketNotFoundError name))"
  using get_bucket [of "e_meta e" name] einvD [OF assms]
  by (cases "mv_buckets (mview e) name") (auto simp: HeadBucket_def)

lemma DeleteBucket_cases:
  assumes i: "einv e" and c: "DeleteBucket M B name e = (res, e')"
  shows "einv e' \<and> dview e' = dview e \<and> e_masterKey e' = e_masterKey e \<and> (case res of
      Inl err \<Rightarrow> mview e' = mview e
    | Inr _ \<Rightarrow> (\<exists>r. mv_buckets (mview e) name = Some r \<and> sint (br_ObjectCount r) \<le> 0) \<and>
        mview e' = (mview e)\<lparr>mv_buckets := (mv_buckets (mview e))(name := None)\<rparr>) \<and>
     (\<forall>r. mv_buckets (mview e) name = Some r \<longrightarrow> 0 < sint (br_ObjectCount r) \<longrightarrow> res = Inl (BucketNotEmptyError name)) \<and>
     (mv_buckets (mview e) name = None \<longrightarrow> res = Inl (BucketNotFoundError name))"
proof -
  note s = einvD [OF i]
  show ?thesis
  proof (cases "mv_buckets (mview e) name")
    case None
    from get_bucket_None [OF conjunct1 [OF s] None] obtain err where
      "m_GetBucket M (e_meta e) name = Inl err" "isNotFound err" by blast
    with None c i show ?thesis by (auto simp: DeleteBucket_def)
  next
    case (Some r)
    have g: "m_GetBucket M (e_meta e) name = Inr r" using get_bucket_Some s Some by blast
    show ?thesis
    proof (cases "0 < sint (br_ObjectCount r)")
      case True
      with c g i Some show ?thesis by (auto simp: DeleteBucket_def)
    next
      case False
      define e1 where "e1 = (case b_DeleteBucketDir B of None \<Rightarrow> e
          | Some f \<Rightarrow> e\<lparr>e_backend := snd (f (e_backend e) name)\<rparr>)"
      have e1: "einv e1" "mview e1 = mview e" "dview e1 = dview e" "e_masterKey e1 = e_masterKey e" "e_meta e1 = e_meta e"
        using i s by (auto simp: e1_def split: option.splits intro!: einv_backend) (metis rmbucket prod.collapse)+
      from delete_bucket [of "e_meta e" name] s have
        "wrote sinv view (m_DeleteBucket M (e_meta e1) name) ((mview e)\<lparr>mv_buckets := (mv_buckets (mview e))(name := None)\<rparr>)"
        using e1(5) by simp
      from meta_write_ok [OF e1(1), where w = "\<lambda>m. m_DeleteBucket M m name" and wrap = "\<lambda>err. err"
          and x = "()", OF this] obtain m where m:
        "meta_write (\<lambda>m. m_DeleteBucket M m name) (\<lambda>err. err) () e1 = (Inr (), e1\<lparr>e_meta := m\<rparr>)"
        "einv (e1\<lparr>e_meta := m\<rparr>)" "view m = (mview e)\<lparr>mv_buckets := (mv_buckets (mview e))(name := None)\<rparr>" by auto
      have "e' = e1 \<and> isl res \<or> (res, e') = (Inr (), e1\<lparr>e_meta := m\<rparr>)"
        using c g False m(1) e1(5)
        by (auto simp: DeleteBucket_def e1_def split: option.splits prod.splits)
      with e1 m False Some show ?thesis by (auto split: sum.splits)
    qed
  qed
qed

section \<open>The configuration accessors\<close>

lemma modify_bucket_cases:
  assumes i: "einv e" and f: "\<And>r r'. f r = Inr r' \<Longrightarrow> br_Name r' = br_Name r"
    and c: "modify_bucket what wrap f M name e = (res, e')"
  shows "einv e' \<and> dview e' = dview e \<and> (case mv_buckets (mview e) name of
      None \<Rightarrow> res = Inl (BucketNotFoundError name) \<and> e' = e
    | Some r \<Rightarrow> (case f r of
          Inl err \<Rightarrow> res = Inl err \<and> e' = e
        | Inr r' \<Rightarrow> res = Inr () \<and> mview e' = (mview e)\<lparr>mv_buckets := (mv_buckets (mview e))(name \<mapsto> r')\<rparr>))"
proof -
  note s = einvD [OF i]
  show ?thesis
  proof (cases "mv_buckets (mview e) name")
    case None
    from get_bucket_None [OF conjunct1 [OF s] None] obtain err where
      "m_GetBucket M (e_meta e) name = Inl err" "isNotFound err" by blast
    with None c i show ?thesis by (auto simp: modify_bucket_def)
  next
    case (Some r)
    have g: "m_GetBucket M (e_meta e) name = Inr r" using get_bucket_Some s Some by blast
    show ?thesis
    proof (cases "f r")
      case (Inl err)
      with c g Some i show ?thesis by (auto simp: modify_bucket_def)
    next
      case (Inr r')
      have nm: "br_Name r' = name" "name_ok name" using f [OF Inr] bucket_named [OF conjunct1 [OF s] Some] by auto
      have "wrote sinv view (m_PutBucket M (e_meta e) r') ((mview e)\<lparr>mv_buckets := (mv_buckets (mview e))(name \<mapsto> r')\<rparr>)"
        using put_bucket [of "e_meta e" r'] s nm by simp
      from meta_write_ok [OF i, where w = "\<lambda>m. m_PutBucket M m r'" and wrap = wrap and x = "()", OF this] c g Some Inr
      show ?thesis by (auto simp: modify_bucket_def)
    qed
  qed
qed

lemma read_bucket_eq:
  assumes "einv e"
  shows "read_bucket what f M e name = (case mv_buckets (mview e) name of
      Some r \<Rightarrow> Inr (f r) | None \<Rightarrow> Inl (BucketNotFoundError name))"
  using get_bucket [of "e_meta e" name] einvD [OF assms]
  by (cases "mv_buckets (mview e) name") (auto simp: read_bucket_def)

end

end
