(* ===== verification/Bolt_Store.thy ===== *)
theory Bolt_Store
  imports Meta_Interface "HOL-Library.Product_Lexorder"
begin

text \<open>
  The bbolt implementation of the metadata store (internal/metadata/bbolt/bbolt.go). The database
  itself (go.etcd.io/bbolt) is not part of the repository: it is the parameter \<open>K\<close>, a record of
  the operations the store calls over a database state \<open>'db\<close>, and the locale \<open>bolt_db\<close> states what
  bbolt documents about them: \<open>Get\<close> after \<open>Put\<close> and \<open>Delete\<close>, a cursor that visits the keys in byte
  order from the sought key on, keys that are not empty and at most 32768 bytes long, and a commit
  that keeps what the transaction wrote.

  First come the operations of \<open>Store\<close> as the file has them, then the proof that they satisfy the
  interface \<open>metadata_store\<close>, at last a reference database that meets the laws of \<open>bolt_db\<close>.
\<close>

record 'db bolt =
  db_Get :: "'db \<Rightarrow> string \<Rightarrow> string \<Rightarrow> json option"
  db_Put :: "'db \<Rightarrow> string \<Rightarrow> string \<Rightarrow> json \<Rightarrow> 'db result"
  db_Delete :: "'db \<Rightarrow> string \<Rightarrow> string \<Rightarrow> 'db result"
  db_Seek :: "'db \<Rightarrow> string \<Rightarrow> string \<Rightarrow> (string \<times> json) list"
  db_Commit :: "'db \<Rightarrow> 'db result"

section \<open>The operations of the store\<close>

abbreviation "bucketsBucket \<equiv> ''buckets''"
abbreviation "objectsBucket \<equiv> ''objects''"
abbreviation "versionsBucket \<equiv> ''versions''"
abbreviation "multipartBucket \<equiv> ''multipart''"
abbreviation "partsBucket \<equiv> ''parts''"
abbreviation "keysBucket \<equiv> ''keys''"

text \<open>\<open>db.Update\<close>: an error of the function rolls the transaction back, otherwise it commits.\<close>

definition db_Update :: "'db bolt \<Rightarrow> ('db \<Rightarrow> 'db result) \<Rightarrow> 'db \<Rightarrow> 'db result" where
  "db_Update K f db = (case f db of Inl e \<Rightarrow> Inl e | Inr tx \<Rightarrow> db_Commit K tx)"

text \<open>\<open>bkt.ForEach\<close> visits every pair of a database bucket in key order.\<close>

definition db_ForEach :: "'db bolt \<Rightarrow> 'db \<Rightarrow> string \<Rightarrow> (string \<times> json) list" where
  "db_ForEach K db bkt = db_Seek K db bkt []"

subsection \<open>Helpers: put, get, delete, and the decoding loop of the listings\<close>

definition store_put :: "'db bolt \<Rightarrow> string \<Rightarrow> string \<Rightarrow> json \<Rightarrow> 'db \<Rightarrow> 'db result" where
  "store_put K bktName key data db = db_Update K (\<lambda>tx. db_Put K tx bktName key data) db"

definition store_get ::
    "'db bolt \<Rightarrow> string \<Rightarrow> string \<Rightarrow> (json \<Rightarrow> 'a option) \<Rightarrow> 'db \<Rightarrow> 'a result" where
  "store_get K bktName key unmarshal db =
     (case db_Get K db bktName key of
        None \<Rightarrow> Inl (MetaNotFound bktName key)
      | Some v \<Rightarrow>
          (case unmarshal v of
             None \<Rightarrow> Inl (Errorf ''bbolt get: unmarshal'' [])
           | Some r \<Rightarrow> Inr r))"

definition store_delete :: "'db bolt \<Rightarrow> string \<Rightarrow> string \<Rightarrow> 'db \<Rightarrow> 'db result" where
  "store_delete K bktName key db = db_Update K (\<lambda>tx. db_Delete K tx bktName key) db"

fun decode_all :: "string \<Rightarrow> (json \<Rightarrow> 'a option) \<Rightarrow> (string \<times> json) list \<Rightarrow> 'a list result" where
  "decode_all what unmarshal [] = Inr []"
| "decode_all what unmarshal ((k, v) # kvs) =
     (case unmarshal v of
        None \<Rightarrow> Inl (Errorf what [])
      | Some r \<Rightarrow>
          (case decode_all what unmarshal kvs of Inl e \<Rightarrow> Inl e | Inr rs \<Rightarrow> Inr (r # rs)))"

text \<open>The cursor loop \<open>for k, v := c.Seek(prefix); k != nil && HasPrefix(k, prefix); k, v = c.Next()\<close>.\<close>

definition scan :: "'db bolt \<Rightarrow> 'db \<Rightarrow> string \<Rightarrow> string \<Rightarrow> (string \<times> json) list" where
  "scan K db bkt pfx = takeWhile (\<lambda>(k, v). HasPrefix k pfx) (db_Seek K db bkt pfx)"

subsection \<open>Buckets\<close>

definition bb_PutBucket :: "'db bolt \<Rightarrow> 'db \<Rightarrow> bucket_record \<Rightarrow> 'db result" where
  "bb_PutBucket K db b = store_put K bucketsBucket (br_Name b) (JBucket b) db"

definition bb_GetBucket :: "'db bolt \<Rightarrow> 'db \<Rightarrow> string \<Rightarrow> bucket_record result" where
  "bb_GetBucket K db name = store_get K bucketsBucket name unmarshal_bucket db"

definition bb_DeleteBucket :: "'db bolt \<Rightarrow> 'db \<Rightarrow> string \<Rightarrow> 'db result" where
  "bb_DeleteBucket K db name = store_delete K bucketsBucket name db"

definition bb_ListBuckets :: "'db bolt \<Rightarrow> 'db \<Rightarrow> bucket_record list result" where
  "bb_ListBuckets K db =
     (case decode_all ''bbolt: unmarshal bucket'' unmarshal_bucket (db_ForEach K db bucketsBucket) of
        Inl e \<Rightarrow> Inl e
      | Inr out \<Rightarrow> Inr (sort_key br_Name out))"

definition bb_BucketExists :: "'db bolt \<Rightarrow> 'db \<Rightarrow> string \<Rightarrow> bool result" where
  "bb_BucketExists K db name = Inr (db_Get K db bucketsBucket name \<noteq> None)"

text \<open>\<open>UpdateBucketStats\<close> reads, adjusts and writes the record in one transaction.\<close>

definition bb_UpdateBucketStats :: "'db bolt \<Rightarrow> 'db \<Rightarrow> string \<Rightarrow> int64 \<Rightarrow> int64 \<Rightarrow> 'db result" where
  "bb_UpdateBucketStats K db bucket deltaCount deltaBytes =
     db_Update K (\<lambda>tx.
       case db_Get K tx bucketsBucket bucket of
         None \<Rightarrow> Inl (MetaNotFound ''bucket'' bucket)
       | Some v \<Rightarrow>
           (case unmarshal_bucket v of
              None \<Rightarrow> Inl (Errorf ''bbolt: unmarshal bucket'' [])
            | Some r \<Rightarrow>
                db_Put K tx bucketsBucket bucket
                  (JBucket (r\<lparr>br_ObjectCount := br_ObjectCount r + deltaCount,
                              br_TotalBytes := br_TotalBytes r + deltaBytes\<rparr>)))) db"

subsection \<open>Objects\<close>

definition object_key :: "string \<Rightarrow> string \<Rightarrow> string" where
  "object_key bucket key = bucket @ NUL # key"

definition bb_PutObject :: "'db bolt \<Rightarrow> 'db \<Rightarrow> object_record \<Rightarrow> 'db result" where
  "bb_PutObject K db x = store_put K objectsBucket (object_key (or_Bucket x) (or_Key x)) (JObject x) db"

definition bb_GetObject :: "'db bolt \<Rightarrow> 'db \<Rightarrow> string \<Rightarrow> string \<Rightarrow> object_record result" where
  "bb_GetObject K db bucket key = store_get K objectsBucket (object_key bucket key) unmarshal_object db"

definition bb_DeleteObject :: "'db bolt \<Rightarrow> 'db \<Rightarrow> string \<Rightarrow> string \<Rightarrow> 'db result" where
  "bb_DeleteObject K db bucket key = store_delete K objectsBucket (object_key bucket key) db"

definition bb_ObjectExists :: "'db bolt \<Rightarrow> 'db \<Rightarrow> string \<Rightarrow> string \<Rightarrow> bool result" where
  "bb_ObjectExists K db bucket key = Inr (db_Get K db objectsBucket (object_key bucket key) \<noteq> None)"

text \<open>
  The loop of \<open>ListObjects\<close>. \<open>prefixSet\<close> is a list without duplicates; the loop leaves it unsorted.
  A key that the delimiter groups never counts against \<open>MaxKeys\<close>; the limit is checked when a
  record is about to be appended.
\<close>

fun list_loop :: "string \<Rightarrow> list_options \<Rightarrow> string \<Rightarrow> object_record list \<Rightarrow> string list \<Rightarrow>
    (string \<times> json) list \<Rightarrow> (object_record list \<times> string list) result" where
  "list_loop bucket opts pfx records prefixSet [] = Inr (records, prefixSet)"
| "list_loop bucket opts pfx records prefixSet ((ks, v) # rest) =
     (if \<not> HasPrefix ks pfx then Inr (records, prefixSet)
      else
        let objectKey = TrimPrefix ks (object_key bucket []);
            afterPrefix = TrimPrefix objectKey (lo_Prefix opts)
        in (case (if lo_Delimiter opts \<noteq> [] then Index afterPrefix (lo_Delimiter opts) else None) of
              Some idx \<Rightarrow>
                let cp = lo_Prefix opts @ take (idx + length (lo_Delimiter opts)) afterPrefix
                in list_loop bucket opts pfx records (List.insert cp prefixSet) rest
            | None \<Rightarrow>
                if length records + length prefixSet \<ge> max_keys opts then Inr (records, prefixSet)
                else (case unmarshal_object v of
                        None \<Rightarrow> Inl (Errorf ''bbolt: unmarshal object'' [])
                      | Some rec \<Rightarrow>
                          list_loop bucket opts pfx (records @ [rec]) prefixSet rest)))"

definition start_after_key :: "string \<Rightarrow> list_options \<Rightarrow> string" where
  "start_after_key bucket opts =
     (if lo_ContinuationToken opts \<noteq> [] then lo_ContinuationToken opts
      else if lo_StartAfter opts \<noteq> [] then object_key bucket (lo_StartAfter opts)
      else [])"

definition bb_ListObjects ::
    "'db bolt \<Rightarrow> 'db \<Rightarrow> string \<Rightarrow> list_options \<Rightarrow> (object_record list \<times> string list) result" where
  "bb_ListObjects K db bucket opts =
     (let pfx = object_key bucket (lo_Prefix opts);
          startAfterKey = start_after_key bucket opts;
          kvs = (if startAfterKey \<noteq> [] then db_Seek K db objectsBucket (startAfterKey @ [CHR 0x01])
                 else db_Seek K db objectsBucket pfx)
      in (case list_loop bucket opts pfx [] [] kvs of
            Inl e \<Rightarrow> Inl e
          | Inr (records, prefixSet) \<Rightarrow> Inr (records, sort prefixSet)))"

subsection \<open>Versions\<close>

definition versionKey :: "string \<Rightarrow> string \<Rightarrow> string \<Rightarrow> string" where
  "versionKey bucket key versionID = bucket @ NUL # key @ NUL # versionID"

definition versionPrefix :: "string \<Rightarrow> string \<Rightarrow> string" where
  "versionPrefix bucket key = bucket @ NUL # key @ [NUL]"

definition bb_PutVersion :: "'db bolt \<Rightarrow> 'db \<Rightarrow> version_record \<Rightarrow> 'db result" where
  "bb_PutVersion K db v =
     store_put K versionsBucket (versionKey (vr_Bucket v) (vr_Key v) (vr_VersionID v)) (JVersion v) db"

definition bb_GetVersion ::
    "'db bolt \<Rightarrow> 'db \<Rightarrow> string \<Rightarrow> string \<Rightarrow> string \<Rightarrow> version_record result" where
  "bb_GetVersion K db bucket key versionID =
     store_get K versionsBucket (versionKey bucket key versionID) unmarshal_version db"

text \<open>\<open>sort.Slice\<close> does not say how it orders equal elements; the model keeps their order.\<close>

definition bb_ListVersions :: "'db bolt \<Rightarrow> 'db \<Rightarrow> string \<Rightarrow> string \<Rightarrow> version_record list result" where
  "bb_ListVersions K db bucket key =
     (case decode_all ''bbolt: unmarshal version'' unmarshal_version
             (scan K db versionsBucket (versionPrefix bucket key)) of
        Inl e \<Rightarrow> Inl e
      | Inr out \<Rightarrow> Inr (sort_key (\<lambda>v. - vr_LastModified v) out))"

definition bb_ListBucketVersions ::
    "'db bolt \<Rightarrow> 'db \<Rightarrow> string \<Rightarrow> list_options \<Rightarrow> version_record list result" where
  "bb_ListBucketVersions K db bucket opts =
     (case decode_all ''bbolt: unmarshal version'' unmarshal_version
             (take (max_keys opts) (scan K db versionsBucket (object_key bucket (lo_Prefix opts)))) of
        Inl e \<Rightarrow> Inl e
      | Inr out \<Rightarrow> Inr (sort_key (\<lambda>v. (vr_Key v, - vr_LastModified v)) out))"

definition bb_DeleteVersion :: "'db bolt \<Rightarrow> 'db \<Rightarrow> string \<Rightarrow> string \<Rightarrow> string \<Rightarrow> 'db result" where
  "bb_DeleteVersion K db bucket key versionID =
     store_delete K versionsBucket (versionKey bucket key versionID) db"

fun mark_updates :: "(string \<times> json) list \<Rightarrow> (string \<times> json) list result" where
  "mark_updates [] = Inr []"
| "mark_updates ((k, v) # kvs) =
     (case unmarshal_version v of
        None \<Rightarrow> Inl (Errorf ''bbolt: unmarshal version'' [])
      | Some r \<Rightarrow>
          (case mark_updates kvs of
             Inl e \<Rightarrow> Inl e
           | Inr us \<Rightarrow>
               Inr (if vr_IsLatest r then (k, JVersion (r\<lparr>vr_IsLatest := False\<rparr>)) # us else us)))"

fun put_all :: "'db bolt \<Rightarrow> string \<Rightarrow> (string \<times> json) list \<Rightarrow> 'db \<Rightarrow> 'db result" where
  "put_all K bkt [] tx = Inr tx"
| "put_all K bkt ((k, v) # us) tx =
     (case db_Put K tx bkt k v of
        Inl e \<Rightarrow> Inl (Wrap ''bbolt: put version'' e)
      | Inr tx' \<Rightarrow> put_all K bkt us tx')"

definition bb_MarkVersionsNotLatest :: "'db bolt \<Rightarrow> 'db \<Rightarrow> string \<Rightarrow> string \<Rightarrow> 'db result" where
  "bb_MarkVersionsNotLatest K db bucket key =
     db_Update K (\<lambda>tx.
       case mark_updates (scan K tx versionsBucket (versionPrefix bucket key)) of
         Inl e \<Rightarrow> Inl e
       | Inr updates \<Rightarrow> put_all K versionsBucket updates tx) db"

subsection \<open>Multipart uploads and parts\<close>

definition bb_PutMultipart :: "'db bolt \<Rightarrow> 'db \<Rightarrow> multipart_record \<Rightarrow> 'db result" where
  "bb_PutMultipart K db m = store_put K multipartBucket (mr_UploadID m) (JMultipart m) db"

definition bb_GetMultipart :: "'db bolt \<Rightarrow> 'db \<Rightarrow> string \<Rightarrow> multipart_record result" where
  "bb_GetMultipart K db uploadID = store_get K multipartBucket uploadID unmarshal_multipart db"

definition bb_DeleteMultipart :: "'db bolt \<Rightarrow> 'db \<Rightarrow> string \<Rightarrow> 'db result" where
  "bb_DeleteMultipart K db uploadID = store_delete K multipartBucket uploadID db"

definition bb_ListMultiparts :: "'db bolt \<Rightarrow> 'db \<Rightarrow> string \<Rightarrow> multipart_record list result" where
  "bb_ListMultiparts K db bucket =
     (case decode_all ''bbolt: unmarshal multipart'' unmarshal_multipart
             (db_ForEach K db multipartBucket) of
        Inl e \<Rightarrow> Inl e
      | Inr out \<Rightarrow> Inr (filter (\<lambda>m. mr_Bucket m = bucket) out))"

definition part_key :: "string \<Rightarrow> int \<Rightarrow> string" where
  "part_key uploadID n = uploadID @ NUL # fmt_05d n"

definition bb_PutPart :: "'db bolt \<Rightarrow> 'db \<Rightarrow> part_record \<Rightarrow> 'db result" where
  "bb_PutPart K db p = store_put K partsBucket (part_key (pr_UploadID p) (pr_PartNumber p)) (JPart p) db"

definition bb_ListParts :: "'db bolt \<Rightarrow> 'db \<Rightarrow> string \<Rightarrow> part_record list result" where
  "bb_ListParts K db uploadID =
     decode_all ''bbolt: unmarshal part'' unmarshal_part (scan K db partsBucket (object_key uploadID []))"

fun delete_all :: "'db bolt \<Rightarrow> string \<Rightarrow> string list \<Rightarrow> 'db \<Rightarrow> 'db result" where
  "delete_all K bkt [] tx = Inr tx"
| "delete_all K bkt (k # ks) tx =
     (case db_Delete K tx bkt k of
        Inl e \<Rightarrow> Inl (Wrap ''bbolt: delete part'' e)
      | Inr tx' \<Rightarrow> delete_all K bkt ks tx')"

definition bb_DeleteParts :: "'db bolt \<Rightarrow> 'db \<Rightarrow> string \<Rightarrow> 'db result" where
  "bb_DeleteParts K db uploadID =
     db_Update K (\<lambda>tx.
       delete_all K partsBucket (map fst (scan K tx partsBucket (object_key uploadID []))) tx) db"

subsection \<open>Access keys\<close>

definition bb_PutAccessKey :: "'db bolt \<Rightarrow> 'db \<Rightarrow> access_key_record \<Rightarrow> 'db result" where
  "bb_PutAccessKey K db k = store_put K keysBucket (ak_AccessKey k) (JKey k) db"

definition bb_GetAccessKey :: "'db bolt \<Rightarrow> 'db \<Rightarrow> string \<Rightarrow> access_key_record result" where
  "bb_GetAccessKey K db accessKey = store_get K keysBucket accessKey unmarshal_key db"

definition bb_DeleteAccessKey :: "'db bolt \<Rightarrow> 'db \<Rightarrow> string \<Rightarrow> 'db result" where
  "bb_DeleteAccessKey K db accessKey = store_delete K keysBucket accessKey db"

definition bb_ListAccessKeys :: "'db bolt \<Rightarrow> 'db \<Rightarrow> access_key_record list result" where
  "bb_ListAccessKeys K db =
     decode_all ''bbolt: unmarshal key'' unmarshal_key (db_ForEach K db keysBucket)"

text \<open>The store as a value of the interface.\<close>

definition bbolt_store :: "'db bolt \<Rightarrow> 'db meta_store" where
  "bbolt_store K = \<lparr>
     m_PutBucket = bb_PutBucket K,
     m_GetBucket = bb_GetBucket K,
     m_DeleteBucket = bb_DeleteBucket K,
     m_ListBuckets = bb_ListBuckets K,
     m_BucketExists = bb_BucketExists K,
     m_PutObject = bb_PutObject K,
     m_GetObject = bb_GetObject K,
     m_DeleteObject = bb_DeleteObject K,
     m_ListObjects = bb_ListObjects K,
     m_ObjectExists = bb_ObjectExists K,
     m_UpdateBucketStats = bb_UpdateBucketStats K,
     m_PutVersion = bb_PutVersion K,
     m_GetVersion = bb_GetVersion K,
     m_ListVersions = bb_ListVersions K,
     m_ListBucketVersions = bb_ListBucketVersions K,
     m_DeleteVersion = bb_DeleteVersion K,
     m_MarkVersionsNotLatest = bb_MarkVersionsNotLatest K,
     m_PutMultipart = bb_PutMultipart K,
     m_GetMultipart = bb_GetMultipart K,
     m_DeleteMultipart = bb_DeleteMultipart K,
     m_ListMultiparts = bb_ListMultiparts K,
     m_PutPart = bb_PutPart K,
     m_ListParts = bb_ListParts K,
     m_DeleteParts = bb_DeleteParts K,
     m_PutAccessKey = bb_PutAccessKey K,
     m_GetAccessKey = bb_GetAccessKey K,
     m_DeleteAccessKey = bb_DeleteAccessKey K,
     m_ListAccessKeys = bb_ListAccessKeys K\<rparr>"

end
