(* ===== verification/Bolt_Refine.thy ===== *)
theory Bolt_Refine
  imports Bolt_Store
begin

text \<open>
  The bbolt store implements the interface \<open>metadata_store\<close>. The contents of the database are a
  function from database bucket and key to a value; \<open>contents_ok\<close> says that every value sits under
  the key its fields give, \<open>view_of\<close> reads the abstract maps off the contents, and the locale
  \<open>bolt_db\<close> has the laws of the database. Its last theorem is the \<open>sublocale\<close> declaration.
\<close>

type_synonym contents = "string \<Rightarrow> string \<Rightarrow> json option"

definition upd2 :: "contents \<Rightarrow> string \<Rightarrow> string \<Rightarrow> json option \<Rightarrow> contents" where
  "upd2 c b k x = c(b := (c b)(k := x))"

lemma upd2_apply: "upd2 c b k x b' k' = (if b' = b \<and> k' = k then x else c b' k')"
  by (simp add: upd2_def)

fun home :: "json \<Rightarrow> string \<times> string" where
  "home (JBucket r) = (bucketsBucket, br_Name r)"
| "home (JObject r) = (objectsBucket, object_key (or_Bucket r) (or_Key r))"
| "home (JVersion r) = (versionsBucket, versionKey (vr_Bucket r) (vr_Key r) (vr_VersionID r))"
| "home (JMultipart r) = (multipartBucket, mr_UploadID r)"
| "home (JPart r) = (partsBucket, part_key (pr_UploadID r) (pr_PartNumber r))"
| "home (JKey r) = (keysBucket, ak_AccessKey r)"

fun json_ok :: "json \<Rightarrow> bool" where
  "json_ok (JBucket r) = name_ok (br_Name r)"
| "json_ok (JObject r) = object_ok (or_Bucket r) (or_Key r)"
| "json_ok (JVersion r) = version_ok (vr_Bucket r) (vr_Key r) (vr_VersionID r)"
| "json_ok (JMultipart r) = name_ok (mr_UploadID r)"
| "json_ok (JPart r) = part_ok (pr_UploadID r) (pr_PartNumber r)"
| "json_ok (JKey r) = (ak_AccessKey r \<noteq> [] \<and> length (ak_AccessKey r) \<le> max_key_size)"

definition contents_ok :: "contents \<Rightarrow> bool" where
  "contents_ok c \<longleftrightarrow> (\<forall>b k v. c b k = Some v \<longrightarrow> home v = (b, k) \<and> json_ok v)"

definition view_of :: "contents \<Rightarrow> meta_view" where
  "view_of c = \<lparr>
     mv_buckets = (\<lambda>n. Option.bind (c bucketsBucket n) unmarshal_bucket),
     mv_objects = (\<lambda>n k. if nulfree n
        then Option.bind (c objectsBucket (object_key n k)) unmarshal_object else None),
     mv_versions = (\<lambda>n k i. if nulfree n \<and> nulfree k
        then Option.bind (c versionsBucket (versionKey n k i)) unmarshal_version else None),
     mv_multiparts = (\<lambda>i. Option.bind (c multipartBucket i) unmarshal_multipart),
     mv_parts = (\<lambda>i n. if nulfree i \<and> 0 \<le> n \<and> n < 100000
        then Option.bind (c partsBucket (part_key i n)) unmarshal_part else None),
     mv_keys = (\<lambda>i. Option.bind (c keysBucket i) unmarshal_key)\<rparr>"

definition bolt_view :: "'db bolt \<Rightarrow> 'db \<Rightarrow> meta_view" where
  "bolt_view K db = view_of (db_Get K db)"

definition bolt_inv :: "'db bolt \<Rightarrow> ('db \<Rightarrow> bool) \<Rightarrow> 'db \<Rightarrow> bool" where
  "bolt_inv K kinv db \<longleftrightarrow> kinv db \<and> contents_ok (db_Get K db)"

section \<open>Keys and contents\<close>

lemma object_key_inject [simp]:
  "nulfree a \<Longrightarrow> nulfree b \<Longrightarrow> object_key a k = object_key b l \<longleftrightarrow> a = b \<and> k = l"
  by (simp add: object_key_def nul_key_inject)

lemma versionKey_inject [simp]:
  assumes "nulfree a" "nulfree b" "nulfree k" "nulfree l"
  shows "versionKey a k i = versionKey b l j \<longleftrightarrow> a = b \<and> k = l \<and> i = j"
  using assms by (simp add: versionKey_def nul_key_inject)

lemma part_key_inject [simp]:
  assumes "nulfree i" "nulfree j" "0 \<le> n" "n < 100000" "0 \<le> m" "m < 100000"
  shows "part_key i n = part_key j m \<longleftrightarrow> i = j \<and> n = m"
  using assms by (simp add: part_key_def nul_key_inject fmt_05d_inject)

lemma home_size: "home v = (b, k) \<Longrightarrow> json_ok v \<Longrightarrow> k \<noteq> [] \<and> length k \<le> max_key_size"
  by (cases v) (auto simp: name_ok_def object_ok_def version_ok_def part_ok_def object_key_def
      versionKey_def part_key_def fmt_05d_length)

lemma contents_ok_upd: "contents_ok c \<Longrightarrow> home v = (b, k) \<Longrightarrow> json_ok v \<Longrightarrow> contents_ok (upd2 c b k (Some v))"
  by (auto simp: contents_ok_def upd2_apply)

lemma contents_ok_del: "contents_ok c \<Longrightarrow> contents_ok (upd2 c b k None)"
  by (auto simp: contents_ok_def upd2_apply)

lemma contents_home: "contents_ok c \<Longrightarrow> c b k = Some v \<Longrightarrow> home v = (b, k) \<and> json_ok v"
  by (simp add: contents_ok_def)

text \<open>What a value of each database bucket is.\<close>

lemma contents_bucket: "contents_ok c \<Longrightarrow> c bucketsBucket k = Some v \<Longrightarrow>
    \<exists>r. v = JBucket r \<and> k = br_Name r \<and> name_ok k"
  by (drule contents_home, assumption) (cases v; auto)

lemma contents_object: "contents_ok c \<Longrightarrow> c objectsBucket k = Some v \<Longrightarrow>
    \<exists>r. v = JObject r \<and> k = object_key (or_Bucket r) (or_Key r) \<and> object_ok (or_Bucket r) (or_Key r)"
  by (drule contents_home, assumption) (cases v; auto)

lemma contents_version: "contents_ok c \<Longrightarrow> c versionsBucket k = Some v \<Longrightarrow>
    \<exists>r. v = JVersion r \<and> k = versionKey (vr_Bucket r) (vr_Key r) (vr_VersionID r) \<and>
        version_ok (vr_Bucket r) (vr_Key r) (vr_VersionID r)"
  by (drule contents_home, assumption) (cases v; auto)

lemma contents_multipart: "contents_ok c \<Longrightarrow> c multipartBucket k = Some v \<Longrightarrow>
    \<exists>r. v = JMultipart r \<and> k = mr_UploadID r \<and> name_ok k"
  by (drule contents_home, assumption) (cases v; auto)

lemma contents_part: "contents_ok c \<Longrightarrow> c partsBucket k = Some v \<Longrightarrow>
    \<exists>r. v = JPart r \<and> k = part_key (pr_UploadID r) (pr_PartNumber r) \<and>
        part_ok (pr_UploadID r) (pr_PartNumber r)"
  by (drule contents_home, assumption) (cases v; auto)

lemma contents_key: "contents_ok c \<Longrightarrow> c keysBucket k = Some v \<Longrightarrow>
    \<exists>r. v = JKey r \<and> k = ak_AccessKey r"
  by (drule contents_home, assumption) (cases v; auto)

lemmas contents_cases = contents_bucket contents_object contents_version contents_multipart
  contents_part contents_key

lemma object_ok_nulfree: "object_ok b k \<Longrightarrow> nulfree b"
  by (simp add: object_ok_def name_ok_def)

lemma version_ok_nulfree: "version_ok b k i \<Longrightarrow> nulfree b \<and> nulfree k"
  by (simp add: version_ok_def name_ok_def)

lemma part_ok_nulfree: "part_ok i n \<Longrightarrow> nulfree i \<and> 0 \<le> n \<and> n < 100000"
  by (simp add: part_ok_def name_ok_def)

lemma mv_bucketsD: "contents_ok c \<Longrightarrow> mv_buckets (view_of c) n = Some r \<Longrightarrow>
    c bucketsBucket n = Some (JBucket r) \<and> br_Name r = n \<and> name_ok n"
  using contents_bucket by (fastforce simp: view_of_def bind_eq_Some_conv)

lemma mv_objectsD: "contents_ok c \<Longrightarrow> mv_objects (view_of c) n k = Some r \<Longrightarrow>
    c objectsBucket (object_key n k) = Some (JObject r) \<and> or_Bucket r = n \<and> or_Key r = k \<and> object_ok n k"
proof -
  assume c: "contents_ok c" and r: "mv_objects (view_of c) n k = Some r"
  from r have n: "nulfree n" by (simp add: view_of_def split: if_splits)
  with r obtain v where v: "c objectsBucket (object_key n k) = Some v" "unmarshal_object v = Some r"
    by (auto simp: view_of_def bind_eq_Some_conv)
  from contents_object [OF c v(1)] v(2) have
    "v = JObject r" "object_key n k = object_key (or_Bucket r) (or_Key r)" "object_ok (or_Bucket r) (or_Key r)"
    by auto
  with n v(1) object_ok_nulfree show ?thesis by (metis object_key_inject)
qed

lemma mv_versionsD: "contents_ok c \<Longrightarrow> mv_versions (view_of c) n k i = Some r \<Longrightarrow>
    c versionsBucket (versionKey n k i) = Some (JVersion r) \<and> vr_Bucket r = n \<and> vr_Key r = k \<and>
    vr_VersionID r = i \<and> version_ok n k i"
proof -
  assume c: "contents_ok c" and r: "mv_versions (view_of c) n k i = Some r"
  from r have n: "nulfree n" "nulfree k" by (simp_all add: view_of_def split: if_splits)
  with r obtain v where v: "c versionsBucket (versionKey n k i) = Some v" "unmarshal_version v = Some r"
    by (auto simp: view_of_def bind_eq_Some_conv)
  from contents_version [OF c v(1)] v(2) have
    "v = JVersion r" "versionKey n k i = versionKey (vr_Bucket r) (vr_Key r) (vr_VersionID r)"
    "version_ok (vr_Bucket r) (vr_Key r) (vr_VersionID r)"
    by auto
  with n v(1) version_ok_nulfree show ?thesis by (metis versionKey_inject)
qed

lemma mv_partsD: "contents_ok c \<Longrightarrow> mv_parts (view_of c) i n = Some r \<Longrightarrow>
    c partsBucket (part_key i n) = Some (JPart r) \<and> pr_UploadID r = i \<and> pr_PartNumber r = n \<and> part_ok i n"
proof -
  assume c: "contents_ok c" and r: "mv_parts (view_of c) i n = Some r"
  from r have n: "nulfree i" "0 \<le> n" "n < 100000" by (simp_all add: view_of_def split: if_splits)
  with r obtain v where v: "c partsBucket (part_key i n) = Some v" "unmarshal_part v = Some r"
    by (auto simp: view_of_def bind_eq_Some_conv)
  from contents_part [OF c v(1)] v(2) have
    "v = JPart r" "part_key i n = part_key (pr_UploadID r) (pr_PartNumber r)"
    "part_ok (pr_UploadID r) (pr_PartNumber r)"
    by auto
  with n v(1) part_ok_nulfree show ?thesis by (metis part_key_inject)
qed

lemma mv_multipartsD: "contents_ok c \<Longrightarrow> mv_multiparts (view_of c) i = Some r \<Longrightarrow>
    c multipartBucket i = Some (JMultipart r) \<and> mr_UploadID r = i \<and> name_ok i"
  using contents_multipart by (fastforce simp: view_of_def bind_eq_Some_conv)

lemma mv_keysD: "contents_ok c \<Longrightarrow> mv_keys (view_of c) i = Some r \<Longrightarrow>
    c keysBucket i = Some (JKey r) \<and> ak_AccessKey r = i"
  using contents_key by (fastforce simp: view_of_def bind_eq_Some_conv)

lemma view_of_wf: "contents_ok c \<Longrightarrow> view_wf (view_of c)"
  by (auto simp: view_wf_def dest: mv_bucketsD mv_objectsD mv_versionsD mv_multipartsD mv_partsD mv_keysD)

text \<open>The effect on the view of an update under a key.\<close>

lemma view_upd_bucket:
  "view_of (upd2 c bucketsBucket n x) =
     (view_of c)\<lparr>mv_buckets := (mv_buckets (view_of c))(n := Option.bind x unmarshal_bucket)\<rparr>"
  by (auto simp: view_of_def upd2_def fun_eq_iff)

lemma view_upd_object: "nulfree b \<Longrightarrow>
  view_of (upd2 c objectsBucket (object_key b k) x) =
     (view_of c)\<lparr>mv_objects := (mv_objects (view_of c))(b :=
        (mv_objects (view_of c) b)(k := Option.bind x unmarshal_object))\<rparr>"
  by (auto simp: view_of_def upd2_def fun_eq_iff)

lemma view_upd_version: "nulfree b \<Longrightarrow> nulfree k \<Longrightarrow>
  view_of (upd2 c versionsBucket (versionKey b k i) x) =
     (view_of c)\<lparr>mv_versions := (mv_versions (view_of c))(b :=
        (mv_versions (view_of c) b)(k := (mv_versions (view_of c) b k)(i := Option.bind x unmarshal_version)))\<rparr>"
  by (auto simp: view_of_def upd2_def fun_eq_iff)

lemma view_upd_multipart:
  "view_of (upd2 c multipartBucket n x) =
     (view_of c)\<lparr>mv_multiparts := (mv_multiparts (view_of c))(n := Option.bind x unmarshal_multipart)\<rparr>"
  by (auto simp: view_of_def upd2_def fun_eq_iff)

lemma view_upd_part: "nulfree i \<Longrightarrow> 0 \<le> n \<Longrightarrow> n < 100000 \<Longrightarrow>
  view_of (upd2 c partsBucket (part_key i n) x) =
     (view_of c)\<lparr>mv_parts := (mv_parts (view_of c))(i :=
        (mv_parts (view_of c) i)(n := Option.bind x unmarshal_part))\<rparr>"
  by (auto simp: view_of_def upd2_def fun_eq_iff)

lemma view_upd_key:
  "view_of (upd2 c keysBucket n x) =
     (view_of c)\<lparr>mv_keys := (mv_keys (view_of c))(n := Option.bind x unmarshal_key)\<rparr>"
  by (auto simp: view_of_def upd2_def fun_eq_iff)

section \<open>Prefixes of keys\<close>

lemma prefix_object_key: "nulfree a \<Longrightarrow> nulfree b \<Longrightarrow>
    prefix (object_key a p) (object_key b k) \<longleftrightarrow> a = b \<and> prefix p k"
  by (simp add: object_key_def nul_key_prefix)

lemma prefix_versionKey: "nulfree a \<Longrightarrow> nulfree b \<Longrightarrow> nulfree k \<Longrightarrow> nulfree l \<Longrightarrow>
    prefix (versionPrefix a k) (versionKey b l i) \<longleftrightarrow> a = b \<and> k = l"
  using nul_key_prefix [of k l "[]" i] by (simp add: versionPrefix_def versionKey_def nul_key_prefix)

lemma prefix_part_key: "nulfree a \<Longrightarrow> nulfree b \<Longrightarrow> prefix (object_key a []) (part_key b n) \<longleftrightarrow> a = b"
  by (simp add: object_key_def part_key_def nul_key_prefix)

lemma part_key_less:
  assumes "0 \<le> n" "n < 100000" "0 \<le> m" "m < 100000"
  shows "part_key i n < part_key i m \<longleftrightarrow> n < m"
  using fmt_05d_less [OF assms] by (simp add: part_key_def list_less_append_same)

lemma object_key_less: "object_key b k < object_key b l \<longleftrightarrow> k < l"
  by (simp add: object_key_def list_less_append_same)

text \<open>The listing loop without a delimiter.\<close>

lemma list_loop_plain:
  assumes "lo_Delimiter opts = []"
  shows "\<forall>(k, v) \<in> set kvs. unmarshal_object v \<noteq> None \<Longrightarrow> length recs \<le> max_keys opts \<Longrightarrow>
    list_loop bucket opts pfx recs [] kvs = Inr (recs @ take (max_keys opts - length recs)
      (map (the \<circ> unmarshal_object \<circ> snd) (takeWhile (\<lambda>(k, v). prefix pfx k) kvs)), [])"
proof (induction kvs arbitrary: recs)
  case Nil
  then show ?case by simp
next
  case (Cons kv kvs)
  obtain k v where kv: "kv = (k, v)" by force
  with Cons.prems obtain r where r: "unmarshal_object v = Some r" by auto
  show ?case
  proof (cases "prefix pfx k \<and> length recs < max_keys opts")
    case True
    with Cons.IH [of "recs @ [r]"] Cons.prems kv r assms show ?thesis
      by (simp add: take_Cons' Suc_le_eq)
  next
    case False
    with Cons.prems kv assms show ?thesis by auto
  qed
qed

text \<open>Updates in bulk: the versions marked, and the parts deleted, by one transaction.\<close>

lemma mark_updates_ok:
  assumes "\<And>k v. (k, v) \<in> set kvs \<Longrightarrow> \<exists>r. v = JVersion r" and "distinct (map fst kvs)"
  shows "\<exists>us. mark_updates kvs = Inr us \<and> fst ` set us \<subseteq> fst ` set kvs \<and> distinct (map fst us) \<and>
    (\<forall>k v. (k, v) \<in> set us \<longleftrightarrow> (\<exists>r. (k, JVersion r) \<in> set kvs \<and> vr_IsLatest r \<and> v = JVersion (unlatest r)))"
  using assms
proof (induction kvs)
  case Nil
  then show ?case by simp
next
  case (Cons kv kvs)
  obtain k v where kv: "kv = (k, v)" by force
  with Cons.prems(1) obtain r where r: "v = JVersion r" by force
  have "\<And>k v. (k, v) \<in> set kvs \<Longrightarrow> \<exists>r. v = JVersion r" using Cons.prems(1) by (meson list.set_intros(2))
  moreover have "distinct (map fst kvs)" using Cons.prems(2) by simp
  ultimately obtain us where us: "mark_updates kvs = Inr us" "fst ` set us \<subseteq> fst ` set kvs"
    "distinct (map fst us)"
    "\<forall>k v. (k, v) \<in> set us \<longleftrightarrow> (\<exists>r. (k, JVersion r) \<in> set kvs \<and> vr_IsLatest r \<and> v = JVersion (unlatest r))"
    using Cons.IH by blast
  from Cons.prems(2) kv us(2) have "k \<notin> fst ` set us" by auto
  with us kv r show ?case by (auto simp: unlatest_def)
qed

section \<open>The database\<close>

locale bolt_db =
  fixes K :: "'db bolt"
    and kinv :: "'db \<Rightarrow> bool"
  assumes db_put: "kinv db \<Longrightarrow> k \<noteq> [] \<Longrightarrow> length k \<le> max_key_size \<Longrightarrow>
      \<exists>db'. db_Put K db b k v = Inr db' \<and> kinv db' \<and> db_Get K db' = upd2 (db_Get K db) b k (Some v)"
    and db_delete: "kinv db \<Longrightarrow>
      \<exists>db'. db_Delete K db b k = Inr db' \<and> kinv db' \<and> db_Get K db' = upd2 (db_Get K db) b k None"
    and db_commit: "kinv db \<Longrightarrow>
      \<exists>db'. db_Commit K db = Inr db' \<and> kinv db' \<and> db_Get K db' = db_Get K db"
    and db_seek_sorted: "kinv db \<Longrightarrow> sorted_wrt (<) (map fst (db_Seek K db b k))"
    and db_seek_set: "kinv db \<Longrightarrow>
      (k', v) \<in> set (db_Seek K db b k) \<longleftrightarrow> k \<le> k' \<and> db_Get K db b k' = Some v"

text \<open>Lists of decoded values.\<close>

lemma decode_all_Inr:
  "\<forall>(k, v) \<in> set kvs. unmarshal v \<noteq> None \<Longrightarrow>
   decode_all what unmarshal kvs = Inr (map (the \<circ> unmarshal \<circ> snd) kvs)"
  by (induction kvs) auto

lemma sorted_wrt_less_imp_le: "sorted_wrt (<) (xs :: 'a :: linorder list) \<Longrightarrow> sorted xs"
  by (induction xs) auto

lemma sort_key_sorted_wrt: "sorted_wrt (<) (map f xs) \<Longrightarrow> sort_key f xs = xs"
  by (simp add: sort_key_id_if_sorted sorted_wrt_less_imp_le)

lemma sorted_wrt_less_distinct: "sorted_wrt (<) (xs :: 'a :: linorder list) \<Longrightarrow> distinct xs"
  by (induction xs) auto

lemma set_decoded:
  assumes "\<And>k v. (k, v) \<in> set kvs \<longleftrightarrow> P k \<and> c k = Some v"
    and "\<And>k v. c k = Some v \<Longrightarrow> \<exists>r. v = C r \<and> k = key r"
    and "\<And>r. unm (C r) = Some r"
  shows "r \<in> set (map (the \<circ> unm \<circ> snd) kvs) \<longleftrightarrow> P (key r) \<and> c (key r) = Some (C r)"
proof
  assume "r \<in> set (map (the \<circ> unm \<circ> snd) kvs)"
  then obtain k v where kv: "(k, v) \<in> set kvs" and r: "r = the (unm v)" by auto
  from kv assms(1) have "P k" "c k = Some v" by blast+
  with assms(2,3) r show "P (key r) \<and> c (key r) = Some (C r)" by fastforce
next
  assume "P (key r) \<and> c (key r) = Some (C r)"
  then have "(key r, C r) \<in> set kvs" using assms(1) by blast
  then show "r \<in> set (map (the \<circ> unm \<circ> snd) kvs)" by (force simp: assms(3) image_iff)
qed

lemma map_decoded:
  assumes "\<And>k v. (k, v) \<in> set kvs \<Longrightarrow> \<exists>r. v = C r \<and> k = key r" and "\<And>r. unm (C r) = Some r"
  shows "map key (map (the \<circ> unm \<circ> snd) kvs) = map fst kvs"
proof -
  have "key (the (unm (snd kv))) = fst kv" if "kv \<in> set kvs" for kv
    using assms(1) [of "fst kv" "snd kv"] assms(2) that by auto
  then show ?thesis by simp
qed

context bolt_db
begin

abbreviation "binv \<equiv> bolt_inv K kinv"
abbreviation "bview \<equiv> bolt_view K"

lemma db_Update_ok:
  assumes "f db = Inr tx" "kinv tx"
  shows "\<exists>db'. db_Update K f db = Inr db' \<and> kinv db' \<and> db_Get K db' = db_Get K tx"
  using assms db_commit [of tx] by (simp add: db_Update_def)

lemma store_put_ok:
  assumes "binv db" "home v = (b, k)" "json_ok v"
  shows "\<exists>db'. store_put K b k v db = Inr db' \<and> binv db' \<and> db_Get K db' = upd2 (db_Get K db) b k (Some v)"
proof -
  from assms home_size obtain tx where
    tx: "db_Put K db b k v = Inr tx" "kinv tx" "db_Get K tx = upd2 (db_Get K db) b k (Some v)"
    using db_put [of db k b v] by (auto simp: bolt_inv_def)
  from db_Update_ok [of "\<lambda>tx. db_Put K tx b k v", OF tx(1,2)] tx(3) assms show ?thesis
    by (auto simp: store_put_def bolt_inv_def contents_ok_upd)
qed

lemma store_delete_ok:
  assumes "binv db"
  shows "\<exists>db'. store_delete K b k db = Inr db' \<and> binv db' \<and> db_Get K db' = upd2 (db_Get K db) b k None"
proof -
  from assms obtain tx where
    tx: "db_Delete K db b k = Inr tx" "kinv tx" "db_Get K tx = upd2 (db_Get K db) b k None"
    using db_delete [of db b k] by (auto simp: bolt_inv_def)
  from db_Update_ok [of "\<lambda>tx. db_Delete K tx b k", OF tx(1,2)] tx(3) assms show ?thesis
    by (auto simp: store_delete_def bolt_inv_def contents_ok_del)
qed

lemma store_put_wrote:
  assumes "binv db" "home v = (b, k)" "json_ok v"
    and "view_of (upd2 (db_Get K db) b k (Some v)) = w"
  shows "wrote binv bview (store_put K b k v db) w"
  using store_put_ok [OF assms(1-3)] assms(4) by (auto simp: wrote_def bolt_view_def)

lemma store_delete_wrote:
  assumes "binv db" and "view_of (upd2 (db_Get K db) b k None) = w"
  shows "wrote binv bview (store_delete K b k db) w"
  using store_delete_ok [OF assms(1), of b k] assms(2) by (auto simp: wrote_def bolt_view_def)

lemma store_get_found:
  assumes "\<And>v. db_Get K db b k = Some v \<Longrightarrow> \<exists>r. unm v = Some r"
  shows "found (store_get K b k unm db) (Option.bind (db_Get K db b k) unm)"
  using assms by (auto simp: store_get_def found_def split: option.splits)

lemma binv_contents: "binv db \<Longrightarrow> contents_ok (db_Get K db)"
  by (simp add: bolt_inv_def)

lemma binv_kinv: "binv db \<Longrightarrow> kinv db"
  by (simp add: bolt_inv_def)

text \<open>A cursor loop over a prefix visits exactly the keys with that prefix, in order.\<close>

lemma scan_sorted: "kinv db \<Longrightarrow> sorted_wrt (<) (map fst (scan K db b p))"
  unfolding scan_def
  by (metis db_seek_sorted sorted_wrt_append map_append takeWhile_dropWhile_id)

lemma scan_set: "kinv db \<Longrightarrow> (k, v) \<in> set (scan K db b p) \<longleftrightarrow> prefix p k \<and> db_Get K db b k = Some v"
proof -
  assume i: "kinv db"
  let ?s = "db_Seek K db b p"
  have "sorted (map fst ?s)" by (rule sorted_wrt_less_imp_le [OF db_seek_sorted [OF i]])
  moreover have "\<forall>(k, v) \<in> set ?s. p \<le> k" using db_seek_set [OF i] by auto
  ultimately have "scan K db b p = filter (\<lambda>(k, v). prefix p k) ?s"
    unfolding scan_def by (rule takeWhile_prefix_eq_filter)
  then show ?thesis using db_seek_set [OF i] prefix_imp_le by auto
qed

lemma foreach_set: "kinv db \<Longrightarrow> (k, v) \<in> set (db_ForEach K db b) \<longleftrightarrow> db_Get K db b k = Some v"
  by (simp add: db_ForEach_def db_seek_set)

lemma foreach_sorted: "kinv db \<Longrightarrow> sorted_wrt (<) (map fst (db_ForEach K db b))"
  by (simp add: db_ForEach_def db_seek_sorted)

subsection \<open>Listings\<close>

text \<open>
  A list of pairs of one database bucket, sorted by key, decodes to the records whose key
  satisfies \<open>P\<close>, in the order of their keys.
\<close>

lemma decode_listing:
  assumes set: "\<And>k v. (k, v) \<in> set kvs \<longleftrightarrow> P k \<and> db_Get K db b k = Some v"
    and dec: "\<And>k v. db_Get K db b k = Some v \<Longrightarrow> \<exists>r. v = C r \<and> k = key r"
    and unm: "\<And>r. unm (C r) = Some r"
    and sorted: "sorted_wrt (<) (map fst kvs)"
  shows "\<exists>rs. decode_all what unm kvs = Inr rs \<and> rs = map (the \<circ> unm \<circ> snd) kvs \<and>
     sorted_wrt (<) (map key rs) \<and>
     (\<forall>r. r \<in> set rs \<longleftrightarrow> P (key r) \<and> db_Get K db b (key r) = Some (C r))"
proof -
  have d: "\<exists>r. v = C r \<and> k = key r" if "(k, v) \<in> set kvs" for k v
    using that set dec by blast
  let ?rs = "map (the \<circ> unm \<circ> snd) kvs"
  have "decode_all what unm kvs = Inr ?rs"
    by (rule decode_all_Inr) (use d unm in fastforce)
  moreover have "map key ?rs = map fst kvs"
    by (rule map_decoded [where C = C]) (use d unm in blast)+
  with sorted have "sorted_wrt (<) (map key ?rs)" by metis
  moreover have "\<forall>r. r \<in> set (map (the \<circ> unm \<circ> snd) kvs) \<longleftrightarrow>
      P (key r) \<and> db_Get K db b (key r) = Some (C r)"
    using set_decoded [where c = "db_Get K db b" and P = P and C = C and key = key and unm = unm,
        OF set dec unm] by blast
  ultimately show ?thesis by blast
qed

lemma foreach_listing:
  assumes "binv db" and "\<And>k v. db_Get K db b k = Some v \<Longrightarrow> \<exists>r. v = C r \<and> k = key r"
    and "\<And>r. unm (C r) = Some r"
  shows "\<exists>rs. decode_all what unm (db_ForEach K db b) = Inr rs \<and> sorted_wrt (<) (map key rs) \<and>
    (\<forall>r. r \<in> set rs \<longleftrightarrow> db_Get K db b (key r) = Some (C r))"
proof -
  have "(k, v) \<in> set (db_ForEach K db b) \<longleftrightarrow> True \<and> db_Get K db b k = Some v" for k v
    using foreach_set [OF binv_kinv [OF assms(1)]] by blast
  from decode_listing [OF this assms(2,3) foreach_sorted [OF binv_kinv [OF assms(1)]], of what]
  show ?thesis by blast
qed

lemma scan_listing:
  assumes "binv db" and "\<And>k v. db_Get K db b k = Some v \<Longrightarrow> \<exists>r. v = C r \<and> k = key r"
    and "\<And>r. unm (C r) = Some r"
  shows "\<exists>rs. decode_all what unm (scan K db b p) = Inr rs \<and> sorted_wrt (<) (map key rs) \<and>
    (\<forall>r. r \<in> set rs \<longleftrightarrow> prefix p (key r) \<and> db_Get K db b (key r) = Some (C r))"
proof -
  have "(k, v) \<in> set (scan K db b p) \<longleftrightarrow> prefix p k \<and> db_Get K db b k = Some v" for k v
    using scan_set [OF binv_kinv [OF assms(1)]] by blast
  from decode_listing [OF this assms(2,3) scan_sorted [OF binv_kinv [OF assms(1)]], of what]
  show ?thesis by blast
qed

text \<open>The view against the contents.\<close>

lemma get_bucket_iff: "binv db \<Longrightarrow> db_Get K db bucketsBucket n = Some (JBucket b) \<longleftrightarrow>
    mv_buckets (bview db) n = Some b"
  using mv_bucketsD [OF binv_contents] by (auto simp: bolt_view_def view_of_def)

lemma get_object_iff: "binv db \<Longrightarrow> nulfree n \<Longrightarrow>
    db_Get K db objectsBucket (object_key n k) = Some (JObject x) \<longleftrightarrow> mv_objects (bview db) n k = Some x"
  using mv_objectsD [OF binv_contents] by (auto simp: bolt_view_def view_of_def)

lemma get_version_iff: "binv db \<Longrightarrow> nulfree n \<Longrightarrow> nulfree k \<Longrightarrow>
    db_Get K db versionsBucket (versionKey n k i) = Some (JVersion x) \<longleftrightarrow>
    mv_versions (bview db) n k i = Some x"
  using mv_versionsD [OF binv_contents] by (auto simp: bolt_view_def view_of_def)

lemma get_multipart_iff: "binv db \<Longrightarrow> db_Get K db multipartBucket i = Some (JMultipart x) \<longleftrightarrow>
    mv_multiparts (bview db) i = Some x"
  using mv_multipartsD [OF binv_contents] by (auto simp: bolt_view_def view_of_def)

lemma get_part_iff: "binv db \<Longrightarrow> nulfree i \<Longrightarrow> 0 \<le> n \<Longrightarrow> n < 100000 \<Longrightarrow>
    db_Get K db partsBucket (part_key i n) = Some (JPart x) \<longleftrightarrow> mv_parts (bview db) i n = Some x"
  using mv_partsD [OF binv_contents] by (auto simp: bolt_view_def view_of_def)

lemma get_key_iff: "binv db \<Longrightarrow> db_Get K db keysBucket i = Some (JKey x) \<longleftrightarrow>
    mv_keys (bview db) i = Some x"
  using mv_keysD [OF binv_contents] by (auto simp: bolt_view_def view_of_def)

lemma list_buckets_ok:
  assumes i: "binv db"
  shows "\<exists>bs. bb_ListBuckets K db = Inr bs \<and> sorted_wrt (<) (map br_Name bs) \<and>
    (\<forall>b. b \<in> set bs \<longleftrightarrow> mv_buckets (bview db) (br_Name b) = Some b)"
proof -
  have "\<exists>bs. decode_all ''bbolt: unmarshal bucket'' unmarshal_bucket (db_ForEach K db bucketsBucket) = Inr bs \<and>
    sorted_wrt (<) (map br_Name bs) \<and> (\<forall>r. r \<in> set bs \<longleftrightarrow> db_Get K db bucketsBucket (br_Name r) = Some (JBucket r))"
    by (rule foreach_listing [OF i])
      (use contents_bucket [OF binv_contents [OF i]] in blast, simp)
  with get_bucket_iff [OF i] show ?thesis by (auto simp: bb_ListBuckets_def sort_key_sorted_wrt)
qed

lemma list_keys_ok:
  assumes i: "binv db"
  shows "\<exists>as. bb_ListAccessKeys K db = Inr as \<and> distinct (map ak_AccessKey as) \<and>
    (\<forall>a. a \<in> set as \<longleftrightarrow> mv_keys (bview db) (ak_AccessKey a) = Some a)"
proof -
  have "\<exists>ks. decode_all ''bbolt: unmarshal key'' unmarshal_key (db_ForEach K db keysBucket) = Inr ks \<and>
    sorted_wrt (<) (map ak_AccessKey ks) \<and> (\<forall>r. r \<in> set ks \<longleftrightarrow> db_Get K db keysBucket (ak_AccessKey r) = Some (JKey r))"
    by (rule foreach_listing [OF i])
      (use contents_key [OF binv_contents [OF i]] in blast, simp)
  with get_key_iff [OF i] show ?thesis by (auto simp: bb_ListAccessKeys_def sorted_wrt_less_distinct)
qed

lemma list_multiparts_ok:
  assumes i: "binv db"
  shows "\<exists>us. bb_ListMultiparts K db n = Inr us \<and> distinct (map mr_UploadID us) \<and>
    (\<forall>u. u \<in> set us \<longleftrightarrow> mv_multiparts (bview db) (mr_UploadID u) = Some u \<and> mr_Bucket u = n)"
proof -
  have "\<exists>us. decode_all ''bbolt: unmarshal multipart'' unmarshal_multipart
      (db_ForEach K db multipartBucket) = Inr us \<and>
    sorted_wrt (<) (map mr_UploadID us) \<and> (\<forall>r. r \<in> set us \<longleftrightarrow> db_Get K db multipartBucket (mr_UploadID r) = Some (JMultipart r))"
    by (rule foreach_listing [OF i])
      (use contents_multipart [OF binv_contents [OF i]] in blast, simp)
  with get_multipart_iff [OF i] show ?thesis
    by (auto simp: bb_ListMultiparts_def distinct_map_filter dest: sorted_wrt_less_distinct)
qed


lemma list_parts_ok:
  assumes i: "binv db" and u: "nulfree u"
  shows "\<exists>ps. bb_ListParts K db u = Inr ps \<and> sorted_wrt (<) (map pr_PartNumber ps) \<and>
    (\<forall>p. p \<in> set ps \<longleftrightarrow> mv_parts (bview db) u (pr_PartNumber p) = Some p)"
proof -
  let ?key = "\<lambda>p. part_key (pr_UploadID p) (pr_PartNumber p)"
  have "\<exists>ps. bb_ListParts K db u = Inr ps \<and> sorted_wrt (<) (map ?key ps) \<and>
     (\<forall>p. p \<in> set ps \<longleftrightarrow> prefix (object_key u []) (?key p) \<and> db_Get K db partsBucket (?key p) = Some (JPart p))"
    unfolding bb_ListParts_def
    by (rule scan_listing [OF i]) (use contents_part [OF binv_contents [OF i]] in blast, simp)
  then obtain ps where ps: "bb_ListParts K db u = Inr ps" "sorted_wrt (<) (map ?key ps)"
    "\<And>p. p \<in> set ps \<longleftrightarrow> prefix (object_key u []) (?key p) \<and> db_Get K db partsBucket (?key p) = Some (JPart p)"
    by blast
  have ok: "part_ok (pr_UploadID p) (pr_PartNumber p)" if "db_Get K db partsBucket (?key p) = Some (JPart p)" for p
    using contents_home [OF binv_contents [OF i] that] by simp
  have el: "p \<in> set ps \<longleftrightarrow> mv_parts (bview db) u (pr_PartNumber p) = Some p" for p
  proof
    assume "p \<in> set ps"
    then have p: "prefix (object_key u []) (?key p)" "db_Get K db partsBucket (?key p) = Some (JPart p)"
      using ps(3) by blast+
    with part_ok_nulfree [OF ok [OF p(2)]] u have "pr_UploadID p = u" by (simp add: prefix_part_key)
    with p part_ok_nulfree [OF ok [OF p(2)]] i show "mv_parts (bview db) u (pr_PartNumber p) = Some p"
      by (simp add: get_part_iff [symmetric])
  next
    assume "mv_parts (bview db) u (pr_PartNumber p) = Some p"
    from mv_partsD [OF binv_contents [OF i] this [unfolded bolt_view_def]] u
    have "prefix (object_key u []) (?key p) \<and> db_Get K db partsBucket (?key p) = Some (JPart p)"
      by (simp add: prefix_part_key)
    then show "p \<in> set ps" using ps(3) by blast
  qed
  have "pr_PartNumber p < pr_PartNumber q" if "p \<in> set ps" "q \<in> set ps" "?key p < ?key q" for p q
  proof -
    from that el have "mv_parts (view_of (db_Get K db)) u (pr_PartNumber p) = Some p"
      "mv_parts (view_of (db_Get K db)) u (pr_PartNumber q) = Some q"
      by (simp_all add: bolt_view_def)
    from this [THEN mv_partsD [OF binv_contents [OF i]]] that(3) show ?thesis
      using part_key_less [of "pr_PartNumber p" "pr_PartNumber q"] part_ok_nulfree by auto
  qed
  then have "sorted_wrt (<) (map pr_PartNumber ps)"
    using ps(2) unfolding sorted_wrt_map by (rule sorted_wrt_mono_rel)
  with ps(1) el show ?thesis by blast
qed

lemma list_versions_ok:
  assumes i: "binv db" and n: "nulfree n" "nulfree k"
  shows "\<exists>vs. bb_ListVersions K db n k = Inr vs \<and> distinct (map vr_VersionID vs) \<and>
    sorted_wrt (\<ge>) (map vr_LastModified vs) \<and>
    (\<forall>v. v \<in> set vs \<longleftrightarrow> mv_versions (bview db) n k (vr_VersionID v) = Some v)"
proof -
  let ?key = "\<lambda>v. versionKey (vr_Bucket v) (vr_Key v) (vr_VersionID v)"
  have "\<exists>vs. decode_all ''bbolt: unmarshal version'' unmarshal_version
        (scan K db versionsBucket (versionPrefix n k)) = Inr vs \<and> sorted_wrt (<) (map ?key vs) \<and>
     (\<forall>v. v \<in> set vs \<longleftrightarrow> prefix (versionPrefix n k) (?key v) \<and> db_Get K db versionsBucket (?key v) = Some (JVersion v))"
    by (rule scan_listing [OF i]) (use contents_version [OF binv_contents [OF i]] in blast, simp)
  then obtain vs where vs: "bb_ListVersions K db n k = Inr (sort_key (\<lambda>v. - vr_LastModified v) vs)"
    "sorted_wrt (<) (map ?key vs)"
    "\<And>v. v \<in> set vs \<longleftrightarrow> prefix (versionPrefix n k) (?key v) \<and> db_Get K db versionsBucket (?key v) = Some (JVersion v)"
    by (auto simp: bb_ListVersions_def)
  have ok: "version_ok (vr_Bucket v) (vr_Key v) (vr_VersionID v)"
    if "db_Get K db versionsBucket (?key v) = Some (JVersion v)" for v
    using contents_home [OF binv_contents [OF i] that] by simp
  have el: "v \<in> set vs \<longleftrightarrow> mv_versions (bview db) n k (vr_VersionID v) = Some v" for v
  proof
    assume "v \<in> set vs"
    then have p: "prefix (versionPrefix n k) (?key v)" "db_Get K db versionsBucket (?key v) = Some (JVersion v)"
      using vs(3) by blast+
    with version_ok_nulfree [OF ok [OF p(2)]] n have "vr_Bucket v = n" "vr_Key v = k"
      by (simp_all add: prefix_versionKey)
    with p n i show "mv_versions (bview db) n k (vr_VersionID v) = Some v"
      by (simp add: get_version_iff [symmetric])
  next
    assume "mv_versions (bview db) n k (vr_VersionID v) = Some v"
    from mv_versionsD [OF binv_contents [OF i] this [unfolded bolt_view_def]] n
    have "prefix (versionPrefix n k) (?key v) \<and> db_Get K db versionsBucket (?key v) = Some (JVersion v)"
      by (simp add: prefix_versionKey)
    then show "v \<in> set vs" using vs(3) by blast
  qed
  have nk: "vr_Bucket v = n \<and> vr_Key v = k" if "v \<in> set vs" for v
    using that el mv_versionsD [OF binv_contents [OF i], of n k "vr_VersionID v" v]
    by (simp add: bolt_view_def)
  have "distinct (map ?key vs)" by (rule sorted_wrt_less_distinct [OF vs(2)])
  then have "distinct vs" "inj_on ?key (set vs)" by (simp_all add: distinct_map)
  then have "inj_on vr_VersionID (set vs)" using nk by (auto simp: inj_on_def)
  then have "distinct (map vr_VersionID (sort_key (\<lambda>v. - vr_LastModified v) vs))"
    using \<open>distinct vs\<close> by (simp add: distinct_map)
  moreover have "sorted (map (\<lambda>v. - vr_LastModified v) (sort_key (\<lambda>v. - vr_LastModified v) vs))" by simp
  then have "sorted_wrt (\<ge>) (map vr_LastModified (sort_key (\<lambda>v. - vr_LastModified v) vs))"
    by (simp add: sorted_wrt_map)
  ultimately show ?thesis using vs(1) el by auto
qed


lemma list_objects_ok:
  assumes i: "binv db" and n: "nulfree n"
    and o: "lo_Delimiter opts = []" "lo_ContinuationToken opts = []" "lo_StartAfter opts = []"
  shows "\<exists>xs. bb_ListObjects K db n opts = Inr (take (max_keys opts) xs, []) \<and>
    sorted_wrt (<) (map or_Key xs) \<and>
    (\<forall>x. x \<in> set xs \<longleftrightarrow> mv_objects (bview db) n (or_Key x) = Some x \<and> prefix (lo_Prefix opts) (or_Key x))"
proof -
  let ?pfx = "object_key n (lo_Prefix opts)" and ?key = "\<lambda>x. object_key (or_Bucket x) (or_Key x)"
  let ?xs = "map (the \<circ> unmarshal_object \<circ> snd) (scan K db objectsBucket ?pfx)"
  have dec: "\<exists>r. v = JObject r \<and> k = ?key r" if "db_Get K db objectsBucket k = Some v" for k v
    using contents_object [OF binv_contents [OF i] that] by blast
  have "\<forall>(k, v) \<in> set (db_Seek K db objectsBucket ?pfx). unmarshal_object v \<noteq> None"
    using dec db_seek_set [OF binv_kinv [OF i]] by fastforce
  from list_loop_plain [OF o(1) this, of "[]"]
  have 1: "bb_ListObjects K db n opts = Inr (take (max_keys opts) ?xs, [])"
    using o by (simp add: bb_ListObjects_def Let_def start_after_key_def scan_def)
  have s: "(k, v) \<in> set (scan K db objectsBucket ?pfx) \<longleftrightarrow> prefix ?pfx k \<and> db_Get K db objectsBucket k = Some v" for k v
    using scan_set [OF binv_kinv [OF i]] by blast
  have "\<exists>rs. decode_all [] unmarshal_object (scan K db objectsBucket ?pfx) = Inr rs \<and> rs = ?xs \<and>
     sorted_wrt (<) (map ?key rs) \<and>
     (\<forall>r. r \<in> set rs \<longleftrightarrow> prefix ?pfx (?key r) \<and> db_Get K db objectsBucket (?key r) = Some (JObject r))"
    by (rule decode_listing [where C = JObject and key = ?key and P = "prefix ?pfx" and unm = unmarshal_object,
        OF s dec _ scan_sorted [OF binv_kinv [OF i]]]) auto
  then have 2: "sorted_wrt (<) (map ?key ?xs)"
    "\<And>x. x \<in> set ?xs \<longleftrightarrow> prefix ?pfx (?key x) \<and> db_Get K db objectsBucket (?key x) = Some (JObject x)"
    by blast+
  have el: "x \<in> set ?xs \<longleftrightarrow> mv_objects (bview db) n (or_Key x) = Some x \<and> prefix (lo_Prefix opts) (or_Key x)" for x
  proof
    assume "x \<in> set ?xs"
    then have p: "prefix ?pfx (?key x)" "db_Get K db objectsBucket (?key x) = Some (JObject x)"
      using 2(2) by blast+
    have "nulfree (or_Bucket x)" using contents_home [OF binv_contents [OF i] p(2)] object_ok_nulfree by simp
    with p(1) n have "or_Bucket x = n" "prefix (lo_Prefix opts) (or_Key x)" by (simp_all add: prefix_object_key)
    with p(2) get_object_iff [OF i n] show "mv_objects (bview db) n (or_Key x) = Some x \<and> prefix (lo_Prefix opts) (or_Key x)"
      by simp
  next
    assume a: "mv_objects (bview db) n (or_Key x) = Some x \<and> prefix (lo_Prefix opts) (or_Key x)"
    from mv_objectsD [OF binv_contents [OF i] conjunct1 [OF a, unfolded bolt_view_def]] a n
    have "prefix ?pfx (?key x) \<and> db_Get K db objectsBucket (?key x) = Some (JObject x)"
      by (simp add: prefix_object_key)
    then show "x \<in> set ?xs" using 2(2) by blast
  qed
  have "or_Key x < or_Key y" if "x \<in> set ?xs" "y \<in> set ?xs" "?key x < ?key y" for x y
  proof -
    from that(1,2) have "mv_objects (view_of (db_Get K db)) n (or_Key x) = Some x"
      "mv_objects (view_of (db_Get K db)) n (or_Key y) = Some y"
      unfolding el by (simp_all add: bolt_view_def)
    from this [THEN mv_objectsD [OF binv_contents [OF i]]] that(3) show ?thesis
      by (simp add: object_key_less)
  qed
  then have "sorted_wrt (<) (map or_Key ?xs)"
    using 2(1) unfolding sorted_wrt_map by (rule sorted_wrt_mono_rel) auto
  with 1 el show ?thesis by blast
qed


lemma list_bucket_versions_ok:
  assumes i: "binv db" and n: "nulfree n"
  shows "\<exists>vs. bb_ListBucketVersions K db n opts = Inr vs \<and> length vs \<le> max_keys opts \<and>
    (\<forall>v \<in> set vs. mv_versions (bview db) n (vr_Key v) (vr_VersionID v) = Some v)"
proof -
  let ?key = "\<lambda>v. versionKey (vr_Bucket v) (vr_Key v) (vr_VersionID v)"
  let ?kvs = "take (max_keys opts) (scan K db versionsBucket (object_key n (lo_Prefix opts)))"
  let ?vs = "map (the \<circ> unmarshal_version \<circ> snd) ?kvs"
  have el: "prefix (object_key n (lo_Prefix opts)) k \<and> db_Get K db versionsBucket k = Some v"
    if "(k, v) \<in> set ?kvs" for k v
    using in_set_takeD [OF that] scan_set [OF binv_kinv [OF i]] by blast
  have dec: "\<exists>r. v = JVersion r \<and> k = ?key r \<and> version_ok (vr_Bucket r) (vr_Key r) (vr_VersionID r)"
    if "(k, v) \<in> set ?kvs" for k v
    using contents_version [OF binv_contents [OF i]] el [OF that] by blast
  have "decode_all ''bbolt: unmarshal version'' unmarshal_version ?kvs = Inr ?vs"
    by (rule decode_all_Inr) (use dec in fastforce)
  moreover have "mv_versions (bview db) n (vr_Key v) (vr_VersionID v) = Some v" if "v \<in> set ?vs" for v
  proof -
    from that obtain k j where kj: "(k, j) \<in> set ?kvs" "v = the (unmarshal_version j)" by auto
    with dec have v: "j = JVersion v" "k = ?key v" "version_ok (vr_Bucket v) (vr_Key v) (vr_VersionID v)"
      by fastforce+
    have "vr_Bucket v = n"
      using el [OF kj(1)] v n version_ok_nulfree [OF v(3)]
        prefix_object_key [of n "vr_Bucket v" "lo_Prefix opts" "vr_Key v @ NUL # vr_VersionID v"]
      by (auto simp: versionKey_def object_key_def)
    with el [OF kj(1)] v get_version_iff [OF i n] version_ok_nulfree [OF v(3)] show ?thesis by simp
  qed
  ultimately show ?thesis by (simp add: bb_ListBucketVersions_def)
qed

lemma put_all_ok:
  assumes "kinv tx" and "\<forall>(k, v) \<in> set us. k \<noteq> [] \<and> length k \<le> max_key_size" and "distinct (map fst us)"
  shows "\<exists>tx'. put_all K b us tx = Inr tx' \<and> kinv tx' \<and>
    (\<forall>b' k'. db_Get K tx' b' k' =
      (case (if b' = b then map_of us k' else None) of Some v \<Rightarrow> Some v | None \<Rightarrow> db_Get K tx b' k'))"
  using assms
proof (induction us arbitrary: tx)
  case Nil
  then show ?case by simp
next
  case (Cons kv us)
  obtain k v where kv: "kv = (k, v)" by force
  with Cons.prems db_put [of tx k b v] obtain tx1 where
    tx1: "db_Put K tx b k v = Inr tx1" "kinv tx1" "db_Get K tx1 = upd2 (db_Get K tx) b k (Some v)" by auto
  from Cons.prems kv have "k \<notin> fst ` set us" by auto
  then have "map_of us k = None" by (simp add: map_of_eq_None_iff)
  from Cons.IH [OF tx1(2)] Cons.prems kv obtain tx' where tx': "put_all K b us tx1 = Inr tx'" "kinv tx'"
    "\<And>b' k'. db_Get K tx' b' k' =
      (case (if b' = b then map_of us k' else None) of Some v \<Rightarrow> Some v | None \<Rightarrow> db_Get K tx1 b' k')"
    by auto
  have "db_Get K tx' b' k' = (case (if b' = b then map_of (kv # us) k' else None) of
      Some v \<Rightarrow> Some v | None \<Rightarrow> db_Get K tx b' k')" for b' k'
    using tx'(3) [of b' k'] tx1(3) \<open>map_of us k = None\<close> kv
    by (cases "b' = b"; cases "k' = k") (auto simp: upd2_apply split: option.splits)
  with tx1 tx'(1,2) kv show ?case by auto
qed

lemma delete_all_ok:
  assumes "kinv tx"
  shows "\<exists>tx'. delete_all K b ks tx = Inr tx' \<and> kinv tx' \<and>
    (\<forall>b' k'. db_Get K tx' b' k' = (if b' = b \<and> k' \<in> set ks then None else db_Get K tx b' k'))"
  using assms
proof (induction ks arbitrary: tx)
  case Nil
  then show ?case by simp
next
  case (Cons k ks)
  with db_delete [of tx b k] obtain tx1 where
    tx1: "db_Delete K tx b k = Inr tx1" "kinv tx1" "db_Get K tx1 = upd2 (db_Get K tx) b k None" by auto
  with Cons.IH [OF tx1(2)] show ?case by (auto simp: upd2_apply)
qed

lemma delete_parts_ok:
  assumes i: "binv db" and u: "nulfree u"
  shows "wrote binv bview (bb_DeleteParts K db u)
    ((bview db)\<lparr>mv_parts := (mv_parts (bview db))(u := Map.empty)\<rparr>)"
proof -
  let ?p = "object_key u []" and ?c = "db_Get K db"
  let ?c' = "\<lambda>b k. if b = partsBucket \<and> prefix ?p k then None else ?c b k"
  from delete_all_ok [OF binv_kinv [OF i], of partsBucket "map fst (scan K db partsBucket ?p)"]
  obtain tx where tx: "delete_all K partsBucket (map fst (scan K db partsBucket ?p)) db = Inr tx" "kinv tx"
    "\<And>b k. db_Get K tx b k = (if b = partsBucket \<and> k \<in> fst ` set (scan K db partsBucket ?p) then None else ?c b k)"
    by auto
  have "db_Get K tx b k = ?c' b k" for b k
    using tx(3) [of b k] scan_set [OF binv_kinv [OF i], of k _ partsBucket ?p]
    by (cases "?c b k") (force simp: image_iff)+
  then have c: "db_Get K tx = ?c'" by (intro ext)
  obtain db' where db': "bb_DeleteParts K db u = Inr db'" "kinv db'" "db_Get K db' = ?c'"
    using db_Update_ok [of "\<lambda>tx. delete_all K partsBucket (map fst (scan K tx partsBucket ?p)) tx", OF tx(1,2)] c
    by (auto simp: bb_DeleteParts_def)
  have "contents_ok ?c'" using binv_contents [OF i] by (auto simp: contents_ok_def)
  moreover have "view_of ?c' = (view_of ?c)\<lparr>mv_parts := (mv_parts (view_of ?c))(u := Map.empty)\<rparr>"
    using u by (auto simp: view_of_def fun_eq_iff prefix_part_key)
  ultimately show ?thesis using db' by (auto simp: wrote_def bolt_inv_def bolt_view_def)
qed

lemma mark_ok:
  assumes i: "binv db" and n: "nulfree n" "nulfree k"
  shows "wrote binv bview (bb_MarkVersionsNotLatest K db n k) (mark_view n k (bview db))"
proof -
  let ?p = "versionPrefix n k" and ?c = "db_Get K db"
  let ?u = "\<lambda>v. JVersion (unlatest (the (unmarshal_version v)))"
  let ?c' = "\<lambda>b x. if b = versionsBucket \<and> prefix ?p x then map_option ?u (?c b x) else ?c b x"
  let ?kvs = "scan K db versionsBucket ?p"
  note c = binv_contents [OF i] and ss = scan_set [OF binv_kinv [OF i]]
  have v: "\<exists>r. j = JVersion r" if "(x, j) \<in> set ?kvs" for x j
    using that contents_version [OF c] ss by blast
  have "\<exists>us. mark_updates ?kvs = Inr us \<and> fst ` set us \<subseteq> fst ` set ?kvs \<and> distinct (map fst us) \<and>
    (\<forall>x j. (x, j) \<in> set us \<longleftrightarrow> (\<exists>r. (x, JVersion r) \<in> set ?kvs \<and> vr_IsLatest r \<and> j = JVersion (unlatest r)))"
    by (rule mark_updates_ok [OF _ sorted_wrt_less_distinct [OF scan_sorted [OF binv_kinv [OF i]]]])
      (use v in blast)
  then obtain us where us: "mark_updates ?kvs = Inr us" "fst ` set us \<subseteq> fst ` set ?kvs" "distinct (map fst us)"
    "\<And>x j. (x, j) \<in> set us \<longleftrightarrow> (\<exists>r. (x, JVersion r) \<in> set ?kvs \<and> vr_IsLatest r \<and> j = JVersion (unlatest r))"
    by blast
  have "\<forall>(x, j) \<in> set us. x \<noteq> [] \<and> length x \<le> max_key_size"
    using us(4) ss contents_home [OF c] home_size by fastforce
  from put_all_ok [OF binv_kinv [OF i] this us(3), of versionsBucket] obtain tx where
    tx: "put_all K versionsBucket us db = Inr tx" "kinv tx"
    "\<And>b x. db_Get K tx b x = (case (if b = versionsBucket then map_of us x else None) of
        Some j \<Rightarrow> Some j | None \<Rightarrow> ?c b x)"
    by blast
  have "db_Get K tx b x = ?c' b x" for b x
  proof (cases "b = versionsBucket \<and> prefix ?p x \<and> ?c b x \<noteq> None")
    case True
    then obtain r where r: "?c versionsBucket x = Some (JVersion r)" using contents_version [OF c] by auto
    with True ss have "(x, JVersion r) \<in> set ?kvs" by blast
    moreover have "r' = r" if "(x, JVersion r') \<in> set ?kvs" for r' using that ss r by auto
    ultimately have el: "(x, j) \<in> set us \<longleftrightarrow> vr_IsLatest r \<and> j = JVersion (unlatest r)" for j
      using us(4) [of x j] by blast
    have "map_of us x = (if vr_IsLatest r then Some (JVersion (unlatest r)) else None)"
    proof (cases "vr_IsLatest r")
      case True
      with el us(3) show ?thesis by simp
    next
      case False
      with el have "x \<notin> fst ` set us" by auto
      with False show ?thesis by (simp add: map_of_eq_None_iff)
    qed
    with tx(3) [of b x] r True show ?thesis by (auto simp: unlatest_def)
  next
    case False
    have "map_of us x = None" if "b = versionsBucket"
    proof (rule ccontr)
      assume "map_of us x \<noteq> None"
      then obtain j where "(x, j) \<in> set us" by (auto dest: map_of_SomeD)
      with us(4) ss have "prefix ?p x \<and> ?c versionsBucket x \<noteq> None" by blast
      with False that show False by blast
    qed
    with tx(3) [of b x] False show ?thesis by auto
  qed
  then have e: "db_Get K tx = ?c'" by (intro ext)
  obtain db' where db': "bb_MarkVersionsNotLatest K db n k = Inr db'" "kinv db'" "db_Get K db' = ?c'"
    using db_Update_ok [of "\<lambda>tx. case mark_updates (scan K tx versionsBucket ?p) of
        Inl e \<Rightarrow> Inl e | Inr updates \<Rightarrow> put_all K versionsBucket updates tx" db tx] us(1) tx(1,2) e
    by (auto simp: bb_MarkVersionsNotLatest_def)
  have "contents_ok ?c'"
    using c contents_version [OF c] by (fastforce simp: contents_ok_def unlatest_def)
  moreover have "view_of ?c' = mark_view n k (view_of ?c)"
  proof -
    have "Option.bind (map_option ?u (?c versionsBucket x)) unmarshal_version =
       map_option unlatest (Option.bind (?c versionsBucket x) unmarshal_version)" for x
      using contents_version [OF c] by (cases "?c versionsBucket x") fastforce+
    then show ?thesis using n by (auto simp: view_of_def mark_view_def fun_eq_iff prefix_versionKey)
  qed
  ultimately show ?thesis using db' by (auto simp: wrote_def bolt_inv_def bolt_view_def)
qed


lemma update_stats_ok:
  assumes i: "binv db" and "mv_buckets (bview db) n \<noteq> None"
  shows "wrote binv bview (bb_UpdateBucketStats K db n dc dbs) (stats_view n dc dbs (bview db))"
proof -
  from assms(2) obtain b where n: "mv_buckets (bview db) n = Some b" by auto
  have b: "db_Get K db bucketsBucket n = Some (JBucket b)" "br_Name b = n" "name_ok n"
    using mv_bucketsD [OF binv_contents [OF i]] n by (auto simp: bolt_view_def)
  let ?v = "JBucket (add_stats dc dbs b)"
  have "bb_UpdateBucketStats K db n dc dbs = store_put K bucketsBucket n ?v db"
    using b(1) by (simp add: bb_UpdateBucketStats_def store_put_def db_Update_def add_stats_def)
  moreover have "wrote binv bview (store_put K bucketsBucket n ?v db) (stats_view n dc dbs (bview db))"
    by (rule store_put_wrote [OF i]) (use b n in \<open>simp_all add: add_stats_def stats_view_def view_upd_bucket bolt_view_def\<close>)
  ultimately show ?thesis by simp
qed

lemma bucket_present: "binv db \<Longrightarrow>
    (\<exists>v. db_Get K db bucketsBucket n = Some v) \<longleftrightarrow> (\<exists>b. mv_buckets (bview db) n = Some b)"
  using contents_bucket [OF binv_contents] get_bucket_iff by blast

lemma get_absent: "binv db \<Longrightarrow> mv_buckets (bview db) n = None \<Longrightarrow> db_Get K db bucketsBucket n = None"
  using bucket_present [of db n] by (cases "db_Get K db bucketsBucket n") auto

lemma object_present: "binv db \<Longrightarrow> nulfree n \<Longrightarrow>
    (\<exists>v. db_Get K db objectsBucket (object_key n k) = Some v) \<longleftrightarrow> (\<exists>x. mv_objects (bview db) n k = Some x)"
  using contents_object [OF binv_contents] get_object_iff by blast

end

lemmas store_views = bolt_view_def put_object_view_def del_object_view_def put_version_view_def
  del_version_view_def put_part_view_def view_upd_bucket view_upd_object view_upd_version
  view_upd_multipart view_upd_part view_upd_key

context bolt_db
begin

lemma view_wf_ok: "binv m \<Longrightarrow> view_wf (bview m)"
  using binv_contents by (simp add: bolt_view_def view_of_wf)

lemma put_bucket_ok: "binv m \<Longrightarrow> name_ok (br_Name b) \<Longrightarrow> wrote binv bview (bb_PutBucket K m b)
      ((bview m)\<lparr>mv_buckets := (mv_buckets (bview m))(br_Name b \<mapsto> b)\<rparr>)"
  unfolding bb_PutBucket_def by (rule store_put_wrote) (simp_all add: store_views)

lemma get_bucket_ok: "binv m \<Longrightarrow> found (bb_GetBucket K m n) (mv_buckets (bview m) n)"
  using store_get_found [of m bucketsBucket n unmarshal_bucket] contents_bucket [OF binv_contents]
  by (fastforce simp: bb_GetBucket_def bolt_view_def view_of_def)

lemma delete_bucket_ok: "binv m \<Longrightarrow> wrote binv bview (bb_DeleteBucket K m n)
      ((bview m)\<lparr>mv_buckets := (mv_buckets (bview m))(n := None)\<rparr>)"
  unfolding bb_DeleteBucket_def by (rule store_delete_wrote) (simp_all add: store_views)

lemma bucket_exists_ok: "binv m \<Longrightarrow> bb_BucketExists K m n = Inr (mv_buckets (bview m) n \<noteq> None)"
  using bucket_present by (simp add: bb_BucketExists_def)

lemma put_object_ok: "binv m \<Longrightarrow> object_ok (or_Bucket x) (or_Key x) \<Longrightarrow> wrote binv bview (bb_PutObject K m x)
      (put_object_view x (bview m))"
  unfolding bb_PutObject_def
  by (rule store_put_wrote) (simp_all add: store_views object_ok_nulfree)

lemma get_object_ok: "binv m \<Longrightarrow> nulfree n \<Longrightarrow> found (bb_GetObject K m n k) (mv_objects (bview m) n k)"
  using store_get_found [of m objectsBucket "object_key n k" unmarshal_object] contents_object [OF binv_contents]
  by (fastforce simp: bb_GetObject_def bolt_view_def view_of_def)

lemma delete_object_ok: "binv m \<Longrightarrow> nulfree n \<Longrightarrow> wrote binv bview (bb_DeleteObject K m n k)
      (del_object_view n k (bview m))"
  unfolding bb_DeleteObject_def by (rule store_delete_wrote) (simp_all add: store_views)

lemma object_exists_ok: "binv m \<Longrightarrow> nulfree n \<Longrightarrow> bb_ObjectExists K m n k = Inr (mv_objects (bview m) n k \<noteq> None)"
  using object_present by (simp add: bb_ObjectExists_def)

lemma update_stats_none_ok: "binv m \<Longrightarrow> mv_buckets (bview m) n = None \<Longrightarrow>
    \<exists>e. bb_UpdateBucketStats K m n dc db = Inl e \<and> isNotFound e"
  using get_absent [of m n] by (simp add: bb_UpdateBucketStats_def db_Update_def)

lemma put_version_ok: "binv m \<Longrightarrow> version_ok (vr_Bucket v) (vr_Key v) (vr_VersionID v) \<Longrightarrow> wrote binv bview
      (bb_PutVersion K m v) (put_version_view v (bview m))"
  unfolding bb_PutVersion_def
  by (rule store_put_wrote) (simp_all add: store_views version_ok_nulfree)

lemma get_version_ok: "binv m \<Longrightarrow> nulfree n \<Longrightarrow> nulfree k \<Longrightarrow> found (bb_GetVersion K m n k j) (mv_versions (bview m) n k j)"
  using store_get_found [of m versionsBucket "versionKey n k j" unmarshal_version] contents_version [OF binv_contents]
  by (fastforce simp: bb_GetVersion_def bolt_view_def view_of_def)

lemma delete_version_ok: "binv m \<Longrightarrow> nulfree n \<Longrightarrow> nulfree k \<Longrightarrow> wrote binv bview (bb_DeleteVersion K m n k j)
      (del_version_view n k j (bview m))"
  unfolding bb_DeleteVersion_def by (rule store_delete_wrote) (simp_all add: store_views)

lemma put_multipart_ok: "binv m \<Longrightarrow> name_ok (mr_UploadID u) \<Longrightarrow> wrote binv bview (bb_PutMultipart K m u)
      ((bview m)\<lparr>mv_multiparts := (mv_multiparts (bview m))(mr_UploadID u \<mapsto> u)\<rparr>)"
  unfolding bb_PutMultipart_def by (rule store_put_wrote) (simp_all add: store_views)

lemma get_multipart_ok: "binv m \<Longrightarrow> found (bb_GetMultipart K m j) (mv_multiparts (bview m) j)"
  using store_get_found [of m multipartBucket j unmarshal_multipart] contents_multipart [OF binv_contents]
  by (fastforce simp: bb_GetMultipart_def bolt_view_def view_of_def)

lemma delete_multipart_ok: "binv m \<Longrightarrow> wrote binv bview (bb_DeleteMultipart K m j)
      ((bview m)\<lparr>mv_multiparts := (mv_multiparts (bview m))(j := None)\<rparr>)"
  unfolding bb_DeleteMultipart_def by (rule store_delete_wrote) (simp_all add: store_views)

lemma put_part_ok: "binv m \<Longrightarrow> part_ok (pr_UploadID p) (pr_PartNumber p) \<Longrightarrow> wrote binv bview (bb_PutPart K m p)
      (put_part_view p (bview m))"
  unfolding bb_PutPart_def by (rule store_put_wrote) (simp_all add: store_views part_ok_nulfree)

lemma put_key_ok: "binv m \<Longrightarrow> ak_AccessKey a \<noteq> [] \<Longrightarrow> length (ak_AccessKey a) \<le> max_key_size \<Longrightarrow>
      wrote binv bview (bb_PutAccessKey K m a)
      ((bview m)\<lparr>mv_keys := (mv_keys (bview m))(ak_AccessKey a \<mapsto> a)\<rparr>)"
  unfolding bb_PutAccessKey_def by (rule store_put_wrote) (simp_all add: store_views)

lemma get_key_ok: "binv m \<Longrightarrow> found (bb_GetAccessKey K m j) (mv_keys (bview m) j)"
  using store_get_found [of m keysBucket j unmarshal_key] contents_key [OF binv_contents]
  by (fastforce simp: bb_GetAccessKey_def bolt_view_def view_of_def)

lemma delete_key_ok: "binv m \<Longrightarrow> wrote binv bview (bb_DeleteAccessKey K m j)
      ((bview m)\<lparr>mv_keys := (mv_keys (bview m))(j := None)\<rparr>)"
  unfolding bb_DeleteAccessKey_def by (rule store_delete_wrote) (simp_all add: store_views)

lemmas store_laws_ok = view_wf_ok put_bucket_ok get_bucket_ok delete_bucket_ok bucket_exists_ok put_object_ok
    get_object_ok delete_object_ok object_exists_ok update_stats_none_ok put_version_ok
    get_version_ok delete_version_ok put_multipart_ok get_multipart_ok delete_multipart_ok
    put_part_ok put_key_ok get_key_ok delete_key_ok list_buckets_ok
    list_objects_ok update_stats_ok list_versions_ok mark_ok list_multiparts_ok
    list_parts_ok delete_parts_ok list_keys_ok

end

sublocale bolt_db \<subseteq> ms: metadata_store "bbolt_store K" "bolt_view K" "bolt_inv K kinv"
  by (unfold_locales, simp_all only: bbolt_store_def meta_store.simps)
    (rule store_laws_ok; assumption)+

context bolt_db
begin

lemma store_is_metadata_store: "metadata_store (bbolt_store K) (bolt_view K) (bolt_inv K kinv)"
  by (rule ms.metadata_store_axioms)

end

section \<open>A reference database\<close>

text \<open>
  A database that meets the laws: an association list from database bucket and key to value,
  with the cursor's pairs sorted by key. It shows that the laws can hold together, and it is the
  concrete database on which the witnesses of the properties are evaluated.
\<close>

type_synonym ref_db = "((string \<times> string) \<times> json) list"

definition ref_Get :: "ref_db \<Rightarrow> string \<Rightarrow> string \<Rightarrow> json option" where
  "ref_Get db b k = map_of db (b, k)"

definition ref_Put :: "ref_db \<Rightarrow> string \<Rightarrow> string \<Rightarrow> json \<Rightarrow> ref_db result" where
  "ref_Put db b k v =
     (if k = [] then Inl (Errorf ''key required'' [])
      else if max_key_size < length k then Inl (Errorf ''key too large'' [])
      else Inr (AList.update (b, k) v db))"

definition ref_Delete :: "ref_db \<Rightarrow> string \<Rightarrow> string \<Rightarrow> ref_db result" where
  "ref_Delete db b k = Inr (AList.delete (b, k) db)"

definition ref_Seek :: "ref_db \<Rightarrow> string \<Rightarrow> string \<Rightarrow> (string \<times> json) list" where
  "ref_Seek db b k =
     map (\<lambda>x. (x, the (map_of db (b, x))))
       (sort (remdups (map (snd \<circ> fst) (filter (\<lambda>e. fst (fst e) = b \<and> k \<le> snd (fst e)) db))))"

definition ref_bolt :: "ref_db bolt" where
  "ref_bolt = \<lparr>db_Get = ref_Get, db_Put = ref_Put, db_Delete = ref_Delete, db_Seek = ref_Seek,
     db_Commit = Inr\<rparr>"

lemma ref_Seek_set: "(k', v) \<in> set (ref_Seek db b k) \<longleftrightarrow> k \<le> k' \<and> ref_Get db b k' = Some v"
proof -
  have "map_of db (b, k') = Some v \<Longrightarrow> ((b, k'), v) \<in> set db" by (rule map_of_SomeD)
  moreover have "map_of db (b, x) \<noteq> None" if "((b, x), y) \<in> set db" for x y
    using that by (metis fst_conv image_eqI map_of_eq_None_iff)
  ultimately show ?thesis
    unfolding ref_Seek_def ref_Get_def by (force simp: image_iff)
qed

interpretation ref: bolt_db ref_bolt "\<lambda>_. True"
proof
  show "sorted_wrt (<) (map fst (db_Seek ref_bolt db b k))" for db b k
    by (simp add: ref_bolt_def ref_Seek_def o_def strict_sorted_iff)
qed (auto simp: ref_bolt_def ref_Put_def ref_Delete_def ref_Seek_set ref_Get_def upd2_def update_conv'
    delete_conv' fun_eq_iff split: if_splits)

text \<open>The empty database, as \<open>Open\<close> leaves a new file, satisfies the invariant of the store.\<close>

lemma ref_empty_inv: "bolt_inv ref_bolt (\<lambda>_. True) []"
  by (simp add: bolt_inv_def contents_ok_def ref_bolt_def ref_Get_def)

section \<open>Properties\<close>



end
