(* ===== verification/Path_Clean.thy ===== *)
theory Path_Clean
  imports Sang_Prelude
begin

text \<open>
  The lexical path functions of Go's \<open>path/filepath\<close> on a Unix system, which the local backend
  relies on to keep an object key inside its directory: \<open>Clean\<close>, \<open>Join\<close> and \<open>Dir\<close>. A path is also
  read as the list of its non-empty components (\<open>os_path\<close>), which is how the operating system
  resolves it.
\<close>

abbreviation SLASH :: char where
  "SLASH \<equiv> CHR ''/''"

abbreviation "dot \<equiv> ''.''"
abbreviation "dotdot \<equiv> ''..''"

text \<open>
  The component loop of \<open>Clean\<close>. \<open>st\<close> is the output so far, last component first: empty and \<open>.\<close>
  components vanish, \<open>..\<close> removes the last proper component, is dropped at the root and kept at
  the front of a relative path.
\<close>

fun clean_stack :: "bool \<Rightarrow> string list \<Rightarrow> string list \<Rightarrow> string list" where
  "clean_stack rooted st [] = rev st"
| "clean_stack rooted st (c # cs) =
     (if c = [] \<or> c = dot then clean_stack rooted st cs
      else if c = dotdot then
        (case st of
           [] \<Rightarrow> clean_stack rooted (if rooted then [] else [dotdot]) cs
         | t # st' \<Rightarrow> clean_stack rooted (if t = dotdot then dotdot # st else st') cs)
      else clean_stack rooted (c # st) cs)"

definition rooted :: "string \<Rightarrow> bool" where
  "rooted p \<longleftrightarrow> prefix [SLASH] p"

definition clean_comps :: "string \<Rightarrow> string list" where
  "clean_comps p = clean_stack (rooted p) [] (Split SLASH p)"

definition Clean :: "string \<Rightarrow> string" where
  "Clean p =
     (let out = (if rooted p then [SLASH] else []) @ Join (clean_comps p) [SLASH]
      in if out = [] then dot else out)"

definition Join_path :: "string list \<Rightarrow> string" where
  "Join_path es =
     (let ne = filter (\<lambda>e. e \<noteq> []) es in if ne = [] then [] else Clean (Join ne [SLASH]))"

text \<open>The components by which the operating system walks a path.\<close>

definition os_path :: "string \<Rightarrow> string list" where
  "os_path s = filter (\<lambda>c. c \<noteq> []) (Split SLASH s)"

text \<open>A proper component: not empty, not \<open>.\<close> or \<open>..\<close>, without a separator.\<close>

definition proper :: "string \<Rightarrow> bool" where
  "proper c \<longleftrightarrow> c \<noteq> [] \<and> c \<noteq> dot \<and> c \<noteq> dotdot \<and> SLASH \<notin> set c"

section \<open>Components\<close>

lemma Split_append: "Split d (s @ d # t) = Split d s @ Split d t"
proof (induction s)
  case Nil
  then show ?case by simp
next
  case (Cons c s)
  obtain p ps where "Split d s = p # ps" by (cases "Split d s") auto
  with Cons show ?case by auto
qed

lemma os_path_append [simp]: "os_path (s @ SLASH # t) = os_path s @ os_path t"
  by (simp add: os_path_def Split_append)

lemma os_path_Nil [simp]: "os_path [] = []"
  by (simp add: os_path_def)

lemma os_path_slash [simp]: "os_path (SLASH # t) = os_path t"
  using os_path_append [of "[]" t] by simp

lemma os_path_comp: "c \<noteq> [] \<Longrightarrow> SLASH \<notin> set c \<Longrightarrow> os_path c = [c]"
  by (simp add: os_path_def Split_no_sep)

lemma os_path_Join:
  "\<forall>c \<in> set cs. c \<noteq> [] \<and> SLASH \<notin> set c \<Longrightarrow> os_path (Join cs [SLASH]) = cs"
  by (induction cs rule: induct_list012) (simp_all add: os_path_comp)

lemma clean_stack_append:
  "clean_stack r st (xs @ ys) = clean_stack r (rev (clean_stack r st xs)) ys"
  by (induction r st xs rule: clean_stack.induct) (auto split: list.splits)

lemma clean_stack_proper: "\<forall>c \<in> set cs. proper c \<Longrightarrow> clean_stack r st cs = rev st @ cs"
  by (induction cs arbitrary: st) (auto simp: proper_def)

text \<open>The shape of a cleaned path: the \<open>..\<close> components come first, and none if it is rooted.\<close>

definition clean_form :: "bool \<Rightarrow> string list \<Rightarrow> bool" where
  "clean_form r cs \<longleftrightarrow> (\<exists>n ps. cs = replicate n dotdot @ ps \<and> (\<forall>c \<in> set ps. proper c) \<and> (r \<longrightarrow> n = 0))"

lemma clean_form_Nil [simp]: "clean_form r []"
  by (simp add: clean_form_def)

lemma clean_form_snoc: "clean_form r cs \<Longrightarrow> proper c \<Longrightarrow> clean_form r (cs @ [c])"
proof -
  assume "clean_form r cs" "proper c"
  then obtain n ps where h: "cs = replicate n dotdot @ ps" "\<forall>c \<in> set ps. proper c" "r \<longrightarrow> n = 0"
    by (auto simp: clean_form_def)
  then have "cs @ [c] = replicate n dotdot @ (ps @ [c])" "\<forall>c \<in> set (ps @ [c]). proper c"
    using \<open>proper c\<close> by auto
  with h(3) show ?thesis unfolding clean_form_def by blast
qed

lemma clean_form_pop: "clean_form r (cs @ [c]) \<Longrightarrow> clean_form r cs"
proof -
  assume "clean_form r (cs @ [c])"
  then obtain n ps where h: "cs @ [c] = replicate n dotdot @ ps" "\<forall>c \<in> set ps. proper c" "r \<longrightarrow> n = 0"
    by (auto simp: clean_form_def)
  show "clean_form r cs"
  proof (cases ps rule: rev_cases)
    case Nil
    with h(1) have "cs = replicate (n - 1) dotdot"
      by (cases n) (auto simp: replicate_append_same [symmetric])
    with h(3) show ?thesis unfolding clean_form_def by (intro exI [of _ "n - 1"] exI [of _ "[]"]) auto
  next
    case (snoc ps' x)
    with h show ?thesis unfolding clean_form_def by (intro exI [of _ n] exI [of _ ps']) auto
  qed
qed

lemma clean_form_dotdot: "clean_form r (cs @ [dotdot]) \<Longrightarrow> clean_form r (cs @ [dotdot, dotdot])"
proof -
  assume "clean_form r (cs @ [dotdot])"
  then obtain n ps where h: "cs @ [dotdot] = replicate n dotdot @ ps" "\<forall>c \<in> set ps. proper c" "r \<longrightarrow> n = 0"
    by (auto simp: clean_form_def)
  have "ps = []" using h(1,2) by (cases ps rule: rev_cases) (auto simp: proper_def)
  with h have "cs @ [dotdot, dotdot] = replicate (Suc n) dotdot @ []" "\<not> r"
    by (auto simp: replicate_append_same [symmetric] dest: arg_cong [where f = length])
  then show ?thesis unfolding clean_form_def
    by (intro exI [of _ "Suc n"] exI [of _ "[]"]) auto
qed

lemma clean_stack_form:
  "clean_form r (rev st) \<Longrightarrow> \<forall>c \<in> set cs. SLASH \<notin> set c \<Longrightarrow> clean_form r (clean_stack r st cs)"
proof (induction r st cs rule: clean_stack.induct)
  case (2 r st c cs)
  then have cs: "\<forall>c \<in> set cs. SLASH \<notin> set c" by simp
  consider "c = [] \<or> c = dot" | "c = dotdot" "st = []" | t st' where "c = dotdot" "st = t # st'" |
    "c \<noteq> []" "c \<noteq> dot" "c \<noteq> dotdot" by (cases st) auto
  then show ?case
  proof cases
    case 1
    with 2 cs show ?thesis by auto
  next
    case 2
    have "clean_form r (if r then [] else [dotdot])"
      by (auto simp: clean_form_def intro!: exI [of _ 1])
    with 2 "2.IH"(2) cs show ?thesis by (auto split: if_splits)
  next
    case 3
    with "2.prems"(1) have "clean_form r (rev (if t = dotdot then dotdot # st else st'))"
      using clean_form_dotdot [of r "rev st'"] clean_form_pop [of r "rev st'"] by auto
    with 3 "2.IH"(3) cs show ?thesis by (auto split: if_splits)
  next
    case 4
    with "2.prems" have "proper c" by (simp add: proper_def)
    with "2.prems"(1) have "clean_form r (rev (c # st))" using clean_form_snoc [of r "rev st" c] by simp
    with 4 "2.IH"(4) cs show ?thesis by simp
  qed
qed simp

lemma clean_comps_form: "clean_form (rooted p) (clean_comps p)"
  unfolding clean_comps_def by (rule clean_stack_form) (auto dest: Split_parts)

lemma clean_form_comps: "clean_form r cs \<Longrightarrow> c \<in> set cs \<Longrightarrow> c \<noteq> [] \<and> SLASH \<notin> set c \<and> c \<noteq> dot"
proof -
  assume "clean_form r cs" and c: "c \<in> set cs"
  then obtain n ps where "cs = replicate n dotdot @ ps" "\<forall>c \<in> set ps. proper c"
    by (auto simp: clean_form_def)
  with c consider "c = dotdot" | "proper c" by (auto split: if_splits)
  then show ?thesis by cases (simp_all add: proper_def)
qed

lemma os_path_Clean: "os_path (Clean p) = (if \<not> rooted p \<and> clean_comps p = [] then [dot] else clean_comps p)"
proof -
  have "os_path (Join (clean_comps p) [SLASH]) = clean_comps p"
    by (rule os_path_Join) (use clean_form_comps [OF clean_comps_form] in blast)
  moreover have "Join (clean_comps p) [SLASH] = [] \<longleftrightarrow> clean_comps p = []"
  proof (cases "clean_comps p")
    case (Cons c cs)
    then have "c \<noteq> []" using clean_form_comps [OF clean_comps_form, of c p] by simp
    with Cons show ?thesis by (cases cs) auto
  qed simp
  ultimately show ?thesis by (auto simp: Clean_def Let_def os_path_comp)
qed

lemma Join_append: "xs \<noteq> [] \<Longrightarrow> ys \<noteq> [] \<Longrightarrow> Join (xs @ ys) [d] = Join xs [d] @ d # Join ys [d]"
  by (induction xs rule: induct_list012) (auto simp: Join_Cons)

end
