(* ===== verification/Local_FS.thy ===== *)
theory Local_FS
  imports Backend_Interface Path_Clean
begin

text \<open>
  The local file system backend (internal/backend/localfs/localfs.go) on a model of the system
  calls it makes. A file system is a list of nodes under paths, a path the list of its components;
  the root of the tree is always there. The temporary name that \<open>os.CreateTemp\<close> draws comes from
  \<open>lf_seed\<close>, the modification time of a written file from \<open>lf_clock\<close>. Faults of the device and
  missing permissions are not modelled, and there are no symbolic links: the program makes none.
\<close>

section \<open>The file system\<close>

datatype node = File bytes time | Dir

type_synonym fs = "(string list \<times> node) list"

definition lookup :: "fs \<Rightarrow> string list \<Rightarrow> node option" where
  "lookup fs p = (if p = [] then Some Dir else map_of fs p)"

definition parents :: "string list \<Rightarrow> string list list" where
  "parents p = map (\<lambda>n. take n p) [0 ..< length p]"

text \<open>
  Walking to a path: every directory on the way must be one; a name with a zero byte is refused.
\<close>

definition walk_err :: "fs \<Rightarrow> string list \<Rightarrow> errno option" where
  "walk_err fs p =
     (if list_ex (\<lambda>c. \<not> nulfree c) p then Some EINVAL
      else case List.find (\<lambda>q. lookup fs q \<noteq> Some Dir) (parents p) of
             None \<Rightarrow> None
           | Some q \<Rightarrow> (if lookup fs q = None then Some ENOENT else Some ENOTDIR))"

definition os_Stat :: "fs \<Rightarrow> string list \<Rightarrow> errno + node" where
  "os_Stat fs p =
     (case walk_err fs p of
        Some e \<Rightarrow> Inl e
      | None \<Rightarrow> (case lookup fs p of None \<Rightarrow> Inl ENOENT | Some n \<Rightarrow> Inr n))"

fun mkdirs :: "fs \<Rightarrow> string list list \<Rightarrow> errno option \<times> fs" where
  "mkdirs fs [] = (None, fs)"
| "mkdirs fs (q # qs) =
     (if list_ex (\<lambda>c. \<not> nulfree c) q then (Some EINVAL, fs)
      else case lookup fs q of
             Some Dir \<Rightarrow> mkdirs fs qs
           | Some (File _ _) \<Rightarrow> (Some ENOTDIR, fs)
           | None \<Rightarrow> mkdirs (AList.update q Dir fs) qs)"

definition os_MkdirAll :: "fs \<Rightarrow> string list \<Rightarrow> errno option \<times> fs" where
  "os_MkdirAll fs p = mkdirs fs (parents p @ [p])"

definition tmp_name :: "nat \<Rightarrow> string" where
  "tmp_name i = ''.tmp-'' @ dec i"

fun try_temp :: "fs \<Rightarrow> string list \<Rightarrow> nat \<Rightarrow> nat \<Rightarrow> nat option" where
  "try_temp fs d i n =
     (if n = 0 then None
      else if lookup fs (d @ [tmp_name i]) = None then Some i
      else try_temp fs d (i + 1) (n - 1))"

declare try_temp.simps [simp del]

text \<open>\<open>os.CreateTemp\<close> gives up after 10000 names that are taken.\<close>

definition os_CreateTemp :: "fs \<Rightarrow> string list \<Rightarrow> nat \<Rightarrow> time \<Rightarrow> errno + (string list \<times> fs)" where
  "os_CreateTemp fs d seed now =
     (case walk_err fs (d @ [tmp_name seed]) of
        Some e \<Rightarrow> Inl e
      | None \<Rightarrow>
          (case try_temp fs d seed 10000 of
             None \<Rightarrow> Inl EEXIST
           | Some i \<Rightarrow> Inr (d @ [tmp_name i], AList.update (d @ [tmp_name i]) (File [] now) fs)))"

definition os_Remove :: "fs \<Rightarrow> string list \<Rightarrow> errno + fs" where
  "os_Remove fs p =
     (case os_Stat fs p of
        Inl e \<Rightarrow> Inl e
      | Inr (File _ _) \<Rightarrow> Inr (AList.delete p fs)
      | Inr Dir \<Rightarrow>
          if p = [] \<or> list_ex (\<lambda>(q, n). q \<noteq> p \<and> take (length p) q = p) fs then Inl ENOTEMPTY
          else Inr (AList.delete p fs))"

text \<open>\<open>os.Rename\<close> of a regular file, in one step.\<close>

definition os_Rename :: "fs \<Rightarrow> string list \<Rightarrow> string list \<Rightarrow> errno + fs" where
  "os_Rename fs p q =
     (case os_Stat fs p of
        Inl e \<Rightarrow> Inl e
      | Inr n \<Rightarrow>
          (case os_Stat fs q of
             Inr Dir \<Rightarrow> Inl EISDIR
           | Inr (File _ _) \<Rightarrow> Inr (AList.update q n (AList.delete p fs))
           | Inl e \<Rightarrow> if e = ENOENT \<and> walk_err fs q = None
                      then Inr (AList.update q n (AList.delete p fs)) else Inl e))"

definition os_ReadDir :: "fs \<Rightarrow> string list \<Rightarrow> errno + string list" where
  "os_ReadDir fs p =
     (case os_Stat fs p of
        Inl e \<Rightarrow> Inl e
      | Inr (File _ _) \<Rightarrow> Inl ENOTDIR
      | Inr Dir \<Rightarrow>
          Inr (remdups (map (\<lambda>(q, n). q ! length p)
                 (filter (\<lambda>(q, n). length p < length q \<and> take (length p) q = p) fs))))"

section \<open>The backend\<close>

record local_fs =
  lf_root :: string
  lf_fs :: fs
  lf_seed :: nat
  lf_clock :: time

definition localfs_New :: "string \<Rightarrow> fs \<Rightarrow> nat \<Rightarrow> time \<Rightarrow> local_fs result" where
  "localfs_New root fs seed now =
     (case os_MkdirAll fs (os_path (Clean root)) of
        (Some e, _) \<Rightarrow> Inl (Wrap ''localfs: create root'' (OsError e))
      | (None, fs') \<Rightarrow> Inr \<lparr>lf_root = root, lf_fs = fs', lf_seed = seed, lf_clock = now\<rparr>)"

definition validateBucket :: "string \<Rightarrow> err option" where
  "validateBucket bucket =
     (if bucket = [] then Some (Errorf ''localfs: bucket name must not be empty'' [])
      else if ContainsAny bucket [SLASH, CHR 0x5C]
      then Some (Errorf ''localfs: bucket name %q contains illegal characters'' [FStr bucket])
      else None)"

definition validateKey :: "string \<Rightarrow> err option" where
  "validateKey key =
     (if key = [] then Some (Errorf ''localfs: object key must not be empty'' [])
      else if HasPrefix (Clean key) dotdot
      then Some (Errorf ''localfs: object key %q attempts path traversal'' [FStr key])
      else None)"

definition safePath :: "string \<Rightarrow> string \<Rightarrow> string \<Rightarrow> string result" where
  "safePath root bucket key =
     (case validateBucket bucket of
        Some e \<Rightarrow> Inl e
      | None \<Rightarrow>
          (case validateKey key of
             Some e \<Rightarrow> Inl e
           | None \<Rightarrow>
               let joined = Join_path [root, bucket, key]
               in if HasPrefix joined (Clean root @ [SLASH]) then Inr joined
                  else Inl (Errorf ''localfs: path traversal detected in key %q'' [FStr key])))"

text \<open>
  \<open>Write\<close>: the body goes to a temporary file beside the target, which is renamed into place when
  the whole body has arrived; otherwise the temporary file is removed.
\<close>

definition remove_quiet :: "fs \<Rightarrow> string list \<Rightarrow> fs" where
  "remove_quiet fs p = (case os_Remove fs p of Inl _ \<Rightarrow> fs | Inr fs' \<Rightarrow> fs')"

definition localfs_Write ::
    "local_fs \<Rightarrow> string \<Rightarrow> string \<Rightarrow> reader \<Rightarrow> int64 \<Rightarrow> int64 result \<times> local_fs" where
  "localfs_Write s bucket key r sz =
     (case safePath (lf_root s) bucket key of
        Inl e \<Rightarrow> (Inl e, s)
      | Inr ps \<Rightarrow>
          let p = os_path ps; d = butlast p
          in case os_MkdirAll (lf_fs s) d of
               (Some e, fs1) \<Rightarrow> (Inl (Wrap ''localfs write: mkdir'' (OsError e)), s\<lparr>lf_fs := fs1\<rparr>)
             | (None, fs1) \<Rightarrow>
                 (case os_CreateTemp fs1 d (lf_seed s) (lf_clock s) of
                    Inl e \<Rightarrow> (Inl (Wrap ''localfs write: create temp'' (OsError e)), s\<lparr>lf_fs := fs1\<rparr>)
                  | Inr (tmp, fs2) \<Rightarrow>
                      let fs3 = AList.update tmp (File (rd_data r) (lf_clock s)) fs2
                      in (case rd_err r of
                            Some e \<Rightarrow> (Inl (Wrap ''localfs write: copy'' e), s\<lparr>lf_fs := remove_quiet fs3 tmp\<rparr>)
                          | None \<Rightarrow>
                              (case os_Rename fs3 tmp p of
                                 Inl e \<Rightarrow> (Inl (Wrap ''localfs write: rename'' (OsError e)),
                                           s\<lparr>lf_fs := remove_quiet fs3 tmp\<rparr>)
                               | Inr fs4 \<Rightarrow> (Inr (byte_count (rd_data r)), s\<lparr>lf_fs := remove_quiet fs4 tmp\<rparr>)))))"

definition localfs_Read :: "local_fs \<Rightarrow> string \<Rightarrow> string \<Rightarrow> reader" where
  "localfs_Read s bucket key =
     (case safePath (lf_root s) bucket key of
        Inl e \<Rightarrow> \<lparr>rd_data = [], rd_err = Some e\<rparr>
      | Inr p \<Rightarrow>
          (case os_Stat (lf_fs s) (os_path p) of
             Inl e \<Rightarrow> \<lparr>rd_data = [], rd_err = Some (if e = ENOENT then BackendNotFound bucket key
                        else Wrap ''localfs read: open'' (OsError e))\<rparr>
           | Inr Dir \<Rightarrow> \<lparr>rd_data = [], rd_err = Some (Wrap ''localfs read: copy'' (OsError EISDIR))\<rparr>
           | Inr (File d _) \<Rightarrow> reader_of d))"

text \<open>\<open>ReadRange\<close>; a negative offset makes \<open>Seek\<close> fail, a negative length copies nothing.\<close>

definition localfs_ReadRange :: "local_fs \<Rightarrow> string \<Rightarrow> string \<Rightarrow> int64 \<Rightarrow> int64 \<Rightarrow> reader" where
  "localfs_ReadRange s bucket key offset len =
     (case safePath (lf_root s) bucket key of
        Inl e \<Rightarrow> \<lparr>rd_data = [], rd_err = Some e\<rparr>
      | Inr p \<Rightarrow>
          (case os_Stat (lf_fs s) (os_path p) of
             Inl e \<Rightarrow> \<lparr>rd_data = [], rd_err = Some (if e = ENOENT then BackendNotFound bucket key
                        else Wrap ''localfs readrange: open'' (OsError e))\<rparr>
           | Inr n \<Rightarrow>
               if sint offset < 0
               then \<lparr>rd_data = [], rd_err = Some (Wrap ''localfs readrange: seek'' (OsError EINVAL))\<rparr>
               else (case n of
                       Dir \<Rightarrow> if sint len \<le> 0 then reader_of []
                              else \<lparr>rd_data = [], rd_err = Some (Wrap ''localfs readrange: copy'' (OsError EISDIR))\<rparr>
                     | File d _ \<Rightarrow> reader_of (take (nat (sint len)) (drop (nat (sint offset)) d)))))"

definition localfs_Delete :: "local_fs \<Rightarrow> string \<Rightarrow> string \<Rightarrow> unit result \<times> local_fs" where
  "localfs_Delete s bucket key =
     (case safePath (lf_root s) bucket key of
        Inl e \<Rightarrow> (Inl e, s)
      | Inr p \<Rightarrow>
          (case os_Remove (lf_fs s) (os_path p) of
             Inr fs' \<Rightarrow> (Inr (), s\<lparr>lf_fs := fs'\<rparr>)
           | Inl e \<Rightarrow> if e = ENOENT then (Inr (), s)
                      else (Inl (Wrap ''localfs delete'' (OsError e)), s)))"

definition localfs_Exists :: "local_fs \<Rightarrow> string \<Rightarrow> string \<Rightarrow> bool result" where
  "localfs_Exists s bucket key =
     (case safePath (lf_root s) bucket key of
        Inl e \<Rightarrow> Inl e
      | Inr p \<Rightarrow>
          (case os_Stat (lf_fs s) (os_path p) of
             Inr n \<Rightarrow> Inr True
           | Inl e \<Rightarrow> if e = ENOENT then Inr False else Inl (Wrap ''localfs exists'' (OsError e))))"

text \<open>The size that \<open>Stat\<close> reports of a directory is the system's affair; the model says 0.\<close>

definition localfs_Stat :: "local_fs \<Rightarrow> string \<Rightarrow> string \<Rightarrow> object_info result" where
  "localfs_Stat s bucket key =
     (case safePath (lf_root s) bucket key of
        Inl e \<Rightarrow> Inl e
      | Inr p \<Rightarrow>
          (case os_Stat (lf_fs s) (os_path p) of
             Inl e \<Rightarrow> Inl (if e = ENOENT then BackendNotFound bucket key
                           else Wrap ''localfs stat'' (OsError e))
           | Inr (File d t) \<Rightarrow> Inr \<lparr>oi_Size = byte_count d, oi_ModTime = t\<rparr>
           | Inr Dir \<Rightarrow> Inr \<lparr>oi_Size = 0, oi_ModTime = 0\<rparr>))"

definition localfs_ModTime :: "local_fs \<Rightarrow> string \<Rightarrow> string \<Rightarrow> time result" where
  "localfs_ModTime s bucket key =
     (case localfs_Stat s bucket key of Inl e \<Rightarrow> Inl e | Inr i \<Rightarrow> Inr (oi_ModTime i))"

definition bucket_dir :: "local_fs \<Rightarrow> string \<Rightarrow> string list" where
  "bucket_dir s bucket = os_path (Join_path [lf_root s, bucket])"

definition localfs_CreateBucketDir :: "local_fs \<Rightarrow> string \<Rightarrow> unit result \<times> local_fs" where
  "localfs_CreateBucketDir s bucket =
     (case validateBucket bucket of
        Some e \<Rightarrow> (Inl e, s)
      | None \<Rightarrow>
          (case os_MkdirAll (lf_fs s) (bucket_dir s bucket) of
             (Some e, fs') \<Rightarrow> (Inl (Wrap ''localfs: create bucket dir'' (OsError e)), s\<lparr>lf_fs := fs'\<rparr>)
           | (None, fs') \<Rightarrow> (Inr (), s\<lparr>lf_fs := fs'\<rparr>)))"

definition localfs_DeleteBucketDir :: "local_fs \<Rightarrow> string \<Rightarrow> unit result \<times> local_fs" where
  "localfs_DeleteBucketDir s bucket =
     (case validateBucket bucket of
        Some e \<Rightarrow> (Inl e, s)
      | None \<Rightarrow>
          let dir = bucket_dir s bucket
          in case os_ReadDir (lf_fs s) dir of
               Inl e \<Rightarrow> if e = ENOENT then (Inr (), s)
                        else (Inl (Wrap ''localfs: read bucket dir'' (OsError e)), s)
             | Inr entries \<Rightarrow>
                 if entries \<noteq> [] then (Inl (Errorf ''localfs: bucket %q is not empty'' [FStr bucket]), s)
                 else (case os_Remove (lf_fs s) dir of
                         Inl e \<Rightarrow> (Inl (OsError e), s)
                       | Inr fs' \<Rightarrow> (Inr (), s\<lparr>lf_fs := fs'\<rparr>)))"

definition localfs_backend :: "local_fs backend_ops" where
  "localfs_backend = \<lparr>
     b_Write = localfs_Write,
     b_Read = (\<lambda>s b k. (localfs_Read s b k, s)),
     b_Delete = localfs_Delete,
     b_Exists = localfs_Exists,
     b_Stat = localfs_Stat,
     b_CreateBucketDir = Some localfs_CreateBucketDir,
     b_DeleteBucketDir = Some localfs_DeleteBucketDir\<rparr>"

end
