(* ===== verification/Local_FS_Correct.thy ===== *)
theory Local_FS_Correct
  imports Local_FS
begin

text \<open>
  The local backend satisfies the contract \<open>object_backend\<close> for the names that survive the path
  cleaning unchanged (\<open>localfs_good\<close>), and it keeps every path below its root. The invariant is
  that of a tree: the parents of a node are directories.
\<close>

section \<open>Paths stay below the root\<close>

definition root_ok :: "string \<Rightarrow> bool" where
  "root_ok root \<longleftrightarrow> root \<noteq> [] \<and> clean_comps root \<noteq> [] \<and> last (clean_comps root) \<noteq> dotdot \<and>
     list_all nulfree (clean_comps root)"

definition localfs_good :: "string \<Rightarrow> string \<Rightarrow> bool" where
  "localfs_good b k \<longleftrightarrow> proper b \<and> CHR 0x5C \<notin> set b \<and> nulfree b \<and>
     list_all proper (Split SLASH k) \<and> nulfree k \<and> \<not> prefix dotdot k \<and>
     \<not> prefix ''.tmp-'' (last (Split SLASH k))"

definition object_path :: "string \<Rightarrow> string \<Rightarrow> string \<Rightarrow> string list" where
  "object_path root b k = clean_comps root @ b # Split SLASH k"

lemma rooted_append: "s \<noteq> [] \<Longrightarrow> rooted (s @ t) \<longleftrightarrow> rooted s"
  by (cases s) (auto simp: rooted_def)

lemma Split_inject: "Split d s = Split d t \<Longrightarrow> s = t"
  by (metis Join_Split)

lemma object_path_inject: "object_path r b k = object_path r b' k' \<longleftrightarrow> b = b' \<and> k = k'"
  by (auto simp: object_path_def dest: Split_inject)

lemma good_key_clean:
  assumes "list_all proper (Split SLASH k)"
  shows "k \<noteq> []" "\<not> rooted k" "clean_comps k = Split SLASH k" "Clean k = k"
proof -
  obtain c cs where c: "Split SLASH k = c # cs" by (cases "Split SLASH k") auto
  with assms have "c \<noteq> []" by (simp add: proper_def)
  with c show k: "k \<noteq> []" by auto
  from c \<open>c \<noteq> []\<close> show r: "\<not> rooted k" by (cases k) (auto simp: rooted_def)
  show "clean_comps k = Split SLASH k"
    using assms by (simp add: clean_comps_def clean_stack_proper list_all_iff)
  with r k show "Clean k = k" by (simp add: Clean_def)
qed

lemma joined_comps:
  assumes "root \<noteq> []"
  shows "clean_comps (root @ SLASH # t) = clean_stack (rooted root) (rev (clean_comps root)) (Split SLASH t)"
  using assms by (simp add: clean_comps_def rooted_append Split_append clean_stack_append)

lemma Join_path_3:
  assumes "root \<noteq> []" "b \<noteq> []" "k \<noteq> []"
  shows "Join_path [root, b, k] = Clean (root @ SLASH # b @ SLASH # k)"
  using assms by (simp add: Join_path_def)

lemma safePath_good:
  assumes r: "root_ok root" and g: "localfs_good b k"
  shows "\<exists>p. safePath root b k = Inr p \<and> os_path p = object_path root b k"
proof -
  let ?j = "root @ SLASH # b @ SLASH # k"
  have ne: "root \<noteq> []" "b \<noteq> []" "clean_comps root \<noteq> []"
    using r g by (auto simp: root_ok_def localfs_good_def proper_def)
  have kk: "list_all proper (Split SLASH k)" using g by (simp add: localfs_good_def)
  note kc = good_key_clean [OF kk]
  have b: "SLASH \<notin> set b" using g by (simp add: localfs_good_def proper_def)
  have sp: "Split SLASH (b @ SLASH # k) = b # Split SLASH k" by (simp add: Split_append_sep b)
  have "\<forall>c \<in> set (b # Split SLASH k). proper c"
    using g kk by (auto simp: localfs_good_def list_all_iff)
  from clean_stack_proper [OF this, of "rooted root" "rev (clean_comps root)"]
  have cj: "clean_comps ?j = object_path root b k"
    unfolding joined_comps [OF ne(1), of "b @ SLASH # k"] sp object_path_def by simp
  have "Join (object_path root b k) [SLASH] = Join (clean_comps root) [SLASH] @ SLASH # Join (b # Split SLASH k) [SLASH]"
    unfolding object_path_def using ne by (simp add: Join_append)
  moreover have "Join (clean_comps root) [SLASH] \<noteq> []"
    using os_path_Join [of "clean_comps root"] clean_form_comps [OF clean_comps_form] ne(3) by fastforce
  ultimately have "Clean ?j = Clean root @ SLASH # Join (b # Split SLASH k) [SLASH]"
    using cj ne by (simp add: Clean_def Let_def rooted_append)
  then have "prefix (Clean root @ [SLASH]) (Clean ?j)" by (auto simp: prefix_def)
  moreover have "os_path (Clean ?j) = object_path root b k"
    using cj by (simp add: os_path_Clean object_path_def)
  moreover have "validateBucket b = None" "validateKey k = None"
    using g b ne kc by (auto simp: validateBucket_def validateKey_def ContainsAny_def localfs_good_def list_ex_iff)
  ultimately show ?thesis
    using ne kc by (simp add: safePath_def Join_path_3 Let_def)
qed

lemma rooted_Clean: "rooted (Clean q) \<longleftrightarrow> rooted q"
proof (cases "clean_comps q")
  case Nil
  then show ?thesis by (auto simp: Clean_def rooted_def)
next
  case (Cons c cs)
  then have "c \<noteq> []" "SLASH \<notin> set c" using clean_form_comps [OF clean_comps_form, of c q] by simp_all
  then have "c \<noteq> []" "hd c \<noteq> SLASH" by (cases c; auto)+
  moreover have "\<exists>t. Join (clean_comps q) [SLASH] = c @ t" using Cons by (cases cs) auto
  ultimately show ?thesis by (cases c) (auto simp: Clean_def Let_def rooted_def)
qed

text \<open>Whatever the key, the path lies strictly below the root.\<close>

lemma safePath_below_root:
  assumes r: "root_ok root" and s: "safePath root b k = Inr p"
  shows "\<exists>rest. os_path p = os_path (Clean root) @ rest \<and> rest \<noteq> [] \<and> dotdot \<notin> set rest"
proof -
  have ne: "root \<noteq> []" "clean_comps root \<noteq> []" "last (clean_comps root) \<noteq> dotdot"
    using r by (auto simp: root_ok_def)
  from s have p: "p = Join_path [root, b, k]" "prefix (Clean root @ [SLASH]) p"
    by (auto simp: safePath_def Let_def split: option.splits if_splits)
  from p(1) ne obtain q where q: "p = Clean q" by (auto simp: Join_path_def Let_def split: if_splits)
  from p(2) obtain t where t: "p = Clean root @ SLASH # t" by (auto simp: prefix_def)
  have root: "os_path (Clean root) = clean_comps root" using ne by (simp add: os_path_Clean)
  have op: "os_path p = clean_comps root @ os_path t" by (simp add: t root)
  have "\<exists>c cs. clean_comps root = cs @ [c] \<and> c \<noteq> dotdot" using ne by (metis append_butlast_last_id)
  then obtain c cs where c: "clean_comps root = cs @ [c]" "c \<noteq> dotdot" by blast
  have "c \<noteq> dot" using clean_form_comps [OF clean_comps_form, of c root] c(1) by simp
  then have cp: "clean_comps q = cs @ c # os_path t"
    using op q c by (auto simp: os_path_Clean Cons_eq_append_conv split: if_splits)
  obtain n ps where n: "clean_comps q = replicate n dotdot @ ps" "\<forall>c \<in> set ps. proper c"
    using clean_comps_form [of q] by (auto simp: clean_form_def)
  have le: "n \<le> length cs"
  proof (rule ccontr)
    assume "\<not> n \<le> length cs"
    then have "clean_comps q ! length cs = dotdot" using n(1) by (simp add: nth_append)
    with cp c(2) show False by (simp add: nth_append)
  qed
  have "os_path t = drop (Suc (length cs)) (clean_comps q)" using cp by simp
  also have "\<dots> = drop (Suc (length cs) - n) ps" using n(1) le by simp
  finally have "dotdot \<notin> set (os_path t)" using n(2) by (auto simp: proper_def dest: in_set_dropD)
  moreover have "os_path t \<noteq> []"
  proof
    assume "os_path t = []"
    then have "clean_comps q = clean_comps root" using cp c by simp
    moreover have "rooted q \<longleftrightarrow> rooted root"
    proof -
      have "Clean root \<noteq> []" by (simp add: Clean_def Let_def)
      then have "rooted (Clean q) \<longleftrightarrow> rooted (Clean root)" unfolding q [symmetric] t by (rule rooted_append)
      then show ?thesis by (simp add: rooted_Clean)
    qed
    ultimately have "Clean q = Clean root" by (simp add: Clean_def)
    with q t show False by (simp add: append_eq_append_conv2)
  qed
  ultimately show ?thesis using op root by (intro exI [of _ "os_path t"]) simp
qed

section \<open>The file system\<close>

definition fs_wf :: "fs \<Rightarrow> bool" where
  "fs_wf fs \<longleftrightarrow> (\<forall>p n. map_of fs p = Some n \<longrightarrow>
     p \<noteq> [] \<and> list_all nulfree p \<and> (\<forall>q \<in> set (parents p). lookup fs q = Some Dir))"

text \<open>The content of the regular file at a path.\<close>

definition content :: "fs \<Rightarrow> string list \<Rightarrow> bytes option" where
  "content fs p = (case lookup fs p of Some (File d t) \<Rightarrow> Some d | _ \<Rightarrow> None)"

lemma in_parents: "q \<in> set (parents p) \<longleftrightarrow> (\<exists>n < length p. q = take n p)"
  by (auto simp: parents_def)

lemma parents_snoc: "parents (p @ [c]) = parents p @ [p]"
  by (simp add: parents_def)

lemma lookup_update: "p \<noteq> [] \<Longrightarrow> lookup (AList.update p n fs) q = (if q = p then Some n else lookup fs q)"
  by (simp add: lookup_def)

lemma lookup_delete: "p \<noteq> [] \<Longrightarrow> lookup (AList.delete p fs) q = (if q = p then None else lookup fs q)"
  by (simp add: lookup_def delete_conv')

lemma fs_wf_lookup: "fs_wf fs \<Longrightarrow> lookup fs p = Some n \<Longrightarrow>
    list_all nulfree p \<and> (\<forall>q \<in> set (parents p). lookup fs q = Some Dir)"
proof (cases "p = []")
  case True
  then show ?thesis by (simp add: parents_def)
next
  case False
  assume "fs_wf fs" "lookup fs p = Some n"
  with False have "map_of fs p = Some n" by (simp add: lookup_def)
  with \<open>fs_wf fs\<close> show ?thesis unfolding fs_wf_def by blast
qed

lemma walk_err_None: "list_all nulfree p \<Longrightarrow> \<forall>q \<in> set (parents p). lookup fs q = Some Dir \<Longrightarrow> walk_err fs p = None"
proof -
  assume n: "list_all nulfree p" and d: "\<forall>q \<in> set (parents p). lookup fs q = Some Dir"
  from d have "List.find (\<lambda>q. lookup fs q \<noteq> Some Dir) (parents p) = None" by (simp add: find_None_iff)
  with n show ?thesis by (simp add: walk_err_def list_all_iff list_ex_iff)
qed

lemma os_Stat_Some: "fs_wf fs \<Longrightarrow> lookup fs p = Some n \<Longrightarrow> os_Stat fs p = Inr n"
  using fs_wf_lookup [of fs p n] walk_err_None [of p fs] by (simp add: os_Stat_def)

lemma os_Stat_Inr: "os_Stat fs p = Inr n \<Longrightarrow> lookup fs p = Some n \<and> walk_err fs p = None"
  by (auto simp: os_Stat_def split: option.splits)

lemma fs_wf_update:
  assumes "fs_wf fs" "p \<noteq> []" "list_all nulfree p" "\<forall>q \<in> set (parents p). lookup fs q = Some Dir"
    and "n = Dir \<or> lookup fs p \<noteq> Some Dir"
  shows "fs_wf (AList.update p n fs)"
  unfolding fs_wf_def
proof (intro allI impI)
  fix r m
  assume m: "map_of (AList.update p n fs) r = Some m"
  have up: "lookup (AList.update p n fs) q = Some Dir" if "lookup fs q = Some Dir" for q
    using that assms(2,5) by (auto simp: lookup_update)
  show "r \<noteq> [] \<and> list_all nulfree r \<and> (\<forall>q \<in> set (parents r). lookup (AList.update p n fs) q = Some Dir)"
  proof (cases "r = p")
    case True
    with assms(2-4) up show ?thesis by blast
  next
    case False
    with m have "map_of fs r = Some m" by simp
    with assms(1) up show ?thesis unfolding fs_wf_def by blast
  qed
qed

lemma fs_wf_delete:
  assumes "fs_wf fs" and "\<forall>q. lookup fs q \<noteq> None \<longrightarrow> p \<notin> set (parents q)"
  shows "fs_wf (AList.delete p fs)"
proof (cases "p = []")
  case True
  then have "map_of fs p = None" using assms(1) by (cases "map_of fs p") (auto simp: fs_wf_def)
  then have "map_of (AList.delete p fs) = map_of fs" by (auto simp: delete_conv' fun_eq_iff)
  with assms(1) show ?thesis unfolding fs_wf_def lookup_def by (simp only:)
next
  case False
  show ?thesis unfolding fs_wf_def
  proof (intro allI impI)
    fix r m
    assume "map_of (AList.delete p fs) r = Some m"
    then have r: "map_of fs r = Some m" by (auto simp: delete_conv' split: if_splits)
    then have "r \<noteq> []" "list_all nulfree r" "\<forall>q \<in> set (parents r). lookup fs q = Some Dir"
      using assms(1) unfolding fs_wf_def by blast+
    moreover have "p \<notin> set (parents r)" using assms(2) r \<open>r \<noteq> []\<close> by (simp add: lookup_def)
    ultimately show "r \<noteq> [] \<and> list_all nulfree r \<and> (\<forall>q \<in> set (parents r). lookup (AList.delete p fs) q = Some Dir)"
      using False by (auto simp: lookup_delete)
  qed
qed

text \<open>Making directories keeps the tree and the files.\<close>

definition same_files :: "fs \<Rightarrow> fs \<Rightarrow> bool" where
  "same_files fs fs' \<longleftrightarrow> (\<forall>p d t. lookup fs' p = Some (File d t) \<longleftrightarrow> lookup fs p = Some (File d t))"

lemma same_files_content: "same_files fs fs' \<Longrightarrow> content fs' = content fs"
proof
  fix p
  assume "same_files fs fs'"
  then have "lookup fs' p = Some (File d t) \<longleftrightarrow> lookup fs p = Some (File d t)" for d t
    by (simp add: same_files_def)
  then show "content fs' p = content fs p"
    unfolding content_def by (cases "lookup fs p"; cases "lookup fs' p") (auto split: node.splits)
qed

lemma mkdirs_append:
  "mkdirs fs (xs @ ys) = (case mkdirs fs xs of (Some e, fs1) \<Rightarrow> (Some e, fs1) | (None, fs1) \<Rightarrow> mkdirs fs1 ys)"
  by (induction fs xs rule: mkdirs.induct) (auto split: option.splits node.splits)

lemma mkdirs_one:
  assumes "fs_wf fs" "\<forall>q \<in> set (parents p). lookup fs q = Some Dir" "mkdirs fs [p] = (e, fs')"
  shows "fs_wf fs' \<and> same_files fs fs' \<and> (\<forall>q. lookup fs q = Some Dir \<longrightarrow> lookup fs' q = Some Dir) \<and>
    (e = None \<longrightarrow> lookup fs' p = Some Dir)"
proof -
  have w: "fs_wf (AList.update p Dir fs)" if "lookup fs p = None" "list_all nulfree p"
    using that assms by (intro fs_wf_update) (auto simp: lookup_def)
  show ?thesis
    using assms(1,3) w by (auto simp: same_files_def lookup_update list_all_iff list_ex_iff lookup_def
        split: if_splits option.splits node.splits)
qed

lemma os_MkdirAll_snoc:
  "os_MkdirAll fs (p @ [c]) =
     (case os_MkdirAll fs p of (Some e, fs1) \<Rightarrow> (Some e, fs1) | (None, fs1) \<Rightarrow> mkdirs fs1 [p @ [c]])"
  by (simp only: os_MkdirAll_def parents_snoc mkdirs_append)

lemma os_MkdirAll_ok:
  assumes "fs_wf fs" "os_MkdirAll fs p = (e, fs')"
  shows "fs_wf fs' \<and> same_files fs fs' \<and> (\<forall>q. lookup fs q = Some Dir \<longrightarrow> lookup fs' q = Some Dir) \<and>
    (e = None \<longrightarrow> lookup fs' p = Some Dir \<and> (\<forall>q \<in> set (parents p). lookup fs' q = Some Dir) \<and> list_all nulfree p)"
  using assms(2)
proof (induction p arbitrary: e fs' rule: rev_induct)
  case Nil
  then show ?case using assms(1) by (auto simp: os_MkdirAll_def parents_def same_files_def lookup_def)
next
  case (snoc c p)
  obtain e1 fs1 where 1: "os_MkdirAll fs p = (e1, fs1)" by force
  note IH = snoc.IH [OF 1]
  show ?case
  proof (cases e1)
    case (Some x)
    with 1 snoc.prems IH show ?thesis by (auto simp: os_MkdirAll_snoc)
  next
    case None
    with 1 snoc.prems have m: "mkdirs fs1 [p @ [c]] = (e, fs')" by (simp add: os_MkdirAll_snoc)
    have p: "\<forall>q \<in> set (parents (p @ [c])). lookup fs1 q = Some Dir" using IH None by (auto simp: parents_snoc)
    note o = mkdirs_one [OF conjunct1 [OF IH] p m]
    have "list_all nulfree (p @ [c])" if "e = None"
      using o that fs_wf_lookup by blast
    with o IH None p show ?thesis by (auto simp: same_files_def)
  qed
qed

text \<open>Files and temporary files.\<close>

lemma file_no_children:
  "fs_wf fs \<Longrightarrow> lookup fs p = Some (File d t) \<Longrightarrow> lookup fs q \<noteq> None \<Longrightarrow> p \<notin> set (parents q)"
  using fs_wf_lookup [of fs q] by fastforce

lemma try_temp_free: "try_temp fs d i n = Some j \<Longrightarrow> lookup fs (d @ [tmp_name j]) = None"
proof (induction n arbitrary: i)
  case 0
  then show ?case by (simp add: try_temp.simps)
next
  case (Suc n)
  then show ?case by (simp add: try_temp.simps [of fs d i "Suc n"] split: if_splits)
qed

lemma tmp_name_nulfree [simp]: "nulfree (tmp_name i)"
  by (simp add: tmp_name_def)

lemma os_CreateTemp_ok:
  assumes "os_CreateTemp fs d seed now = Inr (tmp, fs2)"
  shows "\<exists>i. tmp = d @ [tmp_name i] \<and> lookup fs tmp = None \<and> fs2 = AList.update tmp (File [] now) fs"
  using assms try_temp_free [of fs d seed 10000] by (auto simp: os_CreateTemp_def split: option.splits)

lemma remove_file:
  assumes "fs_wf fs" "lookup fs p = Some (File d t)"
  shows "remove_quiet fs p = AList.delete p fs" "fs_wf (AList.delete p fs)"
proof -
  from os_Stat_Some [OF assms] show "remove_quiet fs p = AList.delete p fs"
    by (simp add: remove_quiet_def os_Remove_def)
  show "fs_wf (AList.delete p fs)"
    using fs_wf_delete [OF assms(1)] file_no_children [OF assms] by blast
qed

lemma content_lookup: "(\<And>q. lookup fs' q = lookup fs q) \<Longrightarrow> content fs' = content fs"
  by (simp add: content_def fun_eq_iff)

text \<open>
  The body of \<open>Write\<close> once the directory is there: the temporary file does not survive, and the
  target is replaced by the whole body or not at all.
\<close>

lemma write_temp:
  assumes wf: "fs_wf fs1" and d: "lookup fs1 d = Some Dir" "\<forall>q \<in> set (parents d). lookup fs1 q = Some Dir"
      "list_all nulfree d"
    and tmp: "os_CreateTemp fs1 d seed now = Inr (tmp, fs2)"
    and c: "nulfree c" "\<not> prefix ''.tmp-'' c"
    and fs3: "fs3 = AList.update tmp (File data now) fs2"
  shows "fs_wf (remove_quiet fs3 tmp) \<and> content (remove_quiet fs3 tmp) = content fs1"
    and "os_Rename fs3 tmp (d @ [c]) = Inr fs4 \<Longrightarrow>
      fs_wf (remove_quiet fs4 tmp) \<and> content (remove_quiet fs4 tmp) = (content fs1)(d @ [c] \<mapsto> data)"
proof -
  from os_CreateTemp_ok [OF tmp] obtain i where
    t: "tmp = d @ [tmp_name i]" "lookup fs1 tmp = None" "fs2 = AList.update tmp (File [] now) fs1" by blast
  have ne: "tmp \<noteq> []" and neq: "d @ [c] \<noteq> tmp" using t(1) c(2) by (auto simp: tmp_name_def)
  have pd: "\<forall>q \<in> set (parents (d @ [x])). lookup fs1 q = Some Dir" for x
    using d by (auto simp: parents_snoc)
  have "fs_wf fs2" unfolding t(3)
    by (rule fs_wf_update [OF wf ne]) (use t d pd in auto)
  moreover have "lookup fs2 q = Some Dir" if "lookup fs1 q = Some Dir" for q
    using that t ne by (auto simp: lookup_update)
  ultimately have wf3: "fs_wf fs3" unfolding fs3
    by (intro fs_wf_update ne) (use t d pd ne in \<open>auto simp: lookup_update\<close>)
  have l3: "lookup fs3 q = (if q = tmp then Some (File data now) else lookup fs1 q)" for q
    using fs3 t(3) ne by (simp add: lookup_update)
  note rm = remove_file [OF wf3, of tmp data now]
  have wfd: "fs_wf (AList.delete tmp fs3)" using rm(2) l3 by simp
  have ld: "lookup (AList.delete tmp fs3) q = lookup fs1 q" for q
    using l3 ne t(2) by (simp add: lookup_delete)
  show "fs_wf (remove_quiet fs3 tmp) \<and> content (remove_quiet fs3 tmp) = content fs1"
    using rm l3 content_lookup [OF ld] by simp
  assume ren: "os_Rename fs3 tmp (d @ [c]) = Inr fs4"
  have st: "os_Stat fs3 tmp = Inr (File data now)" by (rule os_Stat_Some [OF wf3]) (simp add: l3)
  have nd: "lookup fs1 (d @ [c]) \<noteq> Some Dir"
    using ren st os_Stat_Some [OF wf3, of "d @ [c]" Dir] l3 neq by (auto simp: os_Rename_def)
  from ren st have 4: "fs4 = AList.update (d @ [c]) (File data now) (AList.delete tmp fs3)"
    by (auto simp: os_Rename_def split: sum.splits node.splits if_splits)
  have l4: "lookup fs4 q = (if q = d @ [c] then Some (File data now) else lookup fs1 q)" for q
    unfolding 4 using ld by (simp add: lookup_update)
  have wf4: "fs_wf fs4" unfolding 4
    by (rule fs_wf_update [OF wfd]) (use c(1) d(3) pd nd ld in auto)
  have "os_Remove fs4 tmp = Inl e" if "os_Stat fs4 tmp = Inl e" for e using that by (simp add: os_Remove_def)
  moreover have "lookup fs4 tmp = None" using l4 neq t(2) by simp
  then have "\<exists>e. os_Stat fs4 tmp = Inl e" by (auto simp: os_Stat_def split: option.splits)
  ultimately have "remove_quiet fs4 tmp = fs4" by (auto simp: remove_quiet_def)
  moreover have "content fs4 = (content fs1)(d @ [c] \<mapsto> data)" by (simp add: content_def l4 fun_eq_iff)
  ultimately show "fs_wf (remove_quiet fs4 tmp) \<and> content (remove_quiet fs4 tmp) = (content fs1)(d @ [c] \<mapsto> data)"
    using wf4 by simp
qed

section \<open>The contract\<close>

definition lfs_inv :: "local_fs \<Rightarrow> bool" where
  "lfs_inv s \<longleftrightarrow> root_ok (lf_root s) \<and> fs_wf (lf_fs s)"

definition lfs_view :: "local_fs \<Rightarrow> string \<Rightarrow> string \<Rightarrow> bytes option" where
  "lfs_view s b k = (if localfs_good b k then content (lf_fs s) (object_path (lf_root s) b k) else None)"

lemma lfs_view_same: "content fs' = content (lf_fs s) \<Longrightarrow> lfs_view (s\<lparr>lf_fs := fs'\<rparr>) = lfs_view s"
  by (simp add: lfs_view_def fun_eq_iff)

lemma lfs_view_update:
  "localfs_good b k \<Longrightarrow> content fs' = (content (lf_fs s))(object_path (lf_root s) b k := x) \<Longrightarrow>
   lfs_view (s\<lparr>lf_fs := fs'\<rparr>) = (lfs_view s)(b := (lfs_view s b)(k := x))"
  by (auto simp: lfs_view_def fun_eq_iff object_path_inject)

lemma object_path_split:
  assumes "localfs_good b k"
  shows "\<exists>d c. object_path root b k = d @ [c] \<and> nulfree c \<and> \<not> prefix ''.tmp-'' c"
proof -
  let ?cs = "Split SLASH k"
  have "object_path root b k = (clean_comps root @ b # butlast ?cs) @ [last ?cs]"
    by (simp add: object_path_def)
  moreover have "set (last ?cs) \<subseteq> set k" by (rule Split_subset) (rule last_in_set, simp)
  then have "nulfree (last ?cs)" using assms by (auto simp: localfs_good_def nulfree_def)
  moreover have "\<not> prefix ''.tmp-'' (last ?cs)" using assms by (simp add: localfs_good_def)
  ultimately show ?thesis by blast
qed

text \<open>Writing.\<close>

lemma localfs_Write_spec:
  assumes i: "lfs_inv s" and g: "localfs_good b k" and w: "localfs_Write s b k r sz = (res, s')"
  shows "lfs_inv s' \<and> lf_root s' = lf_root s \<and> (case res of
      Inl e \<Rightarrow> lfs_view s' = lfs_view s
    | Inr n \<Rightarrow> rd_err r = None \<and> n = byte_count (rd_data r) \<and>
               lfs_view s' = (lfs_view s)(b := (lfs_view s b)(k \<mapsto> rd_data r)))"
proof -
  let ?root = "lf_root s"
  have ro: "root_ok ?root" and wf: "fs_wf (lf_fs s)" using i by (auto simp: lfs_inv_def)
  obtain p where p: "safePath ?root b k = Inr p" "os_path p = object_path ?root b k"
    using safePath_good [OF ro g] by blast
  obtain d c where dc: "object_path ?root b k = d @ [c]" "nulfree c" "\<not> prefix ''.tmp-'' c"
    using object_path_split [OF g] by blast
  obtain e1 fs1 where m: "os_MkdirAll (lf_fs s) d = (e1, fs1)" by force
  note mk = os_MkdirAll_ok [OF wf m]
  have v1: "content fs1 = content (lf_fs s)" using mk same_files_content by blast
  show ?thesis
  proof (cases e1)
    case (Some e)
    with w p m dc mk v1 ro show ?thesis by (auto simp: localfs_Write_def Let_def lfs_inv_def lfs_view_same)
  next
    case None
    show ?thesis
    proof (cases "os_CreateTemp fs1 d (lf_seed s) (lf_clock s)")
      case (Inl e)
      with w p m dc mk v1 ro None show ?thesis
        by (auto simp: localfs_Write_def Let_def lfs_inv_def lfs_view_same)
    next
      case (Inr a)
      obtain tmp fs2 where a: "a = (tmp, fs2)" by force
      have "fs_wf fs1" "lookup fs1 d = Some Dir" "\<forall>q \<in> set (parents d). lookup fs1 q = Some Dir"
        "list_all nulfree d" using mk None by auto
      note wt = write_temp [OF this Inr [unfolded a] dc(2,3) refl]
      show ?thesis
        using w p m dc v1 ro None Inr a wt lfs_view_update [OF g]
        by (auto simp: localfs_Write_def Let_def lfs_inv_def lfs_view_same split: option.splits sum.splits)
    qed
  qed
qed

text \<open>Reading and looking.\<close>

lemma good_Stat:
  assumes "lfs_inv s" "localfs_good b k"
  obtains p where "safePath (lf_root s) b k = Inr p"
    "\<And>d. lfs_view s b k = Some d \<Longrightarrow> \<exists>t. os_Stat (lf_fs s) (os_path p) = Inr (File d t)"
    "lfs_view s b k = None \<Longrightarrow> \<forall>d t. os_Stat (lf_fs s) (os_path p) \<noteq> Inr (File d t)"
proof -
  obtain p where p: "safePath (lf_root s) b k = Inr p" "os_path p = object_path (lf_root s) b k"
    using safePath_good [of "lf_root s" b k] assms by (auto simp: lfs_inv_def)
  have wf: "fs_wf (lf_fs s)" using assms by (simp add: lfs_inv_def)
  have v: "lfs_view s b k = content (lf_fs s) (os_path p)" using assms p by (simp add: lfs_view_def)
  show thesis
  proof (rule that [OF p(1)])
    fix d assume "lfs_view s b k = Some d"
    then obtain t where "lookup (lf_fs s) (os_path p) = Some (File d t)"
      unfolding v by (auto simp: content_def split: option.splits node.splits)
    then show "\<exists>t. os_Stat (lf_fs s) (os_path p) = Inr (File d t)" using os_Stat_Some [OF wf] by blast
  next
    assume "lfs_view s b k = None"
    then show "\<forall>d t. os_Stat (lf_fs s) (os_path p) \<noteq> Inr (File d t)"
      unfolding v by (auto simp: content_def dest: os_Stat_Inr)
  qed
qed

lemma localfs_Read_Some: "lfs_inv s \<Longrightarrow> localfs_good b k \<Longrightarrow> lfs_view s b k = Some d \<Longrightarrow>
    localfs_Read s b k = reader_of d"
  by (erule (1) good_Stat) (fastforce simp: localfs_Read_def)

lemma localfs_Read_None: "lfs_inv s \<Longrightarrow> localfs_good b k \<Longrightarrow> lfs_view s b k = None \<Longrightarrow>
    rd_err (localfs_Read s b k) \<noteq> None"
  by (erule (1) good_Stat) (auto simp: localfs_Read_def split: sum.splits node.splits)

lemma localfs_Exists_Some: "lfs_inv s \<Longrightarrow> localfs_good b k \<Longrightarrow> lfs_view s b k = Some d \<Longrightarrow>
    localfs_Exists s b k = Inr True"
  by (erule (1) good_Stat) (fastforce simp: localfs_Exists_def)

lemma localfs_Stat_Some: "lfs_inv s \<Longrightarrow> localfs_good b k \<Longrightarrow> lfs_view s b k = Some d \<Longrightarrow>
    \<exists>i. localfs_Stat s b k = Inr i \<and> oi_Size i = byte_count d"
  by (erule (1) good_Stat) (fastforce simp: localfs_Stat_def)

text \<open>Deleting.\<close>

lemma remove_dir:
  assumes "fs_wf fs" "os_Remove fs p = Inr fs'"
  shows "fs_wf fs' \<and> content fs' = (content fs)(p := None)"
proof -
  from assms(2) obtain n where st: "os_Stat fs p = Inr n" by (auto simp: os_Remove_def split: sum.splits)
  then have l: "lookup fs p = Some n" by (simp add: os_Stat_Inr)
  have p: "p \<noteq> []" and fs': "fs' = AList.delete p fs"
    using assms(2) st by (auto simp: os_Remove_def lookup_def split: node.splits if_splits dest: os_Stat_Inr)
  have "p \<notin> set (parents q)" if q: "lookup fs q \<noteq> None" for q
  proof (cases n)
    case (File d t)
    with file_no_children [OF assms(1)] l q show ?thesis by blast
  next
    case Dir
    with assms(2) st have e: "\<not> list_ex (\<lambda>(q, n). q \<noteq> p \<and> take (length p) q = p) fs"
      by (auto simp: os_Remove_def split: if_splits)
    show ?thesis
    proof
      assume "p \<in> set (parents q)"
      then obtain m where m: "m < length q" "p = take m q" by (auto simp: in_parents)
      then have "length p < length q" by simp
      then have "q \<noteq> []" "q \<noteq> p" by auto
      moreover have "take (length p) q = p" using m by simp
      ultimately show False using q e by (auto simp: lookup_def list_ex_iff dest!: map_of_SomeD)
    qed
  qed
  then have "fs_wf fs'" unfolding fs' using fs_wf_delete [OF assms(1)] by blast
  moreover have "content fs' = (content fs)(p := None)"
    unfolding fs' using p by (simp add: content_def lookup_delete fun_eq_iff)
  ultimately show ?thesis by blast
qed

lemma localfs_Delete_spec:
  assumes i: "lfs_inv s" and g: "localfs_good b k" and w: "localfs_Delete s b k = (res, s')"
  shows "lfs_inv s' \<and> lfs_view s' = (lfs_view s)(b := (lfs_view s b)(k := None)) \<and>
    (\<forall>e. res = Inl e \<longrightarrow> lfs_view s' = lfs_view s \<and> lfs_view s b k = None)"
proof -
  obtain p where p: "safePath (lf_root s) b k = Inr p" "os_path p = object_path (lf_root s) b k"
    using safePath_good [of "lf_root s" b k] i g by (auto simp: lfs_inv_def)
  show ?thesis
  proof (cases "os_Remove (lf_fs s) (os_path p)")
    case (Inr fs')
    with w p i remove_dir [of "lf_fs s" "os_path p" fs'] lfs_view_update [OF g]
    show ?thesis by (auto simp: localfs_Delete_def lfs_inv_def)
  next
    case (Inl e)
    have "lfs_view s b k = None"
    proof (rule ccontr)
      assume "lfs_view s b k \<noteq> None"
      then obtain d where "lfs_view s b k = Some d" by auto
      then obtain t where "os_Stat (lf_fs s) (os_path p) = Inr (File d t)"
        using p(1) good_Stat [OF i g] by (metis Inr_inject)
      with Inl show False by (simp add: os_Remove_def)
    qed
    then have "lfs_view s = (lfs_view s)(b := (lfs_view s b)(k := None))" by (auto simp: fun_eq_iff)
    with w p i Inl \<open>lfs_view s b k = None\<close> show ?thesis
      by (auto simp: localfs_Delete_def split: if_splits)
  qed
qed

text \<open>Bucket directories.\<close>

lemma localfs_CreateBucketDir_frame:
  "lfs_inv s \<Longrightarrow> localfs_CreateBucketDir s b = (res, s') \<Longrightarrow> lfs_inv s' \<and> lfs_view s' = lfs_view s"
  using os_MkdirAll_ok [of "lf_fs s" "bucket_dir s b"] same_files_content
  by (fastforce simp: localfs_CreateBucketDir_def lfs_inv_def lfs_view_same split: option.splits prod.splits)

lemma localfs_DeleteBucketDir_frame:
  assumes i: "lfs_inv s" and d: "localfs_DeleteBucketDir s b = (res, s')"
  shows "lfs_inv s' \<and> lfs_view s' = lfs_view s"
proof -
  have "s' = s \<or> (\<exists>fs'. s' = s\<lparr>lf_fs := fs'\<rparr> \<and> os_Remove (lf_fs s) (bucket_dir s b) = Inr fs' \<and>
      os_Stat (lf_fs s) (bucket_dir s b) = Inr Dir)"
    using d by (auto simp: localfs_DeleteBucketDir_def os_ReadDir_def Let_def
        split: option.splits sum.splits node.splits if_splits)
  then show ?thesis
  proof (elim disjE exE conjE)
    fix fs'
    assume s': "s' = s\<lparr>lf_fs := fs'\<rparr>" and r: "os_Remove (lf_fs s) (bucket_dir s b) = Inr fs'"
      and st: "os_Stat (lf_fs s) (bucket_dir s b) = Inr Dir"
    have "fs_wf (lf_fs s)" using i by (simp add: lfs_inv_def)
    note rd = remove_dir [OF this r]
    have "content (lf_fs s) (bucket_dir s b) = None" using os_Stat_Inr [OF st] by (simp add: content_def)
    then have "content fs' = content (lf_fs s)" using rd by (auto simp: fun_eq_iff)
    with rd i s' show ?thesis by (simp add: lfs_inv_def lfs_view_same)
  qed (use i in simp)
qed

lemma lfs_write_inv: "lfs_inv s \<Longrightarrow> localfs_good b k \<Longrightarrow> localfs_Write s b k r sz = (res, s') \<Longrightarrow> lfs_inv s'"
  using localfs_Write_spec by blast

lemma lfs_write_ok: "lfs_inv s \<Longrightarrow> localfs_good b k \<Longrightarrow> localfs_Write s b k r sz = (Inr n, s') \<Longrightarrow>
    rd_err r = None \<and> n = byte_count (rd_data r) \<and> lfs_view s' = (lfs_view s)(b := (lfs_view s b)(k \<mapsto> rd_data r))"
  using localfs_Write_spec [of s b k r sz "Inr n" s'] by simp

lemma lfs_write_err: "lfs_inv s \<Longrightarrow> localfs_good b k \<Longrightarrow> localfs_Write s b k r sz = (Inl e, s') \<Longrightarrow>
    lfs_view s' = lfs_view s"
  using localfs_Write_spec [of s b k r sz "Inl e" s'] by simp

lemma lfs_read_frame: "lfs_inv s \<Longrightarrow> localfs_good b k \<Longrightarrow> (localfs_Read s b k, s) = (rd, s') \<Longrightarrow>
    lfs_inv s' \<and> lfs_view s' = lfs_view s"
  by simp

lemma lfs_read_Some: "lfs_inv s \<Longrightarrow> localfs_good b k \<Longrightarrow> lfs_view s b k = Some d \<Longrightarrow>
    fst (localfs_Read s b k, s) = reader_of d"
  by (simp add: localfs_Read_Some)

lemma lfs_read_None: "lfs_inv s \<Longrightarrow> localfs_good b k \<Longrightarrow> lfs_view s b k = None \<Longrightarrow>
    rd_err (fst (localfs_Read s b k, s)) \<noteq> None"
  using localfs_Read_None by simp

lemma lfs_delete_ok: "lfs_inv s \<Longrightarrow> localfs_good b k \<Longrightarrow> localfs_Delete s b k = (Inr u, s') \<Longrightarrow>
    lfs_inv s' \<and> lfs_view s' = (lfs_view s)(b := (lfs_view s b)(k := None))"
  using localfs_Delete_spec by blast

lemma lfs_delete_err: "lfs_inv s \<Longrightarrow> localfs_good b k \<Longrightarrow> localfs_Delete s b k = (Inl e, s') \<Longrightarrow>
    lfs_inv s' \<and> lfs_view s' = lfs_view s \<and> lfs_view s b k = None"
  using localfs_Delete_spec by blast

lemma lfs_exists: "lfs_inv s \<Longrightarrow> localfs_good b k \<Longrightarrow> lfs_view s b k \<noteq> None \<Longrightarrow>
    localfs_Exists s b k = Inr True"
  using localfs_Exists_Some by blast

lemma lfs_mkbucket: "lfs_inv s \<Longrightarrow> Some localfs_CreateBucketDir = Some f \<Longrightarrow> f s b = (res, s') \<Longrightarrow>
    lfs_inv s' \<and> lfs_view s' = lfs_view s"
  using localfs_CreateBucketDir_frame by blast

lemma lfs_rmbucket: "lfs_inv s \<Longrightarrow> Some localfs_DeleteBucketDir = Some f \<Longrightarrow> f s b = (res, s') \<Longrightarrow>
    lfs_inv s' \<and> lfs_view s' = lfs_view s"
  using localfs_DeleteBucketDir_frame by blast

lemmas lfs_laws = lfs_write_inv lfs_write_ok lfs_write_err lfs_read_frame lfs_read_Some lfs_read_None
  lfs_delete_ok lfs_delete_err lfs_exists localfs_Stat_Some lfs_mkbucket lfs_rmbucket

interpretation lfs: object_backend localfs_backend lfs_view lfs_inv localfs_good
  by (unfold_locales, simp_all only: localfs_backend_def backend_ops.simps) (rule lfs_laws; assumption)+

section \<open>Paths of relative keys\<close>

lemma clean_stack_keeps_dotdot:
  "st \<noteq> [] \<Longrightarrow> last st = dotdot \<Longrightarrow> dotdot \<in> set (clean_stack False st cs)"
proof (induction cs arbitrary: st)
  case Nil
  then show ?case by (metis clean_stack.simps(1) last_in_set set_rev)
next
  case (Cons c cs)
  then obtain t st' where st: "st = t # st'" by (cases st) auto
  show ?case
  proof (cases "t = dotdot")
    case True
    with Cons st show ?thesis by auto
  next
    case False
    with Cons.prems st have "st' \<noteq> []" "last st' = dotdot" by (auto split: if_splits)
    with Cons st False show ?thesis by auto
  qed
qed

lemma clean_stack_base:
  "dotdot \<notin> set (clean_stack False st cs) \<Longrightarrow> dotdot \<notin> set st \<Longrightarrow>
   clean_stack r (st @ base) cs = rev base @ clean_stack False st cs"
proof (induction cs arbitrary: st)
  case (Cons c cs)
  consider "c = [] \<or> c = dot" | "c = dotdot" "st = []" | t st' where "c = dotdot" "st = t # st'" |
    "c \<noteq> []" "c \<noteq> dot" "c \<noteq> dotdot" by (cases st) auto
  then show ?case
  proof cases
    case 2
    then have "dotdot \<in> set (clean_stack False st (c # cs))"
      using clean_stack_keeps_dotdot [of "[dotdot]" cs] by simp
    with Cons.prems show ?thesis by simp
  next
    case 4
    with Cons.IH [of "c # st"] Cons.prems show ?thesis by simp
  qed (use Cons in auto)
qed simp

lemma safePath_relative:
  assumes r: "root_ok root" and b: "proper b" and k: "\<not> rooted k" and s: "safePath root b k = Inr p"
  shows "os_path p = clean_comps root @ b # clean_comps k"
proof -
  have ne: "root \<noteq> []" "b \<noteq> []" "clean_comps root \<noteq> []" using r b by (auto simp: root_ok_def proper_def)
  from s have k0: "k \<noteq> []" "\<not> prefix dotdot (Clean k)" and p: "p = Join_path [root, b, k]"
    by (auto simp: safePath_def validateKey_def Let_def split: option.splits if_splits)
  have "dotdot \<notin> set (clean_comps k)"
  proof
    assume d: "dotdot \<in> set (clean_comps k)"
    obtain n ps where n: "clean_comps k = replicate n dotdot @ ps" "\<forall>c \<in> set ps. proper c"
      using clean_comps_form [of k] by (auto simp: clean_form_def)
    with d obtain m where "n = Suc m" by (cases n) (auto simp: proper_def)
    with n have "clean_comps k = dotdot # replicate m dotdot @ ps" by simp
    then have "\<exists>t. Join (clean_comps k) [SLASH] = dotdot @ t" by (cases "replicate m dotdot @ ps") auto
    with k k0(2) show False by (auto simp: Clean_def)
  qed
  moreover have ck: "clean_comps k = clean_stack False [] (Split SLASH k)" using k by (simp add: clean_comps_def)
  ultimately have "clean_stack (rooted root) (b # rev (clean_comps root)) (Split SLASH k) =
      clean_comps root @ b # clean_comps k"
    using clean_stack_base [of "[]" "Split SLASH k" "rooted root" "b # rev (clean_comps root)"] by simp
  moreover have "Split SLASH (b @ SLASH # k) = b # Split SLASH k"
    using b by (simp add: Split_append_sep proper_def)
  moreover have "b \<noteq> dot" "b \<noteq> dotdot" using b by (auto simp: proper_def)
  ultimately have "clean_comps (root @ SLASH # b @ SLASH # k) = clean_comps root @ b # clean_comps k"
    using joined_comps [OF ne(1), of "b @ SLASH # k"] ne by simp
  then show ?thesis using p ne k0 by (simp add: Join_path_3 os_path_Clean)
qed

section \<open>Properties\<close>

text \<open>
  C16: whatever the bucket name and the object key, a path that \<open>safePath\<close> hands out lies strictly
  below the data directory, and no \<open>..\<close> is left in what follows the data directory.
\<close>

theorem safePath_confined_to_root:
  assumes "root_ok root" and "safePath root bucket key = Inr p"
  shows "\<exists>rest. os_path p = os_path (Clean root) @ rest \<and> rest \<noteq> [] \<and> dotdot \<notin> set rest"
  by (rule safePath_below_root [OF assms])

lemma safePath_confined_to_root_witness:
  "\<exists>rest. os_path ''/data/b/x'' = os_path (Clean ''/data'') @ rest \<and> rest \<noteq> [] \<and> dotdot \<notin> set rest"
  by (rule safePath_confined_to_root [of "''/data''" "''b''" "''y/../x''"]) code_simp+

text \<open>
  for a proper bucket name and a key that does not start with a slash, the path lies inside
  the directory of that bucket: it is the data directory, the bucket and the cleaned key.
\<close>

theorem safePath_confined_to_bucket:
  assumes "root_ok root" and "proper bucket" and "\<not> rooted key" and "safePath root bucket key = Inr p"
  shows "os_path p = clean_comps root @ bucket # clean_comps key"
  by (rule safePath_relative [OF assms])

lemma safePath_confined_to_bucket_witness:
  "os_path ''/data/b/x'' = clean_comps ''/data'' @ ''b'' # clean_comps ''y/../x''"
  by (rule safePath_confined_to_bucket) code_simp+

text \<open>
  A key that starts with a slash escapes its bucket: the key \<open>/../b/k\<close> of any bucket \<open>a\<close> passes
  the checks and names the file of the key \<open>k\<close> of the bucket \<open>b\<close>.
\<close>

theorem safePath_rooted_key_escapes_bucket:
  "safePath ''/data'' ''a'' ''/../b/k'' = Inr ''/data/b/k'' \<and>
   safePath ''/data'' ''a'' ''/../b/k'' = safePath ''/data'' ''b'' ''k''"
  by code_simp


end
