(* ===== verification/Local_FS_Progress.thy ===== *)
theory Local_FS_Progress
  imports Local_FS_Correct
begin

text \<open>
  Progress of the local backend: a write of a body that arrives whole succeeds unless a regular
  file stands where a directory is needed, a directory stands where the object goes, or ten
  thousand temporary names in a row are taken.
\<close>

definition write_ready :: "local_fs \<Rightarrow> string \<Rightarrow> string \<Rightarrow> bool" where
  "write_ready s b k \<longleftrightarrow>
     (\<forall>q \<in> set (parents (object_path (lf_root s) b k)). \<forall>d t. lookup (lf_fs s) q \<noteq> Some (File d t)) \<and>
     lookup (lf_fs s) (object_path (lf_root s) b k) \<noteq> Some Dir \<and>
     (\<exists>i < 10000. lookup (lf_fs s) (butlast (object_path (lf_root s) b k) @ [tmp_name (lf_seed s + i)]) = None)"

lemma write_readyI:
  "list_all (\<lambda>q. case lookup fs q of Some (File d t) \<Rightarrow> False | _ \<Rightarrow> True) (parents (object_path (lf_root s) b k)) \<Longrightarrow>
   lookup fs (object_path (lf_root s) b k) \<noteq> Some Dir \<Longrightarrow>
   lookup fs (butlast (object_path (lf_root s) b k) @ [tmp_name (lf_seed s)]) = None \<Longrightarrow> lf_fs s = fs \<Longrightarrow> write_ready s b k"
  by (auto simp: write_ready_def list_all_iff intro!: exI [of _ 0] split: option.splits node.splits)

lemma mkdirs_far: "(\<forall>q \<in> set qs. length q < length x) \<Longrightarrow> lookup (snd (mkdirs fs qs)) x = lookup fs x"
  by (induction fs qs rule: mkdirs.induct) (auto simp: lookup_def split: option.split node.split)

lemma parents_length: "q \<in> set (parents p) \<Longrightarrow> length q < length p"
  by (auto simp: in_parents)

lemma os_MkdirAll_far:
  "os_MkdirAll fs p = (e, fs') \<Longrightarrow> length p < length x \<Longrightarrow> lookup fs' x = lookup fs x"
  using mkdirs_far [of "parents p @ [p]" x fs] parents_length [of _ p] by (fastforce simp: os_MkdirAll_def)

lemma os_Rename_succeeds:
  assumes "os_Stat fs p = Inr n" "walk_err fs q = None" "lookup fs q \<noteq> Some Dir"
  shows "\<exists>fs'. os_Rename fs p q = Inr fs'"
proof (cases "lookup fs q")
  case None
  with assms have "os_Stat fs q = Inl ENOENT" by (simp add: os_Stat_def)
  with assms show ?thesis by (simp add: os_Rename_def)
next
  case (Some m)
  with assms obtain d t where "os_Stat fs q = Inr (File d t)" by (cases m) (auto simp: os_Stat_def)
  with assms show ?thesis by (simp add: os_Rename_def)
qed

lemma os_MkdirAll_succeeds:
  assumes "fs_wf fs" "list_all nulfree p" "\<forall>q \<in> set (parents p @ [p]). \<forall>d t. lookup fs q \<noteq> Some (File d t)"
  shows "fst (os_MkdirAll fs p) = None"
  using assms
proof (induction p rule: rev_induct)
  case Nil
  then show ?case by (simp add: os_MkdirAll_def parents_def lookup_def)
next
  case (snoc c p)
  obtain e fs1 where 1: "os_MkdirAll fs p = (e, fs1)" by force
  have "e = None" using snoc.IH snoc.prems 1 by (auto simp: parents_snoc)
  moreover have "same_files fs fs1" using os_MkdirAll_ok [OF snoc.prems(1) 1] by blast
  then have "lookup fs1 (p @ [c]) \<noteq> Some (File d t)" for d t
    using snoc.prems(3) by (auto simp: same_files_def)
  ultimately show ?case
    using 1 snoc.prems(2) by (auto simp: os_MkdirAll_snoc list_ex_iff list_all_iff split: option.split node.split)
qed

lemma try_temp_succeeds:
  "i < n \<Longrightarrow> lookup fs (d @ [tmp_name (s + i)]) = None \<Longrightarrow> try_temp fs d s n \<noteq> None"
proof (induction n arbitrary: s i)
  case (Suc n)
  show ?case
  proof (cases i)
    case 0
    with Suc.prems show ?thesis by (simp add: try_temp.simps [of fs d s])
  next
    case (Suc j)
    with Suc.prems Suc.IH [of j "s + 1"] show ?thesis by (simp add: try_temp.simps [of fs d s])
  qed
qed simp

lemma localfs_Write_progress:
  assumes i: "lfs_inv s" and g: "localfs_good b k" and r: "rd_err r = None" and w: "write_ready s b k"
  shows "\<exists>s'. localfs_Write s b k r sz = (Inr (byte_count (rd_data r)), s')"
proof -
  let ?fs = "lf_fs s"
  have ro: "root_ok (lf_root s)" and wf: "fs_wf ?fs" using i by (auto simp: lfs_inv_def)
  obtain p where p: "safePath (lf_root s) b k = Inr p" "os_path p = object_path (lf_root s) b k"
    using safePath_good [OF ro g] by blast
  obtain d c where dc: "object_path (lf_root s) b k = d @ [c]" "nulfree c" "\<not> prefix ''.tmp-'' c"
    using object_path_split [OF g] by blast
  have pd: "set (parents (d @ [c])) = set (parents d @ [d])" by (simp add: parents_snoc)
  have nd: "list_all nulfree d"
  proof -
    have "list_all nulfree (clean_comps (lf_root s))" using ro by (simp add: root_ok_def)
    moreover have "nulfree b" "\<forall>x \<in> set (Split SLASH k). nulfree x"
      using g Split_subset [of _ SLASH k] by (auto simp: localfs_good_def nulfree_def)
    ultimately have "list_all nulfree (object_path (lf_root s) b k)"
      by (auto simp: object_path_def list_all_iff)
    with dc(1) show ?thesis by simp
  qed
  have nf: "\<forall>q \<in> set (parents d @ [d]). \<forall>d t. lookup ?fs q \<noteq> Some (File d t)"
    using w pd dc(1) unfolding write_ready_def by metis
  obtain e1 fs1 where m: "os_MkdirAll ?fs d = (e1, fs1)" by force
  have e1: "e1 = None" using os_MkdirAll_succeeds [OF wf nd nf] m by simp
  note mk = os_MkdirAll_ok [OF wf m]
  have far: "lookup fs1 (d @ [x]) = lookup ?fs (d @ [x])" for x using os_MkdirAll_far [OF m] by simp
  have dirs: "\<forall>q \<in> set (parents (d @ [x])). lookup fs1 q = Some Dir" for x using mk e1 by (auto simp: parents_snoc)
  obtain i where "i < 10000" "lookup fs1 (d @ [tmp_name (lf_seed s + i)]) = None"
    using w dc(1) far by (auto simp: write_ready_def)
  from try_temp_succeeds [OF this] obtain j where j: "try_temp fs1 d (lf_seed s) 10000 = Some j" by auto
  let ?tmp = "d @ [tmp_name j]"
  have tmp: "os_CreateTemp fs1 d (lf_seed s) (lf_clock s) = Inr (?tmp, AList.update ?tmp (File [] (lf_clock s)) fs1)"
    using walk_err_None [OF _ dirs, of "tmp_name (lf_seed s)"] nd j by (simp add: os_CreateTemp_def)
  let ?fs3 = "AList.update ?tmp (File (rd_data r) (lf_clock s)) (AList.update ?tmp (File [] (lf_clock s)) fs1)"
  have l3: "lookup ?fs3 q = (if q = ?tmp then Some (File (rd_data r) (lf_clock s)) else lookup fs1 q)" for q
    by (simp add: lookup_update)
  have neq: "d @ [c] \<noteq> ?tmp" using dc(3) by (auto simp: tmp_name_def)
  have fr: "lookup fs1 ?tmp = None" using try_temp_free [OF j] .
  have dirs3: "\<forall>q \<in> set (parents (d @ [x])). lookup ?fs3 q = Some Dir" for x
    using dirs [of x] fr l3 by auto
  have st: "os_Stat ?fs3 ?tmp = Inr (File (rd_data r) (lf_clock s))"
    using walk_err_None [OF _ dirs3, of "tmp_name j"] nd l3 by (simp add: os_Stat_def)
  have wk: "walk_err ?fs3 (d @ [c]) = None" using walk_err_None [OF _ dirs3] nd dc(2) by simp
  have "lookup ?fs3 (d @ [c]) \<noteq> Some Dir" using w dc(1) far l3 neq by (auto simp: write_ready_def)
  then obtain fs4 where "os_Rename ?fs3 ?tmp (d @ [c]) = Inr fs4"
    using os_Rename_succeeds [OF st wk] by blast
  with p dc m e1 tmp r show ?thesis by (simp add: localfs_Write_def Let_def)
qed

end
