(* ===== verification/Engine_Demo.thy ===== *)
theory Engine_Demo
  imports Engine_Buckets Bolt_Refine Local_FS_Progress
begin

text \<open>
  The engine as the server builds it: the bbolt store over any database with the laws of bbolt, and
  the local backend. \<open>interpretation eng\<close> instantiates the lemmas of \<open>storage_engine\<close> on the
  reference database. The second half is a small running engine on which the properties are applied:
  a fresh data directory, an empty database and one bucket.
\<close>

section \<open>The engine of the server\<close>

abbreviation engine_ok :: "'db bolt \<Rightarrow> ('db \<Rightarrow> bool) \<Rightarrow> ('db, local_fs) engine \<Rightarrow> bool" where
  "engine_ok K kinv e \<equiv> engine_inv (bolt_inv K kinv) lfs_inv e"

abbreviation records :: "'db bolt \<Rightarrow> ('db, local_fs) engine \<Rightarrow> meta_view" where
  "records K e \<equiv> bolt_view K (e_meta e)"

abbreviation files :: "('db, local_fs) engine \<Rightarrow> string \<Rightarrow> string \<Rightarrow> bytes option" where
  "files e \<equiv> lfs_view (e_backend e)"

lemma server_engine:
  "bolt_db K kinv \<Longrightarrow>
   storage_engine (bbolt_store K) (bolt_view K) (bolt_inv K kinv) localfs_backend lfs_view lfs_inv localfs_good"
  by (intro storage_engine.intro bolt_db.store_is_metadata_store lfs.object_backend_axioms)

interpretation eng: storage_engine "bbolt_store ref_bolt" "bolt_view ref_bolt" "bolt_inv ref_bolt (\<lambda>_. True)"
  localfs_backend lfs_view lfs_inv localfs_good
  by (rule server_engine) (rule ref.bolt_db_axioms)

lemma localfs_New_inv: "root_ok root \<Longrightarrow> fs_wf fs \<Longrightarrow> localfs_New root fs seed now = Inr s \<Longrightarrow> lfs_inv s"
  using os_MkdirAll_ok [of fs "os_path (Clean root)"]
  by (auto simp: localfs_New_def lfs_inv_def split: prod.splits option.splits)

text \<open>A new engine on an empty database holds nothing.\<close>

lemma fresh_engine_ok: "lfs_inv s \<Longrightarrow> engine_ok ref_bolt (\<lambda>_. True) (engine_New s [] owner)"
  by (simp add: engine_inv_def engine_New_def ref_empty_inv)

section \<open>A running engine\<close>

definition demo_platform :: platform where
  "demo_platform = \<lparr>pf_md5 = take 16, pf_sha256 = take 32, pf_hmac = (\<lambda>k d. k @ d),
     pf_sniff = (\<lambda>_. ''text/plain''), pf_seal = (\<lambda>k n p. rev p), pf_open = (\<lambda>k n c. Some (rev c)),
     pf_json_valid = (\<lambda>_. True)\<rparr>"

definition demo_env :: env where
  "demo_env = \<lparr>env_now = 1000, env_uuid = ''00000000-0000-4000-8000-000000000001'', env_rand = (\<lambda>i n. replicate n CHR ''r'')\<rparr>"

definition demo_fs :: local_fs where
  "demo_fs = \<lparr>lf_root = ''/data'', lf_fs = [([''data''], Dir)], lf_seed = 0, lf_clock = 5\<rparr>"

definition demo0 :: "(ref_db, local_fs) engine" where
  "demo0 = engine_New demo_fs [] ''root''"

definition demo1 :: "(ref_db, local_fs) engine" where
  "demo1 = snd (CreateBucket (bbolt_store ref_bolt) localfs_backend demo_env ''bkt'' ''o'' ''r'' demo0)"

definition demo_put :: put_object_input where
  "demo_put = \<lparr>pi_Bucket = ''bkt'', pi_Key = ''dir/a'', pi_Body = reader_of ''hello'', pi_Size = 5,
     pi_ContentType = [], pi_Owner = ''o'', pi_UserMeta = [(''m'', ''v'')], pi_Tags = [], pi_SSEAlgorithm = []\<rparr>"

lemma demo_platform_ok: "aead_ok demo_platform" "random_ok (env_rand demo_env)"
  by (simp_all add: aead_ok_def random_ok_def demo_platform_def demo_env_def)

lemma demo_names: "validateBucketName ''bkt'' = None"
  by code_simp

lemma demo_mkdir: "localfs_CreateBucketDir demo_fs ''bkt'' = (Inr (), demo_fs\<lparr>lf_fs := [([''data''], Dir), ([''data'', ''bkt''], Dir)]\<rparr>)"
  by code_simp

lemmas bolt_eval = bbolt_store_def bb_BucketExists_def bb_PutBucket_def bb_GetBucket_def store_put_def store_get_def
  db_Update_def ref_bolt_def ref_Get_def ref_Put_def

lemma demo1_create:
  "CreateBucket (bbolt_store ref_bolt) localfs_backend demo_env ''bkt'' ''o'' ''r'' demo0 = (Inr (), demo1)"
  "e_backend demo1 = demo_fs\<lparr>lf_fs := [([''data''], Dir), ([''data'', ''bkt''], Dir)]\<rparr>"
  "e_meta demo1 = [((bucketsBucket, ''bkt''), JBucket (new_bucket demo_env ''bkt'' ''o'' ''r''))]"
  "e_masterKey demo1 = None" "e_webhooks demo1 = []" "e_replication demo1 = []"
  using demo_mkdir
  by (simp_all add: CreateBucket_def demo_names demo0_def demo1_def engine_New_def bolt_eval localfs_backend_def
      meta_write_def max_key_size_def new_bucket_def)

lemma demo_fs_wf: "fs_wf [([''data''], Dir)]"
  by (auto simp: fs_wf_def lookup_def parents_def nulfree_def split: if_splits)

lemma demo_root: "root_ok ''/data''"
  by code_simp

lemma demo1_ok: "engine_ok ref_bolt (\<lambda>_. True) demo1"
  "mv_buckets (records ref_bolt demo1) ''bkt'' = Some (new_bucket demo_env ''bkt'' ''o'' ''r'')"
  "mv_objects (records ref_bolt demo1) b k = None" "mv_versions (records ref_bolt demo1) b k v = None"
proof -
  have "lfs_inv demo_fs" using demo_fs_wf demo_root by (simp add: lfs_inv_def demo_fs_def)
  then have e0: "engine_ok ref_bolt (\<lambda>_. True) demo0" by (simp add: demo0_def fresh_engine_ok)
  note c = eng.CreateBucket_cases [OF e0 demo1_create(1)]
  from c show "engine_ok ref_bolt (\<lambda>_. True) demo1" by simp
  from c show "mv_buckets (records ref_bolt demo1) ''bkt'' = Some (new_bucket demo_env ''bkt'' ''o'' ''r'')"
    by (simp add: put_bucket_view_def new_bucket_def)
  from c show "mv_objects (records ref_bolt demo1) b k = None" "mv_versions (records ref_bolt demo1) b k v = None"
    by (simp_all add: put_bucket_view_def demo0_def engine_New_def bolt_view_def view_of_def ref_bolt_def ref_Get_def)
qed

lemma demo_put_ready:
  "put_ready localfs_good (records ref_bolt demo1) demo_env demo_put"
  "write_ready (e_backend demo1) ''bkt'' ''dir/a''"
proof -
  have "localfs_good ''bkt'' ''dir/a''" by code_simp
  then show "put_ready localfs_good (records ref_bolt demo1) demo_env demo_put"
    using demo1_ok(2) by (simp add: put_ready_def put_names_def demo_put_def object_ok_def name_ok_def nulfree_def
        max_key_size_def new_bucket_def resolveVersioning_def)
  show "write_ready (e_backend demo1) ''bkt'' ''dir/a''"
    unfolding demo1_create by (rule write_readyI [where fs = "[([''data''], Dir), ([''data'', ''bkt''], Dir)]"]) code_simp+
qed

lemma demo_none: "mv_buckets (records ref_bolt demo1) ''none'' = None"
  using demo1_create(3) by (simp add: bolt_view_def view_of_def ref_bolt_def ref_Get_def)

lemma demo1_stored: "all_stored localfs_good (files demo1) (records ref_bolt demo1)"
  using demo1_ok(3) by (simp add: all_stored_def)

section \<open>One object\<close>

definition demo_out :: put_object_output where
  "demo_out = projr (fst (PutObject (bbolt_store ref_bolt) localfs_backend demo_platform demo_env demo_put demo1))"

definition demo2 :: "(ref_db, local_fs) engine" where
  "demo2 = snd (PutObject (bbolt_store ref_bolt) localfs_backend demo_platform demo_env demo_put demo1)"

lemma demo2_put: "PutObject (bbolt_store ref_bolt) localfs_backend demo_platform demo_env demo_put demo1 = (Inr demo_out, demo2)"
proof -
  have "localfs_good ''bkt'' ''dir/a''" by code_simp
  moreover have "lfs_inv (e_backend demo1)" using demo1_ok(1) by (simp add: engine_inv_def)
  ultimately obtain s' where "localfs_Write (e_backend demo1) ''bkt'' ''dir/a'' (reader_of ''hello'') 5 = (Inr 5, s')"
    using localfs_Write_progress [of "e_backend demo1" "''bkt''" "''dir/a''" "reader_of ''hello''" 5] demo_put_ready(2)
    by (auto simp: byte_count_def)
  then have "\<exists>out e'. PutObject (bbolt_store ref_bolt) localfs_backend demo_platform demo_env demo_put demo1 = (Inr out, e')"
    using demo1_ok(2) demo1_create(4)
    by (intro eng.PutObject_progress [OF demo1_ok(1) demo_put_ready(1), where bkt = "new_bucket demo_env ''bkt'' ''o'' ''r''"
          and body = "reader_of ''hello''" and alg = "[]" and ek = "[]" and m = 5])
      (auto simp: demo_put_def checkQuota_def new_bucket_def applySSE_def resolveVersioning_def localfs_backend_def)
  then show ?thesis by (auto simp: demo_out_def demo2_def)
qed

lemma demo2_facts:
  "engine_ok ref_bolt (\<lambda>_. True) demo2" "all_stored localfs_good (files demo2) (records ref_bolt demo2)"
  "\<exists>bkt. mv_buckets (records ref_bolt demo2) ''bkt'' = Some bkt \<and> br_Versioning bkt = ''disabled''"
  "mv_objects (records ref_bolt demo2) ''bkt'' ''dir/a'' \<noteq> None"
proof -
  obtain bkt vid bk alg ek and r :: object_record and body :: reader where e2: "engine_ok ref_bolt (\<lambda>_. True) demo2"
    "mv_buckets (records ref_bolt demo1) (pi_Bucket demo_put) = Some bkt"
    "r = put_record demo_platform demo_env demo_put bkt vid alg ek (rd_data body) (byte_count (rd_data body))"
    "records ref_bolt demo2 = put_view bkt r (fst (delta bkt r (records ref_bolt demo1))) (snd (delta bkt r (records ref_bolt demo1))) (records ref_bolt demo1)"
    using eng.PutObject_Inr [OF demo1_ok(1) demo_put_ready(1) demo2_put] by blast
  have n: "pi_Bucket demo_put = ''bkt''" "pi_Key demo_put = ''dir/a''" by (simp_all add: demo_put_def)
  show "engine_ok ref_bolt (\<lambda>_. True) demo2" by (rule e2)
  show "all_stored localfs_good (files demo2) (records ref_bolt demo2)"
    by (rule eng.put_keeps_stored [OF demo1_ok(1) demo_put_ready(1) _ demo1_stored demo2_put])
      (simp add: backend_key_free_def demo1_ok)
  show "\<exists>bkt. mv_buckets (records ref_bolt demo2) ''bkt'' = Some bkt \<and> br_Versioning bkt = ''disabled''"
    using e2 n demo1_ok(2) by (auto simp: put_view_buckets add_stats_def new_bucket_def)
  show "mv_objects (records ref_bolt demo2) ''bkt'' ''dir/a'' \<noteq> None"
    using e2 n by (auto simp: put_view_objects)
qed

lemma demo2_other: "mv_objects (records ref_bolt demo2) ''bkt'' ''z'' = None"
  using eng.put_frame [OF demo1_ok(1) demo_put_ready(1) demo2_put, of "''bkt''" "''z''"] demo1_ok(3)
  by (simp add: demo_put_def)

section \<open>A versioned bucket\<close>

definition demo1v :: "(ref_db, local_fs) engine" where
  "demo1v = snd (SetBucketVersioning (bbolt_store ref_bolt) ''bkt'' ''enabled'' demo1)"

definition demo_vbucket :: bucket_record where
  "demo_vbucket = (new_bucket demo_env ''bkt'' ''o'' ''r'')\<lparr>br_Versioning := ''enabled''\<rparr>"

lemma demo1v_ok:
  "engine_ok ref_bolt (\<lambda>_. True) demo1v" "e_backend demo1v = e_backend demo1" "e_masterKey demo1v = None"
  "records ref_bolt demo1v = (records ref_bolt demo1)\<lparr>mv_buckets := (mv_buckets (records ref_bolt demo1))(''bkt'' \<mapsto> demo_vbucket)\<rparr>"
proof -
  obtain res where c: "SetBucketVersioning (bbolt_store ref_bolt) ''bkt'' ''enabled'' demo1 = (res, demo1v)"
    by (metis demo1v_def prod.collapse)
  note m = eng.modify_bucket_cases [OF demo1_ok(1) _ c [unfolded SetBucketVersioning_def]]
  have "engine_ok ref_bolt (\<lambda>_. True) demo1v \<and> records ref_bolt demo1v =
      (records ref_bolt demo1)\<lparr>mv_buckets := (mv_buckets (records ref_bolt demo1))(''bkt'' \<mapsto> demo_vbucket)\<rparr>"
    using m demo1_ok(2) by (auto simp: demo_vbucket_def split: if_splits)
  then show "engine_ok ref_bolt (\<lambda>_. True) demo1v" "records ref_bolt demo1v =
      (records ref_bolt demo1)\<lparr>mv_buckets := (mv_buckets (records ref_bolt demo1))(''bkt'' \<mapsto> demo_vbucket)\<rparr>" by simp_all
  show "e_backend demo1v = e_backend demo1" "e_masterKey demo1v = None"
    using demo1_create(4) by (simp_all add: demo1v_def SetBucketVersioning_def modify_bucket_def meta_write_def split: sum.split)
qed

definition demo_vkey :: string where
  "demo_vkey = ''dir/a.v.00000000-0000-4000-8000-000000000001''"

lemma demo_vkey_eq: "versionedBackendKey ''dir/a'' (env_uuid demo_env) = demo_vkey"
  by (simp add: versionedBackendKey_def demo_vkey_def demo_env_def)

lemma demo_putv_ready:
  "put_ready localfs_good (records ref_bolt demo1v) demo_env demo_put" "localfs_good ''bkt'' demo_vkey"
  "write_ready (e_backend demo1) ''bkt'' demo_vkey" "version_ok ''bkt'' ''dir/a'' (env_uuid demo_env)"
proof -
  show g: "localfs_good ''bkt'' demo_vkey" unfolding demo_vkey_def by code_simp
  show v: "version_ok ''bkt'' ''dir/a'' (env_uuid demo_env)"
    by (simp add: version_ok_def name_ok_def nulfree_def max_key_size_def demo_env_def)
  show "put_ready localfs_good (records ref_bolt demo1v) demo_env demo_put"
    using g v demo_vkey_eq demo1v_ok(4)
    by (simp add: put_ready_def put_names_def demo_put_def object_ok_def version_ok_def name_ok_def nulfree_def
        max_key_size_def demo_vbucket_def resolveVersioning_def demo_env_def)
  show "write_ready (e_backend demo1) ''bkt'' demo_vkey"
    unfolding demo1_create demo_vkey_def
    by (rule write_readyI [where fs = "[([''data''], Dir), ([''data'', ''bkt''], Dir)]"]) code_simp+
qed

definition demo_outv :: put_object_output where
  "demo_outv = projr (fst (PutObject (bbolt_store ref_bolt) localfs_backend demo_platform demo_env demo_put demo1v))"

definition demo2v :: "(ref_db, local_fs) engine" where
  "demo2v = snd (PutObject (bbolt_store ref_bolt) localfs_backend demo_platform demo_env demo_put demo1v)"

lemma demo2v_put: "PutObject (bbolt_store ref_bolt) localfs_backend demo_platform demo_env demo_put demo1v = (Inr demo_outv, demo2v)"
proof -
  have "lfs_inv (e_backend demo1)" using demo1_ok(1) by (simp add: engine_inv_def)
  then obtain s' where "localfs_Write (e_backend demo1) ''bkt'' demo_vkey (reader_of ''hello'') 5 = (Inr 5, s')"
    using localfs_Write_progress [of "e_backend demo1" "''bkt''" demo_vkey "reader_of ''hello''" 5] demo_putv_ready(2,3)
    by (auto simp: byte_count_def)
  then have "\<exists>out e'. PutObject (bbolt_store ref_bolt) localfs_backend demo_platform demo_env demo_put demo1v = (Inr out, e')"
    using demo1v_ok demo_vkey_eq
    by (intro eng.PutObject_progress [OF demo1v_ok(1) demo_putv_ready(1), where bkt = demo_vbucket
          and body = "reader_of ''hello''" and alg = "[]" and ek = "[]" and m = 5])
      (auto simp: demo_put_def checkQuota_def demo_vbucket_def new_bucket_def applySSE_def resolveVersioning_def localfs_backend_def)
  then show ?thesis by (auto simp: demo_outv_def demo2v_def)
qed

text \<open>After the put the version is recorded, marked as the latest, and its file holds the body.\<close>

lemma demo2v_facts:
  "engine_ok ref_bolt (\<lambda>_. True) demo2v" "files demo2v ''bkt'' demo_vkey = Some ''hello''"
  "\<exists>bkt. mv_buckets (records ref_bolt demo2v) ''bkt'' = Some bkt \<and> br_Versioning bkt = VersioningEnabled"
  "\<exists>r. mv_versions (records ref_bolt demo2v) ''bkt'' ''dir/a'' (env_uuid demo_env) = Some r \<and> \<not> vr_IsDeleteMarker r"
  "mv_versions (records ref_bolt demo2v) b k v = None \<or> (b, k, v) = (''bkt'', ''dir/a'', env_uuid demo_env)"
  "all_stored localfs_good (files demo2v) (records ref_bolt demo2v)" "one_latest (records ref_bolt demo2v)"
proof -
  obtain bkt vid bk alg ek and r :: object_record and body :: reader where e2: "engine_ok ref_bolt (\<lambda>_. True) demo2v"
    "applySSE demo_platform (e_masterKey demo1v) (env_rand demo_env) demo_put (br_SSEAlgorithm bkt) = Inr (body, alg, ek)"
    "mv_buckets (records ref_bolt demo1v) (pi_Bucket demo_put) = Some bkt"
    "(vid, bk) = resolveVersioning demo_env (pi_Key demo_put) (br_Versioning bkt)"
    "r = put_record demo_platform demo_env demo_put bkt vid alg ek (rd_data body) (byte_count (rd_data body))"
    "files demo2v = (files demo1v)(pi_Bucket demo_put := (files demo1v (pi_Bucket demo_put))(bk \<mapsto> rd_data body))"
    "records ref_bolt demo2v = put_view bkt r (fst (delta bkt r (records ref_bolt demo1v))) (snd (delta bkt r (records ref_bolt demo1v))) (records ref_bolt demo1v)"
    using eng.PutObject_Inr [OF demo1v_ok(1) demo_putv_ready(1) demo2v_put] by blast
  have n: "pi_Bucket demo_put = ''bkt''" "pi_Key demo_put = ''dir/a''" "pi_Body demo_put = reader_of ''hello''" by (simp_all add: demo_put_def)
  have "br_Versioning demo_vbucket = VersioningEnabled" by (simp add: demo_vbucket_def)
  moreover have "bkt = demo_vbucket" using e2(3) n demo1v_ok(4) by simp
  ultimately have b: "bkt = demo_vbucket" "br_Versioning demo_vbucket = VersioningEnabled" by simp_all
  have v: "vid = env_uuid demo_env" "bk = demo_vkey" using e2(4) n b demo_vkey_eq by (simp_all add: resolveVersioning_def)
  have "body = pi_Body demo_put" using e2(2) demo1v_ok(3) by (auto simp: applySSE_def Let_def)
  then have d: "rd_data body = ''hello''" using n(3) by simp
  show "engine_ok ref_bolt (\<lambda>_. True) demo2v" by (rule e2)
  show "files demo2v ''bkt'' demo_vkey = Some ''hello''" using e2(6) n v d by simp
  show "\<exists>bkt. mv_buckets (records ref_bolt demo2v) ''bkt'' = Some bkt \<and> br_Versioning bkt = VersioningEnabled"
    using e2 n b demo1v_ok(4) by (simp add: put_view_buckets add_stats_def)
  have e0: "mv_versions (records ref_bolt demo1v) b k v = None" for b k v using demo1v_ok(4) demo1_ok(4) by simp
  have vs: "mv_versions (records ref_bolt demo2v) b k v = (if (b, k, v) = (''bkt'', ''dir/a'', env_uuid demo_env)
      then Some (version_of r (env_uuid demo_env) True) else None)" for b k v
    using e2(5,7) n b v e0 by (auto simp: put_view_versions put_version_view_versions mark_view_versions version_of_def)
  show "\<exists>r. mv_versions (records ref_bolt demo2v) ''bkt'' ''dir/a'' (env_uuid demo_env) = Some r \<and> \<not> vr_IsDeleteMarker r"
    using vs by (simp add: version_of_def)
  show "mv_versions (records ref_bolt demo2v) b k v = None \<or> (b, k, v) = (''bkt'', ''dir/a'', env_uuid demo_env)"
    using vs by simp
  show "one_latest (records ref_bolt demo2v)" using vs by (auto simp: one_latest_def split: if_splits)
  show "all_stored localfs_good (files demo2v) (records ref_bolt demo2v)"
    by (rule eng.put_keeps_stored [OF demo1v_ok(1) demo_putv_ready(1) _ _ demo2v_put])
      (simp_all add: backend_key_free_def demo1v_ok demo1_ok all_stored_def)
qed

section \<open>An upload of one part\<close>

definition demo_upload :: multipart_record where
  "demo_upload = \<lparr>mr_UploadID = env_uuid demo_env, mr_Bucket = ''bkt'', mr_Key = ''big'', mr_Owner = ''o'',
     mr_ContentType = [], mr_UserMeta = [], mr_Initiated = 1000\<rparr>"

definition demo_mp :: "(ref_db, local_fs) engine" where
  "demo_mp = snd (CreateMultipartUpload (bbolt_store ref_bolt) demo_env ''bkt'' ''big'' ''o'' [] [] demo1)"

lemma demo_uuid_ok: "name_ok (env_uuid demo_env)" "part_ok (env_uuid demo_env) 1"
  by (simp_all add: name_ok_def part_ok_def nulfree_def max_key_size_def demo_env_def)

lemma demo_mp_facts:
  "engine_ok ref_bolt (\<lambda>_. True) demo_mp" "e_backend demo_mp = e_backend demo1"
  "mv_multiparts (records ref_bolt demo_mp) (env_uuid demo_env) = Some demo_upload"
  "mv_buckets (records ref_bolt demo_mp) ''bkt'' = Some (new_bucket demo_env ''bkt'' ''o'' ''r'')"
  using eng.CreateMultipart_ok [OF demo1_ok(1,2) demo_uuid_ok(1), of "''big''" "''o''" "[]" "[]"] demo1_ok(2)
  by (auto simp: demo_mp_def demo_upload_def) (simp add: demo_env_def)

definition demo_partfile :: string where
  "demo_partfile = ''.multipart/00000000-0000-4000-8000-000000000001/00001''"

lemma demo_partfile_eq: "multipart_part_key (env_uuid demo_env) 1 = demo_partfile"
  unfolding demo_partfile_def demo_env_def by code_simp

definition demo_mp1 :: "(ref_db, local_fs) engine" where
  "demo_mp1 = snd (UploadPart (bbolt_store ref_bolt) localfs_backend demo_platform demo_env (env_uuid demo_env) 1 (reader_of ''part'') 4 demo_mp)"

text \<open>The part file is written step by step.\<close>

definition demo_dirs :: fs where
  "demo_dirs = [([''data''], Dir), ([''data'', ''bkt''], Dir), ([''data'', ''bkt'', ''.multipart''], Dir),
     ([''data'', ''bkt'', ''.multipart'', ''00000000-0000-4000-8000-000000000001''], Dir)]"

definition demo_partdir :: "string list" where
  "demo_partdir = [''data'', ''bkt'', ''.multipart'', ''00000000-0000-4000-8000-000000000001'']"

lemma demo_part_paths:
  "(case safePath ''/data'' ''bkt'' demo_partfile of Inr p \<Rightarrow> os_path p = demo_partdir @ [''00001''] | Inl _ \<Rightarrow> False)"
  "os_MkdirAll [([''data''], Dir), ([''data'', ''bkt''], Dir)] demo_partdir = (None, demo_dirs)"
  "walk_err demo_dirs (demo_partdir @ [''.tmp-0'']) = None" "lookup demo_dirs (demo_partdir @ [''.tmp-0'']) = None"
  "tmp_name 0 = ''.tmp-0''" "AList.update (demo_partdir @ [''.tmp-0'']) (File [] 5) demo_dirs = demo_dirs @ [(demo_partdir @ [''.tmp-0''], File [] 5)]"
  "AList.update (demo_partdir @ [''.tmp-0'']) (File ''part'' 5) (demo_dirs @ [(demo_partdir @ [''.tmp-0''], File [] 5)]) = demo_dirs @ [(demo_partdir @ [''.tmp-0''], File ''part'' 5)]"
  "os_Rename (demo_dirs @ [(demo_partdir @ [''.tmp-0''], File ''part'' 5)]) (demo_partdir @ [''.tmp-0'']) (demo_partdir @ [''00001'']) =
     Inr (demo_dirs @ [(demo_partdir @ [''00001''], File ''part'' 5)])"
  "remove_quiet (demo_dirs @ [(demo_partdir @ [''00001''], File ''part'' 5)]) (demo_partdir @ [''.tmp-0'']) =
     demo_dirs @ [(demo_partdir @ [''00001''], File ''part'' 5)]"
  by code_simp+

lemma demo_part_write:
  "localfs_Write (e_backend demo1) ''bkt'' demo_partfile (reader_of ''part'') 4 =
     (Inr 4, demo_fs\<lparr>lf_fs := demo_dirs @ [(demo_partdir @ [''00001''], File ''part'' 5)]\<rparr>)"
proof -
  obtain p where p: "safePath ''/data'' ''bkt'' demo_partfile = Inr p" "os_path p = demo_partdir @ [''00001'']"
    using demo_part_paths(1) by (auto split: sum.splits)
  have "os_CreateTemp demo_dirs demo_partdir 0 5 = Inr (demo_partdir @ [''.tmp-0''], demo_dirs @ [(demo_partdir @ [''.tmp-0''], File [] 5)])"
    using demo_part_paths by (simp add: os_CreateTemp_def try_temp.simps [of _ _ 0 10000])
  then show ?thesis unfolding demo1_create
    using p demo_part_paths by (simp add: localfs_Write_def Let_def demo_fs_def byte_count_def)
qed

lemma demo_mp1_facts:
  "engine_ok ref_bolt (\<lambda>_. True) demo_mp1"
  "e_backend demo_mp1 = demo_fs\<lparr>lf_fs := demo_dirs @ [(demo_partdir @ [''00001''], File ''part'' 5)]\<rparr>"
  "mv_multiparts (records ref_bolt demo_mp1) (env_uuid demo_env) = Some demo_upload"
  "mv_buckets (records ref_bolt demo_mp1) ''bkt'' = Some (new_bucket demo_env ''bkt'' ''o'' ''r'')"
  "files demo_mp1 ''bkt'' demo_partfile = Some ''part''"
proof -
  obtain res where u: "UploadPart (bbolt_store ref_bolt) localfs_backend demo_platform demo_env (env_uuid demo_env) 1 (reader_of ''part'') 4 demo_mp = (res, demo_mp1)"
    by (metis demo_mp1_def prod.collapse)
  have "localfs_good ''bkt'' demo_partfile" unfolding demo_partfile_def by code_simp
  then have g: "localfs_good (mr_Bucket demo_upload) (multipart_part_key (env_uuid demo_env) 1)"
    by (simp add: demo_upload_def demo_partfile_eq)
  have m: "m_GetMultipart (bbolt_store ref_bolt) (e_meta demo_mp) (env_uuid demo_env) = Inr demo_upload"
    using ref.ms.get_multipart [of "e_meta demo_mp" "env_uuid demo_env"] demo_mp_facts by (simp add: engine_inv_def)
  show b: "e_backend demo_mp1 = demo_fs\<lparr>lf_fs := demo_dirs @ [(demo_partdir @ [''00001''], File ''part'' 5)]\<rparr>"
    using m demo_part_write demo_mp_facts(2)
    by (simp add: demo_mp1_def UploadPart_def demo_partfile_eq demo_upload_def localfs_backend_def Let_def meta_write_def split: sum.split)
  have "\<exists>etag. res = Inr etag"
  proof (cases res)
    case (Inl err)
    with eng.UploadPart_ok [OF demo_mp_facts(1,3) demo_uuid_ok(2) g u] have "files demo_mp1 = files demo_mp" by simp
    moreover have "files demo_mp1 ''bkt'' demo_partfile = Some ''part''" unfolding b demo_partfile_def by code_simp
    moreover have "files demo_mp ''bkt'' demo_partfile = None" unfolding demo_mp_facts(2) demo1_create demo_partfile_def by code_simp
    ultimately show ?thesis by simp
  qed simp
  with eng.UploadPart_ok [OF demo_mp_facts(1,3) demo_uuid_ok(2) g u] demo_mp_facts
  show "engine_ok ref_bolt (\<lambda>_. True) demo_mp1"
    "mv_multiparts (records ref_bolt demo_mp1) (env_uuid demo_env) = Some demo_upload"
    "mv_buckets (records ref_bolt demo_mp1) ''bkt'' = Some (new_bucket demo_env ''bkt'' ''o'' ''r'')"
    "files demo_mp1 ''bkt'' demo_partfile = Some ''part''"
    by (auto simp: put_part_view_def demo_upload_def demo_partfile_eq)
qed

definition demo_sel :: "complete_part list" where
  "demo_sel = [\<lparr>cp_PartNumber = 1, cp_ETag = ''x''\<rparr>]"

lemma demo_parts_ready: "parts_ready localfs_good (files demo_mp1) (env_uuid demo_env) demo_upload demo_sel (\<lambda>_. ''part'')"
proof -
  have "localfs_good ''bkt'' demo_partfile" "localfs_good ''bkt'' ''big''" "demo_partfile \<noteq> ''big''"
    unfolding demo_partfile_def by code_simp+
  moreover have "{1..1::int} = {1}" by auto
  ultimately show ?thesis using demo_mp1_facts(5) demo_uuid_ok(1)
    by (simp add: parts_ready_def demo_sel_def demo_upload_def demo_partfile_eq object_ok_def name_ok_def nulfree_def max_key_size_def)
qed

lemma demo_complete:
  "\<exists>r e'. CompleteMultipartUpload (bbolt_store ref_bolt) localfs_backend demo_platform demo_env (env_uuid demo_env) demo_sel demo_mp1 = (Inr r, e')"
proof (rule eng.CompleteMultipart_progress [OF demo_mp1_facts(1,3) demo_parts_ready])
  show "mv_buckets (records ref_bolt demo_mp1) (mr_Bucket demo_upload) = Some (new_bucket demo_env ''bkt'' ''o'' ''r'')"
    using demo_mp1_facts(4) by (simp add: demo_upload_def)
  show "br_Quota (new_bucket demo_env ''bkt'' ''o'' ''r'') = None" by (simp add: new_bucket_def)
  have b: "snd (read_parts localfs_backend ''bkt'' (env_uuid demo_env) sel s) = s" for sel s
    by (induction sel arbitrary: s) (simp_all add: case_prod_beta localfs_backend_def)
  have r: "write_ready (e_backend demo_mp1) ''bkt'' ''big''"
    unfolding demo_mp1_facts(2)
    by (rule write_readyI [where fs = "demo_dirs @ [(demo_partdir @ [''00001''], File ''part'' 5)]"]) code_simp+
  have g: "localfs_good ''bkt'' ''big''" by code_simp
  fix sz
  have "\<exists>s'. localfs_Write (e_backend demo_mp1) ''bkt'' ''big'' (reader_of (assembled (\<lambda>_. ''part'') demo_sel)) sz =
      (Inr (byte_count (assembled (\<lambda>_. ''part'') demo_sel)), s')"
    using localfs_Write_progress [OF _ g _ r, of "reader_of (assembled (\<lambda>_. ''part'') demo_sel)" sz] demo_mp1_facts(1)
    by (simp add: engine_inv_def)
  then show "\<exists>n. fst (b_Write localfs_backend (snd (read_parts localfs_backend (mr_Bucket demo_upload) (env_uuid demo_env)
      (sort_key cp_PartNumber demo_sel) (e_backend demo_mp1))) (mr_Bucket demo_upload) (mr_Key demo_upload)
      (reader_of (assembled (\<lambda>_. ''part'') demo_sel)) sz) = Inr n"
    using b by (auto simp: demo_upload_def localfs_backend_def)
qed

end
