(* ===== verification/Key_Props.thy ===== *)
theory Key_Props
  imports Key_Store Sigv4_Props Engine_Demo
begin

text \<open>
  What the key store and the middleware guarantee: a created key authenticates the requests signed with
  it, a deleted one none, and in every state the key operations reach, an identity is handed on only
  with a signature that verifies under the secret stored for it. The user management handlers do not
  look at the identity they are called under.
\<close>

section \<open>Keys\<close>

lemma base62_alphabet_length: "length base62_alphabet = 62"
  by (simp add: base62_alphabet_def)

lemma base62_unreserved: "list_all isUnreserved base62_alphabet"
  by code_simp

lemma randomBase62_length [simp]: "length (randomBase62 draw n) = n"
  by (simp add: randomBase62_def)

lemma randomBase62_unreserved: "list_all isUnreserved (randomBase62 draw n)"
proof -
  have "isUnreserved (base62_alphabet ! (k mod 62))" for k
    using base62_unreserved nth_mem [of "k mod 62" base62_alphabet]
    by (simp add: list_all_iff base62_alphabet_length)
  then show ?thesis by (simp add: randomBase62_def Let_def list_all_iff)
qed

text \<open>
  The residues are not evenly met: five bytes give the first letter and four the last digit, although
  the comment on the second half of the draw speaks of avoiding this bias.
\<close>

lemma base62_bias:
  "length (filter (\<lambda>b. b mod 62 = 0) [0..<256]) = 5 \<and> length (filter (\<lambda>b. b mod 62 = 61) [0..<256]) = 4"
  by code_simp

abbreviation with_key :: "access_key_record \<Rightarrow> meta_view \<Rightarrow> meta_view" where
  "with_key a w \<equiv> w\<lparr>mv_keys := (mv_keys w)(ak_AccessKey a \<mapsto> a)\<rparr>"

text \<open>Every stored key can be used to sign.\<close>

definition keys_sign :: "meta_view \<Rightarrow> bool" where
  "keys_sign w \<longleftrightarrow> (\<forall>i a. mv_keys w i = Some a \<longrightarrow> ak_SigningKey a \<noteq> [])"

lemma keys_sign_upd: "keys_sign w \<Longrightarrow> ak_SigningKey a \<noteq> [] \<Longrightarrow> keys_sign (with_key a w)"
  by (simp add: keys_sign_def)

lemma keys_sign_del: "keys_sign w \<Longrightarrow> keys_sign (w\<lparr>mv_keys := (mv_keys w)(i := None)\<rparr>)"
  by (simp add: keys_sign_def)

text \<open>The access key a request claims, and the check its signature must pass.\<close>

definition claimed_key :: "request \<Rightarrow> string" where
  "claimed_key r = (if isPresigned r then presigned_access_key r else ExtractAccessKey r)"

definition signature_ok :: "platform \<Rightarrow> request \<Rightarrow> string \<Rightarrow> time \<Rightarrow> bool" where
  "signature_ok P r secretKey now \<longleftrightarrow>
     (if isPresigned r then VerifyPresignedURL P r secretKey now else VerifyRequest P r secretKey now) = None"

lemma presigned_claim:
  assumes gen: "GeneratePresignedURL P verb rawURL bucket key accessKey secretKey region expires now = Inr url"
    and mac: "\<And>k d. pf_hmac P k d \<noteq> []" and range: "stamp_range now" and slash: "CHR ''/'' \<notin> set accessKey"
    and req: "url = rawURL @ rq_Path r @ ''?'' @ rq_RawQuery r" "rq_Path r = ''/'' @ bucket @ ''/'' @ key"
      "rq_Method r = verb" "rq_Host r = extractHost rawURL bucket"
  shows "isPresigned r" and "presigned_access_key r = accessKey"
proof -
  note g = generated_pairs(3) [OF gen range req]
  let ?cred = "accessKey @ ''/'' @ format_date now @ ''/'' @ region @ ''/s3/aws4_request''"
  from g mac have q: "multi_get (URL_Query r) ''X-Amz-Signature'' \<noteq> []" "multi_get (URL_Query r) ''X-Amz-Credential'' = ?cred"
    by (simp_all add: URL_Query_Get presign_pairs_def hex_encode_ne)
  have "\<forall>c \<in> set accessKey. c \<noteq> CHR ''/''" using slash by auto
  then have "takeWhile (\<lambda>c. c \<noteq> CHR ''/'') ?cred = accessKey" by (simp add: takeWhile_append2)
  then show "presigned_access_key r = accessKey" by (simp add: presigned_access_key_def q(2))
  from q(1) show "isPresigned r" by (simp add: isPresigned_def)
qed

context metadata_store
begin

lemma Lookup_Some: "sinv m \<Longrightarrow> mv_keys (view m) i = Some a \<Longrightarrow> Lookup M i m = Inr a"
  using get_key [of m i] by (simp add: Lookup_def)

lemma Lookup_None: "sinv m \<Longrightarrow> mv_keys (view m) i = None \<Longrightarrow> \<exists>e. Lookup M i m = Inl (Wrap (''lookup key '' @ i) e)"
  using get_key [of m i] by (auto simp: Lookup_def)

lemma Lookup_Inr: "sinv m \<Longrightarrow> Lookup M i m = Inr a \<Longrightarrow> mv_keys (view m) i = Some a"
  using Lookup_None [of m i] Lookup_Some [of m i] by (cases "mv_keys (view m) i") auto

lemma CreateKey_ok:
  assumes "sinv m" and "kdf_ok K"
  shows "\<exists>hash m'. CreateKey M K rnd now owner isRoot m = (Inr (randomBase62 (rnd 0) 20, randomBase62 (rnd 1) 40), m') \<and>
    sinv m' \<and> kdf_compare K hash (randomBase62 (rnd 1) 40) \<and>
    view m' = with_key (key_record (randomBase62 (rnd 0) 20) hash (randomBase62 (rnd 1) 40) owner now isRoot) (view m)"
proof -
  obtain hash where h: "kdf_hash K (rnd 2 16) (randomBase62 (rnd 1) 40) = Inr hash"
    using assms(2) unfolding kdf_ok_def by fastforce
  have c: "kdf_compare K hash (randomBase62 (rnd 1) 40)"
    using assms(2) h unfolding kdf_ok_def by blast
  let ?r = "key_record (randomBase62 (rnd 0) 20) hash (randomBase62 (rnd 1) 40) owner now isRoot"
  have "length (randomBase62 (rnd 0) 20) = 20" by simp
  then have "ak_AccessKey ?r \<noteq> []" "length (ak_AccessKey ?r) \<le> max_key_size"
    by (auto simp: key_record_def max_key_size_def simp del: randomBase62_length)
  from put_key [OF assms(1) this] h c show ?thesis
    by (auto simp: CreateKey_def Let_def elim!: wroteE)
qed

lemma CreateKey_keeps:
  assumes "sinv m" and "kdf_ok K" and "keys_sign (view m)" and "CreateKey M K rnd now owner isRoot m = (res, m')"
  shows "sinv m' \<and> keys_sign (view m')"
proof -
  have ne: "randomBase62 d 40 \<noteq> []" for d by (metis length_greater_0_conv randomBase62_length zero_less_numeral)
  obtain hash where c: "sinv m'"
    "view m' = with_key (key_record (randomBase62 (rnd 0) 20) hash (randomBase62 (rnd 1) 40) owner now isRoot) (view m)"
    using CreateKey_ok [OF assms(1,2), of rnd now owner isRoot] assms(4) by auto
  have "keys_sign (view m')"
    unfolding c(2) by (rule keys_sign_upd [OF assms(3)]) (simp add: key_record_def ne)
  with c(1) show ?thesis ..
qed

lemma UpsertKey_ok:
  assumes "sinv m" and "accessKey \<noteq> []" and "length accessKey \<le> max_key_size"
    and "kdf_hash K (rnd 0 16) secretKey = Inr hash"
  shows "\<exists>m'. UpsertKey M K rnd now accessKey secretKey owner isRoot m = (Inr (), m') \<and> sinv m' \<and>
    view m' = with_key (key_record accessKey hash secretKey owner now isRoot) (view m)"
proof -
  let ?r = "key_record accessKey hash secretKey owner now isRoot"
  have "ak_AccessKey ?r \<noteq> []" "length (ak_AccessKey ?r) \<le> max_key_size"
    using assms(2,3) by (simp_all add: key_record_def)
  with put_key [OF assms(1), of ?r] assms(4) show ?thesis
    by (auto simp: UpsertKey_def elim!: wroteE)
qed

lemma UpsertKey_keeps:
  assumes "sinv m" and "keys_sign (view m)" and "accessKey \<noteq> []" and "length accessKey \<le> max_key_size"
    and "secretKey \<noteq> []" and "UpsertKey M K rnd now accessKey secretKey owner isRoot m = (res, m')"
  shows "sinv m' \<and> keys_sign (view m')"
proof (cases "kdf_hash K (rnd 0 16) secretKey")
  case (Inr hash)
  let ?r = "key_record accessKey hash secretKey owner now isRoot"
  have "ak_SigningKey ?r \<noteq> []" using assms(5) by (simp add: key_record_def)
  with UpsertKey_ok [where K = K and rnd = rnd and secretKey = secretKey and hash = hash and now = now and
      owner = owner and isRoot = isRoot, OF assms(1,3,4) Inr] keys_sign_upd [OF assms(2), of ?r] assms(6)
  show ?thesis by auto
qed (use assms in \<open>auto simp: UpsertKey_def\<close>)

lemma DeleteKey_ok:
  assumes "sinv m"
  shows "\<exists>m'. DeleteKey M i m = (Inr (), m') \<and> sinv m' \<and> view m' = (view m)\<lparr>mv_keys := (mv_keys (view m))(i := None)\<rparr>"
  using delete_key [OF assms, of i] by (auto simp: DeleteKey_def elim!: wroteE)

lemma rotateKey_ok:
  assumes "sinv m" and "kdf_ok K" and "mv_keys (view m) i = Some a"
  shows "\<exists>m1 m2. rotateKey M K rnd now i m =
      (UserCreated 200 (randomBase62 (rnd 0) 20) (randomBase62 (rnd 1) 40) (ak_Owner a), m2) \<and>
    DeleteKey M i m = (Inr (), m1) \<and> sinv m1 \<and>
    CreateKey M K rnd now (ak_Owner a) (ak_IsRoot a) m1 = (Inr (randomBase62 (rnd 0) 20, randomBase62 (rnd 1) 40), m2) \<and> sinv m2"
proof -
  obtain m1 where d: "DeleteKey M i m = (Inr (), m1)" "sinv m1" using DeleteKey_ok [OF assms(1)] by blast
  obtain m2 where "CreateKey M K rnd now (ak_Owner a) (ak_IsRoot a) m1 = (Inr (randomBase62 (rnd 0) 20, randomBase62 (rnd 1) 40), m2)"
    "sinv m2" using CreateKey_ok [OF d(2) assms(2)] by blast
  with d Lookup_Some [OF assms(1,3)] show ?thesis by (simp add: rotateKey_def)
qed

lemma rotateKey_keeps:
  assumes "sinv m" and "kdf_ok K" and "keys_sign (view m)" and "rotateKey M K rnd now i m = (res, m')"
  shows "sinv m' \<and> keys_sign (view m')"
proof (cases "mv_keys (view m) i")
  case None
  from Lookup_None [OF assms(1) this] assms(1,3,4) show ?thesis by (auto simp: rotateKey_def)
next
  case (Some a)
  obtain m1 m2 where r: "DeleteKey M i m = (Inr (), m1)" "sinv m1" "m' = m2"
    "CreateKey M K rnd now (ak_Owner a) (ak_IsRoot a) m1 = (Inr (randomBase62 (rnd 0) 20, randomBase62 (rnd 1) 40), m2)"
    using rotateKey_ok [OF assms(1,2) Some] assms(4) by (metis prod.inject)
  have "keys_sign (view m1)" using DeleteKey_ok [OF assms(1), of i] r(1) keys_sign_del [OF assms(3)] by auto
  from CreateKey_keeps [OF r(2) assms(2) this r(4)] r(3) show ?thesis by simp
qed

lemma Auth_iff:
  assumes "sinv m" and "keys_sign (view m)"
  shows "Auth M P r now m = Authenticated ident \<longleftrightarrow>
    claimed_key r \<noteq> [] \<and> (\<exists>a. mv_keys (view m) (claimed_key r) = Some a \<and> ident = identity_of a \<and>
      signature_ok P r (ak_SigningKey a) now)"
proof (cases "mv_keys (view m) (claimed_key r)")
  case None
  from Lookup_None [OF assms(1) this] None show ?thesis
    by (auto simp: Auth_def handlePresigned_def claimed_key_def Let_def split: if_splits)
next
  case (Some a)
  then have "ak_SigningKey a \<noteq> []" using assms(2) by (simp add: keys_sign_def)
  with Lookup_Some [OF assms(1) Some] Some show ?thesis
    by (auto simp: Auth_def handlePresigned_def claimed_key_def signature_ok_def Let_def split: if_splits option.splits)
qed

lemma Auth_unknown:
  assumes "sinv m" and "mv_keys (view m) (claimed_key r) = None" and "claimed_key r \<noteq> []"
  shows "\<exists>msg. Auth M P r now m = Rejected ''InvalidAccessKeyId'' msg"
  using Lookup_None [OF assms(1,2)] assms(3)
  by (auto simp: Auth_def handlePresigned_def claimed_key_def Let_def split: if_splits)

end

section \<open>Reachable key stores\<close>

text \<open>
  The states the key operations reach from a given one: the start of the server (\<open>UpsertKey\<close> of the
  root key, whose secret is not empty there) and the handlers.
\<close>

inductive key_reach :: "'m meta_store \<Rightarrow> kdf \<Rightarrow> 'm \<Rightarrow> 'm \<Rightarrow> bool" for M K m0 where
  start: "key_reach M K m0 m0"
| create: "key_reach M K m0 m \<Longrightarrow> CreateKey M K rnd now owner isRoot m = (res, m') \<Longrightarrow> key_reach M K m0 m'"
| upsert: "key_reach M K m0 m \<Longrightarrow> accessKey \<noteq> [] \<Longrightarrow> length accessKey \<le> max_key_size \<Longrightarrow> secretKey \<noteq> [] \<Longrightarrow>
    UpsertKey M K rnd now accessKey secretKey owner isRoot m = (ures, m') \<Longrightarrow> key_reach M K m0 m'"
| delete: "key_reach M K m0 m \<Longrightarrow> DeleteKey M accessKey m = (ures, m') \<Longrightarrow> key_reach M K m0 m'"
| rotate: "key_reach M K m0 m \<Longrightarrow> rotateKey M K rnd now accessKey m = (resp, m') \<Longrightarrow> key_reach M K m0 m'"

context metadata_store
begin

lemma key_reach_keeps:
  assumes "key_reach M K m0 m" and "sinv m0" and "keys_sign (view m0)" and "kdf_ok K"
  shows "sinv m \<and> keys_sign (view m)"
  using assms(1)
proof (induction rule: key_reach.induct)
  case start
  with assms show ?case by simp
next
  case (create m rnd now owner isRoot res m')
  with CreateKey_keeps assms(4) show ?case by blast
next
  case (upsert m accessKey secretKey rnd now owner isRoot ures m')
  with UpsertKey_keeps show ?case by blast
next
  case (delete m accessKey ures m')
  with DeleteKey_ok [of m accessKey] keys_sign_del show ?case by auto
next
  case (rotate m rnd now accessKey resp m')
  with rotateKey_keeps assms(4) show ?case by blast
qed

lemma created_key_presigned:
  assumes m: "sinv m" and K: "kdf_ok K"
    and c: "CreateKey M K rnd now0 owner isRoot m = (Inr (ak, sk), m')"
    and gen: "GeneratePresignedURL P verb rawURL bucket key ak sk region expires now = Inr url"
    and mac: "\<And>k d. pf_hmac P k d \<noteq> []" and range: "stamp_range now" and sep: "CHR ''/'' \<notin> set region"
    and req: "url = rawURL @ rq_Path r @ ''?'' @ rq_RawQuery r" "rq_Path r = ''/'' @ bucket @ ''/'' @ key"
      "rq_Method r = verb" "rq_Host r = extractHost rawURL bucket"
    and later: "later \<le> whole_seconds now + sint expires div second_ns * second_ns"
  shows "Auth M P r later m' = Authenticated \<lparr>vi_AccessKey = ak, vi_Owner = owner, vi_IsRoot = isRoot\<rparr>"
proof -
  obtain hash where k: "ak = randomBase62 (rnd 0) 20" "sk = randomBase62 (rnd 1) 40" "sinv m'"
    "view m' = with_key (key_record ak hash sk owner now0 isRoot) (view m)"
    using CreateKey_ok [OF m K, of rnd now0 owner isRoot] c by auto
  have slash: "CHR ''/'' \<notin> set ak"
    using randomBase62_unreserved [of "rnd 0" 20] isUnreserved_plain by (auto simp: k(1) list_all_iff)
  have ne: "ak \<noteq> []" by (metis k(1) length_greater_0_conv randomBase62_length zero_less_numeral)
  note claim = presigned_claim [OF gen mac range slash req]
  have "mv_keys (view m') ak = Some (key_record ak hash sk owner now0 isRoot)"
    by (simp add: k(4) key_record_def)
  moreover have "VerifyPresignedURL P r sk later = None"
    using presigned_roundtrip [OF gen mac range slash sep req, of later] later by simp
  ultimately show ?thesis
    using Lookup_Some [OF k(3)] ne claim
    by (simp add: Auth_def handlePresigned_def key_record_def identity_of_def)
qed

end

section \<open>Properties\<close>

text \<open>
  C8: in every state of the key store that the key operations reach from one whose keys can sign, the
  middleware hands a request on exactly when it claims a stored access key and its signature, in the
  header or in the query, verifies under the secret stored for that key; the identity it hands on is
  the one of that record.
\<close>

theorem authenticated_requests_are_signed:
  assumes "bolt_db DB kinv" and "kdf_ok K" and "bolt_inv DB kinv m0" and "keys_sign (bolt_view DB m0)"
    and "key_reach (bbolt_store DB) K m0 m"
  shows "Auth (bbolt_store DB) P r now m = Authenticated ident \<longleftrightarrow>
    claimed_key r \<noteq> [] \<and> (\<exists>a. mv_keys (bolt_view DB m) (claimed_key r) = Some a \<and> ident = identity_of a \<and>
      signature_ok P r (ak_SigningKey a) now)"
  using metadata_store.Auth_iff [OF bolt_db.store_is_metadata_store [OF assms(1)]]
    metadata_store.key_reach_keeps [OF bolt_db.store_is_metadata_store [OF assms(1)] assms(5,3,4,2)] by blast

text \<open>A key store with one root key, the owner of the presigned URL of the demonstration.\<close>

definition toy_kdf :: kdf where
  "toy_kdf = \<lparr>kdf_hash = (\<lambda>salt pw. Inr pw), kdf_compare = (=)\<rparr>"

definition toy_rnd :: random_source where
  "toy_rnd = (\<lambda>i n. replicate n (char_of i))"

lemma toy_kdf_ok: "kdf_ok toy_kdf"
  by (simp add: kdf_ok_def toy_kdf_def)

definition key_store1 :: ref_db where
  "key_store1 = snd (UpsertKey (bbolt_store ref_bolt) toy_kdf toy_rnd 5 ''AK'' ''sk'' ''root'' True [])"

abbreviation root_record :: access_key_record where
  "root_record \<equiv> key_record ''AK'' ''sk'' ''sk'' ''root'' 5 True"

lemma empty_keys: "mv_keys (bolt_view ref_bolt []) i = None"
  by (simp add: bolt_view_def view_of_def ref_bolt_def ref_Get_def)

lemma key_store1_facts:
  "key_reach (bbolt_store ref_bolt) toy_kdf [] key_store1" "bolt_inv ref_bolt (\<lambda>_. True) key_store1"
  "bolt_view ref_bolt key_store1 = with_key root_record (bolt_view ref_bolt [])"
  "keys_sign (bolt_view ref_bolt key_store1)" "keys_sign (bolt_view ref_bolt [])"
proof -
  obtain m where m: "UpsertKey (bbolt_store ref_bolt) toy_kdf toy_rnd 5 ''AK'' ''sk'' ''root'' True [] = (Inr (), m)"
    "bolt_inv ref_bolt (\<lambda>_. True) m" "bolt_view ref_bolt m = with_key root_record (bolt_view ref_bolt [])"
    using ref.ms.UpsertKey_ok [OF ref_empty_inv, of "''AK''" toy_kdf toy_rnd "''sk''" "''sk''" 5 "''root''" True]
    by (auto simp: toy_kdf_def max_key_size_def)
  then have e: "key_store1 = m" by (simp add: key_store1_def)
  show "key_reach (bbolt_store ref_bolt) toy_kdf [] key_store1"
    unfolding e by (rule key_reach.upsert [OF key_reach.start _ _ _ m(1)]) (simp_all add: max_key_size_def)
  show s: "keys_sign (bolt_view ref_bolt [])" by (simp add: keys_sign_def empty_keys)
  show "bolt_inv ref_bolt (\<lambda>_. True) key_store1" "bolt_view ref_bolt key_store1 = with_key root_record (bolt_view ref_bolt [])"
    using m e by simp_all
  then show "keys_sign (bolt_view ref_bolt key_store1)"
    using keys_sign_upd [OF s, of root_record] by (metis access_key_record.select_convs(3) key_record_def list.distinct(1))
qed

lemma demo_url_claim: "claimed_key demo_url_request = ''AK''" "signature_ok sig_platform demo_url_request ''sk'' demo_time"
proof -
  have h: "extractHost ''http://h:9000'' ''b'' = ''h:9000''" by code_simp
  have c: "isPresigned demo_url_request" "presigned_access_key demo_url_request = ''AK''"
    by (rule presigned_claim [OF demo_url sig_platform_sizes(1) demo_range]; simp add: demo_url_request_def h)+
  then show "claimed_key demo_url_request = ''AK''" by (simp add: claimed_key_def)
  have "VerifyPresignedURL sig_platform demo_url_request ''sk'' demo_time = None"
    by (rule demo_url_accepted) (simp_all add: demo_url_request_def)
  with c show "signature_ok sig_platform demo_url_request ''sk'' demo_time" by (simp add: signature_ok_def)
qed

lemma authenticated_requests_are_signed_witness:
  "Auth (bbolt_store ref_bolt) sig_platform demo_url_request demo_time key_store1 =
    Authenticated \<lparr>vi_AccessKey = ''AK'', vi_Owner = ''root'', vi_IsRoot = True\<rparr>"
  using authenticated_requests_are_signed [OF ref.bolt_db_axioms toy_kdf_ok ref_empty_inv key_store1_facts(5,1)]
  by (simp add: demo_url_claim key_store1_facts(3) key_record_def identity_of_def)

text \<open>
  a key that \<open>CreateKey\<close> returned works: a presigned URL made with it is authenticated as its owner,
  with its root flag, until the URL expires.
\<close>

theorem created_key_authenticates:
  assumes "bolt_db DB kinv" and "bolt_inv DB kinv m" and "kdf_ok K"
    and "CreateKey (bbolt_store DB) K rnd now0 owner isRoot m = (Inr (ak, sk), m')"
    and "GeneratePresignedURL P verb rawURL bucket key ak sk region expires now = Inr url"
    and "\<And>k d. pf_hmac P k d \<noteq> []" and "stamp_range now" and "CHR ''/'' \<notin> set region"
    and "url = rawURL @ rq_Path r @ ''?'' @ rq_RawQuery r" and "rq_Path r = ''/'' @ bucket @ ''/'' @ key"
    and "rq_Method r = verb" and "rq_Host r = extractHost rawURL bucket"
    and "later \<le> whole_seconds now + sint expires div second_ns * second_ns"
  shows "Auth (bbolt_store DB) P r later m' = Authenticated \<lparr>vi_AccessKey = ak, vi_Owner = owner, vi_IsRoot = isRoot\<rparr>"
  by (rule metadata_store.created_key_presigned [OF bolt_db.store_is_metadata_store [OF assms(1)] assms(2-)])

text \<open>A user is created beside the root key, and presigns a request.\<close>

definition key_store2 :: ref_db where
  "key_store2 = snd (CreateKey (bbolt_store ref_bolt) toy_kdf toy_rnd 6 ''alice'' False key_store1)"

abbreviation alice_key :: string where
  "alice_key \<equiv> randomBase62 (toy_rnd 0) 20"

abbreviation alice_secret :: string where
  "alice_secret \<equiv> randomBase62 (toy_rnd 1) 40"

lemma AK_short: "''AK'' \<noteq> randomBase62 draw 20"
proof
  assume "''AK'' = randomBase62 draw 20"
  then have "length ''AK'' = length (randomBase62 draw 20)" by (rule arg_cong)
  then show False by simp
qed

lemma key_store2_facts:
  "CreateKey (bbolt_store ref_bolt) toy_kdf toy_rnd 6 ''alice'' False key_store1 = (Inr (alice_key, alice_secret), key_store2)"
  "bolt_inv ref_bolt (\<lambda>_. True) key_store2" "mv_keys (bolt_view ref_bolt key_store2) ''AK'' = Some root_record"
proof -
  obtain hash m where c: "CreateKey (bbolt_store ref_bolt) toy_kdf toy_rnd 6 ''alice'' False key_store1 = (Inr (alice_key, alice_secret), m)"
    "bolt_inv ref_bolt (\<lambda>_. True) m"
    "bolt_view ref_bolt m = with_key (key_record alice_key hash alice_secret ''alice'' 6 False) (bolt_view ref_bolt key_store1)"
    using ref.ms.CreateKey_ok [OF key_store1_facts(2) toy_kdf_ok, of toy_rnd 6 "''alice''" False] by auto
  then have e: "key_store2 = m" by (simp add: key_store2_def)
  have "''AK'' \<noteq> alice_key" by (rule AK_short)
  with c e show "CreateKey (bbolt_store ref_bolt) toy_kdf toy_rnd 6 ''alice'' False key_store1 = (Inr (alice_key, alice_secret), key_store2)"
    "bolt_inv ref_bolt (\<lambda>_. True) key_store2" "mv_keys (bolt_view ref_bolt key_store2) ''AK'' = Some root_record"
    by (simp_all add: key_store1_facts(3) key_record_def)
qed

lemma alice_url:
  "\<exists>raw. GeneratePresignedURL sig_platform ''GET'' ''http://h:9000'' ''b'' ''k'' alice_key alice_secret ''eu'' 3600000000000 demo_time =
     Inr (''http://h:9000'' @ ''/b/k'' @ ''?'' @ raw)"
  by (simp add: GeneratePresignedURL_def Let_def week_ns_def second_ns_def)

text \<open>Her request, whatever the URL carries after the question mark.\<close>

definition alice_request :: "string \<Rightarrow> request" where
  "alice_request raw = \<lparr>rq_Method = ''GET'', rq_Host = ''h:9000'', rq_Path = ''/b/k'', rq_RawQuery = raw, rq_Header = []\<rparr>"

lemma alice_request_facts:
  "rq_Path (alice_request raw) = ''/'' @ ''b'' @ ''/'' @ ''k''" "rq_Method (alice_request raw) = ''GET''"
  "rq_Host (alice_request raw) = extractHost ''http://h:9000'' ''b''"
  "''http://h:9000'' @ ''/b/k'' @ ''?'' @ raw = ''http://h:9000'' @ rq_Path (alice_request raw) @ ''?'' @ rq_RawQuery (alice_request raw)"
proof -
  have "extractHost ''http://h:9000'' ''b'' = ''h:9000''" by code_simp
  then show "rq_Host (alice_request raw) = extractHost ''http://h:9000'' ''b''" by (simp add: alice_request_def)
qed (simp_all add: alice_request_def)

lemma demo_later: "demo_time \<le> whole_seconds demo_time + sint (3600000000000 :: int64) div second_ns * second_ns"
  unfolding demo_whole by (simp add: demo_time_def second_ns_def)

lemma eu_plain: "CHR ''/'' \<notin> set ''eu''"
  by simp

lemma created_key_authenticates_witness:
  "\<exists>raw. Auth (bbolt_store ref_bolt) sig_platform (alice_request raw) demo_time key_store2 =
    Authenticated \<lparr>vi_AccessKey = alice_key, vi_Owner = ''alice'', vi_IsRoot = False\<rparr>"
proof -
  obtain raw where u: "GeneratePresignedURL sig_platform ''GET'' ''http://h:9000'' ''b'' ''k'' alice_key alice_secret ''eu'' 3600000000000 demo_time =
     Inr (''http://h:9000'' @ ''/b/k'' @ ''?'' @ raw)" using alice_url by blast
  from created_key_authenticates [OF ref.bolt_db_axioms key_store1_facts(2) toy_kdf_ok key_store2_facts(1) u
      sig_platform_sizes(1) demo_range eu_plain alice_request_facts(4,1,2,3) demo_later]
  show ?thesis by blast
qed

text \<open>
  a deleted key is revoked at once: every request that claims it, with whatever signature, is
  answered with InvalidAccessKeyId, and every other key authenticates as before.
\<close>

theorem deleted_key_revoked:
  assumes "bolt_db DB kinv" and "bolt_inv DB kinv m" and "keys_sign (bolt_view DB m)"
    and "DeleteKey (bbolt_store DB) ak m = (res, m')" and "claimed_key r \<noteq> []"
  shows "if claimed_key r = ak then \<exists>msg. Auth (bbolt_store DB) P r now m' = Rejected ''InvalidAccessKeyId'' msg
    else Auth (bbolt_store DB) P r now m' = Authenticated ident \<longleftrightarrow> Auth (bbolt_store DB) P r now m = Authenticated ident"
proof -
  note store = bolt_db.store_is_metadata_store [OF assms(1)]
  obtain d: "bolt_inv DB kinv m'" "bolt_view DB m' = (bolt_view DB m)\<lparr>mv_keys := (mv_keys (bolt_view DB m))(ak := None)\<rparr>"
    using metadata_store.DeleteKey_ok [OF store assms(2), of ak] assms(4) by auto
  have "keys_sign (bolt_view DB m')" unfolding d(2) by (rule keys_sign_del [OF assms(3)])
  with metadata_store.Auth_unknown [OF store d(1), of r P now] assms(5)
    metadata_store.Auth_iff [OF store d(1), of P r now ident] metadata_store.Auth_iff [OF store assms(2,3), of P r now ident]
  show ?thesis by (simp add: d(2))
qed

lemma deleted_key_revoked_witness:
  "\<exists>msg. Auth (bbolt_store ref_bolt) sig_platform demo_url_request demo_time
    (snd (DeleteKey (bbolt_store ref_bolt) ''AK'' key_store1)) = Rejected ''InvalidAccessKeyId'' msg"
proof -
  obtain res m where "DeleteKey (bbolt_store ref_bolt) ''AK'' key_store1 = (res, m)" by force
  from deleted_key_revoked [OF ref.bolt_db_axioms key_store1_facts(2,4) this, of demo_url_request sig_platform demo_time] this
  show ?thesis by (simp add: demo_url_claim(1))
qed

text \<open>
  the handler that rotates a key asks for no privilege. Whoever passes the middleware, root or not,
  receives a fresh access key and secret with the root flag by rotating the key of a root user, whose
  own key is gone afterwards.
\<close>

theorem any_user_can_take_root_key:
  assumes "bolt_db DB kinv" and "bolt_inv DB kinv m" and "kdf_ok K"
    and "Auth (bbolt_store DB) P r now m = Authenticated ident"
    and "mv_keys (bolt_view DB m) root = Some a" and "ak_IsRoot a" and "root \<noteq> randomBase62 (rnd 0) 20"
  shows "\<exists>m'. admin_route (bbolt_store DB) P r now (rotateKey (bbolt_store DB) K rnd now root) m =
      (Inr (UserCreated 200 (randomBase62 (rnd 0) 20) (randomBase62 (rnd 1) 40) (ak_Owner a)), m') \<and>
    mv_keys (bolt_view DB m') root = None \<and>
    (\<exists>b. mv_keys (bolt_view DB m') (randomBase62 (rnd 0) 20) = Some b \<and> ak_IsRoot b \<and>
      ak_SigningKey b = randomBase62 (rnd 1) 40)"
proof -
  note store = bolt_db.store_is_metadata_store [OF assms(1)]
  obtain m1 m2 where r: "rotateKey (bbolt_store DB) K rnd now root m =
      (UserCreated 200 (randomBase62 (rnd 0) 20) (randomBase62 (rnd 1) 40) (ak_Owner a), m2)"
    "DeleteKey (bbolt_store DB) root m = (Inr (), m1)" "bolt_inv DB kinv m1"
    "CreateKey (bbolt_store DB) K rnd now (ak_Owner a) (ak_IsRoot a) m1 =
      (Inr (randomBase62 (rnd 0) 20, randomBase62 (rnd 1) 40), m2)"
    using metadata_store.rotateKey_ok [OF store assms(2,3,5), of rnd now] by blast
  have d: "bolt_view DB m1 = (bolt_view DB m)\<lparr>mv_keys := (mv_keys (bolt_view DB m))(root := None)\<rparr>"
    using metadata_store.DeleteKey_ok [OF store assms(2), of root] r(2) by auto
  obtain hash where "bolt_view DB m2 = with_key (key_record (randomBase62 (rnd 0) 20) hash (randomBase62 (rnd 1) 40)
      (ak_Owner a) now (ak_IsRoot a)) (bolt_view DB m1)"
    using metadata_store.CreateKey_ok [OF store r(3) assms(3), of rnd now "ak_Owner a" "ak_IsRoot a"] r(4) by auto
  then show ?thesis
    using assms(4,6,7) r(1) by (auto simp: admin_route_def key_record_def d)
qed

definition other_rnd :: random_source where
  "other_rnd = (\<lambda>i n. replicate n (char_of (i + 7)))"

lemma any_user_can_take_root_key_witness:
  "\<exists>r ident. Auth (bbolt_store ref_bolt) sig_platform r demo_time key_store2 = Authenticated ident \<and> \<not> vi_IsRoot ident \<and>
    (\<exists>ak sk m. admin_route (bbolt_store ref_bolt) sig_platform r demo_time
       (rotateKey (bbolt_store ref_bolt) toy_kdf other_rnd demo_time ''AK'') key_store2 =
         (Inr (UserCreated 200 ak sk ''root''), m) \<and>
       (\<exists>b. mv_keys (bolt_view ref_bolt m) ak = Some b \<and> ak_IsRoot b \<and> ak_SigningKey b = sk))"
proof -
  obtain raw where u: "GeneratePresignedURL sig_platform ''GET'' ''http://h:9000'' ''b'' ''k'' alice_key alice_secret ''eu'' 3600000000000 demo_time =
     Inr (''http://h:9000'' @ ''/b/k'' @ ''?'' @ raw)" using alice_url by blast
  note alice = ref.ms.created_key_presigned [OF key_store1_facts(2) toy_kdf_ok key_store2_facts(1) u
      sig_platform_sizes(1) demo_range eu_plain alice_request_facts(4,1,2,3) demo_later]
  have "''AK'' \<noteq> randomBase62 (other_rnd 0) 20" by (rule AK_short)
  from any_user_can_take_root_key [OF ref.bolt_db_axioms key_store2_facts(2) toy_kdf_ok alice key_store2_facts(3), where rnd = other_rnd, OF _ this]
  obtain m where "admin_route (bbolt_store ref_bolt) sig_platform (alice_request raw) demo_time
       (rotateKey (bbolt_store ref_bolt) toy_kdf other_rnd demo_time ''AK'') key_store2 =
      (Inr (UserCreated 200 (randomBase62 (other_rnd 0) 20) (randomBase62 (other_rnd 1) 40) ''root''), m)"
    "\<exists>b. mv_keys (bolt_view ref_bolt m) (randomBase62 (other_rnd 0) 20) = Some b \<and> ak_IsRoot b \<and> ak_SigningKey b = randomBase62 (other_rnd 1) 40"
    by (auto simp: key_record_def)
  with alice show ?thesis by (metis VerifiedIdentity.select_convs(3))
qed

end
