(* ===== verification/Cluster_Node.thy ===== *)
theory Cluster_Node
  imports Go_Errors
begin

text \<open>
  A cluster member: internal/cluster/cluster.go, handler.go and peer.go. The state of a \<open>Node\<close> is a record; a
  method that takes the lock changes it in one step. \<open>HandleVote\<close> takes the lock twice, first to read the
  term and then to write, and is modelled by its two halves. \<open>startElection\<close> is split where it waits for
  the peers. JSON and HTTP are at the edges: a decoded body is an option, a reply of a peer a status and
  a decoded body. The callback for leadership changes is started in a goroutine: a step returns the calls.
\<close>

datatype NodeRole = RoleLeader | RoleFollower | RoleCandidate

record node_config =
  nc_NodeID :: string
  nc_AdvertiseAddr :: string
  nc_Peers :: "string list"
  nc_HeartbeatInterval :: int64
  nc_ElectionTimeout :: int64
  nc_DataDir :: string

record node =
  nd_cfg :: node_config
  nd_role :: NodeRole
  nd_term :: "64 word"
  nd_leader :: string
  nd_peers :: "string list"
  nd_stopped :: bool
  nd_onLeaderChange :: bool

type_synonym leader_call = "bool \<times> string"

definition cluster_New :: "string \<Rightarrow> node_config \<Rightarrow> node" where
  "cluster_New uuid cfg0 =
     (let cfg1 = (if nc_NodeID cfg0 = [] then cfg0\<lparr>nc_NodeID := uuid\<rparr> else cfg0);
          cfg2 = (if nc_HeartbeatInterval cfg1 \<le>s 0 then cfg1\<lparr>nc_HeartbeatInterval := 2000000000\<rparr> else cfg1);
          cfg = (if nc_ElectionTimeout cfg2 \<le>s 0 then cfg2\<lparr>nc_ElectionTimeout := 6000000000\<rparr> else cfg2);
          n = \<lparr>nd_cfg = cfg, nd_role = RoleFollower, nd_term = 0, nd_leader = [], nd_peers = nc_Peers cfg,
               nd_stopped = False, nd_onLeaderChange = False\<rparr>
      in if nd_peers n = [] then n\<lparr>nd_role := RoleLeader, nd_leader := nc_AdvertiseAddr cfg\<rparr> else n)"

text \<open>\<open>Start\<close>: whether the loop is started.\<close>

definition cluster_Start :: "node \<Rightarrow> bool" where
  "cluster_Start n \<longleftrightarrow> nd_peers n \<noteq> []"

definition cluster_Stop :: "node \<Rightarrow> node" where
  "cluster_Stop n = (if nd_stopped n then n else n\<lparr>nd_stopped := True\<rparr>)"

definition IsLeader :: "node \<Rightarrow> bool" where
  "IsLeader n \<longleftrightarrow> nd_role n = RoleLeader"

definition OnLeaderChange :: "bool \<Rightarrow> node \<Rightarrow> node" where
  "OnLeaderChange registered n = n\<lparr>nd_onLeaderChange := registered\<rparr>"

text \<open>Heartbeats.\<close>

definition ReceiveHeartbeat :: "64 word \<Rightarrow> string \<Rightarrow> node \<Rightarrow> err option \<times> node \<times> leader_call list" where
  "ReceiveHeartbeat term leaderAddr n =
     (if term < nd_term n
      then (Some (Errorf ''cluster: stale heartbeat term %d (current %d)'' [FInt (uint term), FInt (uint (nd_term n))]), n, [])
      else
        let prevLeader = nd_leader n; prevRole = nd_role n;
            n' = n\<lparr>nd_term := term, nd_leader := leaderAddr, nd_role := RoleFollower\<rparr>
        in (None, n',
            if (prevRole \<noteq> RoleFollower \<or> prevLeader \<noteq> leaderAddr) \<and> nd_onLeaderChange n then [(False, leaderAddr)] else []))"

record heartbeat_request =
  hb_Term :: "64 word"
  hb_LeaderAddr :: string

definition HandleHeartbeat :: "heartbeat_request option \<Rightarrow> node \<Rightarrow> nat \<times> node \<times> leader_call list" where
  "HandleHeartbeat body n =
     (case body of
        None \<Rightarrow> (400, n, [])
      | Some req \<Rightarrow>
          (case ReceiveHeartbeat (hb_Term req) (hb_LeaderAddr req) n of
             (Some e, n', calls) \<Rightarrow> (409, n', calls)
           | (None, n', calls) \<Rightarrow> (200, n', calls)))"

text \<open>Votes: what is decided under the read lock, and what is done under the write lock.\<close>

record vote_request =
  vq_Term :: "64 word"
  vq_CandidateID :: string

definition vote_read :: "vote_request \<Rightarrow> node \<Rightarrow> bool" where
  "vote_read req n \<longleftrightarrow> nd_term n < vq_Term req"

definition vote_write :: "vote_request \<Rightarrow> bool \<Rightarrow> node \<Rightarrow> node" where
  "vote_write req granted n = (if granted then n\<lparr>nd_term := vq_Term req, nd_role := RoleFollower\<rparr> else n)"

text \<open>The handler when nothing comes between the two locks.\<close>

definition HandleVote :: "vote_request option \<Rightarrow> node \<Rightarrow> (nat \<times> bool option) \<times> node" where
  "HandleVote body n =
     (case body of
        None \<Rightarrow> ((400, None), n)
      | Some req \<Rightarrow> let granted = vote_read req n in ((200, Some granted), vote_write req granted n))"

record status_response =
  sr_NodeID :: string
  sr_Role :: NodeRole
  sr_Leader :: string
  sr_Term :: "64 word"
  sr_Peers :: "string list"

definition HandleStatus :: "node \<Rightarrow> status_response" where
  "HandleStatus n = \<lparr>sr_NodeID = nc_NodeID (nd_cfg n), sr_Role = nd_role n, sr_Leader = nd_leader n,
     sr_Term = nd_term n, sr_Peers = nd_peers n\<rparr>"

text \<open>
  The client side of a vote: \<open>None\<close> when no response came, otherwise the status and the decoded body.
\<close>

definition RequestVote :: "(nat \<times> bool option) option \<Rightarrow> bool" where
  "RequestVote resp =
     (case resp of
        None \<Rightarrow> False
      | Some (status, body) \<Rightarrow> if status \<noteq> 200 then False else (case body of None \<Rightarrow> False | Some granted \<Rightarrow> granted))"

definition SendHeartbeat :: "nat option \<Rightarrow> err option" where
  "SendHeartbeat resp =
     (case resp of
        None \<Rightarrow> Some (Errorf ''peer heartbeat: send'' [])
      | Some status \<Rightarrow> if status \<noteq> 200 then Some (Errorf ''peer heartbeat: peer returned HTTP %d'' [FInt (int status)]) else None)"

section \<open>Elections\<close>

definition begin_election :: "node \<Rightarrow> node" where
  "begin_election n = n\<lparr>nd_term := nd_term n + 1, nd_role := RoleCandidate\<rparr>"

text \<open>The loop over the peers: one for itself and one for every granted vote.\<close>

definition count_votes :: "(string \<Rightarrow> (nat \<times> bool option) option) \<Rightarrow> node \<Rightarrow> nat" where
  "count_votes reply n = foldl (\<lambda>votes p. if RequestVote (reply p) then votes + 1 else votes) 1 (nd_peers n)"

definition majority :: "node \<Rightarrow> nat" where
  "majority n = (length (nd_peers n) + 1) div 2 + 1"

definition finish_election :: "64 word \<Rightarrow> nat \<Rightarrow> node \<Rightarrow> node \<times> leader_call list" where
  "finish_election term votes n =
     (if votes \<ge> majority n \<and> nd_role n = RoleCandidate \<and> nd_term n = term
      then (n\<lparr>nd_role := RoleLeader, nd_leader := nc_AdvertiseAddr (nd_cfg n)\<rparr>,
            if nd_onLeaderChange n then [(True, nc_AdvertiseAddr (nd_cfg n))] else [])
      else (if nd_role n = RoleCandidate then n\<lparr>nd_role := RoleFollower\<rparr> else n, []))"

text \<open>An undisturbed election.\<close>

definition startElection :: "(string \<Rightarrow> (nat \<times> bool option) option) \<Rightarrow> node \<Rightarrow> node \<times> leader_call list" where
  "startElection reply n =
     (let n' = begin_election n in finish_election (nd_term n') (count_votes reply n') n')"

text \<open>One turn of \<open>runLoop\<close>: what a channel event leads to.\<close>

datatype loop_event = CtxDone | StopClosed | HeartbeatTick | ElectionTimer
datatype loop_action = LoopReturns | SendHeartbeats heartbeat_request "string list" | StartElection | LoopIdle

text \<open>What is sent, and to whom; the role is not looked at again.\<close>

definition sendHeartbeats :: "node \<Rightarrow> heartbeat_request \<times> string list" where
  "sendHeartbeats n = (\<lparr>hb_Term = nd_term n, hb_LeaderAddr = nc_AdvertiseAddr (nd_cfg n)\<rparr>, nd_peers n)"

definition runLoop :: "loop_event \<Rightarrow> node \<Rightarrow> loop_action" where
  "runLoop ev n =
     (case ev of
        CtxDone \<Rightarrow> LoopReturns
      | StopClosed \<Rightarrow> LoopReturns
      | HeartbeatTick \<Rightarrow>
          (if nd_role n = RoleLeader then SendHeartbeats (fst (sendHeartbeats n)) (snd (sendHeartbeats n)) else LoopIdle)
      | ElectionTimer \<Rightarrow> (if nd_role n \<noteq> RoleLeader then StartElection else LoopIdle))"

section \<open>Facts of one node\<close>

lemma word_less_succ:
  assumes "(t :: 64 word) \<noteq> - 1"
  shows "t < t + 1"
proof -
  have "unat t + 1 \<noteq> 2 ^ 64"
  proof
    assume "unat t + 1 = 2 ^ 64"
    then have "of_nat (unat t + 1) = (of_nat (2 ^ 64) :: 64 word)" by (rule arg_cong)
    then have "t + 1 = 0" by simp
    with assms show False using max_word_wrap by blast
  qed
  moreover have "unat t < 2 ^ 64" using unsigned_less [of t] by simp
  ultimately have "unat t + 1 < 2 ^ 64" by linarith
  then show ?thesis by (simp add: word_less_nat_alt unat_word_ariths)
qed

lemma word_less_succ_iff:
  assumes "(t :: 64 word) \<noteq> - 1"
  shows "u < t + 1 \<longleftrightarrow> u \<le> t"
proof -
  have "unat t < unat (t + 1)" using word_less_succ [OF assms] by (simp add: word_less_nat_alt)
  moreover have "unat (t + 1) \<le> unat t + 1" by (simp add: unat_word_ariths)
  ultimately have "unat (t + 1) = unat t + 1" by linarith
  then show ?thesis by (auto simp: word_less_nat_alt word_le_nat_alt)
qed

text \<open>No step lowers the term.\<close>

lemma ReceiveHeartbeat_term: "ReceiveHeartbeat t a n = (e, n', cs) \<Longrightarrow> nd_term n \<le> nd_term n'"
  by (auto simp: ReceiveHeartbeat_def Let_def split: if_splits)

lemma HandleVote_term: "HandleVote body n = (resp, n') \<Longrightarrow> nd_term n \<le> nd_term n'"
  by (auto simp: HandleVote_def vote_read_def vote_write_def Let_def split: option.splits)

lemma finish_election_term: "finish_election t v n = (n', cs) \<Longrightarrow> nd_term n' = nd_term n"
  by (auto simp: finish_election_def split: if_splits)

text \<open>
  A heartbeat does not reset the election timer of its receiver, as its comment says: the next
  \<open>ElectionTimer\<close> event starts an election, however fresh the last heartbeat is.
\<close>

lemma heartbeat_does_not_defer_election:
  "ReceiveHeartbeat t a n = (None, n', cs) \<Longrightarrow> runLoop ElectionTimer n' = StartElection"
  by (auto simp: ReceiveHeartbeat_def runLoop_def Let_def split: if_splits)

lemma cluster_New_single: "nc_Peers cfg = [] \<Longrightarrow> IsLeader (cluster_New uuid cfg)"
  by (simp add: cluster_New_def IsLeader_def Let_def)

end
