(* ===== verification/Cluster_Election.thy ===== *)
theory Cluster_Election
  imports Cluster_Node
begin

text \<open>
  A cluster of nodes that run the elections of internal/cluster. The state holds every node, the
  elections that wait for votes, the vote requests between the two locks of \<open>HandleVote\<close>, and as history
  the votes cast and the elections won. An action is one critical section of the code: the start and
  the end of \<open>startElection\<close>, a vote handler at one node (whole, or one half of it), a heartbeat. Replies
  may be lost, and heartbeats and stray vote requests of any term may arrive from anywhere, as these
  endpoints ask for no authentication. A node whose term is the largest 64-bit number starts no
  election here: the counter would wrap to 0.
\<close>

record election =
  el_term :: "64 word"
  el_asked :: "string list"
  el_granted :: "string list"

record pending_vote =
  pv_voter :: string
  pv_cand :: string
  pv_term :: "64 word"
  pv_granted :: bool

record cluster =
  cl_nodes :: "string \<Rightarrow> node"
  cl_elections :: "string \<Rightarrow> election option"
  cl_pending :: "pending_vote list"
  cl_cast :: "(string \<times> 64 word \<times> string) list"
  cl_wins :: "(64 word \<times> string) list"

datatype action =
    Timeout string
  | VoteAt string string bool
  | ReadVote string string
  | WriteVote nat bool
  | StrayVote string "64 word"
  | HeartbeatAt string "64 word" string
  | Finish string

definition set_node :: "string \<Rightarrow> node \<Rightarrow> cluster \<Rightarrow> cluster" where
  "set_node a n s = s\<lparr>cl_nodes := (cl_nodes s)(a := n)\<rparr>"

text \<open>The request of a candidate, and the tally when its reply arrives.\<close>

definition request_of :: "string \<Rightarrow> 64 word \<Rightarrow> vote_request" where
  "request_of cand term = \<lparr>vq_Term = term, vq_CandidateID = cand\<rparr>"

definition tally :: "string \<Rightarrow> string \<Rightarrow> bool \<Rightarrow> election \<Rightarrow> cluster \<Rightarrow> cluster" where
  "tally cand voter counted e s =
     s\<lparr>cl_elections := (cl_elections s)(cand \<mapsto>
        (if counted then e\<lparr>el_granted := voter # el_granted e\<rparr> else e))\<rparr>"

definition can_ask :: "string \<Rightarrow> string \<Rightarrow> election \<Rightarrow> cluster \<Rightarrow> bool" where
  "can_ask cand voter e s \<longleftrightarrow> voter \<in> set (nd_peers (cl_nodes s cand)) \<and> voter \<notin> set (el_asked e)"

definition record_cast :: "string \<Rightarrow> 64 word \<Rightarrow> string \<Rightarrow> bool \<Rightarrow> cluster \<Rightarrow> cluster" where
  "record_cast voter term cand granted s = (if granted then s\<lparr>cl_cast := (voter, term, cand) # cl_cast s\<rparr> else s)"

fun cstep :: "action \<Rightarrow> cluster \<Rightarrow> cluster option" where
  "cstep (Timeout a) s =
     (let n = cl_nodes s a; n' = begin_election n in
      if cluster_Start n \<and> runLoop ElectionTimer n = StartElection \<and> cl_elections s a = None \<and> nd_term n \<noteq> - 1
      then Some (record_cast a (nd_term n') a True
             ((set_node a n' s)\<lparr>cl_elections := (cl_elections s)(a \<mapsto> \<lparr>el_term = nd_term n', el_asked = [], el_granted = []\<rparr>)\<rparr>))
      else None)"
| "cstep (VoteAt cand voter delivered) s =
     (case cl_elections s cand of
        None \<Rightarrow> None
      | Some e \<Rightarrow>
          if can_ask cand voter e s
          then (case HandleVote (Some (request_of cand (el_term e))) (cl_nodes s voter) of
                  (resp, n') \<Rightarrow>
                    Some (tally cand voter (delivered \<and> RequestVote (Some resp)) (e\<lparr>el_asked := voter # el_asked e\<rparr>)
                      (record_cast voter (el_term e) cand (RequestVote (Some resp)) (set_node voter n' s))))
          else None)"
| "cstep (ReadVote cand voter) s =
     (case cl_elections s cand of
        None \<Rightarrow> None
      | Some e \<Rightarrow>
          if can_ask cand voter e s
          then Some ((tally cand voter False (e\<lparr>el_asked := voter # el_asked e\<rparr>) s)\<lparr>cl_pending := cl_pending s @
                 [\<lparr>pv_voter = voter, pv_cand = cand, pv_term = el_term e,
                   pv_granted = vote_read (request_of cand (el_term e)) (cl_nodes s voter)\<rparr>]\<rparr>)
          else None)"
| "cstep (WriteVote i delivered) s =
     (if i < length (cl_pending s)
      then let p = cl_pending s ! i;
               s1 = record_cast (pv_voter p) (pv_term p) (pv_cand p) (pv_granted p)
                 ((set_node (pv_voter p) (vote_write (request_of (pv_cand p) (pv_term p)) (pv_granted p)
                    (cl_nodes s (pv_voter p))) s)\<lparr>cl_pending := take i (cl_pending s) @ drop (Suc i) (cl_pending s)\<rparr>)
           in (case cl_elections s (pv_cand p) of
                 None \<Rightarrow> Some s1
               | Some e \<Rightarrow> Some (tally (pv_cand p) (pv_voter p) (delivered \<and> pv_granted p \<and> el_term e = pv_term p) e s1))
      else None)"
| "cstep (StrayVote voter term) s =
     Some (set_node voter (snd (HandleVote (Some (request_of [] term)) (cl_nodes s voter))) s)"
| "cstep (HeartbeatAt a term leader) s =
     Some (set_node a (fst (snd (ReceiveHeartbeat term leader (cl_nodes s a)))) s)"
| "cstep (Finish a) s =
     (case cl_elections s a of
        None \<Rightarrow> None
      | Some e \<Rightarrow>
          if set (nd_peers (cl_nodes s a)) \<subseteq> set (el_asked e)
          then (let n' = fst (finish_election (el_term e) (1 + length (el_granted e)) (cl_nodes s a));
                    s1 = (set_node a n' s)\<lparr>cl_elections := (cl_elections s)(a := None)\<rparr>
                in Some (if IsLeader n' \<and> \<not> IsLeader (cl_nodes s a) then s1\<lparr>cl_wins := (el_term e, a) # cl_wins s\<rparr> else s1))
          else None)"

text \<open>An action that leaves no vote between its two locks.\<close>

definition atomic :: "action \<Rightarrow> bool" where
  "atomic act \<longleftrightarrow> (case act of ReadVote _ _ \<Rightarrow> False | WriteVote _ _ \<Rightarrow> False | _ \<Rightarrow> True)"

inductive cluster_reach :: "(action \<Rightarrow> bool) \<Rightarrow> cluster \<Rightarrow> cluster \<Rightarrow> bool" for allowed s0 where
  here: "cluster_reach allowed s0 s0"
| step: "cluster_reach allowed s0 s \<Longrightarrow> allowed act \<Longrightarrow> cstep act s = Some s' \<Longrightarrow> cluster_reach allowed s0 s'"

text \<open>A fresh cluster: every node as \<open>New\<close> makes it, with all the others as peers.\<close>

definition fresh_cluster :: "(string \<Rightarrow> node_config) \<Rightarrow> cluster" where
  "fresh_cluster cfg = \<lparr>cl_nodes = (\<lambda>a. cluster_New [] (cfg a)), cl_elections = (\<lambda>a. None), cl_pending = [],
     cl_cast = [], cl_wins = []\<rparr>"

definition full_mesh :: "string list \<Rightarrow> (string \<Rightarrow> node_config) \<Rightarrow> bool" where
  "full_mesh ms cfg \<longleftrightarrow> distinct ms \<and> 2 \<le> length ms \<and>
     (\<forall>a \<in> set ms. distinct (nc_Peers (cfg a)) \<and> set (nc_Peers (cfg a)) = set ms - {a}) \<and>
     (\<forall>a. a \<notin> set ms \<longrightarrow> nc_Peers (cfg a) = [])"

section \<open>Quorums\<close>

text \<open>
  What an election needs of the votes that win it: any two winning sets of voters meet. \<open>one_winner\<close> is
  then all there is to say.
\<close>

locale quorum_system =
  fixes quorum :: "'v set \<Rightarrow> bool"
  assumes quorums_meet: "quorum Q \<Longrightarrow> quorum Q' \<Longrightarrow> Q \<inter> Q' \<noteq> {}"
begin

lemma one_winner:
  assumes "quorum Q" and "quorum Q'" and "\<forall>v \<in> Q. cast v c" and "\<forall>v \<in> Q'. cast v c'"
    and "\<And>v d d'. cast v d \<Longrightarrow> cast v d' \<Longrightarrow> d = d'"
  shows "c = c'"
proof -
  obtain v where "v \<in> Q" "v \<in> Q'" using quorums_meet [OF assms(1,2)] by blast
  with assms(3-5) show ?thesis by blast
qed

end

definition majority_of :: "'v set \<Rightarrow> 'v set \<Rightarrow> bool" where
  "majority_of ms Q \<longleftrightarrow> finite ms \<and> Q \<subseteq> ms \<and> card ms < 2 * card Q"

interpretation maj: quorum_system "majority_of ms" for ms :: "string set"
proof
  fix Q Q' :: "string set"
  assume q: "majority_of ms Q" "majority_of ms Q'"
  show "Q \<inter> Q' \<noteq> {}"
  proof
    assume "Q \<inter> Q' = {}"
    moreover have "finite Q" "finite Q'" using q by (auto simp: majority_of_def intro: finite_subset)
    ultimately have "card (Q \<union> Q') = card Q + card Q'" by (intro card_Un_disjoint)
    moreover have "card (Q \<union> Q') \<le> card ms" using q by (intro card_mono) (auto simp: majority_of_def)
    ultimately show False using q by (simp add: majority_of_def)
  qed
qed

section \<open>The invariant\<close>

text \<open>
  \<open>votes_ok\<close>: nobody votes twice in a term, and never in a term above its own. \<open>elections_ok\<close>: an election
  in progress has the votes it counts. \<open>wins_ok\<close>: a win has a majority, and every leader has won its term.
\<close>

definition mesh :: "string list \<Rightarrow> cluster \<Rightarrow> bool" where
  "mesh ms s \<longleftrightarrow> distinct ms \<and>
     (\<forall>a \<in> set ms. distinct (nd_peers (cl_nodes s a)) \<and> set (nd_peers (cl_nodes s a)) = set ms - {a}) \<and>
     (\<forall>a. a \<notin> set ms \<longrightarrow> nd_peers (cl_nodes s a) = [] \<and> cl_elections s a = None)"

definition votes_ok :: "cluster \<Rightarrow> bool" where
  "votes_ok s \<longleftrightarrow>
     (\<forall>v T c. (v, T, c) \<in> set (cl_cast s) \<longrightarrow> T \<le> nd_term (cl_nodes s v)) \<and>
     (\<forall>v T c c'. (v, T, c) \<in> set (cl_cast s) \<longrightarrow> (v, T, c') \<in> set (cl_cast s) \<longrightarrow> c = c')"

definition election_ok :: "cluster \<Rightarrow> string \<Rightarrow> election \<Rightarrow> bool" where
  "election_ok s a e \<longleftrightarrow> (a, el_term e, a) \<in> set (cl_cast s) \<and> distinct (el_granted e) \<and>
     set (el_granted e) \<subseteq> set (el_asked e) \<and> set (el_asked e) \<subseteq> set (nd_peers (cl_nodes s a)) \<and>
     (\<forall>p \<in> set (el_granted e). (p, el_term e, a) \<in> set (cl_cast s))"

definition elections_ok :: "cluster \<Rightarrow> bool" where
  "elections_ok s \<longleftrightarrow> (\<forall>a e. cl_elections s a = Some e \<longrightarrow> election_ok s a e)"

definition won :: "string list \<Rightarrow> cluster \<Rightarrow> 64 word \<Rightarrow> string \<Rightarrow> bool" where
  "won ms s T a \<longleftrightarrow> (\<exists>Q. majority_of (set ms) Q \<and> (\<forall>v \<in> Q. (v, T, a) \<in> set (cl_cast s)))"

definition wins_ok :: "string list \<Rightarrow> cluster \<Rightarrow> bool" where
  "wins_ok ms s \<longleftrightarrow> (\<forall>T a. (T, a) \<in> set (cl_wins s) \<longrightarrow> won ms s T a) \<and>
     (\<forall>a \<in> set ms. IsLeader (cl_nodes s a) \<longrightarrow> (nd_term (cl_nodes s a), a) \<in> set (cl_wins s))"

definition cluster_inv :: "string list \<Rightarrow> cluster \<Rightarrow> bool" where
  "cluster_inv ms s \<longleftrightarrow> mesh ms s \<and> votes_ok s \<and> elections_ok s \<and> wins_ok ms s"

lemma won_mono: "won ms s T a \<Longrightarrow> set (cl_cast s) \<subseteq> set (cl_cast s') \<Longrightarrow> won ms s' T a"
  unfolding won_def by blast

text \<open>
  A node may change in these ways: its peers stay, its term does not fall, and it stays a leader only
  with its term, or becomes one.
\<close>

definition mild :: "node \<Rightarrow> node \<Rightarrow> bool" where
  "mild n n' \<longleftrightarrow> nd_peers n' = nd_peers n \<and> nd_term n \<le> nd_term n' \<and>
     (IsLeader n' \<longrightarrow> IsLeader n \<and> nd_term n' = nd_term n)"

lemma mild_vote: "mild n (vote_write req (vote_read req n) n)"
  by (auto simp: mild_def vote_write_def vote_read_def IsLeader_def)

lemma mild_HandleVote: "mild n (snd (HandleVote (Some req) n))"
  by (simp add: HandleVote_def Let_def mild_vote)

lemma mild_heartbeat: "mild n (fst (snd (ReceiveHeartbeat T l n)))"
  by (auto simp: mild_def ReceiveHeartbeat_def Let_def IsLeader_def)

lemma mild_begin: "nd_term n \<noteq> - 1 \<Longrightarrow> mild n (begin_election n)"
  using word_less_succ [of "nd_term n"] by (simp add: mild_def begin_election_def IsLeader_def)

text \<open>A mild change of one node keeps the invariant.\<close>

lemma set_node_inv:
  assumes inv: "cluster_inv ms s" and mild: "mild (cl_nodes s a) n'"
  shows "cluster_inv ms (set_node a n' s)"
proof -
  let ?s = "set_node a n' s"
  have n: "nd_peers (cl_nodes ?s b) = nd_peers (cl_nodes s b)" "nd_term (cl_nodes s b) \<le> nd_term (cl_nodes ?s b)"
    "IsLeader (cl_nodes ?s b) \<Longrightarrow> IsLeader (cl_nodes s b) \<and> nd_term (cl_nodes ?s b) = nd_term (cl_nodes s b)" for b
    using mild by (auto simp: set_node_def mild_def)
  have f: "cl_elections ?s = cl_elections s" "cl_cast ?s = cl_cast s" "cl_wins ?s = cl_wins s"
    by (simp_all add: set_node_def)
  have "mesh ms ?s" using inv by (simp add: cluster_inv_def mesh_def n(1) f)
  moreover have "votes_ok ?s"
    using inv n(2) unfolding cluster_inv_def votes_ok_def f by (meson order.trans)
  moreover have "elections_ok ?s"
    using inv by (simp add: cluster_inv_def elections_ok_def election_ok_def n(1) f)
  moreover have "wins_ok ms ?s"
    using inv n(3) unfolding cluster_inv_def wins_ok_def won_def f by metis
  ultimately show ?thesis by (simp add: cluster_inv_def)
qed

text \<open>So does a vote in a term the voter has just entered.\<close>

lemma record_cast_inv:
  assumes inv: "cluster_inv ms s" and fresh: "\<And>c. granted \<Longrightarrow> (v, T, c) \<notin> set (cl_cast s)"
    and T: "granted \<Longrightarrow> T \<le> nd_term (cl_nodes s v)"
  shows "cluster_inv ms (record_cast v T c granted s)"
proof (cases granted)
  case True
  let ?s = "s\<lparr>cl_cast := (v, T, c) # cl_cast s\<rparr>"
  have "mesh ms ?s" using inv by (simp add: cluster_inv_def mesh_def)
  moreover have "votes_ok ?s"
    using inv fresh [OF True] T [OF True] by (auto simp: cluster_inv_def votes_ok_def)
  moreover have "elections_ok ?s"
    using inv by (auto simp: cluster_inv_def elections_ok_def election_ok_def)
  moreover have "wins_ok ms ?s"
    using inv won_mono [of ms s _ _ ?s] by (auto simp: cluster_inv_def wins_ok_def)
  ultimately show ?thesis using True by (simp add: cluster_inv_def record_cast_def)
qed (use inv in \<open>simp add: record_cast_def\<close>)

lemma elections_inv:
  assumes "cluster_inv ms s" and "\<And>a e. E a = Some e \<Longrightarrow> a \<in> set ms \<and> election_ok s a e"
  shows "cluster_inv ms (s\<lparr>cl_elections := E\<rparr>)"
proof -
  let ?s = "s\<lparr>cl_elections := E\<rparr>"
  have none: "E a = None" if "a \<notin> set ms" for a using assms(2) [of a] that by (cases "E a") auto
  have "election_ok ?s a e = election_ok s a e" for a e by (simp add: election_ok_def)
  then have "elections_ok ?s" using assms(2) by (simp add: elections_ok_def)
  moreover have "mesh ms ?s" using assms(1) none by (auto simp: cluster_inv_def mesh_def)
  moreover have "votes_ok ?s" "wins_ok ms ?s" using assms(1) by (simp_all add: cluster_inv_def votes_ok_def wins_ok_def won_def)
  ultimately show ?thesis by (simp add: cluster_inv_def)
qed

lemma cluster_invD:
  assumes "cluster_inv ms s" and "cl_elections s a = Some e"
  shows "a \<in> set ms" and "election_ok s a e"
  using assms by (auto simp: cluster_inv_def mesh_def elections_ok_def)

lemma cast_below: "cluster_inv ms s \<Longrightarrow> nd_term (cl_nodes s v) < T \<Longrightarrow> (v, T, c) \<notin> set (cl_cast s)"
  unfolding cluster_inv_def votes_ok_def by (meson leD)

lemma tally_inv:
  assumes inv: "cluster_inv ms s" and e: "cl_elections s cand = Some e" and ask: "can_ask cand voter e s"
    and cast: "counted \<Longrightarrow> (voter, el_term e, cand) \<in> set (cl_cast s)"
  shows "cluster_inv ms (tally cand voter counted (e\<lparr>el_asked := voter # el_asked e\<rparr>) s)"
  unfolding tally_def
proof (rule elections_inv [OF inv])
  fix a f
  assume f: "((cl_elections s)(cand \<mapsto> if counted then e\<lparr>el_asked := voter # el_asked e, el_granted := voter # el_granted (e\<lparr>el_asked := voter # el_asked e\<rparr>)\<rparr>
      else e\<lparr>el_asked := voter # el_asked e\<rparr>)) a = Some f"
  note d = cluster_invD [OF inv e]
  show "a \<in> set ms \<and> election_ok s a f"
  proof (cases "a = cand")
    case True
    with f d ask cast show ?thesis by (auto simp: election_ok_def can_ask_def split: if_splits)
  next
    case False
    with f cluster_invD [OF inv, of a f] show ?thesis by simp
  qed
qed

lemma timeout_inv:
  assumes inv: "cluster_inv ms s" and "cstep (Timeout a) s = Some s'"
  shows "cluster_inv ms s'"
proof -
  let ?n = "cl_nodes s a" and ?n' = "begin_election (cl_nodes s a)"
  let ?s1 = "record_cast a (nd_term ?n') a True (set_node a ?n' s)"
  from assms(2) have g: "nd_peers ?n \<noteq> []" "nd_term ?n \<noteq> - 1"
    and s': "s' = ?s1\<lparr>cl_elections := (cl_elections ?s1)(a \<mapsto> \<lparr>el_term = nd_term ?n', el_asked = [], el_granted = []\<rparr>)\<rparr>"
    by (auto simp: cluster_Start_def record_cast_def set_node_def Let_def split: if_splits)
  have up: "nd_term ?n < nd_term ?n'" using word_less_succ [OF g(2)] by (simp add: begin_election_def)
  have i: "cluster_inv ms (set_node a ?n' s)" by (rule set_node_inv [OF inv mild_begin [OF g(2)]])
  have i1: "cluster_inv ms ?s1"
    by (rule record_cast_inv [OF i]) (use cast_below [OF inv up] in \<open>simp_all add: set_node_def\<close>)
  have a: "a \<in> set ms" using inv g(1) by (auto simp: cluster_inv_def mesh_def)
  show ?thesis unfolding s'
  proof (rule elections_inv [OF i1])
    fix b e
    assume "((cl_elections ?s1)(a \<mapsto> \<lparr>el_term = nd_term ?n', el_asked = [], el_granted = []\<rparr>)) b = Some e"
    then show "b \<in> set ms \<and> election_ok ?s1 b e"
      using a cluster_invD [OF i1, of b e] by (cases "b = a") (auto simp: election_ok_def record_cast_def)
  qed
qed

lemma vote_inv:
  assumes inv: "cluster_inv ms s" and "cstep (VoteAt cand voter delivered) s = Some s'"
  shows "cluster_inv ms s'"
proof -
  from assms(2) obtain e where e: "cl_elections s cand = Some e" and ask: "can_ask cand voter e s"
    by (auto split: option.splits if_splits)
  let ?req = "request_of cand (el_term e)"
  let ?g = "vote_read ?req (cl_nodes s voter)"
  let ?n' = "vote_write ?req ?g (cl_nodes s voter)"
  let ?s1 = "record_cast voter (el_term e) cand ?g (set_node voter ?n' s)"
  have s': "s' = tally cand voter (delivered \<and> ?g) (e\<lparr>el_asked := voter # el_asked e\<rparr>) ?s1"
    using assms(2) e ask by (simp add: HandleVote_def RequestVote_def Let_def)
  have i: "cluster_inv ms (set_node voter ?n' s)" by (rule set_node_inv [OF inv mild_vote])
  have fresh: "?g \<Longrightarrow> (voter, el_term e, c) \<notin> set (cl_cast s)" for c
    using cast_below [OF inv] by (simp add: vote_read_def request_of_def)
  have i1: "cluster_inv ms ?s1"
  proof (rule record_cast_inv [OF i])
    show "?g \<Longrightarrow> (voter, el_term e, c) \<notin> set (cl_cast (set_node voter ?n' s))" for c
      using fresh by (simp add: set_node_def)
    show "?g \<Longrightarrow> el_term e \<le> nd_term (cl_nodes (set_node voter ?n' s) voter)"
      by (simp add: set_node_def vote_write_def request_of_def)
  qed
  have "cl_elections ?s1 cand = Some e" using e by (simp add: record_cast_def set_node_def)
  moreover have "can_ask cand voter e ?s1"
    using ask mild_vote [of "cl_nodes s voter" ?req] by (auto simp: can_ask_def record_cast_def set_node_def mild_def)
  moreover have "delivered \<and> ?g \<Longrightarrow> (voter, el_term e, cand) \<in> set (cl_cast ?s1)" by (simp add: record_cast_def)
  ultimately show ?thesis unfolding s' by (rule tally_inv [OF i1])
qed


text \<open>A lost election: the node is no leader, or was one already, and the election is dropped.\<close>

lemma drop_election_inv:
  assumes "cluster_inv ms s" shows "cluster_inv ms (s\<lparr>cl_elections := (cl_elections s)(a := None)\<rparr>)"
  by (rule elections_inv [OF assms]) (use cluster_invD [OF assms] in \<open>auto split: if_splits\<close>)

lemma more_than_half_iff: "m div 2 + 1 \<le> q \<longleftrightarrow> m < 2 * (q :: nat)"
  by linarith

lemmas more_than_half = iffD1 [OF more_than_half_iff]

text \<open>A won one: the votes that were counted are a majority.\<close>

lemma majority_counted:
  assumes inv: "cluster_inv ms s" and e: "cl_elections s a = Some e"
    and votes: "majority (cl_nodes s a) \<le> 1 + length (el_granted e)"
  shows "won ms s (el_term e) a"
proof -
  let ?Q = "insert a (set (el_granted e))"
  have a: "a \<in> set ms" and ok: "election_ok s a e" using cluster_invD [OF inv e] by auto
  have d: "distinct ms" "distinct (nd_peers (cl_nodes s a))" "set (nd_peers (cl_nodes s a)) = set ms - {a}"
    using inv a by (auto simp: cluster_inv_def mesh_def)
  have sub: "set (el_granted e) \<subseteq> set ms - {a}" using ok d(3) by (auto simp: election_ok_def)
  have "card ?Q = 1 + card (set (el_granted e))" using sub by (subst card_insert_disjoint) auto
  also have "\<dots> = 1 + length (el_granted e)" using ok by (simp add: election_ok_def distinct_card)
  finally have cardQ: "card ?Q = 1 + length (el_granted e)" .
  have "length (nd_peers (cl_nodes s a)) = card (set ms - {a})" using d(2,3) by (metis distinct_card)
  then have "length (nd_peers (cl_nodes s a)) + 1 = card (set ms)"
    using a by (simp add: card_Diff_singleton card_gt_0_iff) (metis Suc_pred card_gt_0_iff empty_iff finite_set)
  then have "card (set ms) < 2 * card ?Q" using more_than_half votes unfolding cardQ majority_def by metis
  then have "majority_of (set ms) ?Q" using sub a by (auto simp: majority_of_def)
  moreover have "\<forall>v \<in> ?Q. (v, el_term e, a) \<in> set (cl_cast s)" using ok by (auto simp: election_ok_def)
  ultimately show ?thesis unfolding won_def by blast
qed

text \<open>A new leader that has won keeps the invariant.\<close>

lemma new_leader_inv:
  assumes inv: "cluster_inv ms s" and w: "won ms s T a" and n': "nd_peers n' = nd_peers (cl_nodes s a)" "nd_term n' = T"
    and T: "nd_term (cl_nodes s a) = T"
  shows "cluster_inv ms ((set_node a n' s)\<lparr>cl_wins := (T, a) # cl_wins s\<rparr>)"
proof -
  let ?s = "(set_node a n' s)\<lparr>cl_wins := (T, a) # cl_wins s\<rparr>"
  have n: "nd_peers (cl_nodes ?s b) = nd_peers (cl_nodes s b)" "nd_term (cl_nodes ?s b) = nd_term (cl_nodes s b)" for b
    using n' T by (auto simp: set_node_def)
  have f: "cl_elections ?s = cl_elections s" "cl_cast ?s = cl_cast s" by (simp_all add: set_node_def)
  have "mesh ms ?s" using inv by (simp only: cluster_inv_def mesh_def n f) blast
  moreover have "votes_ok ?s" using inv by (simp only: cluster_inv_def votes_ok_def n f) blast
  moreover have "elections_ok ?s" using inv by (simp only: cluster_inv_def elections_ok_def election_ok_def n f) blast
  moreover have "wins_ok ms ?s"
    using inv w T n'(2) by (auto simp: cluster_inv_def wins_ok_def won_def set_node_def)
  ultimately show ?thesis by (simp add: cluster_inv_def)
qed

lemma finish_inv:
  assumes inv: "cluster_inv ms s" and "cstep (Finish a) s = Some s'"
  shows "cluster_inv ms s'"
proof -
  let ?n = "cl_nodes s a"
  from assms(2) obtain e where e: "cl_elections s a = Some e" by (auto split: option.splits)
  let ?votes = "1 + length (el_granted e)"
  let ?n' = "fst (finish_election (el_term e) ?votes ?n)"
  let ?drop = "\<lambda>s1. s1\<lparr>cl_elections := (cl_elections s1)(a := None)\<rparr>"
  have s': "s' = ?drop (if IsLeader ?n' \<and> \<not> IsLeader ?n then (set_node a ?n' s)\<lparr>cl_wins := (el_term e, a) # cl_wins s\<rparr>
      else set_node a ?n' s)"
    using assms(2) e by (auto simp: Let_def set_node_def split: if_splits)
  show ?thesis
  proof (cases "majority ?n \<le> ?votes \<and> nd_role ?n = RoleCandidate \<and> nd_term ?n = el_term e")
    case True
    then have "won ms s (el_term e) a" using majority_counted [OF inv e] by blast
    then have "cluster_inv ms ((set_node a ?n' s)\<lparr>cl_wins := (el_term e, a) # cl_wins s\<rparr>)"
      by (rule new_leader_inv [OF inv]) (use True in \<open>auto simp: finish_election_def\<close>)
    then have i: "cluster_inv ms (?drop ((set_node a ?n' s)\<lparr>cl_wins := (el_term e, a) # cl_wins s\<rparr>))"
      by (rule drop_election_inv)
    have "IsLeader ?n' \<and> \<not> IsLeader ?n" using True by (simp add: finish_election_def IsLeader_def)
    then show ?thesis using i unfolding s' if_P by simp
  next
    case False
    then have "mild ?n ?n'" and l: "\<not> (IsLeader ?n' \<and> \<not> IsLeader ?n)"
      by (auto simp: finish_election_def mild_def IsLeader_def)
    then have "cluster_inv ms (set_node a ?n' s)" by (intro set_node_inv [OF inv])
    then show ?thesis unfolding s' if_not_P [OF l] by (rule drop_election_inv)
  qed
qed

text \<open>Every atomic action keeps the invariant, so it holds in whatever a fresh cluster reaches by them.\<close>

lemma cstep_inv:
  assumes "cluster_inv ms s" and "atomic act" and "cstep act s = Some s'"
  shows "cluster_inv ms s'"
proof (cases act)
  case (Timeout a) with assms timeout_inv show ?thesis by blast
next
  case (VoteAt c v d) with assms vote_inv show ?thesis by blast
next
  case (Finish a) with assms finish_inv show ?thesis by blast
next
  case (StrayVote v T)
  then show ?thesis using assms(1,3) set_node_inv [OF assms(1) mild_HandleVote] by auto
next
  case (HeartbeatAt a T l)
  then show ?thesis using assms(1,3) set_node_inv [OF assms(1) mild_heartbeat] by auto
qed (use assms(2) in \<open>simp_all add: atomic_def\<close>)

lemma fresh_inv: "full_mesh ms cfg \<Longrightarrow> cluster_inv ms (fresh_cluster cfg)"
proof -
  assume m: "full_mesh ms cfg"
  have p: "nd_peers (cluster_New [] c) = nc_Peers c" for c by (simp add: cluster_New_def Let_def)
  have "nc_Peers (cfg a) \<noteq> []" if a: "a \<in> set ms" for a
  proof
    assume "nc_Peers (cfg a) = []"
    with m a have "set ms - {a} = {}" "distinct ms" "2 \<le> length ms"
      unfolding full_mesh_def by (metis list.set(1))+
    then have "set ms \<subseteq> {a}" "distinct ms" "2 \<le> length ms" by blast+
    then have "card (set ms) \<le> 1" "card (set ms) = length ms" "2 \<le> length ms"
      using card_mono [of "{a}" "set ms"] by (auto simp: distinct_card)
    then show False by linarith
  qed
  then have "\<not> IsLeader (cluster_New [] (cfg a))" if "a \<in> set ms" for a
    using that by (simp add: cluster_New_def Let_def IsLeader_def)
  with m show ?thesis
    by (simp add: cluster_inv_def mesh_def votes_ok_def elections_ok_def wins_ok_def fresh_cluster_def full_mesh_def p)
qed

lemma reach_inv:
  assumes "cluster_reach atomic s0 s" and "cluster_inv ms s0"
  shows "cluster_inv ms s"
  using assms by (induction rule: cluster_reach.induct) (auto intro: cstep_inv)

text \<open>So a term has one winner.\<close>

lemma wins_unique:
  assumes inv: "cluster_inv ms s" and w: "(T, a) \<in> set (cl_wins s)" "(T, b) \<in> set (cl_wins s)"
  shows "a = b"
proof -
  have "won ms s T a" "won ms s T b" using inv w by (auto simp: cluster_inv_def wins_ok_def)
  then obtain Q Q' where q: "majority_of (set ms) Q" "majority_of (set ms) Q'"
    and c: "\<forall>v \<in> Q. (v, T, a) \<in> set (cl_cast s)" "\<forall>v \<in> Q'. (v, T, b) \<in> set (cl_cast s)"
    unfolding won_def by blast
  show ?thesis
    by (rule maj.one_winner [where cast = "\<lambda>v d. (v, T, d) \<in> set (cl_cast s)", OF q c]) (use inv in \<open>auto simp: cluster_inv_def votes_ok_def\<close>)
qed

lemma leaders_unique:
  assumes inv: "cluster_inv ms s" and "a \<in> set ms" "b \<in> set ms" and "IsLeader (cl_nodes s a)" "IsLeader (cl_nodes s b)"
    and "nd_term (cl_nodes s a) = nd_term (cl_nodes s b)"
  shows "a = b"
proof (rule wins_unique [OF inv])
  show "(nd_term (cl_nodes s a), a) \<in> set (cl_wins s)" using inv assms(2,4) by (auto simp: cluster_inv_def wins_ok_def)
  show "(nd_term (cl_nodes s a), b) \<in> set (cl_wins s)" using inv assms(3,5,6) by (auto simp: cluster_inv_def wins_ok_def)
qed

end
