(* ===== verification/Cluster_Props.thy ===== *)
theory Cluster_Props
  imports Cluster_Election
begin

text \<open>
  The properties of the elections. Their examples have three nodes, all fresh: \<open>A\<close>, \<open>B\<close> and \<open>C\<close>.
\<close>

fun run_actions :: "action list \<Rightarrow> cluster \<Rightarrow> cluster option" where
  "run_actions [] s = Some s"
| "run_actions (a # as) s = (case cstep a s of None \<Rightarrow> None | Some s' \<Rightarrow> run_actions as s')"

lemma run_actions_reach:
  "run_actions as s = Some s' \<Longrightarrow> cluster_reach allowed s0 s \<Longrightarrow> list_all allowed as \<Longrightarrow> cluster_reach allowed s0 s'"
  by (induction as arbitrary: s) (auto split: option.splits intro: cluster_reach.step)

definition three_nodes :: "string list" where
  "three_nodes = [''A'', ''B'', ''C'']"

definition three_cfg :: "string \<Rightarrow> node_config" where
  "three_cfg a = \<lparr>nc_NodeID = a, nc_AdvertiseAddr = a, nc_Peers = (if a \<in> set three_nodes then removeAll a three_nodes else []),
     nc_HeartbeatInterval = 1, nc_ElectionTimeout = 3, nc_DataDir = []\<rparr>"

lemma three_mesh: "full_mesh three_nodes three_cfg"
  by (auto simp: full_mesh_def three_nodes_def three_cfg_def)

lemma three_nodes_simps [simp]:
  "nc_Peers (three_cfg ''A'') = [''B'', ''C'']" "nc_Peers (three_cfg ''B'') = [''A'', ''C'']"
  "nc_Peers (three_cfg ''C'') = [''A'', ''B'']"
  by (simp_all add: three_cfg_def three_nodes_def)

lemmas election_simps = fresh_cluster_def cluster_New_def set_node_def request_of_def tally_def can_ask_def
  record_cast_def HandleVote_def RequestVote_def vote_read_def vote_write_def begin_election_def
  finish_election_def majority_def IsLeader_def cluster_Start_def runLoop_def Let_def

text \<open>\<open>A\<close> is elected with the vote of \<open>C\<close>, the reply of \<open>B\<close> being lost.\<close>

definition quiet_run :: "action list" where
  "quiet_run = [Timeout ''A'', VoteAt ''A'' ''B'' False, VoteAt ''A'' ''C'' True, Finish ''A'']"

lemma quiet_run_elects:
  "case run_actions quiet_run (fresh_cluster three_cfg) of None \<Rightarrow> False
   | Some s \<Rightarrow> IsLeader (cl_nodes s ''A'') \<and> nd_term (cl_nodes s ''A'') = 1"
  by code_simp

text \<open>
  \<open>C\<close> reads its term for the requests of \<open>A\<close> and of \<open>B\<close> before it writes for either: it votes for both, and
  the cluster has two leaders of the term 1.
\<close>

definition vote_race :: "action list" where
  "vote_race = [Timeout ''A'', Timeout ''B'', ReadVote ''A'' ''C'', ReadVote ''B'' ''C'', WriteVote 0 True, WriteVote 0 True,
     VoteAt ''A'' ''B'' True, VoteAt ''B'' ''A'' True, Finish ''A'', Finish ''B'']"

lemma vote_race_two_leaders:
  "case run_actions vote_race (fresh_cluster three_cfg) of None \<Rightarrow> False
   | Some s \<Rightarrow> IsLeader (cl_nodes s ''A'') \<and> IsLeader (cl_nodes s ''B'')
       \<and> nd_term (cl_nodes s ''A'') = 1 \<and> nd_term (cl_nodes s ''B'') = 1"
  by code_simp

text \<open>
  The second half of a vote may also take the term of its node back: \<open>C\<close> reads for the election of term 1,
  hears the heartbeat of term 5, and then writes 1.
\<close>

definition vote_rollback :: "action list" where
  "vote_rollback = [Timeout ''A'', ReadVote ''A'' ''C'', HeartbeatAt ''C'' 5 ''B'', WriteVote 0 True]"

lemma vote_race_lowers_term:
  "case run_actions vote_rollback (fresh_cluster three_cfg) of None \<Rightarrow> False | Some s \<Rightarrow> nd_term (cl_nodes s ''C'') = 1"
  by code_simp

section \<open>Safety\<close>

text \<open>
  C21: a term has one leader. In whatever state a fresh cluster of two or more nodes, each with all the
  others as its peers, reaches by timeouts, vote handlers that are not interrupted between their two
  locks, stray votes, heartbeats of any term from anybody, lost replies and ends of elections: two nodes
  that lead the same term are the same node, and a term has been won by one node only.
\<close>

theorem one_leader_per_term:
  assumes "full_mesh ms cfg" and "cluster_reach atomic (fresh_cluster cfg) s"
  shows "(\<forall>a \<in> set ms. \<forall>b \<in> set ms. IsLeader (cl_nodes s a) \<longrightarrow> IsLeader (cl_nodes s b) \<longrightarrow>
      nd_term (cl_nodes s a) = nd_term (cl_nodes s b) \<longrightarrow> a = b) \<and>
    (\<forall>T a b. (T, a) \<in> set (cl_wins s) \<longrightarrow> (T, b) \<in> set (cl_wins s) \<longrightarrow> a = b)"
proof -
  have inv: "cluster_inv ms s" by (rule reach_inv [OF assms(2) fresh_inv [OF assms(1)]])
  show ?thesis using leaders_unique [OF inv] wins_unique [OF inv] by blast
qed

lemma three_node_new [simp]: "nd_term (cluster_New [] c) = 0" "nd_peers (cluster_New [] c) = nc_Peers c"
  by (simp_all add: cluster_New_def Let_def)

text \<open>The run that elects \<open>A\<close>: another leader of its term is \<open>A\<close>.\<close>

lemma quiet_run_reach:
  "\<exists>s. cluster_reach atomic (fresh_cluster three_cfg) s \<and> IsLeader (cl_nodes s ''A'') \<and> nd_term (cl_nodes s ''A'') = 1"
proof -
  obtain s where s: "run_actions quiet_run (fresh_cluster three_cfg) = Some s"
    and l: "IsLeader (cl_nodes s ''A'')" "nd_term (cl_nodes s ''A'') = 1"
    using quiet_run_elects by (auto split: option.splits)
  have "list_all atomic quiet_run" by (simp add: quiet_run_def atomic_def)
  from run_actions_reach [OF s cluster_reach.here this] l show ?thesis by blast
qed

theorem one_leader_per_term_witness:
  "\<exists>s :: cluster. IsLeader (cl_nodes s ''A'') \<and> nd_term (cl_nodes s ''A'') = 1 \<and>
     (\<forall>b \<in> set three_nodes. IsLeader (cl_nodes s b) \<longrightarrow> nd_term (cl_nodes s b) = 1 \<longrightarrow> b = ''A'')"
proof -
  obtain s where s: "cluster_reach atomic (fresh_cluster three_cfg) s" "IsLeader (cl_nodes s ''A'')" "nd_term (cl_nodes s ''A'') = 1"
    using quiet_run_reach by blast
  have "''A'' \<in> set three_nodes" by (simp add: three_nodes_def)
  with one_leader_per_term [OF three_mesh s(1)] s(2,3)
  have "\<forall>b \<in> set three_nodes. IsLeader (cl_nodes s b) \<longrightarrow> nd_term (cl_nodes s b) = 1 \<longrightarrow> b = ''A''" by metis
  with s(2,3) show ?thesis by auto
qed

section \<open>Progress\<close>

text \<open>The answers of the peers to a vote request, each in a state of its own.\<close>

definition vote_answers :: "(string \<Rightarrow> node) \<Rightarrow> vote_request \<Rightarrow> string \<Rightarrow> (nat \<times> bool option) option" where
  "vote_answers peer req p = Some (fst (HandleVote (Some req) (peer p)))"

lemma foldl_count:
  "foldl (\<lambda>votes p. if P p then votes + 1 else votes) (k :: nat) ps = k + length (filter P ps)"
  by (induction ps arbitrary: k) auto

lemma count_votes_filter: "count_votes reply n = 1 + length (filter (\<lambda>p. RequestVote (reply p)) (nd_peers n))"
  by (simp add: count_votes_def foldl_count)

lemma RequestVote_answers: "RequestVote (vote_answers peer req p) \<longleftrightarrow> nd_term (peer p) < vq_Term req"
  by (simp add: vote_answers_def HandleVote_def RequestVote_def vote_read_def Let_def)

text \<open>
  C22: an election that nothing disturbs is won exactly when the candidate and the peers whose terms are
  below its new term are more than half of the cluster; the candidate then leads the new term with its
  own address as the leader, and is a follower otherwise. (The term is not at its 64-bit maximum.)
\<close>

theorem undisturbed_election:
  assumes "nd_term n \<noteq> - 1"
    and "after = fst (startElection (vote_answers peer (request_of me (nd_term n + 1))) n)"
  shows "(IsLeader after \<longleftrightarrow>
      length (nd_peers n) + 1 < 2 * (1 + length (filter (\<lambda>p. nd_term (peer p) \<le> nd_term n) (nd_peers n)))) \<and>
    nd_term after = nd_term n + 1 \<and>
    (if IsLeader after then nd_leader after = nc_AdvertiseAddr (nd_cfg n) else nd_role after = RoleFollower)"
proof -
  let ?reply = "vote_answers peer (request_of me (nd_term n + 1))"
  have le: "t < nd_term n + 1 \<longleftrightarrow> t \<le> nd_term n" for t
    by (rule word_less_succ_iff [OF assms(1)])
  let ?g = "length (filter (\<lambda>p. nd_term (peer p) \<le> nd_term n) (nd_peers n))"
  have votes: "count_votes ?reply (begin_election n) = 1 + ?g"
    by (simp add: count_votes_filter RequestVote_answers begin_election_def request_of_def le)
  have "IsLeader after \<longleftrightarrow> majority (begin_election n) \<le> count_votes ?reply (begin_election n)"
    unfolding assms(2) by (auto simp: startElection_def Let_def finish_election_def begin_election_def IsLeader_def)
  also have "\<dots> \<longleftrightarrow> length (nd_peers n) + 1 < 2 * (1 + ?g)"
    using more_than_half_iff [of "length (nd_peers n) + 1" "1 + ?g"] unfolding votes by (simp add: majority_def begin_election_def)
  finally have won: "IsLeader after \<longleftrightarrow> length (nd_peers n) + 1 < 2 * (1 + ?g)" .
  moreover have "nd_term after = nd_term n + 1 \<and>
      (if IsLeader after then nd_leader after = nc_AdvertiseAddr (nd_cfg n) else nd_role after = RoleFollower)"
    unfolding assms(2) by (auto simp: startElection_def Let_def finish_election_def begin_election_def IsLeader_def)
  ultimately show ?thesis by blast
qed

theorem undisturbed_election_witness:
  "IsLeader (fst (startElection (vote_answers (\<lambda>p. if p = ''C'' then (cluster_New [] (three_cfg p))\<lparr>nd_term := 7\<rparr>
     else cluster_New [] (three_cfg p)) (request_of ''A'' 1)) (cluster_New [] (three_cfg ''A''))))"
  using undisturbed_election [of "cluster_New [] (three_cfg ''A'')" _
    "\<lambda>p. if p = ''C'' then (cluster_New [] (three_cfg p))\<lparr>nd_term := 7\<rparr> else cluster_New [] (three_cfg p)" "''A''", OF _ refl]
  by simp

end
