(* ===== verification/Tiered.thy ===== *)
theory Tiered
  imports Local_FS_Progress
begin

text \<open>
  The tiered backend (internal/backend/tiered/tiered.go): objects are written to the first tier, moved
  down by the demotion worker and moved up again when they are read. The tiers are backends of one kind
  \<open>B\<close>, as \<open>New\<close> makes them, each with a state of its own. A call of \<open>time.Now\<close> reads \<open>ti_now\<close>. The operations
  are sequential here; \<open>moveObject\<close> is composed of its three backend calls, between which others may come.
\<close>

record tier_config =
  tc_Name :: string
  tc_Backend :: string
  tc_DataDir :: string
  tc_DemoteAfter :: int64
  tc_MaxSize :: int64

record access_record =
  ar_lastAccess :: time
  ar_tier :: nat

record 'b tiered =
  ti_tiers :: "'b list"
  ti_configs :: "tier_config list"
  ti_access :: "string \<Rightarrow> access_record option"
  ti_now :: time

section \<open>Opening\<close>

text \<open>\<open>opener\<close> is \<open>localfs.New\<close>.\<close>

fun open_tiers :: "(string \<Rightarrow> 'b result) \<Rightarrow> nat \<Rightarrow> tier_config list \<Rightarrow> 'b list result" where
  "open_tiers opener i [] = Inr []"
| "open_tiers opener i (tc # tcs) =
     (if tc_Backend tc = ''localfs'' \<or> tc_Backend tc = [] then
        (if tc_DataDir tc = []
         then Inl (Errorf ''tiered: tier %d (%q): data_dir must not be empty'' [FInt (int i), FStr (tc_Name tc)])
         else (case opener (tc_DataDir tc) of
                 Inl e \<Rightarrow> Inl (Wrap ''tiered: tier %d (%q)'' e)
               | Inr b \<Rightarrow>
                   (case open_tiers opener (i + 1) tcs of Inl e \<Rightarrow> Inl e | Inr bs \<Rightarrow> Inr (b # bs))))
      else Inl (Errorf ''tiered: tier %d (%q): unsupported backend %q''
             [FInt (int i), FStr (tc_Name tc), FStr (tc_Backend tc)]))"

definition tiered_New :: "(string \<Rightarrow> 'b result) \<Rightarrow> tier_config list \<Rightarrow> time \<Rightarrow> 'b tiered result" where
  "tiered_New opener tiers now =
     (if tiers = [] then Inl (Errorf ''tiered: at least one tier is required'' [])
      else (case open_tiers opener 0 tiers of
              Inl e \<Rightarrow> Inl e
            | Inr backends \<Rightarrow> Inr \<lparr>ti_tiers = backends, ti_configs = tiers, ti_access = (\<lambda>_. None), ti_now = now\<rparr>))"

section \<open>Accesses and moves\<close>

definition obj_key :: "string \<Rightarrow> string \<Rightarrow> string" where
  "obj_key bucket key = bucket @ SLASH # key"

definition set_tier :: "nat \<Rightarrow> 'b \<Rightarrow> 'b tiered \<Rightarrow> 'b tiered" where
  "set_tier i t s = s\<lparr>ti_tiers := (ti_tiers s)[i := t]\<rparr>"

definition recordAccess :: "string \<Rightarrow> string \<Rightarrow> nat \<Rightarrow> 'b tiered \<Rightarrow> 'b tiered" where
  "recordAccess bucket key tierIdx s =
     (let k = obj_key bucket key in
      case ti_access s k of
        Some ar \<Rightarrow> s\<lparr>ti_access := (ti_access s)(k \<mapsto> ar\<lparr>ar_lastAccess := ti_now s, ar_tier := tierIdx\<rparr>)\<rparr>
      | None \<Rightarrow> s\<lparr>ti_access := (ti_access s)(k \<mapsto> \<lparr>ar_lastAccess = ti_now s, ar_tier = tierIdx\<rparr>)\<rparr>)"

text \<open>The calls of \<open>moveObject\<close>: read into a buffer, write the buffer, delete the source.\<close>

definition move_read :: "'b backend_ops \<Rightarrow> string \<Rightarrow> string \<Rightarrow> nat \<Rightarrow> 'b tiered \<Rightarrow> bytes result \<times> 'b tiered" where
  "move_read B bucket key srcIdx s =
     (case b_Read B (ti_tiers s ! srcIdx) bucket key of
        (rd, t) \<Rightarrow>
          (case rd_err rd of
             Some e \<Rightarrow> (Inl (Wrap ''tiered move: read from tier %d'' e), set_tier srcIdx t s)
           | None \<Rightarrow> (Inr (rd_data rd), set_tier srcIdx t s)))"

definition move_write :: "'b backend_ops \<Rightarrow> string \<Rightarrow> string \<Rightarrow> nat \<Rightarrow> bytes \<Rightarrow> 'b tiered \<Rightarrow> unit result \<times> 'b tiered" where
  "move_write B bucket key dstIdx buf s =
     (case b_Write B (ti_tiers s ! dstIdx) bucket key (reader_of buf) (byte_count buf) of
        (Inl e, t) \<Rightarrow> (Inl (Wrap ''tiered move: write to tier %d'' e), set_tier dstIdx t s)
      | (Inr n, t) \<Rightarrow> (Inr (), set_tier dstIdx t s))"

definition move_delete :: "'b backend_ops \<Rightarrow> string \<Rightarrow> string \<Rightarrow> nat \<Rightarrow> 'b tiered \<Rightarrow> unit result \<times> 'b tiered" where
  "move_delete B bucket key srcIdx s =
     (case b_Delete B (ti_tiers s ! srcIdx) bucket key of
        (Inl e, t) \<Rightarrow> (Inl (Wrap ''tiered move: delete from tier %d'' e), set_tier srcIdx t s)
      | (Inr u, t) \<Rightarrow> (Inr (), set_tier srcIdx t s))"

definition moveObject :: "'b backend_ops \<Rightarrow> string \<Rightarrow> string \<Rightarrow> nat \<Rightarrow> nat \<Rightarrow> 'b tiered \<Rightarrow> unit result \<times> 'b tiered" where
  "moveObject B bucket key srcIdx dstIdx s =
     (case move_read B bucket key srcIdx s of
        (Inl e, s1) \<Rightarrow> (Inl e, s1)
      | (Inr buf, s1) \<Rightarrow>
          (case move_write B bucket key dstIdx buf s1 of
             (Inl e, s2) \<Rightarrow> (Inl e, s2)
           | (Inr u, s2) \<Rightarrow> move_delete B bucket key srcIdx s2))"

definition promote :: "'b backend_ops \<Rightarrow> string \<Rightarrow> string \<Rightarrow> nat \<Rightarrow> 'b tiered \<Rightarrow> unit result \<times> 'b tiered" where
  "promote B bucket key srcIdx s = moveObject B bucket key srcIdx 0 s"

definition demote :: "'b backend_ops \<Rightarrow> string \<Rightarrow> string \<Rightarrow> nat \<Rightarrow> nat \<Rightarrow> 'b tiered \<Rightarrow> unit result \<times> 'b tiered" where
  "demote B bucket key srcIdx dstIdx s = moveObject B bucket key srcIdx dstIdx s"

section \<open>The operations of a backend\<close>

definition tiered_Write ::
    "'b backend_ops \<Rightarrow> 'b tiered \<Rightarrow> string \<Rightarrow> string \<Rightarrow> reader \<Rightarrow> int64 \<Rightarrow> int64 result \<times> 'b tiered" where
  "tiered_Write B s bucket key r sz =
     (case b_Write B (ti_tiers s ! 0) bucket key r sz of
        (Inl e, t) \<Rightarrow> (Inl e, set_tier 0 t s)
      | (Inr n, t) \<Rightarrow>
          (Inr n, (set_tier 0 t s)\<lparr>ti_access := (ti_access s)(obj_key bucket key \<mapsto>
             \<lparr>ar_lastAccess = ti_now s, ar_tier = 0\<rparr>)\<rparr>))"

text \<open>One read of a tier, whose state it may change.\<close>

definition read_tier :: "'b backend_ops \<Rightarrow> string \<Rightarrow> string \<Rightarrow> nat \<Rightarrow> 'b tiered \<Rightarrow> reader \<times> 'b tiered" where
  "read_tier B bucket key i s = (case b_Read B (ti_tiers s ! i) bucket key of (rd, t) \<Rightarrow> (rd, set_tier i t s))"

fun read_tiers :: "'b backend_ops \<Rightarrow> string \<Rightarrow> string \<Rightarrow> nat list \<Rightarrow> 'b tiered \<Rightarrow> reader \<times> 'b tiered" where
  "read_tiers B bucket key [] s = (\<lparr>rd_data = [], rd_err = Some (BackendNotFound bucket key)\<rparr>, s)"
| "read_tiers B bucket key (i # is) s =
     (case b_Exists B (ti_tiers s ! i) bucket key of
        Inl e \<Rightarrow> read_tiers B bucket key is s
      | Inr ok \<Rightarrow>
          if \<not> ok then read_tiers B bucket key is s
          else if i = 0 then read_tier B bucket key 0 (recordAccess bucket key 0 s)
          else (case promote B bucket key i s of
                  (Inl perr, s1) \<Rightarrow> read_tier B bucket key i (recordAccess bucket key i s1)
                | (Inr u, s1) \<Rightarrow> read_tier B bucket key 0 (recordAccess bucket key 0 s1)))"

definition tiered_Read :: "'b backend_ops \<Rightarrow> 'b tiered \<Rightarrow> string \<Rightarrow> string \<Rightarrow> reader \<times> 'b tiered" where
  "tiered_Read B s bucket key = read_tiers B bucket key [0 ..< length (ti_tiers s)] s"

fun delete_tiers :: "'b backend_ops \<Rightarrow> string \<Rightarrow> string \<Rightarrow> 'b list \<Rightarrow> err option \<Rightarrow> err option \<times> 'b list" where
  "delete_tiers B bucket key [] lastErr = (lastErr, [])"
| "delete_tiers B bucket key (t # ts) lastErr =
     (case b_Delete B t bucket key of
        (res, t') \<Rightarrow>
          (case delete_tiers B bucket key ts (case res of Inl e \<Rightarrow> Some e | Inr u \<Rightarrow> lastErr) of
             (le, ts') \<Rightarrow> (le, t' # ts')))"

definition tiered_Delete :: "'b backend_ops \<Rightarrow> 'b tiered \<Rightarrow> string \<Rightarrow> string \<Rightarrow> unit result \<times> 'b tiered" where
  "tiered_Delete B s bucket key =
     (case delete_tiers B bucket key (ti_tiers s) None of
        (lastErr, ts) \<Rightarrow>
          (case lastErr of None \<Rightarrow> Inr () | Some e \<Rightarrow> Inl e,
           s\<lparr>ti_tiers := ts, ti_access := (ti_access s)(obj_key bucket key := None)\<rparr>))"

fun exists_tiers :: "'b backend_ops \<Rightarrow> string \<Rightarrow> string \<Rightarrow> 'b list \<Rightarrow> bool result" where
  "exists_tiers B bucket key [] = Inr False"
| "exists_tiers B bucket key (t # ts) =
     (case b_Exists B t bucket key of
        Inl e \<Rightarrow> Inl e
      | Inr ok \<Rightarrow> if ok then Inr True else exists_tiers B bucket key ts)"

definition tiered_Exists :: "'b backend_ops \<Rightarrow> 'b tiered \<Rightarrow> string \<Rightarrow> string \<Rightarrow> bool result" where
  "tiered_Exists B s bucket key = exists_tiers B bucket key (ti_tiers s)"

fun stat_tiers :: "'b backend_ops \<Rightarrow> string \<Rightarrow> string \<Rightarrow> 'b list \<Rightarrow> object_info result" where
  "stat_tiers B bucket key [] = Inl (BackendNotFound bucket key)"
| "stat_tiers B bucket key (t # ts) =
     (case b_Exists B t bucket key of
        Inl e \<Rightarrow> Inl e
      | Inr ok \<Rightarrow> if ok then b_Stat B t bucket key else stat_tiers B bucket key ts)"

definition tiered_Stat :: "'b backend_ops \<Rightarrow> 'b tiered \<Rightarrow> string \<Rightarrow> string \<Rightarrow> object_info result" where
  "tiered_Stat B s bucket key = stat_tiers B bucket key (ti_tiers s)"

definition tiered_backend :: "'b backend_ops \<Rightarrow> 'b tiered backend_ops" where
  "tiered_backend B = \<lparr>b_Write = tiered_Write B, b_Read = tiered_Read B, b_Delete = tiered_Delete B,
     b_Exists = tiered_Exists B, b_Stat = tiered_Stat B, b_CreateBucketDir = None, b_DeleteBucketDir = None\<rparr>"

section \<open>Demotion\<close>

definition splitObjKey :: "string \<Rightarrow> string \<times> string" where
  "splitObjKey compound =
     (if SLASH \<in> set compound
      then (takeWhile (\<lambda>c. c \<noteq> SLASH) compound, tl (dropWhile (\<lambda>c. c \<noteq> SLASH) compound))
      else ([], []))"

text \<open>\<open>time.Since\<close>: a duration that stops at the ends of \<open>int64\<close>.\<close>

definition time_Since :: "time \<Rightarrow> time \<Rightarrow> int" where
  "time_Since now t = max (- (2 ^ 63)) (min (2 ^ 63 - 1) (now - t))"

text \<open>Whether the worker moves the object of a record, and then one turn of its loop.\<close>

definition cold :: "'b tiered \<Rightarrow> access_record \<Rightarrow> bool" where
  "cold s rec \<longleftrightarrow>
     (let currentTier = ar_tier rec in
      if currentTier \<ge> length (ti_configs s) - 1 then False
      else let cfg = ti_configs s ! currentTier in
        if tc_DemoteAfter cfg = 0 then False
        else \<not> time_Since (ti_now s) (ar_lastAccess rec) < sint (tc_DemoteAfter cfg))"

definition demote_one :: "'b backend_ops \<Rightarrow> string \<Rightarrow> 'b tiered \<Rightarrow> 'b tiered" where
  "demote_one B objKey s =
     (case ti_access s objKey of
        None \<Rightarrow> s
      | Some rec \<Rightarrow>
          if \<not> cold s rec then s
          else (case splitObjKey objKey of
                  (bucket, key) \<Rightarrow>
                    if bucket = [] \<or> key = [] then s
                    else let targetTier = ar_tier rec + 1
                         in (case demote B bucket key (ar_tier rec) targetTier s of
                               (Inl e, s1) \<Rightarrow> s1
                             | (Inr u, s1) \<Rightarrow>
                                 (case ti_access s1 objKey of
                                    None \<Rightarrow> s1
                                  | Some ar \<Rightarrow> s1\<lparr>ti_access := (ti_access s1)(objKey \<mapsto> ar\<lparr>ar_tier := targetTier\<rparr>)\<rparr>))))"

text \<open>The records come in the order in which the map yields them.\<close>

definition runDemotion :: "'b backend_ops \<Rightarrow> string list \<Rightarrow> 'b tiered \<Rightarrow> 'b tiered" where
  "runDemotion B order s = foldl (\<lambda>s objKey. demote_one B objKey s) s order"

text \<open>The interval of \<open>RunDemotionWorker\<close>, and what its loop does on an event.\<close>

definition demotion_interval :: "int64 \<Rightarrow> int64" where
  "demotion_interval interval = (if interval \<le>s 0 then 300000000000 else interval)"

datatype demotion_event = DemotionDone | DemotionTick "string list"

fun RunDemotionWorker :: "'b backend_ops \<Rightarrow> demotion_event list \<Rightarrow> 'b tiered \<Rightarrow> 'b tiered" where
  "RunDemotionWorker B [] s = s"
| "RunDemotionWorker B (DemotionDone # evs) s = s"
| "RunDemotionWorker B (DemotionTick order # evs) s = RunDemotionWorker B evs (runDemotion B order s)"

end
