(* ===== verification/Tiered_Correct.thy ===== *)
theory Tiered_Correct
  imports Tiered
begin

text \<open>
  The tiered backend keeps the contract \<open>object_backend\<close> of its tiers: an object is what the first tier
  that has it holds. A tier must be exact on absent objects (\<open>tier_backend\<close>), which the local file system
  is for keys without a slash: with others, a directory of one tier hides an object of the next.
\<close>

section \<open>The first of a list of options\<close>

fun first_hit :: "'a option list \<Rightarrow> 'a option" where
  "first_hit [] = None"
| "first_hit (x # xs) = (case x of None \<Rightarrow> first_hit xs | Some d \<Rightarrow> Some d)"

lemma first_hit_None: "first_hit xs = None \<longleftrightarrow> set xs \<subseteq> {None}"
  by (induction xs) (auto split: option.splits)

lemma first_hit_update_None: "i < length xs \<Longrightarrow> xs ! i = None \<Longrightarrow> first_hit (xs[i := None]) = first_hit xs"
  by (metis list_update_id)

text \<open>A copy below the first holder, or above it where nothing is, shows the same object.\<close>

lemma first_hit_copy_below:
  "i < length xs \<Longrightarrow> xs ! i = Some d \<Longrightarrow> i < j \<Longrightarrow> first_hit (xs[j := y]) = first_hit xs"
proof (induction xs arbitrary: i j)
  case (Cons x xs)
  then show ?case
  proof (cases i)
    case 0
    with Cons.prems show ?thesis by (cases j) auto
  next
    case (Suc i')
    with Cons.prems Cons.IH [of i' "j - 1"] show ?thesis by (cases j) (auto split: option.split)
  qed
qed simp

lemma first_hit_copy_above:
  "i < length xs \<Longrightarrow> xs ! i = Some d \<Longrightarrow> \<forall>j < i. xs ! j = None \<Longrightarrow> j < i \<Longrightarrow> first_hit (xs[j := Some d]) = Some d"
proof (induction xs arbitrary: i j)
  case (Cons x xs)
  then obtain i' where i: "i = Suc i'" by (cases i) auto
  have x: "x = None" using Cons.prems(3,4) i by (metis nth_Cons_0 zero_less_Suc)
  have below: "\<forall>j < i'. xs ! j = None" using Cons.prems(3) i by auto
  show ?case
  proof (cases j)
    case 0
    then show ?thesis by simp
  next
    case (Suc j')
    with Cons.prems i x below Cons.IH [of i' j'] show ?thesis by simp
  qed
qed simp

lemma first_hit_at:
  "i < length xs \<Longrightarrow> xs ! i = Some d \<Longrightarrow> \<forall>j < i. xs ! j = None \<Longrightarrow> first_hit xs = Some d"
proof (induction xs arbitrary: i)
  case (Cons x xs)
  then show ?case
  proof (cases i)
    case 0
    with Cons.prems show ?thesis by simp
  next
    case (Suc i')
    have "x = None" using Cons.prems(3) Suc by (metis nth_Cons_0 zero_less_Suc)
    moreover have "\<forall>j < i'. xs ! j = None" using Cons.prems(3) Suc by auto
    ultimately show ?thesis using Cons Suc by simp
  qed
qed simp

text \<open>Clearing the source of a move shows the same object, when the copy is next below or first above.\<close>

lemma first_hit_clear:
  assumes "src < length xs" "dst < length xs" "xs ! dst = Some d" "xs ! src = Some d"
    and "dst = Suc src \<or> dst < src"
  shows "first_hit (xs[src := None]) = first_hit xs"
  using assms
proof (induction xs arbitrary: src dst)
  case (Cons x xs)
  show ?case
  proof (cases src)
    case 0
    with Cons.prems have "dst = Suc 0" by auto
    with Cons.prems 0 show ?thesis by (cases xs) auto
  next
    case (Suc s')
    show ?thesis
    proof (cases dst)
      case 0
      with Cons.prems Suc show ?thesis by simp
    next
      case (Suc d')
      with Cons.prems \<open>src = Suc s'\<close> Cons.IH [of s' d'] show ?thesis by (auto split: option.split)
    qed
  qed
qed simp

section \<open>Tiers\<close>

locale tier_backend = object_backend +
  assumes exists_None: "binv s \<Longrightarrow> good b k \<Longrightarrow> bview s b k = None \<Longrightarrow> b_Exists B s b k = Inr False"
    and delete_total: "binv s \<Longrightarrow> good b k \<Longrightarrow> \<exists>s'. b_Delete B s b k = (Inr (), s')"

text \<open>What the tiers show together, and when their state is sound.\<close>

definition tview :: "('b \<Rightarrow> string \<Rightarrow> string \<Rightarrow> bytes option) \<Rightarrow> 'b tiered \<Rightarrow> string \<Rightarrow> string \<Rightarrow> bytes option" where
  "tview v s b k = first_hit (map (\<lambda>t. v t b k) (ti_tiers s))"

definition tinv :: "('b \<Rightarrow> bool) \<Rightarrow> 'b tiered \<Rightarrow> bool" where
  "tinv I s \<longleftrightarrow> ti_tiers s \<noteq> [] \<and> length (ti_configs s) = length (ti_tiers s) \<and> (\<forall>t \<in> set (ti_tiers s). I t)"

lemma tinv_nth: "tinv I s \<Longrightarrow> i < length (ti_tiers s) \<Longrightarrow> I (ti_tiers s ! i)"
  by (simp add: tinv_def)

lemma tinv_set_tier: "tinv I s \<Longrightarrow> I t \<Longrightarrow> tinv I (set_tier i t s)"
  by (auto simp: tinv_def set_tier_def dest: subsetD [OF set_update_subset_insert])

lemma set_tier_simps [simp]:
  "length (ti_tiers (set_tier i t s)) = length (ti_tiers s)" "ti_configs (set_tier i t s) = ti_configs s"
  "ti_access (set_tier i t s) = ti_access s" "ti_now (set_tier i t s) = ti_now s"
  by (simp_all add: set_tier_def)

lemma set_tier_nth: "i < length (ti_tiers s) \<Longrightarrow> ti_tiers (set_tier i t s) ! j = (if i = j then t else ti_tiers s ! j)"
  by (auto simp: set_tier_def nth_list_update)

lemma tview_set_tier:
  "tview v (set_tier i t s) b k = first_hit ((map (\<lambda>t. v t b k) (ti_tiers s))[i := v t b k])"
  by (simp add: tview_def set_tier_def map_update)

text \<open>A tier whose objects stay.\<close>

lemma tview_set_tier_same:
  "i < length (ti_tiers s) \<Longrightarrow> v t b k = v (ti_tiers s ! i) b k \<Longrightarrow> tview v (set_tier i t s) b k = tview v s b k"
  using list_update_id [of "map (\<lambda>t. v t b k) (ti_tiers s)" i] by (subst tview_set_tier) (simp add: tview_def)

lemma tview_access [simp]: "tview v (s\<lparr>ti_access := a\<rparr>) = tview v s"
  by (simp add: tview_def fun_eq_iff)

lemma tinv_access [simp]: "tinv I (s\<lparr>ti_access := a\<rparr>) = tinv I s"
  by (simp add: tinv_def)

lemma recordAccess_simps [simp]:
  "ti_tiers (recordAccess b k i s) = ti_tiers s" "ti_configs (recordAccess b k i s) = ti_configs s"
  "tview v (recordAccess b k i s) = tview v s" "tinv I (recordAccess b k i s) = tinv I s"
  by (auto simp: recordAccess_def Let_def split: option.split)

section \<open>Moves\<close>

context tier_backend
begin

lemma nth_view: "i < length (ti_tiers s) \<Longrightarrow> map (\<lambda>t. bview t b k) (ti_tiers s) ! i = bview (ti_tiers s ! i) b k"
  by simp

text \<open>The three steps of a move: the first changes nothing, and a failure leaves everything as it was.\<close>

lemma move_read_spec:
  assumes i: "tinv binv s" and g: "good b k" and src: "src < length (ti_tiers s)" and m: "move_read B b k src s = (res, s')"
  shows "tinv binv s' \<and> tview bview s' = tview bview s \<and> length (ti_tiers s') = length (ti_tiers s) \<and>
    ti_access s' = ti_access s \<and> ti_configs s' = ti_configs s \<and> ti_now s' = ti_now s \<and>
    (\<forall>j < length (ti_tiers s). bview (ti_tiers s' ! j) = bview (ti_tiers s ! j)) \<and>
    res = (case bview (ti_tiers s ! src) b k of Some d \<Rightarrow> Inr d | None \<Rightarrow> res) \<and>
    (bview (ti_tiers s ! src) b k = None \<longrightarrow> is_ok res = False)"
proof -
  note bi = tinv_nth [OF i src]
  obtain rd t where r: "b_Read B (ti_tiers s ! src) b k = (rd, t)" by force
  note fr = read_frame [OF bi g r]
  have s': "s' = set_tier src t s" using m r by (auto simp: move_read_def split: option.splits)
  have "tview bview s' = tview bview s"
    unfolding s' using fr tview_set_tier_same [OF src] by (auto simp: fun_eq_iff)
  moreover have "res = Inr d" if "bview (ti_tiers s ! src) b k = Some d" for d
    using read_Some [OF bi g that] m r by (auto simp: move_read_def split: option.splits)
  moreover have "\<not> is_ok res" if "bview (ti_tiers s ! src) b k = None"
    using read_None [OF bi g that] m r by (auto simp: move_read_def split: option.splits)
  ultimately show ?thesis
    using fr s' tinv_set_tier [OF i, of t src] by (auto simp: set_tier_nth src split: option.split)
qed

lemma move_write_spec:
  assumes i: "tinv binv s" and g: "good b k" and dst: "dst < length (ti_tiers s)"
    and m: "move_write B b k dst d s = (res, s')"
  shows "tinv binv s' \<and> length (ti_tiers s') = length (ti_tiers s) \<and>
    ti_access s' = ti_access s \<and> ti_configs s' = ti_configs s \<and> ti_now s' = ti_now s \<and>
    (\<forall>j < length (ti_tiers s). bview (ti_tiers s' ! j) =
       (if j = dst \<and> is_ok res then (bview (ti_tiers s ! j))(b := (bview (ti_tiers s ! j) b)(k \<mapsto> d)) else bview (ti_tiers s ! j)))"
proof -
  note bi = tinv_nth [OF i dst]
  obtain r t where w: "b_Write B (ti_tiers s ! dst) b k (reader_of d) (byte_count d) = (r, t)" by force
  have s': "s' = set_tier dst t s" and res: "is_ok res \<longleftrightarrow> is_ok r"
    using m w by (auto simp: move_write_def split: sum.splits)
  have "bview t = (if is_ok r then (bview (ti_tiers s ! dst))(b := (bview (ti_tiers s ! dst) b)(k \<mapsto> d)) else bview (ti_tiers s ! dst))"
    using w write_ok [OF bi g, of "reader_of d" "byte_count d"] write_err [OF bi g, of "reader_of d" "byte_count d"]
    by (cases r) auto
  then show ?thesis
    using s' res tinv_set_tier [OF i write_inv [OF bi g w]] by (simp add: set_tier_nth dst)
qed

lemma move_delete_spec:
  assumes i: "tinv binv s" and g: "good b k" and src: "src < length (ti_tiers s)"
    and m: "move_delete B b k src s = (res, s')"
  shows "res = Inr () \<and> tinv binv s' \<and> length (ti_tiers s') = length (ti_tiers s) \<and>
    ti_access s' = ti_access s \<and> ti_configs s' = ti_configs s \<and> ti_now s' = ti_now s \<and>
    (\<forall>j < length (ti_tiers s). bview (ti_tiers s' ! j) =
       (if j = src then (bview (ti_tiers s ! j))(b := (bview (ti_tiers s ! j) b)(k := None)) else bview (ti_tiers s ! j)))"
proof -
  note bi = tinv_nth [OF i src]
  obtain t where d: "b_Delete B (ti_tiers s ! src) b k = (Inr (), t)" using delete_total [OF bi g] by blast
  have s': "s' = set_tier src t s" and res: "res = Inr ()" using m d by (auto simp: move_delete_def)
  show ?thesis
    using s' res tinv_set_tier [OF i, of t src] delete_ok [OF bi g d] by (simp add: set_tier_nth src)
qed

text \<open>The view of a state from the views of its tiers.\<close>

lemma tview_cong:
  assumes "length (ti_tiers s') = length (ti_tiers s)"
    and "\<forall>j < length (ti_tiers s). bview (ti_tiers s' ! j) b k = xs ! j" and "length xs = length (ti_tiers s)"
  shows "tview bview s' b k = first_hit xs"
proof -
  have "map (\<lambda>t. bview t b k) (ti_tiers s') = xs" using assms by (intro nth_equalityI) auto
  then show ?thesis by (simp add: tview_def)
qed

text \<open>
  A move to the next tier, or from the first tier that has the object to one above it, shows the same
  objects at every step, so also when it stops half way.
\<close>

definition shown :: "'a tiered \<Rightarrow> string \<Rightarrow> string \<Rightarrow> bytes option list" where
  "shown s b k = map (\<lambda>t. bview t b k) (ti_tiers s)"

definition movable :: "nat \<Rightarrow> nat \<Rightarrow> bytes option list \<Rightarrow> bool" where
  "movable src dst xs \<longleftrightarrow> src < length xs \<and> dst < length xs \<and>
     (dst = Suc src \<or> dst < src \<and> (\<forall>j < src. xs ! j = None))"

lemma movable_copy: "movable src dst xs \<Longrightarrow> xs ! src = Some d \<Longrightarrow> first_hit (xs[dst := Some d]) = first_hit xs"
  using first_hit_copy_below [of src xs d dst] first_hit_copy_above [of src xs d dst] first_hit_at [of src xs d]
  by (auto simp: movable_def)

lemma movable_clear:
  "movable src dst xs \<Longrightarrow> xs ! src = Some d \<Longrightarrow> first_hit (xs[dst := Some d, src := None]) = first_hit xs"
  using movable_copy [of src dst xs d] first_hit_clear [of src "xs[dst := Some d]" dst d] by (auto simp: movable_def)

lemma tview_shown: "tview bview s b k = first_hit (shown s b k)"
  by (simp add: tview_def shown_def)

text \<open>One tier gets an object or loses it.\<close>

lemma shown_update:
  assumes "length (ti_tiers s') = length (ti_tiers s)"
    and "\<forall>j < length (ti_tiers s). bview (ti_tiers s' ! j) =
       (if j = i then (bview (ti_tiers s ! j))(b := (bview (ti_tiers s ! j) b)(k := x)) else bview (ti_tiers s ! j))"
  shows "shown s' b' k' = (if b' = b \<and> k' = k then (shown s b k)[i := x] else shown s b' k')"
  by (rule nth_equalityI) (use assms in \<open>auto simp: shown_def nth_list_update\<close>)

lemma shown_same:
  assumes "length (ti_tiers s') = length (ti_tiers s)"
    and "\<forall>j < length (ti_tiers s). bview (ti_tiers s' ! j) = bview (ti_tiers s ! j)"
  shows "shown s' = shown s"
proof (intro ext)
  show "shown s' b k = shown s b k" for b k by (rule nth_equalityI) (use assms in \<open>auto simp: shown_def\<close>)
qed

lemma move_write_shown:
  assumes i: "tinv binv s" and g: "good b k" and dst: "dst < length (ti_tiers s)" and m: "move_write B b k dst d s = (res, s')"
  shows "shown s' b' k' = (if b' = b \<and> k' = k \<and> is_ok res then (shown s b k)[dst := Some d] else shown s b' k')"
  using move_write_spec [OF i g dst m] shown_update [of s' s dst b k "Some d" b' k'] shown_same [of s' s]
  by (cases "is_ok res") auto

lemma move_delete_shown:
  assumes i: "tinv binv s" and g: "good b k" and src: "src < length (ti_tiers s)" and m: "move_delete B b k src s = (res, s')"
  shows "shown s' b' k' = (if b' = b \<and> k' = k then (shown s b k)[src := None] else shown s b' k')"
  using move_delete_spec [OF i g src m] shown_update [of s' s src b k None b' k'] by auto

lemma moveObject_spec:
  assumes i: "tinv binv s" and g: "good b k" and mv: "movable src dst (shown s b k)"
    and m: "moveObject B b k src dst s = (res, s')"
  shows "tinv binv s' \<and> tview bview s' = tview bview s \<and> length (ti_tiers s') = length (ti_tiers s) \<and>
    ti_access s' = ti_access s \<and> ti_configs s' = ti_configs s \<and> ti_now s' = ti_now s \<and>
    (is_ok res \<longrightarrow> (\<exists>d. shown s b k ! src = Some d \<and> shown s' b k = (shown s b k)[dst := Some d, src := None])) \<and>
    (\<not> is_ok res \<longrightarrow> shown s' = shown s)"
proof -
  have len: "src < length (ti_tiers s)" "dst < length (ti_tiers s)" using mv by (auto simp: movable_def shown_def)
  obtain r1 s1 where 1: "move_read B b k src s = (r1, s1)" by force
  note p1 = move_read_spec [OF i g len(1) 1]
  have sh1: "shown s1 = shown s" using p1 by (intro shown_same) auto
  show ?thesis
  proof (cases r1)
    case (Inl e)
    with 1 m p1 sh1 show ?thesis by (auto simp: moveObject_def)
  next
    case (Inr d)
    have d: "shown s b k ! src = Some d"
      using p1 Inr len by (auto simp: shown_def split: option.splits)
    have i1: "tinv binv s1" and l1: "dst < length (ti_tiers s1)" using p1 len by auto
    obtain r2 s2 where 2: "move_write B b k dst d s1 = (r2, s2)" by force
    note p2 = move_write_spec [OF i1 g l1 2] and sh2 = move_write_shown [OF i1 g l1 2]
    have v2: "tview bview s2 = tview bview s"
      using sh2 sh1 movable_copy [OF mv d] by (auto simp: fun_eq_iff tview_shown)
    show ?thesis
    proof (cases r2)
      case (Inl e)
      moreover have "shown s2 = shown s" using sh2 sh1 Inl by (auto simp: fun_eq_iff)
      ultimately show ?thesis using 1 2 Inr m p1 p2 v2 by (auto simp: moveObject_def)
    next
      case (Inr u)
      have i2: "tinv binv s2" and l2: "src < length (ti_tiers s2)" using p1 p2 len by auto
      have 3: "move_delete B b k src s2 = (res, s')" using 1 2 \<open>r1 = Inr d\<close> Inr m by (simp add: moveObject_def)
      note p3 = move_delete_spec [OF i2 g l2 3] and sh3 = move_delete_shown [OF i2 g l2 3]
      have s3: "shown s' b k = (shown s b k)[dst := Some d, src := None]" using sh3 sh2 sh1 Inr by simp
      have "tview bview s' = tview bview s"
        using sh3 sh2 sh1 s3 Inr movable_clear [OF mv d] by (auto simp: fun_eq_iff tview_shown)
      then show ?thesis using p1 p2 p3 s3 d by (simp add: is_ok_def)
    qed
  qed
qed

end

section \<open>The operations\<close>

context tier_backend
begin

text \<open>Writing goes to the first tier.\<close>

lemma tiered_Write_spec:
  assumes i: "tinv binv s" and g: "good b k" and w: "tiered_Write B s b k r sz = (res, s')"
  shows "tinv binv s' \<and> (case res of
      Inl e \<Rightarrow> tview bview s' = tview bview s
    | Inr n \<Rightarrow> rd_err r = None \<and> n = byte_count (rd_data r) \<and>
        tview bview s' = (tview bview s)(b := (tview bview s b)(k \<mapsto> rd_data r)))"
proof -
  have ne: "0 < length (ti_tiers s)" using i by (simp add: tinv_def)
  note b0 = tinv_nth [OF i ne]
  obtain t where w0: "b_Write B (ti_tiers s ! 0) b k r sz = (res, t)"
    and s': "ti_tiers s' = ti_tiers (set_tier 0 t s)" "ti_configs s' = ti_configs s"
    using w by (auto simp: tiered_Write_def split: prod.splits sum.splits)
  have v: "tview bview s' = tview bview (set_tier 0 t s)" by (simp add: tview_def fun_eq_iff s'(1))
  have i': "tinv binv s'" using tinv_set_tier [OF i write_inv [OF b0 g w0], of 0] s' by (simp add: tinv_def)
  show ?thesis
  proof (cases res)
    case (Inl e)
    then have "bview t = bview (ti_tiers s ! 0)" using write_err [OF b0 g] w0 by blast
    then have "tview bview (set_tier 0 t s) = tview bview s" using tview_set_tier_same [OF ne] by (auto simp: fun_eq_iff)
    with Inl i' v show ?thesis by simp
  next
    case (Inr n)
    note ok = write_ok [OF b0 g w0 [unfolded Inr]]
    have "tview bview (set_tier 0 t s) = (tview bview s)(b := (tview bview s b)(k \<mapsto> rd_data r))"
      using ok ne by (cases "ti_tiers s") (auto simp: fun_eq_iff tview_def set_tier_def)
    with Inr i' v ok show ?thesis by simp
  qed
qed

text \<open>Reading looks for the first tier that has the object; \<open>n\<close> tiers have been passed.\<close>

lemma read_tier_spec:
  assumes i: "tinv binv s" and g: "good b k" and n: "n < length (ti_tiers s)" and r: "read_tier B b k n s = (rd, s')"
  shows "tinv binv s' \<and> tview bview s' = tview bview s \<and>
    (case bview (ti_tiers s ! n) b k of Some d \<Rightarrow> rd = reader_of d | None \<Rightarrow> True)"
proof -
  note bi = tinv_nth [OF i n]
  obtain rd' t where t: "b_Read B (ti_tiers s ! n) b k = (rd', t)" by force
  have e: "rd = rd'" "s' = set_tier n t s" using r t by (auto simp: read_tier_def)
  note fr = read_frame [OF bi g t]
  have "tview bview s' = tview bview s" unfolding e(2) using fr tview_set_tier_same [OF n] by (auto simp: fun_eq_iff)
  with fr e t read_Some [OF bi g] tinv_set_tier [OF i, of t n] show ?thesis by (auto split: option.splits)
qed

lemma read_tiers_spec:
  assumes i: "tinv binv s" and g: "good b k" and n: "n + m = length (ti_tiers s)"
    and none: "\<forall>j < n. shown s b k ! j = None" and r: "read_tiers B b k [n ..< n + m] s = (rd, s')"
  shows "tinv binv s' \<and> tview bview s' = tview bview s \<and>
    (case tview bview s b k of Some d \<Rightarrow> rd = reader_of d | None \<Rightarrow> rd_err rd \<noteq> None)"
  using n none r
proof (induction m arbitrary: n)
  case 0
  have "shown s b k = replicate (length (ti_tiers s)) None"
    using 0 by (intro nth_equalityI) (auto simp: shown_def)
  then have "tview bview s b k = None" by (auto simp: tview_shown first_hit_None)
  with 0 i show ?case by auto
next
  case (Suc m)
  then have lt: "n < length (ti_tiers s)" by simp
  note bi = tinv_nth [OF i lt]
  have up: "[n ..< n + Suc m] = n # [Suc n ..< Suc n + m]" by (simp add: upt_conv_Cons)
  have nth: "shown s b k ! n = bview (ti_tiers s ! n) b k" using lt by (simp add: shown_def)
  show ?case
  proof (cases "bview (ti_tiers s ! n) b k")
    case None
    have r': "read_tiers B b k [Suc n ..< Suc n + m] s = (rd, s')"
      using Suc.prems(3) exists_None [OF bi g None] unfolding up by simp
    have "\<forall>j < Suc n. shown s b k ! j = None" using Suc.prems(2) None nth by (auto simp: less_Suc_eq)
    from Suc.IH [OF _ this r'] Suc.prems(1) show ?thesis by simp
  next
    case (Some d)
    then have v: "tview bview s b k = Some d"
      using first_hit_at [of n "shown s b k" d] Suc.prems(2) lt nth by (simp add: tview_shown) (simp add: shown_def)
    have ex: "b_Exists B (ti_tiers s ! n) b k = Inr True" using exists_Some [OF bi g] Some by simp
    show ?thesis
    proof (cases "n = 0")
      case True
      have "read_tier B b k 0 (recordAccess b k 0 s) = (rd, s')" using Suc.prems(3) ex True unfolding up by simp
      from read_tier_spec [OF _ g _ this] i lt True Some v show ?thesis by simp
    next
      case False
      obtain pr s1 where p: "promote B b k n s = (pr, s1)" by force
      have mv: "movable n 0 (shown s b k)" using False lt Suc.prems(2) by (auto simp: movable_def shown_def)
      note ms = moveObject_spec [OF i g mv p [unfolded promote_def]]
      show ?thesis
      proof (cases pr)
        case (Inl e)
        have rt: "read_tier B b k n (recordAccess b k n s1) = (rd, s')"
          using Suc.prems(3) ex False p Inl unfolding up by simp
        have "shown s1 b k ! n = Some d" using ms Inl nth Some by simp
        then have "bview (ti_tiers s1 ! n) b k = Some d" using ms lt by (simp add: shown_def)
        with read_tier_spec [OF _ g _ rt] ms lt v show ?thesis by simp
      next
        case (Inr u)
        have rt: "read_tier B b k 0 (recordAccess b k 0 s1) = (rd, s')"
          using Suc.prems(3) ex False p Inr unfolding up by simp
        obtain d' where sh: "shown s b k ! n = Some d'" "shown s1 b k = (shown s b k)[0 := Some d', n := None]"
          using ms Inr by auto
        have "shown s1 b k ! 0 = Some d" using sh nth Some False lt by (cases n; cases "ti_tiers s") (auto simp: shown_def [of s])
        moreover have l: "0 < length (ti_tiers s1)" using ms lt by linarith
        ultimately have "bview (ti_tiers s1 ! 0) b k = Some d" by (simp add: shown_def)
        with read_tier_spec [OF _ g _ rt] ms l v show ?thesis by simp
      qed
    qed
  qed
qed

lemma tiered_Read_spec:
  assumes i: "tinv binv s" and g: "good b k" and r: "tiered_Read B s b k = (rd, s')"
  shows "tinv binv s' \<and> tview bview s' = tview bview s \<and>
    (case tview bview s b k of Some d \<Rightarrow> rd = reader_of d | None \<Rightarrow> rd_err rd \<noteq> None)"
  using read_tiers_spec [OF i g, of 0 "length (ti_tiers s)" rd s'] r by (simp add: tiered_Read_def)

text \<open>Deleting removes the object from every tier.\<close>

lemma delete_tiers_spec:
  assumes "\<forall>t \<in> set ts. binv t" and g: "good b k" and "delete_tiers B b k ts le = (le', ts')"
  shows "le' = le \<and> (\<forall>t \<in> set ts'. binv t) \<and> length ts' = length ts \<and>
    (\<forall>j < length ts. bview (ts' ! j) = (bview (ts ! j))(b := (bview (ts ! j) b)(k := None)))"
  using assms(1,3)
proof (induction ts arbitrary: le le' ts')
  case (Cons t ts)
  obtain t' where d: "b_Delete B t b k = (Inr (), t')" using delete_total [OF _ g, of t] Cons.prems(1) by auto
  obtain ts1 where r: "delete_tiers B b k ts le = (le', ts1)" and ts': "ts' = t' # ts1"
    using Cons.prems(2) d by (auto split: prod.splits)
  note IH = Cons.IH [OF _ r]
  have "binv t' \<and> bview t' = (bview t)(b := (bview t b)(k := None))" using delete_ok [OF _ g d] Cons.prems(1) by simp
  with IH Cons.prems(1) ts' show ?case by (auto simp: nth_Cons fun_eq_iff split: nat.split)
qed simp

lemma tiered_Delete_spec:
  assumes i: "tinv binv s" and g: "good b k" and d: "tiered_Delete B s b k = (res, s')"
  shows "res = Inr () \<and> tinv binv s' \<and> tview bview s' = (tview bview s)(b := (tview bview s b)(k := None))"
proof -
  obtain le ts where r: "delete_tiers B b k (ti_tiers s) None = (le, ts)" by force
  have bi: "\<forall>t \<in> set (ti_tiers s). binv t" using i by (simp add: tinv_def)
  note sp = delete_tiers_spec [OF bi g r]
  have s': "ti_tiers s' = ts" "ti_configs s' = ti_configs s" "res = Inr ()"
    using d r sp by (auto simp: tiered_Delete_def)
  have sh: "shown s' b' k' = (if b' = b \<and> k' = k then replicate (length ts) None else shown s b' k')" for b' k'
    by (rule nth_equalityI) (use sp s' in \<open>auto simp: shown_def\<close>)
  have "tinv binv s'" using i sp s' by (auto simp: tinv_def)
  moreover have "first_hit (replicate (length ts) None) = None" by (auto simp: first_hit_None)
  then have "tview bview s' = (tview bview s)(b := (tview bview s b)(k := None))"
    using sh by (auto simp: fun_eq_iff tview_shown)
  ultimately show ?thesis using s' by simp
qed

text \<open>Looking.\<close>

lemma exists_tiers_spec:
  "\<forall>t \<in> set ts. binv t \<Longrightarrow> good b k \<Longrightarrow> exists_tiers B b k ts = Inr (first_hit (map (\<lambda>t. bview t b k) ts) \<noteq> None)"
proof (induction ts)
  case (Cons t ts)
  then show ?case using exists_None [of t b k] exists_Some [of t b k] by (cases "bview t b k") auto
qed simp

lemma stat_tiers_spec:
  "\<forall>t \<in> set ts. binv t \<Longrightarrow> good b k \<Longrightarrow> first_hit (map (\<lambda>t. bview t b k) ts) = Some d \<Longrightarrow>
   \<exists>i. stat_tiers B b k ts = Inr i \<and> oi_Size i = byte_count d"
proof (induction ts)
  case (Cons t ts)
  then show ?case using exists_None [of t b k] exists_Some [of t b k] stat_Some [of t b k d] by (cases "bview t b k") auto
qed simp

lemma tiered_object_backend: "object_backend (tiered_backend B) (tview bview) (tinv binv) good"
proof (unfold_locales, simp_all only: tiered_backend_def backend_ops.simps)
  fix s s' b k r sz res
  assume i: "tinv binv s" and g: "good b k" and w: "tiered_Write B s b k r sz = (res, s')"
  show "tinv binv s'" using tiered_Write_spec [OF i g w] by blast
next
  fix s s' b k r sz n
  assume i: "tinv binv s" and g: "good b k" and w: "tiered_Write B s b k r sz = (Inr n, s')"
  show "rd_err r = None \<and> n = byte_count (rd_data r) \<and> tview bview s' = (tview bview s)(b := (tview bview s b)(k \<mapsto> rd_data r))"
    using tiered_Write_spec [OF i g w] by simp
next
  fix s s' b k r sz e
  assume i: "tinv binv s" and g: "good b k" and w: "tiered_Write B s b k r sz = (Inl e, s')"
  show "tview bview s' = tview bview s" using tiered_Write_spec [OF i g w] by simp
next
  fix s s' b k rd
  assume i: "tinv binv s" and g: "good b k" and r: "tiered_Read B s b k = (rd, s')"
  show "tinv binv s' \<and> tview bview s' = tview bview s" using tiered_Read_spec [OF i g r] by blast
next
  fix s b k d
  assume i: "tinv binv s" and g: "good b k" and v: "tview bview s b k = Some d"
  show "fst (tiered_Read B s b k) = reader_of d"
    using tiered_Read_spec [OF i g prod.collapse [symmetric]] v by simp
next
  fix s b k
  assume i: "tinv binv s" and g: "good b k" and v: "tview bview s b k = None"
  show "rd_err (fst (tiered_Read B s b k)) \<noteq> None"
    using tiered_Read_spec [OF i g prod.collapse [symmetric]] v by simp
next
  fix s s' b k u
  assume i: "tinv binv s" and g: "good b k" and d: "tiered_Delete B s b k = (Inr u, s')"
  show "tinv binv s' \<and> tview bview s' = (tview bview s)(b := (tview bview s b)(k := None))"
    using tiered_Delete_spec [OF i g d] by blast
next
  fix s s' b k e
  assume i: "tinv binv s" and g: "good b k" and d: "tiered_Delete B s b k = (Inl e, s')"
  show "tinv binv s' \<and> tview bview s' = tview bview s \<and> tview bview s b k = None"
    using tiered_Delete_spec [OF i g d] by simp
next
  fix s b k
  assume i: "tinv binv s" and g: "good b k" and v: "tview bview s b k \<noteq> None"
  show "tiered_Exists B s b k = Inr True"
    using exists_tiers_spec [of "ti_tiers s" b k] i g v by (simp add: tiered_Exists_def tinv_def tview_def)
next
  fix s b k d
  assume i: "tinv binv s" and g: "good b k" and v: "tview bview s b k = Some d"
  show "\<exists>i. tiered_Stat B s b k = Inr i \<and> oi_Size i = byte_count d"
    using stat_tiers_spec [of "ti_tiers s" b k d] i g v by (simp add: tiered_Stat_def tinv_def tview_def)
qed simp_all

text \<open>So tiers may be stacked.\<close>

lemma tiered_tier_backend: "tier_backend (tiered_backend B) (tview bview) (tinv binv) good"
proof (intro tier_backend.intro tiered_object_backend tier_backend_axioms.intro)
  fix s b k
  assume i: "tinv binv s" and g: "good b k"
  show "\<exists>s'. b_Delete (tiered_backend B) s b k = (Inr (), s')"
    using tiered_Delete_spec [OF i g prod.collapse [symmetric]] by (simp add: tiered_backend_def prod_eq_iff)
  assume v: "tview bview s b k = None"
  show "b_Exists (tiered_backend B) s b k = Inr False"
    using exists_tiers_spec [of "ti_tiers s" b k] i g v by (simp add: tiered_backend_def tiered_Exists_def tinv_def tview_def)
qed

section \<open>Demotion\<close>

text \<open>
  The worker moves whatever the records say, and the records may be wrong: no object changes. The name of
  an object is only good when its bucket and key can be told from the key of the record.
\<close>

lemma demote_one_spec:
  assumes i: "tinv binv s" and g: "\<And>b k. splitObjKey objKey = (b, k) \<Longrightarrow> b \<noteq> [] \<Longrightarrow> k \<noteq> [] \<Longrightarrow> good b k"
  shows "tinv binv (demote_one B objKey s) \<and> tview bview (demote_one B objKey s) = tview bview s"
proof (cases "ti_access s objKey")
  case None
  with i show ?thesis by (simp add: demote_one_def)
next
  case (Some rec)
  obtain b k where sp: "splitObjKey objKey = (b, k)" by force
  show ?thesis
  proof (cases "cold s rec \<and> b \<noteq> [] \<and> k \<noteq> []")
    case False
    with i Some sp show ?thesis by (auto simp: demote_one_def)
  next
    case True
    obtain res s1 where d: "demote B b k (ar_tier rec) (ar_tier rec + 1) s = (res, s1)" by force
    have "ar_tier rec + 1 < length (ti_tiers s)" using True i by (auto simp: cold_def Let_def tinv_def split: if_splits)
    then have "movable (ar_tier rec) (ar_tier rec + 1) (shown s b k)" by (simp add: movable_def shown_def)
    from moveObject_spec [OF i _ this d [unfolded demote_def]] g [OF sp] True Some sp d
    show ?thesis by (cases res) (auto simp: demote_one_def Let_def split: option.split)
  qed
qed

lemma runDemotion_spec:
  assumes "tinv binv s" and "\<And>objKey b k. objKey \<in> set order \<Longrightarrow> splitObjKey objKey = (b, k) \<Longrightarrow> b \<noteq> [] \<Longrightarrow> k \<noteq> [] \<Longrightarrow> good b k"
  shows "tinv binv (runDemotion B order s) \<and> tview bview (runDemotion B order s) = tview bview s"
  using assms
proof (induction order arbitrary: s)
  case Nil
  then show ?case by (simp add: runDemotion_def)
next
  case (Cons x xs)
  have d: "tinv binv (demote_one B x s)" "tview bview (demote_one B x s) = tview bview s"
    using demote_one_spec [OF Cons.prems(1), of x] Cons.prems(2) [of x] by auto
  have g: "good b k" if "ok \<in> set xs" "splitObjKey ok = (b, k)" "b \<noteq> []" "k \<noteq> []" for ok b k
    using Cons.prems(2) [of ok b k] that by simp
  have "tinv binv (runDemotion B xs (demote_one B x s)) \<and>
      tview bview (runDemotion B xs (demote_one B x s)) = tview bview (demote_one B x s)"
    by (rule Cons.IH [OF d(1)]) (rule g)
  with d(2) show ?case by (simp add: runDemotion_def)
qed

text \<open>
  \<open>moveObject\<close> takes no lock. A write that is acknowledged after the demotion has read the old object is
  lost: the demotion stores what it has read and deletes the new object.
\<close>

lemma demotion_loses_write:
  assumes i: "tinv binv s" and g: "good b k" and two: "1 < length (ti_tiers s)"
    and 1: "move_read B b k 0 s = (Inr d, s1)" and 2: "tiered_Write B s1 b k r sz = (Inr n, s2)"
    and 3: "move_write B b k 1 d s2 = (Inr (), s3)" and 4: "move_delete B b k 0 s3 = (res, s4)"
  shows "tview bview s4 b k = Some d"
proof -
  have l0: "0 < length (ti_tiers s)" using two by linarith
  have i1: "tinv binv s1" and l1: "length (ti_tiers s1) = length (ti_tiers s)" using move_read_spec [OF i g l0 1] by auto
  have i2: "tinv binv s2" using tiered_Write_spec [OF i1 g 2] by auto
  have l2: "length (ti_tiers s2) = length (ti_tiers s)"
    using 2 l1 by (auto simp: tiered_Write_def split: prod.splits sum.splits)
  have lt: "1 < length (ti_tiers s2)" using l2 two by simp
  note p3 = move_write_spec [OF i2 g lt 3] and sh3 = move_write_shown [OF i2 g lt 3]
  have i3: "tinv binv s3" and l3: "0 < length (ti_tiers s3)" using p3 lt by linarith+
  have "shown s4 b k = (shown s2 b k)[1 := Some d, 0 := None]" using move_delete_shown [OF i3 g l3 4] sh3 by simp
  moreover obtain t0 t1 ts where "ti_tiers s2 = t0 # t1 # ts"
    using lt by (metis One_nat_def Suc_lessE length_Suc_conv less_numeral_extra(3) list.size(3) neq_Nil_conv)
  ultimately show ?thesis by (simp add: tview_shown) (simp add: shown_def)
qed

end

end
