(* ===== verification/Tiered_Props.thy ===== *)
theory Tiered_Props
  imports Tiered_Correct
begin

text \<open>
  The tiers that \<open>New\<close> makes, which are local file systems, and the properties of the tiered backend over
  them. They hold for keys without a slash; the examples at the end show what goes wrong with others,
  and what a write during a demotion does.
\<close>

text \<open>What the interface \<open>backend.Backend\<close> shows of a local file system.\<close>

definition localfs_tier :: "local_fs backend_ops" where
  "localfs_tier = localfs_backend\<lparr>b_CreateBucketDir := None, b_DeleteBucketDir := None\<rparr>"

definition flat_good :: "string \<Rightarrow> string \<Rightarrow> bool" where
  "flat_good b k \<longleftrightarrow> localfs_good b k \<and> SLASH \<notin> set k"

text \<open>No file stands where a bucket may be, no directory where an object may be.\<close>

definition flat_fs :: "string list \<Rightarrow> fs \<Rightarrow> bool" where
  "flat_fs R fs \<longleftrightarrow> (\<forall>b. \<forall>q \<in> set (parents (R @ [b, []])). \<forall>d t. lookup fs q \<noteq> Some (File d t)) \<and>
     (\<forall>q. length q = length R + 2 \<longrightarrow> lookup fs q \<noteq> Some Dir)"

definition flat_inv :: "local_fs \<Rightarrow> bool" where
  "flat_inv s \<longleftrightarrow> lfs_inv s \<and> flat_fs (clean_comps (lf_root s)) (lf_fs s)"

lemma Split_none: "d \<notin> set s \<Longrightarrow> Split d s = [s]"
  by (induction s) auto

lemma flat_path: "flat_good b k \<Longrightarrow> object_path R b k = clean_comps R @ [b, k]"
  by (simp add: flat_good_def object_path_def Split_none)

text \<open>What the calls of \<open>Write\<close> and \<open>Delete\<close> may do to a flat tree.\<close>

definition flat_change :: "string list \<Rightarrow> fs \<Rightarrow> fs \<Rightarrow> bool" where
  "flat_change R fs fs' \<longleftrightarrow>
     (\<forall>q. length q \<noteq> length R + 2 \<longrightarrow> (\<forall>d t. lookup fs' q = Some (File d t) \<longrightarrow> lookup fs q = Some (File d t))) \<and>
     (\<forall>q. length q = length R + 2 \<longrightarrow> lookup fs' q = Some Dir \<longrightarrow> lookup fs q = Some Dir)"

lemma flat_change_refl: "flat_change R fs fs"
  by (simp add: flat_change_def)

lemma flat_change_trans: "flat_change R fs fs1 \<Longrightarrow> flat_change R fs1 fs2 \<Longrightarrow> flat_change R fs fs2"
  by (simp add: flat_change_def)

lemma flat_change_fs: "flat_change R fs fs' \<Longrightarrow> flat_fs R fs \<Longrightarrow> flat_fs R fs'"
proof -
  assume c: "flat_change R fs fs'" and f: "flat_fs R fs"
  have "length q \<noteq> length R + 2" if "q \<in> set (parents (R @ [b, []]))" for q b
    using parents_length [OF that] by simp
  with c f show ?thesis unfolding flat_fs_def flat_change_def by metis
qed

lemma flat_update: "length p = length R + 2 \<Longrightarrow> flat_change R fs (AList.update p (File d t) fs)"
  by (cases "p = []") (auto simp: flat_change_def lookup_update)

lemma flat_delete: "p \<noteq> [] \<Longrightarrow> flat_change R fs (AList.delete p fs)"
  by (simp add: flat_change_def lookup_delete)

lemma flat_mkdirs:
  assumes "fs_wf fs" and "os_MkdirAll fs p = (e, fs')" and "length p < length R + 2"
  shows "flat_change R fs fs'"
  using os_MkdirAll_ok [OF assms(1,2)] os_MkdirAll_far [OF assms(2)] assms(3)
  by (auto simp: flat_change_def same_files_def)

lemma flat_remove: "os_Remove fs p = Inr fs' \<Longrightarrow> flat_change R fs fs'"
proof -
  assume r: "os_Remove fs p = Inr fs'"
  have "p \<noteq> [] \<and> fs' = AList.delete p fs"
  proof (cases "os_Stat fs p")
    case (Inr n)
    with r show ?thesis by (cases n; cases "p = []") (auto simp: os_Remove_def os_Stat_def lookup_def split: if_splits option.splits)
  qed (use r in \<open>simp add: os_Remove_def\<close>)
  then show ?thesis using flat_delete by blast
qed

lemma flat_remove_quiet: "flat_change R fs (remove_quiet fs p)"
  using flat_remove [of fs p] flat_change_refl by (auto simp: remove_quiet_def split: sum.split)

lemma flat_rename:
  assumes "os_Rename fs p q = Inr fs'" and "lookup fs p = Some (File d t)" and "p \<noteq> []" and "length q = length R + 2"
  shows "flat_change R fs fs'"
proof -
  have "fs' = AList.update q (File d t) (AList.delete p fs)"
    using assms(1,2) by (auto simp: os_Rename_def split: sum.splits node.splits if_splits dest!: os_Stat_Inr)
  then show ?thesis using flat_change_trans [OF flat_delete [OF assms(3)] flat_update [OF assms(4)]] by simp
qed

lemma flat_Write:
  assumes i: "flat_inv s" and g: "flat_good b k" and w: "localfs_Write s b k r sz = (res, s')"
  shows "flat_inv s'"
proof -
  let ?R = "clean_comps (lf_root s)"
  have li: "lfs_inv s" and lg: "localfs_good b k" using i g by (auto simp: flat_inv_def flat_good_def)
  have wf: "fs_wf (lf_fs s)" using li by (simp add: lfs_inv_def)
  obtain p where p: "safePath (lf_root s) b k = Inr p" "os_path p = ?R @ [b, k]"
    using safePath_good [of "lf_root s" b k] li lg flat_path [OF g, of "lf_root s"] by (auto simp: lfs_inv_def)
  let ?d = "?R @ [b]"
  have bl: "butlast (?R @ [b, k]) = ?d" by (simp add: butlast_append)
  obtain e1 fs1 where m: "os_MkdirAll (lf_fs s) ?d = (e1, fs1)" by force
  have c1: "flat_change ?R (lf_fs s) fs1" by (rule flat_mkdirs [OF wf m]) simp
  have "flat_change ?R (lf_fs s) (lf_fs s')"
  proof (cases e1)
    case (Some e)
    with w p m c1 bl show ?thesis by (auto simp: localfs_Write_def Let_def)
  next
    case None
    show ?thesis
    proof (cases "os_CreateTemp fs1 ?d (lf_seed s) (lf_clock s)")
      case (Inl e)
      with w p m c1 bl None show ?thesis by (auto simp: localfs_Write_def Let_def)
    next
      case (Inr a)
      obtain tmp fs2 where a: "a = (tmp, fs2)" by force
      from os_CreateTemp_ok [OF Inr [unfolded a]] obtain j where
        t: "tmp = ?d @ [tmp_name j]" "fs2 = AList.update tmp (File [] (lf_clock s)) fs1" by blast
      define fs3 where "fs3 = AList.update tmp (File (rd_data r) (lf_clock s)) fs2"
      have lt: "length tmp = length ?R + 2" and ne: "tmp \<noteq> []" using t by auto
      have c3: "flat_change ?R (lf_fs s) fs3"
        unfolding fs3_def t(2) by (rule flat_change_trans [OF c1 flat_change_trans [OF flat_update [OF lt] flat_update [OF lt]]])
      have l3: "lookup fs3 tmp = Some (File (rd_data r) (lf_clock s))" unfolding fs3_def using ne by (simp add: lookup_update)
      have c4: "flat_change ?R (lf_fs s) fs4" if "os_Rename fs3 tmp (?R @ [b, k]) = Inr fs4" for fs4
        by (rule flat_change_trans [OF c3 flat_rename [OF that l3 ne]]) simp
      have rq: "flat_change ?R (lf_fs s) (remove_quiet fs' tmp)" if "flat_change ?R (lf_fs s) fs'" for fs'
        by (rule flat_change_trans [OF that flat_remove_quiet])
      show ?thesis
        using w p m bl None Inr a rq [OF c3] rq [OF c4]
        by (auto simp: localfs_Write_def Let_def fs3_def split: option.splits sum.splits)
    qed
  qed
  moreover have "lfs_inv s'" "lf_root s' = lf_root s" using localfs_Write_spec [OF li lg w] by auto
  ultimately show ?thesis using i flat_change_fs by (auto simp: flat_inv_def)
qed

text \<open>On a flat tree, a path of an object holds a file or nothing.\<close>

lemma flat_Stat:
  assumes i: "flat_inv s" and g: "flat_good b k"
  obtains p where "safePath (lf_root s) b k = Inr p"
    and "(\<exists>d t. os_Stat (lf_fs s) (os_path p) = Inr (File d t) \<and> lfs_view s b k = Some d) \<or>
      os_Stat (lf_fs s) (os_path p) = Inl ENOENT \<and> lfs_view s b k = None"
proof -
  let ?R = "clean_comps (lf_root s)" and ?fs = "lf_fs s"
  have li: "lfs_inv s" and lg: "localfs_good b k" and fl: "flat_fs ?R ?fs" using i g by (auto simp: flat_inv_def flat_good_def)
  obtain p where p: "safePath (lf_root s) b k = Inr p" "os_path p = ?R @ [b, k]"
    using safePath_good [of "lf_root s" b k] li lg flat_path [OF g, of "lf_root s"] by (auto simp: lfs_inv_def)
  have v: "lfs_view s b k = content ?fs (?R @ [b, k])" using lg flat_path [OF g] by (simp add: lfs_view_def)
  have nf: "list_all nulfree (?R @ [b, k])"
    using li lg by (auto simp: lfs_inv_def root_ok_def localfs_good_def list_all_iff)
  have par: "parents (?R @ [b, k]) = parents (?R @ [b, []])" by (simp add: parents_snoc [of "?R @ [b]", simplified])
  have nofile: "lookup ?fs q \<noteq> Some (File d t)" if "q \<in> set (parents (?R @ [b, k]))" for q d t
    using fl that unfolding par flat_fs_def by blast
  have nodir: "lookup ?fs (?R @ [b, k]) \<noteq> Some Dir" using fl by (simp add: flat_fs_def)
  show thesis
  proof (rule that [OF p(1)], cases "os_Stat ?fs (os_path p)")
    case (Inr n)
    then have "lookup ?fs (?R @ [b, k]) = Some n" using os_Stat_Inr p by auto
    with nodir v Inr show "(\<exists>d t. os_Stat ?fs (os_path p) = Inr (File d t) \<and> lfs_view s b k = Some d) \<or>
      os_Stat ?fs (os_path p) = Inl ENOENT \<and> lfs_view s b k = None" by (cases n) (auto simp: content_def)
  next
    case (Inl e)
    have "e = ENOENT \<and> lookup ?fs (?R @ [b, k]) = None"
    proof (cases "walk_err ?fs (?R @ [b, k])")
      case None
      with Inl p show ?thesis by (auto simp: os_Stat_def split: option.splits)
    next
      case (Some e')
      then obtain q where q: "List.find (\<lambda>q. lookup ?fs q \<noteq> Some Dir) (parents (?R @ [b, k])) = Some q"
        and e': "e' = (if lookup ?fs q = None then ENOENT else ENOTDIR)"
        using nf by (auto simp: walk_err_def list_all_iff list_ex_iff split: option.splits if_splits)
      have qp: "q \<in> set (parents (?R @ [b, k]))" and "lookup ?fs q \<noteq> Some Dir"
        using q by (auto simp: find_Some_iff)
      then have qn: "lookup ?fs q = None" using nofile [OF qp] by (metis node.exhaust option.exhaust)
      have "lookup ?fs (?R @ [b, k]) = None"
        using fs_wf_lookup [of ?fs "?R @ [b, k]"] li qp qn by (fastforce simp: lfs_inv_def)
      with Inl p Some e' qn show ?thesis by (simp add: os_Stat_def)
    qed
    with v Inl show "(\<exists>d t. os_Stat ?fs (os_path p) = Inr (File d t) \<and> lfs_view s b k = Some d) \<or>
      os_Stat ?fs (os_path p) = Inl ENOENT \<and> lfs_view s b k = None" by (simp add: content_def)
  qed
qed

lemma flat_Exists_None: "flat_inv s \<Longrightarrow> flat_good b k \<Longrightarrow> lfs_view s b k = None \<Longrightarrow> localfs_Exists s b k = Inr False"
  by (erule (1) flat_Stat) (auto simp: localfs_Exists_def)

lemma flat_Delete_total: "flat_inv s \<Longrightarrow> flat_good b k \<Longrightarrow> \<exists>s'. localfs_Delete s b k = (Inr (), s')"
  by (erule (1) flat_Stat) (auto simp: localfs_Delete_def os_Remove_def)

lemma flat_Delete:
  assumes i: "flat_inv s" and g: "flat_good b k" and d: "localfs_Delete s b k = (res, s')"
  shows "flat_inv s'"
proof -
  have li: "lfs_inv s" and lg: "localfs_good b k" using i g by (auto simp: flat_inv_def flat_good_def)
  have "lf_root s' = lf_root s \<and> flat_change (clean_comps (lf_root s)) (lf_fs s) (lf_fs s')"
    using d flat_remove flat_change_refl by (auto simp: localfs_Delete_def split: sum.splits if_splits)
  then show ?thesis using i flat_change_fs localfs_Delete_spec [OF li lg d] by (auto simp: flat_inv_def)
qed

lemma flatD: "flat_inv s \<Longrightarrow> lfs_inv s" "flat_good b k \<Longrightarrow> localfs_good b k"
  by (auto simp: flat_inv_def flat_good_def)

lemma flat_object_backend: "object_backend localfs_tier lfs_view flat_inv flat_good"
proof (unfold_locales, simp_all only: localfs_tier_def localfs_backend_def backend_ops.simps)
  show "flat_inv s \<Longrightarrow> flat_good b k \<Longrightarrow> localfs_Write s b k r sz = (res, s') \<Longrightarrow> flat_inv s'" for s s' b k r sz res
    by (rule flat_Write)
  show "flat_inv s \<Longrightarrow> flat_good b k \<Longrightarrow> localfs_Delete s b k = (Inr u, s') \<Longrightarrow>
      flat_inv s' \<and> lfs_view s' = (lfs_view s)(b := (lfs_view s b)(k := None))" for s s' b k u
    using flat_Delete lfs_delete_ok flatD by blast
  show "flat_inv s \<Longrightarrow> flat_good b k \<Longrightarrow> localfs_Delete s b k = (Inl e, s') \<Longrightarrow>
      flat_inv s' \<and> lfs_view s' = lfs_view s \<and> lfs_view s b k = None" for s s' b k e
    using flat_Delete lfs_delete_err flatD by blast
  show "flat_inv s \<Longrightarrow> flat_good b k \<Longrightarrow> localfs_Write s b k r sz = (Inr n, s') \<Longrightarrow>
      rd_err r = None \<and> n = byte_count (rd_data r) \<and> lfs_view s' = (lfs_view s)(b := (lfs_view s b)(k \<mapsto> rd_data r))"
    for s s' b k r sz n using lfs_write_ok flatD by blast
  show "flat_inv s \<Longrightarrow> flat_good b k \<Longrightarrow> localfs_Write s b k r sz = (Inl e, s') \<Longrightarrow> lfs_view s' = lfs_view s"
    for s s' b k r sz e using lfs_write_err flatD by blast
  show "flat_inv s \<Longrightarrow> flat_good b k \<Longrightarrow> lfs_view s b k \<noteq> None \<Longrightarrow> localfs_Exists s b k = Inr True" for s b k
    using lfs_exists flatD by blast
qed (auto simp: flatD localfs_Read_Some localfs_Read_None localfs_Stat_Some)

interpretation flat: tier_backend localfs_tier lfs_view flat_inv flat_good
proof (intro tier_backend.intro flat_object_backend tier_backend_axioms.intro)
  show "flat_inv s \<Longrightarrow> flat_good b k \<Longrightarrow> lfs_view s b k = None \<Longrightarrow> b_Exists localfs_tier s b k = Inr False" for s b k
    by (simp add: localfs_tier_def localfs_backend_def flat_Exists_None)
  show "flat_inv s \<Longrightarrow> flat_good b k \<Longrightarrow> \<exists>s'. b_Delete localfs_tier s b k = (Inr (), s')" for s b k
    by (simp add: localfs_tier_def localfs_backend_def flat_Delete_total)
qed

section \<open>The contract\<close>


section \<open>Demotion\<close>

lemma splitObjKey_obj_key: "SLASH \<notin> set b \<Longrightarrow> splitObjKey (obj_key b k) = (b, k)"
proof -
  assume b: "SLASH \<notin> set b"
  then have "takeWhile (\<lambda>c. c \<noteq> SLASH) (b @ SLASH # k) = b \<and> dropWhile (\<lambda>c. c \<noteq> SLASH) (b @ SLASH # k) = SLASH # k"
    by (induction b) auto
  then show ?thesis by (simp add: splitObjKey_def obj_key_def)
qed

lemma flat_good_slash: "flat_good b k \<Longrightarrow> SLASH \<notin> set b"
  by (auto simp: flat_good_def localfs_good_def proper_def)

text \<open>The keys under which the records of flat objects are kept.\<close>

definition flat_keys :: "string list \<Rightarrow> bool" where
  "flat_keys order \<longleftrightarrow> (\<forall>x \<in> set order. \<exists>b k. flat_good b k \<and> x = obj_key b k)"

lemma flat_keys_good: "flat_keys order \<Longrightarrow> x \<in> set order \<Longrightarrow> splitObjKey x = (b, k) \<Longrightarrow> flat_good b k"
  using splitObjKey_obj_key flat_good_slash by (fastforce simp: flat_keys_def)


section \<open>Two tiers\<close>

text \<open>A hot and a cold tier in two empty directories; objects are demoted after 3600 nanoseconds.\<close>

definition two_tiers :: "local_fs tiered" where
  "two_tiers = \<lparr>ti_tiers = [\<lparr>lf_root = ''/hot'', lf_fs = [([''hot''], Dir)], lf_seed = 0, lf_clock = 5\<rparr>,
       \<lparr>lf_root = ''/cold'', lf_fs = [([''cold''], Dir)], lf_seed = 0, lf_clock = 5\<rparr>],
     ti_configs = [\<lparr>tc_Name = ''hot'', tc_Backend = [], tc_DataDir = ''/hot'', tc_DemoteAfter = 3600, tc_MaxSize = 0\<rparr>,
       \<lparr>tc_Name = ''cold'', tc_Backend = [], tc_DataDir = ''/cold'', tc_DemoteAfter = 0, tc_MaxSize = 0\<rparr>],
     ti_access = (\<lambda>_. None), ti_now = 0\<rparr>"

definition after_put :: "local_fs tiered" where
  "after_put = snd (tiered_Write localfs_tier two_tiers ''bkt'' ''a'' (reader_of ''old'') 3)"

definition later :: "local_fs tiered \<Rightarrow> local_fs tiered" where
  "later s = s\<lparr>ti_now := 5000\<rparr>"

lemma demotion_moves:
  "map (\<lambda>t. localfs_Exists t ''bkt'' ''a'') (ti_tiers after_put) = [Inr True, Inr False]"
  "map (\<lambda>t. localfs_Exists t ''bkt'' ''a'') (ti_tiers (runDemotion localfs_tier [''bkt/a''] (later after_put))) = [Inr False, Inr True]"
  by code_simp+

lemma two_tiers_inv: "tinv flat_inv two_tiers"
proof -
  have f: "flat_inv \<lparr>lf_root = r, lf_fs = [([c], Dir)], lf_seed = 0, lf_clock = 5\<rparr>"
    if "root_ok r" "clean_comps r = [c]" "nulfree c" for r c
    using that by (auto simp: flat_inv_def lfs_inv_def fs_wf_def flat_fs_def parents_def lookup_def)
  have "root_ok ''/hot''" "root_ok ''/cold''" "clean_comps ''/hot'' = [''hot'']" "clean_comps ''/cold'' = [''cold'']"
    "nulfree ''hot''" "nulfree ''cold''"
    by code_simp+
  then show ?thesis by (simp add: tinv_def two_tiers_def f)
qed

lemma bkt_a_flat: "flat_good ''bkt'' ''a''" "tiered_Write localfs_tier two_tiers ''bkt'' ''a'' (reader_of ''old'') 3 = (Inr 3, after_put)"
proof -
  show "flat_good ''bkt'' ''a''" by code_simp
  have "fst (tiered_Write localfs_tier two_tiers ''bkt'' ''a'' (reader_of ''old'') 3) = Inr 3" by code_simp
  then show "tiered_Write localfs_tier two_tiers ''bkt'' ''a'' (reader_of ''old'') 3 = (Inr 3, after_put)"
    by (simp add: after_put_def prod_eq_iff)
qed

lemma after_put_ok: "tinv flat_inv (later after_put)" "tview lfs_view (later after_put) ''bkt'' ''a'' = Some ''old''"
proof -
  have "tinv flat_inv after_put \<and> tview lfs_view after_put ''bkt'' ''a'' = Some ''old''"
    using flat.tiered_Write_spec [OF two_tiers_inv bkt_a_flat] by auto
  moreover have "tinv flat_inv (later s) = tinv flat_inv s" "tview lfs_view (later s) = tview lfs_view s" for s
    by (simp_all add: later_def tinv_def tview_def fun_eq_iff)
  ultimately show "tinv flat_inv (later after_put)" "tview lfs_view (later after_put) ''bkt'' ''a'' = Some ''old''" by simp_all
qed


text \<open>
  With a slash in a key: \<open>a\<close> has been demoted, \<open>a/b\<close> is put, and the directory it makes in the hot tier
  stands for \<open>a\<close>. The object is there and cannot be read.
\<close>

lemma directory_hides_demoted_object:
  "let s = runDemotion localfs_tier [''bkt/a''] (later after_put);
       s' = snd (tiered_Write localfs_tier s ''bkt'' ''a/b'' (reader_of ''x'') 1)
   in rd_data (localfs_Read (ti_tiers s' ! 1) ''bkt'' ''a'') = ''old'' \<and>
      rd_err (fst (tiered_Read localfs_tier s' ''bkt'' ''a'')) = Some (Wrap ''localfs read: copy'' (OsError EISDIR))"
  by code_simp

text \<open>A write between the steps of a demotion: \<open>new\<close> was acknowledged, and \<open>old\<close> is read.\<close>

lemma demotion_race:
  "case move_read localfs_tier ''bkt'' ''a'' 0 after_put of (r1, s1) \<Rightarrow>
   case tiered_Write localfs_tier s1 ''bkt'' ''a'' (reader_of ''new'') 3 of (r2, s2) \<Rightarrow>
   case move_write localfs_tier ''bkt'' ''a'' 1 ''old'' s2 of (r3, s3) \<Rightarrow>
   case move_delete localfs_tier ''bkt'' ''a'' 0 s3 of (r4, s4) \<Rightarrow>
     r1 = Inr ''old'' \<and> r2 = Inr 3 \<and> r3 = Inr () \<and> r4 = Inr () \<and>
     fst (tiered_Read localfs_tier s4 ''bkt'' ''a'') = reader_of ''old''"
  by code_simp

text \<open>Two tiers with one directory are one tier twice: a move deletes the object it has just written.\<close>

lemma move_within_a_directory_deletes:
  "case moveObject localfs_tier ''bkt'' ''a'' 0 0 after_put of (res, s) \<Rightarrow>
     res = Inr () \<and> tiered_Exists localfs_tier s ''bkt'' ''a'' = Inr False"
  by code_simp

end
