(* ===== verification/S3_Types.thy ===== *)
theory S3_Types
  imports Engine_Buckets Key_Store
begin

text \<open>
  What the HTTP layer of internal/api exchanges. A request is the \<open>request\<close> of the authentication code with
  its body, as bytes and as the XML document they are (\<open>None\<close> when they are none): an XML document is the
  Go value that encoding/xml reads or prints, and decoding into a value of another root element fails.
  An \<open>exchange\<close> is a request on its way through middleware and handler, with the values of its context and
  the response headers set so far.
\<close>

section \<open>XML documents\<close>

type_synonym xml_tag = "string \<times> string"

record xml_cors_rule =
  xc_ID :: string
  xc_AllowedOrigin :: "string list"
  xc_AllowedMethod :: "string list"
  xc_AllowedHeader :: "string list"
  xc_ExposeHeader :: "string list"
  xc_MaxAgeSeconds :: int

record xml_expiration =
  xe_Days :: int
  xe_Date :: string

record xml_lifecycle_rule =
  xl_ID :: string
  xl_Status :: string
  xl_Prefix :: string
  xl_Tag :: "xml_tag list"
  xl_Expiration :: "xml_expiration option"
  xl_AbortDays :: "int option"
  xl_NoncurrentDays :: "int option"

record xml_routing_rule =
  xr_KeyPrefixEquals :: string
  xr_HTTPErrorCodeReturnedEquals :: string
  xr_HostName :: string
  xr_Protocol :: string
  xr_ReplaceKeyPrefixWith :: string
  xr_ReplaceKeyWith :: string
  xr_HTTPRedirectCode :: string

record xml_website =
  xw_IndexDocument :: string
  xw_ErrorDocument :: string
  xw_RoutingRules :: "xml_routing_rule list"

record xml_notif_target =
  xn_ID :: string
  xn_Arn :: string
  xn_Events :: "string list"
  xn_FilterRules :: "(string \<times> string) list"

record xml_notification =
  xn_Queues :: "xml_notif_target list"
  xn_Topics :: "xml_notif_target list"

record xml_replication_rule =
  xp_ID :: string
  xp_Status :: string
  xp_Prefix :: string
  xp_Bucket :: string
  xp_StorageClass :: string
  xp_DeleteMarkerStatus :: string

record xml_replication =
  xp_Role :: string
  xp_Rules :: "xml_replication_rule list"

record list_entry =
  le_Key :: string
  le_LastModified :: time
  le_ETag :: string
  le_Size :: int64
  le_StorageClass :: string

record list_bucket_result =
  lb_Name :: string
  lb_Prefix :: string
  lb_KeyCount :: int
  lb_MaxKeys :: int
  lb_Delimiter :: string
  lb_IsTruncated :: bool
  lb_ContinuationToken :: string
  lb_NextContinuationToken :: string
  lb_StartAfter :: string
  lb_Contents :: "list_entry list"
  lb_CommonPrefixes :: "string list"

record version_entry =
  ve_Key :: string
  ve_VersionID :: string
  ve_IsLatest :: bool
  ve_LastModified :: string
  ve_ETag :: string
  ve_Size :: int64
  ve_StorageClass :: string

record marker_entry =
  me_Key :: string
  me_VersionID :: string
  me_IsLatest :: bool
  me_LastModified :: string

record list_versions_result =
  lv_Name :: string
  lv_Prefix :: string
  lv_MaxKeys :: int
  lv_IsTruncated :: bool
  lv_Versions :: "version_entry list"
  lv_Markers :: "marker_entry list"

datatype xml_doc =
    XTagging "xml_tag list"
  | XCORS "xml_cors_rule list"
  | XLifecycle "xml_lifecycle_rule list"
  | XEncryption "string list"
  | XWebsite xml_website
  | XNotification xml_notification
  | XReplication xml_replication
  | XVersioning string
  | XACL string string
  | XCreateBucket string
  | XDelete bool "(string \<times> string) list"
  | XDeleteResult "string list" "(string \<times> err) list"
  | XListBuckets string string "(string \<times> time) list"
  | XListBucket list_bucket_result
  | XListVersions list_versions_result
  | XListUploads string "(string \<times> string \<times> string) list"
  | XInitiateUpload string string string
  | XCompleteUpload "complete_part list"
  | XCompleteResult string string string string
  | XCopyResult string string

section \<open>Requests, contexts and responses\<close>

record s3_request =
  hq_req :: request
  hq_Body :: reader
  hq_XML :: "xml_doc option"
  hq_ContentLength :: int64
  hq_TLS :: bool
  hq_RemoteAddr :: string

text \<open>
  The values of a request context: middleware and package s3 use a key type each for the request ID, so
  these are two values.
\<close>

record req_context =
  cx_middlewareRequestID :: "string option"
  cx_s3RequestID :: "string option"
  cx_identity :: "VerifiedIdentity option"

record exchange =
  ex_req :: s3_request
  ex_ctx :: req_context
  ex_header :: multi_map

datatype resp_body =
    NoBody
  | RawBody reader
  | TextBody string
  | JsonBody string
  | AuthErrorBody string err
  | XmlError string err string string
  | XmlBody xml_doc

record response =
  rs_Status :: nat
  rs_Header :: multi_map
  rs_Body :: resp_body

definition set_header :: "string \<Rightarrow> string \<Rightarrow> exchange \<Rightarrow> exchange" where
  "set_header k v x = x\<lparr>ex_header := AList.update (CanonicalHeaderKey k) [v] (ex_header x)\<rparr>"

definition WriteHeader :: "nat \<Rightarrow> exchange \<Rightarrow> response" where
  "WriteHeader status x = \<lparr>rs_Status = status, rs_Header = ex_header x, rs_Body = NoBody\<rparr>"

definition respond :: "nat \<Rightarrow> resp_body \<Rightarrow> exchange \<Rightarrow> response" where
  "respond status body x = \<lparr>rs_Status = status, rs_Header = ex_header x, rs_Body = body\<rparr>"

abbreviation x_header :: "exchange \<Rightarrow> string \<Rightarrow> string" where
  "x_header x \<equiv> Header_Get (hq_req (ex_req x))"

abbreviation x_query :: "exchange \<Rightarrow> multi_map" where
  "x_query x \<equiv> URL_Query (hq_req (ex_req x))"

definition query_Has :: "multi_map \<Rightarrow> string \<Rightarrow> bool" where
  "query_Has q k \<longleftrightarrow> map_of q k \<noteq> None"

text \<open>\<open>IdentityFromContext\<close> with its zero value, and the two readers of a request ID.\<close>

definition identityFromContext :: "req_context \<Rightarrow> VerifiedIdentity" where
  "identityFromContext ctx =
     (case cx_identity ctx of
        None \<Rightarrow> \<lparr>vi_AccessKey = [], vi_Owner = [], vi_IsRoot = False\<rparr>
      | Some i \<Rightarrow> i)"

definition requestIDFromContext :: "req_context \<Rightarrow> string" where
  "requestIDFromContext ctx = (case cx_s3RequestID ctx of None \<Rightarrow> [] | Some v \<Rightarrow> v)"

definition RequestIDFromContext :: "req_context \<Rightarrow> string" where
  "RequestIDFromContext ctx = (case cx_middlewareRequestID ctx of None \<Rightarrow> [] | Some v \<Rightarrow> v)"

section \<open>Errors and XML answers\<close>

definition writeError :: "exchange \<Rightarrow> nat \<Rightarrow> string \<Rightarrow> err \<Rightarrow> response" where
  "writeError x statusCode code message =
     (let reqID = requestIDFromContext (ex_ctx x);
          x' = set_header ''x-amz-request-id'' reqID (set_header ''Content-Type'' ''application/xml'' x)
      in respond statusCode (XmlError code message (rq_Path (hq_req (ex_req x))) reqID) x')"

definition writeXML :: "exchange \<Rightarrow> nat \<Rightarrow> xml_doc \<Rightarrow> response" where
  "writeXML x statusCode v =
     (let reqID = requestIDFromContext (ex_ctx x);
          x' = set_header ''x-amz-request-id'' reqID (set_header ''Content-Type'' ''application/xml'' x)
      in respond statusCode (XmlBody v) x')"

fun isBucketNotFound :: "err \<Rightarrow> bool" where
  "isBucketNotFound (BucketNotFoundError _) = True"
| "isBucketNotFound _ = False"

fun isObjectNotFound :: "err \<Rightarrow> bool" where
  "isObjectNotFound (ObjectNotFoundError _ _) = True"
| "isObjectNotFound _ = False"

fun isMultipartNotFound :: "err \<Rightarrow> bool" where
  "isMultipartNotFound (MultipartNotFoundError _) = True"
| "isMultipartNotFound _ = False"

text \<open>A message that is a constant of the source.\<close>

abbreviation msg :: "string \<Rightarrow> err" where
  "msg s \<equiv> Errorf s []"

definition noSuchBucket :: "exchange \<Rightarrow> response" where
  "noSuchBucket x = writeError x 404 ''NoSuchBucket'' (msg ''The specified bucket does not exist'')"

definition noSuchKey :: "exchange \<Rightarrow> response" where
  "noSuchKey x = writeError x 404 ''NoSuchKey'' (msg ''The specified key does not exist'')"

definition noSuchUpload :: "exchange \<Rightarrow> response" where
  "noSuchUpload x = writeError x 404 ''NoSuchUpload'' (msg ''The specified upload does not exist'')"

definition internalError :: "exchange \<Rightarrow> err \<Rightarrow> response" where
  "internalError x err = writeError x 500 ''InternalError'' err"

text \<open>The tail of most bucket handlers: a missing bucket is a 404, anything else a 500.\<close>

definition bucketFailure :: "exchange \<Rightarrow> err \<Rightarrow> response" where
  "bucketFailure x err = (if isBucketNotFound err then noSuchBucket x else internalError x err)"

definition objectFailure :: "exchange \<Rightarrow> err \<Rightarrow> response" where
  "objectFailure x err =
     (if isObjectNotFound err then noSuchKey x
      else if isBucketNotFound err then noSuchBucket x
      else internalError x err)"

definition uploadFailure :: "exchange \<Rightarrow> err \<Rightarrow> response" where
  "uploadFailure x err = (if isMultipartNotFound err then noSuchUpload x else internalError x err)"

definition malformedXML :: "exchange \<Rightarrow> string \<Rightarrow> response" where
  "malformedXML x m = writeError x 400 ''MalformedXML'' (msg m)"

section \<open>Times and numbers\<close>

text \<open>The layouts \<open>2006-01-02\<close>, \<open>2006-01-02T15:04:05.000Z\<close> and \<open>http.TimeFormat\<close>, in UTC.\<close>

definition format_day :: "time \<Rightarrow> string" where
  "format_day t =
     (case civil (t div day_ns + epoch_days) of
        (y, m, d) \<Rightarrow> fmt_int 4 y @ ''-'' @ pad 2 (dec m) @ ''-'' @ pad 2 (dec d))"

definition format_clock :: "time \<Rightarrow> string" where
  "format_clock t =
     (let s = second_of_day t in
      pad 2 (dec (s div 3600)) @ '':'' @ pad 2 (dec (s div 60 mod 60)) @ '':'' @ pad 2 (dec (s mod 60)))"

definition format_millis :: "time \<Rightarrow> string" where
  "format_millis t =
     format_day t @ ''T'' @ format_clock t @ ''.'' @ pad 3 (dec (nat (t mod second_ns div 1000000))) @ ''Z''"

definition weekdays :: "string list" where
  "weekdays = [''Thu'', ''Fri'', ''Sat'', ''Sun'', ''Mon'', ''Tue'', ''Wed'']"

definition months :: "string list" where
  "months = [''Jan'', ''Feb'', ''Mar'', ''Apr'', ''May'', ''Jun'', ''Jul'', ''Aug'', ''Sep'', ''Oct'', ''Nov'', ''Dec'']"

definition format_http :: "time \<Rightarrow> string" where
  "format_http t =
     (case civil (t div day_ns + epoch_days) of
        (y, m, d) \<Rightarrow> weekdays ! nat (t div day_ns mod 7) @ '', '' @ pad 2 (dec d) @ '' '' @ months ! (m - 1) @ '' '' @
          fmt_int 4 y @ '' '' @ format_clock t @ '' GMT'')"

text \<open>\<open>time.Parse\<close> with the layout \<open>2006-01-02\<close>.\<close>

definition take_dash :: "string \<Rightarrow> string option" where
  "take_dash s = (case s of [] \<Rightarrow> None | c # s' \<Rightarrow> if c = CHR ''-'' then Some s' else None)"

definition parse_day :: "string \<Rightarrow> time option" where
  "parse_day s =
     do {
       (year, s) \<leftarrow> take_digits 4 s;
       s \<leftarrow> take_dash s;
       (month, s) \<leftarrow> take_digits 2 s;
       s \<leftarrow> take_dash s;
       (day, s) \<leftarrow> take_digits 2 s;
       (if s = [] \<and> 1 \<le> month \<and> month \<le> 12 \<and> 1 \<le> day \<and> day \<le> daysIn month (int year)
        then Some ((days_of (int year) month day - epoch_days) * day_ns) else None)
     }"

text \<open>\<open>strconv.Atoi\<close>, whose \<open>int\<close> has 64 bits; \<open>strconv.FormatInt\<close> in base 10 is \<open>Itoa\<close>.\<close>

definition Atoi :: "string \<Rightarrow> int option" where
  "Atoi s = map_option sint (ParseInt64 s)"

end
