(* ===== verification/S3_Bucket_Api.thy ===== *)
theory S3_Bucket_Api
  imports S3_Types
begin

text \<open>
  The bucket handlers of internal/api/s3: bucket.go, versioning.go, policy.go, tagging.go, cors.go,
  lifecycle.go, website.go, notification.go and replication.go. A handler answers an \<open>exchange\<close> and
  returns the engine it leaves. \<open>M\<close> are the operations of the metadata store and \<open>B\<close> those of the backend.
\<close>

section \<open>XML and metadata\<close>

definition xmlCORSToMeta :: "xml_cors_rule list \<Rightarrow> cors_rule list" where
  "xmlCORSToMeta = map (\<lambda>r. \<lparr>cr_ID = xc_ID r, AllowedOrigins = xc_AllowedOrigin r, AllowedMethods = xc_AllowedMethod r,
     AllowedHeaders = xc_AllowedHeader r, ExposeHeaders = xc_ExposeHeader r, MaxAgeSeconds = xc_MaxAgeSeconds r\<rparr>)"

definition metaCORSToXML :: "cors_rule list \<Rightarrow> xml_cors_rule list" where
  "metaCORSToXML = map (\<lambda>r. \<lparr>xc_ID = cr_ID r, xc_AllowedOrigin = AllowedOrigins r, xc_AllowedMethod = AllowedMethods r,
     xc_AllowedHeader = AllowedHeaders r, xc_ExposeHeader = ExposeHeaders r, xc_MaxAgeSeconds = MaxAgeSeconds r\<rparr>)"

text \<open>A tag set becomes a map, where the last of two equal keys counts; a map is listed in its order.\<close>

definition tagsFromXML :: "xml_tag list \<Rightarrow> smap" where
  "tagsFromXML ts = foldl (\<lambda>m (k, v). AList.update k v m) [] ts"

definition tagsToXML :: "smap \<Rightarrow> xml_tag list" where
  "tagsToXML tags = tags"

text \<open>A date that does not parse is dropped.\<close>

definition xmlLifecycleToMeta :: "xml_lifecycle_rule list \<Rightarrow> lifecycle_rule list" where
  "xmlLifecycleToMeta = map (\<lambda>r. \<lparr>
     lr_ID = xl_ID r, lr_Status = xl_Status r,
     lr_Filter = \<lparr>lf_Prefix = xl_Prefix r, lf_Tags = tagsFromXML (xl_Tag r)\<rparr>,
     ExpirationDays = (case xl_Expiration r of None \<Rightarrow> 0 | Some e \<Rightarrow> xe_Days e),
     ExpirationDate = (case xl_Expiration r of
         None \<Rightarrow> None
       | Some e \<Rightarrow> if xe_Date e \<noteq> [] then parse_day (xe_Date e) else None),
     NoncurrentVersionExpirationDays = (case xl_NoncurrentDays r of None \<Rightarrow> 0 | Some d \<Rightarrow> d),
     AbortIncompleteMultipartDays = (case xl_AbortDays r of None \<Rightarrow> 0 | Some d \<Rightarrow> d)\<rparr>)"

definition metaLifecycleToXML :: "lifecycle_rule list \<Rightarrow> xml_lifecycle_rule list" where
  "metaLifecycleToXML = map (\<lambda>r. \<lparr>
     xl_ID = lr_ID r, xl_Status = lr_Status r, xl_Prefix = lf_Prefix (lr_Filter r),
     xl_Tag = lf_Tags (lr_Filter r),
     xl_Expiration =
       (if ExpirationDays r > 0 \<or> ExpirationDate r \<noteq> None
        then Some \<lparr>xe_Days = ExpirationDays r,
               xe_Date = (case ExpirationDate r of None \<Rightarrow> [] | Some t \<Rightarrow> format_day t)\<rparr>
        else None),
     xl_AbortDays = (if AbortIncompleteMultipartDays r > 0 then Some (AbortIncompleteMultipartDays r) else None),
     xl_NoncurrentDays = (if NoncurrentVersionExpirationDays r > 0 then Some (NoncurrentVersionExpirationDays r) else None)\<rparr>)"

definition websiteFromXML :: "xml_website \<Rightarrow> website_config" where
  "websiteFromXML req = \<lparr>IndexDocument = xw_IndexDocument req, ErrorDocument = xw_ErrorDocument req,
     RoutingRules = map (\<lambda>r. \<lparr>
       wr_Condition = \<lparr>KeyPrefixEquals = xr_KeyPrefixEquals r,
         HTTPErrorCodeReturnedEquals = xr_HTTPErrorCodeReturnedEquals r\<rparr>,
       wr_Redirect = \<lparr>HostName = xr_HostName r, Protocol = xr_Protocol r,
         ReplaceKeyPrefixWith = xr_ReplaceKeyPrefixWith r, ReplaceKeyWith = xr_ReplaceKeyWith r,
         HTTPRedirectCode = xr_HTTPRedirectCode r\<rparr>\<rparr>) (xw_RoutingRules req)\<rparr>"

definition websiteToXML :: "website_config \<Rightarrow> xml_website" where
  "websiteToXML cfg = \<lparr>xw_IndexDocument = IndexDocument cfg, xw_ErrorDocument = ErrorDocument cfg,
     xw_RoutingRules = map (\<lambda>r. \<lparr>
       xr_KeyPrefixEquals = KeyPrefixEquals (wr_Condition r),
       xr_HTTPErrorCodeReturnedEquals = HTTPErrorCodeReturnedEquals (wr_Condition r),
       xr_HostName = HostName (wr_Redirect r), xr_Protocol = Protocol (wr_Redirect r),
       xr_ReplaceKeyPrefixWith = ReplaceKeyPrefixWith (wr_Redirect r),
       xr_ReplaceKeyWith = ReplaceKeyWith (wr_Redirect r),
       xr_HTTPRedirectCode = HTTPRedirectCode (wr_Redirect r)\<rparr>) (RoutingRules cfg)\<rparr>"

definition parseXMLKeyFilter :: "(string \<times> string) list \<Rightarrow> notification_filter" where
  "parseXMLKeyFilter rules =
     foldl (\<lambda>nf (name, v).
         if name = ''prefix'' then nf\<lparr>nf_KeyPrefixEquals := v\<rparr>
         else if name = ''suffix'' then nf\<lparr>nf_KeySuffixEquals := v\<rparr>
         else nf)
       \<lparr>nf_KeyPrefixEquals = [], nf_KeySuffixEquals = []\<rparr> rules"

definition buildXMLKeyFilter :: "notification_filter option \<Rightarrow> (string \<times> string) list" where
  "buildXMLKeyFilter nf =
     (case nf of
        None \<Rightarrow> []
      | Some f \<Rightarrow>
          (if nf_KeyPrefixEquals f \<noteq> [] then [(''prefix'', nf_KeyPrefixEquals f)] else []) @
          (if nf_KeySuffixEquals f \<noteq> [] then [(''suffix'', nf_KeySuffixEquals f)] else []))"

definition targetFromXML :: "xml_notif_target \<Rightarrow> notification_target" where
  "targetFromXML t = \<lparr>nt_ID = xn_ID t, nt_Arn = xn_Arn t, nt_Events = xn_Events t,
     nt_Filter = (if xn_FilterRules t \<noteq> [] then Some (parseXMLKeyFilter (xn_FilterRules t)) else None)\<rparr>"

definition targetToXML :: "notification_target \<Rightarrow> xml_notif_target" where
  "targetToXML t = \<lparr>xn_ID = nt_ID t, xn_Arn = nt_Arn t, xn_Events = nt_Events t,
     xn_FilterRules = buildXMLKeyFilter (nt_Filter t)\<rparr>"

text \<open>An empty configuration is \<open>nil\<close>: it removes what was there.\<close>

definition notificationFromXML :: "xml_notification \<Rightarrow> notification_config option" where
  "notificationFromXML req =
     (let cfg = \<lparr>QueueConfigurations = map targetFromXML (xn_Queues req),
                TopicConfigurations = map targetFromXML (xn_Topics req), WebhookTargets = []\<rparr>
      in if QueueConfigurations cfg = [] \<and> TopicConfigurations cfg = [] then None else Some cfg)"

definition notificationToXML :: "notification_config option \<Rightarrow> xml_notification" where
  "notificationToXML cfg =
     (case cfg of
        None \<Rightarrow> \<lparr>xn_Queues = [], xn_Topics = []\<rparr>
      | Some c \<Rightarrow> \<lparr>xn_Queues = map targetToXML (QueueConfigurations c), xn_Topics = map targetToXML (TopicConfigurations c)\<rparr>)"

definition replicationFromXML :: "xml_replication \<Rightarrow> replication_config option" where
  "replicationFromXML req =
     (let cfg = \<lparr>rc_Role = xp_Role req, rc_Rules = map (\<lambda>xr. \<lparr>
            rr_ID = xp_ID xr, rr_Status = xp_Status xr,
            rr_Filter = \<lparr>lf_Prefix = xp_Prefix xr, lf_Tags = []\<rparr>,
            rr_Destination = \<lparr>rd_BucketARN = xp_Bucket xr, rd_StorageClass = xp_StorageClass xr,
              rd_Endpoint = [], rd_AccessKey = [], rd_SecretKey = []\<rparr>,
            rr_DeleteMarkerReplication = xp_DeleteMarkerStatus xr\<rparr>) (xp_Rules req)\<rparr>
      in if rc_Rules cfg = [] then None else Some cfg)"

definition replicationToXML :: "replication_config \<Rightarrow> xml_replication" where
  "replicationToXML cfg = \<lparr>xp_Role = rc_Role cfg, xp_Rules = map (\<lambda>r. \<lparr>
     xp_ID = rr_ID r, xp_Status = rr_Status r, xp_Prefix = lf_Prefix (rr_Filter r),
     xp_Bucket = rd_BucketARN (rr_Destination r), xp_StorageClass = rd_StorageClass (rr_Destination r),
     xp_DeleteMarkerStatus = (if rr_DeleteMarkerReplication r \<noteq> [] then rr_DeleteMarkerReplication r else [])\<rparr>)
     (rc_Rules cfg)\<rparr>"

section \<open>Shapes of handlers\<close>

text \<open>
  A handler that only reads, one that writes and answers with a status alone, and the order of its
  failures: all bucket handlers are one of these with their parts filled in.
\<close>

type_synonym ('m, 'b) answer = "response \<times> ('m, 'b) engine"

definition answer_read :: "exchange \<Rightarrow> 'a result \<Rightarrow> ('a \<Rightarrow> response) \<Rightarrow> ('m, 'b) engine \<Rightarrow> ('m, 'b) answer" where
  "answer_read x res ok e = (case res of Inl err \<Rightarrow> (bucketFailure x err, e) | Inr v \<Rightarrow> (ok v, e))"

definition answer_write :: "exchange \<Rightarrow> (exchange \<Rightarrow> err \<Rightarrow> response) \<Rightarrow> nat \<Rightarrow> unit result \<times> ('m, 'b) engine \<Rightarrow> ('m, 'b) answer" where
  "answer_write x failure status step =
     (case step of (Inl err, e') \<Rightarrow> (failure x err, e') | (Inr _, e') \<Rightarrow> (WriteHeader status x, e'))"

text \<open>Failures that are the client's: an argument that the engine refuses is a 400.\<close>

definition argumentFailure :: "exchange \<Rightarrow> err \<Rightarrow> response" where
  "argumentFailure x err =
     (if isBucketNotFound err then noSuchBucket x else writeError x 400 ''InvalidArgument'' err)"

section \<open>Subresources\<close>

text \<open>versioning.go\<close>

definition getBucketVersioning :: "'m meta_store \<Rightarrow> exchange \<Rightarrow> string \<Rightarrow> ('m, 'b) engine \<Rightarrow> ('m, 'b) answer" where
  "getBucketVersioning M x bucket e =
     answer_read x (GetBucketVersioning M e bucket) (\<lambda>status.
       writeXML x 200 (XVersioning
         (if status = VersioningEnabled then ''Enabled''
          else if status = VersioningSuspended then ''Suspended'' else []))) e"

definition putBucketVersioning :: "'m meta_store \<Rightarrow> exchange \<Rightarrow> string \<Rightarrow> ('m, 'b) engine \<Rightarrow> ('m, 'b) answer" where
  "putBucketVersioning M x bucket e =
     (case hq_XML (ex_req x) of
        Some (XVersioning cfgStatus) \<Rightarrow>
          if cfgStatus = ''Enabled'' then answer_write x bucketFailure 200 (SetBucketVersioning M bucket VersioningEnabled e)
          else if cfgStatus = ''Suspended'' then answer_write x bucketFailure 200 (SetBucketVersioning M bucket VersioningSuspended e)
          else (writeError x 400 ''IllegalVersioningConfigurationException''
                  (msg ''versioning Status must be Enabled or Suspended''), e)
      | _ \<Rightarrow> (malformedXML x ''invalid versioning configuration XML'', e))"

definition list_max_keys :: "exchange \<Rightarrow> int" where
  "list_max_keys x =
     (let s = multi_get (x_query x) ''max-keys'' in
      if s = [] then 1000 else (case Atoi s of None \<Rightarrow> 1000 | Some n \<Rightarrow> if n > 0 then n else 1000))"

definition versions_result :: "string \<Rightarrow> string \<Rightarrow> int \<Rightarrow> version_record list \<Rightarrow> list_versions_result" where
  "versions_result bucket pfx maxKeys versions = \<lparr>lv_Name = bucket, lv_Prefix = pfx, lv_MaxKeys = maxKeys, lv_IsTruncated = False,
     lv_Versions = map (\<lambda>v. \<lparr>ve_Key = vr_Key v, ve_VersionID = vr_VersionID v, ve_IsLatest = vr_IsLatest v,
         ve_LastModified = format_millis (vr_LastModified v), ve_ETag = vr_ETag v, ve_Size = vr_Size v,
         ve_StorageClass = (if vr_StorageClass v = [] then ''STANDARD'' else vr_StorageClass v)\<rparr>)
       (filter (\<lambda>v. \<not> vr_IsDeleteMarker v) versions),
     lv_Markers = map (\<lambda>v. \<lparr>me_Key = vr_Key v, me_VersionID = vr_VersionID v, me_IsLatest = vr_IsLatest v,
         me_LastModified = format_millis (vr_LastModified v)\<rparr>)
       (filter vr_IsDeleteMarker versions)\<rparr>"

definition listObjectVersions :: "'m meta_store \<Rightarrow> exchange \<Rightarrow> string \<Rightarrow> ('m, 'b) engine \<Rightarrow> ('m, 'b) answer" where
  "listObjectVersions M x bucket e =
     (let pfx = multi_get (x_query x) ''prefix''; maxKeys = list_max_keys x;
          opts = \<lparr>lo_Prefix = pfx, lo_Delimiter = [], lo_ContinuationToken = [], lo_StartAfter = [], lo_MaxKeys = maxKeys\<rparr>
      in answer_read x (ListObjectVersions M e bucket opts)
           (\<lambda>versions. writeXML x 200 (XListVersions (versions_result bucket pfx maxKeys versions))) e)"

text \<open>policy.go\<close>

definition getBucketPolicy :: "'m meta_store \<Rightarrow> exchange \<Rightarrow> string \<Rightarrow> ('m, 'b) engine \<Rightarrow> ('m, 'b) answer" where
  "getBucketPolicy M x bucket e =
     answer_read x (GetBucketPolicy M e bucket) (\<lambda>policy.
       if policy = [] then writeError x 404 ''NoSuchBucketPolicy'' (msg ''The bucket policy does not exist'')
       else respond 200 (JsonBody policy) (set_header ''Content-Type'' ''application/json'' x)) e"

text \<open>\<open>io.ReadAll (io.LimitReader (r, n))\<close>: at most \<open>n\<close> bytes, and the error of the body if it comes before.\<close>

definition read_limited :: "nat \<Rightarrow> reader \<Rightarrow> bytes result" where
  "read_limited n r =
     (if n \<le> length (rd_data r) then Inr (take n (rd_data r))
      else (case rd_err r of Some err \<Rightarrow> Inl err | None \<Rightarrow> Inr (rd_data r)))"

definition putBucketPolicy :: "'m meta_store \<Rightarrow> platform \<Rightarrow> exchange \<Rightarrow> string \<Rightarrow> ('m, 'b) engine \<Rightarrow> ('m, 'b) answer" where
  "putBucketPolicy M P x bucket e =
     (case read_limited (20 * 1024) (hq_Body (ex_req x)) of
        Inl err \<Rightarrow> (writeError x 400 ''InvalidArgument'' (msg ''could not read policy body''), e)
      | Inr body \<Rightarrow> answer_write x argumentFailure 204 (SetBucketPolicy P M bucket body e))"

definition getBucketACL :: "'m meta_store \<Rightarrow> exchange \<Rightarrow> string \<Rightarrow> ('m, 'b) engine \<Rightarrow> ('m, 'b) answer" where
  "getBucketACL M x bucket e =
     answer_read x (HeadBucket M e bucket)
       (\<lambda>rec. writeXML x 200 (XACL (br_Owner rec) (vi_Owner (identityFromContext (ex_ctx x))))) e"

definition putBucketACL :: "'m meta_store \<Rightarrow> exchange \<Rightarrow> string \<Rightarrow> ('m, 'b) engine \<Rightarrow> ('m, 'b) answer" where
  "putBucketACL M x bucket e =
     (let h = x_header x ''x-amz-acl''; acl = (if h = [] then ''private'' else h)
      in answer_write x argumentFailure 200 (SetBucketACL M bucket acl e))"

text \<open>tagging.go\<close>

definition getBucketTagging :: "'m meta_store \<Rightarrow> exchange \<Rightarrow> string \<Rightarrow> ('m, 'b) engine \<Rightarrow> ('m, 'b) answer" where
  "getBucketTagging M x bucket e =
     answer_read x (GetBucketTags M e bucket) (\<lambda>tags. writeXML x 200 (XTagging (tagsToXML tags))) e"

definition putBucketTagging :: "'m meta_store \<Rightarrow> exchange \<Rightarrow> string \<Rightarrow> ('m, 'b) engine \<Rightarrow> ('m, 'b) answer" where
  "putBucketTagging M x bucket e =
     (case hq_XML (ex_req x) of
        Some (XTagging ts) \<Rightarrow> answer_write x bucketFailure 200 (SetBucketTags M bucket (tagsFromXML ts) e)
      | _ \<Rightarrow> (malformedXML x ''invalid tagging XML'', e))"

text \<open>cors.go\<close>

definition getBucketCORS :: "'m meta_store \<Rightarrow> exchange \<Rightarrow> string \<Rightarrow> ('m, 'b) engine \<Rightarrow> ('m, 'b) answer" where
  "getBucketCORS M x bucket e =
     answer_read x (GetCORSRules M e bucket) (\<lambda>rules.
       if rules = [] then writeError x 404 ''NoSuchCORSConfiguration'' (msg ''The CORS configuration does not exist'')
       else writeXML x 200 (XCORS (metaCORSToXML rules))) e"

definition putBucketCORS :: "'m meta_store \<Rightarrow> exchange \<Rightarrow> string \<Rightarrow> ('m, 'b) engine \<Rightarrow> ('m, 'b) answer" where
  "putBucketCORS M x bucket e =
     (case hq_XML (ex_req x) of
        Some (XCORS cfg) \<Rightarrow> answer_write x bucketFailure 200 (SetCORSRules M bucket (xmlCORSToMeta cfg) e)
      | _ \<Rightarrow> (malformedXML x ''invalid CORS configuration XML'', e))"

text \<open>lifecycle.go\<close>

definition getBucketLifecycle :: "'m meta_store \<Rightarrow> exchange \<Rightarrow> string \<Rightarrow> ('m, 'b) engine \<Rightarrow> ('m, 'b) answer" where
  "getBucketLifecycle M x bucket e =
     answer_read x (GetLifecycleRules M e bucket) (\<lambda>rules.
       if rules = [] then writeError x 404 ''NoSuchLifecycleConfiguration'' (msg ''The lifecycle configuration does not exist'')
       else writeXML x 200 (XLifecycle (metaLifecycleToXML rules))) e"

definition putBucketLifecycle :: "'m meta_store \<Rightarrow> exchange \<Rightarrow> string \<Rightarrow> ('m, 'b) engine \<Rightarrow> ('m, 'b) answer" where
  "putBucketLifecycle M x bucket e =
     (case hq_XML (ex_req x) of
        Some (XLifecycle cfg) \<Rightarrow> answer_write x bucketFailure 200 (SetLifecycleRules M bucket (xmlLifecycleToMeta cfg) e)
      | _ \<Rightarrow> (malformedXML x ''invalid lifecycle configuration XML'', e))"

definition getBucketEncryption :: "'m meta_store \<Rightarrow> exchange \<Rightarrow> string \<Rightarrow> ('m, 'b) engine \<Rightarrow> ('m, 'b) answer" where
  "getBucketEncryption M x bucket e =
     answer_read x (GetBucketEncryption M e bucket) (\<lambda>alg.
       if alg = [] then writeError x 404 ''ServerSideEncryptionConfigurationNotFoundError''
           (msg ''The server side encryption configuration was not found'')
       else writeXML x 200 (XEncryption [alg])) e"

definition putBucketEncryption :: "'m meta_store \<Rightarrow> exchange \<Rightarrow> string \<Rightarrow> ('m, 'b) engine \<Rightarrow> ('m, 'b) answer" where
  "putBucketEncryption M x bucket e =
     (case hq_XML (ex_req x) of
        Some (XEncryption rules) \<Rightarrow>
          let alg = (case rules of [] \<Rightarrow> [] | r # rs \<Rightarrow> r)
          in answer_write x argumentFailure 200 (SetBucketEncryption M bucket alg e)
      | _ \<Rightarrow> (malformedXML x ''invalid encryption configuration XML'', e))"

text \<open>website.go\<close>

definition getBucketWebsite :: "'m meta_store \<Rightarrow> exchange \<Rightarrow> string \<Rightarrow> ('m, 'b) engine \<Rightarrow> ('m, 'b) answer" where
  "getBucketWebsite M x bucket e =
     answer_read x (GetBucketWebsite M e bucket) (\<lambda>cfg.
       case cfg of
         None \<Rightarrow> writeError x 404 ''NoSuchWebsiteConfiguration'' (msg ''The specified bucket does not have a website configuration'')
       | Some c \<Rightarrow> writeXML x 200 (XWebsite (websiteToXML c))) e"

definition putBucketWebsite :: "'m meta_store \<Rightarrow> exchange \<Rightarrow> string \<Rightarrow> ('m, 'b) engine \<Rightarrow> ('m, 'b) answer" where
  "putBucketWebsite M x bucket e =
     (case hq_XML (ex_req x) of
        Some (XWebsite req) \<Rightarrow> answer_write x bucketFailure 200 (SetBucketWebsite M bucket (Some (websiteFromXML req)) e)
      | _ \<Rightarrow> (malformedXML x ''invalid website configuration XML'', e))"

definition deleteBucketWebsite :: "'m meta_store \<Rightarrow> exchange \<Rightarrow> string \<Rightarrow> ('m, 'b) engine \<Rightarrow> ('m, 'b) answer" where
  "deleteBucketWebsite M x bucket e = answer_write x bucketFailure 204 (SetBucketWebsite M bucket None e)"

text \<open>notification.go\<close>

definition getBucketNotification :: "'m meta_store \<Rightarrow> exchange \<Rightarrow> string \<Rightarrow> ('m, 'b) engine \<Rightarrow> ('m, 'b) answer" where
  "getBucketNotification M x bucket e =
     answer_read x (GetBucketNotification M e bucket) (\<lambda>cfg. writeXML x 200 (XNotification (notificationToXML cfg))) e"

definition putBucketNotification :: "'m meta_store \<Rightarrow> exchange \<Rightarrow> string \<Rightarrow> ('m, 'b) engine \<Rightarrow> ('m, 'b) answer" where
  "putBucketNotification M x bucket e =
     (case hq_XML (ex_req x) of
        Some (XNotification req) \<Rightarrow> answer_write x bucketFailure 200 (SetBucketNotification M bucket (notificationFromXML req) e)
      | _ \<Rightarrow> (malformedXML x ''invalid notification configuration XML'', e))"

text \<open>replication.go\<close>

definition getBucketReplication :: "'m meta_store \<Rightarrow> exchange \<Rightarrow> string \<Rightarrow> ('m, 'b) engine \<Rightarrow> ('m, 'b) answer" where
  "getBucketReplication M x bucket e =
     answer_read x (GetBucketReplication M e bucket) (\<lambda>cfg.
       case cfg of
         None \<Rightarrow> writeError x 404 ''ReplicationConfigurationNotFoundError'' (msg ''The replication configuration was not found'')
       | Some c \<Rightarrow> writeXML x 200 (XReplication (replicationToXML c))) e"

definition putBucketReplication :: "'m meta_store \<Rightarrow> exchange \<Rightarrow> string \<Rightarrow> ('m, 'b) engine \<Rightarrow> ('m, 'b) answer" where
  "putBucketReplication M x bucket e =
     (case hq_XML (ex_req x) of
        Some (XReplication req) \<Rightarrow> answer_write x bucketFailure 200 (SetBucketReplication M bucket (replicationFromXML req) e)
      | _ \<Rightarrow> (malformedXML x ''invalid replication configuration XML'', e))"

definition deleteBucketReplication :: "'m meta_store \<Rightarrow> exchange \<Rightarrow> string \<Rightarrow> ('m, 'b) engine \<Rightarrow> ('m, 'b) answer" where
  "deleteBucketReplication M x bucket e = answer_write x bucketFailure 204 (SetBucketReplication M bucket None e)"

end
