(* ===== verification/S3_Handlers.thy ===== *)
theory S3_Handlers
  imports S3_Bucket_Api
begin

text \<open>
  The handlers of internal/api/s3 for buckets, listings, objects and multipart uploads: bucket.go,
  list.go, object.go, multipart.go and the object part of tagging.go, with the dispatch on query
  parameters. The values of chi's URL parameters are arguments. A call of the engine draws its time,
  UUID and random bytes from \<open>envs\<close>, where \<open>DeleteObjects\<close> makes several.
\<close>

section \<open>Buckets\<close>

definition listBuckets :: "'m meta_store \<Rightarrow> exchange \<Rightarrow> ('m, 'b) engine \<Rightarrow> ('m, 'b) answer" where
  "listBuckets M x e =
     (let identity = identityFromContext (ex_ctx x) in
      case engine_ListBuckets M e of
        Inl err \<Rightarrow> (internalError x err, e)
      | Inr buckets \<Rightarrow>
          (writeXML x 200 (XListBuckets (vi_AccessKey identity) (vi_Owner identity)
             (map (\<lambda>b. (br_Name b, br_CreatedAt b)) buckets)), e))"

definition dispatchPutBucketSubresource ::
    "'m meta_store \<Rightarrow> platform \<Rightarrow> exchange \<Rightarrow> string \<Rightarrow> ('m, 'b) engine \<Rightarrow> ('m, 'b) answer option" where
  "dispatchPutBucketSubresource M P x bucket e =
     (let q = x_query x in
      if query_Has q ''versioning'' then Some (putBucketVersioning M x bucket e)
      else if query_Has q ''cors'' then Some (putBucketCORS M x bucket e)
      else if query_Has q ''policy'' then Some (putBucketPolicy M P x bucket e)
      else if query_Has q ''lifecycle'' then Some (putBucketLifecycle M x bucket e)
      else if query_Has q ''tagging'' then Some (putBucketTagging M x bucket e)
      else if query_Has q ''encryption'' then Some (putBucketEncryption M x bucket e)
      else if query_Has q ''acl'' then Some (putBucketACL M x bucket e)
      else if query_Has q ''website'' then Some (putBucketWebsite M x bucket e)
      else if query_Has q ''notification'' then Some (putBucketNotification M x bucket e)
      else if query_Has q ''replication'' then Some (putBucketReplication M x bucket e)
      else None)"

text \<open>A body that is no \<open>CreateBucketConfiguration\<close> is passed over.\<close>

definition requested_region :: "exchange \<Rightarrow> string" where
  "requested_region x =
     (if 0 <s hq_ContentLength (ex_req x)
      then (case hq_XML (ex_req x) of Some (XCreateBucket location) \<Rightarrow> location | _ \<Rightarrow> [])
      else [])"

fun createBucketFailure :: "exchange \<Rightarrow> err \<Rightarrow> response" where
  "createBucketFailure x (BucketAlreadyExistsError n) =
     writeError x 409 ''BucketAlreadyOwnedByYou'' (BucketAlreadyExistsError n)"
| "createBucketFailure x err = writeError x 400 ''InvalidBucketName'' err"

definition createBucket ::
    "'m meta_store \<Rightarrow> 'b backend_ops \<Rightarrow> platform \<Rightarrow> env \<Rightarrow> exchange \<Rightarrow> string \<Rightarrow> ('m, 'b) engine \<Rightarrow> ('m, 'b) answer" where
  "createBucket M B P env x bucket e =
     (case dispatchPutBucketSubresource M P x bucket e of
        Some a \<Rightarrow> a
      | None \<Rightarrow>
          (case CreateBucket M B env bucket (vi_Owner (identityFromContext (ex_ctx x))) (requested_region x) e of
             (Inl err, e') \<Rightarrow> (createBucketFailure x err, e')
           | (Inr _, e') \<Rightarrow> (WriteHeader 200 (set_header ''Location'' (''/'' @ bucket) x), e')))"

definition headBucket :: "'m meta_store \<Rightarrow> exchange \<Rightarrow> string \<Rightarrow> ('m, 'b) engine \<Rightarrow> ('m, 'b) answer" where
  "headBucket M x bucket e = answer_read x (HeadBucket M e bucket) (\<lambda>_. WriteHeader 200 x) e"

text \<open>\<open>deleteWithNoContent\<close>: every error is a 500.\<close>

definition deleteWithNoContent :: "exchange \<Rightarrow> unit result \<times> ('m, 'b) engine \<Rightarrow> ('m, 'b) answer" where
  "deleteWithNoContent x step = answer_write x internalError 204 step"

fun deleteBucketFailure :: "exchange \<Rightarrow> err \<Rightarrow> response" where
  "deleteBucketFailure x (BucketNotFoundError _) = noSuchBucket x"
| "deleteBucketFailure x (BucketNotEmptyError _) =
     writeError x 409 ''BucketNotEmpty'' (msg ''The bucket you tried to delete is not empty'')"
| "deleteBucketFailure x err = internalError x err"

definition deleteBucket ::
    "'m meta_store \<Rightarrow> 'b backend_ops \<Rightarrow> platform \<Rightarrow> exchange \<Rightarrow> string \<Rightarrow> ('m, 'b) engine \<Rightarrow> ('m, 'b) answer" where
  "deleteBucket M B P x bucket e =
     (let q = x_query x in
      if query_Has q ''cors'' then deleteWithNoContent x (DeleteCORSRules M bucket e)
      else if query_Has q ''policy'' then deleteWithNoContent x (DeleteBucketPolicy P M bucket e)
      else if query_Has q ''lifecycle'' then deleteWithNoContent x (DeleteLifecycleRules M bucket e)
      else if query_Has q ''tagging'' then deleteWithNoContent x (DeleteBucketTags M bucket e)
      else if query_Has q ''encryption'' then deleteWithNoContent x (SetBucketEncryption M bucket [] e)
      else if query_Has q ''website'' then deleteBucketWebsite M x bucket e
      else if query_Has q ''replication'' then deleteBucketReplication M x bucket e
      else answer_write x deleteBucketFailure 204 (DeleteBucket M B bucket e))"

definition s3_deleteObjects ::
    "'m meta_store \<Rightarrow> 'b backend_ops \<Rightarrow> (nat \<Rightarrow> env) \<Rightarrow> exchange \<Rightarrow> string \<Rightarrow> ('m, 'b) engine \<Rightarrow> ('m, 'b) answer" where
  "s3_deleteObjects M B envs x bucket e =
     (case hq_XML (ex_req x) of
        Some (XDelete quiet objects) \<Rightarrow>
          (case DeleteObjects M B envs bucket (map fst objects) (vi_Owner (identityFromContext (ex_ctx x))) [] [] e of
             ((deleted, errs), e') \<Rightarrow> (writeXML x 200 (XDeleteResult deleted errs), e'))
      | _ \<Rightarrow> (malformedXML x ''invalid request XML'', e))"

definition postBucket ::
    "'m meta_store \<Rightarrow> 'b backend_ops \<Rightarrow> (nat \<Rightarrow> env) \<Rightarrow> exchange \<Rightarrow> string \<Rightarrow> ('m, 'b) engine \<Rightarrow> ('m, 'b) answer" where
  "postBucket M B envs x bucket e =
     (if query_Has (x_query x) ''delete'' then s3_deleteObjects M B envs x bucket e
      else (writeError x 400 ''InvalidRequest'' (msg ''unsupported bucket POST operation''), e))"

section \<open>Listings\<close>

definition defaultMaxKeys :: int where
  "defaultMaxKeys = 1000"

definition list_entries :: "object_record list \<Rightarrow> list_entry list" where
  "list_entries = map (\<lambda>rec. \<lparr>le_Key = or_Key rec, le_LastModified = or_LastModified rec, le_ETag = or_ETag rec,
     le_Size = or_Size rec, le_StorageClass = or_StorageClass rec\<rparr>)"

text \<open>\<open>max-keys\<close> of the second version of the listing: \<open>None\<close> is an invalid argument.\<close>

definition v2_max_keys :: "string \<Rightarrow> int option" where
  "v2_max_keys s =
     (if s = [] then Some defaultMaxKeys
      else (case Atoi s of
              None \<Rightarrow> None
            | Some n \<Rightarrow> if n < 0 then None else Some (if n < defaultMaxKeys then n else defaultMaxKeys)))"

definition listObjectsV2 :: "'m meta_store \<Rightarrow> exchange \<Rightarrow> string \<Rightarrow> ('m, 'b) engine \<Rightarrow> ('m, 'b) answer" where
  "listObjectsV2 M x bucket e =
     (let q = x_query x in
      case v2_max_keys (multi_get q ''max-keys'') of
        None \<Rightarrow> (writeError x 400 ''InvalidArgument'' (msg ''invalid max-keys''), e)
      | Some maxKeys \<Rightarrow>
          let opts = \<lparr>lo_Prefix = multi_get q ''prefix'', lo_Delimiter = multi_get q ''delimiter'',
                lo_ContinuationToken = multi_get q ''continuation-token'', lo_StartAfter = multi_get q ''start-after'',
                lo_MaxKeys = maxKeys\<rparr>
          in answer_read x (engine_ListObjects M e bucket opts) (\<lambda>(records, commonPrefixes).
               let truncated = (int (length records) = maxKeys)
               in writeXML x 200 (XListBucket \<lparr>lb_Name = bucket, lb_Prefix = lo_Prefix opts,
                    lb_KeyCount = int (length records), lb_MaxKeys = maxKeys, lb_Delimiter = lo_Delimiter opts,
                    lb_IsTruncated = truncated, lb_ContinuationToken = lo_ContinuationToken opts,
                    lb_NextContinuationToken = (if truncated \<and> records \<noteq> [] then or_Key (last records) else []),
                    lb_StartAfter = lo_StartAfter opts, lb_Contents = list_entries records,
                    lb_CommonPrefixes = commonPrefixes\<rparr>)) e)"

definition v1_max_keys :: "string \<Rightarrow> int" where
  "v1_max_keys s =
     (if s = [] then defaultMaxKeys
      else (case Atoi s of
              None \<Rightarrow> defaultMaxKeys
            | Some n \<Rightarrow> if n \<ge> 0 \<and> n < defaultMaxKeys then n else defaultMaxKeys))"

definition listObjectsV1 :: "'m meta_store \<Rightarrow> exchange \<Rightarrow> string \<Rightarrow> ('m, 'b) engine \<Rightarrow> ('m, 'b) answer" where
  "listObjectsV1 M x bucket e =
     (let q = x_query x;
          opts = \<lparr>lo_Prefix = multi_get q ''prefix'', lo_Delimiter = multi_get q ''delimiter'', lo_ContinuationToken = [],
            lo_StartAfter = multi_get q ''marker'', lo_MaxKeys = v1_max_keys (multi_get q ''max-keys'')\<rparr>
      in answer_read x (engine_ListObjects M e bucket opts) (\<lambda>(records, commonPrefixes).
           writeXML x 200 (XListBucket \<lparr>lb_Name = bucket, lb_Prefix = lo_Prefix opts,
             lb_KeyCount = int (length records), lb_MaxKeys = lo_MaxKeys opts, lb_Delimiter = lo_Delimiter opts,
             lb_IsTruncated = (int (length records) = lo_MaxKeys opts), lb_ContinuationToken = [],
             lb_NextContinuationToken = [], lb_StartAfter = [], lb_Contents = list_entries records,
             lb_CommonPrefixes = commonPrefixes\<rparr>)) e)"

definition s3_listMultipartUploads :: "'m meta_store \<Rightarrow> exchange \<Rightarrow> string \<Rightarrow> ('m, 'b) engine \<Rightarrow> ('m, 'b) answer" where
  "s3_listMultipartUploads M x bucket e =
     answer_read x (ListMultipartUploads M e bucket) (\<lambda>uploads.
       writeXML x 200 (XListUploads bucket
         (map (\<lambda>u. (mr_Key u, mr_UploadID u, format_millis (mr_Initiated u))) uploads))) e"

text \<open>\<open>GET /{bucket}\<close>. The subresources website, notification and replication are not among the cases.\<close>

definition listObjects :: "'m meta_store \<Rightarrow> exchange \<Rightarrow> string \<Rightarrow> ('m, 'b) engine \<Rightarrow> ('m, 'b) answer" where
  "listObjects M x bucket e =
     (let q = x_query x in
      if query_Has q ''versioning'' then getBucketVersioning M x bucket e
      else if query_Has q ''versions'' then listObjectVersions M x bucket e
      else if query_Has q ''cors'' then getBucketCORS M x bucket e
      else if query_Has q ''policy'' then getBucketPolicy M x bucket e
      else if query_Has q ''lifecycle'' then getBucketLifecycle M x bucket e
      else if query_Has q ''tagging'' then getBucketTagging M x bucket e
      else if query_Has q ''encryption'' then getBucketEncryption M x bucket e
      else if query_Has q ''acl'' then getBucketACL M x bucket e
      else if query_Has q ''uploads'' then s3_listMultipartUploads M x bucket e
      else if multi_get q ''list-type'' = ''2'' then listObjectsV2 M x bucket e
      else listObjectsV1 M x bucket e)"

text \<open>
  Three dispatchers that no route reaches: one for reads, with the subresources that \<open>listObjects\<close> leaves out,
  and two that repeat the ones of \<open>createBucket\<close> and \<open>deleteBucket\<close>.
\<close>

definition getBucketSubresource :: "'m meta_store \<Rightarrow> exchange \<Rightarrow> string \<Rightarrow> ('m, 'b) engine \<Rightarrow> ('m, 'b) answer" where
  "getBucketSubresource M x bucket e =
     (let q = x_query x in
      if query_Has q ''versioning'' then getBucketVersioning M x bucket e
      else if query_Has q ''cors'' then getBucketCORS M x bucket e
      else if query_Has q ''policy'' then getBucketPolicy M x bucket e
      else if query_Has q ''lifecycle'' then getBucketLifecycle M x bucket e
      else if query_Has q ''tagging'' then getBucketTagging M x bucket e
      else if query_Has q ''encryption'' then getBucketEncryption M x bucket e
      else if query_Has q ''acl'' then getBucketACL M x bucket e
      else if query_Has q ''versions'' then listObjectVersions M x bucket e
      else if query_Has q ''website'' then getBucketWebsite M x bucket e
      else if query_Has q ''notification'' then getBucketNotification M x bucket e
      else if query_Has q ''replication'' then getBucketReplication M x bucket e
      else (writeError x 400 ''InvalidRequest'' (msg ''unsupported subresource''), e))"

definition putBucketSubresource ::
    "'m meta_store \<Rightarrow> 'b backend_ops \<Rightarrow> platform \<Rightarrow> env \<Rightarrow> exchange \<Rightarrow> string \<Rightarrow> ('m, 'b) engine \<Rightarrow> ('m, 'b) answer" where
  "putBucketSubresource M B P env x bucket e =
     (case dispatchPutBucketSubresource M P x bucket e of
        Some a \<Rightarrow> a
      | None \<Rightarrow> createBucket M B P env x bucket e)"

definition deleteBucketSubresource ::
    "'m meta_store \<Rightarrow> 'b backend_ops \<Rightarrow> platform \<Rightarrow> exchange \<Rightarrow> string \<Rightarrow> ('m, 'b) engine \<Rightarrow> ('m, 'b) answer" where
  "deleteBucketSubresource M B P x bucket e =
     (let q = x_query x in
      if query_Has q ''cors'' then deleteWithNoContent x (DeleteCORSRules M bucket e)
      else if query_Has q ''policy'' then deleteWithNoContent x (DeleteBucketPolicy P M bucket e)
      else if query_Has q ''lifecycle'' then deleteWithNoContent x (DeleteLifecycleRules M bucket e)
      else if query_Has q ''tagging'' then deleteWithNoContent x (DeleteBucketTags M bucket e)
      else if query_Has q ''encryption'' then deleteWithNoContent x (SetBucketEncryption M bucket [] e)
      else if query_Has q ''website'' then deleteBucketWebsite M x bucket e
      else if query_Has q ''replication'' then deleteBucketReplication M x bucket e
      else deleteBucket M B P x bucket e)"

section \<open>Multipart uploads\<close>

text \<open>\<open>extractUserMeta\<close>: the headers come in the order in which the map yields them.\<close>

definition extractUserMeta :: "exchange \<Rightarrow> smap" where
  "extractUserMeta x =
     foldl (\<lambda>meta (k, vals).
         let low = ToLower k in
         if HasPrefix low ''x-amz-meta-'' then AList.update (TrimPrefix low ''x-amz-meta-'') (Join vals '','') meta else meta)
       [] (rq_Header (hq_req (ex_req x)))"

definition createMultipartUpload ::
    "'m meta_store \<Rightarrow> env \<Rightarrow> exchange \<Rightarrow> string \<Rightarrow> string \<Rightarrow> ('m, 'b) engine \<Rightarrow> ('m, 'b) answer" where
  "createMultipartUpload M env x bucket key e =
     (case CreateMultipartUpload M env bucket key (vi_Owner (identityFromContext (ex_ctx x)))
             (x_header x ''Content-Type'') (extractUserMeta x) e of
        (Inl err, e') \<Rightarrow> (bucketFailure x err, e')
      | (Inr uploadID, e') \<Rightarrow> (writeXML x 200 (XInitiateUpload bucket key uploadID), e'))"

definition uploadPart ::
    "'m meta_store \<Rightarrow> 'b backend_ops \<Rightarrow> platform \<Rightarrow> env \<Rightarrow> exchange \<Rightarrow> ('m, 'b) engine \<Rightarrow> ('m, 'b) answer" where
  "uploadPart M B P env x e =
     (let q = x_query x; uploadID = multi_get q ''uploadId'' in
      if uploadID = [] then (writeError x 400 ''InvalidArgument'' (msg ''uploadId is required''), e)
      else (case Atoi (multi_get q ''partNumber'') of
              None \<Rightarrow> (writeError x 400 ''InvalidArgument'' (msg ''partNumber must be between 1 and 10000''), e)
            | Some partNumber \<Rightarrow>
                if partNumber < 1 \<or> partNumber > 10000
                then (writeError x 400 ''InvalidArgument'' (msg ''partNumber must be between 1 and 10000''), e)
                else (case UploadPart M B P env uploadID partNumber (hq_Body (ex_req x)) (hq_ContentLength (ex_req x)) e of
                        (Inl err, e') \<Rightarrow> (uploadFailure x err, e')
                      | (Inr etag, e') \<Rightarrow> (WriteHeader 200 (set_header ''ETag'' etag x), e'))))"

definition completeMultipartUpload ::
    "'m meta_store \<Rightarrow> 'b backend_ops \<Rightarrow> platform \<Rightarrow> env \<Rightarrow> exchange \<Rightarrow> string \<Rightarrow> string \<Rightarrow> ('m, 'b) engine \<Rightarrow> ('m, 'b) answer" where
  "completeMultipartUpload M B P env x bucket key e =
     (let uploadID = multi_get (x_query x) ''uploadId'' in
      if uploadID = [] then (writeError x 400 ''InvalidArgument'' (msg ''uploadId is required''), e)
      else (case hq_XML (ex_req x) of
              Some (XCompleteUpload parts) \<Rightarrow>
                (case CompleteMultipartUpload M B P env uploadID parts e of
                   (Inl err, e') \<Rightarrow> (uploadFailure x err, e')
                 | (Inr rec, e') \<Rightarrow>
                     let scheme = (if hq_TLS (ex_req x) then ''https'' else ''http'');
                         location = scheme @ ''://'' @ rq_Host (hq_req (ex_req x)) @ ''/'' @ bucket @ ''/'' @ key
                     in (writeXML x 200 (XCompleteResult location bucket key (or_ETag rec)), e'))
            | _ \<Rightarrow> (malformedXML x ''invalid request XML'', e)))"

definition abortMultipartUpload ::
    "'m meta_store \<Rightarrow> 'b backend_ops \<Rightarrow> exchange \<Rightarrow> ('m, 'b) engine \<Rightarrow> ('m, 'b) answer" where
  "abortMultipartUpload M B x e =
     (let uploadID = multi_get (x_query x) ''uploadId'' in
      if uploadID = [] then (writeError x 400 ''InvalidArgument'' (msg ''uploadId is required''), e)
      else answer_write x uploadFailure 204 (AbortMultipartUpload M B uploadID e))"

end
