(* ===== verification/S3_Objects.thy ===== *)
theory S3_Objects
  imports S3_Handlers
begin

text \<open>The object handlers of internal/api/s3: object.go and the object part of tagging.go.\<close>

section \<open>Tags\<close>

text \<open>\<open>splitTagging\<close> cuts at every ampersand, \<open>splitTagKV\<close> at the first equals sign.\<close>

definition splitTagging :: "string \<Rightarrow> string list" where
  "splitTagging = Split CHR ''&''"

definition splitTagKV :: "string \<Rightarrow> string list" where
  "splitTagKV s = (if CHR ''='' \<in> set s then (case cut CHR ''='' s of (k, v) \<Rightarrow> [k, v]) else [s])"

definition extractTagsFromQuery :: "exchange \<Rightarrow> smap" where
  "extractTagsFromQuery x =
     (let tagging = x_header x ''x-amz-tagging'' in
      if tagging = [] then []
      else foldl (\<lambda>tags pair. case splitTagKV pair of [k, v] \<Rightarrow> AList.update k v tags | _ \<Rightarrow> tags) [] (splitTagging tagging))"

definition keyFailure :: "exchange \<Rightarrow> err \<Rightarrow> response" where
  "keyFailure x err = (if isObjectNotFound err then noSuchKey x else internalError x err)"

definition getObjectTagging :: "'m meta_store \<Rightarrow> exchange \<Rightarrow> string \<Rightarrow> string \<Rightarrow> ('m, 'b) engine \<Rightarrow> ('m, 'b) answer" where
  "getObjectTagging M x bucket key e =
     (case GetObjectTags M e bucket key of
        Inl err \<Rightarrow> (keyFailure x err, e)
      | Inr tags \<Rightarrow> (writeXML x 200 (XTagging (tagsToXML tags)), e))"

definition putObjectTagging :: "'m meta_store \<Rightarrow> exchange \<Rightarrow> string \<Rightarrow> string \<Rightarrow> ('m, 'b) engine \<Rightarrow> ('m, 'b) answer" where
  "putObjectTagging M x bucket key e =
     (case hq_XML (ex_req x) of
        Some (XTagging ts) \<Rightarrow> answer_write x keyFailure 200 (SetObjectTags M bucket key (tagsFromXML ts) e)
      | _ \<Rightarrow> (malformedXML x ''invalid tagging XML'', e))"

definition deleteObjectTagging :: "'m meta_store \<Rightarrow> exchange \<Rightarrow> string \<Rightarrow> string \<Rightarrow> ('m, 'b) engine \<Rightarrow> ('m, 'b) answer" where
  "deleteObjectTagging M x bucket key e = answer_write x keyFailure 204 (DeleteObjectTags M bucket key e)"

section \<open>Objects\<close>

text \<open>The source of a copy is taken as it is; its percent escapes are not undone.\<close>

definition copyObject ::
    "'m meta_store \<Rightarrow> 'b backend_ops \<Rightarrow> env \<Rightarrow> exchange \<Rightarrow> string \<Rightarrow> string \<Rightarrow> ('m, 'b) engine \<Rightarrow> ('m, 'b) answer" where
  "copyObject M B env x dstBucket dstKey e =
     (let copySource = TrimPrefix (x_header x ''x-amz-copy-source'') ''/'' in
      case SplitN CHR ''/'' 2 copySource of
        [srcBucket, srcKey] \<Rightarrow>
          (case CopyObject M B env srcBucket srcKey dstBucket dstKey (vi_Owner (identityFromContext (ex_ctx x))) e of
             (Inl err, e') \<Rightarrow> (objectFailure x err, e')
           | (Inr rec, e') \<Rightarrow> (writeXML x 200 (XCopyResult (format_millis (or_LastModified rec)) (or_ETag rec)), e'))
      | _ \<Rightarrow> (writeError x 400 ''InvalidArgument'' (msg ''x-amz-copy-source must be /bucket/key''), e))"

definition optional_header :: "string \<Rightarrow> string \<Rightarrow> exchange \<Rightarrow> exchange" where
  "optional_header k v x = (if v \<noteq> [] then set_header k v x else x)"

definition s3_put_input :: "exchange \<Rightarrow> string \<Rightarrow> string \<Rightarrow> put_object_input" where
  "s3_put_input x bucket key = \<lparr>pi_Bucket = bucket, pi_Key = key, pi_Body = hq_Body (ex_req x),
     pi_Size = hq_ContentLength (ex_req x), pi_ContentType = x_header x ''Content-Type'',
     pi_Owner = vi_Owner (identityFromContext (ex_ctx x)), pi_UserMeta = extractUserMeta x,
     pi_Tags = extractTagsFromQuery x, pi_SSEAlgorithm = x_header x ''x-amz-server-side-encryption''\<rparr>"

definition s3_putObject ::
    "'m meta_store \<Rightarrow> 'b backend_ops \<Rightarrow> platform \<Rightarrow> env \<Rightarrow> exchange \<Rightarrow> string \<Rightarrow> string \<Rightarrow> ('m, 'b) engine \<Rightarrow> ('m, 'b) answer" where
  "s3_putObject M B P env x bucket key e =
     (let q = x_query x in
      if query_Has q ''uploadId'' then uploadPart M B P env x e
      else if query_Has q ''tagging'' then putObjectTagging M x bucket key e
      else if x_header x ''x-amz-copy-source'' \<noteq> [] then copyObject M B env x bucket key e
      else (case PutObject M B P env (s3_put_input x bucket key) e of
              (Inl err, e') \<Rightarrow> (bucketFailure x err, e')
            | (Inr out, e') \<Rightarrow>
                (WriteHeader 200
                   (optional_header ''x-amz-server-side-encryption'' (po_SSEAlgorithm out)
                   (optional_header ''x-amz-version-id'' (po_VersionID out)
                   (set_header ''ETag'' (po_ETag out) x))), e')))"

text \<open>The headers that describe an object, and the user metadata in the order of the map.\<close>

definition object_headers :: "object_record \<Rightarrow> exchange \<Rightarrow> exchange" where
  "object_headers rec x =
     foldl (\<lambda>x (k, v). set_header (''x-amz-meta-'' @ k) v x)
       (set_header ''Last-Modified'' (format_http (or_LastModified rec))
       (set_header ''Content-Length'' (Itoa (sint (or_Size rec)))
       (set_header ''Content-Type'' (or_ContentType rec)
       (set_header ''ETag'' (or_ETag rec) x)))) (or_UserMeta rec)"

definition s3_getObject ::
    "'m meta_store \<Rightarrow> 'b backend_ops \<Rightarrow> platform \<Rightarrow> exchange \<Rightarrow> string \<Rightarrow> string \<Rightarrow> ('m, 'b) engine \<Rightarrow> ('m, 'b) answer" where
  "s3_getObject M B P x bucket key e =
     (let q = x_query x in
      if query_Has q ''tagging'' then getObjectTagging M x bucket key e
      else (case GetObject M B P bucket key (multi_get q ''versionId'') e of
              (Inl err, e') \<Rightarrow> (objectFailure x err, e')
            | (Inr out, e') \<Rightarrow>
                let rec = go_Record out in
                (respond 200 (RawBody (go_Body out))
                   (optional_header ''x-amz-server-side-encryption'' (or_SSEAlgorithm rec)
                   (optional_header ''x-amz-version-id'' (or_VersionID rec)
                   (object_headers rec x))), e')))"

definition s3_headObject :: "'m meta_store \<Rightarrow> exchange \<Rightarrow> string \<Rightarrow> string \<Rightarrow> ('m, 'b) engine \<Rightarrow> ('m, 'b) answer" where
  "s3_headObject M x bucket key e =
     (case HeadObject M e bucket key of
        Inl err \<Rightarrow> (objectFailure x err, e)
      | Inr rec \<Rightarrow> (WriteHeader 200 (object_headers rec x), e))"

definition s3_deleteObject ::
    "'m meta_store \<Rightarrow> 'b backend_ops \<Rightarrow> env \<Rightarrow> exchange \<Rightarrow> string \<Rightarrow> string \<Rightarrow> ('m, 'b) engine \<Rightarrow> ('m, 'b) answer" where
  "s3_deleteObject M B env x bucket key e =
     (let q = x_query x in
      if query_Has q ''uploadId'' then abortMultipartUpload M B x e
      else if query_Has q ''tagging'' then deleteObjectTagging M x bucket key e
      else (case DeleteObject M B env \<lparr>di_Bucket = bucket, di_Key = key, di_VersionID = multi_get q ''versionId'',
                   di_Owner = vi_Owner (identityFromContext (ex_ctx x))\<rparr> e of
              (Inl err, e') \<Rightarrow> (bucketFailure x err, e')
            | (Inr out, e') \<Rightarrow>
                (WriteHeader 204
                   (if do_DeleteMarker out then set_header ''x-amz-delete-marker'' ''true''
                      (optional_header ''x-amz-version-id'' (do_VersionID out) x)
                    else optional_header ''x-amz-version-id'' (do_VersionID out) x), e')))"

definition postObject ::
    "'m meta_store \<Rightarrow> 'b backend_ops \<Rightarrow> platform \<Rightarrow> env \<Rightarrow> exchange \<Rightarrow> string \<Rightarrow> string \<Rightarrow> ('m, 'b) engine \<Rightarrow> ('m, 'b) answer" where
  "postObject M B P env x bucket key e =
     (let q = x_query x in
      if query_Has q ''uploads'' then createMultipartUpload M env x bucket key e
      else if query_Has q ''uploadId'' then completeMultipartUpload M B P env x bucket key e
      else (writeError x 400 ''InvalidRequest'' (msg ''unsupported object POST operation''), e))"

text \<open>\<open>parseContentRange\<close>, which no handler calls; offset and length of a \<open>Range\<close> header.\<close>

definition parseContentRange :: "string \<Rightarrow> (int64 \<times> int64) result" where
  "parseContentRange rangeHeader =
     (if rangeHeader = [] then Inr (0, - 1)
      else
        let h = TrimPrefix rangeHeader ''bytes='' in
        case SplitN CHR ''-'' 2 h of
          [a, b] \<Rightarrow>
            if a = [] then Inr (0, - 1)
            else (case ParseInt64 a of
                    None \<Rightarrow> Inl (Wrap ''invalid Range start'' (msg a))
                  | Some offset \<Rightarrow>
                      if b \<noteq> []
                      then (case ParseInt64 b of
                              None \<Rightarrow> Inl (Wrap ''invalid Range end'' (msg b))
                            | Some endByte \<Rightarrow> Inr (offset, endByte - offset + 1))
                      else Inr (offset, - 1))
        | _ \<Rightarrow> Inl (Errorf ''invalid Range header: %s'' [FStr h]))"

end
