(* ===== verification/S3_Server.thy ===== *)
theory S3_Server
  imports S3_Objects
begin

text \<open>
  The S3 server: the routes of internal/api/s3/router.go and the middleware around them, in their order:
  request ID, audit, CORS, authentication, rate limit. The route of a path is chi's, so a parameter; so is
  the verdict of the rate limiter, which counts in floating point. A middleware that calls \<open>next\<close> passes a
  context on; what \<open>next\<close> adds to it, its caller does not see.
\<close>

section \<open>Routes\<close>

text \<open>\<open>http.Error\<close> and \<open>http.NotFound\<close>: a line of plain text.\<close>

definition http_Error :: "string \<Rightarrow> nat \<Rightarrow> exchange \<Rightarrow> response" where
  "http_Error m code x =
     respond code (TextBody (m @ [CHR 0x0A]))
       (set_header ''X-Content-Type-Options'' ''nosniff'' (set_header ''Content-Type'' ''text/plain; charset=utf-8'' x))"

datatype s3_route = ServiceRoute | BucketRoute string | ObjectRoute string string | NoRoute

definition s3_dispatch ::
    "'m meta_store \<Rightarrow> 'b backend_ops \<Rightarrow> platform \<Rightarrow> (nat \<Rightarrow> env) \<Rightarrow> s3_route \<Rightarrow> exchange \<Rightarrow> ('m, 'b) engine \<Rightarrow> ('m, 'b) answer" where
  "s3_dispatch M B P envs rt x e =
     (let verb = rq_Method (hq_req (ex_req x)) in
      case rt of
        NoRoute \<Rightarrow> (http_Error ''404 page not found'' 404 x, e)
      | ServiceRoute \<Rightarrow>
          if verb = ''GET'' then listBuckets M x e else (WriteHeader 405 x, e)
      | BucketRoute bucket \<Rightarrow>
          if verb = ''PUT'' then createBucket M B P (envs 0) x bucket e
          else if verb = ''HEAD'' then headBucket M x bucket e
          else if verb = ''DELETE'' then deleteBucket M B P x bucket e
          else if verb = ''GET'' then listObjects M x bucket e
          else if verb = ''POST'' then postBucket M B envs x bucket e
          else (WriteHeader 405 x, e)
      | ObjectRoute bucket key \<Rightarrow>
          if verb = ''PUT'' then s3_putObject M B P (envs 0) x bucket key e
          else if verb = ''GET'' then s3_getObject M B P x bucket key e
          else if verb = ''HEAD'' then s3_headObject M x bucket key e
          else if verb = ''DELETE'' then s3_deleteObject M B (envs 0) x bucket key e
          else if verb = ''POST'' then postObject M B P (envs 0) x bucket key e
          else (WriteHeader 405 x, e))"

section \<open>Middleware\<close>

type_synonym ('m, 'b) http_handler = "exchange \<Rightarrow> ('m, 'b) engine \<Rightarrow> ('m, 'b) answer"

definition RequestID :: "string \<Rightarrow> exchange \<Rightarrow> exchange" where
  "RequestID uuid x =
     (let h = x_header x ''x-amz-request-id''; id = (if h = [] then uuid else h)
      in (set_header ''x-amz-request-id'' id x)\<lparr>ex_ctx := (ex_ctx x)\<lparr>cx_middlewareRequestID := Some id\<rparr>\<rparr>)"

text \<open>audit.go\<close>

record audit_event =
  ae_RequestID :: string
  ae_User :: string
  ae_Action :: string
  ae_Bucket :: string
  ae_Key :: string
  ae_SourceIP :: string
  ae_StatusCode :: nat

definition inferAction :: "request \<Rightarrow> string" where
  "inferAction r =
     (let m = rq_Method r in
      if m = ''GET'' then ''s3:GetObject''
      else if m = ''PUT'' then ''s3:PutObject''
      else if m = ''DELETE'' then ''s3:DeleteObject''
      else if m = ''HEAD'' then ''s3:HeadObject''
      else if m = ''POST'' then ''s3:PostObject''
      else m)"

definition path_parts :: "request \<Rightarrow> string list" where
  "path_parts r = SplitN CHR ''/'' 2 (TrimPrefix (rq_Path r) ''/'')"

definition extractBucket :: "request \<Rightarrow> string" where
  "extractBucket r = (case path_parts r of [] \<Rightarrow> [] | p # ps \<Rightarrow> p)"

definition extractKey :: "request \<Rightarrow> string" where
  "extractKey r = (case path_parts r of [b, k] \<Rightarrow> k | _ \<Rightarrow> [])"

definition realIP :: "s3_request \<Rightarrow> string" where
  "realIP r =
     (let fwd = Header_Get (hq_req r) ''X-Forwarded-For''; rip = Header_Get (hq_req r) ''X-Real-Ip'' in
      if fwd \<noteq> [] then hd (SplitN CHR '','' 2 fwd)
      else if rip \<noteq> [] then rip
      else hq_RemoteAddr r)"

definition Audit :: "('m, 'b) http_handler \<Rightarrow> exchange \<Rightarrow> ('m, 'b) engine \<Rightarrow> ('m, 'b) answer \<times> audit_event" where
  "Audit next x e =
     (case next x e of
        (resp, e') \<Rightarrow>
          ((resp, e'),
           \<lparr>ae_RequestID = RequestIDFromContext (ex_ctx x), ae_User = vi_AccessKey (identityFromContext (ex_ctx x)),
            ae_Action = inferAction (hq_req (ex_req x)), ae_Bucket = extractBucket (hq_req (ex_req x)),
            ae_Key = extractKey (hq_req (ex_req x)), ae_SourceIP = realIP (ex_req x), ae_StatusCode = rs_Status resp\<rparr>))"

text \<open>cors.go; \<open>strings.EqualFold\<close> on ASCII.\<close>

definition originMatches :: "string list \<Rightarrow> string \<Rightarrow> bool" where
  "originMatches allowedOrigins origin =
     list_ex (\<lambda>ao. ao = ''*'' \<or> ao = origin \<or> HasPrefix ao ''*.'' \<and> HasSuffix origin (drop 1 ao)) allowedOrigins"

definition methodMatches :: "string list \<Rightarrow> string \<Rightarrow> bool" where
  "methodMatches allowedMethods verb = list_ex (\<lambda>am. ToLower am = ToLower verb \<or> am = ''*'') allowedMethods"

definition matchCORSRule :: "cors_rule list \<Rightarrow> string \<Rightarrow> string \<Rightarrow> cors_rule option" where
  "matchCORSRule rules origin verb =
     List.find (\<lambda>rule. originMatches (AllowedOrigins rule) origin \<and> methodMatches (AllowedMethods rule) verb) rules"

definition list_header :: "string \<Rightarrow> string list \<Rightarrow> exchange \<Rightarrow> exchange" where
  "list_header k vs x = (if vs \<noteq> [] then set_header k (Join vs '', '') x else x)"

definition cors_headers :: "string \<Rightarrow> cors_rule \<Rightarrow> exchange \<Rightarrow> exchange" where
  "cors_headers origin rule x =
     (let x1 = set_header ''Vary'' ''Origin'' (set_header ''Access-Control-Allow-Origin'' origin x);
          x2 = list_header ''Access-Control-Allow-Methods'' (AllowedMethods rule) x1;
          x3 = list_header ''Access-Control-Allow-Headers'' (AllowedHeaders rule) x2;
          x4 = list_header ''Access-Control-Expose-Headers'' (ExposeHeaders rule) x3
      in if MaxAgeSeconds rule > 0 then set_header ''Access-Control-Max-Age'' (Itoa (MaxAgeSeconds rule)) x4 else x4)"

definition CORS :: "(('m, 'b) engine \<Rightarrow> string \<Rightarrow> cors_rule list) \<Rightarrow> ('m, 'b) http_handler \<Rightarrow> ('m, 'b) http_handler" where
  "CORS fetcher next x e =
     (let r = hq_req (ex_req x); origin = x_header x ''Origin''; bucket = extractBucket r in
      if origin = [] then next x e
      else if bucket = [] then next x e
      else (case matchCORSRule (fetcher e bucket) origin (rq_Method r) of
              None \<Rightarrow> next x e
            | Some rule \<Rightarrow>
                let x' = cors_headers origin rule x in
                if rq_Method r = ''OPTIONS'' then (WriteHeader 200 x', e) else next x' e))"

definition corsRulesFetcher :: "'m meta_store \<Rightarrow> ('m, 'b) engine \<Rightarrow> string \<Rightarrow> cors_rule list" where
  "corsRulesFetcher M e bucket = (case GetCORSRules M e bucket of Inl err \<Rightarrow> [] | Inr rules \<Rightarrow> rules)"

text \<open>\<open>Auth\<close> around a handler; the answer of a rejection.\<close>

definition writeAuthError :: "string \<Rightarrow> err \<Rightarrow> exchange \<Rightarrow> response" where
  "writeAuthError code m x = respond 403 (AuthErrorBody code m) (set_header ''Content-Type'' ''application/xml'' x)"

definition with_auth :: "'m meta_store \<Rightarrow> platform \<Rightarrow> time \<Rightarrow> ('m, 'b) http_handler \<Rightarrow> ('m, 'b) http_handler" where
  "with_auth M P now next x e =
     (case Auth M P (hq_req (ex_req x)) now (e_meta e) of
        Rejected code m \<Rightarrow> (writeAuthError code m x, e)
      | Authenticated ident \<Rightarrow> next (x\<lparr>ex_ctx := (ex_ctx x)\<lparr>cx_identity := Some ident\<rparr>\<rparr>) e)"

text \<open>\<open>RateLimit\<close>: \<open>allowed\<close> says whether the limiters of the address and of the access key let it pass.\<close>

definition RateLimit :: "(string \<Rightarrow> string option \<Rightarrow> bool) option \<Rightarrow> ('m, 'b) http_handler \<Rightarrow> ('m, 'b) http_handler" where
  "RateLimit limiter next x e =
     (case limiter of
        None \<Rightarrow> next x e
      | Some allowed \<Rightarrow>
          let accessKey = vi_AccessKey (identityFromContext (ex_ctx x)) in
          if allowed (realIP (ex_req x)) (if accessKey = [] then None else Some accessKey) then next x e
          else (http_Error ''rate limit exceeded'' 429 x, e))"

text \<open>The whole of a request.\<close>

record server_config =
  sc_platform :: platform
  sc_route :: "request \<Rightarrow> s3_route"
  sc_limiter :: "(string \<Rightarrow> string option \<Rightarrow> bool) option"

definition fresh_exchange :: "s3_request \<Rightarrow> exchange" where
  "fresh_exchange r = \<lparr>ex_req = r, ex_ctx = \<lparr>cx_middlewareRequestID = None, cx_s3RequestID = None, cx_identity = None\<rparr>,
     ex_header = []\<rparr>"

definition s3_authenticated ::
    "server_config \<Rightarrow> 'm meta_store \<Rightarrow> 'b backend_ops \<Rightarrow> (nat \<Rightarrow> env) \<Rightarrow> ('m, 'b) http_handler" where
  "s3_authenticated C M B envs =
     RateLimit (sc_limiter C) (\<lambda>x. s3_dispatch M B (sc_platform C) envs (sc_route C (hq_req (ex_req x))) x)"

definition s3_server ::
    "server_config \<Rightarrow> 'm meta_store \<Rightarrow> 'b backend_ops \<Rightarrow> string \<Rightarrow> time \<Rightarrow> (nat \<Rightarrow> env) \<Rightarrow> s3_request \<Rightarrow>
     ('m, 'b) engine \<Rightarrow> ('m, 'b) answer \<times> audit_event" where
  "s3_server C M B uuid now envs r =
     Audit (CORS (corsRulesFetcher M) (with_auth M (sc_platform C) now (s3_authenticated C M B envs)))
       (RequestID uuid (fresh_exchange r))"

end
