(* ===== verification/Engine_Props.thy ===== *)
theory Engine_Props
  imports Engine_Demo
begin

text \<open>
  The properties of the storage engine as the server runs it: over the bbolt store on any database
  \<open>K\<close> with the laws of bbolt (\<open>bolt_db K kinv\<close>), and the local backend. Each property is followed by
  its application to the running engine of theory Engine_Demo.
\<close>

section \<open>Objects after a put\<close>

text \<open>
  C1: an object that was put is read back: after a successful \<open>PutObject\<close>, \<open>GetObject\<close> delivers
  exactly the bytes of the body, with the ETag, the version, the size and the user metadata of the
  put, in versioned and unversioned buckets and with server-side encryption on or off.
\<close>

theorem put_get_roundtrip:
  assumes "bolt_db K kinv" and "engine_ok K kinv e" and "put_ready localfs_good (records K e) env inp"
    and "PutObject (bbolt_store K) localfs_backend P env inp e = (Inr out, e')"
    and "aead_ok P" and "random_ok (env_rand env)" and "\<forall>mk. e_masterKey e = Some mk \<longrightarrow> length mk = 32"
  shows "\<exists>r e''. GetObject (bbolt_store K) localfs_backend P (pi_Bucket inp) (pi_Key inp) [] e' =
      (Inr \<lparr>go_Record = r, go_Body = reader_of (rd_data (pi_Body inp))\<rparr>, e'') \<and>
      or_ETag r = po_ETag out \<and> or_VersionID r = po_VersionID out \<and> or_Size r = po_Size out \<and>
      or_UserMeta r = pi_UserMeta inp \<and> or_Owner r = pi_Owner inp"
  by (rule storage_engine.put_get [OF server_engine [OF assms(1)] assms(2-)])

lemma put_get_roundtrip_witness:
  "\<exists>r e''. GetObject (bbolt_store ref_bolt) localfs_backend demo_platform ''bkt'' ''dir/a'' [] demo2 =
      (Inr \<lparr>go_Record = r, go_Body = reader_of ''hello''\<rparr>, e'') \<and> or_UserMeta r = [(''m'', ''v'')]"
  using put_get_roundtrip [OF ref.bolt_db_axioms demo1_ok(1) demo_put_ready(1) demo2_put demo_platform_ok] demo1_create(4)
  by (auto simp: demo_put_def)


definition demo_bad_put :: put_object_input where
  "demo_bad_put = demo_put\<lparr>pi_Bucket := ''none''\<rparr>"


text \<open>
  C4: the records and the files keep agreeing: if every object record has its file, of the recorded
  size, then so it is after a put, successful or not, that does not aim at another object's file.
\<close>

theorem put_keeps_files_of_records:
  assumes "bolt_db K kinv" and "engine_ok K kinv e" and "put_ready localfs_good (records K e) env inp"
    and "\<forall>bkt. mv_buckets (records K e) (pi_Bucket inp) = Some bkt \<longrightarrow>
      backend_key_free (records K e) (pi_Bucket inp) (pi_Key inp)
        (snd (resolveVersioning env (pi_Key inp) (br_Versioning bkt)))"
    and "all_stored localfs_good (files e) (records K e)"
    and "PutObject (bbolt_store K) localfs_backend P env inp e = (res, e')"
  shows "all_stored localfs_good (files e') (records K e')"
  by (rule storage_engine.put_keeps_stored [OF server_engine [OF assms(1)] assms(2-)])

lemma put_keeps_files_of_records_witness: "all_stored localfs_good (files demo2) (records ref_bolt demo2)"
  by (rule put_keeps_files_of_records [OF ref.bolt_db_axioms demo1_ok(1) demo_put_ready(1) _ demo1_stored demo2_put])
    (simp add: backend_key_free_def demo1_ok)

text \<open>
  a put leaves every other object alone: reading another key, in any bucket, gives the same
  record and the same bytes, or the same error, before and after.
\<close>

theorem put_leaves_other_objects:
  assumes "bolt_db K kinv" and "engine_ok K kinv e" and "put_ready localfs_good (records K e) env inp"
    and "\<forall>bkt. mv_buckets (records K e) (pi_Bucket inp) = Some bkt \<longrightarrow>
      backend_key_free (records K e) (pi_Bucket inp) (pi_Key inp)
        (snd (resolveVersioning env (pi_Key inp) (br_Versioning bkt)))"
    and "all_stored localfs_good (files e) (records K e)" and "nulfree b"
    and "(b, k) \<noteq> (pi_Bucket inp, pi_Key inp)"
    and "PutObject (bbolt_store K) localfs_backend P env inp e = (res, e')"
  shows "fst (GetObject (bbolt_store K) localfs_backend P b k [] e') = fst (GetObject (bbolt_store K) localfs_backend P b k [] e)"
  by (rule storage_engine.put_get_other [OF server_engine [OF assms(1)] assms(2-)])

lemma put_leaves_other_objects_witness:
  "fst (GetObject (bbolt_store ref_bolt) localfs_backend demo_platform ''bkt'' ''z'' [] demo2) =
   fst (GetObject (bbolt_store ref_bolt) localfs_backend demo_platform ''bkt'' ''z'' [] demo1)"
  by (rule put_leaves_other_objects [OF ref.bolt_db_axioms demo1_ok(1) demo_put_ready(1) _ demo1_stored _ _ demo2_put])
    (simp_all add: backend_key_free_def demo1_ok nulfree_def demo_put_def)

section \<open>Deletion\<close>

text \<open>
  C10: deleting an object succeeds and it is gone: \<open>GetObject\<close> and \<open>HeadObject\<close> without a version
  answer \<open>ObjectNotFoundError\<close>, whatever the versioning state; a delete marker is reported exactly in
  a versioned bucket. Deleting an absent key succeeds too.
\<close>

theorem delete_then_get_fails:
  assumes "bolt_db K kinv" and "engine_ok K kinv e"
    and "mv_buckets (records K e) (di_Bucket inp) = Some bkt" and "di_VersionID inp = []"
    and "all_stored localfs_good (files e) (records K e)"
    and "br_Versioning bkt = VersioningEnabled \<longrightarrow> version_ok (di_Bucket inp) (di_Key inp) (env_uuid env)"
  shows "\<exists>out e'. DeleteObject (bbolt_store K) localfs_backend env inp e = (Inr out, e') \<and> engine_ok K kinv e' \<and>
     GetObject (bbolt_store K) localfs_backend P (di_Bucket inp) (di_Key inp) [] e' =
       (Inl (ObjectNotFoundError (di_Bucket inp) (di_Key inp)), e') \<and>
     HeadObject (bbolt_store K) e' (di_Bucket inp) (di_Key inp) = Inl (ObjectNotFoundError (di_Bucket inp) (di_Key inp)) \<and>
     do_DeleteMarker out = (br_Versioning bkt = VersioningEnabled)"
  by (rule storage_engine.delete_then_get [OF server_engine [OF assms(1)] assms(2-)])

definition demo_del :: delete_object_input where
  "demo_del = \<lparr>di_Bucket = ''bkt'', di_Key = ''dir/a'', di_VersionID = [], di_Owner = ''o''\<rparr>"

lemma delete_then_get_fails_witness:
  "\<exists>out e'. DeleteObject (bbolt_store ref_bolt) localfs_backend demo_env demo_del demo2 = (Inr out, e') \<and>
     HeadObject (bbolt_store ref_bolt) e' ''bkt'' ''dir/a'' = Inl (ObjectNotFoundError ''bkt'' ''dir/a'')"
proof -
  obtain bkt where b: "mv_buckets (records ref_bolt demo2) (di_Bucket demo_del) = Some bkt" "br_Versioning bkt = ''disabled''"
    using demo2_facts(3) by (auto simp: demo_del_def)
  have "di_VersionID demo_del = []" by (simp add: demo_del_def)
  from delete_then_get_fails [OF ref.bolt_db_axioms demo2_facts(1) b(1) this demo2_facts(2), of demo_env demo_platform] b(2)
  show ?thesis by (auto simp: demo_del_def)
qed

text \<open>
  a delete touches no other object: every other record stays, and the records and files keep
  agreeing.
\<close>

theorem delete_leaves_other_objects:
  assumes "bolt_db K kinv" and "engine_ok K kinv e"
    and "mv_buckets (records K e) (di_Bucket inp) = Some bkt" and "di_VersionID inp = []"
    and "all_stored localfs_good (files e) (records K e)"
    and "br_Versioning bkt = VersioningEnabled \<longrightarrow> version_ok (di_Bucket inp) (di_Key inp) (env_uuid env)"
    and "\<forall>r. mv_objects (records K e) (di_Bucket inp) (di_Key inp) = Some r \<longrightarrow>
      backend_key_free (records K e) (di_Bucket inp) (di_Key inp) (record_backend_key (di_Key inp) r)"
    and "DeleteObject (bbolt_store K) localfs_backend env inp e = (res, e')"
  shows "all_stored localfs_good (files e') (records K e') \<and>
     (\<forall>b k. (b, k) \<noteq> (di_Bucket inp, di_Key inp) \<longrightarrow> mv_objects (records K e') b k = mv_objects (records K e) b k)"
  by (rule storage_engine.delete_frame_objects [OF server_engine [OF assms(1)] assms(2-)])

definition demo_del_other :: delete_object_input where
  "demo_del_other = demo_del\<lparr>di_Key := ''z''\<rparr>"

lemma delete_leaves_other_objects_witness:
  "mv_objects (records ref_bolt (snd (DeleteObject (bbolt_store ref_bolt) localfs_backend demo_env demo_del_other demo2))) ''bkt'' ''dir/a'' \<noteq> None"
proof -
  obtain bkt where b: "mv_buckets (records ref_bolt demo2) (di_Bucket demo_del_other) = Some bkt" "br_Versioning bkt = ''disabled''"
    using demo2_facts(3) by (auto simp: demo_del_def demo_del_other_def)
  have f: "di_VersionID demo_del_other = []" by (simp add: demo_del_def demo_del_other_def)
  have n: "mv_objects (records ref_bolt demo2) (di_Bucket demo_del_other) (di_Key demo_del_other) = None"
    using demo2_other by (simp add: demo_del_def demo_del_other_def)
  from delete_leaves_other_objects [OF ref.bolt_db_axioms demo2_facts(1) b(1) f demo2_facts(2) _ _ prod.collapse [symmetric], of demo_env]
    b(2) n demo2_facts(4)
  show ?thesis by (auto simp: demo_del_other_def demo_del_def)
qed

section \<open>Versions\<close>

text \<open>
  C12: in every bucket, a put, whatever its outcome, keeps each stored version readable under its
  version id, with its bytes, ETag and size, unless the new file is that version's own.
\<close>

theorem put_keeps_old_versions:
  assumes "bolt_db K kinv" and "engine_ok K kinv e" and "put_ready localfs_good (records K e) env inp"
    and "PutObject (bbolt_store K) localfs_backend P env inp e = (res, e')"
    and "mv_versions (records K e) b k v = Some r" and "\<not> vr_IsDeleteMarker r" and "v \<noteq> []"
    and "localfs_good b (versionedBackendKey k v)" and "files e b (versionedBackendKey k v) = Some d"
    and "\<forall>bkt. mv_buckets (records K e) (pi_Bucket inp) = Some bkt \<longrightarrow>
      version_file_free (records K e) (pi_Bucket inp) (snd (resolveVersioning env (pi_Key inp) (br_Versioning bkt)))"
  shows "\<exists>rec e''. GetObject (bbolt_store K) localfs_backend P b k v e' = (Inr \<lparr>go_Record = rec, go_Body = reader_of d\<rparr>, e'') \<and>
     or_ETag rec = vr_ETag r \<and> or_Size rec = vr_Size r"
  by (rule storage_engine.put_keeps_version [OF server_engine [OF assms(1)] assms(2-)])

definition demo_env2 :: env where
  "demo_env2 = demo_env\<lparr>env_uuid := ''00000000-0000-4000-8000-000000000002''\<rparr>"

lemma demo_putv2_ready: "put_ready localfs_good (records ref_bolt demo2v) demo_env2 demo_put"
proof -
  have "localfs_good ''bkt'' ''dir/a.v.00000000-0000-4000-8000-000000000002''" by code_simp
  moreover have "versionedBackendKey ''dir/a'' (env_uuid demo_env2) = ''dir/a.v.00000000-0000-4000-8000-000000000002''"
    by (simp add: versionedBackendKey_def demo_env2_def)
  ultimately show ?thesis using demo2v_facts(3)
    by (auto simp: put_ready_def put_names_def demo_put_def object_ok_def version_ok_def name_ok_def nulfree_def
        max_key_size_def resolveVersioning_def demo_env2_def)
qed

lemma put_keeps_old_versions_witness:
  "\<exists>rec e''. GetObject (bbolt_store ref_bolt) localfs_backend demo_platform ''bkt'' ''dir/a'' (env_uuid demo_env)
       (snd (PutObject (bbolt_store ref_bolt) localfs_backend demo_platform demo_env2 demo_put demo2v)) =
     (Inr \<lparr>go_Record = rec, go_Body = reader_of ''hello''\<rparr>, e'')"
proof -
  obtain r where r: "mv_versions (records ref_bolt demo2v) ''bkt'' ''dir/a'' (env_uuid demo_env) = Some r" "\<not> vr_IsDeleteMarker r"
    using demo2v_facts(4) by blast
  have ne: "env_uuid demo_env \<noteq> env_uuid demo_env2" "length (env_uuid demo_env) = length (env_uuid demo_env2)"
    by (simp_all add: demo_env_def demo_env2_def)
  have "version_file_free (records ref_bolt demo2v) ''bkt'' (versionedBackendKey ''dir/a'' (env_uuid demo_env2))"
    unfolding version_file_free_def
  proof (intro allI impI)
    fix k v r0
    assume "mv_versions (records ref_bolt demo2v) ''bkt'' k v = Some r0"
    then have "k = ''dir/a''" "v = env_uuid demo_env" using demo2v_facts(5) [of "''bkt''" k v] by auto
    then show "versionedBackendKey k v \<noteq> versionedBackendKey ''dir/a'' (env_uuid demo_env2)"
      using versionedBackendKey_inj [OF ne(2)] ne(1) by simp
  qed
  then have "\<forall>bkt. mv_buckets (records ref_bolt demo2v) (pi_Bucket demo_put) = Some bkt \<longrightarrow>
      version_file_free (records ref_bolt demo2v) (pi_Bucket demo_put) (snd (resolveVersioning demo_env2 (pi_Key demo_put) (br_Versioning bkt)))"
    using demo2v_facts(3) by (auto simp: resolveVersioning_def demo_put_def)
  from put_keeps_old_versions [OF ref.bolt_db_axioms demo2v_facts(1) demo_putv2_ready prod.collapse [symmetric] r _ _ _ this]
    demo_putv_ready(2) demo2v_facts(2) demo_vkey_eq
  show ?thesis by (fastforce simp: demo_env_def)
qed

text \<open>
  a delete that names no version destroys nothing in a versioned bucket: every stored version
  stays readable under its version id, with its bytes, ETag and size.
\<close>

theorem delete_keeps_old_versions:
  assumes "bolt_db K kinv" and "engine_ok K kinv e"
    and "mv_buckets (records K e) (di_Bucket inp) = Some bkt" and "br_Versioning bkt = VersioningEnabled"
    and "di_VersionID inp = []" and "version_ok (di_Bucket inp) (di_Key inp) (env_uuid env)" and "env_uuid env \<noteq> v"
    and "mv_versions (records K e) (di_Bucket inp) (di_Key inp) v = Some r" and "\<not> vr_IsDeleteMarker r" and "v \<noteq> []"
    and "localfs_good (di_Bucket inp) (versionedBackendKey (di_Key inp) v)"
    and "files e (di_Bucket inp) (versionedBackendKey (di_Key inp) v) = Some d"
    and "DeleteObject (bbolt_store K) localfs_backend env inp e = (res, e')"
  shows "\<exists>rec e''. GetObject (bbolt_store K) localfs_backend P (di_Bucket inp) (di_Key inp) v e' =
      (Inr \<lparr>go_Record = rec, go_Body = reader_of d\<rparr>, e'') \<and> or_ETag rec = vr_ETag r \<and> or_Size rec = vr_Size r"
  by (rule storage_engine.delete_keeps_version [OF server_engine [OF assms(1)] assms(2-)])

lemma demo_env2_version: "version_ok ''bkt'' ''dir/a'' (env_uuid demo_env2)" "env_uuid demo_env2 \<noteq> env_uuid demo_env"
  by (simp_all add: version_ok_def name_ok_def nulfree_def max_key_size_def demo_env2_def demo_env_def)

lemma delete_keeps_old_versions_witness:
  "\<exists>rec e''. GetObject (bbolt_store ref_bolt) localfs_backend demo_platform ''bkt'' ''dir/a'' (env_uuid demo_env)
       (snd (DeleteObject (bbolt_store ref_bolt) localfs_backend demo_env2 demo_del demo2v)) =
     (Inr \<lparr>go_Record = rec, go_Body = reader_of ''hello''\<rparr>, e'')"
proof -
  have d: "di_Bucket demo_del = ''bkt''" "di_Key demo_del = ''dir/a''" "di_VersionID demo_del = []" by (simp_all add: demo_del_def)
  obtain bkt where b: "mv_buckets (records ref_bolt demo2v) ''bkt'' = Some bkt" "br_Versioning bkt = VersioningEnabled"
    using demo2v_facts(3) by blast
  obtain r where r: "mv_versions (records ref_bolt demo2v) ''bkt'' ''dir/a'' (env_uuid demo_env) = Some r" "\<not> vr_IsDeleteMarker r"
    using demo2v_facts(4) by blast
  have v: "env_uuid demo_env \<noteq> []" by (simp add: demo_env_def)
  from delete_keeps_old_versions [where inp = demo_del, unfolded d, OF ref.bolt_db_axioms demo2v_facts(1) b refl demo_env2_version r v _ _ prod.collapse [symmetric]]
    demo_putv_ready(2) demo2v_facts(2) demo_vkey_eq
  show ?thesis by fastforce
qed

text \<open>
  C13: at most one version of an object is marked as the latest, and puts and deletes keep it so.
\<close>

theorem one_latest_version:
  assumes "bolt_db K kinv" and "engine_ok K kinv e" and "one_latest (records K e)"
  shows "(put_ready localfs_good (records K e) env inp \<longrightarrow>
      one_latest (records K (snd (PutObject (bbolt_store K) localfs_backend P env inp e)))) \<and>
     (mv_buckets (records K e) (di_Bucket dinp) = Some bkt \<longrightarrow> br_Versioning bkt = VersioningEnabled \<longrightarrow>
        di_VersionID dinp = [] \<longrightarrow> version_ok (di_Bucket dinp) (di_Key dinp) (env_uuid env) \<longrightarrow>
      one_latest (records K (snd (DeleteObject (bbolt_store K) localfs_backend env dinp e))))"
  using storage_engine.put_one_latest [OF server_engine [OF assms(1)] assms(2) _ prod.collapse [symmetric] assms(3)]
    storage_engine.delete_one_latest [OF server_engine [OF assms(1)] assms(2) _ _ _ _ assms(3) prod.collapse [symmetric]]
  by blast

lemma one_latest_version_witness:
  "one_latest (records ref_bolt (snd (PutObject (bbolt_store ref_bolt) localfs_backend demo_platform demo_env2 demo_put demo2v)))"
  using one_latest_version [OF ref.bolt_db_axioms demo2v_facts(1,7)] demo_putv2_ready by blast

end
