(* ===== verification/Engine_Props2.thy ===== *)
theory Engine_Props2
  imports Engine_Props Json_Text
begin

text \<open>
  Properties of multipart uploads, the lifecycle pass, buckets and quotas, over the bbolt store and
  the local backend, each applied to the running engine.
\<close>

section \<open>Multipart uploads\<close>

text \<open>
  Uploading a part stores exactly its bytes in the part's file and its record, under the ETag
  that is returned, and replaces what an earlier upload of the same number left; an upload that
  fails changes no record and no stored byte.
\<close>

theorem upload_part_stores_part:
  assumes "bolt_db K kinv" and "engine_ok K kinv e" and "mv_multiparts (records K e) uid = Some u"
    and "part_ok uid n" and "localfs_good (mr_Bucket u) (multipart_part_key uid n)"
    and "UploadPart (bbolt_store K) localfs_backend P env uid n body sz e = (res, e')"
  shows "engine_ok K kinv e' \<and> (case res of
      Inl _ \<Rightarrow> records K e' = records K e \<and> files e' = files e
    | Inr etag \<Rightarrow> etag = quoted (hexSum P (rd_data body)) \<and>
        records K e' = put_part_view \<lparr>pr_UploadID = uid, pr_PartNumber = n, pr_ETag = etag, pr_Size = sz,
          pr_LastModified = env_now env\<rparr> (records K e) \<and>
        files e' = (files e)(mr_Bucket u :=
          (files e (mr_Bucket u))(multipart_part_key uid n \<mapsto> rd_data body)))"
  by (rule storage_engine.UploadPart_ok [OF server_engine [OF assms(1)] assms(2-)])

lemma upload_part_stores_part_witness: "files demo_mp1 ''bkt'' demo_partfile = Some ''part''"
proof -
  obtain res where u: "UploadPart (bbolt_store ref_bolt) localfs_backend demo_platform demo_env (env_uuid demo_env) 1 (reader_of ''part'') 4 demo_mp = (res, demo_mp1)"
    by (metis demo_mp1_def prod.collapse)
  have "localfs_good ''bkt'' demo_partfile" unfolding demo_partfile_def by code_simp
  then have g: "localfs_good (mr_Bucket demo_upload) (multipart_part_key (env_uuid demo_env) 1)"
    by (simp add: demo_upload_def demo_partfile_eq)
  from upload_part_stores_part [OF ref.bolt_db_axioms demo_mp_facts(1,3) demo_uuid_ok(2) g u] demo_mp1_facts(5)
  show ?thesis by (cases res) (auto simp: demo_upload_def demo_partfile_eq)
qed

text \<open>
  C14: completing an upload makes the object: reading its key delivers the bytes of the chosen parts,
  one after the other in ascending order of their numbers, whatever the order of the request; the
  upload and its part records are gone, and no file changed but the object's and the part files
  \<open>1\<close> to the number of parts.
\<close>

theorem complete_multipart_assembles:
  assumes "bolt_db K kinv" and "engine_ok K kinv e" and "mv_multiparts (records K e) uid = Some u"
    and "parts_ready localfs_good (files e) uid u sel bytes_of"
    and "CompleteMultipartUpload (bbolt_store K) localfs_backend P env uid sel e = (Inr r, e')"
  shows "(\<exists>e''. GetObject (bbolt_store K) localfs_backend P (mr_Bucket u) (mr_Key u) [] e' =
        (Inr \<lparr>go_Record = r, go_Body = reader_of (assembled bytes_of sel)\<rparr>, e'')) \<and>
     mv_multiparts (records K e') uid = None \<and> mv_parts (records K e') uid = Map.empty \<and>
     (\<forall>b k. files e' b k \<noteq> files e b k \<longrightarrow> b = mr_Bucket u \<and>
        (k = mr_Key u \<or> k \<in> multipart_part_key uid ` {1..int (length sel)}))"
  by (rule storage_engine.CompleteMultipart_get [OF server_engine [OF assms(1)] assms(2-)])

lemma complete_multipart_assembles_witness:
  "\<exists>r e' e''. CompleteMultipartUpload (bbolt_store ref_bolt) localfs_backend demo_platform demo_env (env_uuid demo_env) demo_sel demo_mp1 = (Inr r, e') \<and>
     GetObject (bbolt_store ref_bolt) localfs_backend demo_platform ''bkt'' ''big'' [] e' =
        (Inr \<lparr>go_Record = r, go_Body = reader_of ''part''\<rparr>, e'')"
proof -
  obtain r e' where c: "CompleteMultipartUpload (bbolt_store ref_bolt) localfs_backend demo_platform demo_env (env_uuid demo_env) demo_sel demo_mp1 = (Inr r, e')"
    using demo_complete by blast
  from complete_multipart_assembles [OF ref.bolt_db_axioms demo_mp1_facts(1,3) demo_parts_ready c] c show ?thesis
    by (auto simp: demo_upload_def assembled_def demo_sel_def)
qed

text \<open>
  A completion that fails changes no record and no stored byte, and it does fail when the file
  of a chosen part is missing.
\<close>

theorem complete_multipart_error:
  assumes "bolt_db K kinv" and "engine_ok K kinv e" and "mv_multiparts (records K e) uid = Some u"
    and "\<forall>cp \<in> set sel. localfs_good (mr_Bucket u) (multipart_part_key uid (cp_PartNumber cp))"
    and "localfs_good (mr_Bucket u) (mr_Key u)" and "object_ok (mr_Bucket u) (mr_Key u)" and "nulfree uid"
    and "CompleteMultipartUpload (bbolt_store K) localfs_backend P env uid sel e = (res, e')"
  shows "(\<forall>err. res = Inl err \<longrightarrow> engine_ok K kinv e' \<and> records K e' = records K e \<and> files e' = files e) \<and>
     ((\<exists>cp \<in> set sel. files e (mr_Bucket u) (multipart_part_key uid (cp_PartNumber cp)) = None) \<longrightarrow>
        (\<exists>err. res = Inl err))"
  by (rule storage_engine.CompleteMultipart_err [OF server_engine [OF assms(1)] assms(2-)])

lemma complete_multipart_error_witness:
  "\<exists>err. fst (CompleteMultipartUpload (bbolt_store ref_bolt) localfs_backend demo_platform demo_env (env_uuid demo_env) demo_sel demo_mp) = Inl err"
proof -
  have g: "localfs_good ''bkt'' demo_partfile" "localfs_good ''bkt'' ''big''"
    unfolding demo_partfile_def by code_simp+
  have n: "files demo_mp ''bkt'' demo_partfile = None" unfolding demo_mp_facts(2) demo1_create demo_partfile_def by code_simp
  have "object_ok ''bkt'' ''big''" "nulfree (env_uuid demo_env)"
    using demo_uuid_ok(1) by (simp_all add: object_ok_def name_ok_def nulfree_def max_key_size_def)
  from complete_multipart_error [OF ref.bolt_db_axioms demo_mp_facts(1,3) _ _ _ this(2) prod.collapse [symmetric], of demo_sel demo_platform demo_env]
    this(1) g n
  show ?thesis by (simp add: demo_sel_def demo_upload_def demo_partfile_eq)
qed

section \<open>Lifecycle\<close>

text \<open>
  C15: an expiration rule deletes, of the first thousand objects under its prefix, exactly those that
  have the tags of its filter and were last modified more than its days ago; every other object of every bucket stays,
  and the records and files keep agreeing. The keys of the bucket are valid UTF-8, so that a record in the database
  has the key it is stored under; the clock is before the year 2262, and the days are at most a hundred
  trillion, since the arithmetic of times wraps around beyond (\<open>days_before_wraps\<close>): such a rule deletes every object.
\<close>

theorem expiration_deletes_exactly_expired:
  assumes "bolt_db K kinv" and "engine_ok K kinv e" and "mv_buckets (records K e) bk = Some bkt"
    and "all_stored localfs_good (files e) (records K e)" and "files_disjoint (records K e)"
    and "\<forall>i k. br_Versioning bkt = VersioningEnabled \<longrightarrow> mv_objects (records K e) bk k \<noteq> None \<longrightarrow>
      version_ok bk k (env_uuid (envs i))"
    and "\<forall>k. mv_objects (records K e) bk k \<noteq> None \<longrightarrow> valid_utf8 k"
    and "0 \<le> now" and "now < 2 ^ 63" and "0 \<le> ExpirationDays rule" and "ExpirationDays rule \<le> 100000000000000"
    and "expireObjects (bbolt_store K) localfs_backend envs bk rule now e = (res, e')"
  shows "res = Inr () \<and> engine_ok K kinv e' \<and> all_stored localfs_good (files e') (records K e') \<and>
     (\<exists>xs. sorted_wrt (<) (map or_Key xs) \<and>
       (\<forall>r. r \<in> set xs \<longleftrightarrow> mv_objects (records K e) bk (or_Key r) = Some r \<and> prefix (lf_Prefix (lr_Filter rule)) (or_Key r)) \<and>
       (\<forall>b' k'. mv_objects (records K e') b' k' =
         (if b' = bk \<and> (\<exists>r \<in> set (take 1000 xs). or_Key r = k' \<and>
             or_LastModified r < now - ExpirationDays rule * (24 * 60 * 60 * 1000000000) \<and>
             (\<forall>(t, v) \<in> set (lf_Tags (lr_Filter rule)). smap_get (or_Tags r) t = v))
          then None else mv_objects (records K e) b' k')))"
proof -
  have d: "days_before now (ExpirationDays rule) = now - ExpirationDays rule * (24 * 60 * 60 * 1000000000)"
    using days_before_usual [OF assms(8-11)] by (simp add: day_ns_eq)
  from storage_engine.expireObjects_ok [OF server_engine [OF assms(1)] assms(2-6,12)] obtain xs where
    r: "res = Inr ()" "engine_ok K kinv e'" "all_stored localfs_good (files e') (records K e')"
    and xs: "sorted_wrt (<) (map or_Key xs)"
      "\<forall>r. r \<in> set xs \<longleftrightarrow> mv_objects (records K e) bk (or_Key r) = Some r \<and> prefix (lf_Prefix (lr_Filter rule)) (or_Key r)"
    and o: "\<forall>b' k'. mv_objects (records K e') b' k' = (if b' = bk \<and> (\<exists>r \<in> set (take 1000 xs). or_Key r = k' \<and>
             expired r (lr_Filter rule) (days_before now (ExpirationDays rule))) then None else mv_objects (records K e) b' k')"
    by blast
  have e: "expired r (lr_Filter rule) (days_before now (ExpirationDays rule)) \<longleftrightarrow>
      or_LastModified r < now - ExpirationDays rule * (24 * 60 * 60 * 1000000000) \<and>
      (\<forall>(t, v) \<in> set (lf_Tags (lr_Filter rule)). smap_get (or_Tags r) t = v)" if "r \<in> set (take 1000 xs)" for r
  proof -
    have "length (lf_Prefix (lr_Filter rule)) \<le> length (or_Key r)"
      using xs(2) in_set_takeD [OF that] prefix_length_le by blast
    then show ?thesis unfolding d by (auto simp: expired_def objectMatchesFilter_def list_all_iff)
  qed
  have "(\<exists>r \<in> set (take 1000 xs). or_Key r = k' \<and> expired r (lr_Filter rule) (days_before now (ExpirationDays rule))) \<longleftrightarrow>
      (\<exists>r \<in> set (take 1000 xs). or_Key r = k' \<and> or_LastModified r < now - ExpirationDays rule * (24 * 60 * 60 * 1000000000) \<and>
        (\<forall>(t, v) \<in> set (lf_Tags (lr_Filter rule)). smap_get (or_Tags r) t = v))" for k'
    by (rule bex_cong [OF refl]) (simp only: e)
  with r xs o show ?thesis by (intro conjI exI [of _ xs]) simp_all
qed

text \<open>
  Two objects, the first put a microsecond after the epoch and the second five days later; a rule of one day for every key
  then deletes the first and keeps the second.
\<close>

lemma put_commit_backend: "e_backend (snd (put_commit M env inp bkt r e)) = e_backend e"
  by (simp add: put_commit_def storeVersioningMetadata_def meta_write_def Let_def split: sum.split prod.split)

definition copy_fs :: local_fs where
  "copy_fs = snd (localfs_Write (e_backend demo1) ''bkt'' ''dir/a'' (reader_of ''hello'') 5)"

lemma demo2_backend: "e_backend demo2 = copy_fs"
proof -
  let ?bkt = "new_bucket demo_env ''bkt'' ''o'' ''r''"
  have i: "bolt_inv ref_bolt (\<lambda>_. True) (e_meta demo1)" using demo1_ok(1) by (simp add: engine_inv_def)
  have g: "m_GetBucket (bbolt_store ref_bolt) (e_meta demo1) ''bkt'' = Inr ?bkt"
    by (rule ref.ms.get_bucket_Some [OF i demo1_ok(2)])
  have b: "br_Quota ?bkt = None" "br_SSEAlgorithm ?bkt = []" "br_Versioning ?bkt \<noteq> VersioningEnabled"
    by (simp_all add: new_bucket_def)
  have d: "pi_Bucket demo_put = ''bkt''" "pi_Key demo_put = ''dir/a''" "pi_Body demo_put = reader_of ''hello''" "pi_Size demo_put = 5"
    "pi_SSEAlgorithm demo_put = []" by (simp_all add: demo_put_def)
  obtain res s where w: "localfs_Write (e_backend demo1) ''bkt'' ''dir/a'' (reader_of ''hello'') 5 = (res, s)" by force
  have "e_backend (snd (PutObject (bbolt_store ref_bolt) localfs_backend demo_platform demo_env demo_put demo1)) = s"
    by (cases res) (simp_all add: PutObject_def d g checkQuota_def b applySSE_def resolveVersioning_def localfs_backend_def w put_commit_backend)
  then show ?thesis by (simp add: demo2_def copy_fs_def w)
qed

lemma put_record_of:
  assumes "put_ready localfs_good (records ref_bolt e) env inp" and "engine_ok ref_bolt (\<lambda>_. True) e"
    and "PutObject (bbolt_store ref_bolt) localfs_backend demo_platform env inp e = (Inr out, e')"
    and "mv_buckets (records ref_bolt e) (pi_Bucket inp) = Some bkt" and "br_Versioning bkt = ''disabled''"
  obtains r where "mv_objects (records ref_bolt e') (pi_Bucket inp) (pi_Key inp) = Some r" and "or_LastModified r = env_now env"
    and "record_backend_key (pi_Key inp) r = pi_Key inp"
    and "\<exists>b. mv_buckets (records ref_bolt e') (pi_Bucket inp) = Some b \<and> br_Versioning b = ''disabled''"
    and "engine_ok ref_bolt (\<lambda>_. True) e'"
proof -
  from eng.PutObject_Inr [OF assms(2,1,3)] obtain bkt' vid bk alg ek and r :: object_record and body :: reader where b: "mv_buckets (records ref_bolt e) (pi_Bucket inp) = Some bkt'"
    and v: "(vid, bk) = resolveVersioning env (pi_Key inp) (br_Versioning bkt')"
    and r: "r = put_record demo_platform env inp bkt' vid alg ek (rd_data body) (byte_count (rd_data body))"
    and e': "engine_ok ref_bolt (\<lambda>_. True) e'"
      "records ref_bolt e' = put_view bkt' r (fst (delta bkt' r (records ref_bolt e))) (snd (delta bkt' r (records ref_bolt e))) (records ref_bolt e)"
    by blast
  have [simp]: "bkt' = bkt" using b assms(4) by simp
  have f: "or_Bucket r = pi_Bucket inp" "or_Key r = pi_Key inp" "or_VersionID r = []" "or_LastModified r = env_now env"
    using r v assms(5) by (simp_all add: resolveVersioning_def)
  have o: "mv_objects (records ref_bolt e') (pi_Bucket inp) (pi_Key inp) = Some r"
    unfolding e'(2) put_view_objects f(1,2) by simp
  have v': "\<exists>b. mv_buckets (records ref_bolt e') (pi_Bucket inp) = Some b \<and> br_Versioning b = ''disabled''"
    unfolding e'(2) put_view_buckets f(1) assms(4) using assms(5) by (simp add: add_stats_def)
  have "record_backend_key (pi_Key inp) r = pi_Key inp" using f(3) by (simp add: record_backend_key_def)
  from that [OF o f(4) this v' e'(1)] show thesis .
qed

definition late_env :: env where
  "late_env = demo_env\<lparr>env_now := 5 * day_ns\<rparr>"

definition late_put :: put_object_input where
  "late_put = demo_put\<lparr>pi_Key := ''z''\<rparr>"

definition demo3 :: "(ref_db, local_fs) engine" where
  "demo3 = snd (PutObject (bbolt_store ref_bolt) localfs_backend demo_platform late_env late_put demo2)"

lemma late_put_ready: "put_ready localfs_good (records ref_bolt demo2) late_env late_put"
proof -
  have "localfs_good ''bkt'' ''z''" by code_simp
  then show ?thesis using demo2_facts(3)
    by (auto simp: put_ready_def put_names_def late_put_def demo_put_def object_ok_def name_ok_def nulfree_def
        max_key_size_def resolveVersioning_def)
qed

lemma demo2_bucket:
  obtains bkt where "mv_buckets (records ref_bolt demo2) ''bkt'' = Some bkt" and "br_Versioning bkt = ''disabled''"
    and "br_Quota bkt = None" and "br_SSEAlgorithm bkt = []"
proof -
  obtain bkt and r :: object_record where
    "mv_buckets (records ref_bolt demo1) (pi_Bucket demo_put) = Some bkt" "or_Bucket r = pi_Bucket demo_put"
    "records ref_bolt demo2 = put_view bkt r (fst (delta bkt r (records ref_bolt demo1))) (snd (delta bkt r (records ref_bolt demo1))) (records ref_bolt demo1)"
    using eng.PutObject_Inr [OF demo1_ok(1) demo_put_ready(1) demo2_put] by (metis put_record_fields(1))
  moreover from this(1) have "bkt = new_bucket demo_env ''bkt'' ''o'' ''r''" using demo1_ok(2) by (simp add: demo_put_def)
  ultimately show thesis
    by (intro that [of "add_stats (fst (delta bkt r (records ref_bolt demo1))) (snd (delta bkt r (records ref_bolt demo1))) (new_bucket demo_env ''bkt'' ''o'' ''r'')"])
      (simp_all add: put_view_buckets demo_put_def add_stats_def new_bucket_def)
qed

lemma demo3_put: "\<exists>out. PutObject (bbolt_store ref_bolt) localfs_backend demo_platform late_env late_put demo2 = (Inr out, demo3)"
proof -
  obtain bkt where b: "mv_buckets (records ref_bolt demo2) ''bkt'' = Some bkt" "br_Versioning bkt = ''disabled''"
    "br_Quota bkt = None" "br_SSEAlgorithm bkt = []" by (rule demo2_bucket)
  have "localfs_good ''bkt'' ''z''" by code_simp
  moreover have "lfs_inv (e_backend demo2)" using demo2_facts(1) by (simp add: engine_inv_def)
  moreover have "write_ready (e_backend demo2) ''bkt'' ''z''"
    unfolding demo2_backend copy_fs_def demo1_create by (rule write_readyI [OF _ _ _ refl]) code_simp+
  ultimately obtain s' where "localfs_Write (e_backend demo2) ''bkt'' ''z'' (reader_of ''hello'') 5 = (Inr 5, s')"
    using localfs_Write_progress [of "e_backend demo2" "''bkt''" "''z''" "reader_of ''hello''" 5] by (auto simp: byte_count_def)
  then have "\<exists>out e'. PutObject (bbolt_store ref_bolt) localfs_backend demo_platform late_env late_put demo2 = (Inr out, e')"
    using b by (intro eng.PutObject_progress [OF demo2_facts(1) late_put_ready, where bkt = bkt
          and body = "reader_of ''hello''" and alg = "[]" and ek = "[]" and m = 5])
      (auto simp: late_put_def demo_put_def checkQuota_def applySSE_def resolveVersioning_def localfs_backend_def)
  then show ?thesis by (auto simp: demo3_def)
qed

lemma demo2_objects: "mv_objects (records ref_bolt demo2) b k \<noteq> None \<Longrightarrow> (b, k) = (''bkt'', ''dir/a'')"
proof -
  have "(b, k) \<noteq> (''bkt'', ''dir/a'') \<Longrightarrow> mv_objects (records ref_bolt demo2) b k = None"
    using eng.put_frame [OF demo1_ok(1) demo_put_ready(1) demo2_put, of b k] demo1_ok(3) by (simp add: demo_put_def)
  then show "mv_objects (records ref_bolt demo2) b k \<noteq> None \<Longrightarrow> (b, k) = (''bkt'', ''dir/a'')"
    by (cases "(b, k) = (''bkt'', ''dir/a'')") simp_all
qed

lemma demo3_facts:
  obtains ra rz where "mv_objects (records ref_bolt demo3) ''bkt'' ''dir/a'' = Some ra" and "or_LastModified ra = 1000"
    and "mv_objects (records ref_bolt demo3) ''bkt'' ''z'' = Some rz" and "or_LastModified rz = 5 * day_ns"
    and "\<forall>b k. mv_objects (records ref_bolt demo3) b k \<noteq> None \<longrightarrow> b = ''bkt'' \<and> k \<in> {''dir/a'', ''z''}"
    and "engine_ok ref_bolt (\<lambda>_. True) demo3" and "all_stored localfs_good (files demo3) (records ref_bolt demo3)"
    and "files_disjoint (records ref_bolt demo3)"
    and "\<exists>b. mv_buckets (records ref_bolt demo3) ''bkt'' = Some b \<and> br_Versioning b = ''disabled''"
proof -
  have n: "pi_Bucket demo_put = ''bkt''" "pi_Key demo_put = ''dir/a''" "pi_Bucket late_put = ''bkt''" "pi_Key late_put = ''z''"
    by (simp_all add: demo_put_def late_put_def)
  obtain ra where ra: "mv_objects (records ref_bolt demo2) ''bkt'' ''dir/a'' = Some ra" "or_LastModified ra = 1000"
    "record_backend_key ''dir/a'' ra = ''dir/a''"
    using put_record_of [OF demo_put_ready(1) demo1_ok(1) demo2_put, unfolded n, OF demo1_ok(2)]
    by (auto simp: new_bucket_def demo_env_def)
  obtain out where p: "PutObject (bbolt_store ref_bolt) localfs_backend demo_platform late_env late_put demo2 = (Inr out, demo3)"
    using demo3_put by blast
  obtain bkt where b: "mv_buckets (records ref_bolt demo2) ''bkt'' = Some bkt" "br_Versioning bkt = ''disabled''"
    by (rule demo2_bucket)
  obtain rz where rz: "mv_objects (records ref_bolt demo3) ''bkt'' ''z'' = Some rz" "or_LastModified rz = 5 * day_ns"
    "record_backend_key ''z'' rz = ''z''"
    "\<exists>b. mv_buckets (records ref_bolt demo3) ''bkt'' = Some b \<and> br_Versioning b = ''disabled''" "engine_ok ref_bolt (\<lambda>_. True) demo3"
    using put_record_of [OF late_put_ready demo2_facts(1) p, unfolded n, OF b] by (auto simp: late_env_def)
  have fr: "mv_objects (records ref_bolt demo3) b k = mv_objects (records ref_bolt demo2) b k" if "(b, k) \<noteq> (''bkt'', ''z'')" for b k
    using eng.put_frame [OF demo2_facts(1) late_put_ready p, of b k] that n by simp
  have o: "b = ''bkt'' \<and> k \<in> {''dir/a'', ''z''}" if "mv_objects (records ref_bolt demo3) b k \<noteq> None" for b k
    using that fr [of b k] demo2_objects [of b k] by (cases "(b, k) = (''bkt'', ''z'')") auto
  have a: "mv_objects (records ref_bolt demo3) ''bkt'' ''dir/a'' = Some ra" using fr ra(1) by simp
  have fd: "files_disjoint (records ref_bolt demo3)"
    unfolding files_disjoint_def
  proof (intro allI impI)
    fix b k k' r r'
    assume r: "mv_objects (records ref_bolt demo3) b k = Some r" "mv_objects (records ref_bolt demo3) b k' = Some r'"
      "record_backend_key k r = record_backend_key k' r'"
    then have "b = ''bkt''" "k \<in> {''dir/a'', ''z''}" "k' \<in> {''dir/a'', ''z''}" using o by blast+
    then show "k = k'" using r a rz(1,3) ra(3) by auto
  qed
  have "backend_key_free (records ref_bolt demo2) ''bkt'' ''z'' ''z''"
    unfolding backend_key_free_def
  proof (intro allI impI)
    fix k' r' assume r': "mv_objects (records ref_bolt demo2) ''bkt'' k' = Some r'"
    then have "k' = ''dir/a''" using demo2_objects [of "''bkt''" k'] by simp
    with r' ra(1,3) show "record_backend_key k' r' \<noteq> ''z''" by simp
  qed
  then have "all_stored localfs_good (files demo3) (records ref_bolt demo3)"
    using b by (intro eng.put_keeps_stored [OF demo2_facts(1) late_put_ready _ demo2_facts(2) p]) (auto simp: n resolveVersioning_def)
  then show thesis using that [OF a ra(2) rz(1,2) _ rz(5) _ fd rz(4)] o by blast
qed

definition demo_rule :: lifecycle_rule where
  "demo_rule = \<lparr>lr_ID = ''r'', lr_Status = ''Enabled'', lr_Filter = \<lparr>lf_Prefix = [], lf_Tags = []\<rparr>,
     ExpirationDays = 1, ExpirationDate = None, NoncurrentVersionExpirationDays = 0, AbortIncompleteMultipartDays = 0\<rparr>"

lemma expiration_deletes_exactly_expired_witness:
  "\<exists>e'. expireObjects (bbolt_store ref_bolt) localfs_backend (\<lambda>_. demo_env) ''bkt'' demo_rule (5 * day_ns) demo3 = (Inr (), e') \<and>
     mv_objects (records ref_bolt demo3) ''bkt'' ''dir/a'' \<noteq> None \<and> mv_objects (records ref_bolt e') ''bkt'' ''dir/a'' = None \<and>
     mv_objects (records ref_bolt e') ''bkt'' ''z'' = mv_objects (records ref_bolt demo3) ''bkt'' ''z'' \<and>
     mv_objects (records ref_bolt e') ''bkt'' ''z'' \<noteq> None"
proof -
  obtain ra rz where o: "mv_objects (records ref_bolt demo3) ''bkt'' ''dir/a'' = Some ra" "or_LastModified ra = 1000"
    "mv_objects (records ref_bolt demo3) ''bkt'' ''z'' = Some rz" "or_LastModified rz = 5 * day_ns"
    "\<forall>b k. mv_objects (records ref_bolt demo3) b k \<noteq> None \<longrightarrow> b = ''bkt'' \<and> k \<in> {''dir/a'', ''z''}"
    and i: "engine_ok ref_bolt (\<lambda>_. True) demo3" "all_stored localfs_good (files demo3) (records ref_bolt demo3)"
      "files_disjoint (records ref_bolt demo3)" "\<exists>b. mv_buckets (records ref_bolt demo3) ''bkt'' = Some b \<and> br_Versioning b = ''disabled''"
    by (rule demo3_facts)
  obtain bkt where b: "mv_buckets (records ref_bolt demo3) ''bkt'' = Some bkt" "br_Versioning bkt = ''disabled''" using i(4) by blast
  have inv: "bolt_inv ref_bolt (\<lambda>_. True) (e_meta demo3)" using i(1) by (simp add: engine_inv_def)
  have keys: "or_Key ra = ''dir/a''" "or_Key rz = ''z''" using ref.ms.object_named [OF inv] o(1,3) by blast+
  have u: "valid_utf8 ''dir/a''" "valid_utf8 ''z''" by code_simp+
  have "\<forall>k. mv_objects (records ref_bolt demo3) ''bkt'' k \<noteq> None \<longrightarrow> valid_utf8 k" using o(5) u by blast
  note k = this
  have R: "lf_Prefix (lr_Filter demo_rule) = []" "lf_Tags (lr_Filter demo_rule) = []" "ExpirationDays demo_rule = 1"
    by (simp_all add: demo_rule_def)
  obtain res e' where run: "expireObjects (bbolt_store ref_bolt) localfs_backend (\<lambda>_. demo_env) ''bkt'' demo_rule (5 * day_ns) demo3 = (res, e')"
    by force
  have "br_Versioning bkt \<noteq> VersioningEnabled" using b(2) by simp
  then obtain xs where x: "res = Inr ()" "sorted_wrt (<) (map or_Key xs)"
    "\<And>r. r \<in> set xs \<longleftrightarrow> mv_objects (records ref_bolt demo3) ''bkt'' (or_Key r) = Some r"
    "\<And>b' k'. mv_objects (records ref_bolt e') b' k' = (if b' = ''bkt'' \<and> (\<exists>r \<in> set (take 1000 xs). or_Key r = k' \<and>
         or_LastModified r < 5 * day_ns - 1 * (24 * 60 * 60 * 1000000000)) then None else mv_objects (records ref_bolt demo3) b' k')"
    using expiration_deletes_exactly_expired [OF ref.bolt_db_axioms i(1) b(1) i(2,3) _ k _ _ _ _ run, unfolded R]
    by (simp add: day_ns_eq) blast
  have "set xs \<subseteq> {ra, rz}"
  proof
    fix r assume "r \<in> set xs"
    then have "mv_objects (records ref_bolt demo3) ''bkt'' (or_Key r) = Some r" using x(3) by blast
    with o(5) [rule_format, of "''bkt''" "or_Key r"] o(1,3) show "r \<in> {ra, rz}" by auto
  qed
  moreover have "distinct xs" using sorted_wrt_less_distinct [OF x(2)] by (simp add: distinct_map)
  ultimately have "length xs \<le> 2" using card_mono [of "{ra, rz}" "set xs"] distinct_card [of xs] card_insert_le_m1 [of 2 "{rz}" ra]
    by (auto simp: card_insert_if split: if_splits)
  then have "take 1000 xs = xs" by simp
  moreover have "ra \<in> set xs" using x(3) o(1) keys by simp
  moreover have "or_LastModified r = 5 * day_ns" if "r \<in> set xs" "or_Key r = ''z''" for r using that x(3) [of r] o(3,4) by simp
  ultimately have "mv_objects (records ref_bolt e') ''bkt'' ''dir/a'' = None"
    "mv_objects (records ref_bolt e') ''bkt'' ''z'' = mv_objects (records ref_bolt demo3) ''bkt'' ''z''"
    using x(4) o(2) keys by (auto simp: day_ns_eq)
  with run x(1) o(1,3) show ?thesis by simp
qed

section \<open>Buckets\<close>

text \<open>
  Creating a bucket succeeds only for a valid, unused name, and then it is found by \<open>HeadBucket\<close>
  as a new private, unversioned, empty bucket; otherwise nothing changes. No stored byte changes.
\<close>

theorem create_bucket_head_bucket:
  assumes "bolt_db K kinv" and "engine_ok K kinv e"
    and "CreateBucket (bbolt_store K) localfs_backend env name owner region e = (res, e')"
  shows "engine_ok K kinv e' \<and> files e' = files e \<and> (case res of
      Inl _ \<Rightarrow> records K e' = records K e
    | Inr _ \<Rightarrow> validateBucketName name = None \<and>
        HeadBucket (bbolt_store K) e name = Inl (BucketNotFoundError name) \<and>
        HeadBucket (bbolt_store K) e' name = Inr (new_bucket env name owner region))"
proof -
  note E = server_engine [OF assms(1)]
  note c = storage_engine.CreateBucket_cases [OF E assms(2,3)]
  then show ?thesis
    using storage_engine.HeadBucket_eq [OF E assms(2), of name] storage_engine.HeadBucket_eq [OF E, of e' name]
    by (auto simp: put_bucket_view_def new_bucket_def split: sum.splits)
qed

lemma create_bucket_head_bucket_witness:
  "HeadBucket (bbolt_store ref_bolt) demo1 ''bkt'' = Inr (new_bucket demo_env ''bkt'' ''o'' ''r'')"
proof -
  have "engine_ok ref_bolt (\<lambda>_. True) demo0"
    using demo_fs_wf demo_root by (simp add: demo0_def fresh_engine_ok lfs_inv_def demo_fs_def)
  from create_bucket_head_bucket [OF ref.bolt_db_axioms this demo1_create(1)] show ?thesis by simp
qed

text \<open>
  The names that \<open>CreateBucket\<close> accepts are those of 3 to 63 lower case letters, digits and
  hyphens that start and end with a letter or a digit; the last check of \<open>validateBucketName\<close>, for
  \<open>..\<close>, \<open>.-\<close> and \<open>-.\<close>, never rejects anything, because no dot passes the expression before it.
\<close>

theorem bucket_names_accepted:
  "validateBucketName s = None \<longleftrightarrow> 3 \<le> length s \<and> length s \<le> 63 \<and> lower_alnum (hd s) \<and> lower_alnum (last s) \<and>
     (\<forall>c \<in> set s. lower_alnum c \<or> c = CHR ''-'')"
  by (rule validateBucketName_None_iff)

lemma bucket_names_accepted_witness: "validateBucketName ''a-1'' = None"
  using bucket_names_accepted [of "''a-1''"] by (simp add: lower_alnum_def)

text \<open>
  A bucket whose object count is positive is not deleted, a missing one is reported as such, and
  a failed deletion changes nothing; a successful one removes the bucket and nothing else.
\<close>

theorem delete_bucket_only_empty:
  assumes "bolt_db K kinv" and "engine_ok K kinv e"
    and "DeleteBucket (bbolt_store K) localfs_backend name e = (res, e')"
  shows "engine_ok K kinv e' \<and> files e' = files e \<and> (case res of
      Inl err \<Rightarrow> records K e' = records K e
    | Inr _ \<Rightarrow> (\<exists>r. mv_buckets (records K e) name = Some r \<and> sint (br_ObjectCount r) \<le> 0) \<and>
        records K e' = (records K e)\<lparr>mv_buckets := (mv_buckets (records K e))(name := None)\<rparr>) \<and>
     (\<forall>r. mv_buckets (records K e) name = Some r \<longrightarrow> 0 < sint (br_ObjectCount r) \<longrightarrow> res = Inl (BucketNotEmptyError name)) \<and>
     (mv_buckets (records K e) name = None \<longrightarrow> res = Inl (BucketNotFoundError name))"
  using storage_engine.DeleteBucket_cases [OF server_engine [OF assms(1)] assms(2,3)] by blast

lemma delete_bucket_only_empty_witness:
  "fst (DeleteBucket (bbolt_store ref_bolt) localfs_backend ''none'' demo1) = Inl (BucketNotFoundError ''none'')"
  using delete_bucket_only_empty [OF ref.bolt_db_axioms demo1_ok(1) prod.collapse [symmetric], of "''none''"] demo_none by blast

text \<open>
  The versioning state that was set is read back; an unknown status is rejected and changes
  nothing, and setting it changes no other bucket and no object.
\<close>

theorem set_get_versioning:
  assumes "bolt_db K kinv" and "engine_ok K kinv e" and "mv_buckets (records K e) name = Some r"
    and "SetBucketVersioning (bbolt_store K) name status e = (res, e')"
  shows "(if status \<in> {VersioningEnabled, VersioningSuspended, VersioningDisabled}
      then res = Inr () \<and> GetBucketVersioning (bbolt_store K) e' name = Inr status \<and>
        records K e' = (records K e)\<lparr>mv_buckets := (mv_buckets (records K e))(name \<mapsto> r\<lparr>br_Versioning := status\<rparr>)\<rparr>
      else res = Inl (Errorf ''set versioning: invalid status %q'' [FStr status]) \<and> e' = e) \<and> files e' = files e"
proof -
  note E = server_engine [OF assms(1)]
  note c = storage_engine.modify_bucket_cases [OF E assms(2) _ assms(4) [unfolded SetBucketVersioning_def]]
  then show ?thesis
    using storage_engine.read_bucket_eq [OF E, of e' _ br_Versioning name] assms(3)
    by (auto simp: GetBucketVersioning_def split: if_splits)
qed

lemma set_get_versioning_witness: "GetBucketVersioning (bbolt_store ref_bolt) demo1v ''bkt'' = Inr ''enabled''"
  using set_get_versioning [OF ref.bolt_db_axioms demo1_ok(1,2), of "''enabled''" "fst (SetBucketVersioning (bbolt_store ref_bolt) ''bkt'' ''enabled'' demo1)" demo1v]
  by (simp add: demo1v_def)

section \<open>Quotas\<close>

text \<open>
  with an honest \<open>Content-Length\<close> and no encryption, a put that succeeds leaves the bucket within
  its size quota.
\<close>

theorem put_respects_size_quota:
  assumes "bolt_db K kinv" and "engine_ok K kinv e" and "put_ready localfs_good (records K e) env inp"
    and "PutObject (bbolt_store K) localfs_backend P env inp e = (Inr out, e')"
    and "mv_buckets (records K e) (pi_Bucket inp) = Some bkt" and "br_Quota bkt = Some q" and "e_masterKey e = None"
    and "pi_Size inp = byte_count (rd_data (pi_Body inp))" and "0 \<le> sint (pi_Size inp)"
    and "0 \<le> sint (br_TotalBytes bkt)" and "sint (br_TotalBytes bkt) + sint (pi_Size inp) < 2 ^ 63"
    and "\<forall>r. mv_objects (records K e) (pi_Bucket inp) (pi_Key inp) = Some r \<longrightarrow> 0 \<le> sint (or_Size r)"
  shows "\<exists>bkt'. mv_buckets (records K e') (pi_Bucket inp) = Some bkt' \<and> br_Quota bkt' = Some q \<and>
     (0 < sint (MaxSizeBytes q) \<longrightarrow> sint (br_TotalBytes bkt') \<le> sint (MaxSizeBytes q))"
  using storage_engine.put_quota [OF server_engine [OF assms(1)] assms(2-11)] assms(12) by blast

definition demo_quota :: bucket_quota where
  "demo_quota = \<lparr>MaxSizeBytes = 3, MaxObjects = 0\<rparr>"

definition demo1q :: "(ref_db, local_fs) engine" where
  "demo1q = snd (SetBucketQuota (bbolt_store ref_bolt) ''bkt'' (Some demo_quota) demo1)"

definition demo_qbucket :: bucket_record where
  "demo_qbucket = (new_bucket demo_env ''bkt'' ''o'' ''r'')\<lparr>br_Quota := Some demo_quota\<rparr>"

lemma demo1q_ok:
  "engine_ok ref_bolt (\<lambda>_. True) demo1q" "e_backend demo1q = e_backend demo1" "e_masterKey demo1q = None"
  "records ref_bolt demo1q = (records ref_bolt demo1)\<lparr>mv_buckets := (mv_buckets (records ref_bolt demo1))(''bkt'' \<mapsto> demo_qbucket)\<rparr>"
proof -
  obtain res where c: "SetBucketQuota (bbolt_store ref_bolt) ''bkt'' (Some demo_quota) demo1 = (res, demo1q)"
    by (metis demo1q_def prod.collapse)
  note m = eng.modify_bucket_cases [OF demo1_ok(1) _ c [unfolded SetBucketQuota_def]]
  then show "engine_ok ref_bolt (\<lambda>_. True) demo1q" "records ref_bolt demo1q =
      (records ref_bolt demo1)\<lparr>mv_buckets := (mv_buckets (records ref_bolt demo1))(''bkt'' \<mapsto> demo_qbucket)\<rparr>"
    using demo1_ok(2) by (auto simp: demo_qbucket_def)
  show "e_backend demo1q = e_backend demo1" "e_masterKey demo1q = None"
    using demo1_create(4) by (simp_all add: demo1q_def SetBucketQuota_def modify_bucket_def meta_write_def split: sum.split)
qed

definition demo_small :: put_object_input where
  "demo_small = demo_put\<lparr>pi_Body := reader_of ''abc'', pi_Size := 3\<rparr>"

definition demo_chunked :: put_object_input where
  "demo_chunked = demo_put\<lparr>pi_Size := - 1\<rparr>"

lemma demo_putq:
  assumes "inp = demo_small \<or> inp = demo_chunked"
  shows "put_ready localfs_good (records ref_bolt demo1q) demo_env inp"
    and "\<exists>out e'. PutObject (bbolt_store ref_bolt) localfs_backend demo_platform demo_env inp demo1q = (Inr out, e')"
proof -
  have i: "pi_Bucket inp = ''bkt''" "pi_Key inp = ''dir/a''" "pi_SSEAlgorithm inp = []" "rd_err (pi_Body inp) = None"
    "pi_Size inp = 3 \<or> pi_Size inp = - 1"
    using assms by (auto simp: demo_small_def demo_chunked_def demo_put_def)
  have g: "localfs_good ''bkt'' ''dir/a''" by code_simp
  show r: "put_ready localfs_good (records ref_bolt demo1q) demo_env inp"
    using g i demo1q_ok(4) by (simp add: put_ready_def put_names_def object_ok_def name_ok_def nulfree_def
        max_key_size_def demo_qbucket_def new_bucket_def resolveVersioning_def)
  have "lfs_inv (e_backend demo1)" using demo1_ok(1) by (simp add: engine_inv_def)
  then obtain s' where w: "localfs_Write (e_backend demo1) ''bkt'' ''dir/a'' (pi_Body inp) (pi_Size inp) = (Inr (byte_count (rd_data (pi_Body inp))), s')"
    using localfs_Write_progress [OF _ g i(4) demo_put_ready(2), of "pi_Size inp"] by auto
  have q: "checkQuota demo_qbucket (pi_Size inp) = None"
    using i(5) by (auto simp: checkQuota_def demo_qbucket_def demo_quota_def new_bucket_def word_sless_alt)
  show "\<exists>out e'. PutObject (bbolt_store ref_bolt) localfs_backend demo_platform demo_env inp demo1q = (Inr out, e')"
    by (rule eng.PutObject_progress [OF demo1q_ok(1) r _ q, where body = "pi_Body inp" and alg = "[]" and ek = "[]" and m = "byte_count (rd_data (pi_Body inp))"])
      (use w i demo1q_ok in \<open>simp_all add: applySSE_def resolveVersioning_def localfs_backend_def demo_qbucket_def new_bucket_def\<close>)
qed

lemma put_respects_size_quota_witness:
  "\<exists>out e' bkt'. PutObject (bbolt_store ref_bolt) localfs_backend demo_platform demo_env demo_small demo1q = (Inr out, e') \<and>
     mv_buckets (records ref_bolt e') ''bkt'' = Some bkt' \<and> sint (br_TotalBytes bkt') \<le> 3"
proof -
  obtain out e' where p: "PutObject (bbolt_store ref_bolt) localfs_backend demo_platform demo_env demo_small demo1q = (Inr out, e')"
    using demo_putq(2) [of demo_small] by blast
  have s: "pi_Bucket demo_small = ''bkt''" "pi_Size demo_small = 3" "pi_Body demo_small = reader_of ''abc''"
    by (simp_all add: demo_small_def demo_put_def)
  have b: "mv_buckets (records ref_bolt demo1q) (pi_Bucket demo_small) = Some demo_qbucket"
    "br_Quota demo_qbucket = Some demo_quota" "br_TotalBytes demo_qbucket = 0" "MaxSizeBytes demo_quota = 3"
    using demo1q_ok(4) s by (simp_all add: demo_qbucket_def new_bucket_def demo_quota_def)
  have "\<forall>r. mv_objects (records ref_bolt demo1q) (pi_Bucket demo_small) (pi_Key demo_small) = Some r \<longrightarrow> 0 \<le> sint (or_Size r)"
    using demo1q_ok(4) demo1_ok(3) by simp
  from put_respects_size_quota [OF ref.bolt_db_axioms demo1q_ok(1) demo_putq(1) p b(1,2) demo1q_ok(3) _ _ _ _ this] s b
  obtain bkt' where "mv_buckets (records ref_bolt e') ''bkt'' = Some bkt'" "sint (br_TotalBytes bkt') \<le> 3"
    by (auto simp: byte_count_def)
  with p show ?thesis by blast
qed

text \<open>
  Without a \<open>Content-Length\<close> the size quota does not hold: a chunked upload declares the size
  \<open>-1\<close>, the check lets it pass, and the bucket ends up over its quota of 3 bytes.
\<close>

lemma chunked_put_exceeds_quota:
  "\<exists>out e' bkt'. PutObject (bbolt_store ref_bolt) localfs_backend demo_platform demo_env demo_chunked demo1q = (Inr out, e') \<and>
     mv_buckets (records ref_bolt e') ''bkt'' = Some bkt' \<and> br_Quota bkt' = Some demo_quota \<and>
     sint (MaxSizeBytes demo_quota) < sint (br_TotalBytes bkt')"
proof -
  obtain out e' where p: "PutObject (bbolt_store ref_bolt) localfs_backend demo_platform demo_env demo_chunked demo1q = (Inr out, e')"
    using demo_putq(2) [of demo_chunked] by blast
  have c: "pi_Bucket demo_chunked = ''bkt''" "pi_Key demo_chunked = ''dir/a''" "pi_Body demo_chunked = reader_of ''hello''"
    by (simp_all add: demo_chunked_def demo_put_def)
  obtain bkt vid bk alg ek and r :: object_record and body :: reader where e2:
    "applySSE demo_platform (e_masterKey demo1q) (env_rand demo_env) demo_chunked (br_SSEAlgorithm bkt) = Inr (body, alg, ek)"
    "mv_buckets (records ref_bolt demo1q) (pi_Bucket demo_chunked) = Some bkt"
    "r = put_record demo_platform demo_env demo_chunked bkt vid alg ek (rd_data body) (byte_count (rd_data body))"
    "records ref_bolt e' = put_view bkt r (fst (delta bkt r (records ref_bolt demo1q))) (snd (delta bkt r (records ref_bolt demo1q))) (records ref_bolt demo1q)"
    using eng.PutObject_Inr [OF demo1q_ok(1) demo_putq(1) p] by blast
  have b: "bkt = demo_qbucket" using e2(2) c demo1q_ok(4) by simp
  have body: "body = pi_Body demo_chunked" using e2(1) demo1q_ok(3) by (auto simp: applySSE_def Let_def)
  have r: "or_Bucket r = ''bkt''" "or_Key r = ''dir/a''" "or_Size r = 5"
    using e2(3) c body by (simp_all add: byte_count_def)
  have d: "snd (delta demo_qbucket r (records ref_bolt demo1q)) = 5"
    using r demo1q_ok(4) demo1_ok(3) by (simp add: delta_def)
  have "mv_buckets (records ref_bolt e') ''bkt'' = Some (add_stats (fst (delta demo_qbucket r (records ref_bolt demo1q))) 5 demo_qbucket)"
    using e2(4) r b d demo1q_ok(4) by (simp add: put_view_buckets)
  with p show ?thesis by (auto simp: add_stats_def demo_qbucket_def new_bucket_def demo_quota_def)
qed

section \<open>Events\<close>

text \<open>
  An event goes to exactly the targets whose patterns match it, in the order of the
  configuration, behind the tasks that already wait, as long as the queue has room; a full queue
  never grows past its capacity and never loses a waiting task.
\<close>

theorem dispatch_reaches_matching_targets:
  "(length q + length (filter (eventMatchesTarget (ne_EventName ev)) (WebhookTargets c)) \<le> webhook_queue_cap \<longrightarrow>
      Dispatch (Some c) ev q = q @ map (\<lambda>wt. \<lparr>wtask_event = ev, wtask_target = wt\<rparr>)
        (filter (eventMatchesTarget (ne_EventName ev)) (WebhookTargets c))) \<and>
   (length q \<le> webhook_queue_cap \<longrightarrow> length (Dispatch (Some c) ev q) \<le> webhook_queue_cap) \<and>
   prefix q (Dispatch (Some c) ev q)"
  using Dispatch_targets_all [of q ev "WebhookTargets c"] Dispatch_targets_cap [of q ev "WebhookTargets c"]
    Dispatch_targets_prefix [of q ev "WebhookTargets c"]
  by (simp add: Dispatch_def)

definition demo_notify :: notification_config where
  "demo_notify = \<lparr>QueueConfigurations = [], TopicConfigurations = [], WebhookTargets =
     [\<lparr>wt_ID = [], wt_URL = ''http://a'', wt_Events = [''s3:ObjectCreated:*''], wt_Filter = None, wt_Secret = []\<rparr>,
      \<lparr>wt_ID = [], wt_URL = ''http://b'', wt_Events = [''s3:ObjectRemoved:*''], wt_Filter = None, wt_Secret = []\<rparr>]\<rparr>"

lemma dispatch_reaches_matching_targets_witness:
  "map (\<lambda>t. wt_URL (wtask_target t))
     (Dispatch (Some demo_notify) (buildObjectRemovedEvent 0 ''bkt'' ''k'' ''o'') []) = [''http://b'']"
proof -
  let ?ev = "buildObjectRemovedEvent 0 ''bkt'' ''k'' ''o''"
  have f: "map wt_URL (filter (eventMatchesTarget (ne_EventName ?ev)) (WebhookTargets demo_notify)) = [''http://b'']"
    by code_simp
  then have "length (filter (eventMatchesTarget (ne_EventName ?ev)) (WebhookTargets demo_notify)) = 1"
    by (metis One_nat_def length_Cons length_map list.size(3))
  with dispatch_reaches_matching_targets [of "[]" ?ev demo_notify] f show ?thesis
    by (simp add: webhook_queue_cap_def o_def)
qed

text \<open>
  A webhook delivery makes at most three attempts and reports success exactly when one of the
  first three gets an answer with a status of the 200 range.
\<close>

lemma deliver_at_most_three_attempts:
  "case deliver P http ids target payload of (n, slept, ok) \<Rightarrow>
     n \<le> 3 \<and> (ok \<longleftrightarrow> (\<exists>i < 3. tryDeliver P (http i) (ids i) target payload))"
  using deliver_loop_bounds [of P http ids target payload 3 0 0]
  by (auto simp: deliver_def split: prod.splits)

end
