(* ===== verification/S3_Props.thy ===== *)
theory S3_Props
  imports S3_Server Engine_Props2
begin

text \<open>
  The properties of the S3 server: what a request can do before it is authenticated, what its answers
  look like, which requests change nothing, and how the properties of the storage engine appear to an
  HTTP client. The lemmas follow a request through middleware, routes and handlers.
\<close>

section \<open>Through the middleware\<close>

lemma set_header_fields [simp]:
  "ex_req (set_header k v x) = ex_req x" "ex_ctx (set_header k v x) = ex_ctx x"
  by (simp_all add: set_header_def)

lemma list_header_fields [simp]:
  "ex_req (list_header k vs x) = ex_req x" "ex_ctx (list_header k vs x) = ex_ctx x"
  by (simp_all add: list_header_def)

lemma optional_header_fields [simp]:
  "ex_req (optional_header k v x) = ex_req x" "ex_ctx (optional_header k v x) = ex_ctx x"
  by (simp_all add: optional_header_def)

lemma cors_headers_fields [simp]:
  "ex_req (cors_headers origin rule x) = ex_req x" "ex_ctx (cors_headers origin rule x) = ex_ctx x"
  by (simp_all add: cors_headers_def Let_def)

lemma RequestID_fields [simp]:
  "ex_req (RequestID uuid x) = ex_req x" "cx_identity (ex_ctx (RequestID uuid x)) = cx_identity (ex_ctx x)"
  "cx_s3RequestID (ex_ctx (RequestID uuid x)) = cx_s3RequestID (ex_ctx x)"
  by (simp_all add: RequestID_def Let_def)

lemma fresh_exchange_fields [simp]:
  "ex_req (fresh_exchange r) = r" "cx_identity (ex_ctx (fresh_exchange r)) = None"
  "cx_s3RequestID (ex_ctx (fresh_exchange r)) = None"
  by (simp_all add: fresh_exchange_def)

lemma exchange_eqI:
  "ex_req x = ex_req y \<Longrightarrow> ex_ctx x = ex_ctx y \<Longrightarrow> x = y\<lparr>ex_header := ex_header x\<rparr>" for x y :: exchange
  by (cases x; cases y) simp

text \<open>A request that CORS does not answer itself goes on with more headers.\<close>

definition preflight :: "cors_rule list \<Rightarrow> exchange \<Rightarrow> bool" where
  "preflight rules x \<longleftrightarrow> rq_Method (hq_req (ex_req x)) = ''OPTIONS'' \<and> x_header x ''Origin'' \<noteq> [] \<and>
     matchCORSRule rules (x_header x ''Origin'') ''OPTIONS'' \<noteq> None"

lemma CORS_cases:
  obtains (next_handler) h where "CORS f next x e = next (x\<lparr>ex_header := h\<rparr>) e"
  | (preflight) h where "preflight (f e (extractBucket (hq_req (ex_req x)))) x"
      "CORS f next x e = (\<lparr>rs_Status = 200, rs_Header = h, rs_Body = NoBody\<rparr>, e)"
proof -
  let ?o = "x_header x ''Origin''" and ?b = "extractBucket (hq_req (ex_req x))"
  have same: "x = x\<lparr>ex_header := ex_header x\<rparr>" by simp
  have cors: "cors_headers ?o rule x = x\<lparr>ex_header := ex_header (cors_headers ?o rule x)\<rparr>" for rule
    by (rule exchange_eqI) simp_all
  show ?thesis
  proof (cases "?o = [] \<or> ?b = [] \<or> matchCORSRule (f e ?b) ?o (rq_Method (hq_req (ex_req x))) = None")
    case True
    then have "CORS f next x e = next x e" by (auto simp: CORS_def Let_def)
    with same show ?thesis using next_handler by metis
  next
    case False
    then obtain rule where rule: "matchCORSRule (f e ?b) ?o (rq_Method (hq_req (ex_req x))) = Some rule" by auto
    show ?thesis
    proof (cases "rq_Method (hq_req (ex_req x)) = ''OPTIONS''")
      case True
      with rule False have "CORS f next x e = (WriteHeader 200 (cors_headers ?o rule x), e)"
        by (auto simp: CORS_def Let_def)
      moreover have "preflight (f e ?b) x" using True rule False by (auto simp: preflight_def)
      ultimately show ?thesis using preflight by (simp add: WriteHeader_def)
    next
      case no: False
      with rule False have "CORS f next x e = next (cors_headers ?o rule x) e"
        by (auto simp: CORS_def Let_def)
      then show ?thesis using next_handler cors by metis
    qed
  qed
qed

text \<open>The exchange that reaches the handlers: the request as it came, with its identity.\<close>

definition accepted :: "string \<Rightarrow> s3_request \<Rightarrow> VerifiedIdentity \<Rightarrow> multi_map \<Rightarrow> exchange" where
  "accepted uuid r ident h =
     (let x = RequestID uuid (fresh_exchange r)
      in x\<lparr>ex_header := h, ex_ctx := (ex_ctx x)\<lparr>cx_identity := Some ident\<rparr>\<rparr>)"

lemma accepted_fields [simp]:
  "ex_req (accepted uuid r ident h) = r" "ex_header (accepted uuid r ident h) = h"
  "identityFromContext (ex_ctx (accepted uuid r ident h)) = ident"
  "cx_s3RequestID (ex_ctx (accepted uuid r ident h)) = None"
  by (simp_all add: accepted_def Let_def identityFromContext_def)

text \<open>Every request has one of four fates.\<close>

lemma s3_server_cases:
  fixes C M B uuid now envs r e
  defines "run \<equiv> fst (s3_server C M B uuid now envs r e)"
  obtains (preflight) h where
      "preflight (corsRulesFetcher M e (extractBucket (hq_req r))) (RequestID uuid (fresh_exchange r))"
      "run = (\<lparr>rs_Status = 200, rs_Header = h, rs_Body = NoBody\<rparr>, e)"
  | (rejected) code m h where "Auth M (sc_platform C) (hq_req r) now (e_meta e) = Rejected code m"
      "run = (\<lparr>rs_Status = 403, rs_Header = h, rs_Body = AuthErrorBody code m\<rparr>, e)"
  | (limited) allowed ident h where "Auth M (sc_platform C) (hq_req r) now (e_meta e) = Authenticated ident"
      "sc_limiter C = Some allowed" "run = (\<lparr>rs_Status = 429, rs_Header = h, rs_Body = TextBody (''rate limit exceeded'' @ [CHR 0x0A])\<rparr>, e)"
  | (handled) ident h where "Auth M (sc_platform C) (hq_req r) now (e_meta e) = Authenticated ident"
      "run = s3_dispatch M B (sc_platform C) envs (sc_route C (hq_req r)) (accepted uuid r ident h) e"
proof -
  let ?x = "RequestID uuid (fresh_exchange r)"
  let ?next = "with_auth M (sc_platform C) now (s3_authenticated C M B envs)"
  have run: "run = CORS (corsRulesFetcher M) ?next ?x e"
    by (simp add: run_def s3_server_def Audit_def split: prod.split)
  show ?thesis
  proof (cases rule: CORS_cases [of "corsRulesFetcher M" ?next ?x e, case_names next_handler preflight])
    case (preflight h)
    then show ?thesis using that(1) run by simp
  next
    case (next_handler h)
    show ?thesis
    proof (cases "Auth M (sc_platform C) (hq_req r) now (e_meta e)")
      case (Rejected code m)
      then show ?thesis using next_handler that(2) run by (simp add: with_auth_def writeAuthError_def respond_def)
    next
      case (Authenticated ident)
      have acc: "(?x\<lparr>ex_header := h\<rparr>)\<lparr>ex_ctx := (ex_ctx (?x\<lparr>ex_header := h\<rparr>))\<lparr>cx_identity := Some ident\<rparr>\<rparr> = accepted uuid r ident h"
        by (simp add: accepted_def Let_def)
      have go: "run = s3_authenticated C M B envs (accepted uuid r ident h) e"
        using next_handler run Authenticated by (simp add: with_auth_def accepted_def Let_def)
      then show ?thesis
        using that(3) [OF Authenticated] that(4) [OF Authenticated]
        by (auto simp: s3_authenticated_def RateLimit_def Let_def respond_def http_Error_def split: option.splits if_splits)
    qed
  qed
qed

section \<open>Reading handlers\<close>

lemma answer_read_engine: "snd (answer_read x res ok e) = e"
  by (simp add: answer_read_def split: sum.split)

lemma read_handler_engine [simp]:
  "snd (getBucketVersioning M x bucket e) = e" "snd (getBucketCORS M x bucket e) = e"
  "snd (getBucketPolicy M x bucket e) = e" "snd (getBucketLifecycle M x bucket e) = e"
  "snd (getBucketTagging M x bucket e) = e" "snd (getBucketEncryption M x bucket e) = e"
  "snd (getBucketACL M x bucket e) = e" "snd (s3_listMultipartUploads M x bucket e) = e"
  "snd (headBucket M x bucket e) = e"
  by (simp_all only: getBucketVersioning_def getBucketCORS_def getBucketPolicy_def getBucketLifecycle_def getBucketTagging_def
      getBucketEncryption_def getBucketACL_def s3_listMultipartUploads_def headBucket_def answer_read_engine)

lemma listing_engine [simp]:
  "snd (listObjectVersions M x bucket e) = e" "snd (listObjectsV1 M x bucket e) = e" "snd (listObjectsV2 M x bucket e) = e"
  by (simp_all only: listObjectVersions_def listObjectsV1_def listObjectsV2_def Let_def answer_read_engine snd_conv split: option.split)
    simp_all

lemma listObjects_engine [simp]: "snd (listObjects M x bucket e) = e"
  by (simp add: listObjects_def Let_def)

lemma object_read_engine [simp]:
  "snd (getObjectTagging M x bucket key e) = e" "snd (s3_headObject M x bucket key e) = e" "snd (listBuckets M x e) = e"
  by (simp_all add: getObjectTagging_def s3_headObject_def listBuckets_def Let_def split: sum.split)

lemma GetObject_engine:
  assumes "\<And>s b k. snd (b_Read B s b k) = s"
  shows "snd (GetObject M B P bucket key v e) = e"
proof -
  have same: "s' = s" if "b_Read B s b k = (rd, s')" for s b k rd s' using assms [of s b k] that by simp
  have version: "snd (GetObjectVersion M B bucket key v e) = e"
    by (auto simp: GetObjectVersion_def dest: same split: sum.split prod.split)
  show ?thesis
    by (auto simp: GetObject_def version Let_def dest: same split: sum.split prod.split)
qed

lemma s3_getObject_engine:
  assumes "\<And>s b k. snd (b_Read B s b k) = s"
  shows "snd (s3_getObject M B P x bucket key e) = e"
  using GetObject_engine [OF assms, of M P bucket key "multi_get (x_query x) ''versionId''" e]
  by (auto simp: s3_getObject_def Let_def split: sum.split prod.split)

lemma localfs_read_pure [simp]: "snd (b_Read localfs_backend s b k) = s"
  by (simp add: localfs_backend_def)

section \<open>A server for the examples\<close>

definition http_config :: server_config where
  "http_config = \<lparr>sc_platform = demo_platform, sc_route = (\<lambda>_. ObjectRoute ''bkt'' ''dir/a''), sc_limiter = None\<rparr>"

definition http_request :: "string \<Rightarrow> bytes \<Rightarrow> s3_request" where
  "http_request verb body = \<lparr>
     hq_req = \<lparr>rq_Method = verb, rq_Host = ''h:9000'', rq_Path = ''/bkt/dir/a'', rq_RawQuery = [],
       rq_Header = [(''Authorization'', [''AWS4-HMAC-SHA256 Credential=AK/d''])]\<rparr>,
     hq_Body = reader_of body, hq_XML = None, hq_ContentLength = of_nat (length body), hq_TLS = False, hq_RemoteAddr = ''10.0.0.1:5''\<rparr>"

definition anonymous_request :: "string \<Rightarrow> s3_request" where
  "anonymous_request verb = (http_request verb [])\<lparr>hq_req := (hq_req (http_request verb []))\<lparr>rq_Header := []\<rparr>\<rparr>"

section \<open>What requests can do\<close>

text \<open>
  C7: a request that is not authenticated changes nothing, reads nothing and runs no handler: the engine
  stays as it is, and the answer is a 403 with the reason of the rejection, or the empty answer to a
  preflight that a CORS rule of the bucket allows. This holds for every bucket, whatever its ACL and its policy say:
  the documents promise that anybody may read from a bucket with the ACL \<open>public-read\<close> and also write to one with
  \<open>public-read-write\<close>, but the code consults no ACL before it rejects (the findings on docs/security-guide.md and
  docs/s3-compatibility.md). A request without credentials is such a request (\<open>anonymous_rejected\<close>).
\<close>

theorem unauthenticated_request_changes_nothing:
  assumes "Auth M (sc_platform C) (hq_req r) now (e_meta e) = Rejected code m"
  shows "snd (fst (s3_server C M B uuid now envs r e)) = e \<and>
     (\<exists>h. fst (fst (s3_server C M B uuid now envs r e)) = \<lparr>rs_Status = 403, rs_Header = h, rs_Body = AuthErrorBody code m\<rparr> \<or>
        fst (fst (s3_server C M B uuid now envs r e)) = \<lparr>rs_Status = 200, rs_Header = h, rs_Body = NoBody\<rparr> \<and>
        rq_Method (hq_req r) = ''OPTIONS'' \<and>
        (\<exists>rule \<in> set (corsRulesFetcher M e (extractBucket (hq_req r))).
           originMatches (AllowedOrigins rule) (Header_Get (hq_req r) ''Origin'') \<and>
           methodMatches (AllowedMethods rule) ''OPTIONS''))"
proof (cases rule: s3_server_cases [where C = C and M = M and B = B and uuid = uuid and now = now and envs = envs and r = r and e = e,
      case_names preflight rejected limited handled])
  case (preflight h)
  then show ?thesis
    by (auto simp: preflight_def matchCORSRule_def find_Some_iff in_set_conv_nth Bex_def)
next
  case (rejected code' m' h)
  with assms show ?thesis by auto
qed (use assms in auto)

text \<open>A request that is not presigned and names no access key is rejected, whatever is stored.\<close>

lemma anonymous_rejected:
  "\<not> isPresigned r \<Longrightarrow> ExtractAccessKey r = [] \<Longrightarrow>
    Auth M P r now m = Rejected ''AccessDenied'' (Errorf ''missing Authorization header'' [])"
  by (simp add: Auth_def)

text \<open>A bucket that is declared open to everybody, with an object in it.\<close>

definition public_demo :: "(ref_db, local_fs) engine" where
  "public_demo = snd (SetBucketACL (bbolt_store ref_bolt) ''bkt'' ''public-read-write'' demo2)"

lemma public_demo_acl:
  "\<exists>b. mv_buckets (records ref_bolt public_demo) ''bkt'' = Some b \<and> br_ACL b = ''public-read-write''"
  "mv_objects (records ref_bolt public_demo) ''bkt'' ''dir/a'' \<noteq> None"
proof -
  obtain bkt where b: "mv_buckets (records ref_bolt demo2) ''bkt'' = Some bkt" using demo2_facts(3) by blast
  have acl: "''public-read-write'' \<in> set validACLs" by (simp add: validACLs_def)
  obtain res where c: "SetBucketACL (bbolt_store ref_bolt) ''bkt'' ''public-read-write'' demo2 = (res, public_demo)"
    by (metis public_demo_def prod.collapse)
  have "records ref_bolt public_demo = (records ref_bolt demo2)\<lparr>mv_buckets :=
      (mv_buckets (records ref_bolt demo2))(''bkt'' \<mapsto> bkt\<lparr>br_ACL := ''public-read-write''\<rparr>)\<rparr>"
    using eng.modify_bucket_cases [OF demo2_facts(1) _ c [unfolded SetBucketACL_def, simplified acl, simplified]] b by auto
  with demo2_facts(4) show "\<exists>b. mv_buckets (records ref_bolt public_demo) ''bkt'' = Some b \<and> br_ACL b = ''public-read-write''"
    "mv_objects (records ref_bolt public_demo) ''bkt'' ''dir/a'' \<noteq> None" by simp_all
qed

lemma unauthenticated_request_changes_nothing_witness:
  "(\<exists>b. mv_buckets (records ref_bolt public_demo) ''bkt'' = Some b \<and> br_ACL b = ''public-read-write'') \<and>
   mv_objects (records ref_bolt public_demo) ''bkt'' ''dir/a'' \<noteq> None \<and>
   (\<exists>h code m. fst (fst (s3_server http_config (bbolt_store ref_bolt) localfs_backend ''u'' 0 (\<lambda>_. demo_env) (anonymous_request ''GET'') public_demo)) =
      \<lparr>rs_Status = 403, rs_Header = h, rs_Body = AuthErrorBody code m\<rparr>) \<and>
   snd (fst (s3_server http_config (bbolt_store ref_bolt) localfs_backend ''u'' 0 (\<lambda>_. demo_env) (anonymous_request ''PUT'') public_demo)) = public_demo"
proof -
  have "Auth (bbolt_store ref_bolt) (sc_platform http_config) (hq_req (anonymous_request v)) 0 (e_meta public_demo) =
      Rejected ''AccessDenied'' (Errorf ''missing Authorization header'' [])" if "v \<in> {''GET'', ''PUT''}" for v
  proof (rule anonymous_rejected)
    have "\<not> isPresigned (hq_req (anonymous_request ''GET''))" "\<not> isPresigned (hq_req (anonymous_request ''PUT''))"
      "ExtractAccessKey (hq_req (anonymous_request ''GET'')) = []" "ExtractAccessKey (hq_req (anonymous_request ''PUT'')) = []"
      by code_simp+
    with that show "\<not> isPresigned (hq_req (anonymous_request v))" "ExtractAccessKey (hq_req (anonymous_request v)) = []" by auto
  qed
  note t = unauthenticated_request_changes_nothing [OF this, of _ localfs_backend "''u''" "\<lambda>_. demo_env"]
  have "rq_Method (hq_req (anonymous_request ''GET'')) \<noteq> ''OPTIONS''" by (simp add: anonymous_request_def http_request_def)
  with t [of "''GET''"] t [of "''PUT''"] public_demo_acl show ?thesis by blast
qed

text \<open>
  C23: a GET or a HEAD changes nothing: whoever sends it and whatever it asks for, the records, the files
  and the queues of the engine are the same afterwards.
\<close>

theorem reading_requests_change_nothing:
  assumes "rq_Method (hq_req r) \<in> {''GET'', ''HEAD''}"
  shows "snd (fst (s3_server C M localfs_backend uuid now envs r e)) = e"
proof (cases rule: s3_server_cases [where C = C and M = M and B = localfs_backend and uuid = uuid and now = now and envs = envs and r = r and e = e,
      case_names preflight rejected limited handled])
  case (handled ident h)
  from assms show ?thesis
    by (auto simp: handled(2) s3_dispatch_def Let_def s3_getObject_engine split: s3_route.split)
qed auto

lemma reading_requests_change_nothing_witness:
  "snd (fst (s3_server http_config (bbolt_store ref_bolt) localfs_backend ''u'' 0 (\<lambda>_. demo_env) (http_request ''GET'' []) demo1)) = demo1"
proof -
  have "rq_Method (hq_req (http_request ''GET'' [])) \<in> {''GET'', ''HEAD''}" by (simp add: http_request_def)
  from reading_requests_change_nothing [OF this] show ?thesis .
qed

section \<open>Shapes of answers\<close>

text \<open>
  Which status goes with which kind of body. An XML answer has its content type, and an empty request ID:
  the handlers ask the context for the ID of package s3, which no middleware sets, and so overwrite the
  header that the request ID middleware has set.
\<close>

definition xml_headers :: "multi_map \<Rightarrow> bool" where
  "xml_headers h \<longleftrightarrow> map_of h ''Content-Type'' = Some [''application/xml''] \<and> map_of h ''X-Amz-Request-Id'' = Some [[]]"

definition answer_shape :: "response \<Rightarrow> bool" where
  "answer_shape resp =
     (case rs_Body resp of
        XmlError code m path reqID \<Rightarrow> rs_Status resp \<in> {400, 404, 409, 500} \<and> xml_headers (rs_Header resp) \<and> reqID = []
      | XmlBody doc \<Rightarrow> rs_Status resp = 200 \<and> xml_headers (rs_Header resp)
      | AuthErrorBody code m \<Rightarrow> rs_Status resp = 403
      | TextBody m \<Rightarrow> rs_Status resp \<in> {404, 429}
      | JsonBody m \<Rightarrow> rs_Status resp = 200
      | RawBody rd \<Rightarrow> rs_Status resp = 200
      | NoBody \<Rightarrow> rs_Status resp \<in> {200, 204, 405})"

lemma canonical_names [simp]:
  "CanonicalHeaderKey ''Content-Type'' = ''Content-Type''" "CanonicalHeaderKey ''x-amz-request-id'' = ''X-Amz-Request-Id''"
  by code_simp+

lemma shape_writeError:
  "cx_s3RequestID (ex_ctx x) = None \<Longrightarrow> s \<in> {400, 404, 409, 500} \<Longrightarrow> answer_shape (writeError x s c m)"
  by (simp add: answer_shape_def writeError_def Let_def respond_def xml_headers_def set_header_def requestIDFromContext_def
      update_conv)

lemma shape_writeXML: "cx_s3RequestID (ex_ctx x) = None \<Longrightarrow> answer_shape (writeXML x 200 doc)"
  by (simp add: answer_shape_def writeXML_def Let_def respond_def xml_headers_def set_header_def requestIDFromContext_def
      update_conv)

lemma shape_WriteHeader [simp]: "answer_shape (WriteHeader s x) \<longleftrightarrow> s \<in> {200, 204, 405}"
  by (simp add: answer_shape_def WriteHeader_def)

lemma shape_respond [simp]:
  "answer_shape (respond 200 (RawBody rd) x)" "answer_shape (respond 200 (JsonBody m) x)"
  "answer_shape (http_Error m 404 x)"
  by (simp_all add: answer_shape_def respond_def http_Error_def)

lemma shape_failures:
  assumes "cx_s3RequestID (ex_ctx x) = None"
  shows "answer_shape (bucketFailure x err)" "answer_shape (objectFailure x err)" "answer_shape (uploadFailure x err)"
    "answer_shape (keyFailure x err)" "answer_shape (argumentFailure x err)" "answer_shape (internalError x err)"
    "answer_shape (malformedXML x m)" "answer_shape (createBucketFailure x err)" "answer_shape (deleteBucketFailure x err)"
  using assms by (simp_all add: bucketFailure_def objectFailure_def uploadFailure_def keyFailure_def argumentFailure_def
      internalError_def malformedXML_def noSuchBucket_def noSuchKey_def noSuchUpload_def shape_writeError
      split: if_split) (cases err; simp add: internalError_def noSuchBucket_def shape_writeError assms)+

lemma shape_read:
  "cx_s3RequestID (ex_ctx x) = None \<Longrightarrow> (\<And>v. answer_shape (ok v)) \<Longrightarrow> answer_shape (fst (answer_read x res ok e))"
  by (simp add: answer_read_def shape_failures split: sum.split)

lemma shape_write:
  "(\<And>err. answer_shape (failure x err)) \<Longrightarrow> s \<in> {200, 204} \<Longrightarrow> answer_shape (fst (answer_write x failure s step))"
  by (auto simp: answer_write_def split: sum.split prod.split)

lemmas shapes = shape_writeError shape_writeXML shape_failures shape_read shape_write

lemma shape_bucket_reads:
  assumes x: "cx_s3RequestID (ex_ctx x) = None"
  shows "answer_shape (fst (getBucketVersioning M x bucket e))" "answer_shape (fst (listObjectVersions M x bucket e))"
    "answer_shape (fst (getBucketCORS M x bucket e))" "answer_shape (fst (getBucketPolicy M x bucket e))"
    "answer_shape (fst (getBucketLifecycle M x bucket e))" "answer_shape (fst (getBucketTagging M x bucket e))"
    "answer_shape (fst (getBucketEncryption M x bucket e))" "answer_shape (fst (getBucketACL M x bucket e))"
    "answer_shape (fst (s3_listMultipartUploads M x bucket e))" "answer_shape (fst (listObjectsV1 M x bucket e))"
    "answer_shape (fst (headBucket M x bucket e))"
  unfolding getBucketVersioning_def listObjectVersions_def getBucketCORS_def getBucketPolicy_def getBucketLifecycle_def
    getBucketTagging_def getBucketEncryption_def getBucketACL_def s3_listMultipartUploads_def listObjectsV1_def
    headBucket_def Let_def
  by (intro shape_read x; simp add: shapes x split: prod.split)+

lemma shape_listObjectsV2: "cx_s3RequestID (ex_ctx x) = None \<Longrightarrow> answer_shape (fst (listObjectsV2 M x bucket e))"
  by (auto simp: listObjectsV2_def Let_def shapes intro!: shape_read split: option.split prod.split)

lemma shape_listObjects: "cx_s3RequestID (ex_ctx x) = None \<Longrightarrow> answer_shape (fst (listObjects M x bucket e))"
  by (simp add: listObjects_def Let_def shape_bucket_reads shape_listObjectsV2)

lemma shape_bucket_writes:
  assumes x: "cx_s3RequestID (ex_ctx x) = None"
  shows "answer_shape (fst (putBucketVersioning M x bucket e))" "answer_shape (fst (putBucketCORS M x bucket e))"
    "answer_shape (fst (putBucketPolicy M P x bucket e))" "answer_shape (fst (putBucketLifecycle M x bucket e))"
    "answer_shape (fst (putBucketTagging M x bucket e))" "answer_shape (fst (putBucketEncryption M x bucket e))"
    "answer_shape (fst (putBucketACL M x bucket e))" "answer_shape (fst (putBucketWebsite M x bucket e))"
    "answer_shape (fst (putBucketNotification M x bucket e))" "answer_shape (fst (putBucketReplication M x bucket e))"
    "answer_shape (fst (deleteBucketWebsite M x bucket e))" "answer_shape (fst (deleteBucketReplication M x bucket e))"
    "answer_shape (fst (deleteWithNoContent x step))"
  unfolding putBucketVersioning_def putBucketCORS_def putBucketPolicy_def putBucketLifecycle_def putBucketTagging_def
    putBucketEncryption_def putBucketACL_def putBucketWebsite_def putBucketNotification_def putBucketReplication_def
    deleteBucketWebsite_def deleteBucketReplication_def deleteWithNoContent_def Let_def
  by (simp_all add: shapes x split: option.split xml_doc.split sum.split)

lemma shape_dispatchPut:
  "cx_s3RequestID (ex_ctx x) = None \<Longrightarrow> dispatchPutBucketSubresource M P x bucket e = Some a \<Longrightarrow> answer_shape (fst a)"
  by (auto simp: dispatchPutBucketSubresource_def Let_def shape_bucket_writes split: if_splits)

lemma shape_buckets:
  assumes x: "cx_s3RequestID (ex_ctx x) = None"
  shows "answer_shape (fst (listBuckets M x e))" "answer_shape (fst (createBucket M B P env x bucket e))"
    "answer_shape (fst (deleteBucket M B P x bucket e))" "answer_shape (fst (s3_deleteObjects M B envs x bucket e))"
    "answer_shape (fst (postBucket M B envs x bucket e))"
proof -
  show del: "answer_shape (fst (s3_deleteObjects M B envs x bucket e))"
    by (simp add: s3_deleteObjects_def shapes x split: option.split xml_doc.split prod.split)
  show "answer_shape (fst (postBucket M B envs x bucket e))"
    by (simp add: postBucket_def del shapes x)
  show "answer_shape (fst (listBuckets M x e))"
    by (simp add: listBuckets_def Let_def shapes x split: sum.split)
  show "answer_shape (fst (createBucket M B P env x bucket e))"
    by (auto simp: createBucket_def shapes x dest: shape_dispatchPut [OF x] split: option.split sum.split prod.split)
  show "answer_shape (fst (deleteBucket M B P x bucket e))"
    by (simp add: deleteBucket_def Let_def shapes x shape_bucket_writes)
qed

lemma shape_uploads:
  assumes x: "cx_s3RequestID (ex_ctx x) = None"
  shows "answer_shape (fst (createMultipartUpload M env x bucket key e))" "answer_shape (fst (uploadPart M B P env x e))"
    "answer_shape (fst (completeMultipartUpload M B P env x bucket key e))" "answer_shape (fst (abortMultipartUpload M B x e))"
    "answer_shape (fst (postObject M B P env x bucket key e))"
proof -
  show create: "answer_shape (fst (createMultipartUpload M env x bucket key e))"
    by (simp add: createMultipartUpload_def shapes x split: sum.split prod.split)
  show complete: "answer_shape (fst (completeMultipartUpload M B P env x bucket key e))"
    by (simp add: completeMultipartUpload_def Let_def shapes x split: option.split xml_doc.split sum.split prod.split)
  show "answer_shape (fst (uploadPart M B P env x e))"
    by (simp add: uploadPart_def Let_def shapes x split: option.split sum.split prod.split)
  show "answer_shape (fst (abortMultipartUpload M B x e))"
    by (simp add: abortMultipartUpload_def Let_def shapes x)
  show "answer_shape (fst (postObject M B P env x bucket key e))"
    by (simp add: postObject_def Let_def create complete shapes x)
qed

lemma shape_objects:
  assumes x: "cx_s3RequestID (ex_ctx x) = None"
  shows "answer_shape (fst (s3_putObject M B P env x bucket key e))" "answer_shape (fst (s3_getObject M B P x bucket key e))"
    "answer_shape (fst (s3_headObject M x bucket key e))" "answer_shape (fst (s3_deleteObject M B env x bucket key e))"
proof -
  have tags: "answer_shape (fst (getObjectTagging M x bucket key e))" "answer_shape (fst (putObjectTagging M x bucket key e))"
    "answer_shape (fst (deleteObjectTagging M x bucket key e))"
    by (simp_all add: getObjectTagging_def putObjectTagging_def deleteObjectTagging_def shapes x
        split: option.split xml_doc.split sum.split)
  have copy: "answer_shape (fst (copyObject M B env x bucket key e))"
    by (simp add: copyObject_def Let_def shapes x split: list.split sum.split prod.split)
  show "answer_shape (fst (s3_putObject M B P env x bucket key e))"
    by (simp add: s3_putObject_def Let_def tags copy shape_uploads shapes x split: sum.split prod.split)
  show "answer_shape (fst (s3_getObject M B P x bucket key e))"
    by (simp add: s3_getObject_def Let_def tags shapes x split: sum.split prod.split)
  show "answer_shape (fst (s3_headObject M x bucket key e))"
    by (simp add: s3_headObject_def shapes x split: sum.split)
  show "answer_shape (fst (s3_deleteObject M B env x bucket key e))"
    by (simp add: s3_deleteObject_def Let_def tags shape_uploads shapes x split: sum.split prod.split)
qed

text \<open>
  C24: every answer of the server has one of nine statuses and the body that belongs to it; each XML
  answer, success or error, carries an empty request ID in place of the one of the request.
\<close>

theorem every_answer_is_well_shaped:
  "answer_shape (fst (fst (s3_server C M B uuid now envs r e)))"
proof (cases rule: s3_server_cases [where C = C and M = M and B = B and uuid = uuid and now = now and envs = envs and r = r and e = e,
      case_names preflight rejected limited handled])
  case (handled ident h)
  have x: "cx_s3RequestID (ex_ctx (accepted uuid r ident h)) = None" by simp
  show ?thesis
    by (simp add: handled(2) s3_dispatch_def Let_def shape_buckets [OF x] shape_listObjects [OF x] shape_bucket_reads [OF x]
        shape_objects [OF x] shape_uploads [OF x] split: s3_route.split)
qed (simp_all add: answer_shape_def)

section \<open>What the routes do not reach\<close>

lemma preflight_needs_options:
  "preflight rules x \<longleftrightarrow> rq_Method (hq_req (ex_req x)) = ''OPTIONS'' \<and> x_header x ''Origin'' \<noteq> [] \<and>
     (\<exists>rule \<in> set rules. originMatches (AllowedOrigins rule) (x_header x ''Origin'') \<and> methodMatches (AllowedMethods rule) ''OPTIONS'')"
  by (auto simp: preflight_def matchCORSRule_def find_None_iff)

text \<open>A GET with one of the other subresources alone is a listing; the dispatchers that no route calls differ in nothing else.\<close>

lemma website_get_lists_objects:
  assumes "\<forall>q \<in> {''versioning'', ''versions'', ''cors'', ''policy'', ''lifecycle'', ''tagging'', ''encryption'', ''acl'', ''uploads''}.
      \<not> query_Has (x_query x) q" and "multi_get (x_query x) ''list-type'' = []"
    and "query_Has (x_query x) ''website''"
  shows "listObjects M x b e = listObjectsV1 M x b e \<and> getBucketSubresource M x b e = getBucketWebsite M x b e"
  using assms by (simp add: listObjects_def getBucketSubresource_def Let_def)

lemma unreached_dispatchers:
  "putBucketSubresource M B P env x b e = createBucket M B P env x b e"
  "deleteBucketSubresource M B P x b e = deleteBucket M B P x b e"
  by (simp_all add: putBucketSubresource_def createBucket_def deleteBucketSubresource_def deleteBucket_def Let_def split: option.split)

lemma put_notification_drops_webhooks:
  "notificationFromXML req = Some cfg \<Longrightarrow> WebhookTargets cfg = []"
  by (auto simp: notificationFromXML_def Let_def split: if_splits)

end
