(* ===== verification/S3_Listing.thy ===== *)
theory S3_Listing
  imports S3_Props
begin

text \<open>
  Listings of a bucket page by page. The first half extends the proof of the store by the seek of
  \<open>start-after\<close>; the second half shows what a client of the two listing handlers sees: pages that follow
  the marker of the first version enumerate the bucket, pages that follow the continuation token of the
  second version do not.
\<close>

section \<open>Seeking behind a key\<close>

lemma sorted_key_unique:
  fixes f :: "'a \<Rightarrow> 'k :: linorder"
  assumes "sorted_wrt (<) (map f xs)" and "sorted_wrt (<) (map f ys)" and "set xs = set ys"
  shows "xs = ys"
proof (rule map_sorted_distinct_set_unique [where f = f])
  show "inj_on f (set xs \<union> set ys)"
    using sorted_wrt_less_distinct [OF assms(1)] assms(3) by (simp add: distinct_map)
qed (use assms sorted_wrt_less_imp_le sorted_wrt_less_distinct in \<open>blast+\<close>)

lemma object_key_le_snoc: "object_key b k < object_key b l @ [c] \<longleftrightarrow> k < l @ [c]"
  by (induction b) (simp_all add: object_key_def)

text \<open>Behind an element of a strictly sorted list comes its rest.\<close>

lemma filter_greater_drop:
  fixes f :: "'a \<Rightarrow> 'k :: linorder"
  assumes "sorted_wrt (<) (map f xs)" and "i < length xs"
  shows "filter (\<lambda>x. f (xs ! i) < f x) xs = drop (Suc i) xs"
proof -
  have 1: "x \<in> set (take (Suc i) xs) \<Longrightarrow> \<not> f (xs ! i) < f x" for x
    using assms by (auto simp: in_set_conv_nth sorted_wrt_iff_nth_less not_less less_Suc_eq intro: less_imp_le)
  have 2: "x \<in> set (drop (Suc i) xs) \<Longrightarrow> f (xs ! i) < f x" for x
    using assms by (auto simp: in_set_conv_nth sorted_wrt_iff_nth_less)
  have "filter (\<lambda>x. f (xs ! i) < f x) (take (Suc i) xs @ drop (Suc i) xs) = drop (Suc i) xs"
    unfolding filter_append using 1 2 by (simp add: filter_id_conv filter_empty_conv)
  then show ?thesis by simp
qed

context bolt_db
begin

lemma list_from_ok:
  assumes i: "bolt_inv K kinv db" and n: "nulfree n" and d: "lo_Delimiter opts = []"
    and sk: "start_after_key n opts \<noteq> []"
    and le: "object_key n (lo_Prefix opts) \<le> start_after_key n opts @ [CHR 0x01]"
  shows "\<exists>ys. bb_ListObjects K db n opts = Inr (take (max_keys opts) ys, []) \<and>
    sorted_wrt (<) (map or_Key ys) \<and>
    (\<forall>x. x \<in> set ys \<longleftrightarrow> mv_objects (bolt_view K db) n (or_Key x) = Some x \<and> prefix (lo_Prefix opts) (or_Key x) \<and>
       start_after_key n opts @ [CHR 0x01] \<le> object_key n (or_Key x))"
proof -
  let ?pfx = "object_key n (lo_Prefix opts)" and ?key = "\<lambda>x. object_key (or_Bucket x) (or_Key x)"
    and ?k1 = "start_after_key n opts @ [CHR 0x01]"
  let ?S = "db_Seek K db objectsBucket ?k1"
  let ?kvs = "takeWhile (\<lambda>(k, v). prefix ?pfx k) ?S"
  let ?ys = "map (the \<circ> unmarshal_object \<circ> snd) ?kvs"
  note k = binv_kinv [OF i]
  have dec: "\<exists>r. v = JObject r \<and> k = ?key r" if "db_Get K db objectsBucket k = Some v" for k v
    using contents_object [OF binv_contents [OF i] that] by blast
  have "\<forall>(k, v) \<in> set ?S. unmarshal_object v \<noteq> None" using dec db_seek_set [OF k] by fastforce
  from list_loop_plain [OF d this, of "[]"] sk
  have 1: "bb_ListObjects K db n opts = Inr (take (max_keys opts) ?ys, [])"
    by (simp add: bb_ListObjects_def Let_def)
  have sorted: "sorted_wrt (<) (map fst ?S)" by (rule db_seek_sorted [OF k])
  have "?pfx \<le> k'" if "(k', v) \<in> set ?S" for k' v
    using that le db_seek_set [OF k] by (meson order_trans)
  then have "\<forall>(k, v) \<in> set ?S. ?pfx \<le> k" by blast
  from takeWhile_prefix_eq_filter [OF sorted_wrt_less_imp_le [OF sorted] this]
  have filt: "?kvs = filter (\<lambda>(k, v). prefix ?pfx k) ?S" .
  have set: "(k, v) \<in> set ?kvs \<longleftrightarrow> (prefix ?pfx k \<and> ?k1 \<le> k) \<and> db_Get K db objectsBucket k = Some v" for k v
    unfolding filt by (simp add: db_seek_set [OF k] conj_ac)
  have ksorted: "sorted_wrt (<) (map fst ?kvs)"
  proof -
    have "map fst ?S = map fst ?kvs @ map fst (dropWhile (\<lambda>(k, v). prefix ?pfx k) ?S)"
      by (simp flip: map_append)
    then show ?thesis using sorted by (simp only: sorted_wrt_append)
  qed
  have "\<exists>rs. decode_all [] unmarshal_object ?kvs = Inr rs \<and> rs = ?ys \<and> sorted_wrt (<) (map ?key rs) \<and>
     (\<forall>r. r \<in> set rs \<longleftrightarrow> (prefix ?pfx (?key r) \<and> ?k1 \<le> ?key r) \<and> db_Get K db objectsBucket (?key r) = Some (JObject r))"
    by (rule decode_listing [where C = JObject and key = ?key and P = "\<lambda>k. prefix ?pfx k \<and> ?k1 \<le> k" and unm = unmarshal_object,
        OF set dec _ ksorted]) auto
  then have 2: "sorted_wrt (<) (map ?key ?ys)"
    "\<And>x. x \<in> set ?ys \<longleftrightarrow> (prefix ?pfx (?key x) \<and> ?k1 \<le> ?key x) \<and> db_Get K db objectsBucket (?key x) = Some (JObject x)"
    by blast+
  have el: "x \<in> set ?ys \<longleftrightarrow> mv_objects (bolt_view K db) n (or_Key x) = Some x \<and> prefix (lo_Prefix opts) (or_Key x) \<and>
      ?k1 \<le> object_key n (or_Key x)" for x
  proof
    assume "x \<in> set ?ys"
    then have p: "prefix ?pfx (?key x)" "?k1 \<le> ?key x" "db_Get K db objectsBucket (?key x) = Some (JObject x)"
      using 2(2) by blast+
    have "nulfree (or_Bucket x)" using contents_home [OF binv_contents [OF i] p(3)] object_ok_nulfree by simp
    with p(1) n have "or_Bucket x = n" "prefix (lo_Prefix opts) (or_Key x)" by (simp_all add: prefix_object_key)
    with p(2,3) get_object_iff [OF i n] show "mv_objects (bolt_view K db) n (or_Key x) = Some x \<and> prefix (lo_Prefix opts) (or_Key x) \<and>
      ?k1 \<le> object_key n (or_Key x)" by simp
  next
    assume a: "mv_objects (bolt_view K db) n (or_Key x) = Some x \<and> prefix (lo_Prefix opts) (or_Key x) \<and> ?k1 \<le> object_key n (or_Key x)"
    from mv_objectsD [OF binv_contents [OF i] conjunct1 [OF a, unfolded bolt_view_def]] a n
    have "prefix ?pfx (?key x) \<and> ?k1 \<le> ?key x \<and> db_Get K db objectsBucket (?key x) = Some (JObject x)"
      by (simp add: prefix_object_key)
    then show "x \<in> set ?ys" using 2(2) by blast
  qed
  have "or_Key x < or_Key y" if "x \<in> set ?ys" "y \<in> set ?ys" "?key x < ?key y" for x y
  proof -
    from that(1,2) have "mv_objects (view_of (db_Get K db)) n (or_Key x) = Some x"
      "mv_objects (view_of (db_Get K db)) n (or_Key y) = Some y"
      unfolding el by (simp_all add: bolt_view_def)
    from this [THEN mv_objectsD [OF binv_contents [OF i]]] that(3) show ?thesis
      by (simp add: object_key_less)
  qed
  then have "sorted_wrt (<) (map or_Key ?ys)"
    using 2(1) unfolding sorted_wrt_map by (rule sorted_wrt_mono_rel) auto
  with 1 el show ?thesis by blast
qed

text \<open>A continuation token without a NUL byte is a key of no bucket: the cursor is before or behind all of them.\<close>

lemma list_loop_stop: "\<forall>(k, v) \<in> set (take 1 kvs). \<not> HasPrefix k pfx \<Longrightarrow> list_loop b opts pfx recs cps kvs = Inr (recs, cps)"
  by (cases kvs) auto

lemma list_token_ok:
  assumes i: "kinv db" and t: "lo_ContinuationToken opts \<noteq> []" "nulfree (lo_ContinuationToken opts)"
  shows "bb_ListObjects K db n opts = Inr ([], []) \<or>
    bb_ListObjects K db n opts = bb_ListObjects K db n (opts\<lparr>lo_ContinuationToken := [], lo_StartAfter := []\<rparr>)"
proof -
  let ?pfx = "object_key n (lo_Prefix opts)" and ?k1 = "lo_ContinuationToken opts @ [CHR 0x01]"
  let ?S = "db_Seek K db objectsBucket ?k1" and ?T = "db_Seek K db objectsBucket ?pfx"
  have no: "\<not> prefix ?pfx ?k1"
    using t(2) set_mono_prefix [of ?pfx ?k1] by (auto simp: object_key_def nulfree_def)
  show ?thesis
  proof (cases "\<forall>(k, v) \<in> set (take 1 ?S). \<not> HasPrefix k ?pfx")
    case True
    with t(1) show ?thesis by (simp add: bb_ListObjects_def Let_def start_after_key_def list_loop_stop)
  next
    case False
    then obtain k v rest where S: "?S = (k, v) # rest" "prefix ?pfx k" by (cases ?S) auto
    then have "?k1 \<le> k" using db_seek_set [OF i, of k v objectsBucket ?k1] by simp
    with S(2) no have "\<not> ?pfx \<le> ?k1" using prefix_convex by blast
    then have less: "?k1 \<le> ?pfx" by simp
    have first: "k \<le> k'" if "(k', v') \<in> set ?S" for k' v'
      using that db_seek_sorted [OF i, of objectsBucket ?k1] S by (auto intro: less_imp_le)
    have "(k', v') \<in> set ?S \<longleftrightarrow> (k', v') \<in> set ?T" for k' v'
      using db_seek_set [OF i] less first prefix_imp_le [OF S(2)] by (meson order_trans)
    then have "set ?S = set ?T" by auto
    with sorted_key_unique [OF db_seek_sorted [OF i] db_seek_sorted [OF i]] have "?S = ?T" by blast
    with t(1) have "bb_ListObjects K db n opts =
        (case list_loop n opts ?pfx [] [] ?T of Inl e \<Rightarrow> Inl e | Inr (rs, cps) \<Rightarrow> Inr (rs, sort cps))"
      by (simp add: bb_ListObjects_def Let_def start_after_key_def)
    moreover have "list_loop n opts pfx rs cps kvs = list_loop n (opts\<lparr>lo_ContinuationToken := [], lo_StartAfter := []\<rparr>) pfx rs cps kvs"
      for pfx rs cps kvs
      by (induction n opts pfx rs cps kvs rule: list_loop.induct) (simp add: Let_def max_keys_def split: option.split)+
    ultimately show ?thesis by (simp add: bb_ListObjects_def Let_def start_after_key_def)
  qed
qed

end

section \<open>Pages\<close>

text \<open>The objects of a bucket under a prefix, in the order of their keys.\<close>

definition listing :: "meta_view \<Rightarrow> string \<Rightarrow> string \<Rightarrow> object_record list \<Rightarrow> bool" where
  "listing w b p xs \<longleftrightarrow> sorted_wrt (<) (map or_Key xs) \<and>
     (\<forall>r. r \<in> set xs \<longleftrightarrow> mv_objects w b (or_Key r) = Some r \<and> prefix p (or_Key r))"

definition listed :: "response \<Rightarrow> list_bucket_result option" where
  "listed resp = (case rs_Body resp of XmlBody (XListBucket page) \<Rightarrow> Some page | _ \<Rightarrow> None)"

definition page_size :: "int \<Rightarrow> nat" where
  "page_size maxKeys = (if maxKeys \<le> 0 then 1000 else nat maxKeys)"

lemma v1_max_keys_bound: "v1_max_keys s \<le> 1000"
  by (simp add: v1_max_keys_def defaultMaxKeys_def split: option.split)

lemma page_size_bound: "m \<le> 1000 \<Longrightarrow> page_size m \<le> 1000"
  by (simp add: page_size_def nat_le_iff)

lemma char_1_le: "c \<noteq> NUL \<Longrightarrow> CHR 0x01 \<le> c"
  by (cases c rule: char.exhaust) (auto simp: less_eq_char_def of_char_def)

lemma nulfree_after: "s < k \<Longrightarrow> nulfree k \<Longrightarrow> s @ [CHR 0x01] \<le> k"
proof (induction s arbitrary: k)
  case Nil
  then obtain a l where "k = a # l" "a \<noteq> NUL" by (cases k) (auto simp: nulfree_def)
  with char_1_le [of a] show ?case by (cases "CHR 0x01 = a") auto
next
  case (Cons c s)
  then show ?case by (cases k) (auto simp: nulfree_def)
qed

lemma after_snoc: "s @ [CHR 0x01] \<le> k \<Longrightarrow> s < (k :: string)"
  by (metis append_self_conv not_Cons_self2 not_less_iff_gr_or_eq order.strict_trans2 prefix_def prefix_imp_le le_less)

lemma listing_unique: "listing w b p xs \<Longrightarrow> listing w b p ys \<Longrightarrow> xs = ys"
  by (rule sorted_key_unique [of or_Key]) (auto simp: listing_def)

context bolt_db
begin

lemma list_after_ok:
  assumes i: "bolt_inv K kinv db" and n: "nulfree n"
    and o: "lo_Delimiter opts = []" "lo_ContinuationToken opts = []"
    and xs: "listing (bolt_view K db) n (lo_Prefix opts) xs"
    and nf: "\<forall>k. mv_objects (bolt_view K db) n k \<noteq> None \<longrightarrow> nulfree k"
    and s: "lo_StartAfter opts = or_Key (xs ! j)" "j < length xs" "lo_StartAfter opts \<noteq> []"
  shows "bb_ListObjects K db n opts = Inr (take (max_keys opts) (drop (Suc j) xs), [])"
proof -
  let ?s = "lo_StartAfter opts"
  have sk: "start_after_key n opts = object_key n ?s" "start_after_key n opts \<noteq> []"
    using o(2) s(3) by (simp_all add: start_after_key_def object_key_def)
  have "xs ! j \<in> set xs" using s(2) by simp
  then have "prefix (lo_Prefix opts) ?s" using xs s(1) by (simp add: listing_def)
  then have "prefix (object_key n (lo_Prefix opts)) (object_key n ?s @ [CHR 0x01])"
    by (auto simp: object_key_def prefix_def)
  then have le: "object_key n (lo_Prefix opts) \<le> start_after_key n opts @ [CHR 0x01]"
    unfolding sk(1) by (rule prefix_imp_le)
  from list_from_ok [OF i n o(1) sk(2) le] obtain ys where
    ys: "bb_ListObjects K db n opts = Inr (take (max_keys opts) ys, [])" "sorted_wrt (<) (map or_Key ys)"
    "\<And>x. x \<in> set ys \<longleftrightarrow> mv_objects (bolt_view K db) n (or_Key x) = Some x \<and> prefix (lo_Prefix opts) (or_Key x) \<and>
       object_key n ?s @ [CHR 0x01] \<le> object_key n (or_Key x)"
    unfolding sk(1) by blast
  have cut: "object_key n ?s @ [CHR 0x01] \<le> object_key n k \<longleftrightarrow> ?s < k" if "nulfree k" for k
    using nulfree_after [OF _ that] after_snoc object_key_le_snoc [of n k ?s "CHR 0x01"] by (metis not_less)
  have "x \<in> set ys \<longleftrightarrow> x \<in> set (filter (\<lambda>x. or_Key (xs ! j) < or_Key x) xs)" for x
    using xs nf cut [of "or_Key x"] unfolding ys(3) by (auto simp: listing_def s(1))
  then have "set ys = set (filter (\<lambda>x. or_Key (xs ! j) < or_Key x) xs)" by blast
  moreover have "sorted_wrt (<) (map or_Key (filter (\<lambda>x. or_Key (xs ! j) < or_Key x) xs))"
    using xs by (simp add: listing_def sorted_wrt_map sorted_wrt_filter)
  ultimately have "ys = filter (\<lambda>x. or_Key (xs ! j) < or_Key x) xs" using sorted_key_unique [OF ys(2)] by blast
  then have "ys = drop (Suc j) xs" using filter_greater_drop [of or_Key xs j] xs s(2) by (simp add: listing_def)
  with ys(1) show ?thesis by simp
qed

end

lemma bucket_present_engine:
  assumes "bolt_db K kinv" and "engine_ok K kinv e" and "mv_buckets (records K e) b = Some bkt"
  shows "engine_ListObjects (bbolt_store K) e b opts = bb_ListObjects K (e_meta e) b opts" and "nulfree b"
    and "bolt_inv K kinv (e_meta e)"
proof -
  note ms = bolt_db.store_is_metadata_store [OF assms(1)]
  show i: "bolt_inv K kinv (e_meta e)" using assms(2) by (simp add: engine_inv_def)
  show "engine_ListObjects (bbolt_store K) e b opts = bb_ListObjects K (e_meta e) b opts"
    using metadata_store.get_bucket_Some [OF ms i assms(3)] by (simp add: engine_ListObjects_def bbolt_store_def)
  show "nulfree b" using metadata_store.bucket_named [OF ms i assms(3)] by (simp add: name_ok_def)
qed

abbreviation contents :: "response \<Rightarrow> list_entry list option" where
  "contents resp \<equiv> map_option lb_Contents (listed resp)"

lemma contents_answer:
  "contents (fst (answer_read x res (\<lambda>(r, c). writeXML x s (XListBucket (f r c))) e)) =
     (case res of Inl err \<Rightarrow> None | Inr (r, c) \<Rightarrow> Some (lb_Contents (f r c)))"
  by (simp add: answer_read_def listed_def writeXML_def Let_def respond_def bucketFailure_def noSuchBucket_def internalError_def
      writeError_def split: sum.split prod.split)

lemma contents_V1:
  assumes "bolt_db K kinv" and "engine_ok K kinv e" and "mv_buckets (records K e) b = Some bkt"
    and "bb_ListObjects K (e_meta e) b \<lparr>lo_Prefix = multi_get (x_query x) ''prefix'', lo_Delimiter = multi_get (x_query x) ''delimiter'',
        lo_ContinuationToken = [], lo_StartAfter = multi_get (x_query x) ''marker'',
        lo_MaxKeys = v1_max_keys (multi_get (x_query x) ''max-keys'')\<rparr> = Inr (rs, cps)"
  shows "contents (fst (listObjectsV1 (bbolt_store K) x b e)) = Some (list_entries rs)"
  unfolding listObjectsV1_def Let_def bucket_present_engine(1) [OF assms(1-3)] assms(4)
  by (simp add: answer_read_def listed_def writeXML_def Let_def respond_def)

text \<open>
  C11: pages that follow the marker enumerate the bucket: without a delimiter, the first version of the
  listing answers a request without a marker with the first objects of the bucket under the prefix, in the
  order of their keys, and a request whose marker is a listed key with the objects that come next, each
  time as many as \<open>max-keys\<close> asks for and at most 1000.
\<close>

theorem marker_pages_enumerate:
  assumes "bolt_db K kinv" and "engine_ok K kinv e" and "mv_buckets (records K e) b = Some bkt"
    and "\<forall>k. mv_objects (records K e) b k \<noteq> None \<longrightarrow> nulfree k"
  shows "\<exists>xs. listing (records K e) b p xs \<and>
    (\<forall>x. multi_get (x_query x) ''prefix'' = p \<longrightarrow> multi_get (x_query x) ''delimiter'' = [] \<longrightarrow>
       (let size = page_size (v1_max_keys (multi_get (x_query x) ''max-keys'')); marker = multi_get (x_query x) ''marker'';
            page = contents (fst (listObjectsV1 (bbolt_store K) x b e))
        in size \<le> 1000 \<and> (marker = [] \<longrightarrow> page = Some (list_entries (take size xs))) \<and>
           (\<forall>j < length xs. marker \<noteq> [] \<longrightarrow> marker = or_Key (xs ! j) \<longrightarrow> page = Some (list_entries (take size (drop (Suc j) xs))))))"
proof -
  note b = bucket_present_engine(2,3) [OF assms(1-3)] and first = bolt_db.list_objects_ok [OF assms(1)]
    and next_page = bolt_db.list_after_ok [OF assms(1)]
  define query where "query mk n = \<lparr>lo_Prefix = p, lo_Delimiter = [], lo_ContinuationToken = [], lo_StartAfter = mk, lo_MaxKeys = n\<rparr>"
    for mk :: string and n :: int
  have size: "max_keys (query mk n) = page_size n" for mk n by (simp add: query_def max_keys_def page_size_def)
  have one: "\<exists>xs. bb_ListObjects K (e_meta e) b (query [] n) = Inr (take (page_size n) xs, []) \<and> listing (records K e) b p xs" for n
    using first [OF b(2,1), of "query [] n"] size [of "[]" n] by (auto simp: query_def listing_def)
  from one [of 0] obtain xs where xs: "listing (records K e) b p xs" by blast
  have start: "bb_ListObjects K (e_meta e) b (query [] n) = Inr (take (page_size n) xs, [])" for n
    using one [of n] listing_unique [OF xs] by blast
  have more: "bb_ListObjects K (e_meta e) b (query mk n) = Inr (take (page_size n) (drop (Suc j) xs), [])"
    if "mk = or_Key (xs ! j)" "j < length xs" "mk \<noteq> []" for mk j n
    using next_page [OF b(2,1), of "query mk n" xs j] xs assms(4) that size [of mk n] by (simp add: query_def)
  show ?thesis
    using xs contents_V1 [OF assms(1-3)] start more page_size_bound [OF v1_max_keys_bound]
    by (intro exI [of _ xs]) (simp add: Let_def query_def)
qed

definition list_exchange :: "string \<Rightarrow> exchange" where
  "list_exchange raw = fresh_exchange \<lparr>
     hq_req = \<lparr>rq_Method = ''GET'', rq_Host = ''h:9000'', rq_Path = ''/bkt'', rq_RawQuery = raw, rq_Header = []\<rparr>,
     hq_Body = reader_of [], hq_XML = None, hq_ContentLength = 0, hq_TLS = False, hq_RemoteAddr = ''10.0.0.1:5''\<rparr>"

lemma demo2_nulfree: "\<forall>k. mv_objects (records ref_bolt demo2) ''bkt'' k \<noteq> None \<longrightarrow> nulfree k"
proof (intro allI impI)
  fix k
  assume "mv_objects (records ref_bolt demo2) ''bkt'' k \<noteq> None"
  then have "k = ''dir/a''" using demo2_objects by blast
  then show "nulfree k" by (simp add: nulfree_def)
qed

lemma marker_pages_enumerate_witness:
  "\<exists>xs. listing (records ref_bolt demo2) ''bkt'' [] xs \<and>
    contents (fst (listObjectsV1 (bbolt_store ref_bolt) (list_exchange []) ''bkt'' demo2)) = Some (list_entries (take 1000 xs))"
proof -
  obtain bkt where b: "mv_buckets (records ref_bolt demo2) ''bkt'' = Some bkt" using demo2_facts(3) by blast
  have "x_query (list_exchange []) = []" by code_simp
  then have q: "multi_get (x_query (list_exchange [])) k = []" for k by (simp add: multi_get_def)
  have n: "page_size (v1_max_keys []) = 1000" by code_simp
  from marker_pages_enumerate [OF ref.bolt_db_axioms demo2_facts(1) b demo2_nulfree, of "[]", unfolded Let_def]
  obtain xs where "listing (records ref_bolt demo2) ''bkt'' [] xs" and
    "\<And>x. multi_get (x_query x) ''prefix'' = [] \<Longrightarrow> multi_get (x_query x) ''delimiter'' = [] \<Longrightarrow> multi_get (x_query x) ''marker'' = [] \<Longrightarrow>
       contents (fst (listObjectsV1 (bbolt_store ref_bolt) x ''bkt'' demo2)) =
         Some (list_entries (take (page_size (v1_max_keys (multi_get (x_query x) ''max-keys''))) xs))"
    by blast
  from this(1) this(2) [OF q q q] show ?thesis by (auto simp: q n)
qed

text \<open>
  the continuation token of the second version leads nowhere: the listing with the token that a
  truncated page gives, without a NUL byte, is that very page again or an empty one, whatever prefix and
  delimiter are asked for. A client that follows the tokens never sees another object.
\<close>

theorem continuation_never_advances:
  assumes "bolt_db K kinv" and "engine_ok K kinv e" and "mv_buckets (records K e) b = Some bkt"
    and "listed (fst (listObjectsV2 (bbolt_store K) x b e)) = Some page"
    and "multi_get (x_query x) ''continuation-token'' = []" and "multi_get (x_query x) ''start-after'' = []"
    and "lb_NextContinuationToken page \<noteq> []" and "nulfree (lb_NextContinuationToken page)"
    and "\<forall>q \<in> {''max-keys'', ''prefix'', ''delimiter''}. multi_get (x_query y) q = multi_get (x_query x) q"
    and "multi_get (x_query y) ''continuation-token'' = lb_NextContinuationToken page"
  shows "contents (fst (listObjectsV2 (bbolt_store K) y b e)) \<in> {Some [], Some (lb_Contents page)}"
proof -
  note run = bucket_present_engine(1) [OF assms(1-3)] and i = bucket_present_engine(3) [OF assms(1-3)]
  define query where "query t s = \<lparr>lo_Prefix = multi_get (x_query x) ''prefix'', lo_Delimiter = multi_get (x_query x) ''delimiter'',
    lo_ContinuationToken = t, lo_StartAfter = s, lo_MaxKeys = the (v2_max_keys (multi_get (x_query x) ''max-keys''))\<rparr>" for t s
  let ?list = "\<lambda>t s. bb_ListObjects K (e_meta e) b (query t s)"
  have mk: "v2_max_keys (multi_get (x_query x) ''max-keys'') \<noteq> None"
  proof
    assume "v2_max_keys (multi_get (x_query x) ''max-keys'') = None"
    with assms(4) show False by (simp add: listObjectsV2_def Let_def listed_def writeError_def respond_def)
  qed
  then obtain n where n: "v2_max_keys (multi_get (x_query x) ''max-keys'') = Some n" by blast
  have V2: "contents (fst (listObjectsV2 (bbolt_store K) z b e)) =
      (case ?list (multi_get (x_query z) ''continuation-token'') (multi_get (x_query z) ''start-after'') of
         Inl err \<Rightarrow> None | Inr (rs, cps) \<Rightarrow> Some (list_entries rs))"
    if "\<forall>q \<in> {''max-keys'', ''prefix'', ''delimiter''}. multi_get (x_query z) q = multi_get (x_query x) q" for z
    using that n by (simp add: listObjectsV2_def Let_def run query_def contents_answer split: sum.split prod.split)
  have tok: "?list t s = Inr ([], []) \<or> ?list t s = ?list [] []" if "t \<noteq> []" "nulfree t" for t s
    using bolt_db.list_token_ok [OF assms(1) bolt_db.binv_kinv [OF assms(1) i], of "query t s" b] that by (simp add: query_def)
  have "contents (fst (listObjectsV2 (bbolt_store K) x b e)) = Some (lb_Contents page)" using assms(4) by simp
  with V2 [of x] assms(5,6) obtain rs cps where first: "?list [] [] = Inr (rs, cps)" "list_entries rs = lb_Contents page"
    by (auto split: sum.splits)
  have "contents (fst (listObjectsV2 (bbolt_store K) y b e)) =
      (case ?list (lb_NextContinuationToken page) (multi_get (x_query y) ''start-after'') of
         Inl err \<Rightarrow> None | Inr (rs, cps) \<Rightarrow> Some (list_entries rs))"
    using V2 [OF assms(9)] assms(10) by simp
  with tok [OF assms(7,8), of "multi_get (x_query y) ''start-after''"] first show ?thesis
    by (auto simp: list_entries_def)
qed

abbreviation first_page :: exchange where
  "first_page \<equiv> list_exchange ''max-keys=1''"

abbreviation second_page :: exchange where
  "second_page \<equiv> list_exchange ''max-keys=1&continuation-token=dir/a''"

lemma page_queries:
  "multi_get (x_query first_page) ''continuation-token'' = []" "multi_get (x_query first_page) ''start-after'' = []"
  "\<forall>q \<in> {''max-keys'', ''prefix'', ''delimiter''}. multi_get (x_query second_page) q = multi_get (x_query first_page) q"
  "multi_get (x_query second_page) ''continuation-token'' = ''dir/a''"
  by code_simp+

lemma demo2_listed: "\<exists>r. or_Key r = ''dir/a'' \<and>
   bb_ListObjects ref_bolt (e_meta demo2) ''bkt'' \<lparr>lo_Prefix = [], lo_Delimiter = [], lo_ContinuationToken = [], lo_StartAfter = [], lo_MaxKeys = 1\<rparr> =
     Inr ([r], [])"
proof -
  have i: "bolt_inv ref_bolt (\<lambda>_. True) (e_meta demo2)" using demo2_facts(1) by (simp add: engine_inv_def)
  have "nulfree ''bkt''" by (simp add: nulfree_def)
  from ref.list_objects_ok [OF i this, of "\<lparr>lo_Prefix = [], lo_Delimiter = [], lo_ContinuationToken = [], lo_StartAfter = [], lo_MaxKeys = 1\<rparr>"]
  obtain xs where xs: "bb_ListObjects ref_bolt (e_meta demo2) ''bkt''
      \<lparr>lo_Prefix = [], lo_Delimiter = [], lo_ContinuationToken = [], lo_StartAfter = [], lo_MaxKeys = 1\<rparr> = Inr (take 1 xs, [])"
    "sorted_wrt (<) (map or_Key xs)" "\<And>x. x \<in> set xs \<longleftrightarrow> mv_objects (records ref_bolt demo2) ''bkt'' (or_Key x) = Some x"
    by (auto simp: max_keys_def)
  obtain r where r: "mv_objects (records ref_bolt demo2) ''bkt'' ''dir/a'' = Some r" using demo2_facts(4) by blast
  then have k: "or_Key r = ''dir/a''" using ref.ms.object_named [OF i] by blast
  with xs(3) [of r] r have "r \<in> set xs" by simp
  then obtain x ys where "xs = x # ys" by (cases xs) auto
  moreover from this have "x \<in> set xs" by simp
  then have "mv_objects (records ref_bolt demo2) ''bkt'' (or_Key x) = Some x" using xs(3) by blast
  then have "or_Key x = ''dir/a''" using demo2_objects by blast
  ultimately show ?thesis using xs(1) by auto
qed

lemma demo2_first_page:
  "map_option lb_NextContinuationToken (listed (fst (listObjectsV2 (bbolt_store ref_bolt) first_page ''bkt'' demo2))) = Some ''dir/a''"
proof -
  obtain bkt where b: "mv_buckets (records ref_bolt demo2) ''bkt'' = Some bkt" using demo2_facts(3) by blast
  have q: "v2_max_keys (multi_get (x_query first_page) ''max-keys'') = Some 1" "multi_get (x_query first_page) ''prefix'' = []"
    "multi_get (x_query first_page) ''delimiter'' = []" by code_simp+
  obtain r where "or_Key r = ''dir/a''" and "bb_ListObjects ref_bolt (e_meta demo2) ''bkt''
      \<lparr>lo_Prefix = [], lo_Delimiter = [], lo_ContinuationToken = [], lo_StartAfter = [], lo_MaxKeys = 1\<rparr> = Inr ([r], [])"
    using demo2_listed by blast
  with q page_queries(1,2) bucket_present_engine(1) [OF ref.bolt_db_axioms demo2_facts(1) b] show ?thesis
    by (simp add: listObjectsV2_def Let_def answer_read_def listed_def writeXML_def respond_def)
qed

lemma continuation_never_advances_witness:
  "\<exists>page. listed (fst (listObjectsV2 (bbolt_store ref_bolt) first_page ''bkt'' demo2)) = Some page \<and>
    contents (fst (listObjectsV2 (bbolt_store ref_bolt) second_page ''bkt'' demo2)) \<in> {Some [], Some (lb_Contents page)}"
proof -
  obtain bkt where b: "mv_buckets (records ref_bolt demo2) ''bkt'' = Some bkt" using demo2_facts(3) by blast
  obtain page where p: "listed (fst (listObjectsV2 (bbolt_store ref_bolt) first_page ''bkt'' demo2)) = Some page"
    "lb_NextContinuationToken page = ''dir/a''" using demo2_first_page by auto
  then have "lb_NextContinuationToken page \<noteq> []" "nulfree (lb_NextContinuationToken page)" by (simp_all add: nulfree_def)
  with continuation_never_advances [OF ref.bolt_db_axioms demo2_facts(1) b p(1) page_queries(1,2) _ _ page_queries(3)]
    p page_queries(4) show ?thesis by simp
qed

end
