(* ===== verification/S3_Roundtrip.thy ===== *)
theory S3_Roundtrip
  imports S3_Props Sigv4_Correct
begin

text \<open>
  Round trips over HTTP: a bucket configuration that is put is got back, and an object that is put through
  the whole server, middleware included, is got back with its ETag.
\<close>

section \<open>Dates\<close>

lemma digits_val_less: "list_all is_digit ds \<Longrightarrow> digits_val ds < 10 ^ length ds"
proof (induction ds rule: rev_induct)
  case (snoc c ds)
  then have "digit_val c < 10" "digits_val ds < 10 ^ length ds" by (auto simp: is_digit_def digit_val_def)
  then show ?case by (simp add: digits_val_append)
qed (simp add: digits_val_def)

lemma take_digits_less: "take_digits w s = Some (n, s') \<Longrightarrow> n < 10 ^ w"
  using digits_val_less [of "take w s"] by (auto simp: take_digits_def split: if_splits)

lemma days_of_bounds:
  assumes "0 \<le> y" and "1 \<le> m" and "m \<le> 12" and "1 \<le> d" and "d \<le> daysIn m y"
  shows "0 \<le> days_of y m d \<and> days_of y m d < days_before_year (y + 1)"
proof -
  have len: "m - 1 < length (month_lengths y)" using assms(2,3) by (simp add: month_lengths_def)
  have "sum_list (take (m - 1) (month_lengths y)) + month_lengths y ! (m - 1) \<le> sum_list (month_lengths y)"
    using id_take_nth_drop [OF len] by (metis add.assoc le_add1 sum_list.Cons sum_list_append)
  then have "int (sum_list (take (m - 1) (month_lengths y))) + int d \<le> (if leap y then 366 else 365)"
    using assms(5) unfolding month_lengths_sum [symmetric] daysIn_def by linarith
  moreover have "0 \<le> days_before_year y" using days_before_year_less [OF assms(1)] by simp
  ultimately show ?thesis using assms(4) by (simp add: days_of_def days_before_year_step)
qed

text \<open>A date that is read is a midnight of the years 0 to 9999, and is printed as it can be read.\<close>

lemma parse_day_range:
  assumes "parse_day s = Some t"
  shows "stamp_range t \<and> t mod day_ns = 0"
proof -
  from assms obtain s1 year month day where "take_digits 4 s = Some (year, s1)" and
    d: "1 \<le> month" "month \<le> 12" "1 \<le> day" "day \<le> daysIn month (int year)"
      "t = (days_of (int year) month day - epoch_days) * day_ns"
    by (auto simp: parse_day_def split: if_splits bind_splits)
  then have "int year + 1 \<le> 10000" using take_digits_less [of 4 s year s1] by simp
  then have "days_before_year (int year + 1) \<le> days_before_year 10000" by (rule days_before_year_less)
  with days_of_bounds [of "int year" month day] d
  have "0 \<le> days_of (int year) month day" "days_of (int year) month day < days_before_year 10000" by auto
  then show ?thesis by (simp add: d(5) stamp_range_def day_ns_eq)
qed

lemma parse_format_day:
  assumes "stamp_range t" and "t mod day_ns = 0"
  shows "parse_day (format_day t) = Some t"
proof -
  obtain y m d where c: "civil (t div day_ns + epoch_days) = (y, m, d)"
    by (cases "civil (t div day_ns + epoch_days)") auto
  note r = format_date_digs [OF assms(1) c]
  have f: "format_day t = digs 4 (nat y) @ ''-'' @ digs 2 m @ ''-'' @ digs 2 d"
  proof -
    have "y < 10000" "m < 100" using r by (auto simp: nat_less_iff)
    with r show ?thesis by (simp add: format_day_def c fmt_int_4 pad_2 del: digs.simps)
  qed
  have "parse_day (format_day t) = Some ((days_of y m d - epoch_days) * day_ns)"
    unfolding f parse_day_def using r take_digits_digs [of d 2 "[]"]
    by (simp add: take_digits_digs take_dash_def del: digs.simps)
  also have "\<dots> = Some (t div day_ns * day_ns)" using r by simp
  also have "t div day_ns * day_ns = t" using assms(2) by (metis add.right_neutral div_mult_mod_eq)
  finally show ?thesis .
qed

section \<open>Bucket configurations\<close>

lemma tagsFromXML_props: "distinct (map fst (tagsFromXML ts)) \<and> map_of (tagsFromXML ts) = map_of (rev ts)"
proof -
  have "distinct (map fst m) \<Longrightarrow> distinct (map fst (foldl (\<lambda>m (k, v). AList.update k v m) m ts)) \<and>
      map_of (foldl (\<lambda>m (k, v). AList.update k v m) m ts) = map_of m ++ map_of (rev ts)" for m :: smap
    by (induction ts arbitrary: m) (auto simp: distinct_update update_conv' map_add_def fun_eq_iff split: option.split)
  from this [of "[]"] show ?thesis by (simp add: tagsFromXML_def)
qed

lemma cors_xml_id: "metaCORSToXML (xmlCORSToMeta cfg) = cfg"
  by (induction cfg) (simp_all add: metaCORSToXML_def xmlCORSToMeta_def)

subsection \<open>What a lifecycle document says\<close>

text \<open>A text of the form YYYY-MM-DD, a day of the calendar, and the midnight at which it begins.\<close>

definition names_day :: "string \<Rightarrow> time \<Rightarrow> bool" where
  "names_day s t \<longleftrightarrow>
     (\<exists>y m d. s = digs 4 y @ ''-'' @ digs 2 m @ ''-'' @ digs 2 d \<and> y < 10000 \<and> 1 \<le> m \<and> m \<le> 12 \<and> 1 \<le> d \<and> d \<le> daysIn m (int y) \<and>
        t = (days_of (int y) m d - epoch_days) * day_ns)"

lemma digit_val_digit: "is_digit c \<Longrightarrow> digit_val c < 10 \<and> digit (digit_val c) = c"
proof -
  assume "is_digit c"
  then have n: "(48::nat) \<le> of_char c" "of_char c \<le> (57::nat)" by (simp_all add: is_digit_def)
  then have "48 + (of_char c - 48) = (of_char c :: nat)" by simp
  then have "digit (digit_val c) = c" by (simp add: digit_def digit_val_def)
  with n show ?thesis by (simp add: digit_val_def)
qed

lemma digs_digits_val: "list_all is_digit ds \<Longrightarrow> digs (length ds) (digits_val ds) = ds"
  by (induction ds rule: rev_induct) (auto simp: digits_val_append digit_val_digit)

lemma take_digits_iff: "take_digits w s = Some (n, r) \<longleftrightarrow> s = digs w n @ r \<and> n < 10 ^ w"
proof
  assume t: "take_digits w s = Some (n, r)"
  then have "w \<le> length s" "list_all is_digit (take w s)" "n = digits_val (take w s)" "r = drop w s"
    by (auto simp: take_digits_def split: if_splits)
  moreover from this have "digs w n = take w s" using digs_digits_val [of "take w s"] by (simp add: min_absorb2)
  ultimately show "s = digs w n @ r \<and> n < 10 ^ w" using take_digits_less [OF t] by (metis append_take_drop_id)
qed (auto simp: take_digits_digs)

lemma take_dash_iff: "take_dash s = Some r \<longleftrightarrow> s = ''-'' @ r"
  by (cases s) (auto simp: take_dash_def)

lemma daysIn_le: "1 \<le> m \<Longrightarrow> m \<le> 12 \<Longrightarrow> d \<le> daysIn m y \<Longrightarrow> d < 100"
  using month_lengths_le [of "m - 1" y] unfolding daysIn_def by linarith

lemma parse_day_iff: "parse_day s = Some t \<longleftrightarrow> names_day s t"
proof
  assume "parse_day s = Some t"
  then show "names_day s t"
    unfolding parse_day_def names_day_def
    by (auto simp: bind_eq_Some_conv take_digits_iff take_dash_iff simp del: digs.simps split: if_splits prod.splits)
next
  assume "names_day s t"
  then obtain y m d where d: "s = digs 4 y @ ''-'' @ digs 2 m @ ''-'' @ digs 2 d" "y < 10000" "1 \<le> m" "m \<le> 12" "1 \<le> d"
    "d \<le> daysIn m (int y)" "t = (days_of (int y) m d - epoch_days) * day_ns" by (auto simp: names_day_def)
  then have "m < 100" "d < 100" using daysIn_le by auto
  with d show "parse_day s = Some t"
    using take_digits_digs [of d 2 "[]"] by (simp add: parse_day_def take_digits_digs take_dash_def del: digs.simps)
qed

text \<open>The parts of a rule; a part that is missing counts as 0 or as the empty text.\<close>

definition rule_days :: "xml_lifecycle_rule \<Rightarrow> int" where
  "rule_days r = (case xl_Expiration r of None \<Rightarrow> 0 | Some e \<Rightarrow> xe_Days e)"

definition rule_date :: "xml_lifecycle_rule \<Rightarrow> string" where
  "rule_date r = (case xl_Expiration r of None \<Rightarrow> [] | Some e \<Rightarrow> xe_Date e)"

definition number :: "int option \<Rightarrow> int" where
  "number n = (case n of None \<Rightarrow> 0 | Some d \<Rightarrow> d)"

text \<open>
  A rule of the document and the rule the engine has of it. The last of two tags with one key counts, and a date
  that is no day of the form YYYY-MM-DD is dropped.
\<close>

definition rule_stored :: "xml_lifecycle_rule \<Rightarrow> lifecycle_rule \<Rightarrow> bool" where
  "rule_stored r m \<longleftrightarrow>
     lr_ID m = xl_ID r \<and> lr_Status m = xl_Status r \<and> lf_Prefix (lr_Filter m) = xl_Prefix r \<and>
     map_of (lf_Tags (lr_Filter m)) = map_of (rev (xl_Tag r)) \<and>
     ExpirationDays m = rule_days r \<and> (\<forall>t. ExpirationDate m = Some t \<longleftrightarrow> names_day (rule_date r) t) \<and>
     AbortIncompleteMultipartDays m = number (xl_AbortDays r) \<and> NoncurrentVersionExpirationDays m = number (xl_NoncurrentDays r)"

text \<open>A rule that was put and the rule that is got.\<close>

definition rule_shown :: "xml_lifecycle_rule \<Rightarrow> xml_lifecycle_rule \<Rightarrow> bool" where
  "rule_shown r r' \<longleftrightarrow>
     xl_ID r' = xl_ID r \<and> xl_Status r' = xl_Status r \<and> xl_Prefix r' = xl_Prefix r \<and>
     distinct (map fst (xl_Tag r')) \<and> map_of (xl_Tag r') = map_of (rev (xl_Tag r)) \<and>
     rule_days r' = rule_days r \<and> (\<forall>t. names_day (rule_date r') t \<longleftrightarrow> names_day (rule_date r) t) \<and>
     (rule_date r' \<noteq> [] \<longrightarrow> (\<exists>t. names_day (rule_date r) t)) \<and>
     number (xl_AbortDays r') = number (xl_AbortDays r) \<and> number (xl_NoncurrentDays r') = number (xl_NoncurrentDays r)"

definition days_ok :: "xml_lifecycle_rule \<Rightarrow> bool" where
  "days_ok r \<longleftrightarrow> 0 \<le> rule_days r \<and> 0 \<le> number (xl_AbortDays r) \<and> 0 \<le> number (xl_NoncurrentDays r)"

lemma not_names_empty: "\<not> names_day [] t"
  by (simp add: names_day_def)

lemma lifecycle_stored: "list_all2 rule_stored cfg (xmlLifecycleToMeta cfg)"
proof -
  have "rule_stored r m" if "xmlLifecycleToMeta [r] = [m]" for r m
  proof -
    have none: "parse_day [] = None" using not_names_empty parse_day_iff by (metis option.exhaust)
    have "ExpirationDate m = parse_day (rule_date r)" using that none
      by (cases "xl_Expiration r") (auto simp: xmlLifecycleToMeta_def rule_date_def)
    then show ?thesis using that tagsFromXML_props [of "xl_Tag r"]
      by (auto simp: xmlLifecycleToMeta_def rule_stored_def rule_days_def number_def parse_day_iff [symmetric] split: option.split)
  qed
  then show ?thesis by (simp add: xmlLifecycleToMeta_def list_all2_conv_all_nth)
qed

lemma rule_back:
  assumes "rule_stored r m" and "distinct (map fst (lf_Tags (lr_Filter m)))" and "days_ok r" and "metaLifecycleToXML [m] = [r']"
  shows "rule_shown r r'"
proof -
  note m = assms(1) [unfolded rule_stored_def]
  have r': "xl_ID r' = lr_ID m" "xl_Status r' = lr_Status m" "xl_Prefix r' = lf_Prefix (lr_Filter m)" "xl_Tag r' = lf_Tags (lr_Filter m)"
    "xl_Expiration r' = (if ExpirationDays m > 0 \<or> ExpirationDate m \<noteq> None
        then Some \<lparr>xe_Days = ExpirationDays m, xe_Date = (case ExpirationDate m of None \<Rightarrow> [] | Some t \<Rightarrow> format_day t)\<rparr> else None)"
    "xl_AbortDays r' = (if AbortIncompleteMultipartDays m > 0 then Some (AbortIncompleteMultipartDays m) else None)"
    "xl_NoncurrentDays r' = (if NoncurrentVersionExpirationDays m > 0 then Some (NoncurrentVersionExpirationDays m) else None)"
    using assms(4) by (auto simp: metaLifecycleToXML_def)
  have n: "number (xl_AbortDays r') = number (xl_AbortDays r)" "number (xl_NoncurrentDays r') = number (xl_NoncurrentDays r)"
    "rule_days r' = rule_days r"
    using m assms(3) by (auto simp: r' number_def rule_days_def days_ok_def)
  have date: "rule_date r' = (case ExpirationDate m of None \<Rightarrow> [] | Some t \<Rightarrow> format_day t)"
    by (simp add: rule_date_def r' split: option.split)
  have "\<forall>t. names_day (rule_date r') t \<longleftrightarrow> names_day (rule_date r) t" "rule_date r' \<noteq> [] \<longrightarrow> (\<exists>t. names_day (rule_date r) t)"
  proof (atomize (full), cases "ExpirationDate m")
    case None
    with m date not_names_empty
    show "(\<forall>t. names_day (rule_date r') t \<longleftrightarrow> names_day (rule_date r) t) \<and> (rule_date r' \<noteq> [] \<longrightarrow> (\<exists>t. names_day (rule_date r) t))" by simp
  next
    case (Some t)
    then have t: "names_day (rule_date r) t" using m by simp
    then have "parse_day (format_day t) = Some t" using parse_format_day parse_day_range by (simp add: parse_day_iff [symmetric])
    then have "names_day (rule_date r') u \<longleftrightarrow> u = t" for u using date Some by (auto simp: parse_day_iff [symmetric])
    moreover have "names_day (rule_date r) u \<longleftrightarrow> u = t" for u using m Some by auto
    ultimately show "(\<forall>t. names_day (rule_date r') t \<longleftrightarrow> names_day (rule_date r) t) \<and> (rule_date r' \<noteq> [] \<longrightarrow> (\<exists>t. names_day (rule_date r) t))"
      by auto
  qed
  then show ?thesis using m n assms(2) by (simp add: rule_shown_def r')
qed

lemma lifecycle_shown:
  assumes "\<forall>r \<in> set cfg. days_ok r"
  shows "list_all2 rule_shown cfg (metaLifecycleToXML (xmlLifecycleToMeta cfg))"
proof -
  let ?ms = "xmlLifecycleToMeta cfg"
  have len: "length ?ms = length cfg" "length (metaLifecycleToXML ?ms) = length cfg"
    by (simp_all add: xmlLifecycleToMeta_def metaLifecycleToXML_def)
  have "rule_shown (cfg ! i) (metaLifecycleToXML ?ms ! i)" if i: "i < length cfg" for i
  proof (rule rule_back)
    show "rule_stored (cfg ! i) (?ms ! i)" using lifecycle_stored [of cfg] i by (rule list_all2_nthD)
    show "distinct (map fst (lf_Tags (lr_Filter (?ms ! i))))" using i tagsFromXML_props by (simp add: xmlLifecycleToMeta_def)
    show "days_ok (cfg ! i)" using assms i by simp
    show "metaLifecycleToXML [?ms ! i] = [metaLifecycleToXML ?ms ! i]" using i len by (simp add: metaLifecycleToXML_def)
  qed
  with len show ?thesis by (simp add: list_all2_conv_all_nth)
qed

text \<open>Setting a field of the bucket record succeeds where the bucket exists, and changes nothing else.\<close>

lemma set_field:
  assumes "bolt_db K kinv" and "engine_ok K kinv e" and "mv_buckets (records K e) b = Some r"
    and "\<And>r r'. f r = Inr r' \<Longrightarrow> br_Name r' = br_Name r" and "f r = Inr r'"
  obtains e' where "modify_bucket what wrap f (bbolt_store K) b e = (Inr (), e')" and "engine_ok K kinv e'"
    and "records K e' = (records K e)\<lparr>mv_buckets := (mv_buckets (records K e))(b \<mapsto> r')\<rparr>" and "files e' = files e"
proof -
  obtain res e' where m: "modify_bucket what wrap f (bbolt_store K) b e = (res, e')" by force
  from storage_engine.modify_bucket_cases [OF server_engine [OF assms(1)] assms(2) assms(4) m] assms(3,5)
  show ?thesis using that [of e'] m by simp
qed

lemma read_field:
  assumes "bolt_db K kinv" and "engine_ok K kinv e" and "mv_buckets (records K e) b = Some r"
  shows "read_bucket what g (bbolt_store K) e b = Inr (g r)"
  using storage_engine.read_bucket_eq [OF server_engine [OF assms(1)] assms(2), of what g b] assms(3) by simp

text \<open>
  C25: a lifecycle configuration that is put is in force and is got back, rule by rule: after PUT the
  engine applies rules with the ids, states, prefixes, tags and days that were sent and with the dates that are days of
  the form YYYY-MM-DD, and GET answers a document that says the same. A date of another form, as the timestamps that S3
  documents, is dropped without an error (a finding). No other configuration of any bucket has changed. Days may not be
  negative: the code prints no day count below one.
\<close>

theorem lifecycle_configuration_roundtrip:
  assumes "bolt_db K kinv" and "engine_ok K kinv e" and "mv_buckets (records K e) b = Some r"
    and "hq_XML (ex_req x) = Some (XLifecycle cfg)" and "cfg \<noteq> []" and "\<forall>xr \<in> set cfg. days_ok xr"
  shows "\<exists>e' cfg' rules. putBucketLifecycle (bbolt_store K) x b e = (WriteHeader 200 x, e') \<and>
     GetLifecycleRules (bbolt_store K) e' b = Inr rules \<and> list_all2 rule_stored cfg rules \<and>
     getBucketLifecycle (bbolt_store K) y b e' = (writeXML y 200 (XLifecycle cfg'), e') \<and> list_all2 rule_shown cfg cfg' \<and>
     records K e' = (records K e)\<lparr>mv_buckets := (mv_buckets (records K e))(b \<mapsto> r\<lparr>br_LifecycleRules := rules\<rparr>)\<rparr> \<and>
     files e' = files e"
proof -
  let ?rules = "xmlLifecycleToMeta cfg" and ?f = "\<lambda>r. Inr (r\<lparr>br_LifecycleRules := xmlLifecycleToMeta cfg\<rparr>)"
  have name: "br_Name r' = br_Name r" if "?f r = Inr r'" for r r' using that by auto
  from set_field [OF assms(1-3), where f = ?f, OF name refl, of "''set lifecycle''" "\<lambda>err. err"]
  obtain e' where e': "SetLifecycleRules (bbolt_store K) b ?rules e = (Inr (), e')" "engine_ok K kinv e'"
    "records K e' = (records K e)\<lparr>mv_buckets := (mv_buckets (records K e))(b \<mapsto> r\<lparr>br_LifecycleRules := ?rules\<rparr>)\<rparr>" "files e' = files e"
    by (auto simp: SetLifecycleRules_def)
  have get: "GetLifecycleRules (bbolt_store K) e' b = Inr ?rules"
    using read_field [OF assms(1) e'(2), of b _ "''get lifecycle''" br_LifecycleRules] e'(3) by (simp add: GetLifecycleRules_def)
  have "?rules \<noteq> []" using assms(5) by (simp add: xmlLifecycleToMeta_def)
  then have "getBucketLifecycle (bbolt_store K) y b e' = (writeXML y 200 (XLifecycle (metaLifecycleToXML ?rules)), e')"
    by (simp add: getBucketLifecycle_def answer_read_def get)
  moreover have "putBucketLifecycle (bbolt_store K) x b e = (WriteHeader 200 x, e')"
    by (simp add: putBucketLifecycle_def assms(4) answer_write_def e'(1))
  ultimately show ?thesis using get e' lifecycle_stored [of cfg] lifecycle_shown [OF assms(6)] by blast
qed

text \<open>Two rules: one with a day and a tag that is given twice, one with a date the code cannot read.\<close>

definition demo_lifecycle :: "xml_lifecycle_rule list" where
  "demo_lifecycle =
    [\<lparr>xl_ID = ''old'', xl_Status = ''Enabled'', xl_Prefix = ''logs/'', xl_Tag = [(''k'', ''v''), (''k'', ''w'')],
       xl_Expiration = Some \<lparr>xe_Days = 0, xe_Date = ''2030-02-28''\<rparr>, xl_AbortDays = Some 7, xl_NoncurrentDays = None\<rparr>,
     \<lparr>xl_ID = ''new'', xl_Status = ''Enabled'', xl_Prefix = [], xl_Tag = [],
       xl_Expiration = Some \<lparr>xe_Days = 0, xe_Date = ''2030-02-28T00:00:00Z''\<rparr>, xl_AbortDays = None, xl_NoncurrentDays = None\<rparr>]"

definition demo_exchange :: "xml_doc option \<Rightarrow> exchange" where
  "demo_exchange doc = fresh_exchange \<lparr>
     hq_req = \<lparr>rq_Method = ''PUT'', rq_Host = ''h:9000'', rq_Path = ''/bkt'', rq_RawQuery = ''lifecycle'', rq_Header = []\<rparr>,
     hq_Body = reader_of [], hq_XML = doc, hq_ContentLength = 9, hq_TLS = False, hq_RemoteAddr = ''10.0.0.1:5''\<rparr>"

lemma lifecycle_configuration_roundtrip_witness:
  "\<exists>e' r1 r2 m1 m2. putBucketLifecycle (bbolt_store ref_bolt) (demo_exchange (Some (XLifecycle demo_lifecycle))) ''bkt'' demo1 =
       (WriteHeader 200 (demo_exchange (Some (XLifecycle demo_lifecycle))), e') \<and>
     GetLifecycleRules (bbolt_store ref_bolt) e' ''bkt'' = Inr [m1, m2] \<and>
     getBucketLifecycle (bbolt_store ref_bolt) (demo_exchange None) ''bkt'' e' =
       (writeXML (demo_exchange None) 200 (XLifecycle [r1, r2]), e') \<and>
     lf_Prefix (lr_Filter m1) = ''logs/'' \<and> map_of (lf_Tags (lr_Filter m1)) ''k'' = Some ''w'' \<and> AbortIncompleteMultipartDays m1 = 7 \<and>
     ExpirationDate m1 = Some 1898467200000000000 \<and> ExpirationDate m2 = None \<and> xl_Prefix r1 = ''logs/'' \<and> rule_date r2 = []"
proof -
  have "\<forall>xr \<in> set demo_lifecycle. days_ok xr" by (simp add: demo_lifecycle_def days_ok_def rule_days_def number_def)
  moreover have "hq_XML (ex_req (demo_exchange doc)) = doc" for doc by (simp add: demo_exchange_def)
  moreover have "demo_lifecycle \<noteq> []" by (simp add: demo_lifecycle_def)
  ultimately obtain e' cfg' rules where
    r: "putBucketLifecycle (bbolt_store ref_bolt) (demo_exchange (Some (XLifecycle demo_lifecycle))) ''bkt'' demo1 =
       (WriteHeader 200 (demo_exchange (Some (XLifecycle demo_lifecycle))), e')"
    "GetLifecycleRules (bbolt_store ref_bolt) e' ''bkt'' = Inr rules" "list_all2 rule_stored demo_lifecycle rules"
    "getBucketLifecycle (bbolt_store ref_bolt) (demo_exchange None) ''bkt'' e' = (writeXML (demo_exchange None) 200 (XLifecycle cfg'), e')"
    "list_all2 rule_shown demo_lifecycle cfg'"
    using lifecycle_configuration_roundtrip [OF ref.bolt_db_axioms demo1_ok(1,2), of
        "demo_exchange (Some (XLifecycle demo_lifecycle))" demo_lifecycle "demo_exchange None"] by blast
  have day: "parse_day ''2030-02-28'' = Some 1898467200000000000" "parse_day ''2030-02-28T00:00:00Z'' = None" by code_simp+
  obtain m1 m2 where m: "rules = [m1, m2]" "rule_stored (demo_lifecycle ! 0) m1" "rule_stored (demo_lifecycle ! 1) m2"
    using r(3) by (auto simp: demo_lifecycle_def list_all2_Cons1)
  obtain r1 r2 where x: "cfg' = [r1, r2]" "rule_shown (demo_lifecycle ! 0) r1" "rule_shown (demo_lifecycle ! 1) r2"
    using r(5) by (auto simp: demo_lifecycle_def list_all2_Cons1)
  have "lf_Prefix (lr_Filter m1) = ''logs/''" "map_of (lf_Tags (lr_Filter m1)) ''k'' = Some ''w''" "AbortIncompleteMultipartDays m1 = 7"
    "ExpirationDate m1 = Some 1898467200000000000" "ExpirationDate m2 = None" "xl_Prefix r1 = ''logs/''" "rule_date r2 = []"
    using m(2,3) x(2,3) day by (simp_all add: rule_stored_def rule_shown_def demo_lifecycle_def number_def rule_date_def parse_day_iff [symmetric])
  with r m(1) x(1) show ?thesis by blast
qed

section \<open>Objects\<close>

lemma header_set: "map_of (ex_header (set_header k v x)) name = (if CanonicalHeaderKey k = name then Some [v] else map_of (ex_header x) name)"
  by (simp add: set_header_def update_conv)

lemma header_optional:
  "CanonicalHeaderKey k \<noteq> name \<Longrightarrow> map_of (ex_header (optional_header k v x)) name = map_of (ex_header x) name"
  by (simp add: optional_header_def header_set)

lemma canonical_object_names [simp]:
  "CanonicalHeaderKey ''ETag'' = ''Etag''" "CanonicalHeaderKey ''Content-Length'' = ''Content-Length''"
  "CanonicalHeaderKey ''Last-Modified'' = ''Last-Modified''" "CanonicalHeaderKey ''x-amz-version-id'' = ''X-Amz-Version-Id''"
  "CanonicalHeaderKey ''x-amz-server-side-encryption'' = ''X-Amz-Server-Side-Encryption''"
  by code_simp+

text \<open>User metadata cannot take the place of a header of the object: their names begin with another letter.\<close>

lemma canonical_meta:
  "CanonicalHeaderKey (''x-amz-meta-'' @ k) \<noteq> ''Etag''" "CanonicalHeaderKey (''x-amz-meta-'' @ k) \<noteq> ''Content-Length''"
proof -
  have "upper_char CHR ''x'' \<noteq> CHR ''E''" "upper_char CHR ''x'' \<noteq> CHR ''C''" by code_simp+
  then show "CanonicalHeaderKey (''x-amz-meta-'' @ k) \<noteq> ''Etag''" "CanonicalHeaderKey (''x-amz-meta-'' @ k) \<noteq> ''Content-Length''"
    by (simp_all add: CanonicalHeaderKey_def)
qed

lemma object_headers_get:
  "map_of (ex_header (object_headers rec x)) ''Etag'' = Some [or_ETag rec]"
  "map_of (ex_header (object_headers rec x)) ''Content-Length'' = Some [Itoa (sint (or_Size rec))]"
proof -
  have "name \<in> {''Etag'', ''Content-Length''} \<Longrightarrow>
      map_of (ex_header (foldl (\<lambda>x (k, v). set_header (''x-amz-meta-'' @ k) v x) y meta)) name = map_of (ex_header y) name"
    for y meta name
    by (induction meta arbitrary: y) (auto simp: case_prod_beta header_set canonical_meta [simplified append.simps])
  then show "map_of (ex_header (object_headers rec x)) ''Etag'' = Some [or_ETag rec]"
    "map_of (ex_header (object_headers rec x)) ''Content-Length'' = Some [Itoa (sint (or_Size rec))]"
    by (simp_all add: object_headers_def header_set)
qed

text \<open>A request that addresses an object itself: no subresource, no version, no copy.\<close>

definition plain_object_request :: "s3_request \<Rightarrow> bool" where
  "plain_object_request r \<longleftrightarrow>
     \<not> query_Has (URL_Query (hq_req r)) ''uploadId'' \<and> \<not> query_Has (URL_Query (hq_req r)) ''tagging'' \<and>
     multi_get (URL_Query (hq_req r)) ''versionId'' = [] \<and> Header_Get (hq_req r) ''x-amz-copy-source'' = []"

lemma s3_put_input_accepted: "s3_put_input (accepted uuid r ident h) b k = s3_put_input (accepted [] r ident []) b k"
  by (simp add: s3_put_input_def extractUserMeta_def extractTagsFromQuery_def)

lemma putObject_plain:
  assumes "plain_object_request (ex_req x)"
  shows "s3_putObject M B P env x b k e =
    (case PutObject M B P env (s3_put_input x b k) e of
       (Inl err, e') \<Rightarrow> (bucketFailure x err, e')
     | (Inr out, e') \<Rightarrow> (WriteHeader 200 (optional_header ''x-amz-server-side-encryption'' (po_SSEAlgorithm out)
         (optional_header ''x-amz-version-id'' (po_VersionID out) (set_header ''ETag'' (po_ETag out) x))), e'))"
  using assms by (simp add: s3_putObject_def plain_object_request_def Let_def)

lemma getObject_plain:
  assumes "plain_object_request (ex_req x)" and "GetObject M B P b k [] e = (Inr \<lparr>go_Record = r, go_Body = d\<rparr>, e')"
  shows "\<exists>h. s3_getObject M B P x b k e = (\<lparr>rs_Status = 200, rs_Header = h, rs_Body = RawBody d\<rparr>, e') \<and>
    map_of h ''Etag'' = Some [or_ETag r] \<and> map_of h ''Content-Length'' = Some [Itoa (sint (or_Size r))]"
  using assms by (simp add: s3_getObject_def plain_object_request_def Let_def respond_def header_optional object_headers_get)

lemma bucketFailure_status: "rs_Status (bucketFailure x err) \<noteq> 200"
  by (simp add: bucketFailure_def noSuchBucket_def internalError_def writeError_def Let_def respond_def)

lemma s3_dispatch_PUT: "rq_Method (hq_req (ex_req x)) = ''PUT'' \<Longrightarrow>
    s3_dispatch M B P envs (ObjectRoute b k) x e = s3_putObject M B P (envs 0) x b k e"
  by (simp add: s3_dispatch_def)

lemma s3_dispatch_GET: "rq_Method (hq_req (ex_req x)) = ''GET'' \<Longrightarrow>
    s3_dispatch M B P envs (ObjectRoute b k) x e = s3_getObject M B P x b k e"
  by (simp add: s3_dispatch_def)

text \<open>What the limiter, if there is one, lets pass.\<close>

definition admitted :: "server_config \<Rightarrow> s3_request \<Rightarrow> VerifiedIdentity \<Rightarrow> bool" where
  "admitted C r ident \<longleftrightarrow>
     (\<forall>allowed. sc_limiter C = Some allowed \<longrightarrow>
        allowed (realIP r) (if vi_AccessKey ident = [] then None else Some (vi_AccessKey ident)))"

lemma RateLimit_admitted:
  assumes "admitted C (ex_req x) ident" and "identityFromContext (ex_ctx x) = ident"
  shows "RateLimit (sc_limiter C) next x e = next x e"
  using assms by (auto simp: RateLimit_def admitted_def Let_def split: option.split)

lemma accepted_identity: "identityFromContext (ex_ctx (accepted uuid r ident h)) = ident" "ex_req (accepted uuid r ident h) = r"
  by (simp_all add: accepted_def Let_def identityFromContext_def)

lemma s3_server_handled:
  assumes auth: "Auth M (sc_platform C) (hq_req r) now (e_meta e) = Authenticated ident" and adm: "admitted C r ident"
    and verb: "rq_Method (hq_req r) \<noteq> ''OPTIONS''"
  obtains h where "fst (s3_server C M B uuid now envs r e) =
    s3_dispatch M B (sc_platform C) envs (sc_route C (hq_req r)) (accepted uuid r ident h) e"
proof -
  let ?x = "RequestID uuid (fresh_exchange r)"
  let ?next = "with_auth M (sc_platform C) now (s3_authenticated C M B envs)"
  have run: "fst (s3_server C M B uuid now envs r e) = CORS (corsRulesFetcher M) ?next ?x e"
    by (simp add: s3_server_def Audit_def split: prod.split)
  show thesis
  proof (cases rule: CORS_cases [of "corsRulesFetcher M" ?next ?x e, case_names next_handler preflight])
    case (preflight h)
    then show ?thesis using verb by (simp add: preflight_def)
  next
    case (next_handler h)
    have "?next (?x\<lparr>ex_header := h\<rparr>) e = s3_authenticated C M B envs (accepted uuid r ident h) e"
      using auth by (simp add: with_auth_def accepted_def Let_def)
    also have "\<dots> = s3_dispatch M B (sc_platform C) envs (sc_route C (hq_req r)) (accepted uuid r ident h) e"
      unfolding s3_authenticated_def
      by (subst RateLimit_admitted [where ident = ident]) (use adm in \<open>simp_all add: accepted_identity\<close>)
    finally show ?thesis using that next_handler run by simp
  qed
qed

text \<open>
  What arrives at a client. The server declares the length of the body it copies in \<open>Content-Length\<close>; when
  fewer bytes follow, net/http closes the connection and the client has those bytes and an unexpected end of file.
  More bytes than declared are not sent in full: how many arrive depends on the chunks of the copy, and \<open>received\<close>
  has no value then.
\<close>

definition received :: "response \<Rightarrow> reader option" where
  "received resp =
     (case rs_Body resp of
        RawBody rd \<Rightarrow>
          (case map_of (rs_Header resp) ''Content-Length'' of
             Some (cl # rest) \<Rightarrow>
               (case Atoi cl of
                  Some n \<Rightarrow>
                    if int (length (rd_data rd)) = n then Some (reader_of (rd_data rd))
                    else if int (length (rd_data rd)) < n then Some \<lparr>rd_data = rd_data rd, rd_err = Some (Errorf ''unexpected EOF'' [])\<rparr>
                    else None
                | None \<Rightarrow> None)
           | _ \<Rightarrow> Some rd)
      | _ \<Rightarrow> None)"

lemma Atoi_Itoa: "0 \<le> n \<Longrightarrow> n < 2 ^ 63 \<Longrightarrow> Atoi (Itoa n) = Some n"
  by (simp add: Atoi_def ParseInt64_Itoa sint_int64_of_int)

lemma received_declared:
  assumes "map_of (rs_Header resp) ''Content-Length'' = Some [Itoa n]" and "rs_Body resp = RawBody (reader_of data)" and "n < 2 ^ 63"
  shows "int (length data) = n \<Longrightarrow> received resp = Some (reader_of data)"
    and "int (length data) < n \<Longrightarrow> received resp = Some \<lparr>rd_data = data, rd_err = Some (Errorf ''unexpected EOF'' [])\<rparr>"
  using assms Atoi_Itoa [of n] by (simp_all add: received_def reader_of_def)

text \<open>The bytes a put stores: a nonce of 12 bytes and a tag of 16 go with the text of an encrypted object.\<close>

definition encrypts :: "bytes option \<Rightarrow> put_object_input \<Rightarrow> bucket_record \<Rightarrow> bool" where
  "encrypts masterKey inp bkt \<longleftrightarrow>
     masterKey \<noteq> None \<and> (if pi_SSEAlgorithm inp = [] then br_SSEAlgorithm bkt else pi_SSEAlgorithm inp) = ''AES256''"

definition gcm_overhead :: "platform \<Rightarrow> bool" where
  "gcm_overhead P \<longleftrightarrow> (\<forall>key nonce plain. length (pf_seal P key nonce plain) = length plain + 16)"

lemma put_size:
  assumes K: "bolt_db K kinv" and i: "engine_ok K kinv e" and n: "put_ready localfs_good (records K e) env inp"
    and p: "PutObject (bbolt_store K) localfs_backend P env inp e = (Inr out, e')" and b: "mv_buckets (records K e) (pi_Bucket inp) = Some bkt"
    and r: "random_ok (env_rand env)" and o: "gcm_overhead P" and m: "\<forall>mk. e_masterKey e = Some mk \<longrightarrow> length mk = 32"
  shows "po_Size out = of_nat (length (rd_data (pi_Body inp)) + (if encrypts (e_masterKey e) inp bkt then 28 else 0))"
proof -
  obtain bkt' vid bk alg ek and rec :: object_record and body :: reader where x: "mv_buckets (records K e) (pi_Bucket inp) = Some bkt'"
    "applySSE P (e_masterKey e) (env_rand env) inp (br_SSEAlgorithm bkt') = Inr (body, alg, ek)" "rd_err body = None"
    "rec = put_record P env inp bkt' vid alg ek (rd_data body) (byte_count (rd_data body))"
    "out = \<lparr>po_ETag = or_ETag rec, po_VersionID = vid, po_LastModified = env_now env, po_Size = or_Size rec, po_SSEAlgorithm = alg\<rparr>"
    using storage_engine.PutObject_Inr [OF server_engine [OF K] i n p] by blast
  have bk: "bkt' = bkt" using x(1) b by simp
  have size: "po_Size out = byte_count (rd_data body)" using x(4,5) by simp
  have "length (rd_data body) = length (rd_data (pi_Body inp)) + (if encrypts (e_masterKey e) inp bkt then 28 else 0)"
  proof (cases "encrypts (e_masterKey e) inp bkt")
    case False
    then show ?thesis using x(2) unfolding bk by (auto simp: encrypts_def applySSE_def Let_def split: if_splits)
  next
    case True
    then obtain mk where mk: "e_masterKey e = Some mk" by (auto simp: encrypts_def)
    let ?key = "GenerateObjectKey (env_rand env) 0"
    have key: "length ?key = 32" using r by (simp add: GenerateObjectKey_def sseKeySize_def random_ok_def)
    have "body = encrypt_stream P ?key (env_rand env 2 gcm_nonce_size) (pi_Body inp)"
      using x(2) True mk unfolding bk by (auto simp: encrypts_def applySSE_def Let_def split: if_splits sum.splits)
    then show ?thesis using True x(3) key r o
      by (auto simp: encrypt_stream_def gcm_nonce_size_def random_ok_def gcm_overhead_def reader_of_def split: option.splits)
  qed
  with size show ?thesis by (simp add: byte_count_def)
qed

text \<open>
  C2: what an HTTP client puts, it gets: when an authenticated PUT of an object is answered with 200, an
  authenticated GET of the same path that the rate limiter admits is answered with 200 and the ETag of
  the first answer, whatever the CORS rules, the versioning state and the encryption of the bucket, and whatever the
  limiter counted in between. The client receives exactly the bytes of the body. The exception is an object that the
  server has encrypted: its answer declares the length of the ciphertext, so after the
  plaintext the client meets an unexpected end of file (a finding).
\<close>

theorem http_put_get_roundtrip:
  assumes "bolt_db K kinv" and "engine_ok K kinv e" and "sc_platform C' = sc_platform C"
    and "rq_Method (hq_req p) = ''PUT''" and "plain_object_request p" and "sc_route C (hq_req p) = ObjectRoute b k"
    and "Auth (bbolt_store K) (sc_platform C) (hq_req p) now (e_meta e) = Authenticated ident" and "admitted C p ident"
    and "put_ready localfs_good (records K e) (envs 0) (s3_put_input (accepted [] p ident []) b k)"
    and "mv_buckets (records K e) b = Some bkt"
    and "fst (s3_server C (bbolt_store K) localfs_backend uuid now envs p e) = (resp, e')" and "rs_Status resp = 200"
    and "aead_ok (sc_platform C)" and "random_ok (env_rand (envs 0))" and "\<forall>mk. e_masterKey e = Some mk \<longrightarrow> length mk = 32"
    and "gcm_overhead (sc_platform C)" and "length (rd_data (hq_Body p)) < 2 ^ 62"
    and "rq_Method (hq_req g) = ''GET''" and "plain_object_request g" and "sc_route C' (hq_req g) = ObjectRoute b k"
    and "Auth (bbolt_store K) (sc_platform C') (hq_req g) now' (e_meta e') = Authenticated ident'" and "admitted C' g ident'"
  shows "\<exists>answer. fst (fst (s3_server C' (bbolt_store K) localfs_backend uuid' now' envs' g e')) = answer \<and>
    rs_Status answer = 200 \<and> map_of (rs_Header answer) ''Etag'' = map_of (rs_Header resp) ''Etag'' \<and>
    received answer = Some
      (if encrypts (e_masterKey e) (s3_put_input (accepted [] p ident []) b k) bkt
       then \<lparr>rd_data = rd_data (hq_Body p), rd_err = Some (Errorf ''unexpected EOF'' [])\<rparr>
       else reader_of (rd_data (hq_Body p)))"
proof -
  let ?M = "bbolt_store K" and ?P = "sc_platform C" and ?inp = "s3_put_input (accepted [] p ident []) b k"
  have inp: "pi_Bucket ?inp = b" "pi_Key ?inp = k" "pi_Body ?inp = hq_Body p" by (simp_all add: s3_put_input_def)
  have "rq_Method (hq_req p) \<noteq> ''OPTIONS''" using assms(4) by simp
  from s3_server_handled [OF assms(7,8) this] obtain h where
    "fst (s3_server C ?M localfs_backend uuid now envs p e) = s3_putObject ?M localfs_backend ?P (envs 0) (accepted uuid p ident h) b k e"
    by (metis assms(4,6) accepted_fields(1) s3_dispatch_PUT)
  then have put: "s3_putObject ?M localfs_backend ?P (envs 0) (accepted uuid p ident h) b k e = (resp, e')" using assms(11) by simp
  obtain out where out: "PutObject ?M localfs_backend ?P (envs 0) ?inp e = (Inr out, e')"
    "map_of (rs_Header resp) ''Etag'' = Some [po_ETag out]"
  proof (cases "PutObject ?M localfs_backend ?P (envs 0) ?inp e")
    case (Pair res e1)
    show ?thesis
    proof (cases res)
      case (Inl err)
      with put Pair assms(5,12) bucketFailure_status show ?thesis
        by (auto simp: putObject_plain s3_put_input_accepted [of uuid])
    next
      case (Inr out)
      with put Pair assms(5) show ?thesis
        by (intro that [of out]) (auto simp: putObject_plain s3_put_input_accepted [of uuid] WriteHeader_def header_optional header_set)
    qed
  qed
  from storage_engine.put_get [OF server_engine [OF assms(1)] assms(2,9) out(1) assms(13-15)] obtain r e2 where
    get: "GetObject ?M localfs_backend ?P b k [] e' = (Inr \<lparr>go_Record = r, go_Body = reader_of (rd_data (hq_Body p))\<rparr>, e2)"
    "or_ETag r = po_ETag out" "or_Size r = po_Size out" unfolding inp by blast
  have "rq_Method (hq_req g) \<noteq> ''OPTIONS''" using assms(18) by simp
  from s3_server_handled [OF assms(21,22) this] obtain h' where
    "fst (s3_server C' ?M localfs_backend uuid' now' envs' g e') = s3_getObject ?M localfs_backend ?P (accepted uuid' g ident' h') b k e'"
    by (metis assms(3,18,20) accepted_fields(1) s3_dispatch_GET)
  with getObject_plain [OF _ get(1), of "accepted uuid' g ident' h'"] assms(19) obtain h2 where
    ans: "fst (fst (s3_server C' ?M localfs_backend uuid' now' envs' g e')) =
        \<lparr>rs_Status = 200, rs_Header = h2, rs_Body = RawBody (reader_of (rd_data (hq_Body p)))\<rparr>"
      "map_of h2 ''Etag'' = Some [or_ETag r]" "map_of h2 ''Content-Length'' = Some [Itoa (sint (or_Size r))]" by auto
  let ?n = "length (rd_data (hq_Body p)) + (if encrypts (e_masterKey e) ?inp bkt then 28 else 0)"
  have "mv_buckets (records K e) (pi_Bucket ?inp) = Some bkt" using assms(10) inp by simp
  from put_size [OF assms(1,2,9) out(1) this assms(14,16,15)] get(3) have size: "or_Size r = of_nat ?n" unfolding inp by simp
  have "sint (or_Size r) = int ?n"
    unfolding size using assms(17) by (intro sint_int64_of_nat) simp
  note s = this
  have n: "int ?n < 2 ^ 63" using assms(17) by simp
  let ?answer = "\<lparr>rs_Status = 200, rs_Header = h2, rs_Body = RawBody (reader_of (rd_data (hq_Body p)))\<rparr>"
  have "map_of (rs_Header ?answer) ''Content-Length'' = Some [Itoa (int ?n)]" using ans(3) s by simp
  note rc = received_declared [OF this _ n, of "rd_data (hq_Body p)"]
  have "received ?answer = Some (if encrypts (e_masterKey e) ?inp bkt
       then \<lparr>rd_data = rd_data (hq_Body p), rd_err = Some (Errorf ''unexpected EOF'' [])\<rparr> else reader_of (rd_data (hq_Body p)))"
    using rc by simp
  then show ?thesis using ans(1,2) get(2) out(2) by simp
qed

text \<open>
  The server of the example limits the rate, but not of this client. Its platform seals as GCM does, with a tag
  of 16 bytes. The store holds one key, without a signing key.
\<close>

definition gcm_platform :: platform where
  "gcm_platform = demo_platform\<lparr>pf_seal := (\<lambda>k n p. replicate 16 CHR ''t'' @ p), pf_open := (\<lambda>k n c. Some (drop 16 c))\<rparr>"

definition limited_config :: server_config where
  "limited_config = \<lparr>sc_platform = gcm_platform, sc_route = (\<lambda>_. ObjectRoute ''bkt'' ''dir/a''),
     sc_limiter = Some (\<lambda>ip key. ip = ''10.0.0.1:5'' \<and> key = Some ''AK'')\<rparr>"

lemma gcm_platform_ok: "aead_ok gcm_platform" "gcm_overhead gcm_platform"
  by (simp_all add: aead_ok_def gcm_overhead_def gcm_platform_def)

definition http_key :: access_key_record where
  "http_key = \<lparr>ak_AccessKey = ''AK'', ak_SecretHash = [], ak_SigningKey = [], ak_Owner = ''o'', ak_CreatedAt = 0, ak_IsRoot = False\<rparr>"

definition http_engine :: "(ref_db, local_fs) engine" where
  "http_engine = demo1\<lparr>e_meta := projr (bb_PutAccessKey ref_bolt (e_meta demo1) http_key)\<rparr>"

abbreviation http_identity :: VerifiedIdentity where
  "http_identity \<equiv> \<lparr>vi_AccessKey = ''AK'', vi_Owner = ''o'', vi_IsRoot = False\<rparr>"

lemma http_engine_ok:
  "engine_ok ref_bolt (\<lambda>_. True) http_engine" "e_backend http_engine = e_backend demo1" "e_masterKey http_engine = None"
  "records ref_bolt http_engine = (records ref_bolt demo1)\<lparr>mv_keys := (mv_keys (records ref_bolt demo1))(''AK'' \<mapsto> http_key)\<rparr>"
proof -
  have i: "bolt_inv ref_bolt (\<lambda>_. True) (e_meta demo1)" using demo1_ok(1) by (simp add: engine_inv_def)
  have key: "ak_AccessKey http_key = ''AK''" by (simp add: http_key_def)
  obtain m where m: "bb_PutAccessKey ref_bolt (e_meta demo1) http_key = Inr m" "bolt_inv ref_bolt (\<lambda>_. True) m"
    "bolt_view ref_bolt m = (records ref_bolt demo1)\<lparr>mv_keys := (mv_keys (records ref_bolt demo1))(''AK'' \<mapsto> http_key)\<rparr>"
    using ref.put_key_ok [OF i, of http_key] by (auto simp: key max_key_size_def wrote_def)
  then show "engine_ok ref_bolt (\<lambda>_. True) http_engine" "e_backend http_engine = e_backend demo1" "e_masterKey http_engine = None"
    "records ref_bolt http_engine = (records ref_bolt demo1)\<lparr>mv_keys := (mv_keys (records ref_bolt demo1))(''AK'' \<mapsto> http_key)\<rparr>"
    using demo1_ok(1) demo1_create(4) by (simp_all add: http_engine_def engine_inv_def)
qed

lemma http_auth:
  assumes "engine_ok ref_bolt (\<lambda>_. True) e" and "mv_keys (records ref_bolt e) ''AK'' = Some http_key"
  shows "Auth (bbolt_store ref_bolt) P (hq_req (http_request verb body)) now (e_meta e) = Authenticated http_identity"
proof -
  have "bolt_inv ref_bolt (\<lambda>_. True) (e_meta e)" using assms(1) by (simp add: engine_inv_def)
  from ref.ms.get_key [OF this, of "''AK''"] assms(2)
  have l: "Lookup (bbolt_store ref_bolt) ''AK'' (e_meta e) = Inr http_key" by (simp add: Lookup_def)
  have "\<not> isPresigned (hq_req (http_request [] []))" "ExtractAccessKey (hq_req (http_request [] [])) = ''AK''" by code_simp+
  then have "\<not> isPresigned (hq_req (http_request verb body))" "ExtractAccessKey (hq_req (http_request verb body)) = ''AK''"
    by (simp_all add: isPresigned_def ExtractAccessKey_def http_request_def URL_Query_def Header_Get_def)
  with l show ?thesis by (simp add: Auth_def http_key_def identity_of_def)
qed

lemma http_plain: "plain_object_request (http_request verb body)"
proof -
  have "plain_object_request (http_request [] [])" by code_simp
  then show ?thesis by (simp add: plain_object_request_def http_request_def URL_Query_def Header_Get_def)
qed

abbreviation http_input :: put_object_input where
  "http_input \<equiv> s3_put_input (accepted [] (http_request ''PUT'' ''hello'') http_identity []) ''bkt'' ''dir/a''"

lemma http_input_eq: "http_input = \<lparr>pi_Bucket = ''bkt'', pi_Key = ''dir/a'', pi_Body = reader_of ''hello'', pi_Size = 5,
     pi_ContentType = [], pi_Owner = ''o'', pi_UserMeta = [], pi_Tags = [], pi_SSEAlgorithm = []\<rparr>"
  by code_simp

lemma http_put:
  "put_ready localfs_good (records ref_bolt http_engine) demo_env http_input"
  "\<exists>out e'. PutObject (bbolt_store ref_bolt) localfs_backend gcm_platform demo_env http_input http_engine = (Inr out, e')"
proof -
  have good: "localfs_good ''bkt'' ''dir/a''" by code_simp
  have names: "pi_Bucket http_input = pi_Bucket demo_put" "pi_Key http_input = pi_Key demo_put" by (simp_all add: http_input_eq demo_put_def)
  show ready: "put_ready localfs_good (records ref_bolt http_engine) demo_env http_input"
    using demo_put_ready(1) unfolding put_ready_def put_names_def names http_engine_ok(4) by simp
  have "lfs_inv (e_backend demo1)" using demo1_ok(1) by (simp add: engine_inv_def)
  then obtain s' where "localfs_Write (e_backend demo1) ''bkt'' ''dir/a'' (reader_of ''hello'') 5 = (Inr 5, s')"
    using localfs_Write_progress [of "e_backend demo1" "''bkt''" "''dir/a''" "reader_of ''hello''" 5] good demo_put_ready(2)
    by (auto simp: byte_count_def)
  then show "\<exists>out e'. PutObject (bbolt_store ref_bolt) localfs_backend gcm_platform demo_env http_input http_engine = (Inr out, e')"
    using demo1_ok(2) http_engine_ok(2-4)
    by (intro eng.PutObject_progress [OF http_engine_ok(1) ready, where bkt = "new_bucket demo_env ''bkt'' ''o'' ''r''"
          and body = "reader_of ''hello''" and alg = "[]" and ek = "[]" and m = 5])
      (auto simp: http_input_eq checkQuota_def new_bucket_def applySSE_def resolveVersioning_def localfs_backend_def)
qed

abbreviation http_run :: "s3_request \<Rightarrow> (ref_db, local_fs) engine \<Rightarrow> (ref_db, local_fs) answer" where
  "http_run r e \<equiv> fst (s3_server limited_config (bbolt_store ref_bolt) localfs_backend ''u'' 0 (\<lambda>_. demo_env) r e)"

lemma http_admitted: "admitted limited_config (http_request verb body) http_identity"
proof -
  have "realIP (http_request [] []) = ''10.0.0.1:5''" by code_simp
  moreover have "realIP (http_request verb body) = realIP (http_request [] [])"
    by (simp add: realIP_def http_request_def Header_Get_def Let_def)
  ultimately have "realIP (http_request verb body) = ''10.0.0.1:5''" by metis
  then show ?thesis by (simp add: admitted_def limited_config_def)
qed

lemma http_put_run: "\<exists>resp e'. http_run (http_request ''PUT'' ''hello'') http_engine = (resp, e') \<and> rs_Status resp = 200 \<and>
    engine_ok ref_bolt (\<lambda>_. True) e' \<and> mv_keys (records ref_bolt e') ''AK'' = Some http_key"
proof -
  obtain out e' where put: "PutObject (bbolt_store ref_bolt) localfs_backend gcm_platform demo_env http_input http_engine = (Inr out, e')"
    using http_put(2) by blast
  from eng.PutObject_Inr [OF http_engine_ok(1) http_put(1) put] obtain bkt r dc db where
    e': "engine_ok ref_bolt (\<lambda>_. True) e'" "records ref_bolt e' = put_view bkt r dc db (records ref_bolt http_engine)" by blast
  then have keys: "mv_keys (records ref_bolt e') ''AK'' = Some http_key"
    by (simp add: http_engine_ok(4) put_view_def stats_view_def put_object_view_def put_version_view_def mark_view_def)
  have "mv_keys (records ref_bolt http_engine) ''AK'' = Some http_key" by (simp add: http_engine_ok(4))
  from http_auth [OF http_engine_ok(1) this] have "Auth (bbolt_store ref_bolt) (sc_platform limited_config)
      (hq_req (http_request ''PUT'' ''hello'')) 0 (e_meta http_engine) = Authenticated http_identity" .
  from s3_server_handled [OF this http_admitted, where B = localfs_backend and uuid = "''u''" and envs = "\<lambda>_. demo_env"]
  obtain h where "http_run (http_request ''PUT'' ''hello'') http_engine =
      s3_putObject (bbolt_store ref_bolt) localfs_backend gcm_platform demo_env (accepted ''u'' (http_request ''PUT'' ''hello'') http_identity h)
        ''bkt'' ''dir/a'' http_engine"
    by (auto simp: limited_config_def http_request_def s3_dispatch_PUT)
  with put e'(1) keys show ?thesis
    by (simp add: putObject_plain [of "accepted _ _ _ _", simplified, OF http_plain] s3_put_input_accepted [of "''u''"] WriteHeader_def)
qed

lemma http_put_get_roundtrip_witness:
  "\<exists>answer. fst (http_run (http_request ''GET'' []) (snd (http_run (http_request ''PUT'' ''hello'') http_engine))) = answer \<and>
     rs_Status answer = 200 \<and> received answer = Some (reader_of ''hello'')"
proof -
  obtain resp e' where put: "http_run (http_request ''PUT'' ''hello'') http_engine = (resp, e')" "rs_Status resp = 200"
    "engine_ok ref_bolt (\<lambda>_. True) e'" "mv_keys (records ref_bolt e') ''AK'' = Some http_key"
    using http_put_run by blast
  have conf: "sc_route limited_config r = ObjectRoute ''bkt'' ''dir/a''" "sc_platform limited_config = gcm_platform" for r
    by (simp_all add: limited_config_def)
  have verb: "rq_Method (hq_req (http_request v body)) = v" "hq_Body (http_request v body) = reader_of body" for v body
    by (simp_all add: http_request_def)
  have "mv_keys (records ref_bolt http_engine) ''AK'' = Some http_key" by (simp add: http_engine_ok(4))
  note auth = http_auth [OF http_engine_ok(1) this] http_auth [OF put(3,4)]
  have env: "aead_ok (sc_platform limited_config)" "\<forall>mk. e_masterKey http_engine = Some mk \<longrightarrow> length mk = 32"
    "gcm_overhead (sc_platform limited_config)" by (simp_all add: http_engine_ok(3) conf(2) gcm_platform_ok)
  have bkt: "mv_buckets (records ref_bolt http_engine) ''bkt'' = Some (new_bucket demo_env ''bkt'' ''o'' ''r'')"
    using demo1_ok(2) by (simp add: http_engine_ok(4))
  have len: "length (rd_data (hq_Body (http_request ''PUT'' ''hello''))) < 2 ^ 62" unfolding verb(2) by simp
  from http_put_get_roundtrip [OF ref.bolt_db_axioms http_engine_ok(1) refl verb(1) http_plain conf(1) auth(1) http_admitted http_put(1) bkt
      put(1,2) env(1) demo_platform_ok(2) env(2,3) len verb(1) http_plain conf(1) auth(2) http_admitted]
  show ?thesis unfolding verb(2) by (simp add: put(1) encrypts_def http_engine_ok(3))
qed

section \<open>The audit trail\<close>

text \<open>
  the audit event of a request is faithful in everything but the user: it has the request ID, the
  action, bucket and key of the path and the status of the answer, but its user is empty, whoever was
  authenticated, because the identity is put into a derived request that the audit middleware never sees.
\<close>

theorem audit_event_names_no_user:
  "s3_server C M B uuid now envs r e = ((resp, e'), ev) \<Longrightarrow>
   ae_User ev = [] \<and> ae_StatusCode ev = rs_Status resp \<and>
   ae_RequestID ev = (if Header_Get (hq_req r) ''x-amz-request-id'' = [] then uuid else Header_Get (hq_req r) ''x-amz-request-id'') \<and>
   ae_Action ev = inferAction (hq_req r) \<and> ae_Bucket ev = extractBucket (hq_req r) \<and> ae_Key ev = extractKey (hq_req r)"
  by (auto simp: s3_server_def Audit_def identityFromContext_def RequestIDFromContext_def RequestID_def Let_def split: prod.splits)

lemma audit_event_names_no_user_witness:
  "\<exists>resp e' ev. s3_server limited_config (bbolt_store ref_bolt) localfs_backend ''u'' 0 (\<lambda>_. demo_env) (http_request ''PUT'' ''hello'') http_engine =
     ((resp, e'), ev) \<and> rs_Status resp = 200 \<and> ae_User ev = [] \<and> ae_Bucket ev = ''bkt''"
proof -
  obtain resp e' where put: "http_run (http_request ''PUT'' ''hello'') http_engine = (resp, e')" "rs_Status resp = 200"
    using http_put_run by blast
  then obtain ev where run: "s3_server limited_config (bbolt_store ref_bolt) localfs_backend ''u'' 0 (\<lambda>_. demo_env)
      (http_request ''PUT'' ''hello'') http_engine = ((resp, e'), ev)" by (metis prod.collapse)
  have "extractBucket (hq_req (http_request ''PUT'' ''hello'')) = ''bkt''" by code_simp
  with audit_event_names_no_user [OF run] run put(2) show ?thesis by auto
qed

end
