(* ===== verification/Go_Url.thy ===== *)
theory Go_Url
  imports Http_Request
begin

text \<open>
  The part of \<open>net/url\<close> that builds requests: parsing an absolute URL, the decoded and the escaped form
  of its path, and the encoding of queries. \<open>None\<close> is an error of \<open>url.Parse\<close>. A URL has one of the two
  schemes \<open>net/http\<close> sends, and no user information and no escape in its host: the others are \<open>None\<close> too.
\<close>

section \<open>Paths\<close>

text \<open>\<open>shouldEscape\<close> in mode \<open>encodePath\<close>, negated; \<open>escape\<close>; and \<open>validEncoded\<close> of one byte.\<close>

definition path_plain :: "char \<Rightarrow> bool" where
  "path_plain c \<longleftrightarrow> isUnreserved c \<or> c \<in> set ''$&+,/:;=@''"

fun path_escape :: "string \<Rightarrow> string" where
  "path_escape [] = []"
| "path_escape (c # s) = (if path_plain c then [c] else pct c) @ path_escape s"

definition valid_encoded :: "char \<Rightarrow> bool" where
  "valid_encoded c \<longleftrightarrow> path_plain c \<or> c \<in> set ''!()*[]%'' \<or> c = CHR 0x27"

text \<open>\<open>unescape\<close> in modes \<open>encodePath\<close> and \<open>encodeFragment\<close>: a plus sign stays.\<close>

fun PathUnescape :: "string \<Rightarrow> string option" where
  "PathUnescape [] = Some []"
| "PathUnescape (c # s) =
     (if c = CHR ''%'' then
        (case s of
           a # b # s' \<Rightarrow>
             (case (hex_value a, hex_value b) of
                (Some x, Some y) \<Rightarrow> map_option ((#) (char_of (16 * x + y))) (PathUnescape s')
              | _ \<Rightarrow> None)
         | _ \<Rightarrow> None)
      else map_option ((#) c) (PathUnescape s))"

record url =
  u_Scheme :: string
  u_Host :: string
  u_Path :: string
  u_RawPath :: string
  u_RawQuery :: string

definition setPath :: "url \<Rightarrow> string \<Rightarrow> url option" where
  "setPath u p =
     (case PathUnescape p of
        None \<Rightarrow> None
      | Some path \<Rightarrow> Some (u\<lparr>u_Path := path, u_RawPath := (if p = path_escape path then [] else p)\<rparr>))"

definition EscapedPath :: "url \<Rightarrow> string" where
  "EscapedPath u =
     (if u_RawPath u \<noteq> [] \<and> list_all valid_encoded (u_RawPath u) \<and> PathUnescape (u_RawPath u) = Some (u_Path u)
      then u_RawPath u
      else if u_Path u = ''*'' then ''*''
      else path_escape (u_Path u))"

definition ctl_byte :: "char \<Rightarrow> bool" where
  "ctl_byte c \<longleftrightarrow> (let n = of_char c :: nat in n < 32 \<or> n = 127)"

definition host_byte :: "char \<Rightarrow> bool" where
  "host_byte c \<longleftrightarrow> isUnreserved c \<or> c \<in> set '':[]''"

text \<open>\<open>cut\<close> at the fragment, then at the query, then the authority up to the first slash.\<close>

definition url_rest :: "string \<Rightarrow> string \<Rightarrow> url option" where
  "url_rest scheme s =
     (case cut CHR ''?'' s of
        (hier, query) \<Rightarrow>
          let host = takeWhile (\<lambda>c. c \<noteq> CHR ''/'') hier; p = dropWhile (\<lambda>c. c \<noteq> CHR ''/'') hier in
          if list_all host_byte host
          then setPath \<lparr>u_Scheme = scheme, u_Host = host, u_Path = [], u_RawPath = [], u_RawQuery = query\<rparr> p
          else None)"

definition url_Parse :: "string \<Rightarrow> url option" where
  "url_Parse raw =
     (case cut CHR ''#'' raw of
        (s, fragment) \<Rightarrow>
          if list_ex ctl_byte s \<or> PathUnescape fragment = None then None
          else if HasPrefix s ''https://'' then url_rest ''https'' (TrimPrefix s ''https://'')
          else if HasPrefix s ''http://'' then url_rest ''http'' (TrimPrefix s ''http://'')
          else None)"

section \<open>Queries\<close>

fun QueryEscape :: "string \<Rightarrow> string" where
  "QueryEscape [] = []"
| "QueryEscape (c # s) =
     (if isUnreserved c then [c] else if c = CHR '' '' then ''+'' else pct c) @ QueryEscape s"

text \<open>\<open>url.Values.Encode\<close>: the keys in order, the values of a key in their own.\<close>

definition Values_Encode :: "multi_map \<Rightarrow> string" where
  "Values_Encode q =
     Join (map (\<lambda>(k, v). QueryEscape k @ ''='' @ QueryEscape v) (pairs_of (sort_key fst q))) ''&''"

section \<open>Facts\<close>

lemma isUnreserved_path_plain: "isUnreserved c \<Longrightarrow> path_plain c"
  by (simp add: path_plain_def)

lemma path_plain_no_pct: "path_plain c \<Longrightarrow> c \<noteq> CHR ''%''"
  by (auto simp: path_plain_def dest: isUnreserved_plain)

lemma hex_value_plain: "hex_value c \<noteq> None \<Longrightarrow> path_plain c"
  by (auto simp: hex_value_def path_plain_def isUnreserved_def less_eq_char_def Let_def split: if_splits)

lemma PathUnescape_pct: "PathUnescape (pct c @ s) = map_option ((#) c) (PathUnescape s)"
proof -
  have "(of_char c :: nat) < 16 * 16" by simp
  then have "(of_char c :: nat) div 16 < 16" by (rule less_mult_imp_div_less)
  moreover have "char_of (16 * (of_char c div 16) + of_char c mod 16 :: nat) = c"
    by (simp only: mult_div_mod_eq char_of_char)
  ultimately show ?thesis by (simp add: pct_def Let_def hex_value_upper)
qed

lemma PathUnescape_escape [simp]: "PathUnescape (path_escape s) = Some s"
proof (induction s)
  case (Cons c s)
  then show ?case
    by (cases "path_plain c") (simp_all add: PathUnescape_pct path_plain_no_pct)
qed simp

lemma path_escape_plain: "list_all path_plain s \<Longrightarrow> path_escape s = s"
  by (induction s) auto

lemma path_escape_fixed: "path_escape s = s \<longleftrightarrow> list_all path_plain s"
proof
  assume s: "path_escape s = s"
  have "length (path_escape t) \<ge> length t \<and> (\<not> list_all path_plain t \<longrightarrow> length t < length (path_escape t))" for t
    by (induction t) (auto simp: pct_def Let_def)
  with s show "list_all path_plain s" by (metis less_irrefl)
qed (rule path_escape_plain)

lemma PathUnescape_plain: "CHR ''%'' \<notin> set s \<Longrightarrow> PathUnescape s = Some s"
  by (induction s) auto

lemma PathUnescape_length: "PathUnescape s = Some t \<Longrightarrow> length t \<le> length s \<and> (CHR ''%'' \<in> set s \<longrightarrow> length t < length s)"
  by (induction s arbitrary: t rule: PathUnescape.induct) (fastforce split: if_splits list.splits option.splits)+

text \<open>A byte that no escape is made of is decoded to itself.\<close>

lemma PathUnescape_keeps:
  "PathUnescape s = Some t \<Longrightarrow> c \<in> set s \<Longrightarrow> \<not> valid_encoded c \<Longrightarrow> c \<in> set t"
proof (induction s arbitrary: t rule: PathUnescape.induct)
  case (2 d s)
  have v: "d \<noteq> c" if "valid_encoded d" for d using 2(5) that by auto
  show ?case
  proof (cases "d = CHR ''%''")
    case True
    with 2(3) obtain a b s' x y t' where s: "s = a # b # s'" "hex_value a = Some x" "hex_value b = Some y"
      "PathUnescape s' = Some t'" "t = char_of (16 * x + y) # t'"
      by (auto split: list.splits option.splits)
    then have "a \<noteq> c" "b \<noteq> c" "d \<noteq> c"
      using v hex_value_plain [of a] hex_value_plain [of b] True by (auto simp: valid_encoded_def)
    then have "c \<in> set s'" using 2(4) s(1) by auto
    with 2(1) [OF True s(1) refl] s 2(5) show ?thesis by auto
  next
    case False
    with 2 show ?thesis by auto
  qed
qed simp

text \<open>The server decodes the escaped path back to the path.\<close>

lemma PathUnescape_EscapedPath: "PathUnescape (EscapedPath u) = Some (u_Path u)"
  by (simp add: EscapedPath_def)

lemma EscapedPath_ne: "u_Path u \<noteq> [] \<Longrightarrow> EscapedPath u \<noteq> []"
  using PathUnescape_EscapedPath [of u] by auto

text \<open>Which paths are their own escaped form.\<close>

lemma EscapedPath_self:
  assumes u: "setPath u0 p = Some u" and p: "p = CHR ''/'' # q"
  shows "EscapedPath u = u_Path u \<longleftrightarrow> list_all (\<lambda>c. valid_encoded c \<and> c \<noteq> CHR ''%'') p"
proof -
  from u have path: "PathUnescape p = Some (u_Path u)" and raw: "u_RawPath u = (if p = path_escape (u_Path u) then [] else p)"
    by (auto simp: setPath_def split: option.splits)
  from path p have star: "u_Path u \<noteq> ''*''" by (auto split: if_splits)
  have len: "u_Path u = p \<longleftrightarrow> CHR ''%'' \<notin> set p"
    using PathUnescape_plain [of p] PathUnescape_length [OF path] path by auto
  have all: "list_all (\<lambda>c. valid_encoded c \<and> c \<noteq> CHR ''%'') p \<longleftrightarrow> list_all valid_encoded p \<and> u_Path u = p"
    unfolding len by (auto simp: list_all_iff)
  show ?thesis
  proof (cases "p = path_escape (u_Path u)")
    case True
    then have "EscapedPath u = p" using raw star by (simp add: EscapedPath_def)
    moreover have "list_all valid_encoded p" if "u_Path u = p"
      using True that path_escape_fixed [of p] by (simp add: list_all_iff valid_encoded_def)
    ultimately show ?thesis unfolding all by auto
  next
    case False
    then have raw: "u_RawPath u = p" "p \<noteq> []" using raw p by auto
    show ?thesis
    proof (cases "list_all valid_encoded p")
      case True
      then have "EscapedPath u = p" using raw path by (simp add: EscapedPath_def)
      then show ?thesis unfolding all using True by auto
    next
      case invalid: False
      then have "EscapedPath u = path_escape (u_Path u)" using raw star by (simp add: EscapedPath_def)
      moreover obtain c where "c \<in> set p" "\<not> valid_encoded c" using invalid by (auto simp: list_all_iff)
      then have "c \<in> set (u_Path u)" "\<not> path_plain c" using PathUnescape_keeps [OF path] by (auto simp: valid_encoded_def)
      then have "path_escape (u_Path u) \<noteq> u_Path u" unfolding path_escape_fixed by (auto simp: list_all_iff)
      ultimately show ?thesis unfolding all using invalid by auto
    qed
  qed
qed

lemma QueryUnescape_QueryEscape [simp]: "QueryUnescape (QueryEscape s) = Some s"
proof (induction s)
  case (Cons c s)
  show ?case
  proof (cases "isUnreserved c \<or> c = CHR '' ''")
    case True
    then show ?thesis using Cons by (auto dest: isUnreserved_plain)
  next
    case False
    with Cons show ?thesis by (simp add: QueryUnescape_pct)
  qed
qed simp

end
