(* ===== verification/Go_Json.thy ===== *)
theory Go_Json
  imports Complex_Main Go_Errors
begin

text \<open>
  Decoded JSON, as \<open>encoding/json\<close> hands it to the sources. The text of a document is read by a
  parameter; what a document becomes in a Go struct is here. A number keeps its literal and the value of
  the \<open>float64\<close> next to it. A document may repeat a name: for a struct and for a map the last one counts.
\<close>

datatype json_value =
    JNull
  | JBool bool
  | JNum (num_literal: string) (num_value: rat)
  | JStr string
  | JArr "json_value list"
  | JObj "(string \<times> json_value) list"

text \<open>
  The values a struct field receives, in order: names match exactly or else up to case (on ASCII). \<open>null\<close>
  leaves a field as it is, a value of another type is an error.
\<close>

definition field_values :: "string \<Rightarrow> (string \<times> json_value) list \<Rightarrow> json_value list" where
  "field_values name ps = map snd (filter (\<lambda>(k, v). ToLower k = ToLower name) ps)"

fun into_string :: "string \<Rightarrow> json_value list \<Rightarrow> string option" where
  "into_string cur [] = Some cur"
| "into_string cur (v # vs) =
     (case v of JStr s \<Rightarrow> into_string s vs | JNull \<Rightarrow> into_string cur vs | _ \<Rightarrow> None)"

fun into_bool :: "bool \<Rightarrow> json_value list \<Rightarrow> bool option" where
  "into_bool cur [] = Some cur"
| "into_bool cur (v # vs) =
     (case v of JBool b \<Rightarrow> into_bool b vs | JNull \<Rightarrow> into_bool cur vs | _ \<Rightarrow> None)"

text \<open>An object, or \<open>null\<close> for the zero value; anything else is no struct and no map.\<close>

fun object_fields :: "json_value \<Rightarrow> (string \<times> json_value) list option" where
  "object_fields (JObj ps) = Some ps"
| "object_fields JNull = Some []"
| "object_fields _ = None"

definition string_field :: "string \<Rightarrow> (string \<times> json_value) list \<Rightarrow> string option" where
  "string_field name ps = into_string [] (field_values name ps)"

definition bool_field :: "string \<Rightarrow> (string \<times> json_value) list \<Rightarrow> bool option" where
  "bool_field name ps = into_bool False (field_values name ps)"

text \<open>A lookup in a \<open>map[string]interface{}\<close>: exact names, the last one counts.\<close>

definition json_get :: "(string \<times> json_value) list \<Rightarrow> string \<Rightarrow> json_value option" where
  "json_get ps k = map_of (rev ps) k"

text \<open>A list of structs, element by element; \<open>null\<close> is the empty slice.\<close>

fun option_map_list :: "('a \<Rightarrow> 'b option) \<Rightarrow> 'a list \<Rightarrow> 'b list option" where
  "option_map_list f [] = Some []"
| "option_map_list f (x # xs) =
     (case f x of None \<Rightarrow> None | Some y \<Rightarrow> map_option ((#) y) (option_map_list f xs))"

lemma option_map_list_length: "option_map_list f xs = Some ys \<Longrightarrow> length ys = length xs"
  by (induction xs arbitrary: ys) (auto split: option.splits)

lemma option_map_list_mem: "option_map_list f xs = Some ys \<Longrightarrow> y \<in> set ys \<Longrightarrow> \<exists>x \<in> set xs. f x = Some y"
  by (induction xs arbitrary: ys) (auto split: option.splits)

end
