(* ===== verification/Cli_Client.thy ===== *)
theory Cli_Client
  imports Go_Url Go_Json S3_Types
begin

text \<open>
  The HTTP clients of the command line: cli/s3client.go, which signs requests to the S3 API, and
  cli/adminclient.go. A client draws on a record of what the process is given: flags, clock, the file
  of the admin token. The network is a function from a request and the state of the world to an answer
  and a new state; a request is delivered as it is sent, and the headers \<open>net/http\<close> adds of its own are left
  out.
\<close>

record cli_env =
  cl_server :: string
  cl_adminURL :: string
  cl_accessKey :: string
  cl_secretKey :: string
  cl_now :: time
  cl_json :: bool
  cl_tokenFile :: "string result"

type_synonym ('q, 'a, 'w) network = "'q \<Rightarrow> 'w \<Rightarrow> 'a result \<times> 'w"

section \<open>Signing\<close>

text \<open>\<open>uriEncode\<close> and \<open>isUnreservedByte\<close> of this package are those of package auth with the slash encoded.\<close>

definition cli_uriEncode :: "string \<Rightarrow> string" where
  "cli_uriEncode s = concat (map (\<lambda>c. if isUnreserved c then [c] else pct c) s)"

definition encodeURIPath :: "string \<Rightarrow> string" where
  "encodeURIPath path = Join (map cli_uriEncode (Split CHR ''/'' path)) ''/''"

definition cli_header_value :: "url \<Rightarrow> request \<Rightarrow> string \<Rightarrow> string" where
  "cli_header_value u r name =
     (if name = ''host'' then (if rq_Host r = [] then u_Host u else rq_Host r)
      else TrimSpace (Header_Get r name))"

definition buildCanonicalRequest :: "url \<Rightarrow> request \<Rightarrow> string list \<Rightarrow> string" where
  "buildCanonicalRequest u r signedHeaderNames =
     (let rawPath = (if EscapedPath u = [] then ''/'' else EscapedPath u);
          canonURI = encodeURIPath rawPath;
          pairs = map (\<lambda>(k, v). cli_uriEncode k @ ''='' @ cli_uriEncode v) (pairs_of (URL_Query r));
          canonQuery = Join (sort pairs) ''&'';
          canonHeaders = concat (map (\<lambda>name. name @ '':'' @ cli_header_value u r name @ NL) signedHeaderNames);
          signedHeaderStr = Join signedHeaderNames '';'';
          h = Header_Get r ''X-Amz-Content-Sha256'';
          payloadHash = (if h = [] then ''UNSIGNED-PAYLOAD'' else h)
      in Join [rq_Method r, canonURI, canonQuery, canonHeaders, signedHeaderStr, payloadHash] NL)"

definition deriveKey :: "platform \<Rightarrow> string \<Rightarrow> string \<Rightarrow> string \<Rightarrow> string \<Rightarrow> bytes" where
  "deriveKey P secretKey date region service =
     (let kDate = pf_hmac P (''AWS4'' @ secretKey) date;
          kRegion = pf_hmac P kDate region;
          kService = pf_hmac P kRegion service
      in pf_hmac P kService ''aws4_request'')"

definition Header_Set :: "string \<Rightarrow> string \<Rightarrow> request \<Rightarrow> request" where
  "Header_Set k v r = r\<lparr>rq_Header := AList.update (CanonicalHeaderKey k) [v] (rq_Header r)\<rparr>"

definition signedHeaderNames :: "request \<Rightarrow> string list" where
  "signedHeaderNames r =
     sort ([''host'', ''x-amz-content-sha256'', ''x-amz-date''] @
       filter (\<lambda>extra. Header_Get r extra \<noteq> []) [''content-type'', ''x-amz-copy-source''])"

definition signS3Request :: "platform \<Rightarrow> url \<Rightarrow> string \<Rightarrow> string \<Rightarrow> string \<Rightarrow> string \<Rightarrow> request \<Rightarrow> request" where
  "signS3Request P u accessKey secretKey dateStr amzDate r =
     (let names = signedHeaderNames r;
          canonReq = buildCanonicalRequest u r names;
          credScope = dateStr @ ''/'' @ ''us-east-1'' @ ''/'' @ ''s3'' @ ''/aws4_request'';
          toSign = ''AWS4-HMAC-SHA256'' @ NL @ amzDate @ NL @ credScope @ NL @ hex_encode (pf_sha256 P canonReq);
          signingKey = deriveKey P secretKey dateStr ''us-east-1'' ''s3'';
          sig = hex_encode (pf_hmac P signingKey toSign)
      in Header_Set ''Authorization''
           (''AWS4-HMAC-SHA256 Credential='' @ accessKey @ ''/'' @ credScope @ '', SignedHeaders='' @ Join names '';'' @
            '', Signature='' @ sig) r)"

section \<open>Requests to the S3 API\<close>

text \<open>A body, with the document it is the XML of; the length the client declares is negative when unknown.\<close>

datatype cli_body = CliNil | CliBytes bytes "xml_doc option"

record wire_request =
  wq_url :: url
  wq_req :: request
  wq_body :: cli_body
  wq_ContentLength :: int

definition s3_rawPath :: "string \<Rightarrow> string \<Rightarrow> string" where
  "s3_rawPath bucket key =
     ''/'' @ (if bucket \<noteq> [] then bucket @ (if key \<noteq> [] then ''/'' @ key else []) else [])"

definition s3_rawURL :: "cli_env \<Rightarrow> string \<Rightarrow> string \<Rightarrow> multi_map \<Rightarrow> string" where
  "s3_rawURL E bucket key query =
     TrimRight (cl_server E) ''/'' @ s3_rawPath bucket key @ (if query \<noteq> [] then ''?'' @ Values_Encode query else [])"

text \<open>What \<open>s3Do\<close> sends; the decoded path is what the receiver makes of the escaped one.\<close>

definition unsigned_request :: "cli_env \<Rightarrow> url \<Rightarrow> string \<Rightarrow> smap \<Rightarrow> request" where
  "unsigned_request E u verb headers =
     foldl (\<lambda>r (k, v). Header_Set k v r)
       \<lparr>rq_Method = verb, rq_Host = u_Host u, rq_Path = u_Path u, rq_RawQuery = u_RawQuery u,
        rq_Header = [(''X-Amz-Date'', [format_timestamp (cl_now E)]), (''X-Amz-Content-Sha256'', [''UNSIGNED-PAYLOAD''])]\<rparr>
       headers"

definition build_s3_request ::
    "cli_env \<Rightarrow> platform \<Rightarrow> string \<Rightarrow> string \<Rightarrow> string \<Rightarrow> multi_map \<Rightarrow> smap \<Rightarrow> cli_body \<Rightarrow> int \<Rightarrow> wire_request result" where
  "build_s3_request E P verb bucket key query headers body bodyLen =
     (if cl_accessKey E = [] \<or> cl_secretKey E = []
      then Inl (Errorf ''access key and secret key are required'' [])
      else case url_Parse (s3_rawURL E bucket key query) of
          None \<Rightarrow> Inl (Wrap ''build S3 request'' (Errorf ''invalid URL'' []))
        | Some u \<Rightarrow>
            let amzDate = format_timestamp (cl_now E); dateStr = format_date (cl_now E);
                r = unsigned_request E u verb headers
            in Inr \<lparr>wq_url = u, wq_req = signS3Request P u (cl_accessKey E) (cl_secretKey E) dateStr amzDate r,
                    wq_body = body, wq_ContentLength = (if 0 \<le> bodyLen then bodyLen else 0)\<rparr>)"

definition s3Do ::
    "cli_env \<Rightarrow> platform \<Rightarrow> (wire_request, response, 'w) network \<Rightarrow> string \<Rightarrow> string \<Rightarrow> string \<Rightarrow> multi_map \<Rightarrow> smap \<Rightarrow>
     cli_body \<Rightarrow> int \<Rightarrow> 'w \<Rightarrow> response result \<times> 'w" where
  "s3Do E P net verb bucket key query headers body bodyLen w =
     (case build_s3_request E P verb bucket key query headers body bodyLen of
        Inl err \<Rightarrow> (Inl err, w)
      | Inr q \<Rightarrow>
          (case net q w of
             (Inl err, w') \<Rightarrow> (Inl (Wrap (''S3 request '' @ verb @ '' '' @ s3_rawPath bucket key) err), w')
           | (Inr resp, w') \<Rightarrow> (Inr resp, w')))"

text \<open>
  The request as the server's handlers see it. A body whose declared length is zero is probed by \<open>net/http\<close>: with
  bytes in it, it is sent in chunks, and its length is unknown to the server.
\<close>

definition received_length :: "wire_request \<Rightarrow> int64" where
  "received_length q =
     (case wq_body q of
        CliNil \<Rightarrow> 0
      | CliBytes bs _ \<Rightarrow>
          if bs = [] then 0 else if wq_ContentLength q > 0 then word_of_int (wq_ContentLength q) else - 1)"

definition received :: "string \<Rightarrow> wire_request \<Rightarrow> s3_request" where
  "received remoteAddr q =
     \<lparr>hq_req = wq_req q,
      hq_Body = reader_of (case wq_body q of CliNil \<Rightarrow> [] | CliBytes bs _ \<Rightarrow> bs),
      hq_XML = (case wq_body q of CliNil \<Rightarrow> None | CliBytes _ doc \<Rightarrow> doc),
      hq_ContentLength = received_length q, hq_TLS = (u_Scheme (wq_url q) = ''https''), hq_RemoteAddr = remoteAddr\<rparr>"

section \<open>Requests to the admin API\<close>

text \<open>
  \<open>adminDo\<close>: the token is the only credential. \<open>adminJSON\<close> decodes the body of an
  answer below 400.
\<close>

record admin_wire =
  aw_req :: request
  aw_body :: "json_value option"

definition readAdminToken :: "cli_env \<Rightarrow> string result" where
  "readAdminToken E =
     (case cl_tokenFile E of
        Inl err \<Rightarrow> Inl (Wrap ''read admin token'' err)
      | Inr b \<Rightarrow> Inr (TrimSpace b))"

definition build_admin_request :: "cli_env \<Rightarrow> string \<Rightarrow> string \<Rightarrow> json_value option \<Rightarrow> admin_wire result" where
  "build_admin_request E verb path body =
     (case readAdminToken E of
        Inl err \<Rightarrow> Inl err
      | Inr token \<Rightarrow>
          (case url_Parse (TrimRight (cl_adminURL E) ''/'' @ path) of
             None \<Rightarrow> Inl (Wrap ''create request'' (Errorf ''invalid URL'' []))
           | Some u \<Rightarrow>
               let r = Header_Set ''Authorization'' (''Bearer '' @ token)
                     \<lparr>rq_Method = verb, rq_Host = u_Host u, rq_Path = u_Path u, rq_RawQuery = u_RawQuery u, rq_Header = []\<rparr>
               in Inr \<lparr>aw_req = (if body = None then r else Header_Set ''Content-Type'' ''application/json'' r), aw_body = body\<rparr>))"

definition adminDo :: "cli_env \<Rightarrow> (admin_wire, nat \<times> json_value, 'w) network \<Rightarrow> string \<Rightarrow> string \<Rightarrow> json_value option \<Rightarrow> 'w \<Rightarrow>
    (nat \<times> json_value) result \<times> 'w" where
  "adminDo E net verb path body w =
     (case build_admin_request E verb path body of
        Inl err \<Rightarrow> (Inl err, w)
      | Inr q \<Rightarrow>
          (case net q w of
             (Inl err, w') \<Rightarrow> (Inl (Wrap (''admin API request '' @ verb @ '' '' @ path) err), w')
           | (Inr resp, w') \<Rightarrow> (Inr resp, w')))"

definition adminJSON :: "(json_value \<Rightarrow> 'a option) \<Rightarrow> cli_env \<Rightarrow> (admin_wire, nat \<times> json_value, 'w) network \<Rightarrow> string \<Rightarrow> string \<Rightarrow>
    json_value option \<Rightarrow> 'w \<Rightarrow> 'a result \<times> 'w" where
  "adminJSON decode E net verb path body w =
     (case adminDo E net verb path body w of
        (Inl err, w') \<Rightarrow> (Inl err, w')
      | (Inr (status, raw), w') \<Rightarrow>
          if 400 \<le> status
          then (Inl (Errorf ''admin API %s %s returned %d'' [FStr verb, FStr path, FInt (int status)]), w')
          else (case decode raw of
                  None \<Rightarrow> (Inl (Wrap ''decode admin API response'' (Errorf ''json'' [])), w')
                | Some v \<Rightarrow> (Inr v, w')))"

end
