(* ===== verification/Cli_Commands.thy ===== *)
theory Cli_Commands
  imports Cli_Client
begin

text \<open>
  The commands of cli/bucket.go, cli/object.go, cli/user.go and cli/admin.go. A command runs over the network and
  the surroundings of the process: files, standard input, the answer at the prompt. It yields what it
  prints, as the data a line or table is made of, and its error. A loop that polls the server takes the rounds
  it runs for as fuel.
\<close>

datatype cli_out =
    BucketCreated string
  | BucketDeleted string
  | BucketTable "(string \<times> time) list"
  | VersioningSet string string
  | NoPolicy
  | PolicyText reader
  | PolicyUpdated string
  | Uploaded string string string
  | ObjectData reader
  | FileData string reader
  | ObjectDeleted string string
  | ObjectTable "list_entry list"
  | Copied string string string string
  | Moved string string string string
  | Presigned string string string
  | UserKey string "string option" string
  | UserDeleted string
  | UserTable "(string \<times> string \<times> bool) list"
  | JobStarted string string
  | JobProgress string int
  | JobDone string

type_synonym 'w command = "'w \<Rightarrow> (cli_out list \<times> err option) \<times> 'w"

abbreviation failed :: "err \<Rightarrow> cli_out list \<times> err option" where
  "failed err \<equiv> ([], Some err)"

abbreviation printed :: "cli_out list \<Rightarrow> cli_out list \<times> err option" where
  "printed out \<equiv> (out, None)"

record surroundings =
  su_open :: "string \<Rightarrow> bytes result"
  su_create :: "string \<Rightarrow> err option"
  su_stat :: "string \<Rightarrow> err option"
  su_stdin :: bytes
  su_answer :: "string option"
  su_mimeType :: "string \<Rightarrow> string"

definition confirmAction :: "surroundings \<Rightarrow> bool" where
  "confirmAction U = (case su_answer U of None \<Rightarrow> False | Some a \<Rightarrow> a = ''y'' \<or> a = ''Y'' \<or> a = ''yes'')"

section \<open>Answers of the S3 API\<close>

text \<open>\<open>s3ResponseError\<close>: both kinds of error documents have a code and a message.\<close>

definition s3ResponseError :: "response \<Rightarrow> err" where
  "s3ResponseError resp =
     (let plain = Errorf ''S3 request failed with HTTP %d'' [FInt (int (rs_Status resp))] in
      case rs_Body resp of
        XmlError code m res reqID \<Rightarrow> if code \<noteq> [] then Wrap (''S3 error '' @ code) m else plain
      | AuthErrorBody code m \<Rightarrow> if code \<noteq> [] then Wrap (''S3 error '' @ code) m else plain
      | _ \<Rightarrow> plain)"

definition response_body :: "response \<Rightarrow> reader" where
  "response_body resp = (case rs_Body resp of RawBody r \<Rightarrow> r | JsonBody s \<Rightarrow> reader_of s | TextBody s \<Rightarrow> reader_of s | _ \<Rightarrow> reader_of [])"

text \<open>A request whose answer below 400 is handed to \<open>k\<close>.\<close>

definition on_success :: "(response \<Rightarrow> 'w \<Rightarrow> (cli_out list \<times> err option) \<times> 'w) \<Rightarrow> response result \<times> 'w \<Rightarrow>
    (cli_out list \<times> err option) \<times> 'w" where
  "on_success k a =
     (case a of
        (Inl err, w) \<Rightarrow> (failed err, w)
      | (Inr resp, w) \<Rightarrow> if 400 \<le> rs_Status resp then (failed (s3ResponseError resp), w) else k resp w)"

type_synonym 'w s3_network = "(wire_request, response, 'w) network"

section \<open>Buckets\<close>

definition runBucketCreate :: "cli_env \<Rightarrow> platform \<Rightarrow> 'w s3_network \<Rightarrow> string \<Rightarrow> 'w command" where
  "runBucketCreate E P net name w =
     on_success (\<lambda>resp w. (printed [BucketCreated name], w)) (s3Do E P net ''PUT'' name [] [] [] CliNil 0 w)"

definition runBucketDelete :: "cli_env \<Rightarrow> platform \<Rightarrow> 'w s3_network \<Rightarrow> surroundings \<Rightarrow> bool \<Rightarrow> string \<Rightarrow> 'w command" where
  "runBucketDelete E P net U force name w =
     (if \<not> force \<and> \<not> confirmAction U then (printed [], w)
      else on_success (\<lambda>resp w. (printed [BucketDeleted name], w)) (s3Do E P net ''DELETE'' name [] [] [] CliNil 0 w))"

definition runBucketList :: "cli_env \<Rightarrow> platform \<Rightarrow> 'w s3_network \<Rightarrow> 'w command" where
  "runBucketList E P net w =
     on_success (\<lambda>resp w.
         case rs_Body resp of
           XmlBody (XListBuckets owner display bs) \<Rightarrow> (printed [BucketTable bs], w)
         | _ \<Rightarrow> (failed (Wrap ''decode list buckets response'' (msg ''xml'')), w))
       (s3Do E P net ''GET'' [] [] [] [] CliNil 0 w)"

text \<open>The document \<open>xml.Marshal\<close> prints for a state, after its header.\<close>

definition xml_header :: string where
  "xml_header = ''<?xml version='' @ [CHR 0x22] @ ''1.0'' @ [CHR 0x22] @ '' encoding='' @ [CHR 0x22] @ ''UTF-8'' @ [CHR 0x22] @ ''?>'' @ [CHR 0x0A]"

definition versioning_xml :: "string \<Rightarrow> string" where
  "versioning_xml s3Status =
     ''<VersioningConfiguration xmlns='' @ [CHR 0x22] @ ''http://s3.amazonaws.com/doc/2006-03-01/'' @ [CHR 0x22] @
     ''><Status>'' @ s3Status @ ''</Status></VersioningConfiguration>''"

definition runBucketVersioning :: "cli_env \<Rightarrow> platform \<Rightarrow> 'w s3_network \<Rightarrow> string \<Rightarrow> string \<Rightarrow> 'w command" where
  "runBucketVersioning E P net name state w =
     (case (if state = ''enable'' then Some ''Enabled''
            else if state = ''suspend'' then Some ''Suspended''
            else if state = ''disable'' then Some ''Suspended''
            else None) of
        None \<Rightarrow> (failed (msg ''versioning state must be one of: enable, suspend, disable''), w)
      | Some s3Status \<Rightarrow>
          let xmlBody = xml_header @ versioning_xml s3Status in
          on_success (\<lambda>resp w. (printed [VersioningSet name state], w))
            (s3Do E P net ''PUT'' name [] [(''versioning'', [[]])] [(''Content-Type'', ''application/xml'')]
               (CliBytes xmlBody (Some (XVersioning s3Status))) (int (length xmlBody)) w))"

definition runBucketPolicyGet :: "cli_env \<Rightarrow> platform \<Rightarrow> 'w s3_network \<Rightarrow> string \<Rightarrow> 'w command" where
  "runBucketPolicyGet E P net name w =
     (case s3Do E P net ''GET'' name [] [(''policy'', [[]])] [] CliNil 0 w of
        (Inl err, w') \<Rightarrow> (failed err, w')
      | (Inr resp, w') \<Rightarrow>
          if rs_Status resp = 404 then (printed [NoPolicy], w')
          else if 400 \<le> rs_Status resp then (failed (s3ResponseError resp), w')
          else (case rd_err (response_body resp) of
                  Some err \<Rightarrow> (failed (Wrap ''read policy response'' err), w')
                | None \<Rightarrow> (printed [PolicyText (response_body resp)], w')))"

definition runBucketPolicySet :: "cli_env \<Rightarrow> platform \<Rightarrow> 'w s3_network \<Rightarrow> surroundings \<Rightarrow> string \<Rightarrow> string \<Rightarrow> 'w command" where
  "runBucketPolicySet E P net U name file w =
     (case su_open U file of
        Inl err \<Rightarrow> (failed (Wrap (''read policy file '' @ file) err), w)
      | Inr data \<Rightarrow>
          if \<not> pf_json_valid P data then (failed (Wrap ''policy file is not valid JSON'' (msg ''json'')), w)
          else on_success (\<lambda>resp w. (printed [PolicyUpdated name], w))
            (s3Do E P net ''PUT'' name [] [(''policy'', [[]])] [(''Content-Type'', ''application/json'')]
               (CliBytes data None) (int (length data)) w))"

section \<open>Objects\<close>

text \<open>\<open>filepath.Ext\<close>; the type is guessed from the extension only.\<close>

definition file_ext :: "string \<Rightarrow> string" where
  "file_ext path =
     (let base = rev (takeWhile (\<lambda>c. c \<noteq> CHR ''/'') (rev path)) in
      case after_last CHR ''.'' base of None \<Rightarrow> [] | Some e \<Rightarrow> CHR ''.'' # e)"

definition cli_detectContentType :: "surroundings \<Rightarrow> string \<Rightarrow> string" where
  "cli_detectContentType U filePath =
     (let ext = ToLower (file_ext filePath); ct = su_mimeType U ext in
      if filePath = ''-'' \<or> ext = [] \<or> ct = [] then ''application/octet-stream'' else ct)"

definition put_source :: "surroundings \<Rightarrow> string \<Rightarrow> (bytes \<times> int) result" where
  "put_source U filePath =
     (if filePath = ''-'' then Inr (su_stdin U, - 1)
      else case su_open U filePath of
          Inl err \<Rightarrow> Inl (Wrap (''open file '' @ filePath) err)
        | Inr data \<Rightarrow> Inr (data, int (length data)))"

definition runObjectPut :: "cli_env \<Rightarrow> platform \<Rightarrow> 'w s3_network \<Rightarrow> surroundings \<Rightarrow> string \<Rightarrow> string \<Rightarrow> string \<Rightarrow> string \<Rightarrow> 'w command" where
  "runObjectPut E P net U ctFlag bucket key filePath w =
     (case put_source U filePath of
        Inl err \<Rightarrow> (failed err, w)
      | Inr (data, bodyLen) \<Rightarrow>
          let ct = (if ctFlag = [] then cli_detectContentType U filePath else ctFlag);
              headers = (if ct \<noteq> [] then [(''Content-Type'', ct)] else [])
          in on_success (\<lambda>resp w. (printed [Uploaded bucket key (multi_get (rs_Header resp) ''Etag'')], w))
               (s3Do E P net ''PUT'' bucket key [] headers (CliBytes data None) bodyLen w))"

definition runObjectGet :: "cli_env \<Rightarrow> platform \<Rightarrow> 'w s3_network \<Rightarrow> surroundings \<Rightarrow> string \<Rightarrow> string \<Rightarrow> string \<Rightarrow> 'w command" where
  "runObjectGet E P net U outputFile bucket key w =
     on_success (\<lambda>resp w.
         let body = response_body resp;
             err = map_option (Wrap ''write object data'') (rd_err body)
         in if outputFile \<noteq> []
            then (case su_create U outputFile of
                    Some cerr \<Rightarrow> (failed (Wrap (''create output file '' @ outputFile) cerr), w)
                  | None \<Rightarrow> (([FileData outputFile body], err), w))
            else (([ObjectData body], err), w))
       (s3Do E P net ''GET'' bucket key [] [] CliNil 0 w)"

definition runObjectDelete :: "cli_env \<Rightarrow> platform \<Rightarrow> 'w s3_network \<Rightarrow> surroundings \<Rightarrow> bool \<Rightarrow> string \<Rightarrow> string \<Rightarrow> 'w command" where
  "runObjectDelete E P net U force bucket key w =
     (if \<not> force \<and> \<not> confirmAction U then (printed [], w)
      else on_success (\<lambda>resp w. (printed [ObjectDeleted bucket key], w)) (s3Do E P net ''DELETE'' bucket key [] [] CliNil 0 w))"

definition runObjectList :: "cli_env \<Rightarrow> platform \<Rightarrow> 'w s3_network \<Rightarrow> string \<Rightarrow> string \<Rightarrow> string \<Rightarrow> 'w command" where
  "runObjectList E P net pfx delimiter bucket w =
     (let q = [(''list-type'', [''2''])] @ (if pfx \<noteq> [] then [(''prefix'', [pfx])] else []) @
            (if delimiter \<noteq> [] then [(''delimiter'', [delimiter])] else [])
      in on_success (\<lambda>resp w.
             case rs_Body resp of
               XmlBody (XListBucket res) \<Rightarrow> (printed [ObjectTable (lb_Contents res)], w)
             | _ \<Rightarrow> (failed (Wrap ''decode list objects response'' (msg ''xml'')), w))
           (s3Do E P net ''GET'' bucket [] q [] CliNil 0 w))"

definition parseS3URI :: "string \<Rightarrow> (string \<times> string) result" where
  "parseS3URI uri =
     (if \<not> HasPrefix uri ''s3://'' then Inl (Errorf ''invalid S3 URI %q: must start with s3://'' [FStr uri])
      else case SplitN CHR ''/'' 2 (TrimPrefix uri ''s3://'') of
          [b, k] \<Rightarrow>
            if b = [] \<or> k = [] then Inl (Errorf ''invalid S3 URI %q: must be s3://bucket/key'' [FStr uri])
            else Inr (b, k)
        | _ \<Rightarrow> Inl (Errorf ''invalid S3 URI %q: must be s3://bucket/key'' [FStr uri]))"

definition doCopyObject :: "cli_env \<Rightarrow> platform \<Rightarrow> 'w s3_network \<Rightarrow> string \<Rightarrow> string \<Rightarrow> string \<Rightarrow> string \<Rightarrow> 'w command" where
  "doCopyObject E P net srcBucket srcKey dstBucket dstKey w =
     (let copySrc = ''/'' @ srcBucket @ ''/'' @ srcKey in
      on_success (\<lambda>resp w. (printed [Copied srcBucket srcKey dstBucket dstKey], w))
        (s3Do E P net ''PUT'' dstBucket dstKey [] [(''x-amz-copy-source'', copySrc)] CliNil 0 w))"

definition with_uris :: "string \<Rightarrow> string \<Rightarrow> (string \<Rightarrow> string \<Rightarrow> string \<Rightarrow> string \<Rightarrow> 'w command) \<Rightarrow> 'w command" where
  "with_uris srcURI dstURI k w =
     (case parseS3URI srcURI of
        Inl err \<Rightarrow> (failed err, w)
      | Inr (srcBucket, srcKey) \<Rightarrow>
          (case parseS3URI dstURI of
             Inl err \<Rightarrow> (failed err, w)
           | Inr (dstBucket, dstKey) \<Rightarrow> k srcBucket srcKey dstBucket dstKey w))"

definition runObjectCp :: "cli_env \<Rightarrow> platform \<Rightarrow> 'w s3_network \<Rightarrow> string \<Rightarrow> string \<Rightarrow> 'w command" where
  "runObjectCp E P net srcURI dstURI = with_uris srcURI dstURI (doCopyObject E P net)"

definition move_object :: "cli_env \<Rightarrow> platform \<Rightarrow> 'w s3_network \<Rightarrow> string \<Rightarrow> string \<Rightarrow> string \<Rightarrow> string \<Rightarrow> 'w command" where
  "move_object E P net srcBucket srcKey dstBucket dstKey w =
     (case doCopyObject E P net srcBucket srcKey dstBucket dstKey w of
        ((out, Some err), w1) \<Rightarrow> ((out, Some err), w1)
      | ((out, None), w1) \<Rightarrow>
          (case s3Do E P net ''DELETE'' srcBucket srcKey [] [] CliNil 0 w1 of
             (Inl err, w2) \<Rightarrow> ((out, Some (Wrap ''delete source after copy'' err)), w2)
           | (Inr resp, w2) \<Rightarrow>
               if 400 \<le> rs_Status resp then ((out, Some (Wrap ''delete source after copy'' (s3ResponseError resp))), w2)
               else ((out @ [Moved srcBucket srcKey dstBucket dstKey], None), w2)))"

definition runObjectMv :: "cli_env \<Rightarrow> platform \<Rightarrow> 'w s3_network \<Rightarrow> string \<Rightarrow> string \<Rightarrow> 'w command" where
  "runObjectMv E P net srcURI dstURI = with_uris srcURI dstURI (move_object E P net)"

section \<open>Commands over the admin API\<close>

type_synonym 'w admin_network = "(admin_wire, nat \<times> json_value, 'w) network"

definition on_json :: "('a \<Rightarrow> cli_out list) \<Rightarrow> 'a result \<times> 'w \<Rightarrow> (cli_out list \<times> err option) \<times> 'w" where
  "on_json k a = (case a of (Inl err, w) \<Rightarrow> (failed err, w) | (Inr v, w) \<Rightarrow> (printed (k v), w))"

definition json_string_of :: "string \<Rightarrow> json_value \<Rightarrow> string option" where
  "json_string_of name j = Option.bind (object_fields j) (string_field name)"

text \<open>\<open>presignResponseBody\<close>, \<open>createUserResponse\<close> and \<open>userInfo\<close>.\<close>

definition decode_presigned :: "json_value \<Rightarrow> (string \<times> string) option" where
  "decode_presigned j =
     (case (json_string_of ''url'' j, json_string_of ''expires_at'' j) of
        (Some u, Some e) \<Rightarrow> Some (u, e) | _ \<Rightarrow> None)"

definition decode_user :: "json_value \<Rightarrow> (string \<times> string \<times> string) option" where
  "decode_user j =
     (case (json_string_of ''access_key'' j, json_string_of ''secret_key'' j, json_string_of ''owner'' j) of
        (Some ak, Some sk, Some owner) \<Rightarrow> Some (ak, sk, owner) | _ \<Rightarrow> None)"

definition decode_user_info :: "json_value \<Rightarrow> (string \<times> string \<times> bool) option" where
  "decode_user_info j =
     (case (json_string_of ''access_key'' j, json_string_of ''owner'' j, Option.bind (object_fields j) (bool_field ''is_root'')) of
        (Some ak, Some owner, Some isRoot) \<Rightarrow> Some (ak, owner, isRoot) | _ \<Rightarrow> None)"

definition decode_user_list :: "json_value \<Rightarrow> (string \<times> string \<times> bool) list option" where
  "decode_user_list j =
     (case j of JArr js \<Rightarrow> option_map_list decode_user_info js | JNull \<Rightarrow> Some [] | _ \<Rightarrow> None)"

text \<open>\<open>strings.ToUpper\<close> on ASCII.\<close>

definition runObjectPresign :: "cli_env \<Rightarrow> 'w admin_network \<Rightarrow> int \<Rightarrow> string \<Rightarrow> string \<Rightarrow> string \<Rightarrow> 'w command" where
  "runObjectPresign E net expires methodFlag bucket key w =
     (let verb = map upper_char methodFlag in
      if verb \<noteq> ''GET'' \<and> verb \<noteq> ''PUT'' then (failed (msg ''method must be GET or PUT''), w)
      else on_json (\<lambda>(u, e). [Presigned verb e u])
        (adminJSON decode_presigned E net ''POST'' ''/admin/v1/presign''
           (Some (JObj [(''bucket'', JStr bucket), (''key'', JStr key), (''method'', JStr verb),
              (''expires_in'', JNum (Itoa expires) (of_int expires))])) w))"

text \<open>With \<open>--json\<close> the secret key is not printed.\<close>

definition user_output :: "cli_env \<Rightarrow> string \<times> string \<times> string \<Rightarrow> cli_out list" where
  "user_output E u = (case u of (ak, sk, owner) \<Rightarrow> [UserKey ak (if cl_json E then None else Some sk) owner])"

definition runUserCreate :: "cli_env \<Rightarrow> 'w admin_network \<Rightarrow> string \<Rightarrow> 'w command" where
  "runUserCreate E net username w =
     on_json (user_output E)
       (adminJSON decode_user E net ''POST'' ''/admin/v1/users'' (Some (JObj [(''owner'', JStr username)])) w)"

definition runUserDelete :: "cli_env \<Rightarrow> 'w admin_network \<Rightarrow> surroundings \<Rightarrow> bool \<Rightarrow> string \<Rightarrow> 'w command" where
  "runUserDelete E net U force accessKey w =
     (if \<not> force \<and> \<not> confirmAction U then (printed [], w)
      else case adminDo E net ''DELETE'' (''/admin/v1/users/'' @ accessKey) None w of
          (Inl err, w') \<Rightarrow> (failed err, w')
        | (Inr (status, body), w') \<Rightarrow>
            if 400 \<le> status then (failed (Errorf ''delete user returned HTTP %d'' [FInt (int status)]), w')
            else (printed [UserDeleted accessKey], w'))"

definition runUserList :: "cli_env \<Rightarrow> 'w admin_network \<Rightarrow> 'w command" where
  "runUserList E net w =
     on_json (\<lambda>us. [UserTable us]) (adminJSON decode_user_list E net ''GET'' ''/admin/v1/users'' None w)"

definition runUserRotateKey :: "cli_env \<Rightarrow> 'w admin_network \<Rightarrow> string \<Rightarrow> 'w command" where
  "runUserRotateKey E net accessKey w =
     on_json (user_output E)
       (adminJSON decode_user E net ''POST'' (''/admin/v1/users/'' @ accessKey @ ''/keys/rotate'') None w)"

text \<open>
  Jobs: the fields of the status the poll loops read. \<open>None\<close> is a loop that has not ended after its fuel.
\<close>

record job_status =
  js_Running :: bool
  js_Progress :: int
  js_Error :: string

fun into_int :: "int \<Rightarrow> json_value list \<Rightarrow> int option" where
  "into_int cur [] = Some cur"
| "into_int cur (v # vs) =
     (case v of
        JNum lit q \<Rightarrow> (case Atoi lit of Some n \<Rightarrow> into_int n vs | None \<Rightarrow> None)
      | JNull \<Rightarrow> into_int cur vs
      | _ \<Rightarrow> None)"

definition decode_status :: "json_value \<Rightarrow> job_status option" where
  "decode_status j =
     (case object_fields j of
        None \<Rightarrow> None
      | Some ps \<Rightarrow>
          (case (bool_field ''running'' ps, into_int 0 (field_values ''progress'' ps), string_field ''error'' ps) of
             (Some r, Some p, Some e) \<Rightarrow> Some \<lparr>js_Running = r, js_Progress = p, js_Error = e\<rparr>
           | _ \<Rightarrow> None))"

fun poll_loop :: "nat \<Rightarrow> cli_env \<Rightarrow> 'w admin_network \<Rightarrow> string \<Rightarrow> string \<Rightarrow> cli_out list \<Rightarrow> 'w \<Rightarrow>
    ((cli_out list \<times> err option) \<times> 'w) option" where
  "poll_loop 0 E net path op out w = None"
| "poll_loop (Suc n) E net path op out w =
     (case adminJSON decode_status E net ''GET'' path None w of
        (Inl err, w') \<Rightarrow> Some ((out, Some (Wrap (''poll '' @ op @ '' status'') err)), w')
      | (Inr st, w') \<Rightarrow>
          let out' = out @ [JobProgress op (js_Progress st)] in
          if js_Running st then poll_loop n E net path op out' w'
          else if js_Error st \<noteq> [] then Some ((out', Some (Errorf ''%s failed: %s'' [FStr op, FStr (js_Error st)])), w')
          else Some ((out' @ [JobDone op], None), w'))"

definition pollExportStatus :: "nat \<Rightarrow> cli_env \<Rightarrow> 'w admin_network \<Rightarrow> string \<Rightarrow> cli_out list \<Rightarrow> 'w \<Rightarrow>
    ((cli_out list \<times> err option) \<times> 'w) option" where
  "pollExportStatus n E net op out w = poll_loop n E net ''/admin/v1/export/status'' op out w"

definition start_job :: "nat \<Rightarrow> cli_env \<Rightarrow> 'w admin_network \<Rightarrow> string \<Rightarrow> string \<Rightarrow> json_value option \<Rightarrow> string \<Rightarrow> 'w \<Rightarrow>
    ((cli_out list \<times> err option) \<times> 'w) option" where
  "start_job n E net op path body status w =
     (case adminJSON (json_string_of ''message'') E net ''POST'' path body w of
        (Inl err, w') \<Rightarrow> Some (failed err, w')
      | (Inr message, w') \<Rightarrow> poll_loop n E net status op [JobStarted op message] w')"

definition runAdminGC :: "nat \<Rightarrow> cli_env \<Rightarrow> 'w admin_network \<Rightarrow> surroundings \<Rightarrow> bool \<Rightarrow> 'w \<Rightarrow>
    ((cli_out list \<times> err option) \<times> 'w) option" where
  "runAdminGC n E net U force w =
     (if \<not> force \<and> \<not> confirmAction U then Some (printed [], w)
      else start_job n E net ''GC'' ''/admin/v1/gc'' None ''/admin/v1/gc/status'' w)"

definition runAdminExport :: "nat \<Rightarrow> cli_env \<Rightarrow> 'w admin_network \<Rightarrow> string \<Rightarrow> 'w \<Rightarrow> ((cli_out list \<times> err option) \<times> 'w) option" where
  "runAdminExport n E net outputDir w =
     start_job n E net ''export'' ''/admin/v1/export'' (Some (JObj [(''destination'', JStr outputDir)])) ''/admin/v1/export/status'' w"

definition runAdminImport :: "nat \<Rightarrow> cli_env \<Rightarrow> 'w admin_network \<Rightarrow> surroundings \<Rightarrow> string \<Rightarrow> 'w \<Rightarrow>
    ((cli_out list \<times> err option) \<times> 'w) option" where
  "runAdminImport n E net U inputDir w =
     (case su_stat U inputDir of
        Some err \<Rightarrow> Some (failed (Wrap (''input directory '' @ inputDir) err), w)
      | None \<Rightarrow> start_job n E net ''import'' ''/admin/v1/import'' (Some (JObj [(''source'', JStr inputDir)]))
          ''/admin/v1/export/status'' w)"

end
