(* ===== verification/Cli_Props.thy ===== *)
theory Cli_Props
  imports Cli_Commands Key_Props
begin

text \<open>
  What the command line achieves at the server: which signed requests the server accepts, that no request to
  the admin API is, and in what order a move copies and deletes.
\<close>

section \<open>The URL of a request\<close>

lemma QueryEscape_set: "c \<in> set (QueryEscape s) \<Longrightarrow> c = CHR ''%'' \<or> c = CHR ''+'' \<or> isUnreserved c"
  by (induction s) (auto dest: pct_set split: if_splits)

lemma Join_set: "c \<in> set (Join ps sep) \<Longrightarrow> c \<in> set sep \<or> (\<exists>p \<in> set ps. c \<in> set p)"
  by (induction ps sep rule: Join.induct) auto

lemma Values_Encode_no_hash: "CHR ''#'' \<notin> set (Values_Encode q)"
proof
  assume "CHR ''#'' \<in> set (Values_Encode q)"
  then obtain k v where "CHR ''#'' \<in> set (QueryEscape k @ ''='' @ QueryEscape v)"
    by (auto simp: Values_Encode_def dest!: Join_set)
  then have "CHR ''#'' = CHR ''%'' \<or> CHR ''#'' = CHR ''+'' \<or> isUnreserved CHR ''#'' \<or> CHR ''#'' = CHR ''=''"
    using QueryEscape_set [of "CHR ''#''"] by auto
  moreover have "\<not> isUnreserved CHR ''#''" by code_simp
  ultimately show False by simp
qed

lemma cut_none: "d \<notin> set s \<Longrightarrow> cut d s = (s, [])"
proof -
  assume "d \<notin> set s"
  then have "takeWhile (\<lambda>c. c \<noteq> d) s = s" "dropWhile (\<lambda>c. c \<noteq> d) s = []"
    by (auto simp: takeWhile_eq_all_conv dropWhile_eq_Nil_conv)
  then show ?thesis by (simp only: cut_def drop_Nil)
qed

definition empty_url :: "string \<Rightarrow> string \<Rightarrow> string \<Rightarrow> url" where
  "empty_url scheme host query = \<lparr>u_Scheme = scheme, u_Host = host, u_Path = [], u_RawPath = [], u_RawQuery = query\<rparr>"

lemma host_byte_plain: "host_byte c \<Longrightarrow> c \<noteq> CHR ''#'' \<and> c \<noteq> CHR ''?'' \<and> c \<noteq> CHR ''/''"
proof -
  have "\<not> isUnreserved CHR ''#''" "\<not> isUnreserved CHR ''?''" "\<not> isUnreserved CHR ''/''" by code_simp+
  then show "host_byte c \<Longrightarrow> ?thesis" by (auto simp: host_byte_def)
qed

lemma url_rest_path:
  assumes host: "list_all host_byte host" and p: "CHR ''?'' \<notin> set (CHR ''/'' # p)" and q: "q = [] \<or> hd q = CHR ''?''"
  shows "url_rest scheme (host @ (CHR ''/'' # p) @ q) = setPath (empty_url scheme host (drop 1 q)) (CHR ''/'' # p)"
proof -
  let ?h = "host @ CHR ''/'' # p"
  have h: "CHR ''?'' \<notin> set ?h" using p host host_byte_plain by (fastforce simp: list_all_iff)
  have c: "cut CHR ''?'' (?h @ q) = (?h, drop 1 q)"
  proof (cases q)
    case Nil
    then show ?thesis using cut_none [OF h] by simp
  next
    case (Cons c q')
    then show ?thesis using q cut_sep [OF h, of q'] by simp
  qed
  have "CHR ''/'' \<notin> set host" using host host_byte_plain by (auto simp: list_all_iff)
  then have "c \<in> set host \<Longrightarrow> c \<noteq> CHR ''/''" for c by auto
  then have "takeWhile (\<lambda>c. c \<noteq> CHR ''/'') ?h = host" "dropWhile (\<lambda>c. c \<noteq> CHR ''/'') ?h = CHR ''/'' # p"
    by (simp_all add: takeWhile_append2 dropWhile_append2)
  with c host show ?thesis by (simp add: url_rest_def empty_url_def)
qed

text \<open>The address of the server: a scheme and a host, with any number of slashes at the end.\<close>

definition server_address :: "string \<Rightarrow> string \<Rightarrow> string \<Rightarrow> bool" where
  "server_address base scheme host \<longleftrightarrow>
     (scheme = ''http'' \<or> scheme = ''https'') \<and> TrimRight base ''/'' = scheme @ ''://'' @ host \<and> list_all host_byte host"

lemma url_Parse_address:
  assumes a: "server_address base scheme host" and p: "CHR ''?'' \<notin> set (CHR ''/'' # p)" "CHR ''#'' \<notin> set (CHR ''/'' # p)"
    and q: "q = [] \<or> hd q = CHR ''?''" "CHR ''#'' \<notin> set q"
    and u: "url_Parse (TrimRight base ''/'' @ (CHR ''/'' # p) @ q) = Some u"
  shows "setPath (empty_url scheme host (drop 1 q)) (CHR ''/'' # p) = Some u"
proof -
  let ?s = "TrimRight base ''/'' @ (CHR ''/'' # p) @ q"
  from a have s: "scheme = ''http'' \<or> scheme = ''https''" "TrimRight base ''/'' = scheme @ ''://'' @ host" "list_all host_byte host"
    by (auto simp: server_address_def)
  have "CHR ''#'' \<notin> set host" using s(3) host_byte_plain by (auto simp: list_all_iff)
  then have "CHR ''#'' \<notin> set ?s" using s(1) p(2) q(2) unfolding s(2) by auto
  then have "cut CHR ''#'' ?s = (?s, [])" by (rule cut_none)
  with u s(1) have "url_rest scheme (host @ (CHR ''/'' # p) @ q) = Some u"
    unfolding s(2) by (auto simp: url_Parse_def TrimPrefix_def split: if_splits)
  with url_rest_path [OF s(3) p(1) q(1)] show ?thesis by simp
qed

section \<open>The signature of a request\<close>

lemma cli_uriEncode_eq: "cli_uriEncode s = uriEncode s True"
  by (induction s) (simp_all add: cli_uriEncode_def)

lemma uriEncode_no_slash: "CHR ''/'' \<notin> set s \<Longrightarrow> uriEncode s True = uriEncode s False"
  by (induction s) auto

lemma encodeURIPath_eq: "encodeURIPath p = uriEncode p False"
proof -
  have "map cli_uriEncode (Split CHR ''/'' p) = map (\<lambda>seg. uriEncode seg False) (Split CHR ''/'' p)"
    by (simp add: cli_uriEncode_eq uriEncode_no_slash Split_parts)
  then show ?thesis by (simp only: encodeURIPath_def uriEncode_segments)
qed

lemma deriveKey_eq: "deriveKey = deriveSigningKey"
  by (intro ext) (simp add: deriveKey_def deriveSigningKey_def)

definition cli_names :: "bool \<Rightarrow> bool \<Rightarrow> string list" where
  "cli_names ct cs = (if ct then [''content-type''] else []) @ [''host'', ''x-amz-content-sha256''] @
     (if cs then [''x-amz-copy-source''] else []) @ [''x-amz-date'']"

lemma cli_names_sorted:
  "sort ([''host'', ''x-amz-content-sha256'', ''x-amz-date''] @ (if ct then [''content-type''] else []) @
     (if cs then [''x-amz-copy-source''] else [])) = cli_names ct cs"
  by (cases ct; cases cs; simp only: if_True if_False simp_thms; code_simp)

lemma signedHeaderNames_cases: "\<exists>ct cs. signedHeaderNames r = cli_names ct cs"
  using cli_names_sorted [of "Header_Get r ''content-type'' \<noteq> []" "Header_Get r ''x-amz-copy-source'' \<noteq> []"]
  by (auto simp: signedHeaderNames_def split: if_splits)

lemma cli_names_facts:
  "sort (cli_names ct cs) = cli_names ct cs" "Split CHR '';'' (Join (cli_names ct cs) '';'') = cli_names ct cs"
  "field_value (Join (cli_names ct cs) '';'')"
  "\<forall>n \<in> set (cli_names ct cs). ToLower n = n \<and> CanonicalHeaderKey n \<noteq> ''Authorization''"
proof -
  show "sort (cli_names ct cs) = cli_names ct cs" by (simp flip: cli_names_sorted)
  show "Split CHR '';'' (Join (cli_names ct cs) '';'') = cli_names ct cs"
    by (rule Split_Join) (auto simp: cli_names_def)
  show "field_value (Join (cli_names ct cs) '';'')"
    by (cases ct; cases cs) (simp_all add: cli_names_def field_value_def spaces_def)
  have "\<forall>n \<in> set [''content-type'', ''host'', ''x-amz-content-sha256'', ''x-amz-copy-source'', ''x-amz-date'']. ToLower n = n \<and>
      CanonicalHeaderKey n \<noteq> ''Authorization''" by code_simp
  then show "\<forall>n \<in> set (cli_names ct cs). ToLower n = n \<and> CanonicalHeaderKey n \<noteq> ''Authorization''"
    by (auto simp: cli_names_def)
qed

lemma Header_Get_Set: "Header_Get (Header_Set k v r) n = (if CanonicalHeaderKey n = CanonicalHeaderKey k then v else Header_Get r n)"
  by (simp add: Header_Get_def Header_Set_def multi_get_def)

lemma Header_Set_fields [simp]:
  "rq_Method (Header_Set k v r) = rq_Method r" "rq_Host (Header_Set k v r) = rq_Host r"
  "rq_Path (Header_Set k v r) = rq_Path r" "rq_RawQuery (Header_Set k v r) = rq_RawQuery r"
  by (simp_all add: Header_Set_def)

lemma Header_Set_Query [simp]: "URL_Query (Header_Set k v r) = URL_Query r"
  by (simp add: URL_Query_def)

text \<open>The server's canonical request is the client's, apart from the path.\<close>

lemma canonical_cli:
  assumes names: "names = cli_names ct cs" and host: "rq_Host r0 = u_Host u"
    and r: "r = Header_Set ''Authorization'' a r0"
  shows "canonicalRequest r names = buildCanonicalRequest u r0 names \<longleftrightarrow>
    canonicalURI (rq_Path r) = encodeURIPath (if EscapedPath u = [] then ''/'' else EscapedPath u)"
proof -
  have auth: "CanonicalHeaderKey ''Authorization'' = ''Authorization''" "CanonicalHeaderKey ''X-Amz-Content-Sha256'' \<noteq> ''Authorization''"
    by code_simp+
  have hv: "header_value r n = cli_header_value u r0 n" if "n \<in> set names" for n
    using that cli_names_facts(4) [of ct cs] host unfolding names r
    by (auto simp: header_value_def cli_header_value_def Header_Get_Set auth)
  have "concat (map (\<lambda>n. ToLower n @ '':'' @ header_value r n @ NL) names) = concat (map (\<lambda>n. n @ '':'' @ cli_header_value u r0 n @ NL) names)"
    using hv cli_names_facts(4) [of ct cs] unfolding names by (intro arg_cong [where f = concat] map_cong) auto
  moreover have "payload_hash r = (let h = Header_Get r0 ''X-Amz-Content-Sha256'' in if h = [] then ''UNSIGNED-PAYLOAD'' else h)"
    using auth by (simp add: payload_hash_def r Header_Get_Set)
  moreover have "canonical_pair = (\<lambda>(k, v). cli_uriEncode k @ ''='' @ cli_uriEncode v)"
    by (intro ext) (simp add: canonical_pair_def cli_uriEncode_eq)
  then have "canonicalQueryString (URL_Query r) = Join (sort (map (\<lambda>(k, v). cli_uriEncode k @ ''='' @ cli_uriEncode v) (pairs_of (URL_Query r0)))) ''&''"
    by (simp add: canonicalQueryString_pairs r)
  ultimately show ?thesis
    unfolding canonicalRequest_eq cli_names_facts(1) [of ct cs, folded names] buildCanonicalRequest_def
    by (simp add: Let_def r)
qed

text \<open>The headers the commands set are no headers of the signature.\<close>

definition cli_headers :: "smap \<Rightarrow> bool" where
  "cli_headers hs \<longleftrightarrow> fst ` set hs \<subseteq> {''Content-Type'', ''x-amz-copy-source''}"

lemma unsigned_fields [simp]:
  "rq_Method (unsigned_request E u verb hs) = verb" "rq_Host (unsigned_request E u verb hs) = u_Host u"
  "rq_Path (unsigned_request E u verb hs) = u_Path u" "rq_RawQuery (unsigned_request E u verb hs) = u_RawQuery u"
proof -
  have "rq_Method (foldl (\<lambda>r (k, v). Header_Set k v r) r hs) = rq_Method r \<and> rq_Host (foldl (\<lambda>r (k, v). Header_Set k v r) r hs) = rq_Host r \<and>
      rq_Path (foldl (\<lambda>r (k, v). Header_Set k v r) r hs) = rq_Path r \<and> rq_RawQuery (foldl (\<lambda>r (k, v). Header_Set k v r) r hs) = rq_RawQuery r" for r
    by (induction hs arbitrary: r) (simp_all add: case_prod_beta)
  then show "rq_Method (unsigned_request E u verb hs) = verb" "rq_Host (unsigned_request E u verb hs) = u_Host u"
    "rq_Path (unsigned_request E u verb hs) = u_Path u" "rq_RawQuery (unsigned_request E u verb hs) = u_RawQuery u"
    by (simp_all add: unsigned_request_def)
qed

lemma unsigned_date:
  assumes "cli_headers hs"
  shows "Header_Get (unsigned_request E u verb hs) ''X-Amz-Date'' = format_timestamp (cl_now E)"
proof -
  have names: "CanonicalHeaderKey ''X-Amz-Date'' \<noteq> CanonicalHeaderKey n" if "n \<in> {''Content-Type'', ''x-amz-copy-source''}" for n
  proof -
    have "CanonicalHeaderKey ''X-Amz-Date'' \<noteq> CanonicalHeaderKey ''Content-Type''"
      "CanonicalHeaderKey ''X-Amz-Date'' \<noteq> CanonicalHeaderKey ''x-amz-copy-source''" by code_simp+
    then show ?thesis using that by auto
  qed
  have "Header_Get (foldl (\<lambda>r (k, v). Header_Set k v r) r hs) ''X-Amz-Date'' = Header_Get r ''X-Amz-Date''" for r
    using assms
  proof (induction hs arbitrary: r)
    case (Cons h hs)
    then have "fst h \<in> {''Content-Type'', ''x-amz-copy-source''}" "cli_headers hs" by (auto simp: cli_headers_def)
    then show ?case using Cons.IH names by (simp add: case_prod_beta Header_Get_Set)
  qed simp
  moreover have "CanonicalHeaderKey ''X-Amz-Date'' = ''X-Amz-Date''" by code_simp
  ultimately show ?thesis by (simp add: unsigned_request_def Header_Get_def multi_get_def)
qed

text \<open>What the server computes from a request of the client.\<close>

lemma cli_verify:
  fixes E P u verb hs
  defines "r0 \<equiv> unsigned_request E u verb hs"
    and "ts \<equiv> format_timestamp (cl_now E)" and "date \<equiv> format_date (cl_now E)"
  defines "r \<equiv> signS3Request P u (cl_accessKey E) (cl_secretKey E) date ts r0"
    and "names \<equiv> signedHeaderNames r0"
    and "scope \<equiv> credential_scope date ''us-east-1'' ''s3''"
    and "key \<equiv> deriveSigningKey P (cl_secretKey E) date ''us-east-1'' ''s3''"
  assumes range: "stamp_range (cl_now E)" and now: "\<bar>now - whole_seconds (cl_now E)\<bar> \<le> max_skew"
    and ak: "list_all isUnreserved (cl_accessKey E)" "cl_accessKey E \<noteq> []" and hs: "cli_headers hs"
    and sizes: "\<And>k d. pf_hmac P k d \<noteq> []"
  shows "VerifyRequest P r (cl_secretKey E) now = None \<longleftrightarrow>
    pf_hmac P key (stringToSign P ts scope (buildCanonicalRequest u r0 names)) =
    pf_hmac P key (stringToSign P ts scope (canonicalRequest r names))"
    and "canonicalRequest r names = buildCanonicalRequest u r0 names \<longleftrightarrow>
      canonicalURI (u_Path u) = encodeURIPath (if EscapedPath u = [] then ''/'' else EscapedPath u)"
    and "ExtractAccessKey r = cl_accessKey E"
proof -
  obtain ct cs where n: "names = cli_names ct cs" using signedHeaderNames_cases unfolding names_def by blast
  let ?mac = "pf_hmac P key (stringToSign P ts scope (buildCanonicalRequest u r0 names))"
  let ?auth = "authHeaderPrefix @ '' Credential='' @ (cl_accessKey E @ ''/'' @ scope) @ '', SignedHeaders='' @ Join names '';'' @
      '', Signature='' @ hex_encode ?mac"
  have r: "r = Header_Set ''Authorization'' ?auth r0"
    by (simp add: r_def signS3Request_def Let_def names_def scope_def key_def credential_scope_def authHeaderPrefix_def
        stringToSign_def hashSHA256_def deriveKey_eq)
  have host: "rq_Host r0 = u_Host u" by (simp add: r0_def)
  show "canonicalRequest r names = buildCanonicalRequest u r0 names \<longleftrightarrow>
      canonicalURI (u_Path u) = encodeURIPath (if EscapedPath u = [] then ''/'' else EscapedPath u)"
    using canonical_cli [OF n host r] by (simp add: r r0_def)
  have get: "Header_Get r ''Authorization'' = ?auth" by (simp add: r Header_Get_Set)
  have "CanonicalHeaderKey ''X-Amz-Date'' \<noteq> CanonicalHeaderKey ''Authorization''" by code_simp
  then have d: "Header_Get r ''X-Amz-Date'' = ts"
    using unsigned_date [OF hs, of E u verb] by (simp add: r Header_Get_Set r0_def ts_def)
  note un = format_timestamp_unreserved [OF range] format_date_unreserved [OF range]
  have fak: "field_value (cl_accessKey E)" by (rule field_value_unreserved [OF ak])
  have sig: "field_value (hex_encode ?mac)"
    using sizes by (intro field_value_unreserved hex_encode_unreserved hex_encode_ne)
  have sh: "field_value (Join names '';'')" unfolding n by (rule cli_names_facts)
  have region: "list_all isUnreserved ''us-east-1''" "''us-east-1'' \<noteq> []" by code_simp+
  have slash: "CHR ''/'' \<notin> set (cl_accessKey E)" using ak isUnreserved_plain by (auto simp: list_all_iff)
  have "VerifyRequest P r (cl_secretKey E) now =
      check_signature P r (cl_secretKey E) date ''us-east-1'' ''s3'' (Header_Get r ''X-Amz-Date'') (Join names '';'') (hex_encode ?mac)"
  proof (rule VerifyRequest_header [where t = "whole_seconds (cl_now E)"])
    show "Header_Get r ''Authorization'' = authHeaderPrefix @ '' Credential='' @ (cl_accessKey E @ ''/'' @ credential_scope date ''us-east-1'' ''s3'') @
      '', SignedHeaders='' @ Join names '';'' @ '', Signature='' @ hex_encode ?mac"
      using get by (simp add: scope_def)
    show "parse_timestamp (Header_Get r ''X-Amz-Date'') = Some (whole_seconds (cl_now E))"
      using parse_format_timestamp [OF range] by (simp add: d ts_def)
  qed (use fak slash un region sh sig now in \<open>simp_all add: format_date_whole date_def\<close>)
  then show "VerifyRequest P r (cl_secretKey E) now = None \<longleftrightarrow> ?mac = pf_hmac P key (stringToSign P ts scope (canonicalRequest r names))"
    unfolding check_signature_def Let_def d cli_names_facts(2) [of ct cs, folded n]
    by (simp add: hex_encode_inject scope_def key_def)
  have "field_value (cl_accessKey E @ ''/'' @ scope)"
    using credential_field [OF fak un(3) region un(4)] unfolding scope_def date_def .
  from written_fields(1) [OF get this sh sig]
  have "smap_get (parseAuthHeader (drop (length authHeaderPrefix + 1) ?auth)) ''Credential'' = cl_accessKey E @ ''/'' @ scope"
    unfolding auth_field_def get .
  moreover have "hd (SplitN CHR ''/'' 2 (cl_accessKey E @ ''/'' @ scope)) = cl_accessKey E"
    using SplitN_sep [OF slash, of 2 scope] by simp
  moreover have "HasPrefix ?auth (authHeaderPrefix @ '' '')" by simp
  ultimately show "ExtractAccessKey r = cl_accessKey E"
    using ak(2) unfolding ExtractAccessKey_def get Let_def by simp
qed

lemma s3_rawPath_slash: "\<exists>p. s3_rawPath bucket key = CHR ''/'' # p"
  by (simp add: s3_rawPath_def)

lemma escaped_path_agrees:
  assumes "setPath u0 p = Some u" and "p = CHR ''/'' # p'"
  shows "canonicalURI (u_Path u) = encodeURIPath (if EscapedPath u = [] then ''/'' else EscapedPath u) \<longleftrightarrow>
    list_all (\<lambda>c. valid_encoded c \<and> c \<noteq> CHR ''%'') p"
proof -
  have "u_Path u \<noteq> []" using assms by (auto simp: setPath_def split: option.splits)
  with EscapedPath_ne have "canonicalURI (u_Path u) = encodeURIPath (if EscapedPath u = [] then ''/'' else EscapedPath u) \<longleftrightarrow>
      EscapedPath u = u_Path u" by (auto simp: encodeURIPath_eq canonicalURI_eq)
  with EscapedPath_self [OF assms] show ?thesis by simp
qed

lemma build_s3_request_Inr:
  assumes "build_s3_request E P verb bucket key query hs body len = Inr q"
  obtains u where "url_Parse (s3_rawURL E bucket key query) = Some u" and "wq_url q = u" and "cl_secretKey E \<noteq> []"
    and "cl_accessKey E \<noteq> []"
    and "wq_req q = signS3Request P u (cl_accessKey E) (cl_secretKey E) (format_date (cl_now E)) (format_timestamp (cl_now E))
      (unsigned_request E u verb hs)"
  using assms by (auto simp: build_s3_request_def Let_def split: if_splits option.splits)

text \<open>What the client signs, and what the server checks the signature against.\<close>

definition cli_sent :: "cli_env \<Rightarrow> url \<Rightarrow> string \<Rightarrow> smap \<Rightarrow> string" where
  "cli_sent E u verb hs =
     (let r = unsigned_request E u verb hs in buildCanonicalRequest u r (signedHeaderNames r))"

definition cli_checked :: "cli_env \<Rightarrow> wire_request \<Rightarrow> string \<Rightarrow> smap \<Rightarrow> string" where
  "cli_checked E q verb hs =
     canonicalRequest (wq_req q) (signedHeaderNames (unsigned_request E (wq_url q) verb hs))"

abbreviation cli_scope :: "cli_env \<Rightarrow> string" where
  "cli_scope E \<equiv> credential_scope (format_date (cl_now E)) ''us-east-1'' ''s3''"

abbreviation cli_key :: "platform \<Rightarrow> cli_env \<Rightarrow> bytes" where
  "cli_key P E \<equiv> deriveSigningKey P (cl_secretKey E) (format_date (cl_now E)) ''us-east-1'' ''s3''"

text \<open>
  C28: the command line and the server agree on a signature, except for keys that need escaping. A request the
  client builds, with the secret of its access key and a clock within the allowed skew, passes the
  authentication of the server exactly when every byte of its path may stand in a URL as it is and none is
  a percent sign: the client signs the escaped path, escaped once more, where the server escapes the decoded one. A key with
  a space or a letter outside ASCII is refused, a key with a plus sign or a parenthesis is accepted.
\<close>

theorem cli_request_authenticated:
  assumes build: "build_s3_request E P verb bucket key query hs body len = Inr q"
    and "server_address (cl_server E) scheme host" and "cli_headers hs"
    and "CHR ''?'' \<notin> set (s3_rawPath bucket key)" and "CHR ''#'' \<notin> set (s3_rawPath bucket key)"
    and "stamp_range (cl_now E)" and "\<bar>now - whole_seconds (cl_now E)\<bar> \<le> max_skew"
    and "list_all isUnreserved (cl_accessKey E)" and "\<And>k d. pf_hmac P k d \<noteq> []"
    and "Lookup M (cl_accessKey E) m = Inr rec" and "ak_SigningKey rec = cl_secretKey E"
    and "\<not> isPresigned (wq_req q)"
    and "no_collision (pf_sha256 P) (cli_sent E (wq_url q) verb hs) (cli_checked E q verb hs)"
    and "no_collision (pf_hmac P (cli_key P E))
      (stringToSign P (format_timestamp (cl_now E)) (cli_scope E) (cli_sent E (wq_url q) verb hs))
      (stringToSign P (format_timestamp (cl_now E)) (cli_scope E) (cli_checked E q verb hs))"
  shows "Auth M P (wq_req q) now m = Authenticated (identity_of rec) \<longleftrightarrow>
    list_all (\<lambda>c. valid_encoded c \<and> c \<noteq> CHR ''%'') (s3_rawPath bucket key)"
proof -
  from build obtain u where u: "url_Parse (s3_rawURL E bucket key query) = Some u" "wq_url q = u" "cl_secretKey E \<noteq> []"
    "cl_accessKey E \<noteq> []" "wq_req q = signS3Request P u (cl_accessKey E) (cl_secretKey E) (format_date (cl_now E))
      (format_timestamp (cl_now E)) (unsigned_request E u verb hs)" by (rule build_s3_request_Inr)
  obtain p where p: "s3_rawPath bucket key = CHR ''/'' # p" using s3_rawPath_slash by blast
  have "setPath (empty_url scheme host (drop 1 (if query \<noteq> [] then ''?'' @ Values_Encode query else []))) (CHR ''/'' # p) = Some u"
    by (rule url_Parse_address [OF assms(2)]) (use assms(4,5) u(1) p Values_Encode_no_hash [of query] in \<open>simp_all add: s3_rawURL_def\<close>)
  from escaped_path_agrees [OF this refl] p
  have path: "canonicalURI (u_Path u) = encodeURIPath (if EscapedPath u = [] then ''/'' else EscapedPath u) \<longleftrightarrow>
      list_all (\<lambda>c. valid_encoded c \<and> c \<noteq> CHR ''%'') (s3_rawPath bucket key)" by simp
  note v = cli_verify [OF assms(6,7,8) u(4) assms(3,9), of u verb, folded u(5)]
  have "stringToSign P (format_timestamp (cl_now E)) (cli_scope E) (cli_sent E u verb hs) =
      stringToSign P (format_timestamp (cl_now E)) (cli_scope E) (cli_checked E q verb hs) \<longleftrightarrow>
      cli_sent E u verb hs = cli_checked E q verb hs"
    using stringToSign_inject no_collisionD [OF assms(13)] u(2) by metis
  then have mac: "VerifyRequest P (wq_req q) (cl_secretKey E) now = None \<longleftrightarrow> cli_sent E u verb hs = cli_checked E q verb hs"
    using v(1) no_collisionD [OF assms(14)] u(2) by (auto simp: cli_sent_def cli_checked_def Let_def)
  have "Auth M P (wq_req q) now m = Authenticated (identity_of rec) \<longleftrightarrow> VerifyRequest P (wq_req q) (cl_secretKey E) now = None"
    using assms(10-12) v(3) u(3,4) by (auto simp: Auth_def split: option.splits)
  also have "\<dots> \<longleftrightarrow> list_all (\<lambda>c. valid_encoded c \<and> c \<noteq> CHR ''%'') (s3_rawPath bucket key)"
    unfolding mac using v(2) path u(2) by (auto simp: cli_sent_def cli_checked_def Let_def)
  finally show ?thesis .
qed

definition cli_demo :: cli_env where
  "cli_demo = \<lparr>cl_server = ''http://h:9000/'', cl_adminURL = ''http://h:9001'', cl_accessKey = ''AK'', cl_secretKey = ''sk'',
     cl_now = demo_time, cl_json = False, cl_tokenFile = Inr ''token''\<rparr>"

lemma cli_demo_facts:
  "server_address (cl_server cli_demo) ''http'' ''h:9000''" "cl_now cli_demo = demo_time" "cl_accessKey cli_demo = ''AK''"
  "cl_secretKey cli_demo = ''sk''"
proof -
  have "TrimRight ''http://h:9000/'' ''/'' = ''http://h:9000''" "list_all host_byte ''h:9000''" by code_simp+
  then show "server_address (cl_server cli_demo) ''http'' ''h:9000''" by (simp add: server_address_def cli_demo_def)
qed (simp_all add: cli_demo_def)

lemma signS3Request_query: "rq_RawQuery (signS3Request P u ak sk date ts r) = rq_RawQuery r"
  by (simp add: signS3Request_def Let_def)

lemma demo_request:
  assumes u: "url_Parse (s3_rawURL cli_demo ''b'' key []) = Some u" "u_RawQuery u = []"
  shows "\<exists>q. build_s3_request cli_demo plain_platform ''PUT'' ''b'' key [] [] CliNil 0 = Inr q \<and> \<not> isPresigned (wq_req q)"
proof -
  obtain q where q: "build_s3_request cli_demo plain_platform ''PUT'' ''b'' key [] [] CliNil 0 = Inr q"
    using u by (simp add: build_s3_request_def cli_demo_facts Let_def)
  from build_s3_request_Inr [OF q] obtain u' where u': "url_Parse (s3_rawURL cli_demo ''b'' key []) = Some u'"
    "rq_RawQuery (wq_req q) = u_RawQuery u'" by (metis signS3Request_query unsigned_fields(4))
  then have "rq_RawQuery (wq_req q) = []" using u by simp
  then have "\<not> isPresigned (wq_req q)"
    by (simp add: isPresigned_def URL_Query_Get query_pairs_def query_piece_def)
  with q show ?thesis by blast
qed

lemma plain_no_collision:
  "no_collision (pf_hmac plain_platform k) d e" "no_collision (pf_sha256 plain_platform) d e" "pf_hmac plain_platform k d \<noteq> []"
  by (simp_all add: no_collision_def plain_platform_def)

lemma cli_demo_ready:
  "Lookup (bbolt_store ref_bolt) (cl_accessKey cli_demo) key_store1 = Inr root_record"
  "stamp_range (cl_now cli_demo)" "\<bar>demo_time - whole_seconds (cl_now cli_demo)\<bar> \<le> max_skew"
  "list_all isUnreserved (cl_accessKey cli_demo)" "cli_headers []" "ak_SigningKey root_record = cl_secretKey cli_demo"
proof -
  show "Lookup (bbolt_store ref_bolt) (cl_accessKey cli_demo) key_store1 = Inr root_record"
    unfolding cli_demo_facts by (rule ref.ms.Lookup_Some [OF key_store1_facts(2)]) (simp add: key_store1_facts(3) key_record_def)
  show "stamp_range (cl_now cli_demo)" "\<bar>demo_time - whole_seconds (cl_now cli_demo)\<bar> \<le> max_skew"
    using demo_range unfolding cli_demo_facts demo_whole by (simp_all add: demo_time_def max_skew_def second_ns_def)
  show "list_all isUnreserved (cl_accessKey cli_demo)" "cli_headers []" "ak_SigningKey root_record = cl_secretKey cli_demo"
    unfolding cli_demo_facts by (code_simp, simp_all add: cli_headers_def key_record_def)
qed

lemma cli_request_authenticated_witness:
  "(\<exists>q. build_s3_request cli_demo plain_platform ''PUT'' ''b'' ''a+(b)!'' [] [] CliNil 0 = Inr q \<and>
     Auth (bbolt_store ref_bolt) plain_platform (wq_req q) demo_time key_store1 = Authenticated (identity_of root_record)) \<and>
   (\<exists>q. build_s3_request cli_demo plain_platform ''PUT'' ''b'' ''my file'' [] [] CliNil 0 = Inr q \<and>
     Auth (bbolt_store ref_bolt) plain_platform (wq_req q) demo_time key_store1 \<noteq> Authenticated (identity_of root_record))"
proof -
  have "map_option u_RawQuery (url_Parse (s3_rawURL cli_demo ''b'' ''a+(b)!'' [])) = Some []"
    "map_option u_RawQuery (url_Parse (s3_rawURL cli_demo ''b'' ''my file'' [])) = Some []" by code_simp+
  then obtain u v where u: "url_Parse (s3_rawURL cli_demo ''b'' ''a+(b)!'' []) = Some u" "u_RawQuery u = []"
    "url_Parse (s3_rawURL cli_demo ''b'' ''my file'' []) = Some v" "u_RawQuery v = []" by auto
  from demo_request [OF u(1,2)] obtain q where
    q: "build_s3_request cli_demo plain_platform ''PUT'' ''b'' ''a+(b)!'' [] [] CliNil 0 = Inr q" "\<not> isPresigned (wq_req q)" by blast
  from demo_request [OF u(3,4)] obtain r where
    r: "build_s3_request cli_demo plain_platform ''PUT'' ''b'' ''my file'' [] [] CliNil 0 = Inr r" "\<not> isPresigned (wq_req r)" by blast
  have ok: "list_all (\<lambda>c. valid_encoded c \<and> c \<noteq> CHR ''%'') (s3_rawPath ''b'' ''a+(b)!'')"
    "\<not> list_all (\<lambda>c. valid_encoded c \<and> c \<noteq> CHR ''%'') (s3_rawPath ''b'' ''my file'')" by code_simp+
  have plain: "CHR ''?'' \<notin> set (s3_rawPath ''b'' ''a+(b)!'')" "CHR ''#'' \<notin> set (s3_rawPath ''b'' ''a+(b)!'')"
    "CHR ''?'' \<notin> set (s3_rawPath ''b'' ''my file'')" "CHR ''#'' \<notin> set (s3_rawPath ''b'' ''my file'')" by (simp_all add: s3_rawPath_def)
  from cli_request_authenticated [OF q(1) cli_demo_facts(1) cli_demo_ready(5) plain(1,2) cli_demo_ready(2-4) plain_no_collision(3)
      cli_demo_ready(1,6) q(2) plain_no_collision(2,1)] ok(1) q(1)
    cli_request_authenticated [OF r(1) cli_demo_facts(1) cli_demo_ready(5) plain(3,4) cli_demo_ready(2-4) plain_no_collision(3)
      cli_demo_ready(1,6) r(2) plain_no_collision(2,1)] ok(2) r(1)
  show ?thesis by blast
qed

section \<open>The admin API\<close>

text \<open>
  The admin server, as its router builds the group of routes that need a key: \<open>Auth\<close> in front of the
  handlers \<open>h\<close>; a rejection is a 403 whose body is no JSON document of any command, so any value \<open>j\<close>.
\<close>

definition admin_net :: "'m meta_store \<Rightarrow> platform \<Rightarrow> time \<Rightarrow>
    (admin_wire \<Rightarrow> VerifiedIdentity \<Rightarrow> 'm \<Rightarrow> (nat \<times> json_value) \<times> 'm) \<Rightarrow> json_value \<Rightarrow> 'm admin_network" where
  "admin_net M P now h j q m =
     (case Auth M P (aw_req q) now m of
        Rejected code reason \<Rightarrow> (Inr (403, j), m)
      | Authenticated ident \<Rightarrow> (case h q ident m of (resp, m') \<Rightarrow> (Inr resp, m')))"

lemma bearer_rejected:
  assumes "build_admin_request E verb path body = Inr q" and "server_address (cl_adminURL E) scheme host"
    and "path = CHR ''/'' # p" and "CHR ''?'' \<notin> set path" and "CHR ''#'' \<notin> set path"
  shows "\<exists>reason. Auth M P (aw_req q) now m = Rejected ''AccessDenied'' reason"
proof -
  obtain token u where q: "url_Parse (TrimRight (cl_adminURL E) ''/'' @ path) = Some u"
    "rq_RawQuery (aw_req q) = u_RawQuery u" "Header_Get (aw_req q) ''Authorization'' = ''Bearer '' @ token"
  proof -
    have "CanonicalHeaderKey ''Authorization'' \<noteq> CanonicalHeaderKey ''Content-Type''" by code_simp
    with assms(1) that show ?thesis
      by (auto simp: build_admin_request_def Let_def Header_Get_Set split: sum.splits option.splits if_splits)
  qed
  have "setPath (empty_url scheme host (drop 1 [])) (CHR ''/'' # p) = Some u"
    by (rule url_Parse_address [OF assms(2)]) (use assms(3-5) q(1) in simp_all)
  then have "u_RawQuery u = []" by (auto simp: setPath_def empty_url_def split: option.splits)
  then have "\<not> isPresigned (aw_req q)"
    using q(2) by (simp add: isPresigned_def URL_Query_Get query_pairs_def query_piece_def)
  moreover have "ExtractAccessKey (aw_req q) = []"
    by (simp add: ExtractAccessKey_def q(3) authHeaderPrefix_def)
  ultimately show ?thesis by (simp add: Auth_def)
qed

lemma adminDo_rejected:
  assumes "server_address (cl_adminURL E) scheme host" and "path = CHR ''/'' # p" and "CHR ''?'' \<notin> set path" and "CHR ''#'' \<notin> set path"
  shows "(\<exists>err. adminDo E (admin_net M P now h j) verb path body m = (Inl err, m)) \<or>
    adminDo E (admin_net M P now h j) verb path body m = (Inr (403, j), m)"
proof (cases "build_admin_request E verb path body")
  case (Inl err)
  then show ?thesis by (simp add: adminDo_def)
next
  case (Inr q)
  from bearer_rejected [OF this assms, of M P now m] obtain reason where "Auth M P (aw_req q) now m = Rejected ''AccessDenied'' reason" by blast
  with Inr show ?thesis by (simp add: adminDo_def admin_net_def)
qed

lemma adminJSON_rejected:
  assumes "server_address (cl_adminURL E) scheme host" and "path = CHR ''/'' # p" and "CHR ''?'' \<notin> set path" and "CHR ''#'' \<notin> set path"
  shows "\<exists>err. adminJSON decode E (admin_net M P now h j) verb path body m = (Inl err, m)"
  using adminDo_rejected [OF assms, of M P now h j verb body m] by (auto simp: adminJSON_def)

definition fails :: "'w command \<Rightarrow> 'w \<Rightarrow> bool" where
  "fails cmd w \<longleftrightarrow> (\<exists>err. cmd w = (failed err, w))"

lemma on_json_fails: "\<exists>err. f = (Inl err, m) \<Longrightarrow> \<exists>err. on_json k f = (failed err, m)"
  by (auto simp: on_json_def)

lemma start_job_fails:
  assumes "\<exists>err. adminJSON (json_string_of ''message'') E net ''POST'' path body m = (Inl err, m)"
  shows "\<exists>err. start_job n E net op path body status m = Some (failed err, m)"
  using assms by (auto simp: start_job_def)

text \<open>
  no command over the admin API ever does anything. The client sends a bearer token, and the server
  accepts nothing but a signature: whatever the token file, the key and the handlers are, creating, listing,
  deleting and rotating users, presigning, garbage collection, export and import all end with an error, and
  the state of the server is as before.
\<close>

theorem admin_commands_always_fail:
  fixes M :: "'m meta_store" and P now h j
  defines "net \<equiv> admin_net M P now h j"
  assumes "server_address (cl_adminURL E) scheme host" and "CHR ''?'' \<notin> set ak" and "CHR ''#'' \<notin> set ak"
    and "su_stat U dir = None" and "map upper_char verb = ''GET''"
  shows "fails (runUserCreate E net name) m \<and> fails (runUserList E net) m \<and> fails (runUserRotateKey E net ak) m \<and>
    fails (runUserDelete E net U True ak) m \<and> fails (runObjectPresign E net expires verb b k) m \<and>
    (\<exists>err. runAdminGC n E net U True m = Some (failed err, m)) \<and>
    (\<exists>err. runAdminExport n E net dir m = Some (failed err, m)) \<and>
    (\<exists>err. runAdminImport n E net U dir m = Some (failed err, m))"
proof -
  note j = adminJSON_rejected [OF assms(2), of _ _ _ M P now h j _ _ m, folded net_def]
  have "fails (runUserCreate E net name) m" "fails (runUserList E net) m" "fails (runUserRotateKey E net ak) m"
    unfolding fails_def runUserCreate_def runUserList_def runUserRotateKey_def
    by (rule on_json_fails, rule j, use assms(3,4) in simp_all)+
  moreover have "fails (runObjectPresign E net expires verb b k) m"
    unfolding fails_def runObjectPresign_def assms(6) Let_def by (simp, rule on_json_fails, rule j) simp_all
  moreover have "fails (runUserDelete E net U True ak) m"
    using adminDo_rejected [OF assms(2), of "''/admin/v1/users/'' @ ak" _ M P now h j "''DELETE''" None m, folded net_def] assms(3,4)
    by (auto simp: fails_def runUserDelete_def)
  moreover have "\<exists>err. start_job n E net op path body status m = Some (failed err, m)"
    if "path \<in> {''/admin/v1/gc'', ''/admin/v1/export'', ''/admin/v1/import''}" for op path body status
    using that by (intro start_job_fails j [where p = "tl path"]) auto
  ultimately show ?thesis
    using assms(5) by (simp add: runAdminGC_def runAdminExport_def runAdminImport_def)
qed

lemma admin_commands_always_fail_witness:
  "fails (runUserList cli_demo (admin_net (bbolt_store ref_bolt) plain_platform demo_time (\<lambda>q ident m. ((200, JArr []), m)) JNull)) key_store1"
proof -
  have "TrimRight ''http://h:9001'' ''/'' = ''http://h:9001''" "list_all host_byte ''h:9001''" "map upper_char ''get'' = ''GET''"
    by code_simp+
  then have a: "server_address (cl_adminURL cli_demo) ''http'' ''h:9001''" "map upper_char ''get'' = ''GET''"
    by (simp_all add: server_address_def cli_demo_def)
  have no: "CHR ''?'' \<notin> set ''AK''" "CHR ''#'' \<notin> set ''AK''"
    "su_stat \<lparr>su_open = \<lambda>_. Inr [], su_create = \<lambda>_. None, su_stat = \<lambda>_. None, su_stdin = [], su_answer = None, su_mimeType = \<lambda>_. []\<rparr> ''d'' = None"
    by simp_all
  show ?thesis
    by (rule admin_commands_always_fail [OF a(1) no a(2), THEN conjunct2, THEN conjunct1])
qed

text \<open>With \<open>--json\<close>, the secret of a new key is not printed, although it is shown only once.\<close>

lemma json_output_hides_secret: "cl_json E \<Longrightarrow> user_output E (ak, sk, owner) = [UserKey ak None owner]"
  by (simp add: user_output_def)

section \<open>Moving\<close>

text \<open>
  A move that reports success has sent two requests: a PUT of the destination that names the source, and a DELETE of
  the source. When both are one object, the DELETE is of what the PUT has just written.
\<close>

lemma s3Do_Inr:
  assumes "s3Do E P net verb b k query hs body len w = (Inr resp, w')"
  obtains q where "build_s3_request E P verb b k query hs body len = Inr q" and "net q w = (Inr resp, w')"
  using assms by (auto simp: s3Do_def split: sum.splits prod.splits)

lemma signed_method: "rq_Method (signS3Request P u ak sk date ts r) = rq_Method r" "rq_Path (signS3Request P u ak sk date ts r) = rq_Path r"
  by (simp_all add: signS3Request_def Let_def)

lemma build_target:
  assumes "build_s3_request E P verb b k [] hs body len = Inr q"
  shows "rq_Method (wq_req q) = verb" and "url_Parse (s3_rawURL E b k []) = Some (wq_url q)" and "rq_Path (wq_req q) = u_Path (wq_url q)"
  using build_s3_request_Inr [OF assms] by (metis signed_method unsigned_fields)+

lemma move_requests:
  assumes "move_object E P net sb sk db dk w = ((out, None), w2)"
  shows "\<exists>q1 resp1 w1 q2 resp2. net q1 w = (Inr resp1, w1) \<and> rs_Status resp1 < 400 \<and> rq_Method (wq_req q1) = ''PUT'' \<and>
    url_Parse (s3_rawURL E db dk []) = Some (wq_url q1) \<and>
    net q2 w1 = (Inr resp2, w2) \<and> rs_Status resp2 < 400 \<and> rq_Method (wq_req q2) = ''DELETE'' \<and>
    url_Parse (s3_rawURL E sb sk []) = Some (wq_url q2)"
proof -
  obtain out1 res w1 where d: "doCopyObject E P net sb sk db dk w = ((out1, res), w1)" by (metis prod.collapse)
  with assms have c: "doCopyObject E P net sb sk db dk w = ((out1, None), w1)"
    by (cases res) (simp_all add: move_object_def)
  obtain a1 v1 where s1: "s3Do E P net ''PUT'' db dk [] [(''x-amz-copy-source'', ''/'' @ sb @ ''/'' @ sk)] CliNil 0 w = (a1, v1)" by force
  from c s1 obtain resp1 where r1: "a1 = Inr resp1" "v1 = w1" "rs_Status resp1 < 400"
    unfolding doCopyObject_def on_success_def Let_def by (cases a1) (simp_all split: if_splits)
  obtain a2 v2 where s2: "s3Do E P net ''DELETE'' sb sk [] [] CliNil 0 w1 = (a2, v2)" by force
  from assms c s2 obtain resp2 where r2: "a2 = Inr resp2" "v2 = w2" "rs_Status resp2 < 400"
    unfolding move_object_def by (cases a2) (simp_all split: if_splits)
  obtain q1 where q1: "build_s3_request E P ''PUT'' db dk [] [(''x-amz-copy-source'', ''/'' @ sb @ ''/'' @ sk)] CliNil 0 = Inr q1"
    "net q1 w = (Inr resp1, w1)" using s3Do_Inr s1 [unfolded r1] by metis
  obtain q2 where q2: "build_s3_request E P ''DELETE'' sb sk [] [] CliNil 0 = Inr q2" "net q2 w1 = (Inr resp2, w2)"
    using s3Do_Inr s2 [unfolded r2] by metis
  show ?thesis using q1(2) q2(2) r1(3) r2(3) build_target [OF q1(1)] build_target [OF q2(1)] by blast
qed

lemma move_onto_itself:
  assumes "move_object E P net b k b k w = ((out, None), w2)"
  shows "\<exists>q1 resp1 w1 q2 resp2. net q1 w = (Inr resp1, w1) \<and> net q2 w1 = (Inr resp2, w2) \<and>
    rq_Method (wq_req q2) = ''DELETE'' \<and> wq_url q2 = wq_url q1"
  using move_requests [OF assms] by force

end
