(* ===== verification/Copy_Props.thy ===== *)
theory Copy_Props
  imports Engine_Props2
begin

text \<open>
  Copies and the encryption that is asked for: what \<open>CopyObject\<close> of internal/storage/object.go stores, and what
  a put stores while no master key is set, as in the server, which sets none.
\<close>

section \<open>Copying\<close>

lemma put_object_view_same [simp]: "mv_objects (put_object_view r w) (or_Bucket r) (or_Key r) = Some r"
  by (simp add: put_object_view_def)

context storage_engine
begin

lemma CopyObject_Inr:
  assumes i: "einv e" and n: "nulfree sb" and src: "mv_objects (mview e) sb sk = Some src"
    and g: "good sb (record_backend_key sk src)" "good db dk" and d: "dview e sb (record_backend_key sk src) = Some data"
    and o: "object_ok db dk" and c: "CopyObject M B env sb sk db dk owner e = (Inr r, e')"
  shows "einv e' \<and> e_masterKey e' = e_masterKey e \<and> dview e' = (dview e)(db := (dview e db)(dk \<mapsto> data)) \<and>
    mview e' = stats_view db 1 (or_Size r) (put_object_view r (mview e)) \<and> or_Bucket r = db \<and> or_Key r = dk \<and>
    or_ETag r = or_ETag src \<and> or_VersionID r = [] \<and> or_SSEEncryptedKey r = [] \<and> or_Size r = byte_count data \<and>
    or_UserMeta r = or_UserMeta src \<and> or_Owner r = owner"
proof -
  have ei: "sinv (e_meta e)" "binv (e_backend e)" using einvD [OF i] by simp_all
  note m = get_object_Some [OF ei(1) n src]
  obtain b1 where rd: "b_Read B (e_backend e) sb (record_backend_key sk src) = (reader_of data, b1)"
    using read_Some [OF ei(2) g(1) d] by (metis prod.collapse)
  note fr = read_frame [OF ei(2) g(1) rd]
  obtain res b2 where w: "b_Write B b1 db dk (reader_of data) (or_Size src) = (res, b2)" by force
  have ex: "m_BucketExists M (e_meta e) db = Inr True"
    using c bucket_exists [OF ei(1), of db] by (cases "mv_buckets (mview e) db = None") (simp_all add: CopyObject_def m)
  from c obtain k where k: "res = Inr k" by (cases res) (simp_all add: CopyObject_def m ex rd w)
  have wi: "binv b2" using write_inv [OF _ g(2) w] fr by blast
  have wo: "k = byte_count data" "bview b2 = (dview e)(db := (dview e db)(dk \<mapsto> data))"
    using write_ok [OF _ g(2) w [unfolded k]] fr by auto
  let ?r = "\<lparr>or_Bucket = db, or_Key = dk, or_VersionID = [], or_IsDeleteMarker = False, or_IsLatest = False, or_Size = k,
    or_ETag = or_ETag src, or_ContentType = or_ContentType src, or_LastModified = env_now env, or_Owner = owner,
    or_UserMeta = or_UserMeta src, or_StorageClass = ''STANDARD'', or_Tags = [], or_SSEAlgorithm = [], or_SSEEncryptedKey = []\<rparr>"
  let ?e1 = "e\<lparr>e_backend := b2\<rparr>"
  have e1: "einv ?e1" using i wi by (simp add: einv_backend)
  have pu: "wrote sinv view ((\<lambda>m. m_PutObject M m ?r) (e_meta ?e1)) (put_object_view ?r (mview e))"
    using put_object [OF ei(1), of ?r] o by simp
  from meta_write_ok [where w = "\<lambda>m. m_PutObject M m ?r" and wrap = "Wrap ''copy object: store''" and x = "()", OF e1 pu] obtain m1 where
    m1: "meta_write (\<lambda>m. m_PutObject M m ?r) (Wrap ''copy object: store'') () ?e1 = (Inr (), ?e1\<lparr>e_meta := m1\<rparr>)"
      "einv (?e1\<lparr>e_meta := m1\<rparr>)" "view m1 = put_object_view ?r (mview e)" by blast
  from stats_quiet [OF m1(2), of db 1 k] obtain m2 where
    m2: "meta_quiet (\<lambda>m. m_UpdateBucketStats M m db 1 k) (?e1\<lparr>e_meta := m1\<rparr>) = (?e1\<lparr>e_meta := m1\<rparr>)\<lparr>e_meta := m2\<rparr>"
      "einv ((?e1\<lparr>e_meta := m1\<rparr>)\<lparr>e_meta := m2\<rparr>)" "view m2 = stats_view db 1 k (put_object_view ?r (mview e))"
    using m1(3) by auto
  have "CopyObject M B env sb sk db dk owner e = (Inr ?r, (?e1\<lparr>e_meta := m1\<rparr>)\<lparr>e_meta := m2\<rparr>)"
    using m1(1) m2(1) by (simp add: CopyObject_def m ex rd w k Let_def)
  with c have "r = ?r" "e' = (?e1\<lparr>e_meta := m1\<rparr>)\<lparr>e_meta := m2\<rparr>" by simp_all
  with m2 wo show ?thesis by simp
qed

lemma copy_get:
  assumes i: "einv e" and n: "nulfree sb" and src: "mv_objects (mview e) sb sk = Some src" "or_SSEEncryptedKey src = []"
    and g: "good sb (record_backend_key sk src)" "good db dk" and d: "dview e sb (record_backend_key sk src) = Some data"
    and o: "object_ok db dk" and c: "CopyObject M B env sb sk db dk owner e = (Inr r, e')"
  shows "(\<exists>e0. GetObject M B P sb sk [] e = (Inr \<lparr>go_Record = src, go_Body = reader_of data\<rparr>, e0)) \<and>
    (\<exists>e2. GetObject M B P db dk [] e' = (Inr \<lparr>go_Record = r, go_Body = reader_of data\<rparr>, e2)) \<and>
    or_ETag r = or_ETag src \<and> or_UserMeta r = or_UserMeta src \<and> or_Size r = byte_count data \<and> or_Owner r = owner \<and>
    mview e' = (mview e)\<lparr>mv_objects := (mv_objects (mview e))(db := (mv_objects (mview e) db)(dk \<mapsto> r)),
      mv_buckets := (mv_buckets (mview e))(db := map_option (add_stats 1 (or_Size r)) (mv_buckets (mview e) db))\<rparr> \<and>
    dview e' = (dview e)(db := (dview e db)(dk \<mapsto> data)) \<and>
    ((sb, sk) \<noteq> (db, dk) \<longrightarrow>
      (\<exists>e2. GetObject M B P sb sk [] e' = (Inr \<lparr>go_Record = src, go_Body = reader_of data\<rparr>, e2)))"
proof -
  note c = CopyObject_Inr [OF i n src(1) g d o c]
  have r: "mv_objects (mview e') db dk = Some r"
    using c put_object_view_same [of r "mview e"] by (simp add: stats_view_def del: put_object_view_same)
  have key: "record_backend_key dk r = dk" using c by (simp add: record_backend_key_def)
  have db: "nulfree db" using o by (simp add: object_ok_def name_ok_def)
  have "dview e' db dk = Some data" using c by simp
  with GetObject_plain [OF conjunct1 [OF c] db r, of data P] c key g(2)
  have "\<exists>e2. GetObject M B P db dk [] e' = (Inr \<lparr>go_Record = r, go_Body = reader_of data\<rparr>, e2)" by simp
  moreover have "\<exists>e0. GetObject M B P sb sk [] e = (Inr \<lparr>go_Record = src, go_Body = reader_of data\<rparr>, e0)"
    using GetObject_plain [OF i n src(1) g(1) d, of P] src(2) by simp
  moreover have v: "mview e' = (mview e)\<lparr>mv_objects := (mv_objects (mview e))(db := (mv_objects (mview e) db)(dk \<mapsto> r)),
      mv_buckets := (mv_buckets (mview e))(db := map_option (add_stats 1 (or_Size r)) (mv_buckets (mview e) db))\<rparr>"
    using c by (simp add: stats_view_def put_object_view_def)
  moreover have "\<exists>e2. GetObject M B P sb sk [] e' = (Inr \<lparr>go_Record = src, go_Body = reader_of data\<rparr>, e2)"
    if "(sb, sk) \<noteq> (db, dk)"
  proof -
    have o: "mv_objects (mview e') sb sk = Some src" using src(1) that unfolding v by auto
    have "dview e' sb (record_backend_key sk src) = Some data" using c d by auto
    from GetObject_plain [OF conjunct1 [OF c] n o g(1) this, of P] show ?thesis using src(2) by simp
  qed
  ultimately show ?thesis using c by simp
qed

lemma CopyObject_progress:
  assumes i: "einv e" and n: "nulfree sb" and src: "mv_objects (mview e) sb sk = Some src"
    and b: "mv_buckets (mview e) db \<noteq> None" and o: "object_ok db dk" and g: "good db dk"
    and rd: "b_Read B (e_backend e) sb (record_backend_key sk src) = (reader_of data, b1)" "binv b1"
    and w: "b_Write B b1 db dk (reader_of data) (or_Size src) = (Inr k, b2)"
  shows "\<exists>r e'. CopyObject M B env sb sk db dk owner e = (Inr r, e')"
proof -
  have ei: "sinv (e_meta e)" using einvD [OF i] by simp
  have ex: "m_BucketExists M (e_meta e) db = Inr True" using bucket_exists [OF ei, of db] b by simp
  let ?r = "\<lparr>or_Bucket = db, or_Key = dk, or_VersionID = [], or_IsDeleteMarker = False, or_IsLatest = False, or_Size = k,
    or_ETag = or_ETag src, or_ContentType = or_ContentType src, or_LastModified = env_now env, or_Owner = owner,
    or_UserMeta = or_UserMeta src, or_StorageClass = ''STANDARD'', or_Tags = [], or_SSEAlgorithm = [], or_SSEEncryptedKey = []\<rparr>"
  have e1: "einv (e\<lparr>e_backend := b2\<rparr>)" using i write_inv [OF rd(2) g w] by (simp add: einv_backend)
  have "wrote sinv view ((\<lambda>m. m_PutObject M m ?r) (e_meta (e\<lparr>e_backend := b2\<rparr>))) (put_object_view ?r (mview e))"
    using put_object [OF ei, of ?r] o by simp
  from meta_write_ok [where w = "\<lambda>m. m_PutObject M m ?r" and wrap = "Wrap ''copy object: store''" and x = "()", OF e1 this] obtain m1 where
    "meta_write (\<lambda>m. m_PutObject M m ?r) (Wrap ''copy object: store'') () (e\<lparr>e_backend := b2\<rparr>) = (Inr (), (e\<lparr>e_backend := b2\<rparr>)\<lparr>e_meta := m1\<rparr>)"
    by blast
  then show ?thesis by (simp add: CopyObject_def get_object_Some [OF ei n src] ex rd(1) w Let_def)
qed

section \<open>A put without a master key\<close>

lemma put_without_master_key:
  assumes i: "einv e" and n: "put_ready good (mview e) env inp"
    and p: "PutObject M B P env inp e = (Inr out, e')" and mk: "e_masterKey e = None"
  shows "\<exists>bkt r. mv_buckets (mview e) (pi_Bucket inp) = Some bkt \<and>
    po_SSEAlgorithm out = (if pi_SSEAlgorithm inp = [] then br_SSEAlgorithm bkt else pi_SSEAlgorithm inp) \<and>
    mv_objects (mview e') (pi_Bucket inp) (pi_Key inp) = Some r \<and> or_SSEAlgorithm r = po_SSEAlgorithm out \<and>
    dview e' (pi_Bucket inp) (record_backend_key (pi_Key inp) r) = Some (rd_data (pi_Body inp))"
proof -
  obtain bkt body alg ek vid bk r where
    b: "mv_buckets (mview e) (pi_Bucket inp) = Some bkt"
    and s: "applySSE P (e_masterKey e) (env_rand env) inp (br_SSEAlgorithm bkt) = Inr (body, alg, ek)"
    and v: "(vid, bk) = resolveVersioning env (pi_Key inp) (br_Versioning bkt)"
    and r: "r = put_record P env inp bkt vid alg ek (rd_data body) (byte_count (rd_data body))"
    and e': "dview e' = (dview e)(pi_Bucket inp := (dview e (pi_Bucket inp))(bk \<mapsto> rd_data body))"
      "mview e' = put_view bkt r (fst (delta bkt r (mview e))) (snd (delta bkt r (mview e))) (mview e)"
    and out: "out = \<lparr>po_ETag = or_ETag r, po_VersionID = vid, po_LastModified = env_now env,
            po_Size = or_Size r, po_SSEAlgorithm = alg\<rparr>"
    using PutObject_Inr [OF i n p] by blast
  have body: "body = pi_Body inp" "alg = (if pi_SSEAlgorithm inp = [] then br_SSEAlgorithm bkt else pi_SSEAlgorithm inp)"
    using s mk by (auto simp: applySSE_def Let_def)
  have rr: "or_Bucket r = pi_Bucket inp" "or_Key r = pi_Key inp" "or_VersionID r = vid" "or_SSEAlgorithm r = alg" using r by simp_all
  have o: "mv_objects (mview e') (pi_Bucket inp) (pi_Key inp) = Some r"
    using e'(2) rr mv_put_view(1) [of bkt r] by simp
  have bk: "record_backend_key (pi_Key inp) r = bk"
    using v rr put_readyD [OF n b] by (auto simp: record_backend_key_def resolveVersioning_def put_names_def split: if_splits)
  show ?thesis
    by (intro exI [of _ bkt] exI [of _ r] conjI) (use b out body(2) o rr(4) e'(1) bk body(1) in auto)
qed

end

section \<open>Properties\<close>

text \<open>
  C29: a copy is what was copied, and nothing else changes: after a successful \<open>CopyObject\<close> of an object that is
  not encrypted, the destination is read back with the bytes, the ETag and the user metadata that reading the source
  gave, under the owner of the caller. The one file that is written is the destination's, the one object record that
  is written is the destination's, no version, upload, part or access key changes, and of the buckets only the
  destination's, whose statistics count one more object, even when the destination existed. So the source, unless it
  is the destination, is read after the copy as before.
\<close>

theorem copy_then_get:
  assumes "bolt_db K kinv" and "engine_ok K kinv e" and "nulfree sb"
    and "mv_objects (records K e) sb sk = Some src" and "or_SSEEncryptedKey src = []"
    and "localfs_good sb (record_backend_key sk src)" and "localfs_good db dk"
    and "files e sb (record_backend_key sk src) = Some data" and "object_ok db dk"
    and "CopyObject (bbolt_store K) localfs_backend env sb sk db dk owner e = (Inr r, e')"
  shows "(\<exists>e0. GetObject (bbolt_store K) localfs_backend P sb sk [] e = (Inr \<lparr>go_Record = src, go_Body = reader_of data\<rparr>, e0)) \<and>
    (\<exists>e2. GetObject (bbolt_store K) localfs_backend P db dk [] e' = (Inr \<lparr>go_Record = r, go_Body = reader_of data\<rparr>, e2)) \<and>
    or_ETag r = or_ETag src \<and> or_UserMeta r = or_UserMeta src \<and> or_Size r = byte_count data \<and> or_Owner r = owner \<and>
    records K e' = (records K e)\<lparr>mv_objects := (mv_objects (records K e))(db := (mv_objects (records K e) db)(dk \<mapsto> r)),
      mv_buckets := (mv_buckets (records K e))(db := map_option (add_stats 1 (or_Size r)) (mv_buckets (records K e) db))\<rparr> \<and>
    files e' = (files e)(db := (files e db)(dk \<mapsto> data)) \<and>
    ((sb, sk) \<noteq> (db, dk) \<longrightarrow>
      (\<exists>e2. GetObject (bbolt_store K) localfs_backend P sb sk [] e' = (Inr \<lparr>go_Record = src, go_Body = reader_of data\<rparr>, e2)))"
  by (rule storage_engine.copy_get [OF server_engine [OF assms(1)] assms(2-)])

lemma demo2_source:
  obtains src where "mv_objects (records ref_bolt demo2) ''bkt'' ''dir/a'' = Some src" and "or_SSEEncryptedKey src = []"
    and "record_backend_key ''dir/a'' src = ''dir/a''" and "files demo2 ''bkt'' ''dir/a'' = Some ''hello''"
proof -
  have names: "pi_Bucket demo_put = ''bkt''" "pi_Key demo_put = ''dir/a''" "pi_Body demo_put = reader_of ''hello''" "pi_SSEAlgorithm demo_put = []"
    by (simp_all add: demo_put_def)
  obtain bkt body alg ek vid bk r where
    b: "mv_buckets (records ref_bolt demo1) (pi_Bucket demo_put) = Some bkt"
    and s: "applySSE demo_platform (e_masterKey demo1) (env_rand demo_env) demo_put (br_SSEAlgorithm bkt) = Inr (body, alg, ek)"
    and v: "(vid, bk) = resolveVersioning demo_env (pi_Key demo_put) (br_Versioning bkt)"
    and r: "r = put_record demo_platform demo_env demo_put bkt vid alg ek (rd_data body) (byte_count (rd_data body))"
    and e': "files demo2 = (files demo1)(pi_Bucket demo_put := (files demo1 (pi_Bucket demo_put))(bk \<mapsto> rd_data body))"
      "records ref_bolt demo2 = put_view bkt r (fst (delta bkt r (records ref_bolt demo1))) (snd (delta bkt r (records ref_bolt demo1))) (records ref_bolt demo1)"
    using eng.PutObject_Inr [OF demo1_ok(1) demo_put_ready(1) demo2_put] by blast
  have bkt: "bkt = new_bucket demo_env ''bkt'' ''o'' ''r''" using b demo1_ok(2) names by simp
  then have "vid = []" "bk = ''dir/a''" "ek = []" "body = reader_of ''hello''"
    using v s names by (auto simp: resolveVersioning_def new_bucket_def applySSE_def Let_def)
  moreover have "or_Bucket r = ''bkt''" "or_Key r = ''dir/a''" "or_VersionID r = vid" "or_SSEEncryptedKey r = ek" using r names by simp_all
  ultimately show ?thesis
    using e' mv_put_view(1) [of bkt r] names by (intro that [of r]) (simp_all add: record_backend_key_def)
qed

lemma demo_copy: "\<exists>r e'. CopyObject (bbolt_store ref_bolt) localfs_backend demo_env ''bkt'' ''dir/a'' ''bkt'' ''copy'' ''me'' demo2 = (Inr r, e')"
proof -
  obtain src where src: "mv_objects (records ref_bolt demo2) ''bkt'' ''dir/a'' = Some src"
    "record_backend_key ''dir/a'' src = ''dir/a''" "files demo2 ''bkt'' ''dir/a'' = Some ''hello''" by (rule demo2_source)
  have good: "localfs_good ''bkt'' ''copy''" "localfs_good ''bkt'' ''dir/a''" by code_simp+
  have inv: "lfs_inv (e_backend demo2)" using demo2_facts(1) by (simp add: engine_inv_def)
  have read: "b_Read localfs_backend s b k = (fst (b_Read localfs_backend s b k), s)" for s b k
    by (simp add: localfs_backend_def)
  from lfs.read_Some [OF inv good(2) src(3)] read [of "e_backend demo2" "''bkt''" "''dir/a''"]
  have rd: "b_Read localfs_backend (e_backend demo2) ''bkt'' (record_backend_key ''dir/a'' src) = (reader_of ''hello'', e_backend demo2)"
    by (simp add: src(2))
  have ready: "write_ready (e_backend demo2) ''bkt'' ''copy''"
    unfolding demo2_backend copy_fs_def demo1_create
    by (rule write_readyI [OF _ _ _ refl]) code_simp+
  obtain s' where w: "b_Write localfs_backend (e_backend demo2) ''bkt'' ''copy'' (reader_of ''hello'') (or_Size src) = (Inr 5, s')"
    using localfs_Write_progress [OF inv good(1) _ ready, of "reader_of ''hello''" "or_Size src"] by (auto simp: localfs_backend_def byte_count_def)
  have o: "object_ok ''bkt'' ''copy''" by (simp add: object_ok_def name_ok_def nulfree_def max_key_size_def)
  have "mv_buckets (records ref_bolt demo2) ''bkt'' \<noteq> None" using demo2_facts(3) by auto
  from eng.CopyObject_progress [OF demo2_facts(1) _ src(1) this o good(1) rd inv w] show ?thesis by (simp add: nulfree_def)
qed

lemma copy_then_get_witness:
  "\<exists>r e' e2 src e3. CopyObject (bbolt_store ref_bolt) localfs_backend demo_env ''bkt'' ''dir/a'' ''bkt'' ''copy'' ''me'' demo2 = (Inr r, e') \<and>
     GetObject (bbolt_store ref_bolt) localfs_backend demo_platform ''bkt'' ''copy'' [] e' = (Inr \<lparr>go_Record = r, go_Body = reader_of ''hello''\<rparr>, e2) \<and>
     or_Owner r = ''me'' \<and>
     GetObject (bbolt_store ref_bolt) localfs_backend demo_platform ''bkt'' ''dir/a'' [] e' = (Inr \<lparr>go_Record = src, go_Body = reader_of ''hello''\<rparr>, e3)"
proof -
  obtain src where src: "mv_objects (records ref_bolt demo2) ''bkt'' ''dir/a'' = Some src" "or_SSEEncryptedKey src = []"
    "record_backend_key ''dir/a'' src = ''dir/a''" "files demo2 ''bkt'' ''dir/a'' = Some ''hello''" by (rule demo2_source)
  obtain r e' where c: "CopyObject (bbolt_store ref_bolt) localfs_backend demo_env ''bkt'' ''dir/a'' ''bkt'' ''copy'' ''me'' demo2 = (Inr r, e')"
    using demo_copy by blast
  have good: "localfs_good ''bkt'' ''copy''" "localfs_good ''bkt'' (record_backend_key ''dir/a'' src)" unfolding src(3) by code_simp+
  have o: "object_ok ''bkt'' ''copy''" "nulfree ''bkt''" by (simp_all add: object_ok_def name_ok_def nulfree_def max_key_size_def)
  have d: "files demo2 ''bkt'' (record_backend_key ''dir/a'' src) = Some ''hello''" by (simp add: src)
  from copy_then_get [OF ref.bolt_db_axioms demo2_facts(1) o(2) src(1,2) good(2,1) d o(1) c, of demo_platform] c
  show ?thesis by blast
qed

text \<open>
  nothing is encrypted until a master key is set, and no code of the server sets one. A put that asks
  for encryption, by its header or by the default of the bucket, succeeds without it: the algorithm is
  recorded and answered as asked, whatever its name, and the file holds the bytes of the body as they are.
\<close>

theorem put_without_master_key_is_plain:
  assumes "bolt_db K kinv" and "engine_ok K kinv e" and "put_ready localfs_good (records K e) env inp"
    and "PutObject (bbolt_store K) localfs_backend P env inp e = (Inr out, e')" and "e_masterKey e = None"
  shows "\<exists>bkt r. mv_buckets (records K e) (pi_Bucket inp) = Some bkt \<and>
    po_SSEAlgorithm out = (if pi_SSEAlgorithm inp = [] then br_SSEAlgorithm bkt else pi_SSEAlgorithm inp) \<and>
    mv_objects (records K e') (pi_Bucket inp) (pi_Key inp) = Some r \<and> or_SSEAlgorithm r = po_SSEAlgorithm out \<and>
    files e' (pi_Bucket inp) (record_backend_key (pi_Key inp) r) = Some (rd_data (pi_Body inp))"
  by (rule storage_engine.put_without_master_key [OF server_engine [OF assms(1)] assms(2-)])

definition sse_put :: put_object_input where
  "sse_put = demo_put\<lparr>pi_SSEAlgorithm := ''AES256''\<rparr>"

lemma sse_put_runs: "\<exists>out e'. PutObject (bbolt_store ref_bolt) localfs_backend demo_platform demo_env sse_put demo1 = (Inr out, e')"
proof -
  have "localfs_good ''bkt'' ''dir/a''" by code_simp
  moreover have "lfs_inv (e_backend demo1)" using demo1_ok(1) by (simp add: engine_inv_def)
  ultimately obtain s' where "localfs_Write (e_backend demo1) ''bkt'' ''dir/a'' (reader_of ''hello'') 5 = (Inr 5, s')"
    using localfs_Write_progress [of "e_backend demo1" "''bkt''" "''dir/a''" "reader_of ''hello''" 5] demo_put_ready(2)
    by (auto simp: byte_count_def)
  moreover have "put_ready localfs_good (records ref_bolt demo1) demo_env sse_put"
    using demo_put_ready(1) by (simp add: put_ready_def put_names_def sse_put_def)
  ultimately show ?thesis
    using demo1_ok(2) demo1_create(4)
    by (intro eng.PutObject_progress [OF demo1_ok(1), where bkt = "new_bucket demo_env ''bkt'' ''o'' ''r''"
          and body = "reader_of ''hello''" and alg = "''AES256''" and ek = "[]" and m = 5])
      (auto simp: sse_put_def demo_put_def checkQuota_def new_bucket_def applySSE_def resolveVersioning_def localfs_backend_def)
qed

lemma put_without_master_key_is_plain_witness:
  "\<exists>out e' r. PutObject (bbolt_store ref_bolt) localfs_backend demo_platform demo_env sse_put demo1 = (Inr out, e') \<and>
     po_SSEAlgorithm out = ''AES256'' \<and> files e' ''bkt'' (record_backend_key ''dir/a'' r) = Some ''hello''"
proof -
  obtain out e' where p: "PutObject (bbolt_store ref_bolt) localfs_backend demo_platform demo_env sse_put demo1 = (Inr out, e')"
    using sse_put_runs by blast
  have "put_ready localfs_good (records ref_bolt demo1) demo_env sse_put"
    using demo_put_ready(1) by (simp add: put_ready_def put_names_def sse_put_def)
  from put_without_master_key_is_plain [OF ref.bolt_db_axioms demo1_ok(1) this p demo1_create(4)] p
  show ?thesis by (auto simp: sse_put_def demo_put_def)
qed

end
