(* ===== verification/Rate_Limiter.thy ===== *)
theory Rate_Limiter
  imports Complex_Main S3_Server
begin

text \<open>
  The token buckets of internal/api/middleware/ratelimit.go. The sources count tokens in \<open>float64\<close>; here
  they are rational numbers, so rounding is left out. A call reads the clock under the lock of its bucket, and
  the clock is monotonic: the times of the calls of one bucket do not decrease. The first call of a key
  reads it twice, which makes no difference to a full bucket.
\<close>

record token_bucket =
  tb_tokens :: rat
  tb_capacity :: rat
  tb_rate :: rat
  tb_lastFill :: time

definition newTokenBucket :: "rat \<Rightarrow> time \<Rightarrow> token_bucket" where
  "newTokenBucket rps now = \<lparr>tb_tokens = rps, tb_capacity = rps, tb_rate = rps, tb_lastFill = now\<rparr>"

definition seconds_since :: "time \<Rightarrow> time \<Rightarrow> rat" where
  "seconds_since t now = of_int (now - t) / of_int second_ns"

definition refill :: "time \<Rightarrow> token_bucket \<Rightarrow> token_bucket" where
  "refill now tb =
     (let tokens = tb_tokens tb + seconds_since (tb_lastFill tb) now * tb_rate tb
      in tb\<lparr>tb_lastFill := now, tb_tokens := (if tokens > tb_capacity tb then tb_capacity tb else tokens)\<rparr>)"

definition bucket_allow :: "time \<Rightarrow> token_bucket \<Rightarrow> bool \<times> token_bucket" where
  "bucket_allow now tb =
     (let tb' = refill now tb in
      if tb_tokens tb' \<ge> 1 then (True, tb'\<lparr>tb_tokens := tb_tokens tb' - 1\<rparr>) else (False, tb'))"

record limiter =
  rl_buckets :: "string \<rightharpoonup> token_bucket"
  rl_rps :: rat

definition newRateLimiter :: "rat \<Rightarrow> limiter" where
  "newRateLimiter rps = \<lparr>rl_buckets = Map.empty, rl_rps = rps\<rparr>"

definition bucket_of :: "limiter \<Rightarrow> string \<Rightarrow> time \<Rightarrow> token_bucket" where
  "bucket_of rl key now =
     (case rl_buckets rl key of Some tb \<Rightarrow> tb | None \<Rightarrow> newTokenBucket (rl_rps rl) now)"

definition limiter_allow :: "string \<Rightarrow> time \<Rightarrow> limiter \<Rightarrow> bool \<times> limiter" where
  "limiter_allow key now rl =
     (case bucket_allow now (bucket_of rl key now) of
        (ok, tb) \<Rightarrow> (ok, rl\<lparr>rl_buckets := (rl_buckets rl)(key \<mapsto> tb)\<rparr>))"

text \<open>
  The two limiters of the middleware, by address and by access key: the second is asked only for a request
  the first lets pass. \<open>verdict\<close> is what \<open>RateLimit\<close> of theory S3_Server takes as its parameter.
\<close>

record rate_limiters =
  ipLimiter :: limiter
  keyLimiter :: limiter

definition new_limiters :: "int \<Rightarrow> rate_limiters option" where
  "new_limiters rps =
     (if rps \<le> 0 then None
      else Some \<lparr>ipLimiter = newRateLimiter (of_int rps), keyLimiter = newRateLimiter (of_int rps)\<rparr>)"

definition limiters_allow :: "string \<Rightarrow> string option \<Rightarrow> time \<Rightarrow> rate_limiters \<Rightarrow> bool \<times> rate_limiters" where
  "limiters_allow ip accessKey now L =
     (case limiter_allow ip now (ipLimiter L) of
        (False, il) \<Rightarrow> (False, L\<lparr>ipLimiter := il\<rparr>)
      | (True, il) \<Rightarrow>
          (case accessKey of
             None \<Rightarrow> (True, L\<lparr>ipLimiter := il\<rparr>)
           | Some k \<Rightarrow>
               (case limiter_allow k now (keyLimiter L) of
                  (ok, kl) \<Rightarrow> (ok, L\<lparr>ipLimiter := il, keyLimiter := kl\<rparr>))))"

definition verdict :: "time \<Rightarrow> rate_limiters \<Rightarrow> string \<Rightarrow> string option \<Rightarrow> bool" where
  "verdict now L ip accessKey = fst (limiters_allow ip accessKey now L)"

text \<open>The calls of one limiter, in the order of their locks.\<close>

fun limiter_run :: "(string \<times> time) list \<Rightarrow> limiter \<Rightarrow> bool list \<times> limiter" where
  "limiter_run [] rl = ([], rl)"
| "limiter_run ((key, now) # cs) rl =
     (case limiter_allow key now rl of
        (ok, rl') \<Rightarrow> (case limiter_run cs rl' of (oks, rl'') \<Rightarrow> (ok # oks, rl'')))"

fun bucket_run :: "time list \<Rightarrow> token_bucket \<Rightarrow> bool list \<times> token_bucket" where
  "bucket_run [] tb = ([], tb)"
| "bucket_run (now # ts) tb =
     (case bucket_allow now tb of
        (ok, tb') \<Rightarrow> (case bucket_run ts tb' of (oks, tb'') \<Rightarrow> (ok # oks, tb'')))"

text \<open>How many of the calls of a key were admitted.\<close>

definition admitted :: "string \<Rightarrow> (string \<times> time) list \<Rightarrow> bool list \<Rightarrow> nat" where
  "admitted key cs oks = length (filter (\<lambda>((k, t), ok). k = key \<and> ok) (zip cs oks))"

section \<open>One bucket\<close>

definition bucket_ok :: "rat \<Rightarrow> token_bucket \<Rightarrow> bool" where
  "bucket_ok rps tb \<longleftrightarrow> tb_capacity tb = rps \<and> tb_rate tb = rps \<and> 0 \<le> tb_tokens tb \<and> tb_tokens tb \<le> rps"

lemma seconds_since_ge: "t \<le> now \<Longrightarrow> 0 \<le> seconds_since t now"
  by (simp add: seconds_since_def second_ns_def)

lemma seconds_since_trans: "seconds_since a b + seconds_since b c = seconds_since a c"
  by (simp add: seconds_since_def add_divide_distrib [symmetric] flip: of_int_add)

lemma refill_fields [simp]:
  "tb_lastFill (refill now tb) = now" "tb_capacity (refill now tb) = tb_capacity tb" "tb_rate (refill now tb) = tb_rate tb"
  by (simp_all add: refill_def Let_def)

lemma refill_le: "tb_tokens (refill now tb) \<le> tb_tokens tb + seconds_since (tb_lastFill tb) now * tb_rate tb"
  by (simp add: refill_def Let_def)

lemma refill_ok: "0 \<le> rps \<Longrightarrow> bucket_ok rps tb \<Longrightarrow> tb_lastFill tb \<le> now \<Longrightarrow> bucket_ok rps (refill now tb)"
  using seconds_since_ge [of "tb_lastFill tb" now] by (simp add: bucket_ok_def refill_def Let_def)

lemma bucket_allow_cases:
  assumes "bucket_allow now tb = (ok, tb')"
  shows "ok = (tb_tokens (refill now tb) \<ge> 1)" and "tb_tokens tb' = tb_tokens (refill now tb) - (if ok then 1 else 0)"
    and "tb_lastFill tb' = now" and "tb_capacity tb' = tb_capacity tb" and "tb_rate tb' = tb_rate tb"
  using assms by (auto simp: bucket_allow_def Let_def split: if_splits)

lemma bucket_allow_ok:
  assumes "0 \<le> rps" "bucket_ok rps tb" "tb_lastFill tb \<le> now" "bucket_allow now tb = (ok, tb')"
  shows "bucket_ok rps tb'"
proof -
  note c = bucket_allow_cases [OF assms(4)] and r = refill_ok [OF assms(1-3)]
  from c r assms(2) show ?thesis by (auto simp: bucket_ok_def)
qed

text \<open>What is admitted and what is left was there at the start or has come in since.\<close>

lemma bucket_run_budget:
  assumes "0 \<le> rps" and "bucket_ok rps tb" and "sorted (tb_lastFill tb # ts)" and "bucket_run ts tb = (oks, tb')"
  shows "of_nat (length (filter (\<lambda>b. b) oks)) + tb_tokens tb' \<le>
      tb_tokens tb + seconds_since (tb_lastFill tb) (tb_lastFill tb') * rps \<and> bucket_ok rps tb'"
  using assms(2-4)
proof (induction ts arbitrary: tb oks)
  case Nil
  then show ?case by (simp add: seconds_since_def)
next
  case (Cons now ts)
  obtain ok t1 where a: "bucket_allow now tb = (ok, t1)" by force
  obtain oks1 where r: "bucket_run ts t1 = (oks1, tb')" "oks = ok # oks1" using Cons.prems(3) a by (auto split: prod.splits)
  have le: "tb_lastFill tb \<le> now" and s: "sorted (now # ts)" using Cons.prems(2) by auto
  note c = bucket_allow_cases [OF a]
  have ok1: "bucket_ok rps t1" by (rule bucket_allow_ok [OF assms(1) Cons.prems(1) le a])
  from Cons.IH [OF ok1 _ r(1)] s c(3) have ih: "of_nat (length (filter (\<lambda>b. b) oks1)) + tb_tokens tb' \<le>
      tb_tokens t1 + seconds_since now (tb_lastFill tb') * rps" "bucket_ok rps tb'" by simp_all
  have "tb_tokens t1 + (if ok then 1 else 0) \<le> tb_tokens tb + seconds_since (tb_lastFill tb) now * rps"
    using c(2) refill_le [of now tb] Cons.prems(1) by (simp add: bucket_ok_def)
  moreover have "seconds_since (tb_lastFill tb) now * rps + seconds_since now (tb_lastFill tb') * rps =
      seconds_since (tb_lastFill tb) (tb_lastFill tb') * rps"
    by (simp add: distrib_right [symmetric] seconds_since_trans)
  ultimately show ?case using ih r(2) by (cases ok) simp_all
qed

lemma bucket_run_last: "bucket_run ts tb = (oks, tb') \<Longrightarrow> tb_lastFill tb' = last (tb_lastFill tb # ts)"
proof (induction ts arbitrary: tb oks)
  case (Cons now ts)
  obtain ok t1 where a: "bucket_allow now tb = (ok, t1)" by force
  then obtain oks1 where "bucket_run ts t1 = (oks1, tb')" using Cons.prems by (auto split: prod.splits)
  from Cons.IH [OF this] bucket_allow_cases(3) [OF a] show ?case by simp
qed simp

text \<open>A window of calls, whatever came before: the refill of its first call does not exceed the capacity.\<close>

lemma bucket_window:
  assumes "0 \<le> rps" and "bucket_ok rps tb" and "sorted (tb_lastFill tb # t # ts)" and "bucket_run (t # ts) tb = (oks, tb')"
  shows "of_nat (length (filter (\<lambda>b. b) oks)) \<le> rps + seconds_since t (last (t # ts)) * rps"
proof -
  have "refill t (refill t tb) = refill t tb" by (simp add: refill_def Let_def seconds_since_def)
  then have "bucket_run (t # ts) (refill t tb) = (oks, tb')" using assms(4) by (simp add: bucket_allow_def)
  note run = this
  have ok: "bucket_ok rps (refill t tb)" using refill_ok [OF assms(1,2)] assms(3) by simp
  have sorted: "sorted (tb_lastFill (refill t tb) # t # ts)" using assms(3) by simp
  note b = bucket_run_budget [OF assms(1) ok sorted run]
  have "tb_lastFill tb' = last (t # ts)" using bucket_run_last [OF run] by simp
  with b have "of_nat (length (filter (\<lambda>b. b) oks)) + tb_tokens tb' \<le> tb_tokens (refill t tb) + seconds_since t (last (t # ts)) * rps"
    by simp
  moreover have "0 \<le> tb_tokens tb'" "tb_tokens (refill t tb) \<le> rps" using b ok by (simp_all add: bucket_ok_def)
  ultimately show ?thesis by linarith
qed

section \<open>A limiter\<close>

text \<open>The calls of one key are those of one bucket.\<close>

definition times_of :: "string \<Rightarrow> (string \<times> time) list \<Rightarrow> time list" where
  "times_of key cs = map snd (filter (\<lambda>(k, t). k = key) cs)"

lemma times_of_simps [simp]:
  "times_of key [] = []" "times_of key ((k, t) # cs) = (if k = key then t # times_of key cs else times_of key cs)"
  by (simp_all add: times_of_def)

lemma admitted_simps [simp]:
  "admitted key [] oks = 0"
  "admitted key ((k, t) # cs) (ok # oks) = (if k = key \<and> ok then 1 else 0) + admitted key cs oks"
  by (simp_all add: admitted_def)

lemma limiter_allow_fields:
  assumes "limiter_allow k now rl = (ok, rl')"
  shows "rl_rps rl' = rl_rps rl" and "bucket_allow now (bucket_of rl k now) = (ok, the (rl_buckets rl' k))"
    and "rl_buckets rl' k \<noteq> None" and "key \<noteq> k \<Longrightarrow> rl_buckets rl' key = rl_buckets rl key"
  using assms by (auto simp: limiter_allow_def split: prod.splits)

lemma limiter_run_bucket:
  assumes "rl_buckets rl key = Some tb" and "limiter_run cs rl = (oks, rl')"
  shows "\<exists>boks tb'. bucket_run (times_of key cs) tb = (boks, tb') \<and> rl_buckets rl' key = Some tb' \<and>
    admitted key cs oks = length (filter (\<lambda>b. b) boks)"
  using assms
proof (induction cs arbitrary: rl tb oks)
  case (Cons c cs)
  obtain k now where c: "c = (k, now)" by force
  obtain ok rl1 where a: "limiter_allow k now rl = (ok, rl1)" by force
  obtain oks1 where r: "limiter_run cs rl1 = (oks1, rl')" "oks = ok # oks1"
    using Cons.prems(2) a by (auto simp: c split: prod.splits)
  note f = limiter_allow_fields [OF a]
  show ?case
  proof (cases "k = key")
    case True
    obtain t1 where t1: "rl_buckets rl1 key = Some t1" using f(3) True by auto
    have "bucket_allow now tb = (ok, t1)" using f(2) t1 Cons.prems(1) True by (simp add: bucket_of_def)
    with Cons.IH [OF t1 r(1)] r(2) True show ?thesis by (auto simp: c split: prod.splits)
  next
    case False
    then have "rl_buckets rl1 key = Some tb" using f(4) [of key] Cons.prems(1) by simp
    from Cons.IH [OF this r(1)] r(2) False show ?thesis by (simp add: c)
  qed
qed simp

definition limiter_ok :: "limiter \<Rightarrow> bool" where
  "limiter_ok rl \<longleftrightarrow> 0 \<le> rl_rps rl \<and> (\<forall>key tb. rl_buckets rl key = Some tb \<longrightarrow> bucket_ok (rl_rps rl) tb)"

text \<open>Nothing that happened lies after \<open>t\<close>.\<close>

definition limiter_until :: "time \<Rightarrow> limiter \<Rightarrow> bool" where
  "limiter_until t rl \<longleftrightarrow> (\<forall>key tb. rl_buckets rl key = Some tb \<longrightarrow> tb_lastFill tb \<le> t)"

lemma bucket_of_ok: "limiter_ok rl \<Longrightarrow> bucket_ok (rl_rps rl) (bucket_of rl key now)"
  by (auto simp: limiter_ok_def bucket_of_def newTokenBucket_def bucket_ok_def split: option.splits)

lemma bucket_of_until: "limiter_until t rl \<Longrightarrow> t \<le> now \<Longrightarrow> tb_lastFill (bucket_of rl key now) \<le> now"
  by (auto simp: limiter_until_def bucket_of_def newTokenBucket_def split: option.splits intro: order_trans)

lemma limiter_allow_ok:
  assumes "limiter_ok rl" "limiter_until t rl" "t \<le> now" "limiter_allow k now rl = (ok, rl')"
  shows "limiter_ok rl' \<and> limiter_until now rl'"
proof -
  note f = limiter_allow_fields [OF assms(4)]
  have b: "bucket_ok (rl_rps rl) (the (rl_buckets rl' k))"
    by (rule bucket_allow_ok [OF _ bucket_of_ok [OF assms(1)] bucket_of_until [OF assms(2,3)] f(2)]) (use assms(1) in \<open>simp add: limiter_ok_def\<close>)
  have l: "tb_lastFill (the (rl_buckets rl' k)) = now" by (rule bucket_allow_cases(3) [OF f(2)])
  have other: "rl_buckets rl' key = (if key = k then Some (the (rl_buckets rl' k)) else rl_buckets rl key)" for key
    using f(3,4) by auto
  show ?thesis
    using assms(1-3) f(1) b l unfolding limiter_ok_def limiter_until_def by (subst (1 2) other) (auto split: if_splits intro: order_trans)
qed

lemma limiter_run_ok:
  "limiter_ok rl \<Longrightarrow> limiter_until t rl \<Longrightarrow> sorted (t # map snd cs) \<Longrightarrow> limiter_run cs rl = (oks, rl') \<Longrightarrow>
   limiter_ok rl' \<and> limiter_until (last (t # map snd cs)) rl' \<and> rl_rps rl' = rl_rps rl"
proof (induction cs arbitrary: rl t oks)
  case (Cons c cs)
  obtain k now where c: "c = (k, now)" by force
  obtain ok rl1 where a: "limiter_allow k now rl = (ok, rl1)" by force
  then obtain oks1 where r: "limiter_run cs rl1 = (oks1, rl')" using Cons.prems(4) by (auto simp: c split: prod.splits)
  have t: "t \<le> now" and s: "sorted (now # map snd cs)" using Cons.prems(3) by (auto simp: c)
  note i = limiter_allow_ok [OF Cons.prems(1,2) t a]
  from Cons.IH [OF conjunct1 [OF i] conjunct2 [OF i] s r] limiter_allow_fields(1) [OF a] show ?case by (simp add: c)
qed simp

lemma seconds_since_mono: "a \<le> b \<Longrightarrow> b \<le> c \<Longrightarrow> c \<le> d \<Longrightarrow> seconds_since b c \<le> seconds_since a d"
  by (simp add: seconds_since_def second_ns_def divide_right_mono)

text \<open>A limiter with a full bucket for every key that has none acts the same.\<close>

definition opened :: "string \<Rightarrow> time \<Rightarrow> limiter \<Rightarrow> limiter" where
  "opened key t rl = rl\<lparr>rl_buckets := (rl_buckets rl)(key \<mapsto> bucket_of rl key t)\<rparr>"

lemma refill_new: "refill now (newTokenBucket rps t) = newTokenBucket rps now" if "0 \<le> rps" "t \<le> now"
  using mult_nonneg_nonneg [OF seconds_since_ge [OF that(2)] that(1)] by (auto simp: refill_def newTokenBucket_def Let_def)

lemma bucket_of_opened: "bucket_of (opened key t rl) k now = (if k = key then bucket_of rl key t else bucket_of rl k now)"
  by (simp add: opened_def bucket_of_def split: option.split)

lemma bucket_of_upd: "bucket_of (rl\<lparr>rl_buckets := (rl_buckets rl)(k \<mapsto> tb)\<rparr>) key t = (if key = k then tb else bucket_of rl key t)"
  by (simp add: bucket_of_def split: option.split)

lemma opened_upd:
  "(opened key t rl)\<lparr>rl_buckets := (rl_buckets (opened key t rl))(k \<mapsto> tb)\<rparr> = opened key t (rl\<lparr>rl_buckets := (rl_buckets rl)(k \<mapsto> tb)\<rparr>)"
  by (cases "key = k") (simp_all add: opened_def bucket_of_upd fun_upd_twist)

lemma limiter_allow_opened:
  assumes "limiter_ok rl" and "t \<le> now" and "limiter_allow k now rl = (ok, rl1)"
  shows "limiter_allow k now (opened key t rl) = (ok, opened key t rl1)"
proof -
  have "bucket_allow now (bucket_of rl key t) = bucket_allow now (bucket_of rl key now)"
    using assms(1,2) refill_new [of "rl_rps rl" t now] refill_new [of "rl_rps rl" now now]
    by (simp add: bucket_of_def bucket_allow_def limiter_ok_def split: option.split)
  then have "bucket_allow now (bucket_of (opened key t rl) k now) = bucket_allow now (bucket_of rl k now)"
    by (simp add: bucket_of_opened)
  then show ?thesis using assms(3) by (auto simp: limiter_allow_def opened_upd split: prod.splits)
qed

lemma limiter_run_opened:
  "limiter_ok rl \<Longrightarrow> limiter_until t0 rl \<Longrightarrow> sorted (t0 # map snd cs) \<Longrightarrow> t \<le> hd (map snd cs @ [t]) \<Longrightarrow> limiter_run cs rl = (oks, rl') \<Longrightarrow>
   fst (limiter_run cs (opened key t rl)) = oks"
proof (induction cs arbitrary: rl t0 oks)
  case (Cons c cs)
  obtain k now where c: "c = (k, now)" by force
  obtain ok rl1 where a: "limiter_allow k now rl = (ok, rl1)" by force
  then obtain oks1 where r: "limiter_run cs rl1 = (oks1, rl')" "oks = ok # oks1" using Cons.prems(5) by (auto simp: c split: prod.splits)
  have t: "t0 \<le> now" "t \<le> now" and s: "sorted (now # map snd cs)" using Cons.prems(3,4) by (auto simp: c)
  note i = limiter_allow_ok [OF Cons.prems(1,2) t(1) a]
  have "t \<le> hd (map snd cs @ [t])" using s t(2) by (cases cs) auto
  from Cons.IH [OF conjunct1 [OF i] conjunct2 [OF i] s this r(1)] limiter_allow_opened [OF Cons.prems(1) t(2) a, of key] r(2)
  show ?case by (auto simp: c split: prod.splits)
qed simp

lemma times_of_sorted: "sorted (map snd cs) \<Longrightarrow> sorted (times_of key cs)"
  by (induction cs) (auto simp: times_of_def)

lemma sorted_le_last: "sorted xs \<Longrightarrow> x \<in> set xs \<Longrightarrow> x \<le> last xs" for xs :: "int list"
  by (induction xs) (auto dest: last_in_set)

lemma limiter_window:
  assumes ok: "limiter_ok rl" and until: "limiter_until t0 rl" and sorted: "sorted (t0 # map snd cs)" and run: "limiter_run cs rl = (oks, rl')"
    and ne: "cs \<noteq> []"
  shows "of_nat (admitted key cs oks) \<le> rl_rps rl + seconds_since (snd (hd cs)) (snd (last cs)) * rl_rps rl"
proof (cases "times_of key cs")
  case Nil
  have rps: "0 \<le> rl_rps rl" using ok by (simp add: limiter_ok_def)
  have "snd (hd cs) \<le> snd (last cs)" using sorted ne by (cases cs) (auto simp: last_in_set)
  then have nn: "0 \<le> rl_rps rl + seconds_since (snd (hd cs)) (snd (last cs)) * rl_rps rl"
    using rps seconds_since_ge by simp
  have "admitted key cs oks = 0"
    unfolding admitted_def using Nil by (auto simp: times_of_def filter_empty_conv dest: set_zip_leftD)
  with nn show ?thesis by simp
next
  case (Cons u us)
  let ?t = "snd (hd cs)" and ?rl = "opened key (snd (hd cs)) rl"
  have tt: "?t \<le> hd (map snd cs @ [?t])" using ne by (cases cs) auto
  have t0: "t0 \<le> ?t" using sorted ne by (cases cs) auto
  obtain rl2 where run': "limiter_run cs ?rl = (oks, rl2)"
    using limiter_run_opened [OF ok until sorted tt run] by (metis prod.collapse)
  have b: "rl_buckets ?rl key = Some (bucket_of rl key ?t)" by (simp add: opened_def)
  obtain boks tb' where bo: "bucket_run (u # us) (bucket_of rl key ?t) = (boks, tb')"
    "admitted key cs oks = length (filter (\<lambda>b. b) boks)"
    using limiter_run_bucket [OF b run'] Cons by auto
  have s: "sorted (u # us)" using times_of_sorted [of cs key] sorted Cons by simp
  have set: "set (u # us) \<subseteq> snd ` set cs" unfolding Cons [symmetric] by (auto simp: times_of_def)
  have ge: "\<forall>x \<in> snd ` set cs. ?t \<le> x" using sorted ne by (cases cs) auto
  have le: "\<forall>x \<in> snd ` set cs. x \<le> snd (last cs)"
  proof -
    have "sorted (map snd cs)" using sorted by simp
    then have "\<forall>x \<in> set (map snd cs). x \<le> last (map snd cs)" using sorted_le_last by blast
    then show ?thesis using ne by (simp add: last_map)
  qed
  have "tb_lastFill (bucket_of rl key ?t) \<le> ?t" by (rule bucket_of_until [OF until t0])
  then have "sorted (tb_lastFill (bucket_of rl key ?t) # u # us)" using s ge set by force
  from bucket_window [OF _ bucket_of_ok [OF ok] this bo(1)] ok
  have "of_nat (admitted key cs oks) \<le> rl_rps rl + seconds_since u (last (u # us)) * rl_rps rl"
    unfolding bo(2) by (simp add: limiter_ok_def)
  moreover have "seconds_since u (last (u # us)) \<le> seconds_since ?t (snd (last cs))"
  proof (rule seconds_since_mono)
    show "?t \<le> u" using ge set by auto
    show "u \<le> last (u # us)" using s by (cases us rule: rev_cases) auto
    show "last (u # us) \<le> snd (last cs)" using le set last_in_set [of "u # us"] by blast
  qed
  then have "seconds_since u (last (u # us)) * rl_rps rl \<le> seconds_since ?t (snd (last cs)) * rl_rps rl"
    using ok by (intro mult_right_mono) (simp_all add: limiter_ok_def)
  ultimately show ?thesis by linarith
qed

lemma new_limiter_ok: "0 \<le> rps \<Longrightarrow> limiter_ok (newRateLimiter rps) \<and> limiter_until t (newRateLimiter rps)"
  by (simp add: limiter_ok_def limiter_until_def newRateLimiter_def)

section \<open>Properties\<close>

text \<open>
  C30: the limiter bounds the rate of every key: after any history, within any window of calls, at most the burst
  of one second and the configured rate times the length of the window is admitted for one address or access
  key, however the calls of other keys are interleaved with it.
\<close>

theorem rate_is_bounded:
  assumes "0 < rps" and "limiter_run history (newRateLimiter rps) = (oks0, rl)" and "limiter_run window rl = (oks, rl')"
    and "sorted (map snd (history @ window))" and "window \<noteq> []"
  shows "of_nat (admitted key window oks) \<le> rps + seconds_since (snd (hd window)) (snd (last window)) * rps"
proof -
  let ?first = "snd (hd (history @ window))"
  let ?t = "last (?first # map snd history)"
  have s0: "sorted (?first # map snd history)" using assms(4) by (cases history) (auto simp: sorted_append)
  have n: "limiter_ok (newRateLimiter rps)" "limiter_until ?first (newRateLimiter rps)" using new_limiter_ok [of rps] assms(1) by simp_all
  from limiter_run_ok [OF n s0 assms(2)] have
    i: "limiter_ok rl" "limiter_until ?t rl" "rl_rps rl = rps" by (simp_all add: newRateLimiter_def)
  have "sorted (?t # map snd window)"
  proof (cases "history = []")
    case True
    then show ?thesis using assms(4,5) by (cases window) auto
  next
    case False
    then have t: "?t = last (map snd history)" "last (map snd history) \<in> set (map snd history)" by (simp, intro last_in_set) simp
    then show ?thesis using assms(4) unfolding t(1) map_append sorted_append by fastforce
  qed
  from limiter_window [OF i(1,2) this assms(3,5)] i(3) show ?thesis by simp
qed

lemma rate_is_bounded_witness:
  "fst (limiter_run [(''a'', 0), (''b'', 1), (''a'', 2), (''a'', 3), (''a'', 500000000), (''a'', 1500000000)] (newRateLimiter 2)) =
     [True, True, True, False, True, True] \<and>
   of_nat (admitted ''a'' [(''a'', 500000000), (''a'', 1500000000)] [True, True]) \<le> (2 :: rat) + seconds_since 500000000 1500000000 * 2"
proof
  let ?h = "[(''a'', 0), (''b'', 1), (''a'', 2), (''a'', 3)]" and ?w = "[(''a'', 500000000), (''a'', 1500000000)]"
  have h: "limiter_run ?h (newRateLimiter 2) = (fst (limiter_run ?h (newRateLimiter 2)), snd (limiter_run ?h (newRateLimiter 2)))" by simp
  show run: "fst (limiter_run [(''a'', 0), (''b'', 1), (''a'', 2), (''a'', 3), (''a'', 500000000), (''a'', 1500000000)] (newRateLimiter 2)) =
     [True, True, True, False, True, True]"
    by (simp add: newRateLimiter_def limiter_allow_def bucket_of_def newTokenBucket_def bucket_allow_def refill_def Let_def seconds_since_def second_ns_def)
  have w: "fst (limiter_run ?w (snd (limiter_run ?h (newRateLimiter 2)))) = [True, True]"
    by (simp add: newRateLimiter_def limiter_allow_def bucket_of_def newTokenBucket_def bucket_allow_def refill_def Let_def seconds_since_def second_ns_def)
  show "of_nat (admitted ''a'' ?w [True, True]) \<le> (2 :: rat) + seconds_since 500000000 1500000000 * 2"
  proof -
    obtain rl' where "limiter_run ?w (snd (limiter_run ?h (newRateLimiter 2))) = ([True, True], rl')" using w by (metis prod.collapse)
    from rate_is_bounded [OF _ h this, of "''a''"] show ?thesis by (simp del: limiter_run.simps)
  qed
qed

text \<open>
  C31: a client that keeps to the rate is never refused: the first call of a key is admitted, and so is every
  call at least the reciprocal of the rate after the one before it.
\<close>

theorem patient_client_admitted:
  assumes "1 \<le> rps" and "limiter_run history (newRateLimiter rps) = (oks0, rl)" and "sorted (map snd (history @ [(key, now)]))"
    and "\<forall>t. (key, t) \<in> set history \<longrightarrow> 1 \<le> seconds_since t now * rps"
  shows "fst (limiter_allow key now rl)"
proof -
  let ?first = "snd (hd (history @ [(key, now)]))"
  have s0: "sorted (?first # map snd history)" using assms(3) by (cases history) (auto simp: sorted_append)
  have n: "limiter_ok (newRateLimiter rps)" "limiter_until ?first (newRateLimiter rps)" using new_limiter_ok [of rps] assms(1) by simp_all
  from limiter_run_ok [OF n s0 assms(2)] have i: "limiter_ok rl" "rl_rps rl = rps" by (simp_all add: newRateLimiter_def)
  have called: "\<forall>tb. rl_buckets rl key = Some tb \<longrightarrow> (key, tb_lastFill tb) \<in> set history"
  proof -
    have "\<forall>tb. rl_buckets rl' key = Some tb \<longrightarrow> (key, tb_lastFill tb) \<in> set cs \<or> rl_buckets rl0 key = Some tb"
      if "limiter_run cs rl0 = (oks, rl')" for cs oks rl0 rl'
      using that
    proof (induction cs arbitrary: rl0 oks)
      case (Cons c cs)
      obtain k u where c: "c = (k, u)" by force
      obtain ok rl1 where a: "limiter_allow k u rl0 = (ok, rl1)" by force
      then obtain oks1 where r: "limiter_run cs rl1 = (oks1, rl')" using Cons.prems by (auto simp: c split: prod.splits)
      note f = limiter_allow_fields [OF a]
      have "tb_lastFill (the (rl_buckets rl1 k)) = u" by (rule bucket_allow_cases(3) [OF f(2)])
      with Cons.IH [OF r] f(3) f(4) [of key] show ?case by (cases "k = key") (auto simp: c)
    qed simp
    from this [OF assms(2)] show ?thesis by (simp add: newRateLimiter_def)
  qed
  let ?tb = "bucket_of rl key now"
  have "1 \<le> tb_tokens (refill now ?tb)"
  proof (cases "rl_buckets rl key")
    case None
    then show ?thesis using assms(1) i(2) refill_new [of rps now now] by (simp add: bucket_of_def newTokenBucket_def)
  next
    case (Some tb)
    then have "1 \<le> seconds_since (tb_lastFill tb) now * rps" "bucket_ok rps tb" using called assms(4) i by (auto simp: limiter_ok_def)
    then show ?thesis using assms(1) Some by (simp add: bucket_of_def refill_def Let_def bucket_ok_def)
  qed
  then show ?thesis by (simp add: limiter_allow_def bucket_allow_def Let_def split: prod.split)
qed

lemma patient_client_admitted_witness:
  "fst (limiter_allow ''a'' 1000000000 (snd (limiter_run [(''a'', 0), (''b'', 999999999), (''b'', 999999999)] (newRateLimiter 1))))"
proof -
  let ?h = "[(''a'', 0), (''b'', 999999999), (''b'', 999999999)] :: (string \<times> time) list"
  have "limiter_run ?h (newRateLimiter 1) = (fst (limiter_run ?h (newRateLimiter 1)), snd (limiter_run ?h (newRateLimiter 1)))" by simp
  from patient_client_admitted [OF _ this, of "''a''" 1000000000] show ?thesis
    by (simp add: seconds_since_def second_ns_def)
qed

text \<open>
  A bucket is never removed: the limiter remembers every address and key it has seen, and an address it has not seen is
  admitted, whatever happened before.
\<close>

lemma limiter_never_forgets: "limiter_run cs rl = (oks, rl') \<Longrightarrow> dom (rl_buckets rl') = dom (rl_buckets rl) \<union> fst ` set cs"
proof (induction cs arbitrary: rl oks)
  case (Cons c cs)
  obtain k u where c: "c = (k, u)" by force
  obtain ok rl1 where a: "limiter_allow k u rl = (ok, rl1)" by force
  then obtain oks1 where r: "limiter_run cs rl1 = (oks1, rl')" using Cons.prems by (auto simp: c split: prod.splits)
  have "dom (rl_buckets rl1) = insert k (dom (rl_buckets rl))" using a by (auto simp: limiter_allow_def split: prod.splits)
  with Cons.IH [OF r] show ?case by (simp add: c)
qed simp

lemma fresh_address_admitted:
  assumes "limiter_ok rl" and "1 \<le> rl_rps rl" and "rl_buckets rl key = None"
  shows "fst (limiter_allow key now rl)"
  using assms refill_new [of "rl_rps rl" now now]
  by (simp add: limiter_allow_def bucket_of_def bucket_allow_def newTokenBucket_def Let_def split: prod.split)

end
