(* ===== verification/Audit_Log.thy ===== *)
theory Audit_Log
  imports S3_Server
begin

text \<open>
  The audit log: the writer (internal/audit/audit.go) and the query of the admin API over the file it writes
  (internal/api/admin/audit_handler.go). A line of JSON is what \<open>mar\<close> makes of an event, if it can, and \<open>unm\<close> reads
  it back. Whether a write reaches the disk is not looked at by the code: a write appends. The time of a
  record without one is \<open>None\<close>.
\<close>

section \<open>Writing\<close>

record log_entry = audit_event +
  ae_Time :: time
  ae_Bytes :: int64
  ae_DurationMS :: int64
  ae_Error :: string

datatype audit_sink = DiscardSink | SyslogSink | FileSink

text \<open>An open logger with the bytes of its file and the datagrams it has sent. A nil logger is \<open>None\<close>.\<close>

record audit_logger =
  al_sink :: audit_sink
  al_file :: bytes
  al_sent :: "bytes list"

text \<open>\<open>dial\<close> connects to a syslog server, \<open>open\<close> opens a file to append to and gives what is in it.\<close>

definition audit_New :: "(string \<Rightarrow> err option) \<Rightarrow> (string \<Rightarrow> bytes result) \<Rightarrow> string \<Rightarrow> audit_logger result" where
  "audit_New dial opn path =
     (if path = [] then Inr \<lparr>al_sink = DiscardSink, al_file = [], al_sent = []\<rparr>
      else if HasPrefix path ''syslog://'' then
        (case dial (TrimPrefix path ''syslog://'') of
           Some err \<Rightarrow> Inl (Wrap (''audit: connect to syslog '' @ TrimPrefix path ''syslog://'') err)
         | None \<Rightarrow> Inr \<lparr>al_sink = SyslogSink, al_file = [], al_sent = []\<rparr>)
      else
        (case opn path of
           Inl err \<Rightarrow> Inl (Wrap (''audit: open log file '' @ path) err)
         | Inr old \<Rightarrow> Inr \<lparr>al_sink = FileSink, al_file = old, al_sent = []\<rparr>))"

definition audit_Log :: "(log_entry \<Rightarrow> bytes option) \<Rightarrow> time \<Rightarrow> log_entry \<Rightarrow> audit_logger option \<Rightarrow> audit_logger option" where
  "audit_Log mar now e l =
     (case l of
        None \<Rightarrow> None
      | Some lg \<Rightarrow>
          (case mar (e\<lparr>ae_Time := now\<rparr>) of
             None \<Rightarrow> Some lg
           | Some data \<Rightarrow>
               let line = data @ [CHR 0x0A] in
               Some (case al_sink lg of
                       SyslogSink \<Rightarrow> lg\<lparr>al_sent := al_sent lg @ [''<14>sangraha audit: '' @ line]\<rparr>
                     | FileSink \<Rightarrow> lg\<lparr>al_file := al_file lg @ line\<rparr>
                     | DiscardSink \<Rightarrow> lg)))"

section \<open>Parsing the query\<close>

text \<open>\<open>getnum\<close> of package time: two digits, or one where two are not required.\<close>

definition take_hour :: "string \<Rightarrow> (nat \<times> string) option" where
  "take_hour s =
     (case s of
        a # b # r \<Rightarrow> if is_digit a \<and> is_digit b then take_digits 2 s else if is_digit a then Some (digit_val a, b # r) else None
      | [a] \<Rightarrow> if is_digit a then Some (digit_val a, []) else None
      | [] \<Rightarrow> None)"

definition take_char :: "char \<Rightarrow> string \<Rightarrow> string option" where
  "take_char c s = (case s of [] \<Rightarrow> None | d # r \<Rightarrow> if d = c then Some r else None)"

text \<open>The zone at the end, in seconds east of UTC.\<close>

definition take_zone :: "string \<Rightarrow> (int \<times> string) option" where
  "take_zone s =
     (case s of
        [] \<Rightarrow> None
      | c # r \<Rightarrow>
          if c = CHR ''Z'' then Some (0, r)
          else do {
            (hr, r) \<leftarrow> take_digits 2 r;
            r \<leftarrow> take_char CHR '':'' r;
            (mm, r) \<leftarrow> take_digits 2 r;
            (if 24 < hr \<or> 60 < mm then None
             else if c = CHR ''+'' then Some (int (60 * (60 * hr + mm)), r)
             else if c = CHR ''-'' then Some (- int (60 * (60 * hr + mm)), r)
             else None)
          })"

text \<open>\<open>time.Parse\<close> with the layout \<open>time.RFC3339\<close>.\<close>

definition parse_rfc3339 :: "string \<Rightarrow> time option" where
  "parse_rfc3339 s =
     do {
       (year, s) \<leftarrow> take_digits 4 s;
       s \<leftarrow> take_char CHR ''-'' s;
       (month, s) \<leftarrow> take_digits 2 s;
       s \<leftarrow> take_char CHR ''-'' s;
       (day, s) \<leftarrow> take_digits 2 s;
       s \<leftarrow> take_char CHR ''T'' s;
       (hour, s) \<leftarrow> take_hour s;
       s \<leftarrow> take_char CHR '':'' s;
       (minute, s) \<leftarrow> take_digits 2 s;
       s \<leftarrow> take_char CHR '':'' s;
       (sec, s) \<leftarrow> take_digits 2 s;
       (case take_fraction s of (nsec, s) \<Rightarrow>
          (case take_zone s of
             Some (zone, r) \<Rightarrow>
               if r = [] \<and> 1 \<le> month \<and> month \<le> 12 \<and> hour < 24 \<and> minute < 60 \<and> sec < 60 \<and>
                  1 \<le> day \<and> day \<le> daysIn month (int year)
               then Some ((days_of (int year) month day - epoch_days) * day_ns +
                          (int (3600 * hour + 60 * minute + sec) - zone) * second_ns + nsec)
               else None
           | None \<Rightarrow> None))
     }"

text \<open>\<open>IsZero\<close>: the first of January of year 1 counts as no time, and so does what cannot be parsed.\<close>

definition query_time :: "string \<Rightarrow> time option" where
  "query_time s =
     (case parse_rfc3339 s of
        Some t \<Rightarrow> if t = (days_of 1 1 1 - epoch_days) * day_ns then None else Some t
      | None \<Rightarrow> None)"

text \<open>\<open>fmt.Sscanf\<close> with \<open>%d\<close>: white space, a sign, digits; what follows is not looked at.\<close>

definition Sscanf_d :: "string \<Rightarrow> int option" where
  "Sscanf_d s =
     (let t = dropWhile (\<lambda>c. c \<in> set [CHR '' '', CHR 0x09, CHR 0x0B, CHR 0x0C, CHR 0x0D]) s;
          (sign, r) = (case t of c # r \<Rightarrow> if c = CHR ''-'' \<or> c = CHR ''+'' then ([c], r) else ([], t) | [] \<Rightarrow> ([], []))
      in Atoi (sign @ takeWhile is_digit r))"

definition parseIntClamped :: "string \<Rightarrow> int \<Rightarrow> int \<Rightarrow> int option" where
  "parseIntClamped s lo hi = map_option (\<lambda>n. let n1 = (if n < lo then lo else n) in if n1 > hi then hi else n1) (Sscanf_d s)"

record audit_filter =
  af_user :: string
  af_bucket :: string
  af_action :: string
  af_fromTime :: "time option"
  af_toTime :: "time option"
  af_limit :: int

definition parseAuditFilter :: "request \<Rightarrow> audit_filter" where
  "parseAuditFilter r =
     (let q = multi_get (URL_Query r); lStr = q ''limit'' in
      \<lparr>af_user = q ''user'', af_bucket = q ''bucket'', af_action = q ''action'',
       af_fromTime = (if q ''from'' \<noteq> [] then query_time (q ''from'') else None),
       af_toTime = (if q ''to'' \<noteq> [] then query_time (q ''to'') else None),
       af_limit = (if lStr \<noteq> [] then case parseIntClamped lStr 1 1000 of Some n \<Rightarrow> n | None \<Rightarrow> 200 else 200)\<rparr>)"

definition audit_matches :: "audit_filter \<Rightarrow> log_entry \<Rightarrow> bool" where
  "audit_matches f e \<longleftrightarrow>
     (case af_fromTime f of Some t \<Rightarrow> \<not> ae_Time e < t | None \<Rightarrow> True) \<and>
     (case af_toTime f of Some t \<Rightarrow> \<not> t < ae_Time e | None \<Rightarrow> True) \<and>
     (af_user f = [] \<or> ae_User e = af_user f) \<and>
     (af_bucket f = [] \<or> ae_Bucket e = af_bucket f) \<and>
     (af_action f = [] \<or> ae_Action e = af_action f)"

section \<open>Scanning the file\<close>

text \<open>
  The lines \<open>bufio.Scanner\<close> yields: without their ends, and none from the first on that does not fit into the
  buffer with its newline; the error this leaves behind is not looked at.
\<close>

definition scan_buffer :: nat where
  "scan_buffer = 256 * 1024"

definition drop_cr :: "bytes \<Rightarrow> bytes" where
  "drop_cr l = (if l \<noteq> [] \<and> last l = CHR 0x0D then butlast l else l)"

definition file_lines :: "bytes \<Rightarrow> bytes list" where
  "file_lines data = (let ls = Split CHR 0x0A data in if last ls = [] then butlast ls else ls)"

definition scan_lines :: "bytes \<Rightarrow> bytes list" where
  "scan_lines data = map drop_cr (takeWhile (\<lambda>l. length l < scan_buffer) (file_lines data))"

text \<open>The loop of \<open>scanAuditLog\<close>: lines that are no JSON of an event are skipped.\<close>

definition decoded :: "(bytes \<Rightarrow> log_entry option) \<Rightarrow> bytes list \<Rightarrow> log_entry list" where
  "decoded unm ls = concat (map (\<lambda>l. case unm l of Some e \<Rightarrow> [e] | None \<Rightarrow> []) ls)"

definition most_recent :: "int \<Rightarrow> 'a list \<Rightarrow> 'a list" where
  "most_recent limit xs = (if int (length xs) > limit then drop (length xs - nat limit) xs else xs)"

definition scanAuditLog :: "(bytes \<Rightarrow> log_entry option) \<Rightarrow> audit_filter \<Rightarrow> bytes \<Rightarrow> log_entry list" where
  "scanAuditLog unm f data = most_recent (af_limit f) (filter (audit_matches f) (decoded unm (scan_lines data)))"

text \<open>The list of no results is \<open>null\<close> when the file was read.\<close>

datatype audit_body =
    AuditError string
  | AuditEntries "log_entry list"
  | AuditNull

definition handleAuditQuery :: "(bytes \<Rightarrow> log_entry option) \<Rightarrow> (string \<Rightarrow> bytes result) \<Rightarrow> string \<Rightarrow> request \<Rightarrow> nat \<times> audit_body" where
  "handleAuditQuery unm opn auditLogPath r =
     (if auditLogPath = [] then (200, AuditEntries [])
      else case opn auditLogPath of
          Inl err \<Rightarrow> if err = OsError ENOENT then (200, AuditEntries []) else (500, AuditError ''cannot open audit log'')
        | Inr data \<Rightarrow>
            (case scanAuditLog unm (parseAuditFilter r) data of
               [] \<Rightarrow> (200, AuditNull)
             | es \<Rightarrow> (200, AuditEntries es)))"

section \<open>What is written is found\<close>

text \<open>The file after a history of events, each with the time it is logged at.\<close>

definition log_all :: "(log_entry \<Rightarrow> bytes option) \<Rightarrow> (time \<times> log_entry) list \<Rightarrow> audit_logger option \<Rightarrow> audit_logger option" where
  "log_all mar es l = fold (\<lambda>(t, e). audit_Log mar t e) es l"

abbreviation stamped :: "time \<times> log_entry \<Rightarrow> log_entry" where
  "stamped p \<equiv> (snd p)\<lparr>ae_Time := fst p\<rparr>"

text \<open>
  An event whose line is as encoding/json prints one: the line has no newline, ends in a brace and is read back.
\<close>

definition codec_at :: "(log_entry \<Rightarrow> bytes option) \<Rightarrow> (bytes \<Rightarrow> log_entry option) \<Rightarrow> log_entry \<Rightarrow> bool" where
  "codec_at mar unm e \<longleftrightarrow>
     (case mar e of
        None \<Rightarrow> False
      | Some l \<Rightarrow> l \<noteq> [] \<and> last l = CHR 0x7D \<and> CHR 0x0A \<notin> set l \<and> unm l = Some e)"

definition whole_lines :: "bytes \<Rightarrow> bool" where
  "whole_lines data \<longleftrightarrow> data = [] \<or> last data = CHR 0x0A"

lemma Split_snoc_sep: "Split d (s @ [d]) = Split d s @ [[]]"
proof (induction s)
  case (Cons a s)
  then show ?case using Split_not_Nil [of d s] by (cases "Split d s") auto
qed simp

lemma Split_append_lines: "Split d (s @ d # t) = Split d s @ Split d t"
proof (induction s)
  case (Cons a s)
  then show ?case using Split_not_Nil [of d s] by (cases "Split d s") auto
qed simp

lemma file_lines_snoc:
  assumes "whole_lines data" and "CHR 0x0A \<notin> set l" and "l \<noteq> []"
  shows "file_lines (data @ l @ [CHR 0x0A]) = file_lines data @ [l]" and "whole_lines (data @ l @ [CHR 0x0A])"
proof -
  have l: "Split CHR 0x0A (l @ [CHR 0x0A]) = [l, []]" by (simp only: Split_snoc_sep Split_no_sep [OF assms(2)] append.simps)
  show "file_lines (data @ l @ [CHR 0x0A]) = file_lines data @ [l]"
  proof (cases "data = []")
    case True
    then show ?thesis unfolding file_lines_def by (simp add: l del: Split.simps) simp
  next
    case False
    with assms(1) obtain s where s: "data = s @ [CHR 0x0A]" by (metis append_butlast_last_id whole_lines_def)
    have "Split CHR 0x0A (data @ l @ [CHR 0x0A]) = Split CHR 0x0A s @ [l, []]"
      unfolding s by (simp only: append.simps append_assoc Split_append_lines Split_no_sep [OF assms(2)] Split.simps(1))
    moreover have "Split CHR 0x0A data = Split CHR 0x0A s @ [[]]" unfolding s by (rule Split_snoc_sep)
    ultimately show ?thesis by (simp add: file_lines_def Let_def butlast_append)
  qed
  show "whole_lines (data @ l @ [CHR 0x0A])" by (simp add: whole_lines_def)
qed

lemma audit_Log_file:
  assumes "codec_at mar unm (e\<lparr>ae_Time := t\<rparr>)" and "al_sink lg = FileSink" and "whole_lines (al_file lg)"
  obtains l lg' where "audit_Log mar t e (Some lg) = Some lg'" "al_sink lg' = FileSink" "whole_lines (al_file lg')"
    "mar (e\<lparr>ae_Time := t\<rparr>) = Some l" "unm l = Some (e\<lparr>ae_Time := t\<rparr>)" "drop_cr l = l"
    "file_lines (al_file lg') = file_lines (al_file lg) @ [l]"
proof -
  from assms(1) obtain l where l: "mar (e\<lparr>ae_Time := t\<rparr>) = Some l" "l \<noteq> []" "last l = CHR 0x7D" "CHR 0x0A \<notin> set l"
    "unm l = Some (e\<lparr>ae_Time := t\<rparr>)" by (auto simp: codec_at_def split: option.splits)
  note n = file_lines_snoc [OF assms(3) l(4,2)]
  show thesis
    by (rule that [of "lg\<lparr>al_file := al_file lg @ l @ [CHR 0x0A]\<rparr>" l])
      (use assms(2) l n in \<open>simp_all add: audit_Log_def drop_cr_def\<close>)
qed

lemma log_all_file:
  assumes "al_sink lg = FileSink" and "whole_lines (al_file lg)" and "\<forall>p \<in> set es. codec_at mar unm (stamped p)"
  shows "\<exists>lg'. log_all mar es (Some lg) = Some lg' \<and> whole_lines (al_file lg') \<and>
    file_lines (al_file lg') = file_lines (al_file lg) @ map (\<lambda>p. the (mar (stamped p))) es \<and>
    (\<forall>p \<in> set es. drop_cr (the (mar (stamped p))) = the (mar (stamped p)) \<and> unm (the (mar (stamped p))) = Some (stamped p))"
  using assms
proof (induction es arbitrary: lg)
  case (Cons p es)
  obtain t e where p: "p = (t, e)" by force
  from Cons.prems(3) p have "codec_at mar unm (e\<lparr>ae_Time := t\<rparr>)" by simp
  from audit_Log_file [OF this Cons.prems(1,2)] obtain l lg1 where s: "audit_Log mar t e (Some lg) = Some lg1"
    "al_sink lg1 = FileSink" "whole_lines (al_file lg1)" "mar (e\<lparr>ae_Time := t\<rparr>) = Some l" "unm l = Some (e\<lparr>ae_Time := t\<rparr>)"
    "drop_cr l = l" "file_lines (al_file lg1) = file_lines (al_file lg) @ [l]" .
  from Cons.IH [OF s(2,3)] Cons.prems(3) obtain lg' where "log_all mar es (Some lg1) = Some lg'" "whole_lines (al_file lg')"
    "file_lines (al_file lg') = file_lines (al_file lg1) @ map (\<lambda>p. the (mar (stamped p))) es"
    "\<forall>p \<in> set es. drop_cr (the (mar (stamped p))) = the (mar (stamped p)) \<and> unm (the (mar (stamped p))) = Some (stamped p)" by auto
  with s p show ?case by (simp add: log_all_def)
qed (simp add: log_all_def)

lemma decoded_append [simp]: "decoded unm (xs @ ys) = decoded unm xs @ decoded unm ys"
  by (simp add: decoded_def)

lemma decoded_map: "(\<And>x. x \<in> set xs \<Longrightarrow> unm (f x) = Some (g x)) \<Longrightarrow> decoded unm (map f xs) = map g xs"
  by (induction xs) (auto simp: decoded_def)

lemma takeWhile_append_all: "list_all P xs \<Longrightarrow> takeWhile P (xs @ ys) = xs @ takeWhile P ys"
  by (induction xs) auto

lemma scan_logged:
  assumes "al_sink lg = FileSink" and "whole_lines (al_file lg)" and "\<forall>p \<in> set es. codec_at mar unm (stamped p)"
    and "list_all (\<lambda>l. length l < scan_buffer) (file_lines (al_file lg))" and "log_all mar es (Some lg) = Some lg'"
  shows "decoded unm (scan_lines (al_file lg')) = decoded unm (scan_lines (al_file lg)) @
    map stamped (takeWhile (\<lambda>p. length (the (mar (stamped p))) < scan_buffer) es)"
proof -
  from log_all_file [OF assms(1-3)] assms(5) have
    f: "file_lines (al_file lg') = file_lines (al_file lg) @ map (\<lambda>p. the (mar (stamped p))) es" and
    d: "\<forall>p \<in> set es. drop_cr (the (mar (stamped p))) = the (mar (stamped p)) \<and> unm (the (mar (stamped p))) = Some (stamped p)" by auto
  let ?short = "takeWhile (\<lambda>p. length (the (mar (stamped p))) < scan_buffer) es"
  have old: "takeWhile (\<lambda>l. length l < scan_buffer) (file_lines (al_file lg)) = file_lines (al_file lg)"
    using assms(4) by (simp add: takeWhile_eq_all_conv list_all_iff)
  have "scan_lines (al_file lg') = scan_lines (al_file lg) @ map (\<lambda>p. drop_cr (the (mar (stamped p)))) ?short"
    unfolding scan_lines_def f takeWhile_append_all [OF assms(4)] old by (simp add: takeWhile_map comp_def)
  moreover have "decoded unm (map (\<lambda>p. drop_cr (the (mar (stamped p)))) ?short) = map stamped ?short"
  proof (rule decoded_map)
    fix p assume "p \<in> set ?short"
    then have "p \<in> set es" by (rule set_takeWhileD [THEN conjunct1])
    with d show "unm (drop_cr (the (mar (stamped p)))) = Some (stamped p)" by auto
  qed
  ultimately show ?thesis by simp
qed

text \<open>The newest \<open>n\<close> elements that satisfy \<open>P\<close>, told by positions: fewer than \<open>n\<close> that satisfy it come after them.\<close>

definition newest :: "nat \<Rightarrow> ('a \<Rightarrow> bool) \<Rightarrow> 'a list \<Rightarrow> 'a list" where
  "newest n P xs = nths xs {i. i < length xs \<and> P (xs ! i) \<and> card {j. i < j \<and> j < length xs \<and> P (xs ! j)} < n}"

lemma card_later: "card {j. Suc i < j \<and> j < length (x # xs) \<and> P ((x # xs) ! j)} = card {j. i < j \<and> j < length xs \<and> P (xs ! j)}"
proof -
  have "{j. Suc i < j \<and> j < length (x # xs) \<and> P ((x # xs) ! j)} = Suc ` {j. i < j \<and> j < length xs \<and> P (xs ! j)}"
    by (rule set_eqI, case_tac xa) (auto simp: image_iff)
  then show ?thesis by (simp add: card_image)
qed

lemma card_all_later: "card {j. 0 < j \<and> j < length (x # xs) \<and> P ((x # xs) ! j)} = length (filter P xs)"
proof -
  have "{j. 0 < j \<and> j < length (x # xs) \<and> P ((x # xs) ! j)} = Suc ` {j. j < length xs \<and> P (xs ! j)}"
    by (rule set_eqI, case_tac xa) (auto simp: image_iff)
  then show ?thesis by (simp add: card_image length_filter_conv_card)
qed

lemma newest_Cons: "newest n P (x # xs) = (if P x \<and> length (filter P xs) < n then [x] else []) @ newest n P xs"
proof -
  let ?A = "\<lambda>n xs. {i. i < length xs \<and> P (xs ! i) \<and> card {j. i < j \<and> j < length xs \<and> P (xs ! j)} < n}"
  have "{j. Suc j \<in> ?A n (x # xs)} = ?A n xs" unfolding mem_Collect_eq card_later by simp
  moreover have "0 \<in> ?A n (x # xs) \<longleftrightarrow> P x \<and> length (filter P xs) < n" unfolding mem_Collect_eq card_all_later by simp
  ultimately show ?thesis by (simp only: newest_def nths_Cons if_distrib)
qed

lemma most_recent_newest: "0 \<le> n \<Longrightarrow> most_recent n (filter P xs) = newest (nat n) P xs"
proof (induction xs)
  case (Cons x xs)
  have "length ys - nat n = 0" if "\<not> n < int (length ys)" for ys :: "'a list" using that by linarith
  then have d: "most_recent n ys = drop (length ys - nat n) ys" for ys :: "'a list" by (simp add: most_recent_def)
  from Cons show ?case unfolding newest_Cons d
    by (auto simp: Suc_diff_le not_less)
qed (simp add: most_recent_def newest_def)

text \<open>What the parameters of a query ask for, field by field.\<close>

definition asked_for :: "request \<Rightarrow> log_entry \<Rightarrow> bool" where
  "asked_for r e \<longleftrightarrow>
     (let q = multi_get (URL_Query r) in
      q ''user'' \<in> {[], ae_User e} \<and> q ''bucket'' \<in> {[], ae_Bucket e} \<and> q ''action'' \<in> {[], ae_Action e} \<and>
      (\<forall>t. query_time (q ''from'') = Some t \<longrightarrow> t \<le> ae_Time e) \<and> (\<forall>t. query_time (q ''to'') = Some t \<longrightarrow> ae_Time e \<le> t))"

lemma audit_matches_asked: "audit_matches (parseAuditFilter r) e \<longleftrightarrow> asked_for r e"
proof -
  have "query_time [] = None" by code_simp
  then have "audit_matches (parseAuditFilter r) e \<longleftrightarrow>
     (let q = multi_get (URL_Query r) in
      (case query_time (q ''from'') of Some t \<Rightarrow> \<not> ae_Time e < t | None \<Rightarrow> True) \<and>
      (case query_time (q ''to'') of Some t \<Rightarrow> \<not> t < ae_Time e | None \<Rightarrow> True) \<and>
      (q ''user'' = [] \<or> ae_User e = q ''user'') \<and> (q ''bucket'' = [] \<or> ae_Bucket e = q ''bucket'') \<and>
      (q ''action'' = [] \<or> ae_Action e = q ''action''))"
    by (simp add: audit_matches_def parseAuditFilter_def Let_def)
  then show ?thesis
    by (cases "query_time (multi_get (URL_Query r) ''from'')"; cases "query_time (multi_get (URL_Query r) ''to'')")
      (simp_all add: asked_for_def Let_def not_less conj_ac eq_commute [of "ae_User e"] eq_commute [of "ae_Bucket e"] eq_commute [of "ae_Action e"])
qed

text \<open>How many answers a query gets at most: 200 when it names no number, and one from 1 to 1000 otherwise.\<close>

definition asked_limit :: "request \<Rightarrow> nat" where
  "asked_limit r =
     (case Sscanf_d (multi_get (URL_Query r) ''limit'') of Some n \<Rightarrow> nat (max 1 (min 1000 n)) | None \<Rightarrow> 200)"

lemma audit_limit_asked: "0 \<le> af_limit (parseAuditFilter r) \<and> nat (af_limit (parseAuditFilter r)) = asked_limit r"
proof -
  have "Sscanf_d [] = None" by code_simp
  then show ?thesis by (auto simp: parseAuditFilter_def parseIntClamped_def asked_limit_def Let_def split: option.splits)
qed

lemma scanAuditLog_newest:
  "scanAuditLog unm (parseAuditFilter r) data = newest (asked_limit r) (asked_for r) (decoded unm (scan_lines data))"
  using audit_limit_asked [of r] by (simp add: scanAuditLog_def most_recent_newest audit_matches_asked [abs_def])

text \<open>A file of lines, each with the event that can be read from it, if any.\<close>

definition holds_lines :: "(bytes \<Rightarrow> log_entry option) \<Rightarrow> (bytes \<times> log_entry option) list \<Rightarrow> bytes \<Rightarrow> bool" where
  "holds_lines unm ls data \<longleftrightarrow>
     data = concat (map (\<lambda>(l, e). l @ [CHR 0x0A]) ls) \<and>
     (\<forall>(l, e) \<in> set ls. CHR 0x0A \<notin> set l \<and> drop_cr l = l \<and> length l < 256 * 1024 \<and> unm l = e)"

lemma file_lines_concat: "\<forall>(l, e) \<in> set ls. CHR 0x0A \<notin> set l \<Longrightarrow> file_lines (concat (map (\<lambda>(l, e). l @ [CHR 0x0A]) ls)) = map fst ls"
proof -
  assume "\<forall>(l, e) \<in> set ls. CHR 0x0A \<notin> set l"
  then have "Split CHR 0x0A (concat (map (\<lambda>(l, e). l @ [CHR 0x0A]) ls)) = map fst ls @ [[]]"
    by (induction ls) (auto simp: Split_append_lines Split_no_sep)
  then show ?thesis by (simp add: file_lines_def)
qed

lemma holds_lines_read:
  assumes "holds_lines unm ls data"
  shows "whole_lines data" and "list_all (\<lambda>l. length l < scan_buffer) (file_lines data)"
    and "decoded unm (scan_lines data) = [e. (l, Some e) \<leftarrow> ls]"
proof -
  have l: "file_lines data = map fst ls" using assms file_lines_concat [of ls] unfolding holds_lines_def by auto
  show fits: "list_all (\<lambda>l. length l < scan_buffer) (file_lines data)"
    using assms unfolding l by (auto simp: list_all_iff holds_lines_def scan_buffer_def)
  show "whole_lines data" using assms
    by (cases ls rule: rev_cases) (auto simp: whole_lines_def holds_lines_def split: prod.splits)
  have "scan_lines data = map (\<lambda>p. drop_cr (fst p)) ls"
    using fits by (simp add: scan_lines_def takeWhile_eq_all_conv [THEN iffD2] list_all_iff l)
  moreover have "decoded unm (map (\<lambda>p. drop_cr (fst p)) ls) = [e. (l, Some e) \<leftarrow> ls]"
  proof -
    have "\<forall>(l, e) \<in> set ls. unm (drop_cr l) = e" using assms by (auto simp: holds_lines_def)
    then show ?thesis unfolding decoded_def by (induction ls) (auto split: option.splits)
  qed
  ultimately show "decoded unm (scan_lines data) = [e. (l, Some e) \<leftarrow> ls]" by simp
qed

text \<open>
  C35: the audit query answers with what was logged, up to the first event whose line does not fit into its buffer. The
  file holds lines, some with events, that fit into the buffer; then any sequence of events is logged, and the file is
  queried. The answer is, in the order in which they were logged, every event that has the user, the bucket and the
  action the query names and lies in the interval it gives, unless as many later ones as the limit do too; and it is
  \<open>null\<close> when there is none. But an event with a line of 256 KiB, as one with a long enough
  key in its path has, hides itself and every event that is ever logged after it.
\<close>

theorem logged_events_are_found:
  assumes "al_sink lg = FileSink" and "holds_lines unm ls (al_file lg)"
    and "\<forall>p \<in> set es. codec_at mar unm (stamped p)"
    and "log_all mar es (Some lg) = Some lg'" and "opn path = Inr (al_file lg')" and "path \<noteq> []"
  shows "\<exists>answer. handleAuditQuery unm opn path r = (200, if answer = [] then AuditNull else AuditEntries answer) \<and>
    answer = newest (asked_limit r) (asked_for r)
      ([e. (l, Some e) \<leftarrow> ls] @ map stamped (takeWhile (\<lambda>p. length (the (mar (stamped p))) < 256 * 1024) es))"
proof -
  note h = holds_lines_read [OF assms(2)]
  have "scanAuditLog unm (parseAuditFilter r) (al_file lg') = newest (asked_limit r) (asked_for r)
      ([e. (l, Some e) \<leftarrow> ls] @ map stamped (takeWhile (\<lambda>p. length (the (mar (stamped p))) < 256 * 1024) es))"
    unfolding scanAuditLog_newest scan_logged [OF assms(1) h(1) assms(3) h(2) assms(4)] h(3) scan_buffer_def ..
  then show ?thesis using assms(5,6) by (auto simp: handleAuditQuery_def split: list.split)
qed

definition demo_event :: "string \<Rightarrow> log_entry" where
  "demo_event k = \<lparr>ae_RequestID = ''r'', ae_User = [], ae_Action = ''s3:GetObject'', ae_Bucket = ''b'', ae_Key = k, ae_SourceIP = ''ip'',
     ae_StatusCode = 200, ae_Time = 0, ae_Bytes = 0, ae_DurationMS = 1, ae_Error = []\<rparr>"

text \<open>A codec for the events of the demonstration, by their keys: a line is the key between braces.\<close>

definition demo_mar :: "log_entry \<Rightarrow> bytes option" where
  "demo_mar e = Some (CHR 0x7B # ae_Key e @ [CHR 0x7D])"

definition demo_unm :: "bytes \<Rightarrow> log_entry option" where
  "demo_unm l = Some ((demo_event (butlast (tl l)))\<lparr>ae_Time := 7\<rparr>)"

abbreviation long_key :: string where
  "long_key \<equiv> replicate scan_buffer CHR ''k''"

text \<open>A query for two events of the bucket b.\<close>

definition demo_query :: request where
  "demo_query = \<lparr>rq_Method = ''GET'', rq_Host = ''h'', rq_Path = ''/admin/v1/audit'', rq_RawQuery = ''bucket=b&limit=2'', rq_Header = []\<rparr>"

lemma demo_codec: "CHR 0x0A \<notin> set k \<Longrightarrow> codec_at demo_mar (\<lambda>l. if l = ''?'' then None else demo_unm l) (stamped (7, demo_event k))"
  by (simp add: codec_at_def demo_mar_def demo_unm_def demo_event_def butlast_append)

text \<open>
  Of the three events before the long line the newest two are found; the one with the long line and the one after it
  are lost.
\<close>

lemma logged_events_are_found_witness:
  "\<exists>lg. log_all demo_mar [(7, demo_event ''x''), (7, demo_event ''y''), (7, demo_event long_key), (7, demo_event ''z'')]
       (Some \<lparr>al_sink = FileSink, al_file = ''{w}'' @ [CHR 0x0A] @ ''?'' @ [CHR 0x0A], al_sent = []\<rparr>) = Some lg \<and>
     handleAuditQuery (\<lambda>l. if l = ''?'' then None else demo_unm l) (\<lambda>p. Inr (al_file lg)) ''audit.log'' demo_query =
       (200, AuditEntries [stamped (7, demo_event ''x''), stamped (7, demo_event ''y'')])"
proof -
  let ?es = "[(7, demo_event ''x''), (7, demo_event ''y''), (7, demo_event long_key), (7, demo_event ''z'')] :: (time \<times> log_entry) list"
  let ?lg = "\<lparr>al_sink = FileSink, al_file = ''{w}'' @ [CHR 0x0A] @ ''?'' @ [CHR 0x0A], al_sent = []\<rparr>"
  let ?unm = "\<lambda>l. if l = ''?'' then None else demo_unm l"
  let ?ls = "[(''{w}'', Some (stamped (7, demo_event ''w''))), (''?'', None)]"
  have c: "\<forall>p \<in> set ?es. codec_at demo_mar ?unm (stamped p)"
    using demo_codec [of "''x''"] demo_codec [of "''y''"] demo_codec [of long_key] demo_codec [of "''z''"] by simp
  have lg: "al_sink ?lg = FileSink" "holds_lines ?unm ?ls (al_file ?lg)"
    by (simp_all add: holds_lines_def drop_cr_def demo_unm_def demo_event_def)
  from log_all_file [OF lg(1) holds_lines_read(1) [OF lg(2)] c] obtain lg' where l: "log_all demo_mar ?es (Some ?lg) = Some lg'" by blast
  have q: "asked_limit demo_query = 2" by code_simp
  have a [simp]: "asked_for demo_query ((demo_event k)\<lparr>ae_Time := 7\<rparr>)" for k
  proof -
    have "multi_get (URL_Query demo_query) ''user'' = []" "multi_get (URL_Query demo_query) ''bucket'' = ''b''"
      "multi_get (URL_Query demo_query) ''action'' = []" "query_time (multi_get (URL_Query demo_query) ''from'') = None"
      "query_time (multi_get (URL_Query demo_query) ''to'') = None" by code_simp+
    then show ?thesis by (simp add: asked_for_def demo_event_def)
  qed
  have n: "newest 2 (asked_for demo_query) (map (\<lambda>k. stamped (7, demo_event k)) [''w'', ''x'', ''y'']) =
      map (\<lambda>k. stamped (7, demo_event k)) [''x'', ''y'']"
    by (simp add: newest_Cons newest_def [of _ _ "[]"])
  from logged_events_are_found [OF lg c l, of "\<lambda>p. Inr (al_file lg')" "''audit.log''" demo_query] n q
  have "handleAuditQuery ?unm (\<lambda>p. Inr (al_file lg')) ''audit.log'' demo_query =
      (200, AuditEntries [stamped (7, demo_event ''x''), stamped (7, demo_event ''y'')])"
    by (simp add: demo_mar_def demo_event_def scan_buffer_def del: replicate.simps)
  with l show ?thesis by blast
qed

text \<open>The limit of a query is between 1 and 1000, whatever the parameter says.\<close>

lemma audit_limit_bounds: "1 \<le> af_limit (parseAuditFilter r) \<and> af_limit (parseAuditFilter r) \<le> 1000"
  by (auto simp: parseAuditFilter_def parseIntClamped_def Let_def split: option.splits)

lemma query_result_bounded: "length (scanAuditLog unm (parseAuditFilter r) data) \<le> 1000"
  using audit_limit_bounds [of r] by (auto simp: scanAuditLog_def most_recent_def)

end
