(* ===== verification/Oidc.thy ===== *)
theory Oidc
  imports Go_Json
begin

text \<open>
  Authentication by an OpenID Connect provider: internal/auth/oidc.go and internal/auth/oidc_crypto.go. Parsing
  JSON text, the hash functions, RSA and ECDSA verification and DER are the fields of \<open>jose\<close>; the HTTP client is a
  function from a URL to a status and a body, and golang.org/x/oauth2 a pair of functions. A function that returns
  only an error returns an \<open>err option\<close>.
\<close>

datatype hash_alg = SHA256 | SHA384 | SHA512

datatype curve = P256 | P384 | P521

record jose =
  jo_parse :: "bytes \<Rightarrow> json_value option"
  jo_hash :: "hash_alg \<Rightarrow> bytes \<Rightarrow> bytes"
  jo_rsa :: "nat \<Rightarrow> int64 \<Rightarrow> hash_alg \<Rightarrow> bytes \<Rightarrow> bytes \<Rightarrow> bool"
  jo_ecdsa :: "curve \<Rightarrow> nat \<Rightarrow> nat \<Rightarrow> bytes \<Rightarrow> int \<Rightarrow> int \<Rightarrow> bool"
  jo_asn1 :: "bytes \<Rightarrow> (int \<times> int) option"

type_synonym http_get = "string \<Rightarrow> (nat \<times> bytes) result"

section \<open>base64.RawURLEncoding\<close>

text \<open>
  The alphabet of URLs without padding. \<open>DecodeString\<close> passes over carriage returns and newlines and does not look at the bits that
  are left over; one left-over digit is an error.
\<close>

definition b64_alphabet :: string where
  "b64_alphabet = ''ABCDEFGHIJKLMNOPQRSTUVWXYZabcdefghijklmnopqrstuvwxyz0123456789-_''"

definition b64_value :: "char \<Rightarrow> nat option" where
  "b64_value c =
     (let n = of_char c :: nat in
      if 65 \<le> n \<and> n \<le> 90 then Some (n - 65)
      else if 97 \<le> n \<and> n \<le> 122 then Some (n - 71)
      else if 48 \<le> n \<and> n \<le> 57 then Some (n + 4)
      else if c = CHR ''-'' then Some 62
      else if c = CHR ''_'' then Some 63
      else None)"

fun b64_bytes :: "nat list \<Rightarrow> bytes option" where
  "b64_bytes [] = Some []"
| "b64_bytes [a] = None"
| "b64_bytes [a, b] = Some [char_of (a * 4 + b div 16)]"
| "b64_bytes [a, b, c] = Some [char_of (a * 4 + b div 16), char_of (b mod 16 * 16 + c div 4)]"
| "b64_bytes (a # b # c # d # vs) =
     map_option (\<lambda>bs. char_of (a * 4 + b div 16) # char_of (b mod 16 * 16 + c div 4) # char_of (c mod 4 * 64 + d) # bs) (b64_bytes vs)"

definition newline_byte :: "char \<Rightarrow> bool" where
  "newline_byte c \<longleftrightarrow> c = CHR 0x0A \<or> c = CHR 0x0D"

definition b64_decode :: "string \<Rightarrow> bytes option" where
  "b64_decode s = Option.bind (option_map_list b64_value (filter (\<lambda>c. \<not> newline_byte c) s)) b64_bytes"

fun b64_digits :: "nat list \<Rightarrow> nat list" where
  "b64_digits [] = []"
| "b64_digits [a] = [a div 4, a mod 4 * 16]"
| "b64_digits [a, b] = [a div 4, a mod 4 * 16 + b div 16, b mod 16 * 4]"
| "b64_digits (a # b # c # bs) = a div 4 # (a mod 4 * 16 + b div 16) # (b mod 16 * 4 + c div 64) # c mod 64 # b64_digits bs"

definition b64_encode :: "bytes \<Rightarrow> string" where
  "b64_encode bs = map (\<lambda>v. b64_alphabet ! v) (b64_digits (map of_char bs))"

section \<open>Keys\<close>

record jwk =
  jw_Kty :: string
  jw_Kid :: string
  jw_N :: string
  jw_E :: string
  jw_Crv :: string
  jw_X :: string
  jw_Y :: string

definition SetBytes :: "bytes \<Rightarrow> nat" where
  "SetBytes bs = foldl (\<lambda>n b. 256 * n + of_char b) 0 bs"

definition hashForAlg :: "string \<Rightarrow> hash_alg option" where
  "hashForAlg alg =
     (if alg = ''RS256'' \<or> alg = ''ES256'' then Some SHA256
      else if alg = ''RS384'' \<or> alg = ''ES384'' then Some SHA384
      else if alg = ''RS512'' \<or> alg = ''ES512'' then Some SHA512
      else None)"

definition curveForCrv :: "string \<Rightarrow> curve option" where
  "curveForCrv crv =
     (if crv = ''P-256'' then Some P256 else if crv = ''P-384'' then Some P384 else if crv = ''P-521'' then Some P521 else None)"

fun BitSize :: "curve \<Rightarrow> nat" where
  "BitSize P256 = 256"
| "BitSize P384 = 384"
| "BitSize P521 = 521"

text \<open>The exponent is an \<open>int\<close>: its high bytes are shifted out.\<close>

definition rsaPublicKeyFromJWK :: "jwk \<Rightarrow> (nat \<times> int64) result" where
  "rsaPublicKeyFromJWK k =
     (case b64_decode (jw_N k) of
        None \<Rightarrow> Inl (Wrap ''decode n'' (Errorf ''illegal base64 data'' []))
      | Some nBytes \<Rightarrow>
          (case b64_decode (jw_E k) of
             None \<Rightarrow> Inl (Wrap ''decode e'' (Errorf ''illegal base64 data'' []))
           | Some eBytes \<Rightarrow>
               Inr (SetBytes nBytes, foldl (\<lambda>e b. or (push_bit 8 e) (of_nat (of_char b))) 0 eBytes)))"

definition ecPublicKeyFromJWK :: "jwk \<Rightarrow> (curve \<times> nat \<times> nat) result" where
  "ecPublicKeyFromJWK k =
     (case b64_decode (jw_X k) of
        None \<Rightarrow> Inl (Wrap ''decode x'' (Errorf ''illegal base64 data'' []))
      | Some xBytes \<Rightarrow>
          (case b64_decode (jw_Y k) of
             None \<Rightarrow> Inl (Wrap ''decode y'' (Errorf ''illegal base64 data'' []))
           | Some yBytes \<Rightarrow>
               (case curveForCrv (jw_Crv k) of
                  None \<Rightarrow> Inl (Errorf ''unsupported EC curve %q'' [FStr (jw_Crv k)])
                | Some c \<Rightarrow> Inr (c, SetBytes xBytes, SetBytes yBytes))))"

definition unsupported_alg :: "string \<Rightarrow> err" where
  "unsupported_alg alg = Errorf ''unsupported JWT algorithm %q'' [FStr alg]"

definition verifyRSASignature :: "jose \<Rightarrow> nat \<times> int64 \<Rightarrow> string \<Rightarrow> bytes \<Rightarrow> bytes \<Rightarrow> err option" where
  "verifyRSASignature J pub alg signingInput sig =
     (case hashForAlg alg of
        None \<Rightarrow> Some (unsupported_alg alg)
      | Some h \<Rightarrow>
          if jo_rsa J (fst pub) (snd pub) h (jo_hash J h signingInput) sig then None
          else Some (Wrap ''rsa verify'' (Errorf ''crypto/rsa: verification error'' [])))"

text \<open>A signature of another length than two coordinates is read as DER.\<close>

definition verifyECSignature :: "jose \<Rightarrow> curve \<times> nat \<times> nat \<Rightarrow> string \<Rightarrow> bytes \<Rightarrow> bytes \<Rightarrow> err option" where
  "verifyECSignature J pub alg signingInput sig =
     (case pub of (c, x, y) \<Rightarrow>
        (case hashForAlg alg of
           None \<Rightarrow> Some (unsupported_alg alg)
         | Some h \<Rightarrow>
             let digest = jo_hash J h signingInput;
                 keySize = (BitSize c + 7) div 8;
                 mismatch = Some (Errorf ''ec verify: signature mismatch'' [])
             in if length sig \<noteq> 2 * keySize
                then (case jo_asn1 J sig of
                        None \<Rightarrow> Some (Errorf ''ec verify: invalid signature length'' [])
                      | Some (r, s) \<Rightarrow> if jo_ecdsa J c x y digest r s then None else mismatch)
                else if jo_ecdsa J c x y digest (int (SetBytes (take keySize sig))) (int (SetBytes (drop keySize sig))) then None
                else mismatch))"

definition verifyJWKSignature :: "jose \<Rightarrow> jwk \<Rightarrow> string \<Rightarrow> bytes \<Rightarrow> bytes \<Rightarrow> err option" where
  "verifyJWKSignature J k alg signingInput sig =
     (if jw_Kty k = ''RSA'' \<and> HasPrefix alg ''RS'' then
        (case rsaPublicKeyFromJWK k of
           Inl err \<Rightarrow> Some (Wrap ''parse rsa key'' err)
         | Inr pub \<Rightarrow> verifyRSASignature J pub alg signingInput sig)
      else if jw_Kty k = ''EC'' \<and> HasPrefix alg ''ES'' then
        (case ecPublicKeyFromJWK k of
           Inl err \<Rightarrow> Some (Wrap ''parse ec key'' err)
         | Inr pub \<Rightarrow> verifyECSignature J pub alg signingInput sig)
      else Some (Errorf ''unsupported key type %q / alg %q'' [FStr (jw_Kty k), FStr alg]))"

section \<open>Tokens\<close>

record jwt_header =
  jh_Alg :: string
  jh_Kid :: string

type_synonym claims = "(string \<times> json_value) list"

definition decode_header :: "json_value \<Rightarrow> jwt_header option" where
  "decode_header j =
     (case object_fields j of
        None \<Rightarrow> None
      | Some ps \<Rightarrow>
          (case (string_field ''alg'' ps, string_field ''kid'' ps) of
             (Some a, Some k) \<Rightarrow> Some \<lparr>jh_Alg = a, jh_Kid = k\<rparr>
           | _ \<Rightarrow> None))"

record raw_jwt =
  rj_header :: jwt_header
  rj_claims :: claims
  rj_signingInput :: string
  rj_sig :: bytes

definition parseRawJWT :: "jose \<Rightarrow> string \<Rightarrow> raw_jwt result" where
  "parseRawJWT J rawToken =
     (case Split CHR ''.'' rawToken of
        [h, c, s] \<Rightarrow>
          (case b64_decode h of
             None \<Rightarrow> Inl (Wrap ''oidc: decode header'' (Errorf ''illegal base64 data'' []))
           | Some headerBytes \<Rightarrow>
          (case Option.bind (jo_parse J headerBytes) decode_header of
             None \<Rightarrow> Inl (Wrap ''oidc: parse header'' (Errorf ''json'' []))
           | Some hdr \<Rightarrow>
          (case b64_decode c of
             None \<Rightarrow> Inl (Wrap ''oidc: decode claims'' (Errorf ''illegal base64 data'' []))
           | Some claimsBytes \<Rightarrow>
          (case Option.bind (jo_parse J claimsBytes) object_fields of
             None \<Rightarrow> Inl (Wrap ''oidc: parse claims'' (Errorf ''json'' []))
           | Some cl \<Rightarrow>
          (case b64_decode s of
             None \<Rightarrow> Inl (Wrap ''oidc: decode signature'' (Errorf ''illegal base64 data'' []))
           | Some sigBytes \<Rightarrow>
               Inr \<lparr>rj_header = hdr, rj_claims = cl, rj_signingInput = h @ ''.'' @ c, rj_sig = sigBytes\<rparr>)))))
      | _ \<Rightarrow> Inl (Errorf ''oidc: invalid JWT format'' []))"

fun verifySignatureWithKeys :: "jose \<Rightarrow> jwk list \<Rightarrow> jwt_header \<Rightarrow> bytes \<Rightarrow> bytes \<Rightarrow> err option" where
  "verifySignatureWithKeys J [] hdr signingInput sig = Some (Errorf ''oidc: signature verification failed'' [])"
| "verifySignatureWithKeys J (k # ks) hdr signingInput sig =
     (if jh_Kid hdr \<noteq> [] \<and> jw_Kid k \<noteq> jh_Kid hdr then verifySignatureWithKeys J ks hdr signingInput sig
      else if verifyJWKSignature J k (jh_Alg hdr) signingInput sig = None then None
      else verifySignatureWithKeys J ks hdr signingInput sig)"

fun string_claim :: "json_value option \<Rightarrow> string" where
  "string_claim (Some (JStr s)) = s"
| "string_claim _ = []"

definition extractStringSlice :: "claims \<Rightarrow> string \<Rightarrow> string list" where
  "extractStringSlice cl key =
     (case json_get cl key of
        Some (JStr s) \<Rightarrow> if s = [] then [] else [s]
      | Some (JArr vs) \<Rightarrow> filter (\<lambda>s. s \<noteq> []) (map (\<lambda>v. string_claim (Some v)) vs)
      | _ \<Rightarrow> [])"

text \<open>The conversion of a \<open>float64\<close> to \<open>int64\<close>, with the result of a value out of range as amd64 has it.\<close>

definition float_to_int64 :: "rat \<Rightarrow> int" where
  "float_to_int64 q =
     (let n = (if q < 0 then - \<lfloor>- q\<rfloor> else \<lfloor>q\<rfloor>) in if - (2 ^ 63) \<le> n \<and> n < 2 ^ 63 then n else - (2 ^ 63))"

section \<open>The provider\<close>

record oidc_config =
  oc_Enabled :: bool
  oc_IssuerURL :: string
  oc_ClientID :: string
  oc_ClientSecret :: string
  oc_RedirectURL :: string
  oc_GroupsClaim :: string
  oc_AdminGroups :: "string list"

record oidc_discovery =
  od_Issuer :: string
  od_JWKSURI :: string
  od_AuthEndpoint :: string
  od_TokenEndpoint :: string

text \<open>A cache that was never filled has no keys, whatever its time.\<close>

record oidc_provider =
  op_cfg :: oidc_config
  op_discovery :: oidc_discovery
  op_keys :: "jwk list"
  op_fetchedAt :: time

definition jwks_ttl :: time where
  "jwks_ttl = 3600 * second_ns"

definition decode_discovery :: "json_value \<Rightarrow> oidc_discovery option" where
  "decode_discovery j =
     (case object_fields j of
        None \<Rightarrow> None
      | Some ps \<Rightarrow>
          (case (string_field ''issuer'' ps, string_field ''jwks_uri'' ps, string_field ''authorization_endpoint'' ps,
                 string_field ''token_endpoint'' ps) of
             (Some i, Some u, Some a, Some t) \<Rightarrow>
               Some \<lparr>od_Issuer = i, od_JWKSURI = u, od_AuthEndpoint = a, od_TokenEndpoint = t\<rparr>
           | _ \<Rightarrow> None))"

definition fetchDiscovery :: "jose \<Rightarrow> http_get \<Rightarrow> oidc_config \<Rightarrow> oidc_discovery result" where
  "fetchDiscovery J get cfg =
     (case get (TrimRight (oc_IssuerURL cfg) ''/'' @ ''/.well-known/openid-configuration'') of
        Inl err \<Rightarrow> Inl (Wrap ''fetch'' err)
      | Inr (status, body) \<Rightarrow>
          if status \<noteq> 200 then Inl (Errorf ''discovery returned HTTP %d'' [FInt (int status)])
          else (case Option.bind (jo_parse J body) decode_discovery of
                  None \<Rightarrow> Inl (Wrap ''decode'' (Errorf ''json'' []))
                | Some doc \<Rightarrow> Inr doc))"

definition NewOIDCProvider :: "jose \<Rightarrow> http_get \<Rightarrow> oidc_config \<Rightarrow> oidc_provider result" where
  "NewOIDCProvider J get cfg =
     (if oc_IssuerURL cfg = [] then Inl (Errorf ''oidc: issuer_url must not be empty'' [])
      else if oc_ClientID cfg = [] then Inl (Errorf ''oidc: client_id must not be empty'' [])
      else
        let cfg' = (if oc_GroupsClaim cfg = [] then cfg\<lparr>oc_GroupsClaim := ''groups''\<rparr> else cfg) in
        (case fetchDiscovery J get cfg' of
           Inl err \<Rightarrow> Inl (Wrap ''oidc: fetch discovery document'' err)
         | Inr disc \<Rightarrow> Inr \<lparr>op_cfg = cfg', op_discovery = disc, op_keys = [], op_fetchedAt = 0\<rparr>))"

definition decode_jwk :: "json_value \<Rightarrow> jwk option" where
  "decode_jwk j =
     (case object_fields j of
        None \<Rightarrow> None
      | Some ps \<Rightarrow>
          (case option_map_list (\<lambda>n. string_field n ps)
                  [''kty'', ''kid'', ''n'', ''e'', ''crv'', ''x'', ''y'', ''use'', ''alg''] of
             Some [kty, kid, n, e, crv, x, y, use, alg] \<Rightarrow>
               Some \<lparr>jw_Kty = kty, jw_Kid = kid, jw_N = n, jw_E = e, jw_Crv = crv, jw_X = x, jw_Y = y\<rparr>
           | _ \<Rightarrow> None))"

definition decode_jwks :: "json_value \<Rightarrow> jwk list option" where
  "decode_jwks j =
     (case object_fields j of
        None \<Rightarrow> None
      | Some ps \<Rightarrow>
          (case rev (field_values ''keys'' ps) of
             [] \<Rightarrow> Some []
           | JArr ks # vs \<Rightarrow> option_map_list decode_jwk ks
           | JNull # vs \<Rightarrow> Some []
           | _ \<Rightarrow> None))"

text \<open>\<open>now\<close> is the time of the check, \<open>stored\<close> the one written to the cache.\<close>

definition fetchJWKS :: "jose \<Rightarrow> http_get \<Rightarrow> time \<Rightarrow> time \<Rightarrow> oidc_provider \<Rightarrow> jwk list result \<times> oidc_provider" where
  "fetchJWKS J get now stored p =
     (if now - op_fetchedAt p < jwks_ttl \<and> op_keys p \<noteq> [] then (Inr (op_keys p), p)
      else case get (od_JWKSURI (op_discovery p)) of
          Inl err \<Rightarrow> (Inl (Wrap ''fetch jwks'' err), p)
        | Inr (status, body) \<Rightarrow>
            if status \<noteq> 200 then (Inl (Errorf ''jwks returned HTTP %d'' [FInt (int status)]), p)
            else (case Option.bind (jo_parse J body) decode_jwks of
                    None \<Rightarrow> (Inl (Wrap ''decode jwks'' (Errorf ''json'' [])), p)
                  | Some ks \<Rightarrow> (Inr ks, p\<lparr>op_keys := ks, op_fetchedAt := stored\<rparr>)))"

definition unix :: "time \<Rightarrow> int" where
  "unix t = t div second_ns"

definition verifyClaims :: "oidc_config \<Rightarrow> claims \<Rightarrow> time \<Rightarrow> err option" where
  "verifyClaims cfg cl now =
     (let iss = string_claim (json_get cl ''iss'') in
      if iss \<noteq> oc_IssuerURL cfg \<and> iss \<noteq> TrimRight (oc_IssuerURL cfg) ''/'' then Some (Errorf ''oidc: invalid issuer %q'' [FStr iss])
      else case (case json_get cl ''aud'' of
             Some (JStr aud) \<Rightarrow> if aud \<noteq> oc_ClientID cfg then Some (Errorf ''oidc: invalid audience %q'' [FStr aud]) else None
           | Some (JArr auds) \<Rightarrow>
               if JStr (oc_ClientID cfg) \<in> set auds then None else Some (Errorf ''oidc: client_id not in audience'' [])
           | _ \<Rightarrow> Some (Errorf ''oidc: missing aud claim'' [])) of
          Some err \<Rightarrow> Some err
        | None \<Rightarrow>
            (case json_get cl ''exp'' of
               Some (JNum lit expiry) \<Rightarrow>
                 if unix now > float_to_int64 expiry then Some (Errorf ''oidc: token has expired'' []) else None
             | _ \<Rightarrow> Some (Errorf ''oidc: missing exp claim'' [])))"

definition subject_of :: "claims \<Rightarrow> string" where
  "subject_of cl =
     (let email = string_claim (json_get cl ''email'') in if email \<noteq> [] then email else string_claim (json_get cl ''sub''))"

definition VerifyIDToken :: "jose \<Rightarrow> http_get \<Rightarrow> time \<Rightarrow> time \<Rightarrow> time \<Rightarrow> string \<Rightarrow> oidc_provider \<Rightarrow>
    (string \<times> string list) result \<times> oidc_provider" where
  "VerifyIDToken J get now now' stored rawToken p =
     (case parseRawJWT J rawToken of
        Inl err \<Rightarrow> (Inl err, p)
      | Inr t \<Rightarrow>
     (case verifyClaims (op_cfg p) (rj_claims t) now of
        Some err \<Rightarrow> (Inl err, p)
      | None \<Rightarrow>
     (case fetchJWKS J get now' stored p of
        (Inl err, p') \<Rightarrow> (Inl (Wrap ''oidc: fetch jwks'' err), p')
      | (Inr keys, p') \<Rightarrow>
     (case verifySignatureWithKeys J keys (rj_header t) (rj_signingInput t) (rj_sig t) of
        Some err \<Rightarrow> (Inl err, p')
      | None \<Rightarrow>
          let sub = subject_of (rj_claims t) in
          if sub = [] then (Inl (Errorf ''oidc: missing sub claim'' []), p')
          else (Inr (sub, extractStringSlice (rj_claims t) (oc_GroupsClaim (op_cfg p))), p')))))"

definition oidc_IsAdmin :: "oidc_config \<Rightarrow> string list \<Rightarrow> bool" where
  "oidc_IsAdmin cfg groups = list_ex (\<lambda>g. list_ex (\<lambda>ag. g = ag) (oc_AdminGroups cfg)) groups"

text \<open>\<open>exchange\<close> is the OAuth2 library's: the value of \<open>id_token\<close> in the answer to a code, if it has one.\<close>

definition oidc_Exchange :: "(string \<Rightarrow> json_value option result) \<Rightarrow> string \<Rightarrow> string result" where
  "oidc_Exchange exchange code =
     (case exchange code of
        Inl err \<Rightarrow> Inl (Wrap ''oidc: exchange code'' err)
      | Inr v \<Rightarrow>
          if string_claim v = [] then Inl (Errorf ''oidc: no id_token in token response'' [])
          else Inr (string_claim v))"

end
