(* ===== verification/Ldap.thy ===== *)
theory Ldap
  imports Go_Errors
begin

text \<open>
  Authentication against an LDAP directory: internal/auth/ldap.go. The client library (github.com/go-ldap/ldap) is the
  record \<open>ldap_ops\<close> over a connection \<open>'c\<close>; \<open>client_ok\<close> states what it documents of \<open>Bind\<close> and
  \<open>EscapeFilter\<close>. A cancelled context closes the connection: the operation that follows fails.
\<close>

record ldap_config =
  lc_Enabled :: bool
  lc_URL :: string
  lc_BindDN :: string
  lc_BindPassword :: string
  lc_UserBase :: string
  lc_UserFilter :: string
  lc_GroupBase :: string
  lc_GroupFilter :: string
  lc_AdminGroups :: "string list"
  lc_TLSInsecure :: bool

record ldap_search =
  ls_base :: string
  ls_sizeLimit :: nat
  ls_filter :: string
  ls_attributes :: "string list"

record ldap_entry =
  en_DN :: string
  en_attributes :: "(string \<times> string list) list"

text \<open>\<open>ld_dial\<close> takes the URL and, for TLS, whether the certificate goes unchecked.\<close>

record 'c ldap_ops =
  ld_dial :: "string \<Rightarrow> bool option \<Rightarrow> 'c result"
  ld_bind :: "string \<Rightarrow> string \<Rightarrow> 'c \<Rightarrow> err option \<times> 'c"
  ld_search :: "ldap_search \<Rightarrow> 'c \<Rightarrow> ldap_entry list result \<times> 'c"
  ld_EscapeFilter :: "string \<Rightarrow> string"

text \<open>
  \<open>fmt.Sprintf\<close> of a template and one string. The verbs are \<open>%s\<close>, \<open>%v\<close> and \<open>%%\<close>; a second verb has no argument
  left, and an argument without a verb is appended. Flags, widths and the other verbs of strings are left out.
\<close>

fun Sprintf_verbs :: "bool \<Rightarrow> string \<Rightarrow> string \<Rightarrow> string" where
  "Sprintf_verbs used [] arg = (if used then [] else ''%!(EXTRA string='' @ arg @ '')'')"
| "Sprintf_verbs used (c # cs) arg =
     (if c \<noteq> CHR ''%'' then c # Sprintf_verbs used cs arg
      else case cs of
          [] \<Rightarrow> ''%!(NOVERB)'' @ (if used then [] else ''%!(EXTRA string='' @ arg @ '')'')
        | v # r \<Rightarrow>
            if v = CHR ''%'' then CHR ''%'' # Sprintf_verbs used r arg
            else (if used then ''%!'' @ [v] @ ''(MISSING)''
                  else if v = CHR ''s'' \<or> v = CHR ''v'' then arg
                  else ''%!'' @ [v] @ ''(string='' @ arg @ '')'') @ Sprintf_verbs True r arg)"

definition Sprintf :: "string \<Rightarrow> string \<Rightarrow> string" where
  "Sprintf template arg = Sprintf_verbs False template arg"

section \<open>The provider\<close>

definition ldap_dial :: "'c ldap_ops \<Rightarrow> ldap_config \<Rightarrow> 'c result" where
  "ldap_dial L cfg =
     (if HasPrefix (lc_URL cfg) ''ldaps://'' then ld_dial L (lc_URL cfg) (Some (lc_TLSInsecure cfg))
      else if HasPrefix (lc_URL cfg) ''ldap://'' then ld_dial L (lc_URL cfg) None
      else Inl (Errorf ''ldap: unsupported URL scheme in %q (use ldap:// or ldaps://)'' [FStr (lc_URL cfg)]))"

definition user_search :: "'c ldap_ops \<Rightarrow> ldap_config \<Rightarrow> string \<Rightarrow> ldap_search" where
  "user_search L cfg username =
     \<lparr>ls_base = lc_UserBase cfg, ls_sizeLimit = 1, ls_filter = Sprintf (lc_UserFilter cfg) (ld_EscapeFilter L username),
      ls_attributes = [''dn'']\<rparr>"

definition findUserDN :: "'c ldap_ops \<Rightarrow> ldap_config \<Rightarrow> string \<Rightarrow> 'c \<Rightarrow> string result \<times> 'c" where
  "findUserDN L cfg username c =
     (case ld_search L (user_search L cfg username) c of
        (Inl err, c') \<Rightarrow> (Inl (Wrap ''ldap: user search'' err), c')
      | (Inr [], c') \<Rightarrow> (Inl (Errorf ''ldap: user %q not found'' [FStr username]), c')
      | (Inr (e # es), c') \<Rightarrow> (Inr (en_DN e), c'))"

text \<open>\<open>GetAttributeValue\<close>: the first value of the attribute, or the empty string.\<close>

definition GetAttributeValue :: "ldap_entry \<Rightarrow> string \<Rightarrow> string" where
  "GetAttributeValue e name =
     (case map_of (en_attributes e) name of Some (v # vs) \<Rightarrow> v | _ \<Rightarrow> [])"

definition findGroups :: "'c ldap_ops \<Rightarrow> ldap_config \<Rightarrow> string \<Rightarrow> 'c \<Rightarrow> string list result \<times> 'c" where
  "findGroups L cfg userDN c =
     (if lc_GroupBase cfg = [] \<or> lc_GroupFilter cfg = [] then (Inr [], c)
      else case ld_search L \<lparr>ls_base = lc_GroupBase cfg, ls_sizeLimit = 0,
                 ls_filter = Sprintf (lc_GroupFilter cfg) (ld_EscapeFilter L userDN), ls_attributes = [''cn'']\<rparr> c of
          (Inl err, c') \<Rightarrow> (Inl (Wrap ''ldap: group search'' err), c')
        | (Inr es, c') \<Rightarrow> (Inr (filter (\<lambda>cn. cn \<noteq> []) (map (\<lambda>e. GetAttributeValue e ''cn'') es)), c'))"

text \<open>A bind as the service account, when there is one.\<close>

definition service_bind :: "'c ldap_ops \<Rightarrow> ldap_config \<Rightarrow> 'c \<Rightarrow> err option \<times> 'c" where
  "service_bind L cfg c =
     (if lc_BindDN cfg \<noteq> [] then ld_bind L (lc_BindDN cfg) (lc_BindPassword cfg) c else (None, c))"

definition Authenticate :: "'c ldap_ops \<Rightarrow> ldap_config \<Rightarrow> string \<Rightarrow> string \<Rightarrow> string list result" where
  "Authenticate L cfg username password =
     (if username = [] \<or> password = [] then Inl (Errorf ''ldap: username and password must not be empty'' [])
      else case ldap_dial L cfg of
          Inl err \<Rightarrow> Inl (Wrap ''ldap: dial'' err)
        | Inr c0 \<Rightarrow>
      (case service_bind L cfg c0 of
          (Some err, c1) \<Rightarrow> Inl (Wrap ''ldap: service bind'' err)
        | (None, c1) \<Rightarrow>
      (case findUserDN L cfg username c1 of
          (Inl err, c2) \<Rightarrow> Inl err
        | (Inr userDN, c2) \<Rightarrow>
      (case ld_bind L userDN password c2 of
          (Some err, c3) \<Rightarrow> Inl (Wrap ''ldap: user bind failed'' err)
        | (None, c3) \<Rightarrow>
      (case service_bind L cfg c3 of
          (Some err, c4) \<Rightarrow> Inl (Wrap ''ldap: re-bind for group search'' err)
        | (None, c4) \<Rightarrow> fst (findGroups L cfg userDN c4))))))"

text \<open>\<open>strings.EqualFold\<close> on ASCII.\<close>

definition ldap_IsAdmin :: "ldap_config \<Rightarrow> string list \<Rightarrow> bool" where
  "ldap_IsAdmin cfg groups = list_ex (\<lambda>g. list_ex (\<lambda>ag. ToLower g = ToLower ag) (lc_AdminGroups cfg)) groups"

section \<open>What the client library documents\<close>

text \<open>
  A bind that succeeds has a password, which the directory accepts for the name: the library refuses an empty one before
  it sends anything. \<open>EscapeFilter\<close> leaves no byte that has a meaning in a filter but the backslash of its escapes.
\<close>

definition filter_special :: "char \<Rightarrow> bool" where
  "filter_special c \<longleftrightarrow> c = CHR ''('' \<or> c = CHR '')'' \<or> c = CHR ''*'' \<or> c = CHR 0x00"

definition client_ok :: "'c ldap_ops \<Rightarrow> (string \<Rightarrow> string \<Rightarrow> bool) \<Rightarrow> bool" where
  "client_ok L accepts \<longleftrightarrow>
     (\<forall>dn pw c c'. ld_bind L dn pw c = (None, c') \<longrightarrow> pw \<noteq> [] \<and> accepts dn pw) \<and>
     (\<forall>s. list_all (\<lambda>c. \<not> filter_special c) (ld_EscapeFilter L s))"

lemma bind_password: "client_ok L accepts \<Longrightarrow> ld_bind L dn pw c = (None, c') \<Longrightarrow> pw \<noteq> [] \<and> accepts dn pw"
  unfolding client_ok_def by blast

lemma service_bind_password:
  "client_ok L accepts \<Longrightarrow> service_bind L cfg c = (None, c') \<Longrightarrow> lc_BindDN cfg \<noteq> [] \<Longrightarrow>
    lc_BindPassword cfg \<noteq> [] \<and> accepts (lc_BindDN cfg) (lc_BindPassword cfg)"
  using bind_password by (fastforce simp: service_bind_def)

lemma Authenticate_Inr:
  assumes ok: "client_ok L accepts" and "Authenticate L cfg username password = Inr groups"
  shows "\<exists>c es c' e. ld_search L (user_search L cfg username) c = (Inr (e # es), c') \<and> accepts (en_DN e) password \<and>
    (lc_BindDN cfg \<noteq> [] \<longrightarrow> lc_BindPassword cfg \<noteq> [] \<and> accepts (lc_BindDN cfg) (lc_BindPassword cfg))"
proof -
  from assms(2) obtain c0 c1 dn c2 c3 where a: "service_bind L cfg c0 = (None, c1)" "findUserDN L cfg username c1 = (Inr dn, c2)"
    "ld_bind L dn password c2 = (None, c3)"
    by (auto simp: Authenticate_def split: if_splits sum.splits prod.splits option.splits)
  from a(2) obtain e es where "ld_search L (user_search L cfg username) c1 = (Inr (e # es), c2)" "dn = en_DN e"
    by (auto simp: findUserDN_def split: sum.splits prod.splits list.splits)
  then show ?thesis using a(3) service_bind_password [OF ok a(1)] bind_password [OF ok a(3)] by blast
qed

lemma Sprintf_verbs_used: "\<exists>r. \<forall>arg. Sprintf_verbs True t arg = r"
proof (induction t rule: length_induct)
  case (1 t)
  show ?case
  proof (cases t)
    case (Cons c cs)
    from 1 Cons obtain r where r: "\<forall>arg. Sprintf_verbs True cs arg = r" by fastforce
    have "\<exists>r. \<forall>arg. Sprintf_verbs True rest arg = r" if "cs = v # rest" for v rest using 1 Cons that by fastforce
    then show ?thesis using r Cons by (cases cs) (auto split: if_splits)
  qed simp
qed

text \<open>The argument is pasted into a fixed text, which the template alone decides.\<close>

lemma Sprintf_pastes: "\<exists>pre post. \<forall>arg. Sprintf_verbs False t arg = pre @ arg @ post"
proof (induction t rule: length_induct)
  case (1 t)
  show ?case
  proof (cases t)
    case Nil
    show ?thesis unfolding Nil by (intro exI [of _ "''%!(EXTRA string=''"] exI [of _ "'')''"]) simp
  next
    case (Cons c cs)
    from 1 Cons obtain pre post where p: "\<forall>arg. Sprintf_verbs False cs arg = pre @ arg @ post" by fastforce
    show ?thesis
    proof (cases "c = CHR ''%''")
      case False
      with p Cons show ?thesis by (intro exI [of _ "c # pre"] exI [of _ post]) simp
    next
      case True
      show ?thesis
      proof (cases cs)
        case Nil
        with True Cons show ?thesis by (intro exI [of _ "''%!(NOVERB)%!(EXTRA string=''"] exI [of _ "'')''"]) simp
      next
        case (Cons v r)
        have "length r < length t" using Cons \<open>t = c # cs\<close> by simp
        with 1 obtain p1 p2 where n: "\<forall>arg. Sprintf_verbs False r arg = p1 @ arg @ p2" by blast
        obtain u where u: "\<And>arg. Sprintf_verbs True r arg = u" using Sprintf_verbs_used [of r] by blast
        consider "v = CHR ''%''" | "v = CHR ''s'' \<or> v = CHR ''v''" | "v \<noteq> CHR ''%''" "v \<noteq> CHR ''s''" "v \<noteq> CHR ''v''" by blast
        then show ?thesis
        proof cases
          case 1
          with n True Cons \<open>t = c # cs\<close> show ?thesis by (intro exI [of _ "CHR ''%'' # p1"] exI [of _ p2]) simp
        next
          case 2
          with True Cons \<open>t = c # cs\<close> show ?thesis by (intro exI [of _ "[]"] exI [of _ u]) (auto simp: u)
        next
          case 3
          with True Cons \<open>t = c # cs\<close> show ?thesis by (intro exI [of _ "''%!'' @ [v] @ ''(string=''"] exI [of _ "'')'' @ u"]) (simp add: u)
        qed
      qed
    qed
  qed
qed

text \<open>The bytes of a filter that have a meaning are those of the template and of the text around the argument.\<close>

lemma filter_structure:
  assumes "client_ok L accepts"
  shows "filter filter_special (ls_filter (user_search L cfg username)) = filter filter_special (ls_filter (user_search L cfg other))"
proof -
  obtain pre post where "\<And>arg. Sprintf (lc_UserFilter cfg) arg = pre @ arg @ post"
    unfolding Sprintf_def using Sprintf_pastes by blast
  moreover have "filter filter_special (ld_EscapeFilter L s) = []" for s
    using assms by (simp add: client_ok_def filter_empty_conv list_all_iff)
  ultimately show ?thesis by (simp add: user_search_def)
qed

text \<open>
  A directory that answers: the server is reached, every search returns the entries of the directory, and a bind succeeds
  exactly with a password that is not empty and that the directory accepts.
\<close>

definition directory_answers :: "'c ldap_ops \<Rightarrow> ldap_config \<Rightarrow> (ldap_search \<Rightarrow> ldap_entry list) \<Rightarrow> (string \<Rightarrow> string \<Rightarrow> bool) \<Rightarrow> bool" where
  "directory_answers L cfg entries accepts \<longleftrightarrow>
     (\<exists>c. ldap_dial L cfg = Inr c) \<and> (\<forall>s c. fst (ld_search L s c) = Inr (entries s)) \<and>
     (\<forall>dn pw c. fst (ld_bind L dn pw c) = None \<longleftrightarrow> pw \<noteq> [] \<and> accepts dn pw)"

lemma directory_service_bind:
  "directory_answers L cfg entries accepts \<Longrightarrow>
    fst (service_bind L cfg c) = None \<longleftrightarrow> lc_BindDN cfg = [] \<or> lc_BindPassword cfg \<noteq> [] \<and> accepts (lc_BindDN cfg) (lc_BindPassword cfg)"
  by (simp add: service_bind_def directory_answers_def)

lemma Authenticate_answered:
  assumes d: "directory_answers L cfg entries accepts"
    and u: "username \<noteq> []" "password \<noteq> []" "entries (user_search L cfg username) = e # es" "accepts (en_DN e) password"
    and b: "lc_BindDN cfg = [] \<or> lc_BindPassword cfg \<noteq> [] \<and> accepts (lc_BindDN cfg) (lc_BindPassword cfg)"
  shows "Authenticate L cfg username password =
    Inr (if lc_GroupBase cfg = [] \<or> lc_GroupFilter cfg = [] then []
         else filter (\<lambda>cn. cn \<noteq> []) (map (\<lambda>g. GetAttributeValue g ''cn'')
           (entries \<lparr>ls_base = lc_GroupBase cfg, ls_sizeLimit = 0,
              ls_filter = Sprintf (lc_GroupFilter cfg) (ld_EscapeFilter L (en_DN e)), ls_attributes = [''cn'']\<rparr>)))"
proof -
  have s: "fst (ld_search L s c) = Inr (entries s)" for s c using d by (simp add: directory_answers_def)
  obtain c0 where c0: "ldap_dial L cfg = Inr c0" using d by (auto simp: directory_answers_def)
  obtain c1 where c1: "service_bind L cfg c0 = (None, c1)" using directory_service_bind [OF d] b by (metis prod.collapse)
  obtain c2 where c2: "ld_search L (user_search L cfg username) c1 = (Inr (e # es), c2)" using s u(3) by (metis prod.collapse)
  obtain c3 where c3: "ld_bind L (en_DN e) password c2 = (None, c3)"
    using d u(2,4) by (metis directory_answers_def prod.collapse)
  obtain c4 where c4: "service_bind L cfg c3 = (None, c4)" using directory_service_bind [OF d] b by (metis prod.collapse)
  have "fst (findGroups L cfg (en_DN e) c4) =
    Inr (if lc_GroupBase cfg = [] \<or> lc_GroupFilter cfg = [] then []
         else filter (\<lambda>cn. cn \<noteq> []) (map (\<lambda>g. GetAttributeValue g ''cn'')
           (entries \<lparr>ls_base = lc_GroupBase cfg, ls_sizeLimit = 0,
              ls_filter = Sprintf (lc_GroupFilter cfg) (ld_EscapeFilter L (en_DN e)), ls_attributes = [''cn'']\<rparr>)))"
    by (simp add: findGroups_def split: prod.split sum.split) (metis fst_conv s sum.distinct(1) sum.inject(2))
  then show ?thesis using u by (simp add: Authenticate_def findUserDN_def c0 c1 c2 c3 c4)
qed

text \<open>
  C33: only who knows a password of the directory is let in, and who knows it is let in by a directory that answers.
  If \<open>Authenticate\<close> succeeds, the password was not empty and
  the directory accepts it for the entry that the search for the user found first; the filter of that search has the
  same structure for every user name, so no name can change what is searched for; and if a service
  account is configured, its password is not empty and accepted. A configuration whose bind password is
  empty, as the one the server loads always is, therefore lets nobody in. When the directory answers every search
  and every bind with an accepted password, these conditions are also enough: the user is let in, with the
  non-empty first \<open>cn\<close> values of what the group search finds for the entry. They are not enough when the directory does
  not answer: a failed connection, second service bind or group search rejects a right password too.
\<close>

theorem ldap_accepts_only_the_user:
  assumes "client_ok L accepts"
  shows "(\<forall>groups. Authenticate L cfg username password = Inr groups \<longrightarrow>
      username \<noteq> [] \<and> password \<noteq> [] \<and>
      (\<exists>s c es c' e. ld_search L s c = (Inr (e # es), c') \<and> accepts (en_DN e) password \<and> ls_base s = lc_UserBase cfg \<and>
        ls_filter s = Sprintf (lc_UserFilter cfg) (ld_EscapeFilter L username) \<and>
        (\<forall>other. filter filter_special (ls_filter s) = filter filter_special (ls_filter (user_search L cfg other)))) \<and>
      (lc_BindDN cfg = [] \<or> lc_BindPassword cfg \<noteq> [] \<and> accepts (lc_BindDN cfg) (lc_BindPassword cfg))) \<and>
    (\<forall>entries e es. directory_answers L cfg entries accepts \<longrightarrow>
      username \<noteq> [] \<longrightarrow> password \<noteq> [] \<longrightarrow> entries (user_search L cfg username) = e # es \<longrightarrow> accepts (en_DN e) password \<longrightarrow>
      (lc_BindDN cfg = [] \<or> lc_BindPassword cfg \<noteq> [] \<and> accepts (lc_BindDN cfg) (lc_BindPassword cfg)) \<longrightarrow>
      Authenticate L cfg username password =
        Inr (if lc_GroupBase cfg = [] \<or> lc_GroupFilter cfg = [] then []
             else filter (\<lambda>cn. cn \<noteq> []) (map (\<lambda>g. GetAttributeValue g ''cn'')
               (entries \<lparr>ls_base = lc_GroupBase cfg, ls_sizeLimit = 0,
                  ls_filter = Sprintf (lc_GroupFilter cfg) (ld_EscapeFilter L (en_DN e)), ls_attributes = [''cn'']\<rparr>))))"
proof (intro conjI allI impI)
  fix groups assume a: "Authenticate L cfg username password = Inr groups"
  obtain c es c' e where s: "ld_search L (user_search L cfg username) c = (Inr (e # es), c')" "accepts (en_DN e) password"
    and b: "lc_BindDN cfg \<noteq> [] \<longrightarrow> lc_BindPassword cfg \<noteq> [] \<and> accepts (lc_BindDN cfg) (lc_BindPassword cfg)"
    using Authenticate_Inr [OF assms a] by blast
  show "username \<noteq> []" "password \<noteq> []" using a by (auto simp: Authenticate_def)
  have "ls_base (user_search L cfg username) = lc_UserBase cfg"
    "ls_filter (user_search L cfg username) = Sprintf (lc_UserFilter cfg) (ld_EscapeFilter L username)" by (simp_all add: user_search_def)
  then show "\<exists>s c es c' e. ld_search L s c = (Inr (e # es), c') \<and> accepts (en_DN e) password \<and> ls_base s = lc_UserBase cfg \<and>
      ls_filter s = Sprintf (lc_UserFilter cfg) (ld_EscapeFilter L username) \<and>
      (\<forall>other. filter filter_special (ls_filter s) = filter filter_special (ls_filter (user_search L cfg other)))"
    using s filter_structure [OF assms] by blast
  show "lc_BindDN cfg = [] \<or> lc_BindPassword cfg \<noteq> [] \<and> accepts (lc_BindDN cfg) (lc_BindPassword cfg)" using b by blast
qed (rule Authenticate_answered)

lemma no_service_password:
  assumes "client_ok L accepts" and "lc_BindDN cfg \<noteq> []" and "lc_BindPassword cfg = []"
  shows "\<exists>err. Authenticate L cfg username password = Inl err"
  using Authenticate_Inr [OF assms(1)] assms(2,3) by (metis sumE)

text \<open>A directory with one user in one group, and a client that escapes every byte but letters and digits.\<close>

definition demo_directory :: "unit ldap_ops" where
  "demo_directory = \<lparr>ld_dial = (\<lambda>u t. Inr ()),
     ld_bind = (\<lambda>dn pw c. (if (dn = ''uid=ann'' \<and> pw = ''secret'') \<or> (dn = ''cn=svc'' \<and> pw = ''svcpw'') then None else Some (Errorf ''invalid credentials'' []), c)),
     ld_search = (\<lambda>s c. (Inr (if ls_filter s = ''(uid=ann)'' then [\<lparr>en_DN = ''uid=ann'', en_attributes = []\<rparr>]
        else if ls_filter s = ''(member=uid3dann)'' then [\<lparr>en_DN = ''cn=ops'', en_attributes = [(''cn'', [''ops''])]\<rparr>] else []), c)),
     ld_EscapeFilter = (\<lambda>s. concat (map (\<lambda>c. let n = of_char c :: nat in
        if (97 \<le> n \<and> n \<le> 122) \<or> (48 \<le> n \<and> n \<le> 57) then [c] else hex_encode [c]) s))\<rparr>"

definition demo_ldap_config :: ldap_config where
  "demo_ldap_config = \<lparr>lc_Enabled = True, lc_URL = ''ldaps://ldap'', lc_BindDN = ''cn=svc'', lc_BindPassword = ''svcpw'',
     lc_UserBase = ''ou=users'', lc_UserFilter = ''(uid=%s)'', lc_GroupBase = ''ou=groups'', lc_GroupFilter = ''(member=%s)'',
     lc_AdminGroups = [''OPS''], lc_TLSInsecure = False\<rparr>"

lemma hex_digit_plain: "\<not> filter_special (hex_digit n)" if "n < 16"
proof -
  have "list_all (\<lambda>n. \<not> filter_special (hex_digit n)) [0..<16]" by code_simp
  with that show ?thesis by (simp add: list_all_iff)
qed

lemma demo_client_ok: "client_ok demo_directory (\<lambda>dn pw. (dn, pw) \<in> {(''uid=ann'', ''secret''), (''cn=svc'', ''svcpw'')})"
proof -
  have "\<not> filter_special c" if "(97::nat) \<le> of_char c \<and> (of_char c :: nat) \<le> 122 \<or> (48::nat) \<le> of_char c \<and> (of_char c :: nat) \<le> 57" for c
    using that by (auto simp: filter_special_def)
  moreover have "list_all (\<lambda>c. \<not> filter_special c) (hex_encode [c])" for c
  proof -
    have "(of_char c :: nat) div 16 < 16" using nat_of_char_less_256 [of c] by linarith
    then show ?thesis by (simp add: hex_encode_def hex_digit_plain Let_def)
  qed
  ultimately show ?thesis
    by (auto simp: client_ok_def demo_directory_def list_all_iff Let_def split: if_splits)
qed

lemma demo_answers:
  "directory_answers demo_directory demo_ldap_config
     (\<lambda>s. if ls_filter s = ''(uid=ann)'' then [\<lparr>en_DN = ''uid=ann'', en_attributes = []\<rparr>]
        else if ls_filter s = ''(member=uid3dann)'' then [\<lparr>en_DN = ''cn=ops'', en_attributes = [(''cn'', [''ops''])]\<rparr>] else [])
     (\<lambda>dn pw. (dn, pw) \<in> {(''uid=ann'', ''secret''), (''cn=svc'', ''svcpw'')})"
proof -
  have "ldap_dial demo_directory demo_ldap_config = Inr ()" by code_simp
  then show ?thesis by (auto simp: directory_answers_def demo_directory_def)
qed

lemma ldap_accepts_only_the_user_witness:
  "(\<exists>s es e. ld_search demo_directory s () = (Inr (e # es), ()) \<and> ls_filter s = ''(uid=ann)'' \<and>
     (en_DN e, ''secret'') \<in> {(''uid=ann'', ''secret''), (''cn=svc'', ''svcpw'')}) \<and>
   Authenticate demo_directory demo_ldap_config ''ann'' ''secret'' = Inr [''ops''] \<and> ldap_IsAdmin demo_ldap_config [''ops'']"
proof -
  have u: "ls_filter (user_search demo_directory demo_ldap_config ''ann'') = ''(uid=ann)''"
    "Sprintf (lc_UserFilter demo_ldap_config) (ld_EscapeFilter demo_directory ''ann'') = ''(uid=ann)''"
    "Sprintf (lc_GroupFilter demo_ldap_config) (ld_EscapeFilter demo_directory ''uid=ann'') = ''(member=uid3dann)''"
    "ldap_IsAdmin demo_ldap_config [''ops'']" by code_simp+
  note t = ldap_accepts_only_the_user [OF demo_client_ok, of demo_ldap_config "''ann''" "''secret''"]
  have a: "Authenticate demo_directory demo_ldap_config ''ann'' ''secret'' = Inr [''ops'']"
    using t [THEN conjunct2, rule_format, OF demo_answers, where e = "\<lparr>en_DN = ''uid=ann'', en_attributes = []\<rparr>" and es = "[]"] u
    by (simp add: demo_ldap_config_def GetAttributeValue_def)
  show ?thesis using t [THEN conjunct1, rule_format, OF a] u a by (metis old.unit.exhaust)
qed

end
