(* ===== verification/Server_Start.thy ===== *)
theory Server_Start
  imports Audit_Log Oidc Ldap Tiered Cluster_Node
begin

text \<open>
  Configuration and start of the server: internal/config/config.go and defaults.go, internal/api/middleware/tls.go, cli/server.go and
  cli/config.go. viper, which reads files and the environment, is the record \<open>viper\<close> over the defaults and the path it is
  given; loading and making certificates are parameters. The start records which resources it has opened and closed.
\<close>

section \<open>Configuration\<close>

record tls_config =
  ts_Enabled :: bool
  ts_CertFile :: string
  ts_KeyFile :: string
  ts_AutoSelfSigned :: bool

record config =
  cf_S3Address :: string
  cf_AdminAddress :: string
  cf_TLS :: tls_config
  cf_Backend :: string
  cf_DataDir :: string
  cf_Tiers :: "tier_config list"
  cf_MetadataPath :: string
  cf_RootAccessKey :: string
  cf_RootSecretKey :: string
  cf_OIDC :: oidc_config
  cf_LDAP :: ldap_config
  cf_ClusterEnabled :: bool
  cf_Node :: node_config
  cf_LogLevel :: string
  cf_LogFormat :: string
  cf_AuditLog :: string
  cf_MaxObjectSize :: string
  cf_MaxBucketCount :: int
  cf_RateLimitRPS :: int
  cf_ReadTimeout :: int64
  cf_WriteTimeout :: int64
  cf_IdleTimeout :: int64

datatype cfg_value = VString string | VBool bool | VInt int

definition setDefaults :: "string \<Rightarrow> (string \<times> cfg_value) list" where
  "setDefaults home =
     (let under = (\<lambda>f. VString (Join_path [home, ''.sangraha'', f])) in
      [(''server.s3_address'', VString '':9000''),
       (''server.admin_address'', VString '':9001''),
       (''server.tls.enabled'', VBool True),
       (''server.tls.auto_self_signed'', VBool True),
       (''server.tls.cert_file'', under ''tls.crt''),
       (''server.tls.key_file'', under ''tls.key''),
       (''storage.backend'', VString ''localfs''),
       (''storage.data_dir'', under ''data''),
       (''metadata.path'', under ''meta.db''),
       (''auth.root_access_key'', VString ''root''),
       (''logging.level'', VString ''info''),
       (''logging.format'', VString ''json''),
       (''logging.audit_log'', under ''audit.log''),
       (''limits.max_object_size'', VString ''5TB''),
       (''limits.max_bucket_count'', VInt 1000),
       (''limits.rate_limit_rps'', VInt 1000),
       (''limits.read_timeout'', VString ''30s''),
       (''limits.write_timeout'', VString ''30s''),
       (''limits.idle_timeout'', VString ''2m0s'')])"

datatype read_outcome = ReadOk | ConfigFileNotFound | ReadFailed err

record viper =
  vi_ReadInConfig :: "(string \<times> cfg_value) list \<Rightarrow> string \<Rightarrow> read_outcome"
  vi_Unmarshal :: "(string \<times> cfg_value) list \<Rightarrow> string \<Rightarrow> config result"
  vi_GetString :: "(string \<times> cfg_value) list \<Rightarrow> string \<Rightarrow> string \<Rightarrow> string"

definition Load :: "viper \<Rightarrow> string \<Rightarrow> string \<Rightarrow> config result" where
  "Load V home path =
     (let v = setDefaults home in
      case vi_ReadInConfig V v path of
        ReadFailed err \<Rightarrow> Inl (Wrap ''read config'' err)
      | _ \<Rightarrow>
          (case vi_Unmarshal V v path of
             Inl err \<Rightarrow> Inl (Wrap ''unmarshal config'' err)
           | Inr cfg \<Rightarrow> Inr (cfg\<lparr>cf_RootSecretKey := vi_GetString V v path ''ROOT_SECRET_KEY''\<rparr>)))"

definition Validate :: "config \<Rightarrow> err option" where
  "Validate cfg =
     (if cf_S3Address cfg = [] then Some (Errorf ''server.s3_address must not be empty'' [])
      else if cf_AdminAddress cfg = [] then Some (Errorf ''server.admin_address must not be empty'' [])
      else if cf_DataDir cfg = [] then Some (Errorf ''storage.data_dir must not be empty'' [])
      else if cf_MetadataPath cfg = [] then Some (Errorf ''metadata.path must not be empty'' [])
      else if cf_Backend cfg \<notin> {''localfs'', ''badger'', ''tiered''}
      then Some (Errorf ''storage.backend %q is not supported; choose localfs, badger, or tiered'' [FStr (cf_Backend cfg)])
      else if cf_Backend cfg = ''tiered'' \<and> cf_Tiers cfg = []
      then Some (Errorf (''storage.backend is '' @ [CHR 0x22] @ ''tiered'' @ [CHR 0x22] @ '' but storage.tiers is empty'') [])
      else if cf_RootAccessKey cfg = [] then Some (Errorf ''auth.root_access_key must not be empty'' [])
      else None)"

text \<open>The commands of cli/config.go: what they print.\<close>

definition configShow :: "viper \<Rightarrow> string \<Rightarrow> string \<Rightarrow> (string \<times> string) list result" where
  "configShow V home path =
     (case Load V home path of
        Inl err \<Rightarrow> Inl (Wrap ''load config'' err)
      | Inr cfg \<Rightarrow> Inr [(''s3_address'', cf_S3Address cfg), (''admin_address'', cf_AdminAddress cfg), (''data_dir'', cf_DataDir cfg),
          (''metadata'', cf_MetadataPath cfg), (''backend'', cf_Backend cfg), (''log_level'', cf_LogLevel cfg),
          (''tls_enabled'', if ts_Enabled (cf_TLS cfg) then ''true'' else ''false'')])"

definition configValidate :: "viper \<Rightarrow> string \<Rightarrow> string \<Rightarrow> string result" where
  "configValidate V home path =
     (case Load V home path of
        Inl err \<Rightarrow> Inl (Wrap ''load config'' err)
      | Inr cfg \<Rightarrow> (case Validate cfg of Some err \<Rightarrow> Inl (Wrap ''validation failed'' err) | None \<Rightarrow> Inr ''configuration is valid''))"

definition loadAndValidateConfig :: "viper \<Rightarrow> string \<Rightarrow> string \<Rightarrow> config result" where
  "loadAndValidateConfig V home flagConfigFile =
     (case Load V home flagConfigFile of
        Inl err \<Rightarrow> Inl (Wrap ''load config'' err)
      | Inr cfg \<Rightarrow> (case Validate cfg of Some err \<Rightarrow> Inl (Wrap ''invalid config'' err) | None \<Rightarrow> Inr cfg))"

section \<open>TLS\<close>

definition BuildTLSConfig :: "(string \<Rightarrow> string \<Rightarrow> 'c result) \<Rightarrow> 'c result \<Rightarrow> string \<Rightarrow> string \<Rightarrow> bool \<Rightarrow> 'c result" where
  "BuildTLSConfig load selfSigned certFile keyFile autoSelfSigned =
     (if certFile \<noteq> [] \<and> keyFile \<noteq> [] then
        (case load certFile keyFile of Inl err \<Rightarrow> Inl (Wrap ''tls: load cert/key'' err) | Inr cert \<Rightarrow> Inr cert)
      else if autoSelfSigned then
        (case selfSigned of Inl err \<Rightarrow> Inl (Wrap ''tls: generate self-signed cert'' err) | Inr cert \<Rightarrow> Inr cert)
      else Inl (Errorf ''tls: cert_file and key_file must be set, or auto_self_signed must be true'' []))"

section \<open>Start\<close>

text \<open>What the process is given, the store that is found behind a path, and the calls that set up TLS.\<close>

record ('m, 'c) platform_start =
  ps_audit :: "string \<Rightarrow> audit_logger result"
  ps_openMeta :: "string \<Rightarrow> 'm result"
  ps_fs :: fs
  ps_now :: time
  ps_rnd :: random_source
  ps_loadPair :: "string \<Rightarrow> string \<Rightarrow> 'c result"
  ps_selfSigned :: "'c result"
  ps_flagDev :: bool

record ('m, 'c) server_deps =
  sd_engine :: "('m, local_fs) engine"
  sd_auditor :: audit_logger
  sd_tlsCfg :: "'c option"

datatype resource = RAudit | RMeta

datatype resource_event = Opened resource | Closed resource

definition initTLS :: "('m, 'c) platform_start \<Rightarrow> config \<Rightarrow> 'c option result" where
  "initTLS S cfg =
     (if ts_Enabled (cf_TLS cfg) \<and> \<not> ps_flagDev S
      then (case BuildTLSConfig (ps_loadPair S) (ps_selfSigned S) (ts_CertFile (cf_TLS cfg)) (ts_KeyFile (cf_TLS cfg))
              (ts_AutoSelfSigned (cf_TLS cfg)) of
              Inl err \<Rightarrow> Inl err | Inr c \<Rightarrow> Inr (Some c))
      else Inr None)"

text \<open>The root key is stored when a secret is configured; otherwise the store is left as it is.\<close>

definition provision_root :: "'m meta_store \<Rightarrow> kdf \<Rightarrow> ('m, 'c) platform_start \<Rightarrow> config \<Rightarrow> 'm \<Rightarrow> unit result \<times> 'm" where
  "provision_root M K S cfg m =
     (if cf_RootSecretKey cfg \<noteq> []
      then UpsertKey M K (ps_rnd S) (ps_now S) (cf_RootAccessKey cfg) (cf_RootSecretKey cfg) ''root'' True m
      else (Inr (), m))"

definition initDeps :: "'m meta_store \<Rightarrow> kdf \<Rightarrow> ('m, 'c) platform_start \<Rightarrow> config \<Rightarrow>
    ('m, 'c) server_deps result \<times> resource_event list" where
  "initDeps M K S cfg =
     (case ps_audit S (cf_AuditLog cfg) of
        Inl err \<Rightarrow> (Inl (Wrap ''open audit log'' err), [])
      | Inr auditor \<Rightarrow>
     (case ps_openMeta S (cf_MetadataPath cfg) of
        Inl err \<Rightarrow> (Inl (Wrap ''open metadata store'' err), [Opened RAudit, Closed RAudit])
      | Inr m \<Rightarrow>
     (case localfs_New (cf_DataDir cfg) (ps_fs S) 0 (ps_now S) of
        Inl err \<Rightarrow> (Inl (Wrap ''open storage backend'' err), [Opened RAudit, Opened RMeta, Closed RMeta, Closed RAudit])
      | Inr be \<Rightarrow>
     (case provision_root M K S cfg m of
        (Inl err, m') \<Rightarrow> (Inl (Wrap ''provision root key'' err), [Opened RAudit, Opened RMeta, Closed RMeta, Closed RAudit])
      | (Inr _, m') \<Rightarrow>
     (case initTLS S cfg of
        Inl err \<Rightarrow> (Inl (Wrap ''build TLS config'' err), [Opened RAudit, Opened RMeta, Closed RMeta, Closed RAudit])
      | Inr tlsCfg \<Rightarrow>
          (Inr \<lparr>sd_engine = engine_New be m' (cf_RootAccessKey cfg), sd_auditor = auditor, sd_tlsCfg = tlsCfg\<rparr>,
           [Opened RAudit, Opened RMeta]))))))"

text \<open>What is served and where: the plan of \<open>serveUntilSignal\<close>.\<close>

record listener =
  ln_addr :: string
  ln_tls :: bool
  ln_certFile :: string
  ln_keyFile :: string

record serve_plan =
  sp_rateLimitRPS :: int
  sp_serverURL :: string
  sp_s3 :: listener
  sp_admin :: listener

definition serveUntilSignal :: "config \<Rightarrow> ('m, 'c) server_deps \<Rightarrow> serve_plan" where
  "serveUntilSignal cfg deps =
     (let rps = (if cf_RateLimitRPS cfg \<le> 0 then 1000 else cf_RateLimitRPS cfg);
          scheme = (if ts_Enabled (cf_TLS cfg) then ''https'' else ''http'');
          addr = (case cf_S3Address cfg of c # r \<Rightarrow> if c = CHR '':'' then ''localhost'' @ cf_S3Address cfg else cf_S3Address cfg | [] \<Rightarrow> [])
      in \<lparr>sp_rateLimitRPS = rps, sp_serverURL = scheme @ ''://'' @ addr,
          sp_s3 = \<lparr>ln_addr = cf_S3Address cfg, ln_tls = sd_tlsCfg deps \<noteq> None,
                   ln_certFile = ts_CertFile (cf_TLS cfg), ln_keyFile = ts_KeyFile (cf_TLS cfg)\<rparr>,
          sp_admin = \<lparr>ln_addr = cf_AdminAddress cfg, ln_tls = False, ln_certFile = [], ln_keyFile = []\<rparr>\<rparr>)"

text \<open>\<open>runServerStart\<close>: the clean-up closes what a successful start has opened when the server ends.\<close>

definition runServerStart :: "viper \<Rightarrow> string \<Rightarrow> string \<Rightarrow> 'm meta_store \<Rightarrow> kdf \<Rightarrow> ('m, 'c) platform_start \<Rightarrow>
    serve_plan result \<times> resource_event list" where
  "runServerStart V home flagConfigFile M K S =
     (case loadAndValidateConfig V home flagConfigFile of
        Inl err \<Rightarrow> (Inl err, [])
      | Inr cfg \<Rightarrow>
          (case initDeps M K S cfg of
             (Inl err, evs) \<Rightarrow> (Inl err, evs)
           | (Inr deps, evs) \<Rightarrow> (Inr (serveUntilSignal cfg deps), evs @ [Closed RMeta, Closed RAudit])))"

section \<open>What the start guarantees\<close>

definition open_after :: "resource \<Rightarrow> resource_event list \<Rightarrow> int" where
  "open_after r evs = int (count_list evs (Opened r)) - int (count_list evs (Closed r))"

text \<open>A start that fails has closed what it opened, and so has one that ends.\<close>

lemma start_closes_everything: "open_after r (snd (runServerStart V home path M K S)) = 0"
proof -
  have init: "open_after r evs = 0" if "initDeps M K S cfg = (Inl err, evs)" for cfg err evs
    using that by (cases r) (auto simp: initDeps_def open_after_def split: sum.splits prod.splits)
  have opened: "evs = [Opened RAudit, Opened RMeta]" if "initDeps M K S cfg = (Inr deps, evs)" for cfg deps evs
    using that by (auto simp: initDeps_def split: sum.splits prod.splits)
  show ?thesis
  proof (cases "loadAndValidateConfig V home path")
    case (Inl err)
    then show ?thesis by (simp add: runServerStart_def open_after_def)
  next
    case (Inr cfg)
    obtain res evs where i: "initDeps M K S cfg = (res, evs)" by force
    show ?thesis
    proof (cases res)
      case (Inl err)
      with i Inr init show ?thesis by (simp add: runServerStart_def)
    next
      case (Inr deps)
      with i \<open>loadAndValidateConfig V home path = Inr cfg\<close> show ?thesis
        by (cases r) (auto simp: runServerStart_def open_after_def dest: opened)
    qed
  qed
qed

text \<open>The backend of the configuration is never looked at: every value that is valid gives the same server.\<close>

lemma backend_choice_ignored: "initDeps M K S (cfg\<lparr>cf_Backend := b, cf_Tiers := ts, cf_ClusterEnabled := c\<rparr>) = initDeps M K S cfg"
  by (simp add: initDeps_def initTLS_def provision_root_def split: sum.splits prod.splits)

text \<open>
  With the certificate files of the defaults the files must exist: automatic certificates, on by default, are never made.
\<close>

lemma default_certificate_files:
  assumes "(''server.tls.cert_file'', VString cert) \<in> set (setDefaults home)" and "(''server.tls.key_file'', VString keyf) \<in> set (setDefaults home)"
  shows "BuildTLSConfig load selfSigned cert keyf auto =
    (case load cert keyf of Inl err \<Rightarrow> Inl (Wrap ''tls: load cert/key'' err) | Inr c \<Rightarrow> Inr c)"
proof -
  have "cert = Join_path [home, ''.sangraha'', ''tls.crt'']" "keyf = Join_path [home, ''.sangraha'', ''tls.key'']"
    using assms by (simp_all add: setDefaults_def Let_def)
  moreover have "Join_path [home, ''.sangraha'', f] \<noteq> []" for f
    by (simp add: Join_path_def Clean_def Let_def)
  ultimately show ?thesis by (simp add: BuildTLSConfig_def)
qed

text \<open>In development mode the server speaks HTTP and the URLs it hands out begin with https; the admin server never uses TLS.\<close>

lemma dev_mode_urls:
  assumes "ps_flagDev S" and "ts_Enabled (cf_TLS cfg)" and "initDeps M K S cfg = (Inr deps, evs)"
  shows "\<not> ln_tls (sp_s3 (serveUntilSignal cfg deps)) \<and> HasPrefix (sp_serverURL (serveUntilSignal cfg deps)) ''https://'' \<and>
    \<not> ln_tls (sp_admin (serveUntilSignal cfg deps))"
  using assms by (auto simp: initDeps_def initTLS_def serveUntilSignal_def Let_def split: sum.splits prod.splits)

text \<open>A rate limit that is switched off by the configuration is 1000.\<close>

lemma rate_limit_never_off: "0 < sp_rateLimitRPS (serveUntilSignal cfg deps)"
  by (simp add: serveUntilSignal_def Let_def)

end
