(* ===== verification/Init_Wizard.thy ===== *)
theory Init_Wizard
  imports Server_Start
begin

text \<open>
  The wizard of cli/init.go. Standard input is the list of its lines; a line that is missing reads as an empty one. What
  the wizard prints is left out, except that a secret it generated was shown. Making a directory and
  writing a file are parameters; the files are the pairs of path and content that are written, in order.
\<close>

record init_config =
  ic_configDir :: string
  ic_dataDir :: string
  ic_metaPath :: string
  ic_s3Addr :: string
  ic_adminAddr :: string
  ic_rootAccessKey :: string
  ic_rootSecretKey :: string
  ic_sseKey :: string
  ic_tlsEnabled :: bool
  ic_autoSelfSign :: bool
  ic_certFile :: string
  ic_keyFile :: string

definition prompt :: "string list \<Rightarrow> string \<times> string list" where
  "prompt ls = (case ls of [] \<Rightarrow> ([], []) | l # r \<Rightarrow> (TrimSpace l, r))"

definition promptDefault :: "string \<Rightarrow> string list \<Rightarrow> string \<times> string list" where
  "promptDefault dflt ls = (case prompt ls of (v, r) \<Rightarrow> (if v = [] then dflt else v, r))"

definition promptYesNo :: "string list \<Rightarrow> bool \<times> string list" where
  "promptYesNo ls = (case prompt ls of (v, r) \<Rightarrow> (let a = ToLower v in a = ''y'' \<or> a = ''yes'', r))"

definition generateSecret :: "(nat \<Rightarrow> bytes) \<Rightarrow> nat \<Rightarrow> string" where
  "generateSecret draw n = hex_encode (draw n)"

definition promptOrGenerate :: "(nat \<Rightarrow> bytes) \<Rightarrow> nat \<Rightarrow> string list \<Rightarrow> string \<times> string list" where
  "promptOrGenerate draw n ls = (case prompt ls of (v, r) \<Rightarrow> (if v \<noteq> [] then v else generateSecret draw n, r))"

text \<open>\<open>rnd i\<close> is the \<open>i\<close>-th draw, \<open>mkdir\<close> makes a directory with its parents.\<close>

definition collectInitAnswers :: "(string \<Rightarrow> err option) \<Rightarrow> random_source \<Rightarrow> string option \<Rightarrow> string list \<Rightarrow> init_config result" where
  "collectInitAnswers mkdir rnd home ls0 =
     (let homeDir = (case home of Some h \<Rightarrow> h | None \<Rightarrow> ''.'');
          (dir, ls1) = promptDefault (Join_path [homeDir, ''.sangraha'']) ls0;
          configDir = Clean dir
      in case mkdir configDir of
           Some err \<Rightarrow> Inl (Wrap ''create config dir'' err)
         | None \<Rightarrow>
             let (ddir, ls2) = promptDefault (Join_path [configDir, ''data'']) ls1;
                 dataDir = Clean ddir
             in (case mkdir dataDir of
                   Some err \<Rightarrow> Inl (Wrap ''create data dir'' err)
                 | None \<Rightarrow>
                     let (mpath, ls3) = promptDefault (Join_path [configDir, ''meta.db'']) ls2;
                         (s3, ls4) = promptDefault '':9000'' ls3;
                         (adm, ls5) = promptDefault '':9001'' ls4;
                         (rootKey, ls6) = promptDefault ''root'' ls5;
                         (rootSecret, ls7) = promptOrGenerate (rnd 0) 32 ls6;
                         (sse, ls8) = promptOrGenerate (rnd 1) 32 ls7;
                         (tlsOn, ls9) = promptYesNo ls8;
                         (autoSign, ls10) = (if tlsOn then promptYesNo ls9 else (False, ls9));
                         (cert, ls11) = (if tlsOn \<and> \<not> autoSign then prompt ls10 else ([], ls10));
                         (keyf, ls12) = (if tlsOn \<and> \<not> autoSign then prompt ls11 else ([], ls11))
                     in Inr \<lparr>ic_configDir = configDir, ic_dataDir = dataDir, ic_metaPath = Clean mpath, ic_s3Addr = s3,
                              ic_adminAddr = adm, ic_rootAccessKey = rootKey, ic_rootSecretKey = rootSecret, ic_sseKey = sse,
                              ic_tlsEnabled = tlsOn, ic_autoSelfSign = autoSign, ic_certFile = cert, ic_keyFile = keyf\<rparr>))"

abbreviation QUOTE :: char where
  "QUOTE \<equiv> CHR 0x22"

abbreviation NEWLINE :: string where
  "NEWLINE \<equiv> [CHR 0x0A]"

definition fmt_bool :: "bool \<Rightarrow> string" where
  "fmt_bool b = (if b then ''true'' else ''false'')"

definition quoted_value :: "string \<Rightarrow> string" where
  "quoted_value v = [QUOTE] @ v @ [QUOTE]"

definition buildConfig :: "init_config \<Rightarrow> string" where
  "buildConfig c =
     ''# sangraha configuration '' @ [CHR 0xE2, CHR 0x80, CHR 0x94] @ '' generated by '' @ [CHR 0x27] @ ''sangraha init'' @ [CHR 0x27] @ NEWLINE @
     ''server:'' @ NEWLINE @
     ''  s3_address: '' @ quoted_value (ic_s3Addr c) @ NEWLINE @
     ''  admin_address: '' @ quoted_value (ic_adminAddr c) @ NEWLINE @
     ''  tls:'' @ NEWLINE @
     ''    enabled: '' @ fmt_bool (ic_tlsEnabled c) @ NEWLINE @
     ''    auto_self_signed: '' @ fmt_bool (ic_autoSelfSign c) @ NEWLINE @
     ''    cert_file: '' @ quoted_value (ic_certFile c) @ NEWLINE @
     ''    key_file: '' @ quoted_value (ic_keyFile c) @ NEWLINE @ NEWLINE @
     ''storage:'' @ NEWLINE @
     ''  backend: localfs'' @ NEWLINE @
     ''  data_dir: '' @ quoted_value (ic_dataDir c) @ NEWLINE @ NEWLINE @
     ''metadata:'' @ NEWLINE @
     ''  path: '' @ quoted_value (ic_metaPath c) @ NEWLINE @ NEWLINE @
     ''auth:'' @ NEWLINE @
     ''  root_access_key: '' @ quoted_value (ic_rootAccessKey c) @ NEWLINE @
     ''  # root_secret_key is set via the SANGRAHA_ROOT_SECRET_KEY environment variable.'' @ NEWLINE @ NEWLINE @
     ''logging:'' @ NEWLINE @
     ''  level: info'' @ NEWLINE @
     ''  format: json'' @ NEWLINE @ NEWLINE @
     ''limits:'' @ NEWLINE @
     ''  max_bucket_count: 1000'' @ NEWLINE @
     ''  rate_limit_rps: 1000'' @ NEWLINE"

definition env_content :: "init_config \<Rightarrow> string" where
  "env_content c =
     ''export SANGRAHA_ROOT_SECRET_KEY='' @ ic_rootSecretKey c @ NEWLINE @ ''export SANGRAHA_SSE_MASTER_KEY='' @ ic_sseKey c @ NEWLINE"

definition writeInitFiles :: "(string \<Rightarrow> err option) \<Rightarrow> init_config \<Rightarrow> unit result \<times> (string \<times> string) list" where
  "writeInitFiles wr c =
     (let cfgPath = Join_path [ic_configDir c, ''config.yaml'']; envPath = Join_path [ic_configDir c, ''env''] in
      case wr cfgPath of
        Some err \<Rightarrow> (Inl (Wrap ''write config'' err), [])
      | None \<Rightarrow>
          (case wr envPath of
             Some err \<Rightarrow> (Inl (Wrap ''write env file'' err), [(cfgPath, buildConfig c)])
           | None \<Rightarrow> (Inr (), [(cfgPath, buildConfig c), (envPath, env_content c)])))"

definition runInit :: "(string \<Rightarrow> err option) \<Rightarrow> (string \<Rightarrow> err option) \<Rightarrow> random_source \<Rightarrow> string option \<Rightarrow> string list \<Rightarrow>
    unit result \<times> (string \<times> string) list" where
  "runInit mkdir wr rnd home ls =
     (case collectInitAnswers mkdir rnd home ls of
        Inl err \<Rightarrow> (Inl err, [])
      | Inr c \<Rightarrow> writeInitFiles wr c)"

text \<open>The secret is not in the configuration file, which the answers for it do not change.\<close>

lemma config_file_has_no_secret: "buildConfig (c\<lparr>ic_rootSecretKey := s, ic_sseKey := k\<rparr>) = buildConfig c"
  by (simp add: buildConfig_def)

text \<open>
  Who enables TLS and takes the default that is shown for self-signed certificates, \<open>[Y/n]\<close>, by a blank line, and names no files, gets a
  configuration with which the server cannot start.
\<close>

lemma blank_default_cannot_start:
  assumes "collectInitAnswers mkdir rnd home [a, b, c, d, e, f, g, h, ''y'', [], [], []] = Inr cfg"
  shows "ic_tlsEnabled cfg \<and> (\<exists>err. BuildTLSConfig load selfSigned (ic_certFile cfg) (ic_keyFile cfg) (ic_autoSelfSign cfg) = Inl err)"
proof -
  have y: "promptYesNo (''y'' # r) = (True, r)" "promptYesNo ([] # r) = (False, r)" "prompt ([] # r) = ([], r)" for r
    by (simp_all add: promptYesNo_def prompt_def Let_def TrimSpace_def Trim_def TrimLeft_def TrimRight_def ToLower_def lower_char_def)
  have p: "promptDefault w (l # r) = (if TrimSpace l = [] then w else TrimSpace l, r)"
    "promptOrGenerate dr n (l # r) = (if TrimSpace l \<noteq> [] then TrimSpace l else generateSecret dr n, r)" for w l r dr n
    by (simp_all add: promptDefault_def promptOrGenerate_def prompt_def)
  from assms show ?thesis
    by (auto simp: collectInitAnswers_def Let_def p y BuildTLSConfig_def simp del: if_split split: option.splits)
qed

end
