(* ===== verification/Oidc_Props.thy ===== *)
theory Oidc_Props
  imports Oidc
begin

text \<open>
  What an accepted id token means: its claims name this client and issuer and have not expired, and its signature
  verifies under a key that the provider serves now or served within the last hour. Also the round trip of
  the encoding, and two consequences of the code: a token can be written in many ways, and a key the
  provider starts to use is unknown while the cached set is fresh.
\<close>

section \<open>base64\<close>

lemma b64_value_alphabet: "v < 64 \<Longrightarrow> b64_value (b64_alphabet ! v) = Some v \<and> \<not> newline_byte (b64_alphabet ! v)"
proof -
  have v: "map b64_value b64_alphabet = map Some [0..<64]" and n: "list_all (\<lambda>c. \<not> newline_byte c) b64_alphabet" by code_simp+
  have len: "length b64_alphabet = 64" using arg_cong [OF v, of length] by simp
  show "b64_value (b64_alphabet ! v) = Some v \<and> \<not> newline_byte (b64_alphabet ! v)" if "v < 64"
    using arg_cong [OF v, of "\<lambda>xs. xs ! v"] n that len by (simp add: list_all_length)
qed

text \<open>Bytes cut into digits and put together again.\<close>

lemma sextets:
  fixes a b c :: nat
  shows "b < 256 \<Longrightarrow> a div 4 * 4 + (a mod 4 * 16 + b div 16) div 16 = a"
    and "b < 256 \<Longrightarrow> (a mod 4 * 16 + b div 16) mod 16 = b div 16"
    and "b < 256 \<Longrightarrow> c < 256 \<Longrightarrow> b div 16 * 16 + (b mod 16 * 4 + c div 64) div 4 = b"
    and "c < 256 \<Longrightarrow> (b mod 16 * 4 + c div 64) mod 4 * 64 + c mod 64 = c"
proof -
  have d: "b div 16 < 16" "b div 16 div 16 = 0" if "b < 256" for b :: nat using that by (auto simp: less_mult_imp_div_less)
  have e: "c div 64 < 4" "c div 64 div 4 = 0" if "c < 256" for c :: nat using that by (auto simp: less_mult_imp_div_less)
  show "b < 256 \<Longrightarrow> a div 4 * 4 + (a mod 4 * 16 + b div 16) div 16 = a" using d [of b] by (simp add: div_mult_self3)
  show "b < 256 \<Longrightarrow> (a mod 4 * 16 + b div 16) mod 16 = b div 16" using d [of b] by simp
  show "b < 256 \<Longrightarrow> c < 256 \<Longrightarrow> b div 16 * 16 + (b mod 16 * 4 + c div 64) div 4 = b" using e [of c] by simp
  show "c < 256 \<Longrightarrow> (b mod 16 * 4 + c div 64) mod 4 * 64 + c mod 64 = c" using e [of c] by simp
qed

lemma b64_digits_bound: "list_all (\<lambda>n. n < 256) ns \<Longrightarrow> list_all (\<lambda>v. v < 64) (b64_digits ns)"
  by (induction ns rule: b64_digits.induct) auto

lemma b64_bytes_digits: "list_all (\<lambda>n. n < 256) ns \<Longrightarrow> b64_bytes (b64_digits ns) = Some (map char_of ns)"
proof (induction ns rule: b64_digits.induct)
  case (4 a b c bs)
  then show ?case using sextets(1,2) [of b a] sextets(3) [of b c] sextets(4) [of c b] by simp
next
  case (3 a b)
  then show ?case using sextets(1,2) [of b a] sextets(3) [of b 0] by simp
qed (use sextets(1) [of 0] in simp_all)

lemma option_map_list_Some: "(\<And>x. x \<in> set xs \<Longrightarrow> f (g x) = Some x) \<Longrightarrow> option_map_list f (map g xs) = Some xs"
  by (induction xs) auto

lemma b64_decode_encode: "b64_decode (b64_encode bs) = Some bs"
proof -
  let ?ds = "b64_digits (map of_char bs)"
  have d: "list_all (\<lambda>v. v < 64) ?ds" by (rule b64_digits_bound) (simp add: list_all_iff)
  then have "filter (\<lambda>c. \<not> newline_byte c) (b64_encode bs) = b64_encode bs"
    by (auto simp: b64_encode_def filter_id_conv list_all_iff b64_value_alphabet)
  moreover have "option_map_list b64_value (b64_encode bs) = Some ?ds"
    unfolding b64_encode_def by (rule option_map_list_Some) (use d in \<open>simp add: list_all_iff b64_value_alphabet\<close>)
  moreover have "b64_bytes ?ds = Some bs" by (subst b64_bytes_digits) (simp_all add: list_all_iff comp_def)
  ultimately show ?thesis by (simp add: b64_decode_def)
qed

section \<open>Signatures\<close>

text \<open>The algorithms a signature may have.\<close>

definition oidc_algs :: "string list" where
  "oidc_algs = [''RS256'', ''RS384'', ''RS512'', ''ES256'', ''ES384'', ''ES512'']"

text \<open>A key of the type that the algorithm asks for verifies the signature of the input.\<close>

definition signed_by :: "jose \<Rightarrow> jwk \<Rightarrow> string \<Rightarrow> bytes \<Rightarrow> bytes \<Rightarrow> bool" where
  "signed_by J k alg input sig \<longleftrightarrow>
     (\<exists>h. hashForAlg alg = Some h \<and>
        ((jw_Kty k = ''RSA'' \<and> HasPrefix alg ''RS'' \<and>
          (\<exists>n e. rsaPublicKeyFromJWK k = Inr (n, e) \<and> jo_rsa J n e h (jo_hash J h input) sig)) \<or>
         (jw_Kty k = ''EC'' \<and> HasPrefix alg ''ES'' \<and>
          (\<exists>c x y r s. ecPublicKeyFromJWK k = Inr (c, x, y) \<and> jo_ecdsa J c x y (jo_hash J h input) r s \<and>
             (jo_asn1 J sig = Some (r, s) \<or>
              length sig = 2 * ((BitSize c + 7) div 8) \<and> r = int (SetBytes (take ((BitSize c + 7) div 8) sig)) \<and>
              s = int (SetBytes (drop ((BitSize c + 7) div 8) sig)))))))"

lemma verifyJWKSignature_None: "verifyJWKSignature J k alg input sig = None \<Longrightarrow> signed_by J k alg input sig"
  unfolding signed_by_def
  by (auto simp: verifyJWKSignature_def verifyRSASignature_def verifyECSignature_def Let_def
      split: if_splits sum.splits option.splits prod.splits)

lemma hashForAlg_algs: "hashForAlg alg = Some h \<Longrightarrow> alg \<in> set oidc_algs"
  by (auto simp: hashForAlg_def oidc_algs_def split: if_splits)

lemma verifySignatureWithKeys_None:
  "verifySignatureWithKeys J ks hdr input sig = None \<Longrightarrow>
    \<exists>k \<in> set ks. (jh_Kid hdr = [] \<or> jw_Kid k = jh_Kid hdr) \<and> signed_by J k (jh_Alg hdr) input sig"
  by (induction ks) (auto dest: verifyJWKSignature_None split: if_splits)

lemma unknown_key_refused:
  assumes "jh_Kid hdr \<noteq> []" and "\<forall>k \<in> set ks. jw_Kid k \<noteq> jh_Kid hdr"
  shows "verifySignatureWithKeys J ks hdr input sig \<noteq> None"
  using assms by (induction ks) auto

section \<open>The set of keys\<close>

text \<open>What the provider serves at a request for its keys.\<close>

definition served_keys :: "jose \<Rightarrow> http_get \<Rightarrow> oidc_provider \<Rightarrow> jwk list option" where
  "served_keys J get p =
     (case get (od_JWKSURI (op_discovery p)) of
        Inr (status, body) \<Rightarrow> if status = 200 then Option.bind (jo_parse J body) decode_jwks else None
      | Inl err \<Rightarrow> None)"

lemma fetchJWKS_cases:
  assumes "fetchJWKS J get now stored p = (r, p')"
  obtains (cached) "r = Inr (op_keys p)" "p' = p" "now - op_fetchedAt p < jwks_ttl" "op_keys p \<noteq> []"
    | (fetched) ks where "r = Inr ks" "served_keys J get p = Some ks" "p' = p\<lparr>op_keys := ks, op_fetchedAt := stored\<rparr>"
    | (failed) err where "r = Inl err" "p' = p"
proof (cases "now - op_fetchedAt p < jwks_ttl \<and> op_keys p \<noteq> []")
  case True
  with assms have "r = Inr (op_keys p) \<and> p' = p" by (auto simp: fetchJWKS_def)
  with True cached show thesis by blast
next
  case miss: False
  show thesis
  proof (cases "served_keys J get p")
    case None
    with assms miss have "\<exists>err. r = Inl err \<and> p' = p"
      by (auto simp: fetchJWKS_def served_keys_def split: sum.splits if_splits option.splits)
    with failed show thesis by blast
  next
    case (Some ks)
    with assms miss have "r = Inr ks \<and> p' = p\<lparr>op_keys := ks, op_fetchedAt := stored\<rparr>"
      by (auto simp: fetchJWKS_def served_keys_def split: sum.splits if_splits option.splits)
    with fetched Some show thesis by blast
  qed
qed

text \<open>
  The states of a provider, with the record of what the identity provider served and when: each verification may
  meet another answer of the network and runs at its own times.
\<close>

inductive oidc_reach :: "jose \<Rightarrow> oidc_config \<Rightarrow> oidc_provider \<Rightarrow> (time \<times> jwk list) list \<Rightarrow> bool" for J cfg where
  created: "NewOIDCProvider J get cfg = Inr p \<Longrightarrow> oidc_reach J cfg p []"
| verified: "oidc_reach J cfg p hist \<Longrightarrow> VerifyIDToken J get now now' stored token p = (r, p') \<Longrightarrow>
    hist' = (case served_keys J get p of Some ks \<Rightarrow> (stored, ks) # hist | None \<Rightarrow> hist) \<Longrightarrow> oidc_reach J cfg p' hist'"

lemma VerifyIDToken_Inr:
  assumes "VerifyIDToken J get now now' stored token p = (Inr (sub, groups), p')"
  obtains h c s t ks where "Split CHR ''.'' token = [h, c, s]" "parseRawJWT J token = Inr t"
    "rj_signingInput t = h @ ''.'' @ c" "verifyClaims (op_cfg p) (rj_claims t) now = None"
    "fetchJWKS J get now' stored p = (Inr ks, p')"
    "verifySignatureWithKeys J ks (rj_header t) (rj_signingInput t) (rj_sig t) = None"
    "sub = subject_of (rj_claims t)" "sub \<noteq> []" "groups = extractStringSlice (rj_claims t) (oc_GroupsClaim (op_cfg p))"
proof -
  from assms obtain t where t: "parseRawJWT J token = Inr t" by (auto simp: VerifyIDToken_def split: sum.splits)
  with assms have v: "verifyClaims (op_cfg p) (rj_claims t) now = None" by (auto simp: VerifyIDToken_def split: option.splits)
  obtain r p1 where f: "fetchJWKS J get now' stored p = (r, p1)" by force
  from assms t v f obtain ks where ks: "r = Inr ks" by (cases r) (auto simp: VerifyIDToken_def)
  from assms t v f ks have k: "verifySignatureWithKeys J ks (rj_header t) (rj_signingInput t) (rj_sig t) = None" "p1 = p'"
    "sub = subject_of (rj_claims t)" "sub \<noteq> []" "groups = extractStringSlice (rj_claims t) (oc_GroupsClaim (op_cfg p))"
    by (auto simp: VerifyIDToken_def Let_def split: option.splits if_splits)
  from t obtain h c s where "Split CHR ''.'' token = [h, c, s]" "rj_signingInput t = h @ ''.'' @ c"
    by (auto simp: parseRawJWT_def split: list.splits option.splits)
  with t v f ks k that show thesis by blast
qed

lemma VerifyIDToken_state:
  assumes "VerifyIDToken J get now now' stored token p = (r, p')"
  shows "p' = p \<or> (\<exists>ks. served_keys J get p = Some ks \<and> p' = p\<lparr>op_keys := ks, op_fetchedAt := stored\<rparr>)"
proof -
  obtain r1 p1 where f: "fetchJWKS J get now' stored p = (r1, p1)" by force
  have "p1 = p \<or> (\<exists>ks. served_keys J get p = Some ks \<and> p1 = p\<lparr>op_keys := ks, op_fetchedAt := stored\<rparr>)"
    using f by (rule fetchJWKS_cases) auto
  moreover have "p' = p \<or> p' = p1"
    using assms f by (auto simp: VerifyIDToken_def Let_def split: sum.splits option.splits if_splits)
  ultimately show ?thesis by blast
qed

text \<open>The cached keys are those served at the time that is noted, and the configuration never changes.\<close>

lemma oidc_reach_cache:
  assumes "oidc_reach J cfg p hist"
  shows "(op_keys p \<noteq> [] \<longrightarrow> (op_fetchedAt p, op_keys p) \<in> set hist) \<and>
    oc_IssuerURL (op_cfg p) = oc_IssuerURL cfg \<and> oc_ClientID (op_cfg p) = oc_ClientID cfg"
  using assms
proof induction
  case (created get p)
  then show ?case by (auto simp: NewOIDCProvider_def Let_def split: if_splits sum.splits)
next
  case (verified p hist get now now' stored token r p' hist')
  from VerifyIDToken_state [OF verified.hyps(2)] show ?case
  proof (elim disjE exE conjE)
    assume "p' = p"
    with verified.IH verified.hyps(3) show ?thesis by (auto split: option.splits)
  next
    fix ks assume "served_keys J get p = Some ks" "p' = p\<lparr>op_keys := ks, op_fetchedAt := stored\<rparr>"
    with verified.IH verified.hyps(3) show ?thesis by simp
  qed
qed

lemma verifyClaims_None:
  assumes "verifyClaims cfg cl now = None"
  shows "string_claim (json_get cl ''iss'') \<in> {oc_IssuerURL cfg, TrimRight (oc_IssuerURL cfg) ''/''} \<and>
    (json_get cl ''aud'' = Some (JStr (oc_ClientID cfg)) \<or>
     (\<exists>auds. json_get cl ''aud'' = Some (JArr auds) \<and> JStr (oc_ClientID cfg) \<in> set auds)) \<and>
    (\<exists>lit expiry. json_get cl ''exp'' = Some (JNum lit expiry) \<and> unix now \<le> float_to_int64 expiry)"
  using assms
  by (auto simp: verifyClaims_def Let_def split: if_splits option.splits json_value.splits)

text \<open>
  C34: an id token is accepted only if it was signed for this client. In every state a provider reaches, if \<open>VerifyIDToken\<close>
  accepts a token, then the token has three parts; its claims name the configured issuer and client and expire
  no earlier than now; the algorithm is one of six, never \<open>none\<close>; and the bytes of the first two parts carry a
  signature that verifies under a key, of the type the algorithm asks for, that the identity provider serves at
  this call or served less than an hour before it. What is returned are the claims of that token.
\<close>

theorem accepted_id_token_is_signed:
  assumes "oidc_reach J cfg p hist" and "VerifyIDToken J get now now' stored token p = (Inr (sub, groups), p')"
  shows "\<exists>h c s t k. Split CHR ''.'' token = [h, c, s] \<and> parseRawJWT J token = Inr t \<and>
    string_claim (json_get (rj_claims t) ''iss'') \<in> {oc_IssuerURL cfg, TrimRight (oc_IssuerURL cfg) ''/''} \<and>
    (json_get (rj_claims t) ''aud'' = Some (JStr (oc_ClientID cfg)) \<or>
     (\<exists>auds. json_get (rj_claims t) ''aud'' = Some (JArr auds) \<and> JStr (oc_ClientID cfg) \<in> set auds)) \<and>
    (\<exists>lit expiry. json_get (rj_claims t) ''exp'' = Some (JNum lit expiry) \<and> unix now \<le> float_to_int64 expiry) \<and>
    jh_Alg (rj_header t) \<in> set oidc_algs \<and> signed_by J k (jh_Alg (rj_header t)) (h @ ''.'' @ c) (rj_sig t) \<and>
    (\<exists>ks. k \<in> set ks \<and> (served_keys J get p = Some ks \<or> (\<exists>fetched. (fetched, ks) \<in> set hist \<and> now' - fetched < jwks_ttl))) \<and>
    sub = subject_of (rj_claims t) \<and> sub \<noteq> [] \<and> groups = extractStringSlice (rj_claims t) (oc_GroupsClaim (op_cfg p))"
proof -
  note reach = oidc_reach_cache [OF assms(1)]
  from assms(2) obtain h c s t ks where a: "Split CHR ''.'' token = [h, c, s]" "parseRawJWT J token = Inr t"
    "rj_signingInput t = h @ ''.'' @ c" "verifyClaims (op_cfg p) (rj_claims t) now = None"
    "fetchJWKS J get now' stored p = (Inr ks, p')"
    "verifySignatureWithKeys J ks (rj_header t) (rj_signingInput t) (rj_sig t) = None"
    "sub = subject_of (rj_claims t)" "sub \<noteq> []" "groups = extractStringSlice (rj_claims t) (oc_GroupsClaim (op_cfg p))"
    by (rule VerifyIDToken_Inr)
  from verifySignatureWithKeys_None [OF a(6)] a(3) obtain k where k: "k \<in> set ks"
    "signed_by J k (jh_Alg (rj_header t)) (h @ ''.'' @ c) (rj_sig t)" by auto
  have keys: "served_keys J get p = Some ks \<or> (\<exists>fetched. (fetched, ks) \<in> set hist \<and> now' - fetched < jwks_ttl)"
    using a(5) by (rule fetchJWKS_cases) (use reach in auto)
  have alg: "jh_Alg (rj_header t) \<in> set oidc_algs" using k(2) hashForAlg_algs by (auto simp: signed_by_def)
  have claims: "string_claim (json_get (rj_claims t) ''iss'') \<in> {oc_IssuerURL cfg, TrimRight (oc_IssuerURL cfg) ''/''}"
    "json_get (rj_claims t) ''aud'' = Some (JStr (oc_ClientID cfg)) \<or>
     (\<exists>auds. json_get (rj_claims t) ''aud'' = Some (JArr auds) \<and> JStr (oc_ClientID cfg) \<in> set auds)"
    "\<exists>lit expiry. json_get (rj_claims t) ''exp'' = Some (JNum lit expiry) \<and> unix now \<le> float_to_int64 expiry"
    using verifyClaims_None [OF a(4)] reach by auto
  show ?thesis
    by (rule exI [of _ h], rule exI [of _ c], rule exI [of _ s], rule exI [of _ t], rule exI [of _ k])
      (intro conjI a claims alg k(2) exI [of _ ks] k(1) keys)
qed

text \<open>A provider with one RSA key, whose documents are single letters.\<close>

definition demo_jose :: jose where
  "demo_jose = \<lparr>jo_parse = (\<lambda>bs.
       if bs = ''H'' then Some (JObj [(''alg'', JStr ''RS256''), (''kid'', JStr ''k1'')])
       else if bs = ''C'' then Some (JObj [(''iss'', JStr ''https://idp''), (''aud'', JArr [JStr ''app'']), (''exp'', JNum ''900'' 900),
         (''sub'', JStr ''ann''), (''groups'', JArr [JStr ''ops''])])
       else if bs = ''D'' then Some (JObj [(''issuer'', JStr ''https://idp''), (''jwks_uri'', JStr ''https://idp/keys'')])
       else if bs = ''K'' then Some (JObj [(''keys'', JArr [JObj [(''kty'', JStr ''RSA''), (''kid'', JStr ''k1''), (''n'', JStr ''AQ''), (''e'', JStr ''Aw'')]])])
       else None),
     jo_hash = (\<lambda>h bs. bs), jo_rsa = (\<lambda>n e h d sig. n = 1 \<and> sig = ''S''), jo_ecdsa = (\<lambda>c x y d r s. False), jo_asn1 = (\<lambda>bs. None)\<rparr>"

definition demo_get :: http_get where
  "demo_get u = Inr (200, if u = ''https://idp/keys'' then ''K'' else ''D'')"

definition demo_oidc :: oidc_config where
  "demo_oidc = \<lparr>oc_Enabled = True, oc_IssuerURL = ''https://idp'', oc_ClientID = ''app'', oc_ClientSecret = [], oc_RedirectURL = [],
     oc_GroupsClaim = [], oc_AdminGroups = [''ops'']\<rparr>"

definition demo_provider :: oidc_provider where
  "demo_provider = \<lparr>op_cfg = demo_oidc\<lparr>oc_GroupsClaim := ''groups''\<rparr>,
     op_discovery = \<lparr>od_Issuer = ''https://idp'', od_JWKSURI = ''https://idp/keys'', od_AuthEndpoint = [], od_TokenEndpoint = []\<rparr>,
     op_keys = [], op_fetchedAt = 0\<rparr>"

definition demo_token :: string where
  "demo_token = ''SA.Qw.Uw''"

lemma demo_created: "NewOIDCProvider demo_jose demo_get demo_oidc = Inr demo_provider"
  by code_simp

lemma demo_accepted:
  "fst (VerifyIDToken demo_jose demo_get (800 * second_ns) (800 * second_ns) (801 * second_ns) demo_token demo_provider) = Inr (''ann'', [''ops''])"
  by code_simp

lemma accepted_id_token_is_signed_witness:
  "\<exists>h c s k (t :: raw_jwt). Split CHR ''.'' demo_token = [h, c, s] \<and> signed_by demo_jose k (jh_Alg (rj_header t)) (h @ ''.'' @ c) (rj_sig t)"
proof -
  obtain p' where "VerifyIDToken demo_jose demo_get (800 * second_ns) (800 * second_ns) (801 * second_ns) demo_token demo_provider =
      (Inr (''ann'', [''ops'']), p')" using demo_accepted by (metis prod.collapse)
  from accepted_id_token_is_signed [OF oidc_reach.created [OF demo_created] this] show ?thesis by blast
qed

section \<open>Two consequences\<close>

text \<open>
  A newline at the end of a token changes nothing: the decoder passes over it, and the signed bytes are those of the
  first two parts. A token that is accepted is accepted in infinitely many spellings.
\<close>

lemma b64_decode_newline: "b64_decode (s @ [CHR 0x0A]) = b64_decode s"
  by (simp add: b64_decode_def newline_byte_def)

lemma Split_snoc: "c \<noteq> d \<Longrightarrow> Split d (s @ [c]) = butlast (Split d s) @ [last (Split d s) @ [c]]"
proof (induction s)
  case (Cons a s)
  have ne: "Split d s \<noteq> []" by (rule Split_not_Nil)
  from Cons ne show ?case by (cases "Split d s") (auto simp: Split_not_Nil)
qed simp

lemma newline_token_same:
  assumes "Split CHR ''.'' token = [h, c, s]"
  shows "parseRawJWT J (token @ [CHR 0x0A]) = parseRawJWT J token"
proof -
  have "CHR 0x0A \<noteq> CHR ''.''" by simp
  from Split_snoc [OF this, of token] assms have "Split CHR ''.'' (token @ [CHR 0x0A]) = [h, c, s @ [CHR 0x0A]]" by simp
  with assms show ?thesis unfolding parseRawJWT_def by (simp only: list.case b64_decode_newline)
qed

lemma newline_token_accepted:
  assumes "VerifyIDToken J get now now' stored token p = (Inr a, p')"
  shows "VerifyIDToken J get now now' stored (token @ [CHR 0x0A]) p = (Inr a, p')"
proof -
  obtain sub groups where a: "a = (sub, groups)" by force
  with assms obtain h c s where "Split CHR ''.'' token = [h, c, s]" by (metis VerifyIDToken_Inr)
  from newline_token_same [OF this, of J] assms show ?thesis by (simp add: VerifyIDToken_def)
qed

text \<open>
  A key that the provider starts to use after the set was fetched is unknown for the rest of the hour: its tokens are
  refused, and the set is not fetched again.
\<close>

lemma rotated_key_refused:
  assumes "op_keys p \<noteq> []" and "now' - op_fetchedAt p < jwks_ttl" and "parseRawJWT J token = Inr t"
    and "jh_Kid (rj_header t) \<noteq> []" and "\<forall>k \<in> set (op_keys p). jw_Kid k \<noteq> jh_Kid (rj_header t)"
  shows "\<exists>err. VerifyIDToken J get now now' stored token p = (Inl err, p)"
  using assms unknown_key_refused [OF assms(4,5), of J "rj_signingInput t" "rj_sig t"]
  by (auto simp: VerifyIDToken_def fetchJWKS_def split: option.splits)

end
