(* ===== verification/Start_Props.thy ===== *)
theory Start_Props
  imports Server_Start Key_Props Oidc_Props
begin

text \<open>
  What a start of the server leaves behind: the root key of the configuration, in a store that is sound; and the defaults
  of the command line (cli/root.go) beside what the server listens on.
\<close>

section \<open>The root key\<close>

context metadata_store
begin

lemma provision_root_ok:
  assumes m: "sinv m" and ne: "cf_RootAccessKey cfg \<noteq> []" "length (cf_RootAccessKey cfg) \<le> max_key_size"
    and s: "cf_RootSecretKey cfg \<noteq> []" and p: "provision_root M K S cfg m = (Inr u, m')"
  shows "\<exists>hash. sinv m' \<and>
    view m' = with_key (key_record (cf_RootAccessKey cfg) hash (cf_RootSecretKey cfg) ''root'' (ps_now S) True) (view m)"
proof (cases "kdf_hash K (ps_rnd S 0 16) (cf_RootSecretKey cfg)")
  case (Inl err)
  with p s show ?thesis by (simp add: provision_root_def UpsertKey_def)
next
  case (Inr hash)
  from UpsertKey_ok [where K = K and rnd = "ps_rnd S" and hash = hash and now = "ps_now S" and owner = "''root''" and isRoot = True, OF m ne Inr] p s show ?thesis by (auto simp: provision_root_def)
qed

end

lemma initDeps_provisions:
  assumes "initDeps M K S cfg = (Inr deps, evs)"
  shows "\<exists>m u. ps_openMeta S (cf_MetadataPath cfg) = Inr m \<and> provision_root M K S cfg m = (Inr u, e_meta (sd_engine deps))"
  using assms by (auto simp: initDeps_def engine_New_def split: sum.splits prod.splits)

text \<open>
  C40: a start of the server provides its root key. Whatever keys the metadata store has, if a secret is configured and the
  start succeeds, then in the store the server runs on the access key of the configuration has root rights and exactly the
  requests signed with the configured secret are accepted for it: a secret it had before, or a rotation or deletion of the
  root key, is void. All other keys are kept, those of a root key with another name included.
\<close>

theorem root_key_after_start:
  assumes "bolt_db DB kinv" and "initDeps (bbolt_store DB) K S cfg = (Inr deps, evs)"
    and "ps_openMeta S (cf_MetadataPath cfg) = Inr m" and "bolt_inv DB kinv m" and "keys_sign (bolt_view DB m)"
    and "Validate cfg = None" and "cf_RootSecretKey cfg \<noteq> []" and "length (cf_RootAccessKey cfg) \<le> max_key_size"
    and "claimed_key r = cf_RootAccessKey cfg"
  shows "(Auth (bbolt_store DB) P r now (e_meta (sd_engine deps)) =
      Authenticated \<lparr>vi_AccessKey = cf_RootAccessKey cfg, vi_Owner = ''root'', vi_IsRoot = True\<rparr> \<longleftrightarrow>
        signature_ok P r (cf_RootSecretKey cfg) now) \<and>
    bolt_inv DB kinv (e_meta (sd_engine deps)) \<and> keys_sign (bolt_view DB (e_meta (sd_engine deps))) \<and>
    (\<forall>i. mv_keys (bolt_view DB (e_meta (sd_engine deps))) i \<noteq> mv_keys (bolt_view DB m) i \<longrightarrow> i = cf_RootAccessKey cfg)"
proof -
  note ms = bolt_db.store_is_metadata_store [OF assms(1)]
  let ?m = "e_meta (sd_engine deps)"
  have ne: "cf_RootAccessKey cfg \<noteq> []" using assms(6) by (auto simp: Validate_def split: if_splits)
  obtain u where p: "provision_root (bbolt_store DB) K S cfg m = (Inr u, ?m)"
    using initDeps_provisions [OF assms(2)] assms(3) by auto
  obtain hash where h: "bolt_inv DB kinv ?m"
    "bolt_view DB ?m = with_key (key_record (cf_RootAccessKey cfg) hash (cf_RootSecretKey cfg) ''root'' (ps_now S) True) (bolt_view DB m)"
    using metadata_store.provision_root_ok [OF ms assms(4) ne assms(8,7) p] by blast
  have ks: "keys_sign (bolt_view DB ?m)"
    unfolding h(2) by (rule keys_sign_upd [OF assms(5)]) (simp add: key_record_def assms(7))
  from metadata_store.Auth_iff [OF ms h(1) ks, of P r now] h ks ne assms(9) show ?thesis
    by (simp add: key_record_def identity_of_def)
qed

text \<open>A server that starts on an empty database, with a secret and without TLS.\<close>

definition demo_config :: config where
  "demo_config = \<lparr>cf_S3Address = '':9000'', cf_AdminAddress = '':9001'',
     cf_TLS = \<lparr>ts_Enabled = False, ts_CertFile = [], ts_KeyFile = [], ts_AutoSelfSigned = True\<rparr>,
     cf_Backend = ''localfs'', cf_DataDir = ''/data'', cf_Tiers = [], cf_MetadataPath = ''/meta.db'',
     cf_RootAccessKey = ''AK'', cf_RootSecretKey = ''sk'', cf_OIDC = demo_oidc, cf_LDAP = demo_ldap_config,
     cf_ClusterEnabled = False, cf_Node = \<lparr>nc_NodeID = [], nc_AdvertiseAddr = [], nc_Peers = [], nc_HeartbeatInterval = 0,
       nc_ElectionTimeout = 0, nc_DataDir = []\<rparr>,
     cf_LogLevel = ''info'', cf_LogFormat = ''json'', cf_AuditLog = [], cf_MaxObjectSize = ''5TB'', cf_MaxBucketCount = 1000,
     cf_RateLimitRPS = 1000, cf_ReadTimeout = 0, cf_WriteTimeout = 0, cf_IdleTimeout = 0\<rparr>"

definition demo_start :: "(ref_db, unit) platform_start" where
  "demo_start = \<lparr>ps_audit = (\<lambda>p. audit_New (\<lambda>a. None) (\<lambda>f. Inr []) p), ps_openMeta = (\<lambda>p. Inr []), ps_fs = [([''data''], Dir)],
     ps_now = 5, ps_rnd = toy_rnd, ps_loadPair = (\<lambda>c k. Inr ()), ps_selfSigned = Inr (), ps_flagDev = False\<rparr>"

lemma demo_start_facts:
  "\<exists>deps evs. initDeps (bbolt_store ref_bolt) toy_kdf demo_start demo_config = (Inr deps, evs) \<and> e_meta (sd_engine deps) = key_store1"
proof -
  have a: "audit_New (\<lambda>a. None) (\<lambda>f. Inr []) [] = Inr \<lparr>al_sink = DiscardSink, al_file = [], al_sent = []\<rparr>"
    by (simp add: audit_New_def)
  have "isl (localfs_New ''/data'' [([''data''], Dir)] 0 5) = False" by code_simp
  then have l: "\<exists>be. localfs_New ''/data'' [([''data''], Dir)] 0 5 = Inr be" by (cases "localfs_New ''/data'' [([''data''], Dir)] 0 5") auto
  obtain m where u: "UpsertKey (bbolt_store ref_bolt) toy_kdf toy_rnd 5 ''AK'' ''sk'' ''root'' True [] = (Inr (), m)"
    using ref.ms.UpsertKey_ok [OF ref_empty_inv, of "''AK''" toy_kdf toy_rnd "''sk''" "''sk''" 5 "''root''" True]
    by (auto simp: toy_kdf_def max_key_size_def)
  then have "key_store1 = m" by (simp add: key_store1_def)
  with a l u show ?thesis
    by (auto simp: initDeps_def provision_root_def initTLS_def demo_start_def demo_config_def engine_New_def)
qed

lemma root_key_after_start_witness:
  "\<exists>deps evs. initDeps (bbolt_store ref_bolt) toy_kdf demo_start demo_config = (Inr deps, evs) \<and>
     Auth (bbolt_store ref_bolt) sig_platform demo_url_request demo_time (e_meta (sd_engine deps)) =
       Authenticated \<lparr>vi_AccessKey = ''AK'', vi_Owner = ''root'', vi_IsRoot = True\<rparr>"
proof -
  obtain deps evs where d: "initDeps (bbolt_store ref_bolt) toy_kdf demo_start demo_config = (Inr deps, evs)"
    using demo_start_facts by blast
  have m: "ps_openMeta demo_start (cf_MetadataPath demo_config) = Inr []" by (simp add: demo_start_def)
  have c: "Validate demo_config = None" "cf_RootSecretKey demo_config = ''sk''" "cf_RootAccessKey demo_config = ''AK''"
    by (simp_all add: demo_config_def Validate_def)
  have "Auth (bbolt_store ref_bolt) sig_platform demo_url_request demo_time (e_meta (sd_engine deps)) =
      Authenticated \<lparr>vi_AccessKey = cf_RootAccessKey demo_config, vi_Owner = ''root'', vi_IsRoot = True\<rparr> \<longleftrightarrow>
        signature_ok sig_platform demo_url_request (cf_RootSecretKey demo_config) demo_time"
    by (rule root_key_after_start [OF ref.bolt_db_axioms d m ref_empty_inv key_store1_facts(5) c(1), THEN conjunct1])
      (simp_all add: c max_key_size_def demo_url_claim)
  with d show ?thesis by (simp add: c demo_url_claim)
qed

section \<open>The flags of the command line\<close>

record root_flags =
  rf_Server :: string
  rf_AdminURL :: string
  rf_AccessKey :: string
  rf_SecretKey :: string
  rf_JSON :: bool
  rf_Insecure :: bool

definition envOrDefault :: "(string \<Rightarrow> string) \<Rightarrow> string \<Rightarrow> string \<Rightarrow> string" where
  "envOrDefault getenv key dflt = (let v = getenv key in if v \<noteq> [] then v else dflt)"

definition root_flag_defaults :: "(string \<Rightarrow> string) \<Rightarrow> root_flags" where
  "root_flag_defaults getenv =
     \<lparr>rf_Server = envOrDefault getenv ''SANGRAHA_SERVER'' ''https://localhost:9000'',
      rf_AdminURL = envOrDefault getenv ''SANGRAHA_ADMIN_URL'' ''https://localhost:9001'',
      rf_AccessKey = envOrDefault getenv ''SANGRAHA_ACCESS_KEY'' [], rf_SecretKey = envOrDefault getenv ''SANGRAHA_SECRET_KEY'' [],
      rf_JSON = False, rf_Insecure = False\<rparr>"

text \<open>By default the commands speak TLS to the admin server, which never does.\<close>

lemma default_admin_url_unreachable:
  assumes "getenv ''SANGRAHA_ADMIN_URL'' = []"
  shows "HasPrefix (rf_AdminURL (root_flag_defaults getenv)) ''https://'' \<and> \<not> ln_tls (sp_admin (serveUntilSignal cfg deps))"
  using assms by (simp add: root_flag_defaults_def envOrDefault_def serveUntilSignal_def Let_def)

end
