(* ===== verification/Admin_Jobs.thy ===== *)
theory Admin_Jobs
  imports Go_Errors
begin

text \<open>
  The background jobs of the admin API: garbage collection (internal/api/admin/server.go), export and import
  (internal/api/admin/export.go) and the backup schedule. A job is a global record behind a mutex and a goroutine
  that takes the mutex once a round; \<open>job_system\<close> is the record and the round every live goroutine is at, and
  \<open>job_step\<close> runs a request or a round of a goroutine, in any order. \<open>single_job\<close> is what a job promises; garbage
  collection and export are interpretations of it.
\<close>

section \<open>Garbage collection\<close>

record gc_state =
  gc_running :: bool
  gc_scanned :: int64
  gc_deleted :: int64
  gc_freedBytes :: int64
  gc_lastRun :: "time option"

definition globalGCState :: gc_state where
  "globalGCState = \<lparr>gc_running = False, gc_scanned = 0, gc_deleted = 0, gc_freedBytes = 0, gc_lastRun = None\<rparr>"

datatype job_body =
    JobError string
  | GcStarted
  | GcStatus gc_state
  | ExportStarted string
  | ScheduleUpdated

text \<open>A trigger answers, changes the state, and may start a goroutine.\<close>

definition handleGCTrigger :: "gc_state \<Rightarrow> (nat \<times> job_body) \<times> gc_state \<times> bool" where
  "handleGCTrigger s =
     (if gc_running s then ((409, JobError ''garbage collection already running''), s, False)
      else ((202, GcStarted), s\<lparr>gc_running := True, gc_scanned := 0, gc_deleted := 0, gc_freedBytes := 0\<rparr>, True))"

text \<open>The \<open>i\<close>-th critical section of \<open>runGC\<close>, and the one that follows.\<close>

definition runGC :: "time \<Rightarrow> nat \<Rightarrow> gc_state \<Rightarrow> gc_state \<times> nat option" where
  "runGC now i s =
     (if i < 10 then (s\<lparr>gc_scanned := gc_scanned s + 10\<rparr>, Some (Suc i))
      else (s\<lparr>gc_running := False, gc_lastRun := Some now\<rparr>, None))"

definition handleGCStatus :: "gc_state \<Rightarrow> nat \<times> job_body" where
  "handleGCStatus s = (200, GcStatus s)"

section \<open>Export and import\<close>

record export_state =
  ex_running :: bool
  ex_operation :: string
  ex_progress :: int
  ex_startedAt :: "time option"
  ex_doneAt :: "time option"
  ex_err :: string

definition globalExportState :: export_state where
  "globalExportState = \<lparr>ex_running = False, ex_operation = [], ex_progress = 0, ex_startedAt = None, ex_doneAt = None, ex_err = []\<rparr>"

definition start_export :: "string \<Rightarrow> time \<Rightarrow> export_state \<Rightarrow> (nat \<times> job_body) \<times> export_state \<times> bool" where
  "start_export operation now s =
     (if ex_running s then ((409, JobError ''export or import already running''), s, False)
      else ((202, ExportStarted operation),
            s\<lparr>ex_running := True, ex_operation := operation, ex_progress := 0, ex_startedAt := Some now, ex_err := []\<rparr>, True))"

definition handleExport :: "time \<Rightarrow> export_state \<Rightarrow> (nat \<times> job_body) \<times> export_state \<times> bool" where
  "handleExport now s = start_export ''export'' now s"

definition handleImport :: "time \<Rightarrow> export_state \<Rightarrow> (nat \<times> job_body) \<times> export_state \<times> bool" where
  "handleImport now s = start_export ''import'' now s"

definition runExportSimulation :: "time \<Rightarrow> nat \<Rightarrow> export_state \<Rightarrow> export_state \<times> nat option" where
  "runExportSimulation now i s =
     (if i < 10 then (s\<lparr>ex_progress := int (Suc i) * 10\<rparr>, Some (Suc i))
      else (s\<lparr>ex_running := False, ex_doneAt := Some now\<rparr>, None))"

definition handleExportStatus :: "export_state \<Rightarrow> nat \<times> export_state" where
  "handleExportStatus s = (200, s)"

text \<open>The backup schedule is kept and never acted upon.\<close>

record backup_schedule =
  bs_CronExpr :: string
  bs_Destination :: string
  bs_Enabled :: bool

definition globalBackupSchedule :: backup_schedule where
  "globalBackupSchedule = \<lparr>bs_CronExpr = [], bs_Destination = [], bs_Enabled = False\<rparr>"

definition handleGetBackupSchedule :: "backup_schedule \<Rightarrow> nat \<times> backup_schedule" where
  "handleGetBackupSchedule s = (200, s)"

definition handlePutBackupSchedule :: "backup_schedule option \<Rightarrow> backup_schedule \<Rightarrow> (nat \<times> job_body) \<times> backup_schedule" where
  "handlePutBackupSchedule body s =
     (case body of
        None \<Rightarrow> ((400, JobError ''invalid JSON''), s)
      | Some req \<Rightarrow> ((200, ScheduleUpdated), req))"

section \<open>Requests and goroutines\<close>

datatype 'r job_event =
    Request 'r
  | Work time nat

type_synonym 's job_system = "'s \<times> nat list"

text \<open>\<open>Work now j\<close> is a round of the \<open>j\<close>-th live goroutine.\<close>

fun job_step :: "('r \<Rightarrow> 's \<Rightarrow> 's \<times> bool) \<Rightarrow> (time \<Rightarrow> nat \<Rightarrow> 's \<Rightarrow> 's \<times> nat option) \<Rightarrow> 'r job_event \<Rightarrow>
    's job_system \<Rightarrow> 's job_system" where
  "job_step trig rnd (Request r) (s, ws) =
     (case trig r s of (s', started) \<Rightarrow> (s', if started then ws @ [0] else ws))"
| "job_step trig rnd (Work now j) (s, ws) =
     (if j < length ws
      then case rnd now (ws ! j) s of
             (s', Some i) \<Rightarrow> (s', ws[j := i])
           | (s', None) \<Rightarrow> (s', take j ws @ drop (Suc j) ws)
      else (s, ws))"

definition job_run :: "('r \<Rightarrow> 's \<Rightarrow> 's \<times> bool) \<Rightarrow> (time \<Rightarrow> nat \<Rightarrow> 's \<Rightarrow> 's \<times> nat option) \<Rightarrow> 'r job_event list \<Rightarrow>
    's job_system \<Rightarrow> 's job_system" where
  "job_run trig rnd evs S = fold (job_step trig rnd) evs S"

lemma job_run_simps [simp]:
  "job_run trig rnd [] S = S" "job_run trig rnd (ev # evs) S = job_run trig rnd evs (job_step trig rnd ev S)"
  "job_run trig rnd (xs @ ys) S = job_run trig rnd ys (job_run trig rnd xs S)"
  by (simp_all add: job_run_def)

fun works :: "'r job_event list \<Rightarrow> nat" where
  "works [] = 0"
| "works (Request r # evs) = works evs"
| "works (Work now j # evs) = (if j = 0 then Suc (works evs) else works evs)"

text \<open>
  What a job promises: a request is refused, without an effect, while it runs, and starts it otherwise; a goroutine
  keeps it running for \<open>n\<close> rounds and ends it in the next.
\<close>

locale single_job =
  fixes running :: "'s \<Rightarrow> bool" and trig :: "'r \<Rightarrow> 's \<Rightarrow> 's \<times> bool"
    and rnd :: "time \<Rightarrow> nat \<Rightarrow> 's \<Rightarrow> 's \<times> nat option" and n :: nat
  assumes refused: "running s \<Longrightarrow> trig r s = (s, False)"
    and started: "\<not> running s \<Longrightarrow> \<exists>s'. trig r s = (s', True) \<and> running s'"
    and kept: "running s \<Longrightarrow> i < n \<Longrightarrow> \<exists>s'. rnd now i s = (s', Some (Suc i)) \<and> running s'"
    and ended: "n \<le> i \<Longrightarrow> \<exists>s'. rnd now i s = (s', None) \<and> \<not> running s'"
begin

fun one_job :: "'s job_system \<Rightarrow> bool" where
  "one_job (s, ws) \<longleftrightarrow> (ws = [] \<and> \<not> running s) \<or> (\<exists>k \<le> n. ws = [k] \<and> running s)"

lemma step_keeps: "one_job S \<Longrightarrow> one_job (job_step trig rnd ev S)"
proof (cases S; cases ev)
  fix s ws r assume "one_job S" "S = (s, ws)" "ev = Request r"
  then show ?thesis using refused [of s r] started [of s r] by (cases "running s") auto
next
  fix s ws now j assume S: "one_job S" "S = (s, ws)" "ev = Work now j"
  show ?thesis
  proof (cases "j < length ws")
    case True
    with S obtain k where k: "ws = [k]" "k \<le> n" "running s" "j = 0" by auto
    then show ?thesis using S kept [of s k now] ended [of k now s] by (cases "k < n") auto
  qed (use S in auto)
qed

lemma run_keeps: "one_job S \<Longrightarrow> one_job (job_run trig rnd evs S)"
  by (induction evs arbitrary: S) (simp_all add: step_keeps)

text \<open>The goroutine of a running job ends it after the rounds it has left, whatever is requested in between.\<close>

lemma ends_within:
  assumes "one_job (s, [k])" and "n - k < works evs"
  shows "\<exists>pre suf. evs = pre @ suf \<and> \<not> running (fst (job_run trig rnd pre (s, [k])))"
  using assms
proof (induction evs arbitrary: s k)
  case (Cons ev evs)
  from Cons.prems(1) have s: "running s" "k \<le> n" by auto
  have later: ?case if "job_step trig rnd ev (s, [k]) = (s', [k'])" "one_job (s', [k'])" "n - k' < works evs" for s' k'
  proof -
    from Cons.IH [OF that(2,3)] obtain pre suf where
      "evs = pre @ suf" "\<not> running (fst (job_run trig rnd pre (s', [k'])))" by blast
    with that(1) show ?thesis by (intro exI [of _ "ev # pre"] exI [of _ suf]) simp
  qed
  show ?case
  proof (cases ev)
    case (Request r)
    with s refused [of s r] Cons.prems show ?thesis by (intro later [of s k]) auto
  next
    case (Work now j)
    show ?thesis
    proof (cases "j = 0 \<and> n \<le> k")
      case True
      with ended [of k now s] Work show ?thesis by (intro exI [of _ "[ev]"] exI [of _ evs]) auto
    next
      case other: False
      show ?thesis
      proof (cases "j = 0")
        case True
        with other s obtain s' where "rnd now k s = (s', Some (Suc k))" "running s'" "k < n" using kept [of s k now] by auto
        with True Work Cons.prems show ?thesis by (intro later [of s' "Suc k"]) auto
      next
        case False
        with Work s Cons.prems show ?thesis by (intro later [of s k]) auto
      qed
    qed
  qed
qed simp

lemma ends: 
  assumes "one_job S" and "n < works evs"
  shows "\<exists>pre suf. evs = pre @ suf \<and> \<not> running (fst (job_run trig rnd pre S))"
proof (cases S)
  case (Pair s ws)
  show ?thesis
  proof (cases "running s")
    case True
    with assms Pair obtain k where "ws = [k]" "k \<le> n" by auto
    with ends_within [of s k evs] assms Pair show ?thesis by auto
  next
    case False
    with Pair have "evs = [] @ evs \<and> \<not> running (fst (job_run trig rnd [] S))" by simp
    then show ?thesis by blast
  qed
qed

end

section \<open>The two jobs\<close>

abbreviation gc_trigger :: "unit \<Rightarrow> gc_state \<Rightarrow> gc_state \<times> bool" where
  "gc_trigger r s \<equiv> snd (handleGCTrigger s)"

text \<open>A request for an export (\<open>True\<close>) or an import.\<close>

abbreviation export_trigger :: "bool \<times> time \<Rightarrow> export_state \<Rightarrow> export_state \<times> bool" where
  "export_trigger r s \<equiv> snd (if fst r then handleExport (snd r) s else handleImport (snd r) s)"

interpretation gcj: single_job gc_running gc_trigger runGC 10
  by unfold_locales (auto simp: handleGCTrigger_def runGC_def)

interpretation exj: single_job ex_running export_trigger runExportSimulation 10
  by unfold_locales (auto simp: handleExport_def handleImport_def start_export_def runExportSimulation_def)

text \<open>What a status shows: the counters are those of the round the one goroutine is at.\<close>

definition gc_counts :: "gc_state job_system \<Rightarrow> bool" where
  "gc_counts S \<longleftrightarrow> (\<forall>k. snd S = [k] \<longrightarrow> gc_scanned (fst S) = of_nat (10 * k)) \<and> gc_deleted (fst S) = 0 \<and> gc_freedBytes (fst S) = 0"

lemma gc_counts_step:
  assumes "gcj.one_job S" and "gc_counts S"
  shows "gc_counts (job_step gc_trigger runGC ev S)"
proof (cases S; cases ev)
  fix s ws r assume S: "S = (s, ws)" "ev = Request r"
  then show ?thesis using assms by (cases "gc_running s") (auto simp: gc_counts_def handleGCTrigger_def)
next
  fix s ws now j assume S: "S = (s, ws)" "ev = Work now j"
  show ?thesis
  proof (cases "j < length ws")
    case True
    with S assms(1) obtain k where "ws = [k]" "j = 0" by auto
    then show ?thesis using S assms(2) by (auto simp: gc_counts_def runGC_def distrib_left)
  qed (use S assms in auto)
qed

lemma gc_collects_nothing: "gc_counts (job_run gc_trigger runGC evs (globalGCState, []))"
proof -
  have "gc_counts (job_run gc_trigger runGC evs S)" if "gcj.one_job S" "gc_counts S" for S
    using that by (induction evs arbitrary: S) (simp_all add: gc_counts_step gcj.step_keeps)
  then show ?thesis by (simp add: globalGCState_def gc_counts_def)
qed

text \<open>
  C32: a job of the admin API runs alone and ends. After any history of requests and rounds of the goroutines, in any
  order, garbage collection is running exactly if it has one goroutine, and never has two, and so for export and
  import; and once the goroutines have made eleven rounds more, whatever is requested meanwhile, the job has
  stopped at some point on the way.
\<close>

theorem jobs_run_alone_and_end:
  assumes "10 < works evs" and "10 < works fvs"
  shows "length (snd (job_run gc_trigger runGC hist (globalGCState, []))) \<le> 1 \<and>
    (gc_running (fst (job_run gc_trigger runGC hist (globalGCState, []))) \<longleftrightarrow> snd (job_run gc_trigger runGC hist (globalGCState, [])) \<noteq> []) \<and>
    (\<exists>pre suf. evs = pre @ suf \<and> \<not> gc_running (fst (job_run gc_trigger runGC (hist @ pre) (globalGCState, [])))) \<and>
    length (snd (job_run export_trigger runExportSimulation past (globalExportState, []))) \<le> 1 \<and>
    (ex_running (fst (job_run export_trigger runExportSimulation past (globalExportState, []))) \<longleftrightarrow>
      snd (job_run export_trigger runExportSimulation past (globalExportState, [])) \<noteq> []) \<and>
    (\<exists>pre suf. fvs = pre @ suf \<and> \<not> ex_running (fst (job_run export_trigger runExportSimulation (past @ pre) (globalExportState, []))))"
proof -
  obtain s ws where S: "job_run gc_trigger runGC hist (globalGCState, []) = (s, ws)" by force
  have g: "gcj.one_job (s, ws)" unfolding S [symmetric] by (rule gcj.run_keeps) (simp add: globalGCState_def)
  obtain e vs where E: "job_run export_trigger runExportSimulation past (globalExportState, []) = (e, vs)" by force
  have x: "exj.one_job (e, vs)" unfolding E [symmetric] by (rule exj.run_keeps) (simp add: globalExportState_def)
  have "length ws \<le> 1 \<and> (gc_running s \<longleftrightarrow> ws \<noteq> [])" "length vs \<le> 1 \<and> (ex_running e \<longleftrightarrow> vs \<noteq> [])" using g x by auto
  then show ?thesis using gcj.ends [OF g assms(1)] exj.ends [OF x assms(2)] by (simp add: S E)
qed

lemma jobs_run_alone_and_end_witness:
  "\<exists>pre suf. replicate 11 (Work 7 0) = pre @ suf \<and>
     \<not> gc_running (fst (job_run gc_trigger runGC ([Request (), Work 5 0, Request ()] @ pre) (globalGCState, [])))"
  using jobs_run_alone_and_end [of "replicate 11 (Work 7 0)" "replicate 11 (Work 7 0)" "[Request (), Work 5 0, Request ()]"]
  by (simp add: eval_nat_numeral)

end
