(* ===== verification/Admin_Alerts.thy ===== *)
theory Admin_Alerts
  imports Complex_Main Go_Errors
begin

text \<open>
  Alert rules and their history (internal/api/admin/alerts.go) and the stream of log lines (internal/api/admin/logs.go).
  Both live in memory behind a mutex; a handler is one critical section. Numbers of type \<open>float64\<close> are only kept
  and handed back. A decoded body is \<open>None\<close> when it is not the JSON expected. A channel of a subscriber is the queue of the
  lines in its buffer.
\<close>

section \<open>Alerts\<close>

record alert_rule =
  ar_ID :: string
  ar_Metric :: string
  ar_Operator :: string
  ar_Threshold :: rat
  ar_Label :: string
  ar_CreatedAt :: time

record alert_event =
  av_ID :: string
  av_RuleID :: string
  av_RuleLabel :: string
  av_Metric :: string
  av_FiredAt :: time
  av_Value :: rat
  av_Threshold :: rat
  av_Resolved :: bool
  av_ResolvedAt :: "time option"

record alert_handler =
  ah_rules :: "alert_rule list"
  ah_history :: "alert_event list"

record create_alert_request =
  cr_Metric :: string
  cr_Operator :: string
  cr_Threshold :: rat
  cr_Label :: string

datatype alert_body =
    AlertError string
  | AlertRules "alert_rule list"
  | AlertRule alert_rule
  | AlertHistory "alert_event list"
  | AlertNoContent

definition maxAlertHistory :: nat where
  "maxAlertHistory = 100"

definition listRules :: "alert_handler \<Rightarrow> nat \<times> alert_body" where
  "listRules h = (200, AlertRules (ah_rules h))"

definition validateAlertRule :: "create_alert_request \<Rightarrow> string option" where
  "validateAlertRule req =
     (if cr_Metric req \<notin> {''disk_usage_pct'', ''error_rate_pct'', ''req_per_sec''}
      then Some ''metric must be one of: disk_usage_pct, error_rate_pct, req_per_sec''
      else if cr_Operator req \<notin> {''gt'', ''lt'', ''gte'', ''lte''} then Some ''operator must be one of: gt, lt, gte, lte''
      else if cr_Label req = [] then Some ''label is required''
      else None)"

definition createRule :: "string \<Rightarrow> time \<Rightarrow> create_alert_request option \<Rightarrow> alert_handler \<Rightarrow> (nat \<times> alert_body) \<times> alert_handler" where
  "createRule uuid now body h =
     (case body of
        None \<Rightarrow> ((400, AlertError ''invalid JSON''), h)
      | Some req \<Rightarrow>
          (case validateAlertRule req of
             Some e \<Rightarrow> ((400, AlertError e), h)
           | None \<Rightarrow>
               let rule = \<lparr>ar_ID = uuid, ar_Metric = cr_Metric req, ar_Operator = cr_Operator req,
                     ar_Threshold = cr_Threshold req, ar_Label = cr_Label req, ar_CreatedAt = now\<rparr>
               in ((201, AlertRule rule), h\<lparr>ah_rules := ah_rules h @ [rule]\<rparr>)))"

text \<open>The loop of \<open>deleteRule\<close>: the list without the first rule of an ID, if there is one.\<close>

fun remove_rule :: "string \<Rightarrow> alert_rule list \<Rightarrow> alert_rule list option" where
  "remove_rule i [] = None"
| "remove_rule i (r # rs) = (if ar_ID r = i then Some rs else map_option ((#) r) (remove_rule i rs))"

definition deleteRule :: "string \<Rightarrow> alert_handler \<Rightarrow> (nat \<times> alert_body) \<times> alert_handler" where
  "deleteRule i h =
     (case remove_rule i (ah_rules h) of
        Some rs \<Rightarrow> ((204, AlertNoContent), h\<lparr>ah_rules := rs\<rparr>)
      | None \<Rightarrow> ((404, AlertError ''alert rule not found''), h))"

definition listHistory :: "alert_handler \<Rightarrow> nat \<times> alert_body" where
  "listHistory h = (200, AlertHistory (ah_history h))"

definition RecordEvent :: "alert_event \<Rightarrow> alert_handler \<Rightarrow> alert_handler" where
  "RecordEvent e h =
     (let hist = (if maxAlertHistory \<le> length (ah_history h) then tl (ah_history h) else ah_history h)
      in h\<lparr>ah_history := hist @ [e]\<rparr>)"

text \<open>The history is a ring of the last hundred events, in their order.\<close>

lemma history_is_last_hundred:
  assumes "length (ah_history h) \<le> maxAlertHistory"
  shows "ah_history (fold RecordEvent es h) =
    drop (length (ah_history h @ es) - maxAlertHistory) (ah_history h @ es)"
  using assms
proof (induction es arbitrary: h)
  case (Cons e es)
  show ?case
  proof (cases "maxAlertHistory \<le> length (ah_history h)")
    case True
    then obtain x xs where h: "ah_history h = x # xs" "length xs = maxAlertHistory - 1"
      using Cons.prems by (cases "ah_history h") (auto simp: maxAlertHistory_def)
    with Cons.IH [of "RecordEvent e h"] True show ?thesis
      by (simp add: RecordEvent_def Let_def maxAlertHistory_def Suc_diff_le)
  next
    case False
    with Cons.IH [of "RecordEvent e h"] show ?thesis by (simp add: RecordEvent_def Let_def)
  qed
qed simp

lemma remove_rule_last: "i \<notin> ar_ID ` set rs \<Longrightarrow> ar_ID r = i \<Longrightarrow> remove_rule i (rs @ [r]) = Some rs"
  by (induction rs) auto

text \<open>A rule that is created under a fresh ID is deleted by it, and nothing else is.\<close>

lemma create_then_delete_rule:
  assumes "createRule uuid now body h = ((201, b), h')" and "uuid \<notin> ar_ID ` set (ah_rules h)"
  shows "deleteRule uuid h' = ((204, AlertNoContent), h)"
  using assms by (auto simp: createRule_def deleteRule_def Let_def remove_rule_last split: option.splits)

section \<open>Log lines\<close>

type_synonym broadcaster = "(nat \<times> string list) list"

definition log_channel_cap :: nat where
  "log_channel_cap = 64"

definition subscribe :: "nat \<Rightarrow> broadcaster \<Rightarrow> broadcaster" where
  "subscribe ch b = (ch, []) # b"

definition unsubscribe :: "nat \<Rightarrow> broadcaster \<Rightarrow> broadcaster" where
  "unsubscribe ch b = filter (\<lambda>p. fst p \<noteq> ch) b"

text \<open>A line is not sent to a channel whose buffer is full.\<close>

definition Emit :: "string \<Rightarrow> broadcaster \<Rightarrow> broadcaster" where
  "Emit line b = map (\<lambda>(ch, q). (ch, if length q < log_channel_cap then q @ [line] else q)) b"

text \<open>\<open>findSubstring\<close> and the filter by level.\<close>

function findSubstring :: "string \<Rightarrow> string \<Rightarrow> bool" where
  "findSubstring s sub \<longleftrightarrow>
     length sub \<le> length s \<and>
     (s = sub \<or> (if length sub < length s then take (length sub) s = sub \<or> findSubstring (drop 1 s) sub else False))"
  by pat_completeness auto
termination by (relation "measure (\<lambda>(s, sub). length s)") auto

declare findSubstring.simps [simp del]

definition containsLevel :: "string \<Rightarrow> string \<Rightarrow> bool" where
  "containsLevel line level \<longleftrightarrow>
     0 < length line \<and>
     (level = [] \<or> length level < length line \<and>
        findSubstring line ([CHR 0x22] @ ''level'' @ [CHR 0x22, CHR '':'', CHR 0x22] @ level @ [CHR 0x22]))"

text \<open>A round of the loop of \<open>handleLogStream\<close> that receives: the line it writes, if any, and the new buffers.\<close>

definition stream_receive :: "nat \<Rightarrow> string \<Rightarrow> broadcaster \<Rightarrow> string option \<times> broadcaster" where
  "stream_receive ch levelFilter b =
     (case map_of b ch of
        Some (line # q) \<Rightarrow>
          (if levelFilter \<noteq> [] \<and> \<not> containsLevel line levelFilter then None
           else Some (''data: '' @ line @ [CHR 0x0A, CHR 0x0A]),
           map (\<lambda>(c, l). (c, if c = ch then q else l)) b)
      | _ \<Rightarrow> (None, b))"

lemma take_prefix_iff: "take (length ys) xs = ys \<longleftrightarrow> prefix ys xs"
  by (metis append_eq_conv_conj prefix_def take_is_prefix)

text \<open>The hand-written search finds exactly the substrings.\<close>

lemma findSubstring_iff_sublist: "findSubstring s sub \<longleftrightarrow> sublist sub s"
proof (induction s)
  case Nil
  show ?case by (auto simp: findSubstring.simps [of "[]"])
next
  case (Cons c s)
  have full: "sub = c # s" if "prefix sub (c # s)" "\<not> length sub < length (c # s)"
  proof -
    from that(1) obtain zs where "c # s = sub @ zs" by (auto simp: prefix_def)
    with that(2) show ?thesis using arg_cong [of "c # s" "sub @ zs" length] by simp
  qed
  have short: "length sub \<le> length s" if "sublist sub s" using sublist_length_le [OF that] .
  have "findSubstring (c # s) sub \<longleftrightarrow> length sub \<le> length (c # s) \<and> (c # s = sub \<or> length sub < length (c # s) \<and> (prefix sub (c # s) \<or> sublist sub s))"
    unfolding findSubstring.simps [of "c # s"] take_prefix_iff by (simp add: Cons.IH)
  also have "\<dots> \<longleftrightarrow> prefix sub (c # s) \<or> sublist sub s"
  proof
    assume "prefix sub (c # s) \<or> sublist sub s"
    then show "length sub \<le> length (c # s) \<and> (c # s = sub \<or> length sub < length (c # s) \<and> (prefix sub (c # s) \<or> sublist sub s))"
      using full short prefix_length_le [of sub "c # s"] by fastforce
  qed auto
  finally show ?case by (simp only: sublist_Cons_right)
qed

text \<open>
  A subscriber sees lines in the order in which they are emitted: the lines it has received, followed by those in its
  buffer, are some of those emitted since it subscribed. The buffer never holds more than 64, and nothing is
  lost as long as it is not full.
\<close>

datatype log_event = Emitted string | Taken

fun log_run :: "log_event list \<Rightarrow> string list \<times> string list \<Rightarrow> string list \<times> string list" where
  "log_run [] (got, q) = (got, q)"
| "log_run (Emitted line # evs) (got, q) = log_run evs (got, if length q < log_channel_cap then q @ [line] else q)"
| "log_run (Taken # evs) (got, q) = (case q of [] \<Rightarrow> log_run evs (got, q) | line # q' \<Rightarrow> log_run evs (got @ [line], q'))"

definition emitted :: "log_event list \<Rightarrow> string list" where
  "emitted evs = concat (map (\<lambda>e. case e of Emitted line \<Rightarrow> [line] | Taken \<Rightarrow> []) evs)"

lemma Emit_channel: "map_of (Emit line b) ch = map_option (\<lambda>q. if length q < log_channel_cap then q @ [line] else q) (map_of b ch)"
  by (induction b) (auto simp: Emit_def)

lemma stream_receive_channel:
  "map_of b ch = Some (line # q) \<Longrightarrow> map_of (snd (stream_receive ch level b)) ch = Some q"
  "map_of b ch = Some (line # q) \<Longrightarrow> c \<noteq> ch \<Longrightarrow> map_of (snd (stream_receive ch level b)) c = map_of b c"
proof -
  have "map_of b ch \<noteq> None \<Longrightarrow> map_of (map (\<lambda>(c, l). (c, if c = ch then q else l)) b) ch = Some q"
    "c \<noteq> ch \<Longrightarrow> map_of (map (\<lambda>(c, l). (c, if c = ch then q else l)) b) c = map_of b c" for c
    by (induction b) auto
  then show "map_of b ch = Some (line # q) \<Longrightarrow> map_of (snd (stream_receive ch level b)) ch = Some q"
    "map_of b ch = Some (line # q) \<Longrightarrow> c \<noteq> ch \<Longrightarrow> map_of (snd (stream_receive ch level b)) c = map_of b c"
    by (auto simp: stream_receive_def)
qed

lemma log_lines_in_order:
  assumes "log_run evs (got, q) = (got', q')"
  shows "subseq (got' @ q') (got @ q @ emitted evs)"
  using assms
proof (induction evs "(got, q)" arbitrary: got q rule: log_run.induct)
  case (2 line evs got q)
  show ?case
  proof (cases "length q < log_channel_cap")
    case True
    with 2 show ?thesis by (simp add: emitted_def)
  next
    case False
    with 2 have "subseq (got' @ q') (got @ q @ emitted evs)" by simp
    moreover have "subseq (emitted evs) (emitted (Emitted line # evs))" by (simp add: emitted_def list_emb_Cons)
    ultimately show ?thesis by (metis list_emb_append_mono subseq_order.order_refl subseq_order.order_trans)
  qed
next
  case (3 evs got q)
  then show ?case by (cases q) (auto simp: emitted_def)
qed (simp add: emitted_def)

lemma log_buffer_bounded: "log_run evs (got, q) = (got', q') \<Longrightarrow> length q \<le> log_channel_cap \<Longrightarrow> length q' \<le> log_channel_cap"
proof (induction evs "(got, q)" arbitrary: got q rule: log_run.induct)
  case (2 line evs got q)
  then show ?case by (cases "length q < log_channel_cap") auto
next
  case (3 evs got q)
  then show ?case by (cases q) auto
qed simp

end
