(* ===== verification/Admin_Config.thy ===== *)
theory Admin_Config
  imports Server_Start
begin

text \<open>
  Reading and changing the configuration of a running server: internal/api/admin/config.go. A decoded body is \<open>None\<close> when it is
  not the JSON expected; a field that is absent from a patch is \<open>None\<close>. An update is one critical section.
\<close>

record safe_config =
  sf_S3Address :: string
  sf_AdminAddress :: string
  sf_TLS :: tls_config
  sf_Backend :: string
  sf_DataDir :: string
  sf_MetadataPath :: string
  sf_RootAccessKey :: string
  sf_RootSecretKey :: string
  sf_LogLevel :: string
  sf_LogFormat :: string
  sf_AuditLog :: string
  sf_MaxObjectSize :: string
  sf_MaxBucketCount :: int
  sf_RateLimitRPS :: int

record logging_patch =
  lp_Level :: "string option"
  lp_Format :: "string option"

record limits_patch =
  mp_RateLimitRPS :: "int option"
  mp_MaxBucketCount :: "int option"

record config_patch =
  pt_Logging :: "logging_patch option"
  pt_Limits :: "limits_patch option"

datatype config_body =
    ConfigError string
  | ConfigShown safe_config
  | ConfigValidated bool "string list"
  | ConfigRefused "string list"
  | ConfigApplied

definition maskIfEmpty :: "string \<Rightarrow> string" where
  "maskIfEmpty s = (if TrimSpace s = [] then [] else s)"

definition toSafeConfig :: "config \<Rightarrow> safe_config" where
  "toSafeConfig cfg =
     (let secretVal = (if cf_RootSecretKey cfg = [] then ''(not set)'' else ''***'') in
      \<lparr>sf_S3Address = cf_S3Address cfg, sf_AdminAddress = cf_AdminAddress cfg,
       sf_TLS = \<lparr>ts_Enabled = ts_Enabled (cf_TLS cfg), ts_CertFile = maskIfEmpty (ts_CertFile (cf_TLS cfg)),
                 ts_KeyFile = maskIfEmpty (ts_KeyFile (cf_TLS cfg)), ts_AutoSelfSigned = ts_AutoSelfSigned (cf_TLS cfg)\<rparr>,
       sf_Backend = cf_Backend cfg, sf_DataDir = cf_DataDir cfg, sf_MetadataPath = cf_MetadataPath cfg,
       sf_RootAccessKey = cf_RootAccessKey cfg, sf_RootSecretKey = secretVal,
       sf_LogLevel = cf_LogLevel cfg, sf_LogFormat = cf_LogFormat cfg, sf_AuditLog = cf_AuditLog cfg,
       sf_MaxObjectSize = cf_MaxObjectSize cfg, sf_MaxBucketCount = cf_MaxBucketCount cfg, sf_RateLimitRPS = cf_RateLimitRPS cfg\<rparr>)"

definition config_get :: "config \<Rightarrow> nat \<times> config_body" where
  "config_get cfg = (200, ConfigShown (toSafeConfig cfg))"

text \<open>The fields of a patch, through both pointers.\<close>

definition patch_level :: "config_patch \<Rightarrow> string option" where
  "patch_level p = Option.bind (pt_Logging p) lp_Level"

definition patch_format :: "config_patch \<Rightarrow> string option" where
  "patch_format p = Option.bind (pt_Logging p) lp_Format"

definition patch_rps :: "config_patch \<Rightarrow> int option" where
  "patch_rps p = Option.bind (pt_Limits p) mp_RateLimitRPS"

definition patch_buckets :: "config_patch \<Rightarrow> int option" where
  "patch_buckets p = Option.bind (pt_Limits p) mp_MaxBucketCount"

text \<open>The errors, in the order in which they are found: those of the level, which \<open>update\<close> looks at too, and the others.\<close>

definition level_errors :: "config_patch \<Rightarrow> string list" where
  "level_errors p =
     (case patch_level p of
        Some l \<Rightarrow> if l \<in> {''debug'', ''info'', ''warn'', ''error''} then []
                  else [''logging.level must be one of: debug, info, warn, error'']
      | None \<Rightarrow> [])"

definition validate_errors :: "config_patch \<Rightarrow> string list" where
  "validate_errors p =
     level_errors p @
     (case patch_format p of
        Some f \<Rightarrow> if f \<in> {''json'', ''text''} then [] else [''logging.format must be one of: json, text'']
      | None \<Rightarrow> []) @
     (case patch_rps p of Some n \<Rightarrow> if n < 0 then [''limits.rate_limit_rps must be >= 0''] else [] | None \<Rightarrow> []) @
     (case patch_buckets p of Some n \<Rightarrow> if n < 1 then [''limits.max_bucket_count must be >= 1''] else [] | None \<Rightarrow> [])"

definition config_validate :: "config_patch option \<Rightarrow> nat \<times> config_body" where
  "config_validate body =
     (case body of
        None \<Rightarrow> (400, ConfigValidated False [''invalid JSON''])
      | Some p \<Rightarrow> (200, ConfigValidated (validate_errors p = []) (validate_errors p)))"

definition apply_patch :: "config_patch \<Rightarrow> config \<Rightarrow> config" where
  "apply_patch p cfg =
     cfg\<lparr>cf_LogLevel := (case patch_level p of Some l \<Rightarrow> l | None \<Rightarrow> cf_LogLevel cfg),
         cf_LogFormat := (case patch_format p of Some f \<Rightarrow> f | None \<Rightarrow> cf_LogFormat cfg),
         cf_RateLimitRPS := (case patch_rps p of Some n \<Rightarrow> n | None \<Rightarrow> cf_RateLimitRPS cfg),
         cf_MaxBucketCount := (case patch_buckets p of Some n \<Rightarrow> n | None \<Rightarrow> cf_MaxBucketCount cfg)\<rparr>"

definition config_update :: "config_patch option \<Rightarrow> config \<Rightarrow> (nat \<times> config_body) \<times> config" where
  "config_update body cfg =
     (case body of
        None \<Rightarrow> ((400, ConfigError ''invalid JSON''), cfg)
      | Some p \<Rightarrow>
          if level_errors p \<noteq> [] then ((422, ConfigRefused (level_errors p)), cfg)
          else ((200, ConfigApplied), apply_patch p cfg))"

text \<open>
  What is shown tells nothing of a secret but whether there is one: two configurations that differ in secrets only, the
  root secret, the client secret of the identity provider and the bind password of LDAP, are shown alike.
\<close>

lemma shown_config_hides_secrets:
  assumes "s = [] \<longleftrightarrow> cf_RootSecretKey cfg = []"
  shows "config_get (cfg\<lparr>cf_RootSecretKey := s, cf_OIDC := oi, cf_LDAP := ld\<rparr>) = config_get cfg"
  using assms by (simp add: config_get_def toSafeConfig_def)

text \<open>An update is refused for its level only. What validation accepts is applied; the converse fails.\<close>

lemma validated_patch_applied:
  assumes "config_validate (Some p) = (200, ConfigValidated True es)"
  shows "config_update (Some p) cfg = ((200, ConfigApplied), apply_patch p cfg)"
  using assms by (simp add: config_validate_def config_update_def validate_errors_def)

lemma update_applies_what_validation_rejects:
  "\<exists>p. config_validate (Some p) = (200, ConfigValidated False [''logging.format must be one of: json, text'', ''limits.max_bucket_count must be >= 1'']) \<and>
    fst (config_update (Some p) cfg) = (200, ConfigApplied) \<and>
    cf_LogFormat (snd (config_update (Some p) cfg)) = ''xml'' \<and> cf_MaxBucketCount (snd (config_update (Some p) cfg)) = 0"
  by (rule exI [of _ "\<lparr>pt_Logging = Some \<lparr>lp_Level = None, lp_Format = Some ''xml''\<rparr>,
      pt_Limits = Some \<lparr>mp_RateLimitRPS = None, mp_MaxBucketCount = Some 0\<rparr>\<rparr>"])
    (simp add: config_validate_def config_update_def validate_errors_def level_errors_def apply_patch_def patch_level_def
      patch_format_def patch_rps_def patch_buckets_def)

text \<open>
  An update keeps a valid configuration valid, and touches nothing that a restart would need: the same dependencies are
  opened, the same addresses served.
\<close>

lemma apply_patch_valid: "Validate (apply_patch p cfg) = Validate cfg"
  by (simp add: apply_patch_def Validate_def)

lemma update_keeps_valid: "config_update body cfg = (ans, cfg') \<Longrightarrow> Validate cfg' = Validate cfg"
  by (auto simp: config_update_def apply_patch_valid split: option.splits if_splits)

lemma update_reading_back:
  assumes "config_update (Some p) cfg = ((200, ConfigApplied), cfg')"
  shows "sf_LogLevel (toSafeConfig cfg') = (case patch_level p of Some l \<Rightarrow> l | None \<Rightarrow> sf_LogLevel (toSafeConfig cfg)) \<and>
    sf_RateLimitRPS (toSafeConfig cfg') = (case patch_rps p of Some n \<Rightarrow> n | None \<Rightarrow> sf_RateLimitRPS (toSafeConfig cfg)) \<and>
    sf_RootSecretKey (toSafeConfig cfg') = sf_RootSecretKey (toSafeConfig cfg)"
proof -
  from assms have "cfg' = apply_patch p cfg" by (auto simp: config_update_def split: if_splits)
  then show ?thesis by (simp add: apply_patch_def toSafeConfig_def split: option.split)
qed

end
