(* ===== verification/Admin_Access.thy ===== *)
theory Admin_Access
  imports Oidc_Props Ldap Key_Props
begin

text \<open>
  The handlers of the admin API that let in, hand out URLs and inform: internal/api/admin/auth_ext.go (OpenID Connect and
  LDAP), presign.go, health.go and, of server.go, TLS, reload and connections. What crypto/x509 parses and generates and
  what the OAuth2 library exchanges are parameters. A handler answers with a status and what the JSON carries.
\<close>

section \<open>Health\<close>

datatype info_body =
    InfoError string
  | InfoStatus string
  | InfoVersion string string int
  | TLSInfoBody string string time time int string bool
  | Renewed
  | Reloaded
  | ActiveConnections int64

definition handleHealth :: "nat \<times> info_body" where
  "handleHealth = (200, InfoStatus ''ok'')"

definition handleReady :: "nat \<times> info_body" where
  "handleReady = (200, InfoStatus ''ready'')"

text \<open>The whole seconds since \<open>startTime\<close>, towards zero.\<close>

definition toward_zero :: "int \<Rightarrow> int \<Rightarrow> int" where
  "toward_zero n d = (if n < 0 then - ((- n) div d) else n div d)"

definition handleInfo :: "string \<Rightarrow> string \<Rightarrow> time \<Rightarrow> time \<Rightarrow> nat \<times> info_body" where
  "handleInfo version buildTime startTime now = (200, InfoVersion version buildTime (toward_zero (now - startTime) second_ns))"

section \<open>TLS and connections\<close>

record x509_leaf =
  xl_Subject :: string
  xl_Issuer :: string
  xl_NotBefore :: time
  xl_NotAfter :: time
  xl_Raw :: bytes

record tls_certificate =
  tc_Leaf :: "x509_leaf option"
  tc_Certificate :: "bytes list"

text \<open>\<open>tlsStateHolder\<close>: the certificates of the active configuration, when there is one.\<close>

type_synonym tls_holder = "tls_certificate list option"

definition SetTLSConfig :: "tls_certificate list option \<Rightarrow> tls_holder \<Rightarrow> tls_holder" where
  "SetTLSConfig cfg h = cfg"

text \<open>\<open>cert\<close> is a copy: the leaf that is parsed is not kept. Days are counted in \<open>float64\<close> hours, here exactly.\<close>

definition handleTLSInfo :: "(bytes \<Rightarrow> x509_leaf result) \<Rightarrow> platform \<Rightarrow> time \<Rightarrow> tls_holder \<Rightarrow> nat \<times> info_body" where
  "handleTLSInfo ParseCertificate P now h =
     (case h of
        None \<Rightarrow> (200, InfoStatus ''tls not enabled'')
      | Some [] \<Rightarrow> (200, InfoStatus ''tls not enabled'')
      | Some (cert # rest) \<Rightarrow>
          (case (case (tc_Leaf cert, tc_Certificate cert) of
                   (None, der # ders) \<Rightarrow> (case ParseCertificate der of Inl err \<Rightarrow> Inl err | Inr l \<Rightarrow> Inr (Some l))
                 | (leaf, ders) \<Rightarrow> Inr leaf) of
             Inl err \<Rightarrow> (500, InfoError ''failed to parse certificate'')
           | Inr None \<Rightarrow> (200, InfoStatus ''certificate unavailable'')
           | Inr (Some leaf) \<Rightarrow>
               (200, TLSInfoBody (xl_Subject leaf) (xl_Issuer leaf) (xl_NotBefore leaf) (xl_NotAfter leaf)
                  (toward_zero (xl_NotAfter leaf - now) (24 * 3600 * second_ns)) (hex_encode (pf_sha256 P (xl_Raw leaf)))
                  (xl_Subject leaf = xl_Issuer leaf))))"

definition handleTLSRenew :: "tls_certificate result \<Rightarrow> tls_holder \<Rightarrow> (nat \<times> info_body) \<times> tls_holder" where
  "handleTLSRenew generateSelfSignedCert h =
     (case generateSelfSignedCert of
        Inl err \<Rightarrow> ((500, InfoError ''cert generation failed''), h)
      | Inr newCert \<Rightarrow> ((200, Renewed), case h of Some cs \<Rightarrow> Some [newCert] | None \<Rightarrow> None))"

definition handleServerReload :: "nat \<times> info_body" where
  "handleServerReload = (200, Reloaded)"

datatype conn_state = StateNew | StateActive | StateIdle | StateHijacked | StateClosed

definition TrackConnection :: "conn_state \<Rightarrow> int64 \<Rightarrow> int64" where
  "TrackConnection st n =
     (case st of StateNew \<Rightarrow> n + 1 | StateActive \<Rightarrow> n + 1 | StateClosed \<Rightarrow> n - 1 | StateHijacked \<Rightarrow> n - 1 | StateIdle \<Rightarrow> n)"

definition handleConnections :: "int64 \<Rightarrow> nat \<times> info_body" where
  "handleConnections n = (200, ActiveConnections n)"

text \<open>
  A connection is counted when it is new and again for every request that makes it active, and subtracted once: after its
  life the counter is up by the number of its requests.
\<close>

lemma connection_requests: "fold TrackConnection (concat (replicate n [StateActive, StateIdle])) c = c + of_nat n"
  by (induction n arbitrary: c) (simp_all add: TrackConnection_def algebra_simps)

lemma connections_leak:
  "fold TrackConnection (StateNew # concat (replicate n [StateActive, StateIdle]) @ [StateClosed]) c = c + of_nat n"
  by (simp add: connection_requests) (simp add: TrackConnection_def)

section \<open>External authentication\<close>

record auth_ext =
  ax_oidc :: "oidc_provider option"
  ax_ldap :: "ldap_config option"

datatype ext_body =
    ExtError err
  | OidcURLBody string string
  | OidcIdentity string bool "string list"
  | LdapIdentity string bool "string list"

definition oidcRandomState :: "(nat \<Rightarrow> bytes) \<Rightarrow> string" where
  "oidcRandomState draw = b64_encode (draw 32)"

text \<open>\<open>AuthCodeURL\<close> is the OAuth2 library's.\<close>

definition handleOIDCURL :: "(string \<Rightarrow> string) \<Rightarrow> (nat \<Rightarrow> bytes) \<Rightarrow> auth_ext \<Rightarrow> nat \<times> ext_body" where
  "handleOIDCURL AuthCodeURL draw h =
     (case ax_oidc h of
        None \<Rightarrow> (503, ExtError (Errorf ''OIDC not configured'' []))
      | Some p \<Rightarrow> let state = oidcRandomState draw in (200, OidcURLBody (AuthCodeURL state) state))"

record oidc_callback_request =
  oq_Code :: string
  oq_State :: string

definition handleOIDCCallback ::
    "jose \<Rightarrow> http_get \<Rightarrow> (string \<Rightarrow> json_value option result) \<Rightarrow> time \<Rightarrow> oidc_callback_request option \<Rightarrow>
     auth_ext \<Rightarrow> (nat \<times> ext_body) \<times> auth_ext" where
  "handleOIDCCallback J get exchange now body h =
     (case ax_oidc h of
        None \<Rightarrow> ((503, ExtError (Errorf ''OIDC not configured'' [])), h)
      | Some p \<Rightarrow>
     (case body of
        None \<Rightarrow> ((400, ExtError (Errorf ''invalid JSON'' [])), h)
      | Some req \<Rightarrow>
          if oq_Code req = [] then ((400, ExtError (Errorf ''code is required'' [])), h)
          else
     (case oidc_Exchange exchange (oq_Code req) of
        Inl err \<Rightarrow> ((401, ExtError (Wrap ''code exchange failed'' err)), h)
      | Inr idToken \<Rightarrow>
     (case VerifyIDToken J get now now now idToken p of
        (Inl err, p') \<Rightarrow> ((401, ExtError (Wrap ''token verification failed'' err)), h\<lparr>ax_oidc := Some p'\<rparr>)
      | (Inr (subject, groups), p') \<Rightarrow>
          ((200, OidcIdentity subject (oidc_IsAdmin (op_cfg p') groups) groups), h\<lparr>ax_oidc := Some p'\<rparr>)))))"

definition handleLDAPAuth :: "'c ldap_ops \<Rightarrow> (string \<times> string) option \<Rightarrow> auth_ext \<Rightarrow> nat \<times> ext_body" where
  "handleLDAPAuth L body h =
     (case ax_ldap h of
        None \<Rightarrow> (503, ExtError (Errorf ''LDAP not configured'' []))
      | Some cfg \<Rightarrow>
     (case body of
        None \<Rightarrow> (400, ExtError (Errorf ''invalid JSON'' []))
      | Some (username, password) \<Rightarrow>
          if username = [] \<or> password = [] then (400, ExtError (Errorf ''username and password are required'' []))
          else (case Authenticate L cfg username password of
                  Inl err \<Rightarrow> (401, ExtError (Errorf ''authentication failed'' []))
                | Inr groups \<Rightarrow> (200, LdapIdentity username (ldap_IsAdmin cfg groups) groups))))"

text \<open>The state keeps its 32 random bytes; the callback does not look at the one it is sent.\<close>

lemma state_keeps_entropy: "b64_decode (oidcRandomState draw) = Some (draw 32)"
  by (simp add: oidcRandomState_def b64_decode_encode)

lemma state_not_checked:
  "handleOIDCCallback J get exchange now (Some (req\<lparr>oq_State := s\<rparr>)) h = handleOIDCCallback J get exchange now (Some req) h"
  by (simp add: handleOIDCCallback_def split: option.split)

section \<open>Presigned URLs\<close>

record presign_request =
  pq_Bucket :: string
  pq_Key :: string
  pq_Method :: string
  pq_ExpiresIn :: int
  pq_Region :: string

datatype presign_body =
    PresignError err
  | Presigned string time

definition presign_method :: "presign_request \<Rightarrow> string" where
  "presign_method req = (if pq_Method req = [] then ''GET'' else pq_Method req)"

definition presign_expires :: "presign_request \<Rightarrow> int" where
  "presign_expires req = (if pq_ExpiresIn req \<le> 0 \<or> pq_ExpiresIn req > 604800 then 3600 else pq_ExpiresIn req)"

definition presign_region :: "presign_request \<Rightarrow> string" where
  "presign_region req = (if pq_Region req = [] then ''us-east-1'' else pq_Region req)"

definition presign_create ::
    "'m meta_store \<Rightarrow> platform \<Rightarrow> string \<Rightarrow> time \<Rightarrow> VerifiedIdentity option \<Rightarrow> presign_request option \<Rightarrow> 'm \<Rightarrow> nat \<times> presign_body" where
  "presign_create M P serverURL now ident body m =
     (case body of
        None \<Rightarrow> (400, PresignError (Errorf ''invalid JSON'' []))
      | Some req \<Rightarrow>
          if pq_Bucket req = [] \<or> pq_Key req = [] then (400, PresignError (Errorf ''bucket and key are required'' []))
          else (case ident of
             None \<Rightarrow> (401, PresignError (Errorf ''not authenticated'' []))
           | Some i \<Rightarrow>
               (case Lookup M (vi_AccessKey i) m of
                  Inl err \<Rightarrow> (500, PresignError (Errorf ''key lookup failed'' []))
                | Inr rec \<Rightarrow>
                    let expires = word_of_int (presign_expires req * second_ns) in
                    (case GeneratePresignedURL P (presign_method req) serverURL (pq_Bucket req) (pq_Key req) (ak_AccessKey rec)
                        (ak_SigningKey rec) (presign_region req) expires now of
                       Inl err \<Rightarrow> (400, PresignError err)
                     | Inr url \<Rightarrow> (200, Presigned url (now + sint expires))))))"

lemma presign_expires_bounds: "1 \<le> presign_expires req \<and> presign_expires req \<le> 604800"
  by (auto simp: presign_expires_def)

lemma presign_duration: "sint (word_of_int (presign_expires req * second_ns) :: int64) = presign_expires req * second_ns"
proof -
  have "0 \<le> presign_expires req * second_ns" "presign_expires req * second_ns < 2 ^ 63"
    using presign_expires_bounds [of req] by (auto simp: second_ns_def)
  then show ?thesis by (intro sint_int64_of_int) simp_all
qed

context metadata_store
begin

text \<open>What is presigned with a stored key is authenticated as its owner.\<close>

lemma stored_key_presigned:
  assumes m: "sinv m" and k: "mv_keys (view m) (ak_AccessKey a) = Some a" and ne: "ak_AccessKey a \<noteq> []"
    and slash: "CHR ''/'' \<notin> set (ak_AccessKey a)"
    and gen: "GeneratePresignedURL P verb rawURL bucket key (ak_AccessKey a) (ak_SigningKey a) region expires now = Inr url"
    and mac: "\<And>k d. pf_hmac P k d \<noteq> []" and range: "stamp_range now" and sep: "CHR ''/'' \<notin> set region"
    and req: "url = rawURL @ rq_Path r @ ''?'' @ rq_RawQuery r" "rq_Path r = ''/'' @ bucket @ ''/'' @ key"
      "rq_Method r = verb" "rq_Host r = extractHost rawURL bucket"
  shows "(\<exists>ident. Auth M P r later m = Authenticated ident) \<longleftrightarrow> later \<le> whole_seconds now + sint expires div second_ns * second_ns"
    and "later \<le> whole_seconds now + sint expires div second_ns * second_ns \<Longrightarrow> Auth M P r later m = Authenticated (identity_of a)"
proof -
  note claim = presigned_claim [OF gen mac range slash req]
  have v: "VerifyPresignedURL P r (ak_SigningKey a) later = None \<longleftrightarrow>
      later \<le> whole_seconds now + sint expires div second_ns * second_ns"
    by (rule presigned_roundtrip [OF gen mac range slash sep req])
  show "later \<le> whole_seconds now + sint expires div second_ns * second_ns \<Longrightarrow> Auth M P r later m = Authenticated (identity_of a)"
    using v Lookup_Some [OF m k] ne claim by (simp add: Auth_def handlePresigned_def)
  then show "(\<exists>ident. Auth M P r later m = Authenticated ident) \<longleftrightarrow> later \<le> whole_seconds now + sint expires div second_ns * second_ns"
    using v Lookup_Some [OF m k] ne claim by (auto simp: Auth_def handlePresigned_def split: option.splits)
qed

end

text \<open>
  C38: what the admin API presigns is accepted by the S3 API, for as long as it was asked for. Whoever is authenticated
  with a key that is in the store and asks for a URL gets one of at least a second and at most seven days, an hour when
  none of these was asked for; the request the URL denotes, whatever its method, is authenticated as the owner of that key
  exactly until the whole second of the answer's time plus this duration, which is less than a second before the time the
  answer announces.
\<close>

theorem presigned_by_admin_is_accepted:
  assumes "bolt_db DB kinv" and "bolt_inv DB kinv m" and "\<And>k d. pf_hmac P k d \<noteq> []" and "stamp_range now"
    and "presign_create (bbolt_store DB) P serverURL now (Some ident) (Some req) m = (200, Presigned url until)"
    and "vi_AccessKey ident \<noteq> []" and "CHR ''/'' \<notin> set (vi_AccessKey ident)" and "CHR ''/'' \<notin> set (pq_Region req)"
    and "url = serverURL @ rq_Path r @ ''?'' @ rq_RawQuery r" and "rq_Path r = ''/'' @ pq_Bucket req @ ''/'' @ pq_Key req"
    and "rq_Method r = presign_method req" and "rq_Host r = extractHost serverURL (pq_Bucket req)"
  shows "\<exists>a. mv_keys (bolt_view DB m) (vi_AccessKey ident) = Some a \<and>
    1 \<le> presign_expires req \<and> presign_expires req \<le> 604800 \<and> until = now + presign_expires req * second_ns \<and>
    ((\<exists>other. Auth (bbolt_store DB) P r later m = Authenticated other) \<longleftrightarrow>
       later \<le> whole_seconds now + presign_expires req * second_ns) \<and>
    (later \<le> whole_seconds now + presign_expires req * second_ns \<longrightarrow>
       Auth (bbolt_store DB) P r later m = Authenticated (identity_of a))"
proof -
  note ms = bolt_db.store_is_metadata_store [OF assms(1)]
  obtain a where l: "Lookup (bbolt_store DB) (vi_AccessKey ident) m = Inr a"
    and g: "GeneratePresignedURL P (presign_method req) serverURL (pq_Bucket req) (pq_Key req) (ak_AccessKey a) (ak_SigningKey a)
      (presign_region req) (word_of_int (presign_expires req * second_ns)) now = Inr url"
    and u: "until = now + presign_expires req * second_ns"
    using assms(5) presign_duration [of req]
    by (auto simp: presign_create_def Let_def simp del: of_int_mult split: sum.splits if_splits)
  have k: "mv_keys (bolt_view DB m) (vi_AccessKey ident) = Some a" by (rule metadata_store.Lookup_Inr [OF ms assms(2) l])
  have n: "ak_AccessKey a = vi_AccessKey ident" using metadata_store.wf [OF ms assms(2)] k by (simp add: view_wf_def)
  have region: "CHR ''/'' \<notin> set (presign_region req)" using assms(8) by (auto simp: presign_region_def)
  note p = metadata_store.stored_key_presigned [OF ms assms(2) _ _ _ g assms(3,4) region assms(9-12), of later, unfolded presign_duration]
  have "second_ns \<noteq> 0" by (simp add: second_ns_def)
  with p k n assms(6,7) presign_expires_bounds [of req] u show ?thesis by simp
qed

text \<open>The root key asks for a URL without a method and a duration.\<close>

definition demo_presign :: presign_request where
  "demo_presign = \<lparr>pq_Bucket = ''b'', pq_Key = ''a b'', pq_Method = [], pq_ExpiresIn = 0, pq_Region = ''eu''\<rparr>"

definition demo_caller :: VerifiedIdentity where
  "demo_caller = \<lparr>vi_AccessKey = ''AK'', vi_Owner = ''root'', vi_IsRoot = True\<rparr>"

lemma demo_presigned:
  "presign_create (bbolt_store ref_bolt) sig_platform ''http://h:9000'' demo_time (Some demo_caller) (Some demo_presign) key_store1 =
     (200, Presigned (''http://h:9000'' @ ''/b/a b'' @ ''?'' @ demo_url_query) (demo_time + 3600 * second_ns))"
proof -
  have e: "word_of_int (presign_expires demo_presign * second_ns) = (3600000000000 :: int64)"
    by (simp add: presign_expires_def demo_presign_def second_ns_def)
  have d: "sint (3600000000000 :: int64) = 3600 * second_ns" by (simp add: second_ns_def)
  have "Lookup (bbolt_store ref_bolt) ''AK'' key_store1 = Inr root_record"
    using ref.ms.Lookup_Some [OF key_store1_facts(2), of "''AK''" root_record] by (simp add: key_store1_facts(3) key_record_def)
  moreover have "pq_Bucket demo_presign = ''b''" "pq_Key demo_presign = ''a b''" "presign_method demo_presign = ''GET''"
    "presign_region demo_presign = ''eu''" "vi_AccessKey demo_caller = ''AK''"
    by (simp_all add: demo_presign_def presign_method_def presign_region_def demo_caller_def)
  moreover have "ak_AccessKey root_record = ''AK''" "ak_SigningKey root_record = ''sk''" by (simp_all add: key_record_def)
  ultimately show ?thesis
    by (simp add: presign_create_def Let_def e d demo_url [simplified] del: of_int_mult of_int_numeral) (simp add: second_ns_def)
qed

lemma presigned_by_admin_is_accepted_witness:
  "Auth (bbolt_store ref_bolt) sig_platform demo_url_request demo_time key_store1 = Authenticated demo_caller \<and>
   (\<nexists>other. Auth (bbolt_store ref_bolt) sig_platform demo_url_request (demo_time + 3600 * second_ns) key_store1 = Authenticated other)"
proof -
  have h: "extractHost ''http://h:9000'' ''b'' = ''h:9000''" by code_simp
  have x: "presign_expires demo_presign = 3600" by (simp add: presign_expires_def demo_presign_def)
  have th: "\<exists>a. mv_keys (bolt_view ref_bolt key_store1) (vi_AccessKey demo_caller) = Some a \<and>
    1 \<le> presign_expires demo_presign \<and> presign_expires demo_presign \<le> 604800 \<and>
    demo_time + 3600 * second_ns = demo_time + presign_expires demo_presign * second_ns \<and>
    ((\<exists>other. Auth (bbolt_store ref_bolt) sig_platform demo_url_request later key_store1 = Authenticated other) \<longleftrightarrow>
       later \<le> whole_seconds demo_time + presign_expires demo_presign * second_ns) \<and>
    (later \<le> whole_seconds demo_time + presign_expires demo_presign * second_ns \<longrightarrow>
       Auth (bbolt_store ref_bolt) sig_platform demo_url_request later key_store1 = Authenticated (identity_of a))" for later
    by (rule presigned_by_admin_is_accepted [OF ref.bolt_db_axioms key_store1_facts(2) sig_platform_sizes(1) demo_range demo_presigned])
      (simp_all add: demo_caller_def demo_presign_def demo_url_request_def presign_method_def h)
  have "mv_keys (bolt_view ref_bolt key_store1) (vi_AccessKey demo_caller) = Some root_record"
    by (simp add: key_store1_facts(3) key_record_def demo_caller_def)
  moreover have "identity_of root_record = demo_caller" by (simp add: identity_of_def key_record_def demo_caller_def)
  moreover have "demo_time \<le> whole_seconds demo_time + 3600 * second_ns" "\<not> demo_time + 3600 * second_ns \<le> whole_seconds demo_time + 3600 * second_ns"
    unfolding demo_whole by (simp_all add: demo_time_def second_ns_def)
  ultimately show ?thesis using th [of demo_time] th [of "demo_time + 3600 * second_ns"] unfolding x by auto
qed

end
