(* ===== verification/Admin_Buckets.thy ===== *)
theory Admin_Buckets
  imports Engine_Demo S3_Objects
begin

text \<open>
  Buckets, objects and quotas of the admin API: internal/api/admin/buckets_admin.go over the storage engine. A handler takes
  the parameters of its path, the query or the decoded body, and the identity of the context where it asks for one; it
  answers with a status and what the JSON carries. The theorem composes the quota of the admin API with the puts of the S3 API.
\<close>

section \<open>Answers\<close>

record bucket_admin_record =
  ba_Name :: string
  ba_Owner :: string
  ba_Region :: string
  ba_Versioning :: string
  ba_ACL :: string
  ba_ObjectCount :: int64
  ba_TotalBytes :: int64
  ba_CreatedAt :: time
  ba_SSEAlgorithm :: string

record object_admin_record =
  oa_Key :: string
  oa_Size :: int64
  oa_ETag :: string
  oa_ContentType :: string
  oa_LastModified :: time
  oa_Owner :: string
  oa_StorageClass :: string
  oa_Tags :: smap
  oa_VersionID :: string

datatype bucket_body =
    BucketError err
  | BucketRecord bucket_admin_record
  | BucketRecords "bucket_admin_record list"
  | ObjectPage "object_admin_record list" "string list"
  | QuotaOf int64 int64
  | NoQuota
  | BucketNoContent

definition bucketToRecord :: "bucket_record \<Rightarrow> bucket_admin_record" where
  "bucketToRecord b = \<lparr>ba_Name = br_Name b, ba_Owner = br_Owner b, ba_Region = br_Region b, ba_Versioning = br_Versioning b,
     ba_ACL = br_ACL b, ba_ObjectCount = br_ObjectCount b, ba_TotalBytes = br_TotalBytes b, ba_CreatedAt = br_CreatedAt b,
     ba_SSEAlgorithm = br_SSEAlgorithm b\<rparr>"

definition objectToRecord :: "object_record \<Rightarrow> object_admin_record" where
  "objectToRecord r = \<lparr>oa_Key = or_Key r, oa_Size = or_Size r, oa_ETag = or_ETag r, oa_ContentType = or_ContentType r,
     oa_LastModified = or_LastModified r, oa_Owner = or_Owner r, oa_StorageClass = or_StorageClass r, oa_Tags = or_Tags r,
     oa_VersionID = or_VersionID r\<rparr>"

type_synonym ('m, 'b) bucket_answer = "(nat \<times> bucket_body) \<times> ('m, 'b) engine"

text \<open>The answer to a change: nothing, or the error under a status.\<close>

definition answer_change :: "nat \<Rightarrow> 'a result \<times> ('m, 'b) engine \<Rightarrow> ('m, 'b) bucket_answer" where
  "answer_change failure res =
     (case res of (Inl err, e) \<Rightarrow> ((failure, BucketError err), e) | (Inr _, e) \<Rightarrow> ((204, BucketNoContent), e))"

section \<open>Buckets and objects\<close>

definition admin_listBuckets :: "'m meta_store \<Rightarrow> ('m, 'b) engine \<Rightarrow> nat \<times> bucket_body" where
  "admin_listBuckets M e =
     (case engine_ListBuckets M e of
        Inl err \<Rightarrow> (500, BucketError err)
      | Inr buckets \<Rightarrow> (200, BucketRecords (map bucketToRecord buckets)))"

record create_bucket_request =
  cb_Name :: string
  cb_Region :: string
  cb_ACL :: string

definition admin_createBucket ::
    "'m meta_store \<Rightarrow> 'b backend_ops \<Rightarrow> env \<Rightarrow> VerifiedIdentity option \<Rightarrow> create_bucket_request option \<Rightarrow>
     ('m, 'b) engine \<Rightarrow> ('m, 'b) bucket_answer" where
  "admin_createBucket M B env ident body e =
     (case body of
        None \<Rightarrow> ((400, BucketError (Errorf ''invalid JSON'' [])), e)
      | Some req \<Rightarrow>
          if cb_Name req = [] then ((400, BucketError (Errorf ''name is required'' [])), e)
          else (case ident of
             None \<Rightarrow> ((401, BucketError (Errorf ''unauthorized'' [])), e)
           | Some i \<Rightarrow>
               (case CreateBucket M B env (cb_Name req) (vi_AccessKey i) (cb_Region req) e of
                  (Inl err, e1) \<Rightarrow> ((400, BucketError err), e1)
                | (Inr _, e1) \<Rightarrow>
                    (case HeadBucket M e1 (cb_Name req) of
                       Inl err \<Rightarrow> ((500, BucketError err), e1)
                     | Inr b \<Rightarrow> ((201, BucketRecord (bucketToRecord b)), e1)))))"

definition admin_deleteBucket ::
    "'m meta_store \<Rightarrow> 'b backend_ops \<Rightarrow> string \<Rightarrow> ('m, 'b) engine \<Rightarrow> ('m, 'b) bucket_answer" where
  "admin_deleteBucket M B name e = answer_change 400 (DeleteBucket M B name e)"

definition admin_max_keys :: "string \<Rightarrow> int" where
  "admin_max_keys s =
     (if s \<noteq> [] then case Atoi s of Some n \<Rightarrow> if n > 0 \<and> n \<le> 1000 then n else 100 | None \<Rightarrow> 100 else 100)"

definition admin_listObjects :: "'m meta_store \<Rightarrow> request \<Rightarrow> string \<Rightarrow> ('m, 'b) engine \<Rightarrow> nat \<times> bucket_body" where
  "admin_listObjects M r bucket e =
     (let q = multi_get (URL_Query r) in
      case engine_ListObjects M e bucket \<lparr>lo_Prefix = q ''prefix'', lo_Delimiter = q ''delimiter'',
             lo_ContinuationToken = q ''continuation_token'', lo_StartAfter = [], lo_MaxKeys = admin_max_keys (q ''max_keys'')\<rparr> of
        Inl err \<Rightarrow> (500, BucketError err)
      | Inr (objs, commonPrefixes) \<Rightarrow> (200, ObjectPage (map objectToRecord objs) commonPrefixes))"

definition admin_deleteObject ::
    "'m meta_store \<Rightarrow> 'b backend_ops \<Rightarrow> env \<Rightarrow> VerifiedIdentity option \<Rightarrow> string \<Rightarrow> string \<Rightarrow>
     ('m, 'b) engine \<Rightarrow> ('m, 'b) bucket_answer" where
  "admin_deleteObject M B env ident bucket key e =
     answer_change 500 (DeleteObject M B env
       \<lparr>di_Bucket = bucket, di_Key = key, di_VersionID = [], di_Owner = (case ident of Some i \<Rightarrow> vi_AccessKey i | None \<Rightarrow> [])\<rparr> e)"

section \<open>Quotas\<close>

definition getQuota :: "'m meta_store \<Rightarrow> string \<Rightarrow> ('m, 'b) engine \<Rightarrow> nat \<times> bucket_body" where
  "getQuota M name e =
     (case GetBucketQuota M e name of
        Inl err \<Rightarrow> (404, BucketError err)
      | Inr None \<Rightarrow> (200, NoQuota)
      | Inr (Some q) \<Rightarrow> (200, QuotaOf (MaxSizeBytes q) (MaxObjects q)))"

text \<open>A quota of zero and zero is none.\<close>

definition quota_of_request :: "int64 \<times> int64 \<Rightarrow> bucket_quota option" where
  "quota_of_request req =
     (if fst req = 0 \<and> snd req = 0 then None else Some \<lparr>MaxSizeBytes = fst req, MaxObjects = snd req\<rparr>)"

definition putQuota ::
    "'m meta_store \<Rightarrow> string \<Rightarrow> (int64 \<times> int64) option \<Rightarrow> ('m, 'b) engine \<Rightarrow> ('m, 'b) bucket_answer" where
  "putQuota M name body e =
     (case body of
        None \<Rightarrow> ((400, BucketError (Errorf ''invalid JSON'' [])), e)
      | Some req \<Rightarrow> answer_change 400 (SetBucketQuota M name (quota_of_request req) e))"

definition deleteQuota :: "'m meta_store \<Rightarrow> string \<Rightarrow> ('m, 'b) engine \<Rightarrow> ('m, 'b) bucket_answer" where
  "deleteQuota M name e = answer_change 400 (SetBucketQuota M name None e)"

lemma answer_change_204: "answer_change f res = ((204, b), e') \<Longrightarrow> f \<noteq> 204 \<Longrightarrow> \<exists>x. res = (Inr x, e') \<and> b = BucketNoContent"
  by (auto simp: answer_change_def split: prod.splits sum.splits)

lemma admin_max_keys_bounds: "1 \<le> admin_max_keys s \<and> admin_max_keys s \<le> 1000"
  by (auto simp: admin_max_keys_def split: option.split)

text \<open>The handlers that read change nothing; the types say so. A rejected body changes nothing either.\<close>

lemma rejected_bodies:
  "admin_createBucket M B env ident None e = ((400, BucketError (Errorf ''invalid JSON'' [])), e)"
  "putQuota M name None e = ((400, BucketError (Errorf ''invalid JSON'' [])), e)"
  by (simp_all add: admin_createBucket_def putQuota_def)

section \<open>Over the engine\<close>

context storage_engine
begin

text \<open>A bucket that is created is there, owned by the access key of the caller; otherwise no record changes.\<close>

lemma admin_createBucket_cases:
  assumes i: "einv e" and c: "admin_createBucket M B env ident body e = ((status, b), e')"
  shows "einv e' \<and> dview e' = dview e \<and>
    (status = 201 \<and> (\<exists>req i. body = Some req \<and> ident = Some i \<and>
       b = BucketRecord (bucketToRecord (new_bucket env (cb_Name req) (vi_AccessKey i) (cb_Region req))) \<and>
       mv_buckets (mview e) (cb_Name req) = None \<and>
       mview e' = put_bucket_view (new_bucket env (cb_Name req) (vi_AccessKey i) (cb_Region req)) (mview e)) \<or>
     status \<in> {400, 401} \<and> mview e' = mview e)"
proof (cases "\<exists>req i. body = Some req \<and> cb_Name req \<noteq> [] \<and> ident = Some i")
  case True
  then obtain req i where b: "body = Some req" "cb_Name req \<noteq> []" "ident = Some i" by blast
  obtain res e1 where cr: "CreateBucket M B env (cb_Name req) (vi_AccessKey i) (cb_Region req) e = (res, e1)" by force
  note s = CreateBucket_cases [OF assms(1) cr]
  show ?thesis
  proof (cases res)
    case (Inl err)
    with c b cr s show ?thesis by (auto simp: admin_createBucket_def)
  next
    case (Inr u)
    with s have "einv e1" "mv_buckets (mview e1) (cb_Name req) = Some (new_bucket env (cb_Name req) (vi_AccessKey i) (cb_Region req))"
      by (auto simp: put_bucket_view_def new_bucket_def)
    then have "HeadBucket M e1 (cb_Name req) = Inr (new_bucket env (cb_Name req) (vi_AccessKey i) (cb_Region req))"
      by (simp add: HeadBucket_eq)
    with c b cr s Inr show ?thesis by (auto simp: admin_createBucket_def)
  qed
next
  case False
  with c i show ?thesis by (auto simp: admin_createBucket_def split: option.splits if_splits)
qed

lemma SetBucketQuota_cases:
  assumes "einv e" and "SetBucketQuota M name q e = (res, e')"
  shows "einv e' \<and> dview e' = dview e \<and> e_backend e' = e_backend e \<and> (case mv_buckets (mview e) name of
      None \<Rightarrow> res = Inl (BucketNotFoundError name) \<and> e' = e
    | Some r \<Rightarrow> res = Inr () \<and> mview e' = (mview e)\<lparr>mv_buckets := (mv_buckets (mview e))(name \<mapsto> r\<lparr>br_Quota := q\<rparr>)\<rparr>)"
proof -
  have "e_backend e' = e_backend e" using assms(2)
    by (auto simp: SetBucketQuota_def modify_bucket_def meta_write_def split: sum.splits)
  with modify_bucket_cases [OF assms(1) _ assms(2) [unfolded SetBucketQuota_def]] show ?thesis
    by (cases "mv_buckets (mview e) name") auto
qed

lemma putQuota_cases:
  assumes "einv e" and "putQuota M name (Some req) e = ((204, b), e')"
  shows "\<exists>r. mv_buckets (mview e) name = Some r \<and> einv e' \<and> e_backend e' = e_backend e \<and>
    mview e' = (mview e)\<lparr>mv_buckets := (mv_buckets (mview e))(name \<mapsto> r\<lparr>br_Quota := quota_of_request req\<rparr>)\<rparr>"
proof -
  obtain x where "SetBucketQuota M name (quota_of_request req) e = (Inr x, e')"
    using answer_change_204 [of 400 "SetBucketQuota M name (quota_of_request req) e" b e'] assms(2) by (auto simp: putQuota_def)
  from SetBucketQuota_cases [OF assms(1) this] show ?thesis by (auto split: option.splits)
qed

lemma getQuota_eq:
  assumes "einv e"
  shows "getQuota M name e = (case mv_buckets (mview e) name of
      None \<Rightarrow> (404, BucketError (BucketNotFoundError name))
    | Some r \<Rightarrow> (200, case br_Quota r of None \<Rightarrow> NoQuota | Some q \<Rightarrow> QuotaOf (MaxSizeBytes q) (MaxObjects q)))"
  by (simp add: getQuota_def GetBucketQuota_def read_bucket_eq [OF assms] split: option.split)

lemma quota_refuses:
  assumes "einv e" and "mv_buckets (mview e) (pi_Bucket inp) = Some r" and "checkQuota r (pi_Size inp) = Some err"
  shows "PutObject M B P env inp e = (Inl err, e)"
  using get_bucket_Some [of "e_meta e" "pi_Bucket inp" r] einvD [OF assms(1)] assms(2,3) by (simp add: PutObject_def)

end

section \<open>Quotas bind the puts of the S3 API\<close>

text \<open>A put that a quota leaves no room for, by its declared size or by the number of objects.\<close>

definition over_quota :: "int64 \<times> int64 \<Rightarrow> bucket_record \<Rightarrow> int64 \<Rightarrow> bool" where
  "over_quota req r declared \<longleftrightarrow>
     (0 < sint (fst req) \<and> sint (fst req) < sint (br_TotalBytes r) + sint declared \<and> sint (br_TotalBytes r) + sint declared < 2 ^ 63) \<or>
     (0 < sint (snd req) \<and> sint (snd req) < sint (br_ObjectCount r) + 1 \<and> sint (br_ObjectCount r) + 1 < 2 ^ 63)"

lemma checkQuota_over:
  assumes "br_Quota r = quota_of_request req" and "over_quota req r declared" and "0 \<le> sint (br_TotalBytes r)"
    and "0 \<le> sint declared" and "0 \<le> sint (br_ObjectCount r)"
  shows "\<exists>lim cur n what. checkQuota r declared = Some (QuotaExceededError (br_Name r) lim cur n what)"
proof -
  have q: "br_Quota r = Some \<lparr>MaxSizeBytes = fst req, MaxObjects = snd req\<rparr>"
    using assms(1,2) by (auto simp: quota_of_request_def over_quota_def)
  have one: "sint (1 :: int64) = 1" by simp
  show ?thesis
    using assms(2-) one q
    by (auto simp: checkQuota_def over_quota_def word_sless_alt sint_int64_add)
qed

text \<open>A PUT of an object that is no part, no tags and no copy.\<close>

definition plain_put :: "exchange \<Rightarrow> bool" where
  "plain_put x \<longleftrightarrow> \<not> query_Has (x_query x) ''uploadId'' \<and> \<not> query_Has (x_query x) ''tagging'' \<and> x_header x ''x-amz-copy-source'' = []"

text \<open>
  C39: a quota that is set through the admin API binds the S3 API. After a PUT of a quota that is answered with 204, a GET
  shows it (zero and zero as none), the stored bytes and objects are as before, and every plain PUT of an object into the
  bucket that the quota leaves no room for, by its \<open>Content-Length\<close> or by the count of objects, is answered with an error
  and changes nothing.
\<close>

theorem quota_set_by_admin_binds_puts:
  assumes "bolt_db K kinv" and "engine_ok K kinv e" and "putQuota (bbolt_store K) name (Some req) e = ((204, b), e')"
  shows "getQuota (bbolt_store K) name e' = (200, if req = (0, 0) then NoQuota else QuotaOf (fst req) (snd req)) \<and>
    files e' = files e \<and> mv_objects (records K e') = mv_objects (records K e) \<and>
    (\<exists>r. mv_buckets (records K e') name = Some r \<and>
       (0 \<le> sint (br_TotalBytes r) \<and> 0 \<le> sint (br_ObjectCount r) \<longrightarrow>
        (\<forall>P env x key. plain_put x \<and> 0 \<le> sint (pi_Size (s3_put_input x name key)) \<and> over_quota req r (pi_Size (s3_put_input x name key)) \<longrightarrow>
           (\<exists>lim cur n what. s3_putObject (bbolt_store K) localfs_backend P env x name key e' =
              (internalError x (QuotaExceededError name lim cur n what), e')))))"
proof -
  note eng = server_engine [OF assms(1)]
  obtain r where r: "mv_buckets (records K e) name = Some r" "engine_ok K kinv e'" "e_backend e' = e_backend e"
    "records K e' = (records K e)\<lparr>mv_buckets := (mv_buckets (records K e))(name \<mapsto> r\<lparr>br_Quota := quota_of_request req\<rparr>)\<rparr>"
    using storage_engine.putQuota_cases [OF eng assms(2,3)] by blast
  let ?r = "r\<lparr>br_Quota := quota_of_request req\<rparr>"
  have b: "mv_buckets (records K e') name = Some ?r" by (simp add: r(4))
  have nm: "br_Name ?r = name"
    using metadata_store.bucket_named [OF bolt_db.store_is_metadata_store [OF assms(1)]] r(2) b by (fastforce simp: engine_inv_def)
  have refused: "\<exists>lim cur n what. s3_putObject (bbolt_store K) localfs_backend P env x name key e' =
      (internalError x (QuotaExceededError name lim cur n what), e')"
    if p: "plain_put x" "0 \<le> sint (pi_Size (s3_put_input x name key))" "over_quota req ?r (pi_Size (s3_put_input x name key))"
      and t: "0 \<le> sint (br_TotalBytes ?r)" "0 \<le> sint (br_ObjectCount ?r)" for P env x key
  proof -
    obtain lim cur n what where "checkQuota ?r (pi_Size (s3_put_input x name key)) = Some (QuotaExceededError name lim cur n what)"
      using checkQuota_over [of ?r req "pi_Size (s3_put_input x name key)"] p t nm by auto
    then have "s3_putObject (bbolt_store K) localfs_backend P env x name key e' =
        (internalError x (QuotaExceededError name lim cur n what), e')"
      using storage_engine.quota_refuses [OF eng r(2), of "s3_put_input x name key" ?r] b p(1)
      by (simp add: s3_putObject_def plain_put_def s3_put_input_def bucketFailure_def)
    then show ?thesis by blast
  qed
  have "getQuota (bbolt_store K) name e' = (200, if req = (0, 0) then NoQuota else QuotaOf (fst req) (snd req))"
    by (cases req) (simp add: storage_engine.getQuota_eq [OF eng r(2)] b quota_of_request_def)
  moreover have "files e' = files e" "mv_objects (records K e') = mv_objects (records K e)" by (simp_all add: r(3,4))
  ultimately show ?thesis using b refused by (intro conjI exI [of _ ?r]) auto
qed

text \<open>A quota of three bytes on the bucket of the demonstration, and a PUT of five.\<close>

definition demo_big_put :: exchange where
  "demo_big_put = \<lparr>ex_req = \<lparr>hq_req = \<lparr>rq_Method = ''PUT'', rq_Host = ''h'', rq_Path = ''/bkt/k'', rq_RawQuery = [], rq_Header = []\<rparr>,
       hq_Body = reader_of ''hello'', hq_XML = None, hq_ContentLength = 5, hq_TLS = False, hq_RemoteAddr = ''ip''\<rparr>,
     ex_ctx = \<lparr>cx_middlewareRequestID = None, cx_s3RequestID = None, cx_identity = None\<rparr>, ex_header = []\<rparr>"

lemma demo_big_put_facts: "plain_put demo_big_put" "pi_Size (s3_put_input demo_big_put b k) = 5"
proof -
  show "plain_put demo_big_put" by code_simp
  show "pi_Size (s3_put_input demo_big_put b k) = 5" by (simp add: s3_put_input_def demo_big_put_def)
qed

lemma demo_quota_put:
  "\<exists>e'. putQuota (bbolt_store ref_bolt) ''bkt'' (Some (3, 0)) demo1 = ((204, BucketNoContent), e') \<and>
     (\<forall>r. mv_buckets (records ref_bolt e') ''bkt'' = Some r \<longrightarrow> br_TotalBytes r = 0 \<and> br_ObjectCount r = 0)"
proof -
  obtain res e' where c: "SetBucketQuota (bbolt_store ref_bolt) ''bkt'' (quota_of_request (3, 0)) demo1 = (res, e')" by force
  from eng.SetBucketQuota_cases [OF demo1_ok(1) c] demo1_ok(2) have "res = Inr ()"
    "mv_buckets (records ref_bolt e') ''bkt'' = Some ((new_bucket demo_env ''bkt'' ''o'' ''r'')\<lparr>br_Quota := quota_of_request (3, 0)\<rparr>)"
    by simp_all
  with c show ?thesis by (simp add: putQuota_def answer_change_def new_bucket_def)
qed

lemma quota_set_by_admin_binds_puts_witness:
  "\<exists>e' lim cur n what. putQuota (bbolt_store ref_bolt) ''bkt'' (Some (3, 0)) demo1 = ((204, BucketNoContent), e') \<and>
     getQuota (bbolt_store ref_bolt) ''bkt'' e' = (200, QuotaOf 3 0) \<and>
     s3_putObject (bbolt_store ref_bolt) localfs_backend demo_platform demo_env demo_big_put ''bkt'' ''k'' e' =
       (internalError demo_big_put (QuotaExceededError ''bkt'' lim cur n what), e')"
proof -
  obtain e' where p: "putQuota (bbolt_store ref_bolt) ''bkt'' (Some (3, 0)) demo1 = ((204, BucketNoContent), e')"
    and z: "\<And>r. mv_buckets (records ref_bolt e') ''bkt'' = Some r \<Longrightarrow> br_TotalBytes r = 0 \<and> br_ObjectCount r = 0"
    using demo_quota_put by blast
  note th = quota_set_by_admin_binds_puts [OF ref.bolt_db_axioms demo1_ok(1) p]
  then obtain r where r: "mv_buckets (records ref_bolt e') ''bkt'' = Some r" by blast
  with z have "0 \<le> sint (br_TotalBytes r)" "0 \<le> sint (br_ObjectCount r)" "over_quota (3, 0) r 5" by (simp_all add: over_quota_def)
  with th r demo_big_put_facts have "\<exists>lim cur n what. s3_putObject (bbolt_store ref_bolt) localfs_backend demo_platform demo_env demo_big_put ''bkt'' ''k'' e' =
       (internalError demo_big_put (QuotaExceededError ''bkt'' lim cur n what), e')" by auto
  with p th show ?thesis by auto
qed

end
