(* ===== verification/Admin_Server.thy ===== *)
theory Admin_Server
  imports Admin_Jobs Admin_Alerts Admin_Config Admin_Access Admin_Buckets
begin

text \<open>
  The admin API as a whole: internal/api/admin/router.go. \<open>admin_New\<close> builds its state from the configuration, \<open>admin_server\<close>
  is a request: the routes without authentication, and the others behind \<open>Auth\<close>. Which path belongs to which endpoint is
  chi's, so a parameter, and so are the JSON decoders of the bodies and the file server of the dashboard, which has every path
  that no route has; the state is what the handlers share. The background jobs are kept with the goroutines that work on them.
\<close>

section \<open>Endpoints\<close>

datatype admin_endpoint =
    Health | Ready | Info | OIDCURL | OIDCCallback | LDAPAuth | ClusterStatus | ClusterHeartbeat | ClusterVote | Metrics
  | LogStream | Dashboard
  | UserCreate | UserIndex | UserDelete string | UserRotate string | Presign
  | ConfigGet | ConfigUpdate | ConfigValidate | TLSInfo | TLSRenew | ServerReload | Connections | GCTrigger | GCState
  | BucketIndex | BucketCreate | BucketDelete string | ObjectIndex string | ObjectDelete string string
  | QuotaGet string | QuotaPut string | QuotaDelete string
  | AlertIndex | AlertCreate | AlertDelete string | AlertPast | AuditQuery
  | ExportStart | ImportStart | ExportState | ScheduleGet | SchedulePut

text \<open>The routes outside of the group that uses \<open>Auth\<close>.\<close>

fun public_endpoint :: "admin_endpoint \<Rightarrow> bool" where
  "public_endpoint Health = True"
| "public_endpoint Ready = True"
| "public_endpoint Info = True"
| "public_endpoint OIDCURL = True"
| "public_endpoint OIDCCallback = True"
| "public_endpoint LDAPAuth = True"
| "public_endpoint ClusterStatus = True"
| "public_endpoint ClusterHeartbeat = True"
| "public_endpoint ClusterVote = True"
| "public_endpoint Metrics = True"
| "public_endpoint LogStream = True"
| "public_endpoint Dashboard = True"
| "public_endpoint _ = False"

datatype admin_body =
    NoEndpoint
  | AuthBody string err
  | InfoBody info_body
  | ExtBody ext_body
  | NodeBody status_response
  | ErrorText
  | AcceptedBody
  | VoteBody bool
  | MetricsBody
  | StreamBody
  | DashboardBody
  | UserBody user_response
  | PresignBody presign_body
  | ConfigBody config_body
  | JobBody job_body
  | ExportBody export_state
  | ScheduleBody backup_schedule
  | BucketBody bucket_body
  | AlertBody alert_body
  | AuditBody audit_body

section \<open>State and parameters\<close>

record ('m, 'b) admin_state =
  as_engine :: "('m, 'b) engine"
  as_config :: config
  as_ext :: auth_ext
  as_node :: "node option"
  as_alerts :: alert_handler
  as_gc :: "gc_state job_system"
  as_export :: "export_state job_system"
  as_backup :: backup_schedule
  as_tls :: tls_holder
  as_connections :: int64

record admin_codec =
  dc_owner :: "bytes \<Rightarrow> string option"
  dc_presign :: "bytes \<Rightarrow> presign_request option"
  dc_patch :: "bytes \<Rightarrow> config_patch option"
  dc_bucket :: "bytes \<Rightarrow> create_bucket_request option"
  dc_quota :: "bytes \<Rightarrow> (int64 \<times> int64) option"
  dc_alert :: "bytes \<Rightarrow> create_alert_request option"
  dc_schedule :: "bytes \<Rightarrow> backup_schedule option"
  dc_callback :: "bytes \<Rightarrow> oidc_callback_request option"
  dc_ldap :: "bytes \<Rightarrow> (string \<times> string) option"
  dc_heartbeat :: "bytes \<Rightarrow> heartbeat_request option"
  dc_vote :: "bytes \<Rightarrow> vote_request option"
  dc_event :: "bytes \<Rightarrow> log_entry option"

record 'c admin_platform =
  ap_platform :: platform
  ap_kdf :: kdf
  ap_codec :: admin_codec
  ap_route :: "request \<Rightarrow> admin_endpoint"
  ap_web :: "request \<Rightarrow> nat"
  ap_jose :: jose
  ap_get :: http_get
  ap_exchange :: "string \<Rightarrow> json_value option result"
  ap_AuthCodeURL :: "string \<Rightarrow> string"
  ap_ldap :: "'c ldap_ops"
  ap_open :: "string \<Rightarrow> bytes result"
  ap_ParseCertificate :: "bytes \<Rightarrow> x509_leaf result"
  ap_selfSigned :: "tls_certificate result"
  ap_version :: string
  ap_buildTime :: string
  ap_startTime :: time
  ap_serverURL :: string

record admin_request =
  aq_req :: request
  aq_body :: bytes

text \<open>A provider that cannot be made is left out without a word.\<close>

definition admin_New :: "'c admin_platform \<Rightarrow> ('m, 'b) engine \<Rightarrow> config \<Rightarrow> node option \<Rightarrow> ('m, 'b) admin_state" where
  "admin_New AP e cfg clusterNode =
     \<lparr>as_engine = e, as_config = cfg,
      as_ext = \<lparr>ax_oidc = (if oc_Enabled (cf_OIDC cfg)
                  then case NewOIDCProvider (ap_jose AP) (ap_get AP) (cf_OIDC cfg) of Inr p \<Rightarrow> Some p | Inl err \<Rightarrow> None else None),
                ax_ldap = (if lc_Enabled (cf_LDAP cfg) then Some (cf_LDAP cfg) else None)\<rparr>,
      as_node = clusterNode, as_alerts = \<lparr>ah_rules = [], ah_history = []\<rparr>,
      as_gc = (globalGCState, []), as_export = (globalExportState, []), as_backup = globalBackupSchedule,
      as_tls = None, as_connections = 0\<rparr>"

type_synonym ('m, 'b) admin_answer = "(nat \<times> admin_body) \<times> ('m, 'b) admin_state"

text \<open>Answers of handlers of the parts, in the state of the whole.\<close>

definition shows_body :: "('a \<Rightarrow> admin_body) \<Rightarrow> nat \<times> 'a \<Rightarrow> ('m, 'b) admin_state \<Rightarrow> ('m, 'b) admin_answer" where
  "shows_body f resp st = ((fst resp, f (snd resp)), st)"

definition on_engine :: "('m, 'b) bucket_answer \<Rightarrow> ('m, 'b) admin_state \<Rightarrow> ('m, 'b) admin_answer" where
  "on_engine res st = ((fst (fst res), BucketBody (snd (fst res))), st\<lparr>as_engine := snd res\<rparr>)"

fun user_status :: "user_response \<Rightarrow> nat" where
  "user_status (JsonError n err) = n"
| "user_status (UserCreated n ak sk owner) = n"
| "user_status (UserList us) = 200"
| "user_status NoContent = 204"

definition on_keys :: "user_response \<times> 'm \<Rightarrow> ('m, 'b) admin_state \<Rightarrow> ('m, 'b) admin_answer" where
  "on_keys res st =
     ((user_status (fst res), UserBody (fst res)), st\<lparr>as_engine := (as_engine st)\<lparr>e_meta := snd res\<rparr>\<rparr>)"

section \<open>Dispatch\<close>

definition cluster_endpoint :: "'c admin_platform \<Rightarrow> admin_endpoint \<Rightarrow> bytes \<Rightarrow> node \<Rightarrow> ('m, 'b) admin_state \<Rightarrow> ('m, 'b) admin_answer" where
  "cluster_endpoint AP ep body n st =
     (case ep of
        ClusterHeartbeat \<Rightarrow>
          (case HandleHeartbeat (dc_heartbeat (ap_codec AP) body) n of
             (status, n', calls) \<Rightarrow> ((status, if status = 200 then AcceptedBody else ErrorText), st\<lparr>as_node := Some n'\<rparr>))
      | ClusterVote \<Rightarrow>
          (case HandleVote (dc_vote (ap_codec AP) body) n of
             ((status, granted), n') \<Rightarrow> ((status, case granted of Some g \<Rightarrow> VoteBody g | None \<Rightarrow> ErrorText), st\<lparr>as_node := Some n'\<rparr>))
      | _ \<Rightarrow> ((200, NodeBody (HandleStatus n)), st))"

text \<open>Without authentication. The cluster routes exist when there is a node.\<close>

definition admin_public ::
    "'c admin_platform \<Rightarrow> env \<Rightarrow> admin_endpoint \<Rightarrow> admin_request \<Rightarrow> ('m, 'b) admin_state \<Rightarrow> ('m, 'b) admin_answer" where
  "admin_public AP env ep q st =
     (case ep of
        Health \<Rightarrow> shows_body InfoBody handleHealth st
      | Ready \<Rightarrow> shows_body InfoBody handleReady st
      | Info \<Rightarrow> shows_body InfoBody (handleInfo (ap_version AP) (ap_buildTime AP) (ap_startTime AP) (env_now env)) st
      | OIDCURL \<Rightarrow> shows_body ExtBody (handleOIDCURL (ap_AuthCodeURL AP) (env_rand env 0) (as_ext st)) st
      | OIDCCallback \<Rightarrow>
          (case handleOIDCCallback (ap_jose AP) (ap_get AP) (ap_exchange AP) (env_now env)
                  (dc_callback (ap_codec AP) (aq_body q)) (as_ext st) of
             (resp, x) \<Rightarrow> shows_body ExtBody resp (st\<lparr>as_ext := x\<rparr>))
      | LDAPAuth \<Rightarrow> shows_body ExtBody (handleLDAPAuth (ap_ldap AP) (dc_ldap (ap_codec AP) (aq_body q)) (as_ext st)) st
      | Metrics \<Rightarrow> ((200, MetricsBody), st)
      | LogStream \<Rightarrow> ((200, StreamBody), st)
      | Dashboard \<Rightarrow> ((ap_web AP (aq_req q), DashboardBody), st)
      | _ \<Rightarrow> (case as_node st of None \<Rightarrow> ((ap_web AP (aq_req q), DashboardBody), st) | Some n \<Rightarrow> cluster_endpoint AP ep (aq_body q) n st))"

abbreviation keys_of :: "('m, 'b) admin_state \<Rightarrow> 'm" where
  "keys_of st \<equiv> e_meta (as_engine st)"

text \<open>Behind \<open>Auth\<close>, under the identity it found. No public endpoint comes here.\<close>

fun admin_private ::
    "'c admin_platform \<Rightarrow> 'm meta_store \<Rightarrow> 'b backend_ops \<Rightarrow> env \<Rightarrow> VerifiedIdentity \<Rightarrow> admin_endpoint \<Rightarrow> admin_request \<Rightarrow>
     ('m, 'b) admin_state \<Rightarrow> ('m, 'b) admin_answer" where
  "admin_private AP M B env ident UserCreate q st =
     on_keys (user_create M (ap_kdf AP) (env_rand env) (env_now env) (dc_owner (ap_codec AP) (aq_body q)) (keys_of st)) st"
| "admin_private AP M B env ident UserIndex q st =
     on_keys (user_list M (keys_of st), keys_of st) st"
| "admin_private AP M B env ident (UserDelete ak) q st =
     on_keys (user_delete M ak (keys_of st)) st"
| "admin_private AP M B env ident (UserRotate ak) q st =
     on_keys (rotateKey M (ap_kdf AP) (env_rand env) (env_now env) ak (keys_of st)) st"
| "admin_private AP M B env ident Presign q st =
     shows_body PresignBody (presign_create M (ap_platform AP) (ap_serverURL AP) (env_now env) (Some ident)
        (dc_presign (ap_codec AP) (aq_body q)) (keys_of st)) st"
| "admin_private AP M B env ident ConfigGet q st =
     shows_body ConfigBody (config_get (as_config st)) st"
| "admin_private AP M B env ident ConfigUpdate q st =
     (case config_update (dc_patch (ap_codec AP) (aq_body q)) (as_config st) of
        (resp, cfg) \<Rightarrow> shows_body ConfigBody resp (st\<lparr>as_config := cfg\<rparr>))"
| "admin_private AP M B env ident ConfigValidate q st =
     shows_body ConfigBody (config_validate (dc_patch (ap_codec AP) (aq_body q))) st"
| "admin_private AP M B env ident TLSInfo q st =
     shows_body InfoBody (handleTLSInfo (ap_ParseCertificate AP) (ap_platform AP) (env_now env) (as_tls st)) st"
| "admin_private AP M B env ident TLSRenew q st =
     (case handleTLSRenew (ap_selfSigned AP) (as_tls st) of
        (resp, h) \<Rightarrow> shows_body InfoBody resp (st\<lparr>as_tls := h\<rparr>))"
| "admin_private AP M B env ident ServerReload q st =
     shows_body InfoBody handleServerReload st"
| "admin_private AP M B env ident Connections q st =
     shows_body InfoBody (handleConnections (as_connections st)) st"
| "admin_private AP M B env ident GCTrigger q st =
     shows_body JobBody (fst (handleGCTrigger (fst (as_gc st))))
        (st\<lparr>as_gc := job_step gc_trigger runGC (Request ()) (as_gc st)\<rparr>)"
| "admin_private AP M B env ident GCState q st =
     shows_body JobBody (handleGCStatus (fst (as_gc st))) st"
| "admin_private AP M B env ident BucketIndex q st =
     shows_body BucketBody (admin_listBuckets M (as_engine st)) st"
| "admin_private AP M B env ident BucketCreate q st =
     on_engine (admin_createBucket M B env (Some ident) (dc_bucket (ap_codec AP) (aq_body q)) (as_engine st)) st"
| "admin_private AP M B env ident (BucketDelete name) q st =
     on_engine (admin_deleteBucket M B name (as_engine st)) st"
| "admin_private AP M B env ident (ObjectIndex name) q st =
     shows_body BucketBody (admin_listObjects M (aq_req q) name (as_engine st)) st"
| "admin_private AP M B env ident (ObjectDelete name key) q st =
     on_engine (admin_deleteObject M B env (Some ident) name key (as_engine st)) st"
| "admin_private AP M B env ident (QuotaGet name) q st =
     shows_body BucketBody (getQuota M name (as_engine st)) st"
| "admin_private AP M B env ident (QuotaPut name) q st =
     on_engine (putQuota M name (dc_quota (ap_codec AP) (aq_body q)) (as_engine st)) st"
| "admin_private AP M B env ident (QuotaDelete name) q st =
     on_engine (deleteQuota M name (as_engine st)) st"
| "admin_private AP M B env ident AlertIndex q st =
     shows_body AlertBody (listRules (as_alerts st)) st"
| "admin_private AP M B env ident AlertCreate q st =
     (case createRule (env_uuid env) (env_now env) (dc_alert (ap_codec AP) (aq_body q)) (as_alerts st) of
        (resp, h) \<Rightarrow> shows_body AlertBody resp (st\<lparr>as_alerts := h\<rparr>))"
| "admin_private AP M B env ident (AlertDelete i) q st =
     (case deleteRule i (as_alerts st) of
        (resp, h) \<Rightarrow> shows_body AlertBody resp (st\<lparr>as_alerts := h\<rparr>))"
| "admin_private AP M B env ident AlertPast q st =
     shows_body AlertBody (listHistory (as_alerts st)) st"
| "admin_private AP M B env ident AuditQuery q st =
     shows_body AuditBody (handleAuditQuery (dc_event (ap_codec AP)) (ap_open AP) (cf_AuditLog (as_config st)) (aq_req q)) st"
| "admin_private AP M B env ident ExportStart q st =
     shows_body JobBody (fst (handleExport (env_now env) (fst (as_export st))))
        (st\<lparr>as_export := job_step export_trigger runExportSimulation (Request (True, env_now env)) (as_export st)\<rparr>)"
| "admin_private AP M B env ident ImportStart q st =
     shows_body JobBody (fst (handleImport (env_now env) (fst (as_export st))))
        (st\<lparr>as_export := job_step export_trigger runExportSimulation (Request (False, env_now env)) (as_export st)\<rparr>)"
| "admin_private AP M B env ident ExportState q st =
     shows_body ExportBody (handleExportStatus (fst (as_export st))) st"
| "admin_private AP M B env ident ScheduleGet q st =
     shows_body ScheduleBody (handleGetBackupSchedule (as_backup st)) st"
| "admin_private AP M B env ident SchedulePut q st =
     (case handlePutBackupSchedule (dc_schedule (ap_codec AP) (aq_body q)) (as_backup st) of
        (resp, s) \<Rightarrow> shows_body JobBody resp (st\<lparr>as_backup := s\<rparr>))"
| "admin_private AP M B env ident _ q st =
     ((404, NoEndpoint), st)"

definition admin_server ::
    "'c admin_platform \<Rightarrow> 'm meta_store \<Rightarrow> 'b backend_ops \<Rightarrow> env \<Rightarrow> admin_request \<Rightarrow> ('m, 'b) admin_state \<Rightarrow> ('m, 'b) admin_answer" where
  "admin_server AP M B env q st =
     (let ep = ap_route AP (aq_req q) in
      if public_endpoint ep then admin_public AP env ep q st
      else (case Auth M (ap_platform AP) (aq_req q) (env_now env) (e_meta (as_engine st)) of
              Rejected code m \<Rightarrow> ((403, AuthBody code m), st)
            | Authenticated ident \<Rightarrow> admin_private AP M B env ident ep q st))"

end
