(* ===== verification/Admin_Props.thy ===== *)
theory Admin_Props
  imports Admin_Server Start_Props
begin

text \<open>
  What holds of the admin API as a whole, for one request and over all runs: what a request without authentication can
  change, that roles are not looked at, and the invariant that every request and every round of a job keeps.
\<close>

section \<open>One request\<close>

lemma public_changes:
  assumes "admin_public AP env ep q st = (resp, st')"
  shows "(st' = st \<or> (\<exists>n. st' = st\<lparr>as_node := Some n\<rparr> \<and> ep \<in> {ClusterHeartbeat, ClusterVote})) \<or>
    (\<exists>x. st' = st\<lparr>as_ext := x\<rparr> \<and> ep = OIDCCallback)"
  using assms
  by (cases ep; cases "as_node st")
    (auto simp: admin_public_def shows_body_def cluster_endpoint_def split: prod.splits)

lemma callback_keeps_providers:
  assumes "handleOIDCCallback J get exchange now body h = (resp, h')"
  shows "ax_ldap h' = ax_ldap h \<and> map_option op_cfg (ax_oidc h') = map_option op_cfg (ax_oidc h)"
proof -
  have "op_cfg p' = op_cfg p" if "VerifyIDToken J get now now now tok p = (res, p')" for p p' tok res
    using that by (auto simp: VerifyIDToken_def fetchJWKS_def Let_def split: sum.splits option.splits prod.splits if_splits)
  then show ?thesis using assms
    by (auto simp: handleOIDCCallback_def split: option.splits sum.splits prod.splits if_splits)
qed

text \<open>The handlers look at the access key of an identity and at nothing else of it.\<close>

lemma handlers_ignore_roles:
  assumes "vi_AccessKey i = vi_AccessKey j"
  shows "admin_createBucket M B env (Some i) body e = admin_createBucket M B env (Some j) body e"
    and "admin_deleteObject M B env (Some i) name key e = admin_deleteObject M B env (Some j) name key e"
    and "presign_create M P url now (Some i) preq m = presign_create M P url now (Some j) preq m"
  using assms by (simp_all add: admin_createBucket_def admin_deleteObject_def presign_create_def split: option.split)

lemma admin_ignores_roles:
  assumes "vi_AccessKey i = vi_AccessKey j"
  shows "admin_private AP M B env i ep q st = admin_private AP M B env j ep q st"
  by (cases ep) (simp_all add: handlers_ignore_roles [OF assms])

text \<open>
  C37: without authentication the admin API changes nothing but what its public routes are for. If \<open>Auth\<close> rejects a request,
  then a route of the authenticated group answers with 403 and leaves the state as it is, and any other leaves the storage
  engine with its buckets, objects and keys, the configuration, the alert rules, the jobs, the schedule and the certificates
  as they are; the cluster node changes by a heartbeat or a vote only, and of the providers only the cache of signing keys, by
  a callback. A request that is authenticated is handled under the access key of its identity, whatever its role.
\<close>

theorem admin_needs_authentication:
  assumes "admin_server AP M B env q st = (resp, st')"
  shows "(case Auth M (ap_platform AP) (aq_req q) (env_now env) (e_meta (as_engine st)) of
      Rejected code m \<Rightarrow>
        (\<not> public_endpoint (ap_route AP (aq_req q)) \<longrightarrow> resp = (403, AuthBody code m) \<and> st' = st) \<and>
        (\<exists>x n. st' = st\<lparr>as_ext := x, as_node := n\<rparr> \<and>
           (n \<noteq> as_node st \<longrightarrow> ap_route AP (aq_req q) \<in> {ClusterHeartbeat, ClusterVote}) \<and>
           (x \<noteq> as_ext st \<longrightarrow> ap_route AP (aq_req q) = OIDCCallback) \<and> ax_ldap x = ax_ldap (as_ext st) \<and>
           map_option op_cfg (ax_oidc x) = map_option op_cfg (ax_oidc (as_ext st)))
    | Authenticated ident \<Rightarrow>
        \<not> public_endpoint (ap_route AP (aq_req q)) \<longrightarrow>
        (\<forall>j. vi_AccessKey j = vi_AccessKey ident \<longrightarrow> admin_private AP M B env j (ap_route AP (aq_req q)) q st = (resp, st')))"
proof -
  let ?ep = "ap_route AP (aq_req q)"
  have pub: "\<exists>x n. st' = st\<lparr>as_ext := x, as_node := n\<rparr> \<and> (n \<noteq> as_node st \<longrightarrow> ?ep \<in> {ClusterHeartbeat, ClusterVote}) \<and>
      (x \<noteq> as_ext st \<longrightarrow> ?ep = OIDCCallback) \<and> ax_ldap x = ax_ldap (as_ext st) \<and>
      map_option op_cfg (ax_oidc x) = map_option op_cfg (ax_oidc (as_ext st))" if "public_endpoint ?ep"
  proof -
    from assms that have a: "admin_public AP env ?ep q st = (resp, st')" by (simp add: admin_server_def)
    show ?thesis
    proof (cases "?ep = OIDCCallback")
      case True
      then obtain r x where c: "handleOIDCCallback (ap_jose AP) (ap_get AP) (ap_exchange AP) (env_now env)
          (dc_callback (ap_codec AP) (aq_body q)) (as_ext st) = (r, x)" "st' = st\<lparr>as_ext := x\<rparr>"
        using a by (auto simp: admin_public_def shows_body_def split: prod.splits)
      then show ?thesis using True callback_keeps_providers [OF c(1)] by (intro exI [of _ x] exI [of _ "as_node st"]) simp
    next
      case False
      with public_changes [OF a] obtain n where "st' = st\<lparr>as_node := n\<rparr>" "n = as_node st \<or> ?ep \<in> {ClusterHeartbeat, ClusterVote}"
        by (metis admin_state.surjective admin_state.update_convs(4))
      then show ?thesis using False by (intro exI [of _ "as_ext st"] exI [of _ n]) auto
    qed
  qed
  show ?thesis
  proof (cases "public_endpoint ?ep")
    case True
    with pub show ?thesis by (simp split: auth_outcome.split)
  next
    case False
    show ?thesis
    proof (cases "Auth M (ap_platform AP) (aq_req q) (env_now env) (e_meta (as_engine st))")
      case (Rejected code m)
      with False assms have "resp = (403, AuthBody code m)" "st' = st" by (simp_all add: admin_server_def Let_def)
      moreover have "st = st\<lparr>as_ext := as_ext st, as_node := as_node st\<rparr>" by simp
      ultimately show ?thesis unfolding Rejected by (auto intro!: exI [of _ "as_ext st"] exI [of _ "as_node st"])
    next
      case (Authenticated ident)
      with False assms have "admin_private AP M B env ident ?ep q st = (resp, st')" by (simp add: admin_server_def Let_def)
      then show ?thesis unfolding Authenticated auth_outcome.case using admin_ignores_roles by metis
    qed
  qed
qed

section \<open>What every request keeps\<close>

text \<open>
  A deletion through the admin API can rely on its names: the marker fits into the store, the file of the object is where its
  record says.
\<close>

definition delete_ready ::
    "(string \<Rightarrow> string \<Rightarrow> bool) \<Rightarrow> (string \<Rightarrow> string \<Rightarrow> bytes option) \<Rightarrow> meta_view \<Rightarrow> env \<Rightarrow> string \<Rightarrow> string \<Rightarrow> bool" where
  "delete_ready good stored w env b k \<longleftrightarrow>
     (\<forall>bkt. mv_buckets w b = Some bkt \<longrightarrow>
        (if br_Versioning bkt = VersioningEnabled then version_ok b k (env_uuid env)
         else \<forall>r. mv_objects w b k = Some r \<longrightarrow>
           good b (record_backend_key k r) \<and> stored b (record_backend_key k r) \<noteq> None))"

definition request_ready ::
    "(string \<Rightarrow> string \<Rightarrow> bool) \<Rightarrow> (string \<Rightarrow> string \<Rightarrow> bytes option) \<Rightarrow> meta_view \<Rightarrow> env \<Rightarrow> admin_endpoint \<Rightarrow> bool" where
  "request_ready good stored w env ep \<longleftrightarrow> (\<forall>b k. ep = ObjectDelete b k \<longrightarrow> delete_ready good stored w env b k)"

lemma keys_sign_cong: "mv_keys w' = mv_keys w \<Longrightarrow> keys_sign w' = keys_sign w"
  by (simp add: keys_sign_def)

lemma view_keys [simp]:
  "mv_keys (stats_view b dc db w) = mv_keys w" "mv_keys (del_object_view b k w) = mv_keys w"
  "mv_keys (put_version_view v w) = mv_keys w" "mv_keys (mark_view b k w) = mv_keys w"
  "mv_keys (put_bucket_view r w) = mv_keys w"
  by (simp_all add: stats_view_def del_object_view_def put_version_view_def mark_view_def put_bucket_view_def)

context storage_engine
begin

lemma DeleteObject_keeps:
  assumes i: "einv e" and vid: "di_VersionID inp = []"
    and r: "delete_ready good (dview e) (mview e) env (di_Bucket inp) (di_Key inp)"
    and d: "DeleteObject M B env inp e = (res, e')"
  shows "einv e' \<and> mv_keys (mview e') = mv_keys (mview e)"
proof (cases "mv_buckets (mview e) (di_Bucket inp)")
  case None
  from get_bucket_None [OF conjunct1 [OF einvD [OF i]] None] obtain err where
    "m_GetBucket M (e_meta e) (di_Bucket inp) = Inl err" "isNotFound err" by blast
  with d vid i show ?thesis by (auto simp: DeleteObject_def)
next
  case (Some bkt)
  show ?thesis
  proof (cases "br_Versioning bkt = VersioningEnabled")
    case True
    with r Some have "version_ok (di_Bucket inp) (di_Key inp) (env_uuid env)" by (simp add: delete_ready_def)
    from delete_versioned [where env = env, OF i Some True vid this] d show ?thesis by auto
  next
    case False
    show ?thesis
    proof (cases "mv_objects (mview e) (di_Bucket inp) (di_Key inp)")
      case None
      from delete_absent [OF i Some False vid None] d i show ?thesis by simp
    next
      case (Some x)
      note bkt = \<open>mv_buckets (mview e) (di_Bucket inp) = Some bkt\<close>
      from r bkt False Some have "good (di_Bucket inp) (record_backend_key (di_Key inp) x)"
        "dview e (di_Bucket inp) (record_backend_key (di_Key inp) x) \<noteq> None" by (auto simp: delete_ready_def)
      from delete_unversioned [where env = env, OF i bkt False vid Some this] d show ?thesis by auto
    qed
  qed
qed

definition admin_ok :: "('m, 'b) engine \<Rightarrow> bool" where
  "admin_ok e \<longleftrightarrow> einv e \<and> keys_sign (mview e)"

lemma admin_okI: "einv e' \<and> mv_keys (mview e') = mv_keys (mview e) \<Longrightarrow> admin_ok e \<Longrightarrow> admin_ok e'"
  using keys_sign_cong [of "mview e'" "mview e"] by (simp add: admin_ok_def)

lemma quota_keeps: "admin_ok e \<Longrightarrow> admin_ok (snd (answer_change f (SetBucketQuota M name q e)))"
proof -
  assume e: "admin_ok e"
  obtain res e' where s: "SetBucketQuota M name q e = (res, e')" by force
  with SetBucketQuota_cases [of e name q res e'] e have "einv e' \<and> mv_keys (mview e') = mv_keys (mview e)"
    by (auto simp: admin_ok_def split: option.splits)
  with e have "admin_ok e'" by (rule admin_okI [rotated])
  with s show ?thesis by (simp add: answer_change_def split: sum.split)
qed

lemma bucket_requests_keep:
  assumes e: "admin_ok e"
  shows "admin_ok (snd (admin_createBucket M B env ident body e))" (is ?create)
    and "admin_ok (snd (admin_deleteBucket M B name e))" (is ?del)
    and "admin_ok (snd (putQuota M name q e))" and "admin_ok (snd (deleteQuota M name e))"
    and "delete_ready good (dview e) (mview e) env b k \<Longrightarrow> admin_ok (snd (admin_deleteObject M B env ident b k e))"
proof -
  have i: "einv e" using e by (simp add: admin_ok_def)
  obtain st bd e1 where c: "admin_createBucket M B env ident body e = ((st, bd), e1)" by (metis prod.collapse)
  have "einv e1 \<and> mv_keys (mview e1) = mv_keys (mview e)" using admin_createBucket_cases [OF i c] by auto
  from admin_okI [OF this e] c show ?create by simp
  obtain res e2 where d: "DeleteBucket M B name e = (res, e2)" by force
  have "einv e2 \<and> mv_keys (mview e2) = mv_keys (mview e)" using DeleteBucket_cases [OF i d] by (auto split: sum.splits)
  from admin_okI [OF this e] d show ?del by (simp add: admin_deleteBucket_def answer_change_def split: sum.split)
  show "admin_ok (snd (putQuota M name q e))" using e quota_keeps [OF e] by (simp add: putQuota_def split: option.split)
  show "admin_ok (snd (deleteQuota M name e))" using quota_keeps [OF e] by (simp add: deleteQuota_def)
  show "admin_ok (snd (admin_deleteObject M B env ident b k e))" if r: "delete_ready good (dview e) (mview e) env b k"
  proof -
    let ?inp = "\<lparr>di_Bucket = b, di_Key = k, di_VersionID = [], di_Owner = (case ident of Some i \<Rightarrow> vi_AccessKey i | None \<Rightarrow> [])\<rparr>"
    obtain res e3 where x: "DeleteObject M B env ?inp e = (res, e3)" by force
    have "einv e3 \<and> mv_keys (mview e3) = mv_keys (mview e)" by (rule DeleteObject_keeps [OF i _ _ x]) (use r in simp_all)
    from admin_okI [OF this e] x show ?thesis by (simp add: admin_deleteObject_def answer_change_def split: sum.split)
  qed
qed

lemma key_requests_keep:
  assumes e: "admin_ok e" and K: "kdf_ok K"
  shows "admin_ok (e\<lparr>e_meta := snd (user_create M K rnd now body (e_meta e))\<rparr>)"
    and "admin_ok (e\<lparr>e_meta := snd (user_delete M ak (e_meta e))\<rparr>)"
    and "admin_ok (e\<lparr>e_meta := snd (rotateKey M K rnd now ak (e_meta e))\<rparr>)"
proof -
  have i: "einv e" "keys_sign (mview e)" and s: "sinv (e_meta e)" using e einvD by (auto simp: admin_ok_def)
  have upd: "admin_ok (e\<lparr>e_meta := m\<rparr>)" if "sinv m \<and> keys_sign (view m)" for m
    using that i(1) by (simp add: admin_ok_def einv_meta)
  have "sinv m' \<and> keys_sign (view m')" if "user_create M K rnd now body (e_meta e) = (resp, m')" for resp m'
    using that s i(2) CreateKey_keeps [OF s K i(2), of rnd now _ False]
    by (fastforce simp: user_create_def split: option.splits prod.splits sum.splits if_splits)
  then show "admin_ok (e\<lparr>e_meta := snd (user_create M K rnd now body (e_meta e))\<rparr>)" by (metis upd prod.collapse)
  have "sinv m' \<and> keys_sign (view m')" if "user_delete M ak (e_meta e) = (resp, m')" for resp m'
    using that DeleteKey_ok [OF s, of ak] keys_sign_del [OF i(2), of ak] by (auto simp: user_delete_def)
  then show "admin_ok (e\<lparr>e_meta := snd (user_delete M ak (e_meta e))\<rparr>)" by (metis upd prod.collapse)
  show "admin_ok (e\<lparr>e_meta := snd (rotateKey M K rnd now ak (e_meta e))\<rparr>)"
    using rotateKey_keeps [OF s K i(2)] by (metis upd prod.collapse)
qed

end

section \<open>All runs\<close>

text \<open>
  The states the admin API reaches: by requests, by the rounds of the goroutines of its jobs, by a new TLS configuration
  and by connections that open and close, in any order.
\<close>

inductive admin_reach :: "'c admin_platform \<Rightarrow> 'db bolt \<Rightarrow> ('db, local_fs) admin_state \<Rightarrow> ('db, local_fs) admin_state \<Rightarrow> bool"
  for AP DB st0 where
  start: "admin_reach AP DB st0 st0"
| request: "admin_reach AP DB st0 st \<Longrightarrow>
    request_ready localfs_good (files (as_engine st)) (records DB (as_engine st)) env (ap_route AP (aq_req q)) \<Longrightarrow>
    admin_server AP (bbolt_store DB) localfs_backend env q st = (resp, st') \<Longrightarrow> admin_reach AP DB st0 st'"
| gc_round: "admin_reach AP DB st0 st \<Longrightarrow>
    admin_reach AP DB st0 (st\<lparr>as_gc := job_step gc_trigger runGC (Work now j) (as_gc st)\<rparr>)"
| export_round: "admin_reach AP DB st0 st \<Longrightarrow>
    admin_reach AP DB st0 (st\<lparr>as_export := job_step export_trigger runExportSimulation (Work now j) (as_export st)\<rparr>)"
| tls: "admin_reach AP DB st0 st \<Longrightarrow> admin_reach AP DB st0 (st\<lparr>as_tls := SetTLSConfig cs (as_tls st)\<rparr>)"
| connection: "admin_reach AP DB st0 st \<Longrightarrow> admin_reach AP DB st0 (st\<lparr>as_connections := TrackConnection c (as_connections st)\<rparr>)"

text \<open>What an update can have made of a configuration.\<close>

definition edited :: "config \<Rightarrow> config \<Rightarrow> bool" where
  "edited cfg cfg' \<longleftrightarrow> (\<exists>l f rps n. cfg' = cfg\<lparr>cf_LogLevel := l, cf_LogFormat := f, cf_RateLimitRPS := rps, cf_MaxBucketCount := n\<rparr>)"

definition admin_inv :: "'db bolt \<Rightarrow> ('db \<Rightarrow> bool) \<Rightarrow> config \<Rightarrow> ('db, local_fs) admin_state \<Rightarrow> bool" where
  "admin_inv DB kinv cfg st \<longleftrightarrow>
     engine_ok DB kinv (as_engine st) \<and> keys_sign (records DB (as_engine st)) \<and> gcj.one_job (as_gc st) \<and> exj.one_job (as_export st) \<and>
     edited cfg (as_config st)"

lemma update_edits: "edited cfg c \<Longrightarrow> config_update body c = (resp, cfg') \<Longrightarrow> edited cfg cfg'"
  unfolding edited_def config_update_def by (auto simp: apply_patch_def split: option.splits if_splits)

text \<open>A handler changes one part of the state; what it does to it keeps the invariant.\<close>

lemma private_keeps:
  assumes DB: "bolt_db DB kinv" and K: "kdf_ok (ap_kdf AP)" and i: "admin_inv DB kinv cfg st"
    and r: "request_ready localfs_good (files (as_engine st)) (records DB (as_engine st)) env ep"
    and c: "admin_private AP (bbolt_store DB) localfs_backend env ident ep q st = (resp, st')"
  shows "admin_inv DB kinv cfg st'"
proof -
  note se = server_engine [OF DB]
  let ?e = "as_engine st" and ?ok = "storage_engine.admin_ok (bolt_view DB) (bolt_inv DB kinv) lfs_inv"
  have ok: "?ok ?e" using i by (simp add: admin_inv_def storage_engine.admin_ok_def [OF se])
  note keep = storage_engine.bucket_requests_keep [OF se ok] storage_engine.key_requests_keep [OF se ok K]
  have eng: "admin_inv DB kinv cfg (st\<lparr>as_engine := e'\<rparr>)" if "?ok e'" for e'
    using that i by (simp add: admin_inv_def storage_engine.admin_ok_def [OF se])
  have same: "admin_inv DB kinv cfg (st\<lparr>as_engine := ?e\<lparr>e_meta := e_meta ?e\<rparr>\<rparr>)" using i by simp
  have gc: "admin_inv DB kinv cfg (st\<lparr>as_gc := job_step gc_trigger runGC ev (as_gc st)\<rparr>)" for ev
    using i gcj.step_keeps [of "as_gc st" ev] by (simp add: admin_inv_def)
  have ex: "admin_inv DB kinv cfg (st\<lparr>as_export := job_step export_trigger runExportSimulation ev (as_export st)\<rparr>)" for ev
    using i exj.step_keeps [of "as_export st" ev] by (simp add: admin_inv_def)
  have cf: "admin_inv DB kinv cfg (st\<lparr>as_config := snd (config_update body (as_config st))\<rparr>)" for body
    using i update_edits [of cfg "as_config st" body] by (simp add: admin_inv_def) (metis prod.collapse)
  have rest: "admin_inv DB kinv cfg (st\<lparr>as_tls := h\<rparr>)" "admin_inv DB kinv cfg (st\<lparr>as_alerts := al\<rparr>)"
    "admin_inv DB kinv cfg (st\<lparr>as_backup := bs\<rparr>)" for h al bs using i by (simp_all add: admin_inv_def)
  have del: "admin_inv DB kinv cfg (st\<lparr>as_engine := snd (admin_deleteObject (bbolt_store DB) localfs_backend env (Some ident) b k ?e)\<rparr>)"
    if "ep = ObjectDelete b k" for b k
    using r that by (intro eng keep(5)) (simp add: request_ready_def)
  have "admin_inv DB kinv cfg (snd (admin_private AP (bbolt_store DB) localfs_backend env ident ep q st))"
    by (cases ep) (simp_all add: shows_body_def on_engine_def on_keys_def case_prod_beta
      i eng [OF keep(1)] eng [OF keep(2)] eng [OF keep(3)] eng [OF keep(4)] eng [OF keep(6)] eng [OF keep(7)] eng [OF keep(8)]
      del same gc ex cf rest)
  with c show ?thesis by simp
qed

lemma edited_same:
  assumes "edited cfg c"
  shows "Validate c = Validate cfg" and "cf_RootSecretKey c = cf_RootSecretKey cfg" and "cf_AuditLog c = cf_AuditLog cfg"
proof -
  obtain l f rps n where c: "c = cfg\<lparr>cf_LogLevel := l, cf_LogFormat := f, cf_RateLimitRPS := rps, cf_MaxBucketCount := n\<rparr>"
    using assms unfolding edited_def by blast
  show "Validate c = Validate cfg" "cf_RootSecretKey c = cf_RootSecretKey cfg" "cf_AuditLog c = cf_AuditLog cfg"
    unfolding c by (simp_all add: Validate_def)
qed

lemma public_keeps:
  assumes "admin_inv DB kinv cfg st" and "admin_public AP env ep q st = (resp, st')"
  shows "admin_inv DB kinv cfg st'"
  using public_changes [OF assms(2)] assms(1) by (auto simp: admin_inv_def)

lemma server_keeps:
  assumes "bolt_db DB kinv" and "kdf_ok (ap_kdf AP)" and "admin_inv DB kinv cfg st"
    and "request_ready localfs_good (files (as_engine st)) (records DB (as_engine st)) env (ap_route AP (aq_req q))"
    and "admin_server AP (bbolt_store DB) localfs_backend env q st = (resp, st')"
  shows "admin_inv DB kinv cfg st'"
proof (cases "public_endpoint (ap_route AP (aq_req q))")
  case True
  with assms(5) have "admin_public AP env (ap_route AP (aq_req q)) q st = (resp, st')" by (simp add: admin_server_def)
  from public_keeps [OF assms(3) this] show ?thesis .
next
  case False
  with assms(5) consider "st' = st" | ident where
    "admin_private AP (bbolt_store DB) localfs_backend env ident (ap_route AP (aq_req q)) q st = (resp, st')"
    by (auto simp: admin_server_def Let_def split: auth_outcome.splits)
  then show ?thesis using private_keeps [OF assms(1-4)] assms(3) by cases auto
qed

lemma admin_reach_keeps:
  assumes "admin_reach AP DB st0 st" and "bolt_db DB kinv" and "kdf_ok (ap_kdf AP)" and "admin_inv DB kinv cfg st0"
  shows "admin_inv DB kinv cfg st"
  using assms(1)
proof (induction rule: admin_reach.induct)
  case start
  show ?case by (rule assms(4))
next
  case (request st env q resp st')
  from server_keeps [OF assms(2,3) request.IH request.hyps(2,3)] show ?case .
next
  case (gc_round st now j)
  then show ?case using gcj.step_keeps [of "as_gc st" "Work now j"] by (simp add: admin_inv_def)
next
  case (export_round st now j)
  then show ?case using exj.step_keeps [of "as_export st" "Work now j"] by (simp add: admin_inv_def)
qed (simp_all add: admin_inv_def)

lemma admin_New_inv:
  assumes "engine_ok DB kinv e" and "keys_sign (records DB e)"
  shows "admin_inv DB kinv cfg (admin_New AP e cfg clusterNode)"
proof -
  have "cfg = cfg\<lparr>cf_LogLevel := cf_LogLevel cfg, cf_LogFormat := cf_LogFormat cfg, cf_RateLimitRPS := cf_RateLimitRPS cfg,
      cf_MaxBucketCount := cf_MaxBucketCount cfg\<rparr>" by simp
  then have "edited cfg cfg" unfolding edited_def by blast
  with assms show ?thesis by (simp add: admin_inv_def admin_New_def globalGCState_def globalExportState_def)
qed

text \<open>
  C36: whatever is requested of the admin API, in any order with the rounds of its jobs, it keeps what the rest of the server
  relies on. If the engine it is started on is sound and its keys can sign, and the configuration is valid, then in every state
  it reaches the engine is sound, the configuration is valid and still has the root secret and the audit log it was loaded
  with, at most one goroutine collects garbage and at most one exports or imports, and \<open>Auth\<close> lets a request pass exactly
  with a signature under the secret of a stored key.
\<close>

theorem admin_api_keeps_server_sound:
  assumes "bolt_db DB kinv" and "kdf_ok (ap_kdf AP)" and "engine_ok DB kinv e" and "keys_sign (records DB e)"
    and "Validate cfg = None" and "admin_reach AP DB (admin_New AP e cfg clusterNode) st"
  shows "engine_ok DB kinv (as_engine st) \<and> Validate (as_config st) = None \<and>
    cf_RootSecretKey (as_config st) = cf_RootSecretKey cfg \<and> cf_AuditLog (as_config st) = cf_AuditLog cfg \<and>
    length (snd (as_gc st)) \<le> 1 \<and> (gc_running (fst (as_gc st)) \<longleftrightarrow> snd (as_gc st) \<noteq> []) \<and>
    length (snd (as_export st)) \<le> 1 \<and> (ex_running (fst (as_export st)) \<longleftrightarrow> snd (as_export st) \<noteq> []) \<and>
    (Auth (bbolt_store DB) P r now (e_meta (as_engine st)) = Authenticated ident \<longleftrightarrow>
      claimed_key r \<noteq> [] \<and> (\<exists>a. mv_keys (records DB (as_engine st)) (claimed_key r) = Some a \<and> ident = identity_of a \<and>
        signature_ok P r (ak_SigningKey a) now))"
proof -
  have i: "admin_inv DB kinv cfg st" by (rule admin_reach_keeps [OF assms(6,1,2) admin_New_inv [OF assms(3,4)]])
  have s: "bolt_inv DB kinv (e_meta (as_engine st))" "keys_sign (bolt_view DB (e_meta (as_engine st)))"
    using i by (simp_all add: admin_inv_def engine_inv_def)
  note a = metadata_store.Auth_iff [OF bolt_db.store_is_metadata_store [OF assms(1)] s]
  have j: "gcj.one_job (as_gc st)" "exj.one_job (as_export st)" "engine_ok DB kinv (as_engine st)" "edited cfg (as_config st)"
    using i by (simp_all add: admin_inv_def)
  obtain g ws x vs where w: "as_gc st = (g, ws)" "as_export st = (x, vs)" by (metis surj_pair)
  have "length ws \<le> 1 \<and> (gc_running g \<longleftrightarrow> ws \<noteq> [])" "length vs \<le> 1 \<and> (ex_running x \<longleftrightarrow> vs \<noteq> [])"
    using j(1,2) unfolding w by auto
  with j edited_same [OF j(4)] assms(5) a w show ?thesis by simp
qed

section \<open>A running admin API\<close>

text \<open>
  The root key presigns a POST of \<open>admin/v1/gc\<close>, as if of an object: the URL is one of the admin API, which accepts it.
\<close>

definition demo_gc_request :: "string \<Rightarrow> admin_request" where
  "demo_gc_request raw = \<lparr>aq_req = \<lparr>rq_Method = ''POST'', rq_Host = ''h:9000'', rq_Path = ''/admin/v1/gc'', rq_RawQuery = raw,
     rq_Header = []\<rparr>, aq_body = []\<rparr>"

definition demo_admin :: "unit admin_platform" where
  "demo_admin = \<lparr>ap_platform = sig_platform, ap_kdf = toy_kdf,
     ap_codec = \<lparr>dc_owner = (\<lambda>b. None), dc_presign = (\<lambda>b. None), dc_patch = (\<lambda>b. None), dc_bucket = (\<lambda>b. None), dc_quota = (\<lambda>b. None),
       dc_alert = (\<lambda>b. None), dc_schedule = (\<lambda>b. None), dc_callback = (\<lambda>b. None), dc_ldap = (\<lambda>b. None), dc_heartbeat = (\<lambda>b. None),
       dc_vote = (\<lambda>b. None), dc_event = (\<lambda>b. None)\<rparr>,
     ap_route = (\<lambda>r. if rq_Method r = ''POST'' \<and> rq_Path r = ''/admin/v1/gc'' then GCTrigger else Dashboard), ap_web = (\<lambda>r. 404),
     ap_jose = demo_jose, ap_get = demo_get, ap_exchange = (\<lambda>c. Inr None), ap_AuthCodeURL = id, ap_ldap = demo_directory,
     ap_open = (\<lambda>f. Inr []), ap_ParseCertificate = (\<lambda>d. Inl (Errorf ''none'' [])), ap_selfSigned = Inl (Errorf ''none'' []),
     ap_version = ''1'', ap_buildTime = ''now'', ap_startTime = 0, ap_serverURL = ''http://h:9000''\<rparr>"

definition demo_admin_engine :: "(ref_db, local_fs) engine" where
  "demo_admin_engine = engine_New demo_fs key_store1 ''AK''"

abbreviation demo_admin0 :: "(ref_db, local_fs) admin_state" where
  "demo_admin0 \<equiv> admin_New demo_admin demo_admin_engine demo_config None"

definition demo_now :: env where
  "demo_now = demo_env\<lparr>env_now := demo_time\<rparr>"

lemma demo_admin_facts:
  "engine_ok ref_bolt (\<lambda>_. True) demo_admin_engine" "keys_sign (records ref_bolt demo_admin_engine)"
  "e_meta demo_admin_engine = key_store1" "kdf_ok (ap_kdf demo_admin)" "Validate demo_config = None"
proof -
  have "lfs_inv demo_fs" using demo_fs_wf demo_root by (simp add: lfs_inv_def demo_fs_def)
  then show "engine_ok ref_bolt (\<lambda>_. True) demo_admin_engine"
    using key_store1_facts(2) by (simp add: demo_admin_engine_def engine_inv_def engine_New_def)
  show "e_meta demo_admin_engine = key_store1" "keys_sign (records ref_bolt demo_admin_engine)"
    using key_store1_facts(4) by (simp_all add: demo_admin_engine_def engine_New_def)
  show "kdf_ok (ap_kdf demo_admin)" by (simp add: demo_admin_def toy_kdf_ok)
  show "Validate demo_config = None" by (simp add: demo_config_def Validate_def)
qed

lemma demo_gc_url:
  "\<exists>raw. GeneratePresignedURL sig_platform ''POST'' ''http://h:9000'' ''admin'' ''v1/gc'' ''AK'' ''sk'' ''eu'' 3600000000000 demo_time =
     Inr (''http://h:9000'' @ ''/admin/v1/gc'' @ ''?'' @ raw)"
  by (simp add: GeneratePresignedURL_def Let_def week_ns_def second_ns_def)

lemma demo_gc_authenticated:
  assumes "GeneratePresignedURL sig_platform ''POST'' ''http://h:9000'' ''admin'' ''v1/gc'' ''AK'' ''sk'' ''eu'' 3600000000000 demo_time =
     Inr (''http://h:9000'' @ ''/admin/v1/gc'' @ ''?'' @ raw)"
  shows "Auth (bbolt_store ref_bolt) sig_platform (aq_req (demo_gc_request raw)) demo_time key_store1 = Authenticated (identity_of root_record)"
proof -
  have h: "extractHost ''http://h:9000'' ''admin'' = ''h:9000''" by code_simp
  have k: "mv_keys (bolt_view ref_bolt key_store1) (ak_AccessKey root_record) = Some root_record"
    by (simp add: key_store1_facts(3) key_record_def)
  have g: "GeneratePresignedURL sig_platform ''POST'' ''http://h:9000'' ''admin'' ''v1/gc'' (ak_AccessKey root_record) (ak_SigningKey root_record)
      ''eu'' 3600000000000 demo_time = Inr (''http://h:9000'' @ ''/admin/v1/gc'' @ ''?'' @ raw)"
    using assms by (simp add: key_record_def)
  show ?thesis
    by (rule ref.ms.stored_key_presigned(2) [OF key_store1_facts(2) k _ _ g sig_platform_sizes(1) demo_range])
      (simp_all add: demo_gc_request_def key_record_def h demo_later [simplified])
qed

text \<open>A URL for an object may open the admin API.\<close>

lemma presigned_url_opens_admin_api:
  "\<exists>raw st'. GeneratePresignedURL sig_platform ''POST'' ''http://h:9000'' ''admin'' ''v1/gc'' ''AK'' ''sk'' ''eu'' 3600000000000 demo_time =
       Inr (''http://h:9000'' @ ''/admin/v1/gc'' @ ''?'' @ raw) \<and>
     admin_server demo_admin (bbolt_store ref_bolt) localfs_backend demo_now (demo_gc_request raw) demo_admin0 =
       ((202, JobBody GcStarted), st') \<and> gc_running (fst (as_gc st'))"
proof -
  obtain raw where u: "GeneratePresignedURL sig_platform ''POST'' ''http://h:9000'' ''admin'' ''v1/gc'' ''AK'' ''sk'' ''eu'' 3600000000000 demo_time =
     Inr (''http://h:9000'' @ ''/admin/v1/gc'' @ ''?'' @ raw)" using demo_gc_url by blast
  have r: "ap_route demo_admin (aq_req (demo_gc_request raw)) = GCTrigger" "ap_platform demo_admin = sig_platform"
    by (simp_all add: demo_admin_def demo_gc_request_def)
  have s: "as_engine demo_admin0 = demo_admin_engine" "as_gc demo_admin0 = (globalGCState, [])" by (simp_all add: admin_New_def)
  have "admin_server demo_admin (bbolt_store ref_bolt) localfs_backend demo_now (demo_gc_request raw) demo_admin0 =
      ((202, JobBody GcStarted), demo_admin0\<lparr>as_gc := job_step gc_trigger runGC (Request ()) (globalGCState, [])\<rparr>)"
    using demo_gc_authenticated [OF u] demo_admin_facts(3)
    by (simp add: admin_server_def Let_def r s demo_now_def shows_body_def handleGCTrigger_def globalGCState_def)
  with u show ?thesis by (auto simp: handleGCTrigger_def globalGCState_def)
qed

lemma admin_api_keeps_server_sound_witness:
  "\<exists>st. admin_reach demo_admin ref_bolt demo_admin0 st \<and> snd (as_gc st) \<noteq> [] \<and> gc_running (fst (as_gc st)) \<and> length (snd (as_gc st)) \<le> 1 \<and>
     Auth (bbolt_store ref_bolt) sig_platform demo_url_request demo_time (keys_of st) = Authenticated (identity_of root_record)"
proof -
  obtain raw st where s: "admin_server demo_admin (bbolt_store ref_bolt) localfs_backend demo_now (demo_gc_request raw) demo_admin0 =
      ((202, JobBody GcStarted), st)" "gc_running (fst (as_gc st))" using presigned_url_opens_admin_api by blast
  have "ap_route demo_admin (aq_req (demo_gc_request raw)) = GCTrigger" by (simp add: demo_admin_def demo_gc_request_def)
  then have "request_ready localfs_good (files (as_engine demo_admin0)) (records ref_bolt (as_engine demo_admin0)) demo_now
      (ap_route demo_admin (aq_req (demo_gc_request raw)))" by (simp add: request_ready_def)
  from admin_reach.request [OF admin_reach.start this s(1)] have r: "admin_reach demo_admin ref_bolt demo_admin0 st" .
  have k: "keys_of st = key_store1"
  proof -
    from s(1) have "as_engine st = as_engine demo_admin0"
      by (auto simp: admin_server_def demo_admin_def demo_gc_request_def Let_def shows_body_def split: auth_outcome.splits)
    then show ?thesis using demo_admin_facts(3) by (simp add: admin_New_def)
  qed
  have a: "mv_keys (bolt_view ref_bolt key_store1) ''AK'' = Some root_record" "ak_SigningKey root_record = ''sk''"
    by (simp_all add: key_store1_facts(3) key_record_def)
  note th = admin_api_keeps_server_sound [OF ref.bolt_db_axioms demo_admin_facts(4,1,2,5) r, of sig_platform demo_url_request demo_time
      "identity_of root_record"]
  then have "length (snd (as_gc st)) \<le> 1" "gc_running (fst (as_gc st)) \<longleftrightarrow> snd (as_gc st) \<noteq> []"
    "Auth (bbolt_store ref_bolt) sig_platform demo_url_request demo_time (keys_of st) = Authenticated (identity_of root_record)"
    using a demo_url_claim unfolding k by simp_all
  with r s(2) show ?thesis by blast
qed

text \<open>A request without a signature.\<close>

lemma admin_needs_authentication_witness:
  "admin_server demo_admin (bbolt_store ref_bolt) localfs_backend demo_now (demo_gc_request []) demo_admin0 =
     ((403, AuthBody ''AccessDenied'' (Errorf ''missing Authorization header'' [])), demo_admin0)"
proof -
  obtain resp st where s: "admin_server demo_admin (bbolt_store ref_bolt) localfs_backend demo_now (demo_gc_request []) demo_admin0 = (resp, st)"
    by (metis surj_pair)
  have c: "isPresigned (aq_req (demo_gc_request [])) = False" "ExtractAccessKey (aq_req (demo_gc_request [])) = []" by code_simp+
  have "Auth (bbolt_store ref_bolt) (ap_platform demo_admin) (aq_req (demo_gc_request [])) (env_now demo_now) (keys_of demo_admin0) =
      Rejected ''AccessDenied'' (Errorf ''missing Authorization header'' [])"
    by (simp add: Auth_def c)
  with admin_needs_authentication [OF s] have "\<not> public_endpoint (ap_route demo_admin (aq_req (demo_gc_request []))) \<longrightarrow>
      resp = (403, AuthBody ''AccessDenied'' (Errorf ''missing Authorization header'' [])) \<and> st = demo_admin0" by simp
  moreover have "ap_route demo_admin (aq_req (demo_gc_request [])) = GCTrigger" by (simp add: demo_admin_def demo_gc_request_def)
  ultimately show ?thesis using s by simp
qed

end
