(* ===== verification/Spec2Isabelle.thy ===== *)
theory Spec2Isabelle
  imports Json_Text Iam_Policy Key_Props Cluster_Props Tiered_Props S3_Listing S3_Roundtrip Cli_Props Copy_Props Rate_Limiter Init_Wizard Start_Props Admin_Props
begin

text \<open>
  Sangraha, an object store with the S3 protocol, written in Go (module github.com/madhavkobal/sangraha).
  This development models the server's own logic and proves what makes its components correct. The
  sources are named by their paths under src/; a definition has the name of the function it models, with
  a prefix where two packages use one name.

  \<^bold>\<open>The program.\<close> A request of an S3 client passes the middleware of internal/api/middleware (request ID,
  audit, CORS, authentication, rate limit) and is dispatched by internal/api/s3 to a handler. Handlers
  call the storage engine (internal/storage), which keeps the bytes of objects in a backend
  (internal/backend: local files, or tiers of them) and everything else in the metadata store
  (internal/metadata, implemented over bbolt). Requests are signed with Signature Version 4
  (internal/auth), whose secrets are access keys in the metadata store. A worker of the tiered backend moves
  objects between tiers; workers of the engine deliver webhooks and replicate objects. The engine has a pass that
  expires objects, which nothing in the repository starts. A second listener serves the admin API
  (internal/api/admin): users, buckets, quotas, the configuration, background jobs, alerts and the audit log.
  The command line (cli) starts the server, sets up its configuration, and is a client of both APIs. Several
  servers may form a cluster that elects a leader (internal/cluster).

  \<^bold>\<open>Ground.\<close> \<open>Sang_Prelude\<close> has Go's byte strings, the functions of package \<open>strings\<close> and \<open>strconv\<close> the sources
  call, 64-bit integers and maps; \<open>Go_Errors\<close> the error values with their wrapping; \<open>Go_Time\<close> the calendar and
  the two layouts of time stamps; \<open>Http_Request\<close> requests, queries and percent encoding; \<open>Path_Clean\<close> the
  lexical functions of path/filepath.

  \<^bold>\<open>Metadata.\<close> \<open>Metadata_Types\<close> are the records of internal/metadata/store.go; \<open>Meta_Interface\<close> its interface
  \<open>Store\<close>, a record of operations, with the contract \<open>metadata_store\<close> (a locale over a view of the store: its
  buckets, objects, versions, uploads, parts and keys). \<open>Bolt_Store\<close> is internal/metadata/bbolt/bbolt.go over any
  key-value database with the documented laws of bbolt (\<open>bolt_db\<close>); \<open>Bolt_Refine\<close> proves that it satisfies the
  contract, by an abstraction function from the database to the view.

  \<^bold>\<open>Backends.\<close> \<open>Backend_Interface\<close> is internal/backend/interface.go with the contract \<open>object_backend\<close>. \<open>Local_FS\<close> is
  internal/backend/localfs/localfs.go over a model of the system calls it makes; \<open>Local_FS_Correct\<close> proves the
  contract and the confinement of paths, \<open>Local_FS_Progress\<close> that a write succeeds. \<open>Tiered\<close> is
  internal/backend/tiered/tiered.go over any backend; \<open>Tiered_Correct\<close> and \<open>Tiered_Props\<close> prove that it satisfies
  the contract again and that the demotion worker is invisible, and where it is not.

  \<^bold>\<open>Engine.\<close> \<open>Engine_Types\<close> (engine.go), \<open>Bucket_Ops\<close> (bucket.go, policy.go, quota.go, website.go, notification.go
  and the configuration of the others), \<open>Object_Ops\<close> (object.go, version.go), \<open>Multipart_Ops\<close>, \<open>Lifecycle_Ops\<close>,
  \<open>Sse_Crypto\<close> (encrypt.go) and \<open>Events\<close> (webhook.go, replication.go) model internal/storage. An operation takes
  the store, the backend, the platform and what the call draws from outside (time, UUID, random bytes), and
  returns a result and the new state. \<open>Engine_Correct\<close> joins the two contracts in the locale \<open>storage_engine\<close>;
  \<open>Engine_Objects\<close>, \<open>Engine_Delete\<close>, \<open>Engine_Buckets\<close> and \<open>Engine_Multipart\<close> extend it. \<open>Engine_Demo\<close> interprets
  it on the bbolt store and the local backend, and runs it; \<open>Engine_Props\<close> and \<open>Engine_Props2\<close> state the
  properties.

  \<^bold>\<open>Authentication and authorisation.\<close> \<open>Sigv4\<close> is internal/auth/sigv4.go and presign.go; \<open>Sigv4_Correct\<close>,
  \<open>Sigv4_Replication\<close> and \<open>Sigv4_Props\<close> prove round trips and what a signature binds. \<open>Key_Store\<close> is
  internal/auth/tokens.go, the middleware \<open>Auth\<close> and the user handlers of internal/api/admin/users.go;
  \<open>Key_Props\<close> has its invariant over all sequences of key operations. \<open>Iam_Policy\<close> is internal/auth/iam.go and
  acl.go.

  \<^bold>\<open>S3 API.\<close> \<open>S3_Types\<close> has exchanges and answers, \<open>S3_Handlers\<close>, \<open>S3_Objects\<close> and \<open>S3_Bucket_Api\<close> the handlers of
  internal/api/s3, \<open>S3_Server\<close> the router and the middleware around it. \<open>S3_Props\<close>, \<open>S3_Listing\<close> and
  \<open>S3_Roundtrip\<close> state what an HTTP client sees; their theorems go through middleware, routes, handlers, engine,
  bbolt store and file system.

  \<^bold>\<open>Cluster.\<close> \<open>Cluster_Node\<close> is internal/cluster, one function per handler and one per critical section of it.
  \<open>Cluster_Election\<close> is the step relation of a cluster with its invariant by rule induction, once with atomic
  votes and once with the two critical sections of \<open>HandleVote\<close> apart; \<open>Cluster_Props\<close> states the properties.

  \<^bold>\<open>Copies and encryption at the engine.\<close> \<open>Copy_Props\<close> proves what \<open>CopyObject\<close> stores and what a put with an
  encryption header stores as long as no master key is set.

  \<^bold>\<open>Rate limiter.\<close> \<open>Rate_Limiter\<close> is internal/api/middleware/ratelimit.go: token buckets, the map of buckets and the
  two limiters. It proves the bound on what is admitted in a window, and that a patient client is admitted.

  \<^bold>\<open>External authentication.\<close> \<open>Oidc\<close> is internal/auth/oidc.go and oidc_crypto.go over \<open>Go_Json\<close>, the decoded JSON
  values; \<open>Oidc_Props\<close> proves what an accepted id token means, and how long the cache of keys may differ from the
  provider. \<open>Ldap\<close> is internal/auth/ldap.go: which binds an accepted password stands for, and that a name can
  not change the structure of the search filter.

  \<^bold>\<open>Admin API.\<close> \<open>Admin_Jobs\<close> has garbage collection, export, import and the backup schedule (server.go and export.go);
  a job is a record behind a mutex with the rounds of its goroutines, and the locale \<open>single_job\<close>, interpreted on
  both jobs, proves that at most one runs and that it ends. \<open>Admin_Alerts\<close> is alerts.go and logs.go, \<open>Admin_Config\<close> is
  config.go, \<open>Admin_Buckets\<close> is buckets_admin.go, \<open>Admin_Access\<close> is auth_ext.go, presign.go, health.go and the handlers of
  server.go for TLS and connections. \<open>Admin_Server\<close> is router.go: the state all handlers share and the
  dispatch of one request. \<open>Admin_Props\<close> proves what a request without authentication can change and an invariant over
  all runs of requests and rounds of jobs.

  \<^bold>\<open>Audit log.\<close> \<open>Audit_Log\<close> is internal/audit/audit.go, the writer, and audit_handler.go, the query over the file it
  writes, with the round trip between them.

  \<^bold>\<open>Configuration and start.\<close> \<open>Server_Start\<close> is internal/config, internal/api/middleware/tls.go, cli/server.go and
  cli/config.go: defaults, validation, and the start of the server as the sequence of resources it opens and closes.
  \<open>Start_Props\<close> composes it with the metadata store and the authentication middleware, and has the defaults of the flags
  (cli/root.go). \<open>Init_Wizard\<close> is cli/init.go over the lines the operator types.

  \<^bold>\<open>Command line.\<close> \<open>Cli_Client\<close> is cli/s3client.go and cli/adminclient.go over \<open>Go_Url\<close>, the functions of net/url it
  uses; \<open>Cli_Commands\<close> are the commands of cli/bucket.go, object.go, user.go and admin.go. \<open>Cli_Props\<close> composes them
  with the middleware of the server they talk to.

  \<^bold>\<open>Groups of lemmas.\<close> Contracts and refinement (\<open>Bolt_Refine\<close>, \<open>Local_FS_Correct\<close>, \<open>Tiered_Correct\<close>); the effect of
  each engine operation on the view, on success and on error (\<open>Engine_*\<close>); invariants over histories
  (\<open>Key_Props\<close>, \<open>Cluster_Election\<close>, \<open>Admin_Jobs\<close>, \<open>Admin_Props\<close>); round trips (\<open>Engine_Props\<close>, \<open>Sigv4_Props\<close>,
  \<open>S3_Roundtrip\<close>, \<open>Audit_Log\<close>); equivalence with declarative definitions (\<open>Iam_Policy\<close>); termination of the jobs
  (\<open>Admin_Jobs\<close>); compositions of the two APIs (\<open>Admin_Buckets\<close>: a quota set by the one binds puts of the other;
  \<open>Admin_Access\<close>: a URL signed by the one is accepted by the other; \<open>Start_Props\<close>); and the behaviours the properties name as defects, each proved as a
  theorem about the code as it is. The witnesses apply every theorem with hypotheses to a concrete run.

  \<^bold>\<open>Parameters.\<close> What is not under src/ is an argument: bbolt and its transactions (\<open>bolt_db\<close>), SHA-256, HMAC,
  MD5, AES-GCM and \<open>json.Valid\<close> (the record \<open>platform\<close>), bcrypt (\<open>kdf\<close>), the JSON decoders of policies, chi's
  matching of routes, the HTTP client, RSA and ECDSA, golang.org/x/oauth2, the LDAP client (\<open>ldap_ops\<close>), viper, the
  making and parsing of certificates (crypto/x509), the clock and the random source. Hypotheses state documented behaviour
  only: AES-GCM decrypts what it encrypted, bcrypt accepts the password it hashed, hash and MAC outputs are not
  empty; where a theorem needs that a hash does not collide, it says so for the two inputs at hand
  (\<open>no_collision\<close>), never for all.

  \<^bold>\<open>Bounds.\<close> \<open>int64\<close> is a 64-bit word and wraps; Go's \<open>int\<close> is a 64-bit word too where it can leave the range, and
  an \<open>int\<close> elsewhere. Time is an integer number of nanoseconds since the epoch; the calendar theorems hold for
  years 0 to 9999. The loops of the sources are structural recursions on the data they walk, or have a measure;
  the listing loop runs over the snapshot of keys in the cursor. No definition uses fuel: the only loops without an
  end are the tickers of the workers, each of whose rounds is an operation.

  \<^bold>\<open>Not modelled.\<close> Goroutines appear as their steps: a worker's round is an operation of its own, and the schedules
  the theorems quantify over are sequences of operations, except where the sources release a lock in the middle
  (\<open>HandleVote\<close>, \<open>moveObject\<close>, \<open>rateLimiter\<close>, the background jobs). Left out are: encoding/xml and encoding/json (a
  request carries the document it decodes to, or \<open>None\<close>), logging, the counters of internal/api/admin/metrics.go
  (registered with a library and incremented nowhere), the generation and the parsing of certificates (the choice between
  them is modelled), the embedded web pages (internal/web), the tree of subcommands (cobra) with cmd/sangraha/main.go,
  the wait for a signal and the listeners of the process (what the start hands to them is modelled), the keepalive
  and the flushing of the log stream, and tests.
\<close>

end
